(* ===== verification/Prelude.thy ===== *)
theory Prelude
  imports Complex_Main
begin

text \<open>
  Shared vocabulary of the development: identifiers, instants, the parts of Python's
  standard library that the sources use everywhere (truth value of an optional string,
  \<open>or\<close>, \<open>str.strip\<close>, \<open>str.lower\<close>, \<open>next(generator, None)\<close>, an enum constructor), the
  \<open>named_theorems\<close> collections, and the generic lemmas about them.

  Conventions.
  \<^item> A UUID is a natural number (\<open>uid\<close>); \<open>uuid4()\<close> is a counter of the state that draws it.
  \<^item> An aware \<open>datetime\<close> is the instant it denotes, in microseconds since the epoch
    (\<open>instant\<close>); a \<open>timedelta\<close> is an \<open>int\<close> of microseconds. Python's resolution is one
    microsecond, so nothing is lost.
  \<^item> A \<open>str\<close> is a \<open>string\<close>, read as UTF-8 bytes; \<open>strip\<close> and \<open>lower\<close> act on the ASCII
    characters, which are the only ones the sources' tables and patterns distinguish.
  \<^item> A \<open>float\<close> is a \<open>real\<close>: rounding of binary floating point is not modelled.
\<close>

type_synonym uid = nat
type_synonym instant = int

named_theorems py_defs "definitions of the Python primitives"
named_theorems enum_simps "values and members of the enumerations"
named_theorems store_simps "effect of the table operations"
named_theorems frame_simps "fields an operation does not change"

subsection \<open>Durations\<close>

definition ms :: "int \<Rightarrow> int" where
  "ms n = n * 1000"

definition seconds :: "int \<Rightarrow> int" where
  "seconds n = n * 1000000"

definition minutes :: "int \<Rightarrow> int" where
  "minutes n = n * 60000000"

definition hours :: "int \<Rightarrow> int" where
  "hours n = n * 3600000000"

definition days :: "int \<Rightarrow> int" where
  "days n = n * 86400000000"

text \<open>\<open>timedelta(hours=h)\<close> for a float \<open>h\<close> rounds to the nearest microsecond.\<close>

definition timedelta_hours :: "real \<Rightarrow> int" where
  "timedelta_hours h = round (h * 3600000000)"

lemmas duration_defs [py_defs] = ms_def seconds_def minutes_def hours_def days_def

lemma timedelta_hours_of_int [simp]: "timedelta_hours (of_int n) = hours n"
proof -
  have "of_int n * 3600000000 = (of_int (n * 3600000000) :: real)" by simp
  then show ?thesis unfolding timedelta_hours_def hours_def by (simp only: round_of_int)
qed

lemma timedelta_hours_numeral [simp]: "timedelta_hours (numeral n) = hours (numeral n)"
  using timedelta_hours_of_int [of "numeral n"] by simp

lemma timedelta_hours_mono: "a \<le> b \<Longrightarrow> timedelta_hours a \<le> timedelta_hours b"
  unfolding timedelta_hours_def by (intro round_mono mult_right_mono) auto

subsection \<open>Truth values and \<open>or\<close>\<close>

text \<open>An optional string is true when it is present and not empty.\<close>

definition truthy :: "string option \<Rightarrow> bool" where
  "truthy x = (case x of None \<Rightarrow> False | Some s \<Rightarrow> s \<noteq> [])"

definition py_or :: "string option \<Rightarrow> string option \<Rightarrow> string option" where
  "py_or x y = (if truthy x then x else y)"

definition or_else :: "string option \<Rightarrow> string \<Rightarrow> string" where
  "or_else x d = (case x of None \<Rightarrow> d | Some s \<Rightarrow> if s \<noteq> [] then s else d)"

lemma truthy_simps [simp]:
  "\<not> truthy None" "truthy (Some s) = (s \<noteq> [])"
  by (simp_all add: truthy_def)

lemma truthyE: "truthy x \<Longrightarrow> (\<And>s. x = Some s \<Longrightarrow> s \<noteq> [] \<Longrightarrow> P) \<Longrightarrow> P"
  by (cases x) auto

lemma py_or_simps [simp]:
  "py_or None y = y" "py_or (Some []) y = y" "s \<noteq> [] \<Longrightarrow> py_or (Some s) y = Some s"
  by (simp_all add: py_or_def)

lemma truthy_py_or [simp]: "truthy (py_or x y) = (truthy x \<or> truthy y)"
  by (simp add: py_or_def)

lemma py_or_idem [simp]: "py_or x (py_or x y) = py_or x y"
  by (simp add: py_or_def)

subsection \<open>The first element that satisfies a test\<close>

text \<open>\<open>next((x for x in xs if p(x)), None)\<close> is the library's \<open>List.find\<close>.\<close>

abbreviation next_such :: "('a \<Rightarrow> bool) \<Rightarrow> 'a list \<Rightarrow> 'a option" where
  "next_such \<equiv> List.find"

lemma next_such_in: "next_such p xs = Some x \<Longrightarrow> x \<in> set xs \<and> p x"
  by (induction xs) (auto split: if_splits)

lemma next_such_exists: "x \<in> set xs \<Longrightarrow> p x \<Longrightarrow> \<exists>y. next_such p xs = Some y"
  by (induction xs) auto

lemma next_such_None: "next_such p xs = None \<longleftrightarrow> (\<forall>x\<in>set xs. \<not> p x)"
  by (induction xs) auto

lemma next_such_unique:
  assumes "x \<in> set xs" and "p x" and uniq: "\<And>y. y \<in> set xs \<Longrightarrow> p y \<Longrightarrow> y = x"
  shows "next_such p xs = Some x"
proof -
  obtain y where y: "next_such p xs = Some y"
    using next_such_exists [of x xs p, OF assms(1,2)] by blast
  then have "y = x" by (intro uniq) (auto dest: next_such_in)
  with y show ?thesis by simp
qed

subsection \<open>Enumerations with string values\<close>

text \<open>\<open>SomeEnum(value)\<close> returns the member with that value and raises \<open>ValueError\<close> else.\<close>

definition enum_of_value :: "('a \<Rightarrow> string) \<Rightarrow> 'a list \<Rightarrow> string \<Rightarrow> 'a option" where
  "enum_of_value val members s = next_such (\<lambda>m. val m = s) members"

lemma enum_of_value_value:
  assumes "inj_on val (set members)" and "m \<in> set members"
  shows "enum_of_value val members (val m) = Some m"
  unfolding enum_of_value_def
  by (rule next_such_unique) (use assms in \<open>auto dest: inj_onD\<close>)

lemma enum_of_value_Some: "enum_of_value val members s = Some m \<Longrightarrow> val m = s"
  unfolding enum_of_value_def by (drule next_such_in) simp

subsection \<open>Strings\<close>

definition is_space :: "char \<Rightarrow> bool" where
  "is_space c = (let n = (of_char c :: nat) in n = 32 \<or> (9 \<le> n \<and> n \<le> 13) \<or> (28 \<le> n \<and> n \<le> 31))"

definition lstrip :: "(char \<Rightarrow> bool) \<Rightarrow> string \<Rightarrow> string" where
  "lstrip p s = dropWhile p s"

definition rstrip :: "(char \<Rightarrow> bool) \<Rightarrow> string \<Rightarrow> string" where
  "rstrip p s = rev (dropWhile p (rev s))"

definition strip :: "string \<Rightarrow> string" where
  "strip s = rstrip is_space (lstrip is_space s)"

definition lower_char :: "char \<Rightarrow> char" where
  "lower_char c = (let n = (of_char c :: nat) in if 65 \<le> n \<and> n \<le> 90 then char_of (n + 32) else c)"

definition upper_char :: "char \<Rightarrow> char" where
  "upper_char c = (let n = (of_char c :: nat) in if 97 \<le> n \<and> n \<le> 122 then char_of (n - 32) else c)"

definition lower :: "string \<Rightarrow> string" where
  "lower s = List.map lower_char s"

definition upper :: "string \<Rightarrow> string" where
  "upper s = List.map upper_char s"

definition is_digit :: "char \<Rightarrow> bool" where
  "is_digit c = (let n = (of_char c :: nat) in 48 \<le> n \<and> n \<le> 57)"

definition is_alpha :: "char \<Rightarrow> bool" where
  "is_alpha c = (let n = (of_char c :: nat) in (65 \<le> n \<and> n \<le> 90) \<or> (97 \<le> n \<and> n \<le> 122))"

text \<open>A word character of a regular expression, \<open>\w\<close>.\<close>

definition is_word :: "char \<Rightarrow> bool" where
  "is_word c = (is_digit c \<or> is_alpha c \<or> (of_char c :: nat) = 95 \<or> (of_char c :: nat) \<ge> 128)"

lemmas string_defs [py_defs] =
  is_space_def lstrip_def rstrip_def strip_def lower_char_def upper_char_def lower_def upper_def

lemma dropWhile_idem: "dropWhile p (dropWhile p s) = dropWhile p s"
  by (induction s) auto

lemma rstrip_idem [simp]: "rstrip p (rstrip p s) = rstrip p s"
  by (simp add: rstrip_def dropWhile_idem)

lemma rstrip_last: "rstrip p s \<noteq> [] \<Longrightarrow> \<not> p (last (rstrip p s))"
  by (simp add: rstrip_def last_rev hd_dropWhile)

lemma lower_char_idem [simp]: "lower_char (lower_char c) = lower_char c"
proof (cases "65 \<le> (of_char c :: nat) \<and> (of_char c :: nat) \<le> 90")
  case True
  then have "(of_char (lower_char c) :: nat) = of_char c + 32"
    by (simp add: lower_char_def)
  with True show ?thesis by (simp add: lower_char_def [of "lower_char c"])
next
  case False
  then have "lower_char c = c" unfolding lower_char_def Let_def by (simp only: if_False)
  then show ?thesis by simp
qed

lemma lower_idem [simp]: "lower (lower s) = lower s"
  by (simp add: lower_def)

lemma length_lower [simp]: "length (lower s) = length s"
  by (simp add: lower_def)

subsection \<open>Lists\<close>

lemma takeWhile_prefix: "\<exists>zs. xs = takeWhile p xs @ zs"
  by (metis takeWhile_dropWhile_id)

text \<open>\<open>sum(d.values())\<close> over a dict kept as an association list.\<close>

definition sum_values :: "('k \<times> nat) list \<Rightarrow> nat" where
  "sum_values d = sum_list (List.map snd d)"

definition any_values :: "('k \<times> nat) list \<Rightarrow> bool" where
  "any_values d = (\<exists>p\<in>set d. snd p \<noteq> 0)"

lemma any_values_iff: "any_values d \<longleftrightarrow> sum_values d \<noteq> 0"
  by (auto simp: any_values_def sum_values_def sum_list_eq_0_iff)

text \<open>In-place update of the rows of a table that a test selects.\<close>

definition update_where :: "('a \<Rightarrow> bool) \<Rightarrow> ('a \<Rightarrow> 'a) \<Rightarrow> 'a list \<Rightarrow> 'a list" where
  "update_where p f rows = List.map (\<lambda>r. if p r then f r else r) rows"

lemma length_update_where [simp]: "length (update_where p f rows) = length rows"
  by (simp add: update_where_def)

lemma set_update_where: "set (update_where p f rows) = (\<lambda>r. if p r then f r else r) ` set rows"
  by (simp add: update_where_def)

lemma map_update_where [simp]:
  "(\<And>r. g (f r) = g r) \<Longrightarrow> List.map g (update_where p f rows) = List.map g rows"
  by (simp add: update_where_def)

lemma update_where_none: "(\<And>r. r \<in> set rows \<Longrightarrow> \<not> p r) \<Longrightarrow> update_where p f rows = rows"
  by (induction rows) (auto simp: update_where_def)

end
