(* ===== verification/Enums.thy ===== *)
theory Enums
  imports Prelude
begin

text \<open>
  The vocabulary of the system, \<^verbatim>\<open>mawjood/core/enums.py\<close>: one datatype per \<open>StrEnum\<close>, with
  the source's member names, its string values (\<open>str(member)\<close>) and, where the code parses a
  stored string back (\<open>HandoffReason(reason)\<close>, \<open>Category(category)\<close>), the inverse, which is
  \<open>None\<close> where Python raises \<open>ValueError\<close>. Member names that several enumerations share are
  written with the datatype's name (\<open>booking_status.CANCELLED\<close>).
\<close>

datatype channel =
    WHATSAPP | CONSOLE

definition channel_value :: "channel \<Rightarrow> string" where
  "channel_value x = (case x of
     channel.WHATSAPP \<Rightarrow> ''whatsapp''
   | channel.CONSOLE \<Rightarrow> ''console'')"

datatype direction =
    INBOUND | OUTBOUND

definition direction_value :: "direction \<Rightarrow> string" where
  "direction_value x = (case x of
     direction.INBOUND \<Rightarrow> ''inbound''
   | direction.OUTBOUND \<Rightarrow> ''outbound'')"

datatype message_status =
    RECEIVED | QUEUED | SENT | DELIVERED | READ | FAILED

definition message_status_value :: "message_status \<Rightarrow> string" where
  "message_status_value x = (case x of
     message_status.RECEIVED \<Rightarrow> ''received''
   | message_status.QUEUED \<Rightarrow> ''queued''
   | message_status.SENT \<Rightarrow> ''sent''
   | message_status.DELIVERED \<Rightarrow> ''delivered''
   | message_status.READ \<Rightarrow> ''read''
   | message_status.FAILED \<Rightarrow> ''failed'')"

datatype conversation_status =
    ACTIVE | AWAITING_HANDOFF | HANDED_OFF | CLOSED

definition conversation_status_value :: "conversation_status \<Rightarrow> string" where
  "conversation_status_value x = (case x of
     conversation_status.ACTIVE \<Rightarrow> ''active''
   | conversation_status.AWAITING_HANDOFF \<Rightarrow> ''awaiting_handoff''
   | conversation_status.HANDED_OFF \<Rightarrow> ''handed_off''
   | conversation_status.CLOSED \<Rightarrow> ''closed'')"

datatype consent_event =
    NOTICE_SHOWN | GRANTED | WITHDRAWN

definition consent_event_value :: "consent_event \<Rightarrow> string" where
  "consent_event_value x = (case x of
     consent_event.NOTICE_SHOWN \<Rightarrow> ''notice_shown''
   | consent_event.GRANTED \<Rightarrow> ''granted''
   | consent_event.WITHDRAWN \<Rightarrow> ''withdrawn'')"

datatype category =
    SALON | SPA | RESTAURANT | FOOD_DELIVERY | RIDE | OTHER

definition category_value :: "category \<Rightarrow> string" where
  "category_value x = (case x of
     category.SALON \<Rightarrow> ''salon''
   | category.SPA \<Rightarrow> ''spa''
   | category.RESTAURANT \<Rightarrow> ''restaurant''
   | category.FOOD_DELIVERY \<Rightarrow> ''food_delivery''
   | category.RIDE \<Rightarrow> ''ride''
   | category.OTHER \<Rightarrow> ''other'')"

datatype outcome =
    OK | NO_AVAILABILITY | LOW_CONFIDENCE | TIMEOUT | AUTH_ERROR | RATE_LIMITED |
    UPSTREAM_ERROR | UNSUPPORTED

definition outcome_value :: "outcome \<Rightarrow> string" where
  "outcome_value x = (case x of
     outcome.OK \<Rightarrow> ''ok''
   | outcome.NO_AVAILABILITY \<Rightarrow> ''no_availability''
   | outcome.LOW_CONFIDENCE \<Rightarrow> ''low_confidence''
   | outcome.TIMEOUT \<Rightarrow> ''timeout''
   | outcome.AUTH_ERROR \<Rightarrow> ''auth_error''
   | outcome.RATE_LIMITED \<Rightarrow> ''rate_limited''
   | outcome.UPSTREAM_ERROR \<Rightarrow> ''upstream_error''
   | outcome.UNSUPPORTED \<Rightarrow> ''unsupported'')"

datatype booking_status =
    PENDING | CONFIRMED | UNCERTAIN | CANCELLED | FAILED

definition booking_status_value :: "booking_status \<Rightarrow> string" where
  "booking_status_value x = (case x of
     booking_status.PENDING \<Rightarrow> ''pending''
   | booking_status.CONFIRMED \<Rightarrow> ''confirmed''
   | booking_status.UNCERTAIN \<Rightarrow> ''uncertain''
   | booking_status.CANCELLED \<Rightarrow> ''cancelled''
   | booking_status.FAILED \<Rightarrow> ''failed'')"

datatype payment_status =
    NOT_APPLICABLE | PAY_AT_VENUE | PENDING | PAID | REFUNDED

definition payment_status_value :: "payment_status \<Rightarrow> string" where
  "payment_status_value x = (case x of
     payment_status.NOT_APPLICABLE \<Rightarrow> ''not_applicable''
   | payment_status.PAY_AT_VENUE \<Rightarrow> ''pay_at_venue''
   | payment_status.PENDING \<Rightarrow> ''pending''
   | payment_status.PAID \<Rightarrow> ''paid''
   | payment_status.REFUNDED \<Rightarrow> ''refunded'')"

datatype handoff_reason =
    CASCADE_EXHAUSTED | UNSUPPORTED_ACTION | RECONCILIATION_INCONCLUSIVE |
    CONSUMER_REQUEST | CONSENT_WITHDRAWN | SYSTEM_ERROR

definition handoff_reason_value :: "handoff_reason \<Rightarrow> string" where
  "handoff_reason_value x = (case x of
     handoff_reason.CASCADE_EXHAUSTED \<Rightarrow> ''cascade_exhausted''
   | handoff_reason.UNSUPPORTED_ACTION \<Rightarrow> ''unsupported_action''
   | handoff_reason.RECONCILIATION_INCONCLUSIVE \<Rightarrow> ''reconciliation_inconclusive''
   | handoff_reason.CONSUMER_REQUEST \<Rightarrow> ''consumer_request''
   | handoff_reason.CONSENT_WITHDRAWN \<Rightarrow> ''consent_withdrawn''
   | handoff_reason.SYSTEM_ERROR \<Rightarrow> ''system_error'')"

datatype handoff_status =
    OPEN | CLAIMED | RESOLVED | ABANDONED

definition handoff_status_value :: "handoff_status \<Rightarrow> string" where
  "handoff_status_value x = (case x of
     handoff_status.OPEN \<Rightarrow> ''open''
   | handoff_status.CLAIMED \<Rightarrow> ''claimed''
   | handoff_status.RESOLVED \<Rightarrow> ''resolved''
   | handoff_status.ABANDONED \<Rightarrow> ''abandoned'')"

datatype notification_kind =
    REMINDER_24H | REMINDER_2H | FOLLOW_UP | SATISFACTION

definition notification_kind_value :: "notification_kind \<Rightarrow> string" where
  "notification_kind_value x = (case x of
     notification_kind.REMINDER_24H \<Rightarrow> ''reminder_24h''
   | notification_kind.REMINDER_2H \<Rightarrow> ''reminder_2h''
   | notification_kind.FOLLOW_UP \<Rightarrow> ''follow_up''
   | notification_kind.SATISFACTION \<Rightarrow> ''satisfaction'')"

datatype notification_status =
    PENDING | SENT | DEFERRED | SKIPPED | FAILED

definition notification_status_value :: "notification_status \<Rightarrow> string" where
  "notification_status_value x = (case x of
     notification_status.PENDING \<Rightarrow> ''pending''
   | notification_status.SENT \<Rightarrow> ''sent''
   | notification_status.DEFERRED \<Rightarrow> ''deferred''
   | notification_status.SKIPPED \<Rightarrow> ''skipped''
   | notification_status.FAILED \<Rightarrow> ''failed'')"

datatype attribution_medium =
    WA_LINK | QR | DIRECT | UNKNOWN

definition attribution_medium_value :: "attribution_medium \<Rightarrow> string" where
  "attribution_medium_value x = (case x of
     attribution_medium.WA_LINK \<Rightarrow> ''wa_link''
   | attribution_medium.QR \<Rightarrow> ''qr''
   | attribution_medium.DIRECT \<Rightarrow> ''direct''
   | attribution_medium.UNKNOWN \<Rightarrow> ''unknown'')"

datatype actor =
    SYSTEM | CONSUMER | OPERATOR | AGGREGATOR

definition actor_value :: "actor \<Rightarrow> string" where
  "actor_value x = (case x of
     actor.SYSTEM \<Rightarrow> ''system''
   | actor.CONSUMER \<Rightarrow> ''consumer''
   | actor.OPERATOR \<Rightarrow> ''operator''
   | actor.AGGREGATOR \<Rightarrow> ''aggregator'')"

datatype audit_event_type =
    MESSAGE_RECEIVED | MESSAGE_DUPLICATE_IGNORED | MESSAGE_SENT | LEAD_CREATED |
    CONVERSATION_STARTED | CONVERSATION_RESUMED | CONSENT_NOTICE_SHOWN | CONSENT_GRANTED
    | CONSENT_WITHDRAWN | ATTRIBUTION_CAPTURED | ROUTING_STARTED | ROUTING_ATTEMPT |
    ROUTING_ADVANCED | ROUTING_SUCCEEDED | ROUTING_EXHAUSTED | ROUTING_DEADLINE_EXCEEDED
    | BOOKING_RECONCILIATION_STARTED | BOOKING_RECONCILIATION_RESULT | HANDOFF_ENQUEUED
    | HANDOFF_CLAIMED | HANDOFF_RESOLVED | DATA_ERASURE_REQUESTED |
    DATA_ERASURE_COMPLETED

definition audit_event_type_value :: "audit_event_type \<Rightarrow> string" where
  "audit_event_type_value x = (case x of
     audit_event_type.MESSAGE_RECEIVED \<Rightarrow> ''message.received''
   | audit_event_type.MESSAGE_DUPLICATE_IGNORED \<Rightarrow> ''message.duplicate_ignored''
   | audit_event_type.MESSAGE_SENT \<Rightarrow> ''message.sent''
   | audit_event_type.LEAD_CREATED \<Rightarrow> ''lead.created''
   | audit_event_type.CONVERSATION_STARTED \<Rightarrow> ''conversation.started''
   | audit_event_type.CONVERSATION_RESUMED \<Rightarrow> ''conversation.resumed''
   | audit_event_type.CONSENT_NOTICE_SHOWN \<Rightarrow> ''consent.notice_shown''
   | audit_event_type.CONSENT_GRANTED \<Rightarrow> ''consent.granted''
   | audit_event_type.CONSENT_WITHDRAWN \<Rightarrow> ''consent.withdrawn''
   | audit_event_type.ATTRIBUTION_CAPTURED \<Rightarrow> ''attribution.captured''
   | audit_event_type.ROUTING_STARTED \<Rightarrow> ''routing.started''
   | audit_event_type.ROUTING_ATTEMPT \<Rightarrow> ''routing.attempt''
   | audit_event_type.ROUTING_ADVANCED \<Rightarrow> ''routing.advanced''
   | audit_event_type.ROUTING_SUCCEEDED \<Rightarrow> ''routing.succeeded''
   | audit_event_type.ROUTING_EXHAUSTED \<Rightarrow> ''routing.exhausted''
   | audit_event_type.ROUTING_DEADLINE_EXCEEDED \<Rightarrow> ''routing.deadline_exceeded''
   | audit_event_type.BOOKING_RECONCILIATION_STARTED \<Rightarrow> ''booking.reconciliation_started''
   | audit_event_type.BOOKING_RECONCILIATION_RESULT \<Rightarrow> ''booking.reconciliation_result''
   | audit_event_type.HANDOFF_ENQUEUED \<Rightarrow> ''handoff.enqueued''
   | audit_event_type.HANDOFF_CLAIMED \<Rightarrow> ''handoff.claimed''
   | audit_event_type.HANDOFF_RESOLVED \<Rightarrow> ''handoff.resolved''
   | audit_event_type.DATA_ERASURE_REQUESTED \<Rightarrow> ''compliance.erasure_requested''
   | audit_event_type.DATA_ERASURE_COMPLETED \<Rightarrow> ''compliance.erasure_completed'')"

definition all_category :: "category list" where
  "all_category =
     [category.SALON, category.SPA, category.RESTAURANT, category.FOOD_DELIVERY,
      category.RIDE, category.OTHER]"

definition all_handoff_reason :: "handoff_reason list" where
  "all_handoff_reason =
     [handoff_reason.CASCADE_EXHAUSTED, handoff_reason.UNSUPPORTED_ACTION,
      handoff_reason.RECONCILIATION_INCONCLUSIVE, handoff_reason.CONSUMER_REQUEST,
      handoff_reason.CONSENT_WITHDRAWN, handoff_reason.SYSTEM_ERROR]"

definition all_notification_kind :: "notification_kind list" where
  "all_notification_kind =
     [notification_kind.REMINDER_24H, notification_kind.REMINDER_2H,
      notification_kind.FOLLOW_UP, notification_kind.SATISFACTION]"

definition all_outcome :: "outcome list" where
  "all_outcome =
     [outcome.OK, outcome.NO_AVAILABILITY, outcome.LOW_CONFIDENCE, outcome.TIMEOUT,
      outcome.AUTH_ERROR, outcome.RATE_LIMITED, outcome.UPSTREAM_ERROR,
      outcome.UNSUPPORTED]"

definition all_message_status :: "message_status list" where
  "all_message_status =
     [message_status.RECEIVED, message_status.QUEUED, message_status.SENT,
      message_status.DELIVERED, message_status.READ, message_status.FAILED]"

definition category_of_value :: "string \<Rightarrow> category option" where
  "category_of_value s = enum_of_value category_value all_category s"

definition handoff_reason_of_value :: "string \<Rightarrow> handoff_reason option" where
  "handoff_reason_of_value s = enum_of_value handoff_reason_value all_handoff_reason s"

definition is_reminder :: "notification_kind \<Rightarrow> bool" where
  "is_reminder k = (k \<in> {REMINDER_24H, REMINDER_2H})"

definition notification_is_terminal :: "notification_status \<Rightarrow> bool" where
  "notification_is_terminal s = (s \<in> {notification_status.SENT, notification_status.SKIPPED})"

lemmas value_defs [enum_simps] =
  channel_value_def
  direction_value_def
  message_status_value_def
  conversation_status_value_def
  consent_event_value_def
  category_value_def
  outcome_value_def
  booking_status_value_def
  payment_status_value_def
  handoff_reason_value_def
  handoff_status_value_def
  notification_kind_value_def
  notification_status_value_def
  attribution_medium_value_def
  actor_value_def
  audit_event_type_value_def

lemmas member_defs [enum_simps] =
  all_category_def
  all_handoff_reason_def
  all_notification_kind_def
  all_outcome_def
  all_message_status_def

lemma all_category_complete [simp]: "x \<in> set all_category"
  by (cases x) (simp_all add: all_category_def)

lemma all_handoff_reason_complete [simp]: "x \<in> set all_handoff_reason"
  by (cases x) (simp_all add: all_handoff_reason_def)

lemma all_notification_kind_complete [simp]: "x \<in> set all_notification_kind"
  by (cases x) (simp_all add: all_notification_kind_def)

lemma all_outcome_complete [simp]: "x \<in> set all_outcome"
  by (cases x) (simp_all add: all_outcome_def)

lemma all_message_status_complete [simp]: "x \<in> set all_message_status"
  by (cases x) (simp_all add: all_message_status_def)

lemma category_value_inj: "inj category_value"
  by (rule injI) (auto simp: category_value_def split: category.splits)

lemma handoff_reason_value_inj: "inj handoff_reason_value"
  by (rule injI) (auto simp: handoff_reason_value_def split: handoff_reason.splits)

lemma notification_kind_value_inj: "inj notification_kind_value"
  by (rule injI) (auto simp: notification_kind_value_def split: notification_kind.splits)

lemma outcome_value_inj: "inj outcome_value"
  by (rule injI) (auto simp: outcome_value_def split: outcome.splits)

lemma message_status_value_inj: "inj message_status_value"
  by (rule injI) (auto simp: message_status_value_def split: message_status.splits)

lemma category_of_value_value [simp]: "category_of_value (category_value x) = Some x"
  unfolding category_of_value_def
  by (rule enum_of_value_value) (auto intro: inj_on_subset [OF category_value_inj])

lemma category_of_value_Some: "category_of_value s = Some x \<Longrightarrow> s = category_value x"
  unfolding category_of_value_def by (drule enum_of_value_Some) simp

lemma handoff_reason_of_value_value [simp]: "handoff_reason_of_value (handoff_reason_value x) = Some x"
  unfolding handoff_reason_of_value_def
  by (rule enum_of_value_value) (auto intro: inj_on_subset [OF handoff_reason_value_inj])

lemma handoff_reason_of_value_Some: "handoff_reason_of_value s = Some x \<Longrightarrow> s = handoff_reason_value x"
  unfolding handoff_reason_of_value_def by (drule enum_of_value_Some) simp

lemma distinct_all_notification_kind [simp]: "distinct all_notification_kind"
  by (simp add: all_notification_kind_def)

lemma set_all_notification_kind: "set all_notification_kind = UNIV"
  by auto

text \<open>
  The delivery ratchet of \<^verbatim>\<open>mawjood/api/webhooks/whatsapp.py\<close>: \<open>_RANK\<close> orders the message
  statuses, and that order is the type's linear order.
\<close>

definition rank :: "message_status \<Rightarrow> int" where
  "rank s = (case s of
     RECEIVED \<Rightarrow> 0 | QUEUED \<Rightarrow> 1 | message_status.SENT \<Rightarrow> 2 | DELIVERED \<Rightarrow> 3 | READ \<Rightarrow> 4
   | message_status.FAILED \<Rightarrow> 5)"

lemma rank_inj: "rank a = rank b \<longleftrightarrow> a = b"
  by (cases a; cases b) (simp_all add: rank_def)

instantiation message_status :: linorder
begin

definition less_eq_message_status :: "message_status \<Rightarrow> message_status \<Rightarrow> bool" where
  "less_eq_message_status a b = (rank a \<le> rank b)"

definition less_message_status :: "message_status \<Rightarrow> message_status \<Rightarrow> bool" where
  "less_message_status a b = (rank a < rank b)"

instance
  by standard (auto simp: less_eq_message_status_def less_message_status_def rank_inj)

end

lemma message_status_le_FAILED [simp]: "s \<le> message_status.FAILED"
  by (cases s) (simp_all add: less_eq_message_status_def rank_def)

end
