(* ===== verification/Adapter.thy ===== *)
theory Adapter
  imports Enums
begin

text \<open>
  The adapter contract, \<^verbatim>\<open>mawjood/core/aggregators/base.py\<close>: deadlines, the identity and
  payload records, the typed \<open>Result\<close>, and the \<open>AggregatorAdapter\<close> protocol as a record of
  operations.

  The aggregator platforms are not part of the repository. An adapter is therefore a record of
  functions over a type variable \<open>'w\<close>, the state of the outside world: each call gets the
  context, the request and the world, and yields how long it takes, how it ends (a result, or
  an exception, which the contract forbids and the cascade survives), the world once it has
  ended, and the world it leaves behind when it is cancelled after a given time.
\<close>

subsection \<open>Deadline\<close>

text \<open>The monotonic clock is read in microseconds.\<close>

record deadline =
  expires_at_monotonic :: int

definition in_ms :: "int \<Rightarrow> int \<Rightarrow> deadline" where
  "in_ms now milliseconds = \<lparr>expires_at_monotonic = now + ms milliseconds\<rparr>"

definition expired_now :: "int \<Rightarrow> deadline" where
  "expired_now now = \<lparr>expires_at_monotonic = now\<rparr>"

definition remaining_ms :: "int \<Rightarrow> deadline \<Rightarrow> int" where
  "remaining_ms now d = max 0 ((expires_at_monotonic d - now) div 1000)"

definition expired :: "int \<Rightarrow> deadline \<Rightarrow> bool" where
  "expired now d = (remaining_ms now d \<le> 0)"

definition shrink_to :: "int \<Rightarrow> deadline \<Rightarrow> int \<Rightarrow> deadline" where
  "shrink_to now d milliseconds =
     \<lparr>expires_at_monotonic = min (expires_at_monotonic d) (now + ms milliseconds)\<rparr>"

lemma remaining_ms_nonneg [simp]: "0 \<le> remaining_ms now d"
  by (simp add: remaining_ms_def)

lemma remaining_ms_in_ms: "0 \<le> n \<Longrightarrow> remaining_ms now (in_ms now n) = n"
  by (simp add: remaining_ms_def in_ms_def ms_def)

lemma remaining_ms_antimono: "t \<le> t' \<Longrightarrow> remaining_ms t' d \<le> remaining_ms t d"
  unfolding remaining_ms_def by (intro max.mono order.refl zdiv_mono1) auto

lemma remaining_ms_bound:
  "\<not> expired now d \<Longrightarrow> now + ms (remaining_ms now d) \<le> expires_at_monotonic d"
  unfolding expired_def remaining_ms_def ms_def
  by (cases "0 \<le> (expires_at_monotonic d - now) div 1000")
     (use minus_mod_eq_div_mult [of "expires_at_monotonic d - now" 1000]
        pos_mod_sign [of 1000 "expires_at_monotonic d - now"] in \<open>auto simp: algebra_simps\<close>)

lemma expired_mono: "expired t d \<Longrightarrow> t \<le> t' \<Longrightarrow> expired t' d"
  unfolding expired_def using remaining_ms_antimono [of t t' d] by linarith

lemma not_expired_iff: "\<not> expired now d \<longleftrightarrow> now + 1000 \<le> expires_at_monotonic d"
  unfolding expired_def remaining_ms_def by (auto simp: pos_imp_zdiv_pos_iff)

lemma shrink_to_le: "expires_at_monotonic (shrink_to now d n) \<le> expires_at_monotonic d"
  by (simp add: shrink_to_def)

subsection \<open>Identity and context\<close>

record merchant_ref =
  platform_slug :: string
  merchant_id :: uid
  display_name :: string
  external_ids :: "(string \<times> string) list"
  merchant_area :: "string option"

definition merchant_str :: "merchant_ref \<Rightarrow> string" where
  "merchant_str m = platform_slug m @ '':'' @ display_name m"

record call_context =
  ctx_tenant_id :: uid
  ctx_conversation_id :: uid
  ctx_merchant :: merchant_ref
  ctx_credentials :: "(string \<times> string) list"
  ctx_deadline :: deadline
  ctx_correlation_id :: string

subsection \<open>Result\<close>

record 'a result =
  outcome :: outcome
  data :: "'a option"
  raw_error :: "string option"
  latency_ms :: int
  request_id :: "string option"

definition result_of :: "outcome \<Rightarrow> 'a option \<Rightarrow> string option \<Rightarrow> int \<Rightarrow> 'a result" where
  "result_of out d err lat =
     \<lparr>outcome = out, data = d, raw_error = err, latency_ms = lat, request_id = None\<rparr>"

definition ok :: "'a result \<Rightarrow> bool" where
  "ok r = (outcome r = OK)"

lemma result_of_simps [simp]:
  "outcome (result_of out d err lat) = out" "data (result_of out d err lat) = d"
  "raw_error (result_of out d err lat) = err" "latency_ms (result_of out d err lat) = lat"
  "request_id (result_of out d err lat) = None"
  by (simp_all add: result_of_def)

subsection \<open>Domain payloads\<close>

record slot =
  slot_id :: string
  slot_start :: instant
  slot_end :: instant
  venue_name :: string
  service_name :: string
  slot_merchant :: merchant_ref
  staff_name :: "string option"
  price_amount :: "real option"
  price_currency :: "string option"
  slot_area :: "string option"
  requires_deposit :: bool

definition slot_platform :: "slot \<Rightarrow> string" where
  "slot_platform s = platform_slug (slot_merchant s)"

record availability_request =
  req_category :: category
  req_service :: string
  window_start :: instant
  window_end :: instant
  req_area :: "string option"
  party_size :: int
  staff_preference :: "string option"

text \<open>
  \<open>make_idempotency_key\<close> interpolates four values into one string, separated by colons. The
  key is kept as the four values.
\<close>

datatype idempotency_key =
  Idempotency_Key (key_conversation: uid) (key_category: category)
    (key_slot_start: instant) (key_platform: string)

definition make_idempotency_key ::
    "uid \<Rightarrow> category \<Rightarrow> instant \<Rightarrow> string \<Rightarrow> idempotency_key" where
  "make_idempotency_key conversation_id cat start platform =
     Idempotency_Key conversation_id cat start platform"

record booking_request =
  breq_slot :: slot
  breq_key :: idempotency_key
  consumer_name :: "string option"
  consumer_phone :: "string option"
  breq_notes :: "string option"

record booking_ref =
  external_id :: string
  ref_platform :: string
  ref_merchant :: merchant_ref
  confirmation_code :: "string option"

record booking_record =
  record_ref :: booking_ref
  record_status :: string
  record_slot_start :: "instant option"
  record_slot_end :: "instant option"
  record_venue_name :: "string option"
  record_service_name :: "string option"

record capabilities =
  can_search :: bool
  can_book :: bool
  can_reschedule :: bool
  can_cancel :: bool
  can_pick_staff :: bool
  honours_idempotency :: bool

subsection \<open>The interface\<close>

text \<open>
  How a call ends. \<open>asyncio\<close>'s \<open>TimeoutError\<close> is told apart from every other exception,
  because \<open>Cascade._call\<close> does.
\<close>

datatype exception = Timeout_Error | Other_Exception string

datatype 'a ending = Returned "'a result" | Raised exception

record ('a, 'w) call =
  elapsed :: nat
  ending :: "'a ending"
  world_after :: 'w
  world_cut :: "int \<Rightarrow> 'w"

text \<open>The worlds a call can leave, whether it ends or is cancelled.\<close>

definition leaves :: "('a, 'w) call \<Rightarrow> 'w \<Rightarrow> bool" where
  "leaves c w \<longleftrightarrow> w = world_after c \<or> (\<exists>t. w = world_cut c t)"

lemma leavesI [intro, simp]: "leaves c (world_after c)" "leaves c (world_cut c t)"
  by (auto simp: leaves_def)

record 'w adapter =
  slug :: string
  categories :: "category list"
  capabilities :: capabilities
  search_availability ::
    "call_context \<Rightarrow> availability_request \<Rightarrow> 'w \<Rightarrow> (slot list, 'w) call"
  create_booking :: "call_context \<Rightarrow> booking_request \<Rightarrow> 'w \<Rightarrow> (booking_ref, 'w) call"
  get_booking :: "call_context \<Rightarrow> booking_ref \<Rightarrow> 'w \<Rightarrow> (booking_record, 'w) call"
  find_by_idempotency_key ::
    "call_context \<Rightarrow> idempotency_key \<Rightarrow> 'w \<Rightarrow> (booking_record, 'w) call"
  reschedule :: "call_context \<Rightarrow> booking_ref \<Rightarrow> slot \<Rightarrow> 'w \<Rightarrow> (booking_ref, 'w) call"
  cancel :: "call_context \<Rightarrow> booking_ref \<Rightarrow> string option \<Rightarrow> 'w \<Rightarrow> (unit, 'w) call"
  health :: "call_context \<Rightarrow> 'w \<Rightarrow> (unit, 'w) call"

end
