(* ===== verification/Policy.thy ===== *)
theory Policy
  imports Adapter
begin

text \<open>
  What an outcome means to the router, \<^verbatim>\<open>mawjood/core/routing/policy.py\<close>: \<open>decide\<close> maps an
  adapter outcome to a router action, and knows whether the call was a write.
\<close>

datatype router_action = USE | ADVANCE | HOLD_AS_FALLBACK | RECONCILE | HANDOFF

record decision =
  action :: router_action
  reason :: string
  consumer_visible :: bool
  degrade_credential :: bool
  open_circuit :: bool
  retryable :: bool

text \<open>The dataclass's defaults.\<close>

definition mk_decision :: "router_action \<Rightarrow> string \<Rightarrow> decision" where
  "mk_decision a r = \<lparr>action = a, reason = r, consumer_visible = False,
     degrade_credential = False, open_circuit = False, retryable = False\<rparr>"

fun decide :: "outcome \<Rightarrow> bool \<Rightarrow> decision" where
  "decide OK is_create = mk_decision USE ''candidate returned a usable result''"
| "decide NO_AVAILABILITY is_create = mk_decision ADVANCE ''no slots in the requested window''"
| "decide LOW_CONFIDENCE is_create =
     mk_decision HOLD_AS_FALLBACK ''result returned with low confidence; kept as a fallback''"
| "decide TIMEOUT is_create =
     (if is_create then mk_decision RECONCILE
        ''create timed out; booking state unknown, reconciling before anything else''
      else (mk_decision ADVANCE ''read timed out'')\<lparr>retryable := False\<rparr>)"
| "decide AUTH_ERROR is_create =
     (mk_decision ADVANCE ''merchant credential rejected'')\<lparr>degrade_credential := True\<rparr>"
| "decide RATE_LIMITED is_create =
     (mk_decision ADVANCE ''rate limited by the platform'')\<lparr>open_circuit := True\<rparr>"
| "decide UPSTREAM_ERROR is_create =
     (mk_decision ADVANCE ''upstream error'')\<lparr>retryable := \<not> is_create\<rparr>"
| "decide UNSUPPORTED is_create =
     mk_decision ADVANCE ''candidate cannot perform this action''"

lemma mk_decision_simps [simp]:
  "action (mk_decision a r) = a" "reason (mk_decision a r) = r"
  "\<not> consumer_visible (mk_decision a r)" "\<not> degrade_credential (mk_decision a r)"
  "\<not> open_circuit (mk_decision a r)" "\<not> retryable (mk_decision a r)"
  by (simp_all add: mk_decision_def)

lemma decide_USE: "action (decide out c) = USE \<longleftrightarrow> out = OK"
  by (cases out) auto

lemma decide_RECONCILE: "action (decide out c) = RECONCILE \<longleftrightarrow> out = TIMEOUT \<and> c"
  by (cases out) auto

lemma decide_HOLD: "action (decide out c) = HOLD_AS_FALLBACK \<longleftrightarrow> out = LOW_CONFIDENCE"
  by (cases out) auto

lemma decide_never_HANDOFF: "action (decide out c) \<noteq> HANDOFF"
  by (cases out) auto

lemmas decide_actions = decide_USE decide_RECONCILE decide_HOLD decide_never_HANDOFF

lemma decide_retryable_read: "retryable (decide out c) \<longleftrightarrow> out = UPSTREAM_ERROR \<and> \<not> c"
  by (cases out) auto

lemma decide_degrade: "degrade_credential (decide out c) \<longleftrightarrow> out = AUTH_ERROR"
  by (cases out) auto

lemma decide_circuit: "open_circuit (decide out c) \<longleftrightarrow> out = RATE_LIMITED"
  by (cases out) auto

lemma decide_not_consumer_visible: "\<not> consumer_visible (decide out c)"
  by (cases out) auto

end
