(* ===== verification/Audit_Trail.thy ===== *)
theory Audit_Trail
  imports Adapter
begin

text \<open>
  The audit trail, \<^verbatim>\<open>mawjood/observability/audit.py\<close>, and the alerts of
  \<^verbatim>\<open>mawjood/observability/alerts.py\<close>. One constructor of \<open>audit_event\<close> per method of
  \<open>AuditTrail\<close>, with the method's arguments; \<open>row_of\<close> is what the method writes through
  \<open>AuditTrail.record\<close>. The rows other modules write directly through \<open>record\<close> are
  constructors too, named after their event type.
\<close>

datatype audit_event =
    Message_Received int "string option" channel
  | Duplicate_Ignored string channel
  | Message_Sent string string string channel
  | Lead_Created
  | Conversation_Started channel
  | Conversation_Resumed channel
  | Consent_Notice_Shown string string string
  | Consent_Granted string string
  | Consent_Withdrawn string string
  | Routing_Started uid category "string list" availability_request int
  | Routing_Attempt uid nat category string outcome int "string option" "string option"
      "string option" "idempotency_key option"
  | Routing_Advanced uid nat string "string option" outcome string
  | Routing_Succeeded uid string nat int "nat option" "string option"
  | Routing_Exhausted uid "string list" string
  | Deadline_Exceeded uid int int "string list"
  | Reconciliation_Started uid string idempotency_key
  | Reconciliation_Result uid string bool "bool option" int
  | Handoff_Enqueued handoff_reason
  | Bot_Muted_Skip
  | Attribution_Captured string attribution_medium bool
  | Handoff_Claimed string uid
  | Operator_Replied string string string uid
  | Handoff_Resolved string "string option" uid
  | Notification_Skipped notification_kind string string uid
  | Notification_Deferred notification_kind string string uid "string option"
  | Notification_Sent string string string notification_kind string uid "string option"
  | Feedback_Captured "int option" bool "uid option"

subsection \<open>The trail and its rows\<close>

record audit_trail =
  trail_tenant_id :: uid
  trail_correlation_id :: string
  trail_turn_id :: uid
  trail_conversation_id :: "uid option"
  trail_lead_id :: "uid option"

text \<open>\<open>bind\<close> attaches ids discovered mid-turn; an id already attached is never lost.\<close>

definition bind_trail :: "uid option \<Rightarrow> uid option \<Rightarrow> audit_trail \<Rightarrow> audit_trail" where
  "bind_trail conversation_id lead_id t = t\<lparr>
     trail_conversation_id := (if conversation_id \<noteq> None then conversation_id
                               else trail_conversation_id t),
     trail_lead_id := (if lead_id \<noteq> None then lead_id else trail_lead_id t)\<rparr>"

record audit_row =
  row_tenant_id :: uid
  row_turn_id :: "uid option"
  row_decision_id :: "uid option"
  row_conversation_id :: "uid option"
  row_lead_id :: "uid option"
  row_correlation_id :: "string option"
  row_event_type :: string
  row_actor :: string
  row_category :: "string option"
  row_platform_slug :: "string option"
  row_merchant_ref :: "string option"
  row_attempt_number :: "nat option"
  row_outcome :: "string option"
  row_latency_ms :: "int option"
  row_advance_reason :: "string option"
  row_consumer_visible :: bool
  row_phrasebank_key :: "string option"
  row_locale :: "string option"
  row_consumer_text :: "string option"
  row_occurred_at :: instant
  row_schema_version :: int

definition SCHEMA_VERSION :: int where
  "SCHEMA_VERSION = 1"

text \<open>\<open>AuditTrail.record\<close> with every keyword at its default.\<close>

definition blank_row :: "audit_trail \<Rightarrow> instant \<Rightarrow> string \<Rightarrow> audit_row" where
  "blank_row t now event_type = \<lparr>
     row_tenant_id = trail_tenant_id t, row_turn_id = Some (trail_turn_id t),
     row_decision_id = None, row_conversation_id = trail_conversation_id t,
     row_lead_id = trail_lead_id t, row_correlation_id = Some (trail_correlation_id t),
     row_event_type = event_type, row_actor = actor_value SYSTEM, row_category = None,
     row_platform_slug = None, row_merchant_ref = None, row_attempt_number = None,
     row_outcome = None, row_latency_ms = None, row_advance_reason = None,
     row_consumer_visible = False, row_phrasebank_key = None, row_locale = None,
     row_consumer_text = None, row_occurred_at = now, row_schema_version = SCHEMA_VERSION\<rparr>"

text \<open>
  The columns each method sets. The free-form JSON columns \<open>inputs\<close> and \<open>details\<close> are not
  columns of the model: what they hold is in the event.
\<close>

fun event_type_of :: "audit_event \<Rightarrow> string" where
  "event_type_of (Message_Received _ _ _) = audit_event_type_value MESSAGE_RECEIVED"
| "event_type_of (Duplicate_Ignored _ _) = audit_event_type_value MESSAGE_DUPLICATE_IGNORED"
| "event_type_of (Message_Sent _ _ _ _) = audit_event_type_value MESSAGE_SENT"
| "event_type_of Lead_Created = audit_event_type_value LEAD_CREATED"
| "event_type_of (Conversation_Started _) = audit_event_type_value CONVERSATION_STARTED"
| "event_type_of (Conversation_Resumed _) = audit_event_type_value CONVERSATION_RESUMED"
| "event_type_of (Consent_Notice_Shown _ _ _) = audit_event_type_value CONSENT_NOTICE_SHOWN"
| "event_type_of (Consent_Granted _ _) = audit_event_type_value CONSENT_GRANTED"
| "event_type_of (Consent_Withdrawn _ _) =
     audit_event_type_value audit_event_type.CONSENT_WITHDRAWN"
| "event_type_of (Routing_Started _ _ _ _ _) = audit_event_type_value ROUTING_STARTED"
| "event_type_of (Routing_Attempt _ _ _ _ _ _ _ _ _ _) = audit_event_type_value ROUTING_ATTEMPT"
| "event_type_of (Routing_Advanced _ _ _ _ _ _) = audit_event_type_value ROUTING_ADVANCED"
| "event_type_of (Routing_Succeeded _ _ _ _ _ _) = audit_event_type_value ROUTING_SUCCEEDED"
| "event_type_of (Routing_Exhausted _ _ _) = audit_event_type_value ROUTING_EXHAUSTED"
| "event_type_of (Deadline_Exceeded _ _ _ _) = audit_event_type_value ROUTING_DEADLINE_EXCEEDED"
| "event_type_of (Reconciliation_Started _ _ _) =
     audit_event_type_value BOOKING_RECONCILIATION_STARTED"
| "event_type_of (Reconciliation_Result _ _ _ _ _) =
     audit_event_type_value BOOKING_RECONCILIATION_RESULT"
| "event_type_of (Handoff_Enqueued _) = audit_event_type_value HANDOFF_ENQUEUED"
| "event_type_of Bot_Muted_Skip = ''conversation.bot_muted_skip''"
| "event_type_of (Attribution_Captured _ _ _) = ''attribution.captured''"
| "event_type_of (Handoff_Claimed _ _) = ''handoff.claimed''"
| "event_type_of (Operator_Replied _ _ _ _) = ''handoff.operator_replied''"
| "event_type_of (Handoff_Resolved _ _ _) = ''handoff.resolved''"
| "event_type_of (Notification_Skipped _ _ _ _) = ''notification.skipped''"
| "event_type_of (Notification_Deferred _ _ _ _ _) = ''notification.deferred''"
| "event_type_of (Notification_Sent _ _ _ _ _ _ _) = ''notification.sent''"
| "event_type_of (Feedback_Captured _ _ _) = ''feedback.captured''"

fun fill_row :: "audit_event \<Rightarrow> audit_row \<Rightarrow> audit_row" where
  "fill_row (Message_Received _ _ _) r = r\<lparr>row_actor := actor_value CONSUMER\<rparr>"
| "fill_row (Message_Sent key loc txt _) r =
     r\<lparr>row_consumer_visible := True, row_phrasebank_key := Some key, row_locale := Some loc,
       row_consumer_text := Some txt\<rparr>"
| "fill_row (Consent_Notice_Shown _ _ loc) r = r\<lparr>row_locale := Some loc\<rparr>"
| "fill_row (Consent_Granted _ _) r = r\<lparr>row_actor := actor_value CONSUMER\<rparr>"
| "fill_row (Consent_Withdrawn _ _) r = r\<lparr>row_actor := actor_value CONSUMER\<rparr>"
| "fill_row (Routing_Started d cat _ _ _) r =
     r\<lparr>row_decision_id := Some d, row_category := Some (category_value cat)\<rparr>"
| "fill_row (Routing_Attempt d n cat p out lat mref _ _ _) r =
     r\<lparr>row_actor := actor_value AGGREGATOR, row_decision_id := Some d,
       row_attempt_number := Some n, row_category := Some (category_value cat),
       row_platform_slug := Some p, row_merchant_ref := mref,
       row_outcome := Some (outcome_value out), row_latency_ms := Some lat\<rparr>"
| "fill_row (Routing_Advanced d n p _ out why) r =
     r\<lparr>row_decision_id := Some d, row_attempt_number := Some n, row_platform_slug := Some p,
       row_outcome := Some (outcome_value out), row_advance_reason := Some why\<rparr>"
| "fill_row (Routing_Succeeded d p n lat _ _) r =
     r\<lparr>row_decision_id := Some d, row_platform_slug := Some p, row_attempt_number := Some n,
       row_outcome := Some (outcome_value OK), row_latency_ms := Some lat\<rparr>"
| "fill_row (Routing_Exhausted d _ why) r =
     r\<lparr>row_decision_id := Some d, row_advance_reason := Some why\<rparr>"
| "fill_row (Deadline_Exceeded d el _ _) r =
     r\<lparr>row_decision_id := Some d, row_latency_ms := Some el,
       row_advance_reason := Some ''turn deadline exceeded; continuing in background''\<rparr>"
| "fill_row (Reconciliation_Started d p _) r =
     r\<lparr>row_decision_id := Some d, row_platform_slug := Some p,
       row_advance_reason := Some ''create_booking timed out; outcome unknown''\<rparr>"
| "fill_row (Reconciliation_Result d p concl _ lat) r =
     r\<lparr>row_decision_id := Some d, row_platform_slug := Some p, row_latency_ms := Some lat,
       row_advance_reason := Some (if concl then ''reconciliation conclusive''
                                   else ''reconciliation inconclusive'')\<rparr>"
| "fill_row (Handoff_Enqueued why) r =
     r\<lparr>row_advance_reason := Some (handoff_reason_value why)\<rparr>"
| "fill_row (Handoff_Claimed _ _) r = r\<lparr>row_actor := actor_value OPERATOR\<rparr>"
| "fill_row (Operator_Replied loc txt _ _) r =
     r\<lparr>row_actor := actor_value OPERATOR, row_consumer_visible := True,
       row_phrasebank_key := Some ''operator.reply'', row_locale := Some loc,
       row_consumer_text := Some txt\<rparr>"
| "fill_row (Handoff_Resolved _ _ _) r = r\<lparr>row_actor := actor_value OPERATOR\<rparr>"
| "fill_row (Notification_Sent key loc txt _ _ _ _) r =
     r\<lparr>row_consumer_visible := True, row_phrasebank_key := Some key, row_locale := Some loc,
       row_consumer_text := Some txt\<rparr>"
| "fill_row _ r = r"

definition row_of :: "audit_trail \<Rightarrow> instant \<Rightarrow> audit_event \<Rightarrow> audit_row" where
  "row_of t now e = fill_row e (blank_row t now (event_type_of e))"

subsection \<open>What every row carries\<close>

lemma fill_row_ids [simp]:
  "row_tenant_id (fill_row e r) = row_tenant_id r"
  "row_turn_id (fill_row e r) = row_turn_id r"
  "row_conversation_id (fill_row e r) = row_conversation_id r"
  "row_lead_id (fill_row e r) = row_lead_id r"
  "row_correlation_id (fill_row e r) = row_correlation_id r"
  "row_event_type (fill_row e r) = row_event_type r"
  "row_occurred_at (fill_row e r) = row_occurred_at r"
  by (cases e; simp)+

lemma row_of_ids [simp]:
  "row_tenant_id (row_of t now e) = trail_tenant_id t"
  "row_turn_id (row_of t now e) = Some (trail_turn_id t)"
  "row_conversation_id (row_of t now e) = trail_conversation_id t"
  "row_lead_id (row_of t now e) = trail_lead_id t"
  "row_event_type (row_of t now e) = event_type_of e"
  "row_occurred_at (row_of t now e) = now"
  by (simp_all add: row_of_def blank_row_def)

lemma bind_trail_simps [simp]:
  "trail_tenant_id (bind_trail c l t) = trail_tenant_id t"
  "trail_turn_id (bind_trail c l t) = trail_turn_id t"
  "trail_correlation_id (bind_trail c l t) = trail_correlation_id t"
  "trail_conversation_id (bind_trail (Some c') l t) = Some c'"
  "trail_lead_id (bind_trail c (Some l') t) = Some l'"
  "trail_conversation_id (bind_trail None l t) = trail_conversation_id t"
  "trail_lead_id (bind_trail c None t) = trail_lead_id t"
  by (simp_all add: bind_trail_def)

text \<open>A row a consumer could see names the phrasebank entry (or the operator sentinel) it shows.\<close>

lemma row_of_visible:
  "row_consumer_visible (row_of t now e) \<Longrightarrow>
   row_phrasebank_key (row_of t now e) \<noteq> None \<and> row_consumer_text (row_of t now e) \<noteq> None"
  by (cases e) (simp_all add: row_of_def blank_row_def)

subsection \<open>Alerts\<close>

datatype alert_kind =
    CREDENTIAL_DEGRADED | RECONCILIATION_INCONCLUSIVE_ALERT | CASCADE_EXHAUSTED_ALERT
  | HANDOFF_AGEING | AGGREGATOR_CIRCUIT_OPEN | DELIVERY_FAILED | NOTIFICATION_BACKLOG
  | CONFIGURATION_FAULT

datatype severity = WARNING | ERROR | CRITICAL

record alert =
  alert_kind :: alert_kind
  alert_severity :: severity
  alert_platform :: string
  alert_merchant :: string
  alert_decision :: "uid option"

end
