(* ===== verification/Cascade.thy ===== *)
theory Cascade
  imports Policy Audit_Trail
begin

text \<open>
  The fallback cascade, \<^verbatim>\<open>mawjood/core/routing/cascade.py\<close>: \<open>search\<close> walks the candidates of
  a category until one serves, \<open>book\<close> creates against one candidate and reconciles a create
  that timed out.

  A run threads a state \<open>'w run\<close>: the monotonic clock, the next fresh UUID, the audit events
  and alerts emitted so far, and the outside world \<open>'w\<close> the adapters act on. \<open>call_adapter\<close>
  is \<open>Cascade._call\<close>: it bounds a call by the remaining turn budget and turns every way a
  call can end into a result. A call that is cut off may have reached the outside world
  already: what it left there is the call's \<open>world_cut\<close>.
\<close>

subsection \<open>Data\<close>

datatype search_status = FOUND | EXHAUSTED | DEADLINE_EXCEEDED

datatype book_status = BOOKED | FAILED | UNCERTAIN

record 'w candidate =
  cand_adapter :: "'w adapter"
  cand_merchant :: merchant_ref
  cand_credentials :: "(string \<times> string) list"

definition cand_slug :: "'w candidate \<Rightarrow> string" where
  "cand_slug c = platform_slug (cand_merchant c)"

definition cand_str :: "'w candidate \<Rightarrow> string" where
  "cand_str c = merchant_str (cand_merchant c)"

record 'w search_outcome =
  search_status :: search_status
  found_slot :: "slot option"
  found_candidate :: "'w candidate option"
  attempted :: "string list"
  remaining_candidates :: "'w candidate list"
  search_decision_id :: uid
  low_confidence :: bool
  search_handoff_reason :: "string option"

definition requires_explicit_confirmation :: "'w search_outcome \<Rightarrow> bool" where
  "requires_explicit_confirmation r = low_confidence r"

record 'w book_outcome =
  book_status :: book_status
  booked_ref :: "booking_ref option"
  book_candidate :: "'w candidate"
  book_decision_id :: uid
  book_handoff_reason :: "string option"
  book_reason :: "string option"

record cascade =
  turn_deadline :: deadline
  tenant_id :: uid
  conversation_id :: uid
  correlation_id :: string
  budget_ms :: int

record 'w run =
  clock :: int
  fresh :: nat
  trail :: "audit_event list"
  alerts :: "alert list"
  world :: 'w

text \<open>\<open>Cascade.__init__\<close> reads the budget off the deadline once.\<close>

definition new_cascade :: "int \<Rightarrow> deadline \<Rightarrow> uid \<Rightarrow> uid \<Rightarrow> string \<Rightarrow> cascade" where
  "new_cascade now d tenant conv corr = \<lparr>turn_deadline = d, tenant_id = tenant,
     conversation_id = conv, correlation_id = corr, budget_ms = remaining_ms now d\<rparr>"

definition log_event :: "audit_event \<Rightarrow> 'w run \<Rightarrow> 'w run" where
  "log_event e s = s\<lparr>trail := trail s @ [e]\<rparr>"

definition raise_alert :: "alert \<Rightarrow> 'w run \<Rightarrow> 'w run" where
  "raise_alert a s = s\<lparr>alerts := alerts s @ [a]\<rparr>"

definition new_decision :: "'w run \<Rightarrow> uid \<times> 'w run" where
  "new_decision s = (fresh s, s\<lparr>fresh := Suc (fresh s)\<rparr>)"

subsection \<open>Calling an adapter\<close>

definition call_context_of :: "cascade \<Rightarrow> 'w candidate \<Rightarrow> call_context" where
  "call_context_of self c = \<lparr>ctx_tenant_id = tenant_id self,
     ctx_conversation_id = conversation_id self, ctx_merchant = cand_merchant c,
     ctx_credentials = cand_credentials c, ctx_deadline = turn_deadline self,
     ctx_correlation_id = correlation_id self\<rparr>"

definition budget_gone :: "'a result" where
  "budget_gone = result_of TIMEOUT None
     (Some ''turn budget exhausted before the call started'') 0"

definition cut_off :: "int \<Rightarrow> 'a result" where
  "cut_off latency = result_of TIMEOUT None
     (Some ''cut off by the turn budget before the upstream answered'') latency"

definition adapter_raised :: "string \<Rightarrow> int \<Rightarrow> 'a result" where
  "adapter_raised what latency = result_of UPSTREAM_ERROR None
     (Some (''adapter raised '' @ what)) latency"

definition call_adapter ::
    "cascade \<Rightarrow> bool \<Rightarrow> ('w \<Rightarrow> ('a, 'w) call) \<Rightarrow> 'w run \<Rightarrow> 'a result \<times> 'w run" where
  "call_adapter self bound coro s =
     (let limit = ms (remaining_ms (clock s) (turn_deadline self)) in
      if bound \<and> limit \<le> 0 then (budget_gone, s)
      else
        let c = coro (world s) in
        if bound \<and> limit \<le> int (elapsed c)
        then (cut_off (limit div 1000),
              s\<lparr>clock := clock s + limit, world := world_cut c limit\<rparr>)
        else
          let s' = s\<lparr>clock := clock s + int (elapsed c), world := world_after c\<rparr>;
              latency = int (elapsed c) div 1000
          in (case ending c of
                Returned r \<Rightarrow> (r, s')
              | Raised Timeout_Error \<Rightarrow> (cut_off latency, s')
              | Raised (Other_Exception what) \<Rightarrow> (adapter_raised what latency, s')))"

definition log_operational :: "'w candidate \<Rightarrow> decision \<Rightarrow> 'w run \<Rightarrow> 'w run" where
  "log_operational c d s =
     (let s1 = (if degrade_credential d
                then raise_alert \<lparr>alert_kind = CREDENTIAL_DEGRADED, alert_severity = ERROR,
                       alert_platform = cand_slug c, alert_merchant = cand_str c,
                       alert_decision = None\<rparr> s
                else s)
      in if open_circuit d
         then raise_alert \<lparr>alert_kind = AGGREGATOR_CIRCUIT_OPEN, alert_severity = WARNING,
                alert_platform = cand_slug c, alert_merchant = cand_str c,
                alert_decision = None\<rparr> s1
         else s1)"

subsection \<open>Search\<close>

definition found :: "slot \<Rightarrow> 'w candidate \<Rightarrow> string list \<Rightarrow> uid \<Rightarrow> bool \<Rightarrow> 'w search_outcome" where
  "found sl c att d low = \<lparr>search_status = FOUND, found_slot = Some sl, found_candidate = Some c,
     attempted = att, remaining_candidates = [], search_decision_id = d, low_confidence = low,
     search_handoff_reason = None\<rparr>"

definition deadline_result ::
    "string list \<Rightarrow> 'w candidate list \<Rightarrow> uid \<Rightarrow> 'w search_outcome" where
  "deadline_result att rest d = \<lparr>search_status = DEADLINE_EXCEEDED, found_slot = None,
     found_candidate = None, attempted = att, remaining_candidates = rest,
     search_decision_id = d, low_confidence = False, search_handoff_reason = None\<rparr>"

definition exhausted_result :: "string list \<Rightarrow> uid \<Rightarrow> 'w search_outcome" where
  "exhausted_result att d = \<lparr>search_status = EXHAUSTED, found_slot = None,
     found_candidate = None, attempted = att, remaining_candidates = [],
     search_decision_id = d, low_confidence = False,
     search_handoff_reason = Some ''cascade_exhausted''\<rparr>"

text \<open>\<open>result.data or []\<close>.\<close>

definition slots_of :: "slot list result \<Rightarrow> slot list" where
  "slots_of r = (case data r of None \<Rightarrow> [] | Some xs \<Rightarrow> xs)"

text \<open>One candidate: the call, its audit row, and the result.\<close>

definition attempt ::
    "cascade \<Rightarrow> uid \<Rightarrow> availability_request \<Rightarrow> nat \<Rightarrow> 'w candidate \<Rightarrow> 'w run
       \<Rightarrow> slot list result \<times> 'w run" where
  "attempt self d req index c s =
     (let (r, s1) = call_adapter self True
            (search_availability (cand_adapter c) (call_context_of self c) req) s
      in (r, log_event (Routing_Attempt d (index + 1) (req_category req) (cand_slug c)
               (outcome r) (latency_ms r) (Some (cand_str c)) (raw_error r) (request_id r) None) s1))"

fun search_loop ::
    "cascade \<Rightarrow> uid \<Rightarrow> availability_request \<Rightarrow> nat \<Rightarrow> string list \<Rightarrow> (slot \<times> 'w candidate) option
       \<Rightarrow> 'w candidate list \<Rightarrow> 'w run \<Rightarrow> 'w search_outcome \<times> 'w run" where
  "search_loop self d req index att fallback [] s =
     (case fallback of
        Some (sl, owner) \<Rightarrow> (found sl owner att d True, s)
      | None \<Rightarrow> (exhausted_result att d,
          log_event (Routing_Exhausted d att ''every candidate exhausted without availability'') s))"
| "search_loop self d req index att fallback (c # rest) s =
     (if expired (clock s) (turn_deadline self) then
        let s1 = log_event (Deadline_Exceeded d
                   (budget_ms self - remaining_ms (clock s) (turn_deadline self))
                   (budget_ms self) (map cand_slug (c # rest))) s
        in (case fallback of
              Some (sl, owner) \<Rightarrow> (found sl owner att d True, s1)
            | None \<Rightarrow> (deadline_result att (c # rest) d, s1))
      else
        let (r, s1) = attempt self d req index c s;
            att' = att @ [cand_slug c];
            dec = decide (outcome r) False;
            slots = slots_of r
        in if action dec = USE \<and> slots \<noteq> [] then
             (found (hd slots) c att' d False,
              log_event (Routing_Succeeded d (cand_slug c) (index + 1) (latency_ms r)
                (Some (length slots)) None) s1)
           else
             let fallback' = (if action dec = HOLD_AS_FALLBACK \<and> slots \<noteq> [] \<and> fallback = None
                              then Some (hd slots, c) else fallback);
                 s2 = log_operational c dec s1;
                 s3 = log_event (Routing_Advanced d (index + 1) (cand_slug c)
                        (case rest of [] \<Rightarrow> None | c' # _ \<Rightarrow> Some (cand_slug c'))
                        (outcome r) (reason dec)) s2
             in search_loop self d req (index + 1) att' fallback' rest s3)"

definition search ::
    "cascade \<Rightarrow> 'w candidate list \<Rightarrow> availability_request \<Rightarrow> 'w run
       \<Rightarrow> 'w search_outcome \<times> 'w run" where
  "search self candidates req s =
     (let (d, s1) = new_decision s;
          s2 = log_event (Routing_Started d (req_category req) (map cand_slug candidates) req
                 (budget_ms self)) s1
      in search_loop self d req 0 [] None candidates s2)"

subsection \<open>Book\<close>

definition booked ::
    "booking_ref \<Rightarrow> 'w candidate \<Rightarrow> uid \<Rightarrow> string option \<Rightarrow> 'w book_outcome" where
  "booked ref c d why = \<lparr>book_status = BOOKED, booked_ref = Some ref, book_candidate = c,
     book_decision_id = d, book_handoff_reason = None, book_reason = why\<rparr>"

definition book_failed :: "'w candidate \<Rightarrow> uid \<Rightarrow> string \<Rightarrow> 'w book_outcome" where
  "book_failed c d why = \<lparr>book_status = FAILED, booked_ref = None, book_candidate = c,
     book_decision_id = d, book_handoff_reason = None, book_reason = Some why\<rparr>"

definition book_uncertain :: "'w candidate \<Rightarrow> uid \<Rightarrow> 'w book_outcome" where
  "book_uncertain c d = \<lparr>book_status = UNCERTAIN, booked_ref = None, book_candidate = c,
     book_decision_id = d, book_handoff_reason = Some ''reconciliation_inconclusive'',
     book_reason = Some ''create timed out and reconciliation could not determine the outcome''\<rparr>"

definition reconcile ::
    "cascade \<Rightarrow> 'w candidate \<Rightarrow> idempotency_key \<Rightarrow> uid \<Rightarrow> 'w run \<Rightarrow> 'w book_outcome \<times> 'w run" where
  "reconcile self c key d s =
     (let s1 = log_event (Reconciliation_Started d (cand_slug c) key) s;
          (r, s2) = call_adapter self False
            (find_by_idempotency_key (cand_adapter c) (call_context_of self c) key) s1
      in case (outcome r, data r) of
           (OK, Some rec) \<Rightarrow>
             (booked (record_ref rec) c d
                (Some ''recovered by reconciliation after a create timeout''),
              log_event (Reconciliation_Result d (cand_slug c) True (Some True) (latency_ms r)) s2)
         | (NO_AVAILABILITY, _) \<Rightarrow>
             (book_failed c d
                ''create timed out and reconciliation confirmed nothing was created'',
              log_event (Reconciliation_Result d (cand_slug c) True (Some False) (latency_ms r)) s2)
         | _ \<Rightarrow>
             (book_uncertain c d,
              raise_alert \<lparr>alert_kind = RECONCILIATION_INCONCLUSIVE_ALERT,
                  alert_severity = CRITICAL, alert_platform = cand_slug c,
                  alert_merchant = cand_str c, alert_decision = Some d\<rparr>
                (log_event (Reconciliation_Result d (cand_slug c) False None (latency_ms r)) s2)))"

text \<open>
  \<open>Cascade.book\<close>. Its parameter \<open>fallbacks\<close> is never read by the body and has no argument
  here.
\<close>

definition book ::
    "cascade \<Rightarrow> 'w candidate \<Rightarrow> slot \<Rightarrow> category \<Rightarrow> string option \<Rightarrow> string option \<Rightarrow> uid option
       \<Rightarrow> 'w run \<Rightarrow> 'w book_outcome \<times> 'w run" where
  "book self c sl cat name phone decision s =
     (let (d, s0) = (case decision of Some d \<Rightarrow> (d, s) | None \<Rightarrow> new_decision s);
          key = make_idempotency_key (conversation_id self) cat (slot_start sl) (cand_slug c);
          req = \<lparr>breq_slot = sl, breq_key = key, consumer_name = name, consumer_phone = phone,
                 breq_notes = None\<rparr>;
          (r, s1) = call_adapter self True
            (create_booking (cand_adapter c) (call_context_of self c) req) s0;
          s2 = log_event (Routing_Attempt d 1 cat (cand_slug c) (outcome r) (latency_ms r)
                 (Some (cand_str c)) (raw_error r) (request_id r) (Some key)) s1;
          dec = decide (outcome r) True
      in case (action dec, data r) of
           (USE, Some ref) \<Rightarrow>
             (booked ref c d None,
              log_event (Routing_Succeeded d (cand_slug c) 1 (latency_ms r) None
                (Some (external_id ref))) s2)
         | (RECONCILE, _) \<Rightarrow> reconcile self c key d s2
         | _ \<Rightarrow> (book_failed c d (reason dec), log_operational c dec s2))"

end
