(* ===== verification/Cascade_Facts.thy ===== *)
theory Cascade_Facts
  imports Cascade
begin

text \<open>
  What the cascade guarantees: frame facts of one adapter call and of the logging steps, the
  three ways a candidate is handled, the refinement of \<open>search\<close> by a selection over the
  answers actually obtained, the turn budget, and the audit trail of a walk.
\<close>

subsection \<open>Frames\<close>

lemma log_event_simps [simp]:
  "clock (log_event e s) = clock s" "fresh (log_event e s) = fresh s"
  "trail (log_event e s) = trail s @ [e]" "alerts (log_event e s) = alerts s"
  "world (log_event e s) = world s"
  by (simp_all add: log_event_def)

lemma raise_alert_simps [simp]:
  "clock (raise_alert a s) = clock s" "fresh (raise_alert a s) = fresh s"
  "trail (raise_alert a s) = trail s" "alerts (raise_alert a s) = alerts s @ [a]"
  "world (raise_alert a s) = world s"
  by (simp_all add: raise_alert_def)

lemma log_operational_simps [simp]:
  "clock (log_operational c d s) = clock s" "fresh (log_operational c d s) = fresh s"
  "trail (log_operational c d s) = trail s" "world (log_operational c d s) = world s"
  by (simp_all add: log_operational_def)

lemma new_decision_simps [simp]:
  "fst (new_decision s) = fresh s"
  "clock (snd (new_decision s)) = clock s" "trail (snd (new_decision s)) = trail s"
  "world (snd (new_decision s)) = world s" "alerts (snd (new_decision s)) = alerts s"
  by (simp_all add: new_decision_def)

lemma call_adapter_frame [simp]:
  "trail (snd (call_adapter self b f s)) = trail s"
  "alerts (snd (call_adapter self b f s)) = alerts s"
  "fresh (snd (call_adapter self b f s)) = fresh s"
  by (auto simp: call_adapter_def Let_def split: ending.splits exception.splits)

lemma call_adapter_world:
  "world (snd (call_adapter self b f s)) = world s
   \<or> leaves (f (world s)) (world (snd (call_adapter self b f s)))"
  by (auto simp: call_adapter_def Let_def split: ending.splits exception.splits)

lemma call_adapter_clock: "clock s \<le> clock (snd (call_adapter self b f s))"
  by (auto simp: call_adapter_def Let_def ms_def split: ending.splits exception.splits)

text \<open>A bounded call ends within the deadline it started under.\<close>

lemma call_adapter_budget:
  assumes "\<not> expired (clock s) (turn_deadline self)"
  shows "clock (snd (call_adapter self True f s)) \<le> expires_at_monotonic (turn_deadline self)"
proof -
  let ?limit = "ms (remaining_ms (clock s) (turn_deadline self))"
  have "clock s + ?limit \<le> expires_at_monotonic (turn_deadline self)"
    by (rule remaining_ms_bound) fact
  moreover have "clock (snd (call_adapter self True f s)) \<le> clock s + ?limit"
    by (auto simp: call_adapter_def Let_def ms_def split: ending.splits exception.splits)
  ultimately show ?thesis by linarith
qed

text \<open>A call that was not cut off and returned is passed through unchanged.\<close>

lemma call_adapter_unbounded_Returned:
  "ending (f (world s)) = Returned r \<Longrightarrow>
   call_adapter self False f s
     = (r, s\<lparr>clock := clock s + int (elapsed (f (world s))), world := world_after (f (world s))\<rparr>)"
  by (simp add: call_adapter_def Let_def)

text \<open>Where the outcome of a bounded call comes from.\<close>

lemma call_adapter_outcome:
  assumes "outcome (fst (call_adapter self b f s)) \<noteq> TIMEOUT"
  shows "world (snd (call_adapter self b f s)) = world_after (f (world s)) \<and>
         (ending (f (world s)) = Returned (fst (call_adapter self b f s)) \<or>
          outcome (fst (call_adapter self b f s)) = UPSTREAM_ERROR \<and>
          data (fst (call_adapter self b f s)) = None \<and>
          (\<exists>e. ending (f (world s)) = Raised (Other_Exception e)))"
  using assms
  by (auto simp: call_adapter_def Let_def budget_gone_def cut_off_def adapter_raised_def
           split: ending.splits exception.splits if_splits)

subsection \<open>Three ways to handle a candidate\<close>

definition usable :: "slot list result \<Rightarrow> bool" where
  "usable r = (outcome r = OK \<and> slots_of r \<noteq> [])"

definition hedged :: "slot list result \<Rightarrow> bool" where
  "hedged r = (outcome r = LOW_CONFIDENCE \<and> slots_of r \<noteq> [])"

definition keep_fallback ::
    "'w candidate \<Rightarrow> slot list result \<Rightarrow> (slot \<times> 'w candidate) option \<Rightarrow> (slot \<times> 'w candidate) option"
  where
  "keep_fallback c r fb = (if hedged r \<and> fb = None then Some (hd (slots_of r), c) else fb)"

definition move_on ::
    "uid \<Rightarrow> nat \<Rightarrow> 'w candidate \<Rightarrow> 'w candidate list \<Rightarrow> slot list result \<Rightarrow> 'w run \<Rightarrow> 'w run" where
  "move_on d index c rest r s =
     log_event (Routing_Advanced d (index + 1) (cand_slug c)
        (case rest of [] \<Rightarrow> None | c' # _ \<Rightarrow> Some (cand_slug c'))
        (outcome r) (reason (decide (outcome r) False)))
       (log_operational c (decide (outcome r) False) s)"

lemma search_loop_expired:
  "expired (clock s) (turn_deadline self) \<Longrightarrow>
   search_loop self d req i att fb (c # rest) s =
     (case fb of Some (sl, owner) \<Rightarrow> found sl owner att d True
               | None \<Rightarrow> deadline_result att (c # rest) d,
      log_event (Deadline_Exceeded d
         (budget_ms self - remaining_ms (clock s) (turn_deadline self))
         (budget_ms self) (map cand_slug (c # rest))) s)"
  by (simp split: option.splits prod.splits)

lemma search_loop_serves:
  "\<not> expired (clock s) (turn_deadline self) \<Longrightarrow> attempt self d req i c s = (r, s1) \<Longrightarrow> usable r \<Longrightarrow>
   search_loop self d req i att fb (c # rest) s =
     (found (hd (slots_of r)) c (att @ [cand_slug c]) d False,
      log_event (Routing_Succeeded d (cand_slug c) (i + 1) (latency_ms r)
        (Some (length (slots_of r))) None) s1)"
  by (simp add: usable_def Let_def)

lemma search_loop_advances:
  "\<not> expired (clock s) (turn_deadline self) \<Longrightarrow> attempt self d req i c s = (r, s1) \<Longrightarrow>
   \<not> usable r \<Longrightarrow>
   search_loop self d req i att fb (c # rest) s =
     search_loop self d req (i + 1) (att @ [cand_slug c]) (keep_fallback c r fb) rest
       (move_on d i c rest r s1)"
  by (auto simp: usable_def hedged_def keep_fallback_def move_on_def decide_actions Let_def)

declare search_loop.simps(2) [simp del]

lemmas search_loop_steps = search_loop_expired search_loop_serves search_loop_advances

lemma move_on_simps [simp]:
  "clock (move_on d i c rest r s) = clock s" "fresh (move_on d i c rest r s) = fresh s"
  "world (move_on d i c rest r s) = world s"
  by (simp_all add: move_on_def)

lemma attempt_simps [simp]:
  "fresh (snd (attempt self d req i c s)) = fresh s"
  "world (snd (attempt self d req i c s)) = world (snd (call_adapter self True
      (search_availability (cand_adapter c) (call_context_of self c) req) s))"
  "clock (snd (attempt self d req i c s)) = clock (snd (call_adapter self True
      (search_availability (cand_adapter c) (call_context_of self c) req) s))"
  by (simp_all add: attempt_def split_def Let_def)

subsection \<open>The answers obtained, and the selection over them\<close>

fun observe ::
    "cascade \<Rightarrow> uid \<Rightarrow> availability_request \<Rightarrow> nat \<Rightarrow> 'w candidate list \<Rightarrow> 'w run
       \<Rightarrow> ('w candidate \<times> slot list result) list" where
  "observe self d req i [] s = []"
| "observe self d req i (c # rest) s =
     (if expired (clock s) (turn_deadline self) then []
      else let (r, s1) = attempt self d req i c s in
        (c, r) # (if usable r then []
                  else observe self d req (i + 1) rest (move_on d i c rest r s1)))"

definition offer_of :: "'w candidate \<times> slot list result \<Rightarrow> slot \<times> 'w candidate" where
  "offer_of p = (hd (slots_of (snd p)), fst p)"

text \<open>
  The specification of a search, over the answers alone: the first usable answer wins; with
  none, the first low-confidence one, hedged; with none and candidates left untried, those
  are reported; with none left, the search is exhausted and asks for a human.
\<close>

definition select ::
    "uid \<Rightarrow> 'w candidate list \<Rightarrow> ('w candidate \<times> slot list result) list \<Rightarrow> 'w search_outcome" where
  "select d cs obs =
     (let att = map (\<lambda>p. cand_slug (fst p)) obs in
      case next_such (\<lambda>p. usable (snd p)) obs of
        Some p \<Rightarrow> found (fst (offer_of p)) (snd (offer_of p)) att d False
      | None \<Rightarrow>
         (case next_such (\<lambda>p. hedged (snd p)) obs of
            Some p \<Rightarrow> found (fst (offer_of p)) (snd (offer_of p)) att d True
          | None \<Rightarrow> if length obs = length cs then exhausted_result att d
                    else deadline_result att (drop (length obs) cs) d))"

lemma observe_length: "length (observe self d req i cs s) \<le> length cs"
  by (induction self d req i cs s rule: observe.induct) (auto simp: split_def Let_def)

lemma observe_prefix:
  "map fst (observe self d req i cs s) = take (length (observe self d req i cs s)) cs"
  by (induction self d req i cs s rule: observe.induct) (auto simp: split_def Let_def)

lemma observe_in: "p \<in> set (observe self d req i cs s) \<Longrightarrow> fst p \<in> set cs"
  using observe_prefix [of self d req i cs s] by (metis image_eqI in_set_takeD list.set_map)

lemma search_loop_outcome:
  "fst (search_loop self d req i att fb cs s) =
     (let obs = observe self d req i cs s; att' = att @ map (\<lambda>p. cand_slug (fst p)) obs in
      case next_such (\<lambda>p. usable (snd p)) obs of
        Some p \<Rightarrow> found (fst (offer_of p)) (snd (offer_of p)) att' d False
      | None \<Rightarrow>
         (case (if fb = None then map_option offer_of (next_such (\<lambda>p. hedged (snd p)) obs)
                else fb) of
            Some (sl, owner) \<Rightarrow> found sl owner att' d True
          | None \<Rightarrow> if length obs = length cs then exhausted_result att' d
                    else deadline_result att' (drop (length obs) cs) d))"
proof (induction cs arbitrary: i att fb s)
  case Nil
  then show ?case by (auto split: option.splits)
next
  case (Cons c rest)
  obtain r s1 where at: "attempt self d req i c s = (r, s1)" by fastforce
  consider (late) "expired (clock s) (turn_deadline self)"
    | (serves) "\<not> expired (clock s) (turn_deadline self)" "usable r"
    | (advances) "\<not> expired (clock s) (turn_deadline self)" "\<not> usable r" by blast
  then show ?case
  proof cases
    case late
    then show ?thesis by (auto simp: search_loop_expired split: option.splits)
  next
    case serves
    then show ?thesis by (simp add: search_loop_serves [OF _ at] at offer_of_def)
  next
    case advances
    then show ?thesis
      by (auto simp: search_loop_advances [OF _ at] at Cons.IH keep_fallback_def offer_of_def
               Let_def split: option.splits)
  qed
qed

text \<open>The trail as \<open>search\<close> starts walking.\<close>

definition started :: "cascade \<Rightarrow> 'w candidate list \<Rightarrow> availability_request \<Rightarrow> 'w run \<Rightarrow> 'w run" where
  "started self cs req s =
     log_event (Routing_Started (fresh s) (req_category req) (map cand_slug cs) req (budget_ms self))
       (snd (new_decision s))"

lemma search_unfold:
  "search self cs req s = search_loop self (fresh s) req 0 [] None cs (started self cs req s)"
  by (simp add: search_def started_def new_decision_def)

lemma started_simps [simp]:
  "clock (started self cs req s) = clock s" "world (started self cs req s) = world s"
  by (simp_all add: started_def)

definition answers ::
    "cascade \<Rightarrow> 'w candidate list \<Rightarrow> availability_request \<Rightarrow> 'w run
       \<Rightarrow> ('w candidate \<times> slot list result) list" where
  "answers self cs req s = observe self (fresh s) req 0 cs (started self cs req s)"

lemma search_selects: "fst (search self cs req s) = select (fresh s) cs (answers self cs req s)"
  by (auto simp: search_unfold search_loop_outcome select_def answers_def Let_def
           split: option.splits prod.splits)

subsection \<open>The turn budget\<close>

lemma search_loop_budget:
  "clock (snd (search_loop self d req i att fb cs s))
     \<le> max (clock s) (expires_at_monotonic (turn_deadline self))"
proof (induction cs arbitrary: i att fb s)
  case Nil
  then show ?case by (auto split: option.splits)
next
  case (Cons c rest)
  obtain r s1 where at: "attempt self d req i c s = (r, s1)" by fastforce
  show ?case
  proof (cases "expired (clock s) (turn_deadline self)")
    case True
    then show ?thesis by (simp add: search_loop_expired)
  next
    case False
    then have le: "clock s1 \<le> expires_at_monotonic (turn_deadline self)"
      using call_adapter_budget [OF False] attempt_simps(3) [of self d req i c s]
      by (simp add: at)
    show ?thesis
    proof (cases "usable r")
      case True
      then show ?thesis using le by (simp add: search_loop_serves [OF False at])
    next
      case no: False
      have "clock (snd (search_loop self d req i att fb (c # rest) s))
          \<le> max (clock s1) (expires_at_monotonic (turn_deadline self))"
        using Cons.IH [of "i + 1" "att @ [cand_slug c]" "keep_fallback c r fb"
                          "move_on d i c rest r s1"]
        by (simp add: search_loop_advances [OF False at no])
      with le show ?thesis by linarith
    qed
  qed
qed

lemma search_budget:
  "clock (snd (search self cs req s)) \<le> max (clock s) (expires_at_monotonic (turn_deadline self))"
  unfolding search_unfold using search_loop_budget [of self "fresh s"] by (metis started_simps(1))

text \<open>An expired budget with candidates left is reported at once, and nothing is called.\<close>

lemma answers_expired: "expired (clock s) (turn_deadline self) \<Longrightarrow> answers self cs req s = []"
  by (cases cs) (simp_all add: answers_def)

lemma search_expired:
  assumes "expired (clock s) (turn_deadline self)" and "cs \<noteq> []"
  shows "search_status (fst (search self cs req s)) = DEADLINE_EXCEEDED"
    and "remaining_candidates (fst (search self cs req s)) = cs"
    and "world (snd (search self cs req s)) = world s"
    and "clock (snd (search self cs req s)) = clock s"
proof -
  obtain c rest where cs: "cs = c # rest" using assms(2) by (cases cs) auto
  have ex: "expired (clock (started self cs req s)) (turn_deadline self)" using assms(1) by simp
  show "search_status (fst (search self cs req s)) = DEADLINE_EXCEEDED"
    "remaining_candidates (fst (search self cs req s)) = cs"
    "world (snd (search self cs req s)) = world s"
    "clock (snd (search self cs req s)) = clock s"
    using ex by (simp_all add: search_unfold cs search_loop_expired deadline_result_def)
qed

subsection \<open>The audit trail of a walk\<close>

text \<open>The attempts a trail records: number, platform and outcome, in order.\<close>

fun attempt_of :: "audit_event \<Rightarrow> (nat \<times> string \<times> outcome) option" where
  "attempt_of (Routing_Attempt _ n _ p out _ _ _ _ _) = Some (n, p, out)"
| "attempt_of _ = None"

definition attempts_in :: "audit_event list \<Rightarrow> (nat \<times> string \<times> outcome) list" where
  "attempts_in tr = List.map_filter attempt_of tr"

lemma attempts_in_append [simp]: "attempts_in (xs @ ys) = attempts_in xs @ attempts_in ys"
  by (simp add: attempts_in_def map_filter_def)

lemma attempts_in_Nil [simp]: "attempts_in [] = []"
  by (simp add: attempts_in_def map_filter_def)

lemma attempts_in_single [simp]:
  "attempts_in [e] = (case attempt_of e of None \<Rightarrow> [] | Some a \<Rightarrow> [a])"
  by (cases "attempt_of e") (auto simp: attempts_in_def map_filter_def)

definition numbered ::
    "nat \<Rightarrow> ('w candidate \<times> slot list result) list \<Rightarrow> (nat \<times> string \<times> outcome) list" where
  "numbered i obs = map (\<lambda>(k, c, r). (k + 1, cand_slug c, outcome r)) (enumerate i obs)"

lemma numbered_simps [simp]:
  "numbered i [] = []"
  "numbered i ((c, r) # obs) = (i + 1, cand_slug c, outcome r) # numbered (Suc i) obs"
  by (simp_all add: numbered_def)

lemma attempt_trail:
  "attempt self d req i c s = (r, s1) \<Longrightarrow>
   attempts_in (trail s1) = attempts_in (trail s) @ [(i + 1, cand_slug c, outcome r)]"
  by (auto simp: attempt_def split_def Let_def)

lemma search_loop_trail:
  "attempts_in (trail (snd (search_loop self d req i att fb cs s)))
     = attempts_in (trail s) @ numbered i (observe self d req i cs s)"
proof (induction cs arbitrary: i att fb s)
  case Nil
  then show ?case by (auto split: option.splits)
next
  case (Cons c rest)
  obtain r s1 where at: "attempt self d req i c s = (r, s1)" by fastforce
  show ?case
  proof (cases "expired (clock s) (turn_deadline self)")
    case True
    then show ?thesis by (simp add: search_loop_expired)
  next
    case False
    show ?thesis
    proof (cases "usable r")
      case True
      then show ?thesis
        by (simp add: search_loop_serves [OF False at] at False attempt_trail [OF at])
    next
      case no: False
      then show ?thesis
        by (simp add: search_loop_advances [OF False at no] at False Cons.IH move_on_def
              attempt_trail [OF at])
    qed
  qed
qed

lemma search_trail:
  "attempts_in (trail (snd (search self cs req s)))
     = attempts_in (trail s) @ numbered 0 (answers self cs req s)"
  by (simp add: search_unfold search_loop_trail answers_def started_def)

lemma attempted_select [simp]:
  "attempted (select d cs obs) = map (\<lambda>p. cand_slug (fst p)) obs"
  by (auto simp: select_def Let_def found_def exhausted_result_def deadline_result_def
           split: option.splits)

lemma numbered_platforms:
  "map (\<lambda>(_, p, _). p) (numbered i obs) = map (\<lambda>p. cand_slug (fst p)) obs"
  by (induction obs arbitrary: i) auto

lemma numbered_numbers: "map fst (numbered i obs) = [Suc i ..< Suc i + length obs]"
proof -
  have "map fst (numbered i obs) = map Suc (map fst (enumerate i obs))"
    unfolding numbered_def map_map by (rule map_cong) auto
  then show ?thesis by (simp add: map_Suc_upt)
qed

subsection \<open>Booking\<close>

text \<open>What reconciliation makes of the answer of \<open>find_by_idempotency_key\<close>.\<close>

definition find_answer ::
    "cascade \<Rightarrow> 'w candidate \<Rightarrow> idempotency_key \<Rightarrow> uid \<Rightarrow> 'w run \<Rightarrow> booking_record result \<times> 'w run" where
  "find_answer self c key d s =
     call_adapter self False
       (find_by_idempotency_key (cand_adapter c) (call_context_of self c) key)
       (log_event (Reconciliation_Started d (cand_slug c) key) s)"

lemma reconcile_booked:
  assumes "find_answer self c key d s = (r, s2)" and "outcome r = OK" and "data r = Some rec"
  shows "fst (reconcile self c key d s) = booked (record_ref rec) c d
           (Some ''recovered by reconciliation after a create timeout'')"
    and "world (snd (reconcile self c key d s)) = world s2"
    and "clock (snd (reconcile self c key d s)) = clock s2"
  using assms by (simp_all add: reconcile_def find_answer_def Let_def)

lemma reconcile_absent:
  assumes "find_answer self c key d s = (r, s2)" and "outcome r = NO_AVAILABILITY"
  shows "fst (reconcile self c key d s) = book_failed c d
           ''create timed out and reconciliation confirmed nothing was created''"
    and "world (snd (reconcile self c key d s)) = world s2"
    and "clock (snd (reconcile self c key d s)) = clock s2"
  using assms by (simp_all add: reconcile_def find_answer_def Let_def)

lemma reconcile_unknown:
  assumes "find_answer self c key d s = (r, s2)"
    and "outcome r \<noteq> NO_AVAILABILITY" and "outcome r = OK \<Longrightarrow> data r = None"
  shows "fst (reconcile self c key d s) = book_uncertain c d"
    and "world (snd (reconcile self c key d s)) = world s2"
    and "clock (snd (reconcile self c key d s)) = clock s2"
    and "alerts (snd (reconcile self c key d s)) = alerts s @
           [\<lparr>alert_kind = RECONCILIATION_INCONCLUSIVE_ALERT, alert_severity = CRITICAL,
             alert_platform = cand_slug c, alert_merchant = cand_str c, alert_decision = Some d\<rparr>]"
proof -
  have al: "alerts s2 = alerts s"
    using assms(1) call_adapter_frame(2) unfolding find_answer_def
    by (metis log_event_simps(4) snd_conv)
  show "fst (reconcile self c key d s) = book_uncertain c d"
    "world (snd (reconcile self c key d s)) = world s2"
    "clock (snd (reconcile self c key d s)) = clock s2"
    "alerts (snd (reconcile self c key d s)) = alerts s @
           [\<lparr>alert_kind = RECONCILIATION_INCONCLUSIVE_ALERT, alert_severity = CRITICAL,
             alert_platform = cand_slug c, alert_merchant = cand_str c, alert_decision = Some d\<rparr>]"
    using assms al
    by (cases "outcome r"; cases "data r"; simp add: reconcile_def find_answer_def Let_def)+
qed

lemma reconcile_cases:
  obtains (landed) rec where "outcome (fst (find_answer self c key d s)) = OK"
      and "data (fst (find_answer self c key d s)) = Some rec"
  | (absent) "outcome (fst (find_answer self c key d s)) = NO_AVAILABILITY"
  | (unknown) "outcome (fst (find_answer self c key d s)) \<noteq> NO_AVAILABILITY"
      and "outcome (fst (find_answer self c key d s)) = OK \<Longrightarrow> data (fst (find_answer self c key d s)) = None"
  by (cases "data (fst (find_answer self c key d s))") auto

text \<open>The create call of \<open>book\<close>, and what \<open>book\<close> makes of its answer.\<close>

definition booking_key :: "cascade \<Rightarrow> 'w candidate \<Rightarrow> slot \<Rightarrow> category \<Rightarrow> idempotency_key" where
  "booking_key self c sl cat =
     make_idempotency_key (conversation_id self) cat (slot_start sl) (cand_slug c)"

definition request_for ::
    "cascade \<Rightarrow> 'w candidate \<Rightarrow> slot \<Rightarrow> category \<Rightarrow> string option \<Rightarrow> string option \<Rightarrow> booking_request"
  where
  "request_for self c sl cat name phone = \<lparr>breq_slot = sl, breq_key = booking_key self c sl cat,
     consumer_name = name, consumer_phone = phone, breq_notes = None\<rparr>"

definition decided :: "uid option \<Rightarrow> 'w run \<Rightarrow> uid \<times> 'w run" where
  "decided decision s = (case decision of Some d \<Rightarrow> (d, s) | None \<Rightarrow> new_decision s)"

definition create_answer ::
    "cascade \<Rightarrow> 'w candidate \<Rightarrow> slot \<Rightarrow> category \<Rightarrow> string option \<Rightarrow> string option \<Rightarrow> uid option
       \<Rightarrow> 'w run \<Rightarrow> booking_ref result \<times> 'w run" where
  "create_answer self c sl cat name phone decision s =
     call_adapter self True
       (create_booking (cand_adapter c) (call_context_of self c)
          (request_for self c sl cat name phone)) (snd (decided decision s))"

definition after_create ::
    "'w candidate \<Rightarrow> category \<Rightarrow> idempotency_key \<Rightarrow> uid \<Rightarrow> booking_ref result \<Rightarrow> 'w run \<Rightarrow> 'w run" where
  "after_create c cat key d r s =
     log_event (Routing_Attempt d 1 cat (cand_slug c) (outcome r) (latency_ms r)
       (Some (cand_str c)) (raw_error r) (request_id r) (Some key)) s"

lemma decided_simps [simp]:
  "world (snd (decided d s)) = world s" "clock (snd (decided d s)) = clock s"
  "alerts (snd (decided d s)) = alerts s"
  by (simp_all add: decided_def split: option.splits)

lemma after_create_simps [simp]:
  "world (after_create c cat key d r s) = world s" "clock (after_create c cat key d r s) = clock s"
  "alerts (after_create c cat key d r s) = alerts s"
  by (simp_all add: after_create_def)

lemma book_unfold:
  assumes "create_answer self c sl cat name phone decision s = (r, s1)"
  shows "book self c sl cat name phone decision s =
    (let d = fst (decided decision s); key = booking_key self c sl cat;
         s2 = after_create c cat key d r s1
     in if outcome r = TIMEOUT then reconcile self c key d s2
        else case (outcome r, data r) of
          (OK, Some ref) \<Rightarrow> (booked ref c d None,
              log_event (Routing_Succeeded d (cand_slug c) 1 (latency_ms r) None
                (Some (external_id ref))) s2)
        | _ \<Rightarrow> (book_failed c d (reason (decide (outcome r) True)),
                log_operational c (decide (outcome r) True) s2))"
  using assms
  by (cases "outcome r"; cases "data r")
     (simp_all add: book_def create_answer_def request_for_def booking_key_def decided_def
        after_create_def split_def Let_def)

lemma book_ok:
  assumes "create_answer self c sl cat name phone decision s = (r, s1)"
    and "outcome r = OK" and "data r = Some ref"
  shows "fst (book self c sl cat name phone decision s) = booked ref c (fst (decided decision s)) None"
    and "world (snd (book self c sl cat name phone decision s)) = world s1"
  using assms by (simp_all add: book_unfold [OF assms(1)] Let_def)

lemma book_timeout:
  assumes "create_answer self c sl cat name phone decision s = (r, s1)" and "outcome r = TIMEOUT"
  shows "book self c sl cat name phone decision s =
     reconcile self c (booking_key self c sl cat) (fst (decided decision s))
       (after_create c cat (booking_key self c sl cat) (fst (decided decision s)) r s1)"
  using assms by (simp add: book_unfold [OF assms(1)] Let_def)

lemma book_clean:
  assumes "create_answer self c sl cat name phone decision s = (r, s1)"
    and "outcome r \<noteq> TIMEOUT" and "outcome r = OK \<Longrightarrow> data r = None"
  shows "fst (book self c sl cat name phone decision s) =
           book_failed c (fst (decided decision s)) (reason (decide (outcome r) True))"
    and "world (snd (book self c sl cat name phone decision s)) = world s1"
    and "clock (snd (book self c sl cat name phone decision s)) = clock s1"
  using assms
  by (cases "outcome r"; cases "data r"; simp add: book_unfold [OF assms(1)] Let_def)+

lemmas outcome_records = booked_def book_failed_def book_uncertain_def found_def
  deadline_result_def exhausted_result_def

text \<open>The verdict of a booking attempt on the create answer and the reconciliation answer.\<close>

definition verdict ::
    "booking_ref result \<Rightarrow> booking_record result \<Rightarrow> book_status \<times> booking_ref option \<times> string option"
  where
  "verdict r f =
     (if outcome r = OK \<and> data r \<noteq> None then (BOOKED, data r, None)
      else if outcome r \<noteq> TIMEOUT then (FAILED, None, None)
      else if outcome f = OK \<and> data f \<noteq> None then (BOOKED, map_option record_ref (data f), None)
      else if outcome f = NO_AVAILABILITY then (FAILED, None, None)
      else (UNCERTAIN, None, Some ''reconciliation_inconclusive''))"

lemma book_verdict:
  "let (r, s1) = create_answer self c sl cat name phone decision s;
       key = booking_key self c sl cat;
       f = fst (find_answer self c key (fst (decided decision s))
                  (after_create c cat key (fst (decided decision s)) r s1));
       b = fst (book self c sl cat name phone decision s)
   in (book_status b, booked_ref b, book_handoff_reason b) = verdict r f"
proof -
  obtain r s1 where cr: "create_answer self c sl cat name phone decision s = (r, s1)" by fastforce
  let ?d = "fst (decided decision s)" and ?key = "booking_key self c sl cat"
  let ?s2 = "after_create c cat ?key ?d r s1"
  obtain f s3 where fa: "find_answer self c ?key ?d ?s2 = (f, s3)" by fastforce
  show ?thesis
  proof (cases "outcome r = TIMEOUT")
    case True
    note bt = book_timeout [OF cr True]
    show ?thesis
    proof (cases rule: reconcile_cases [of self c ?key ?d ?s2])
      case (landed rec)
      then show ?thesis using True fa
        by (simp add: cr bt reconcile_booked [OF fa] booked_def verdict_def)
    next
      case absent
      then show ?thesis using True fa
        by (simp add: cr bt reconcile_absent [OF fa] book_failed_def verdict_def)
    next
      case unknown
      then show ?thesis using True fa
        by (simp add: cr bt reconcile_unknown [OF fa] book_uncertain_def verdict_def)
    qed
  next
    case False
    show ?thesis
    proof (cases "outcome r = OK \<and> data r \<noteq> None")
      case True
      then show ?thesis by (auto simp: cr book_ok [OF cr] booked_def verdict_def)
    next
      case no: False
      then have "outcome r = OK \<Longrightarrow> data r = None" by blast
      note clean = book_clean(1) [OF cr False this]
      from no False show ?thesis by (simp add: cr clean book_failed_def verdict_def)
    qed
  qed
qed

lemma book_ref_iff:
  "book_status (fst (book self c sl cat name phone decision s)) = BOOKED \<longleftrightarrow>
   booked_ref (fst (book self c sl cat name phone decision s)) \<noteq> None"
  using book_verdict [of self c sl cat name phone decision s]
  by (auto simp: verdict_def Let_def split_def split: if_splits)

end
