(* ===== verification/Cascade_Contract.thy ===== *)
theory Cascade_Contract
  imports Cascade_Facts
begin

text \<open>
  The interface between the cascade and the platforms, as locales over the outside world.

  \<^item> \<open>world_invariant\<close>: a property of the outside world that reads cannot break. A search is
    made of reads only, so it keeps it.
  \<^item> \<open>booking_contract\<close>: what the adapter contract promises about bookings. \<open>live\<close> counts the
    bookings that exist upstream and \<open>landed\<close> says whether one exists under a key. The laws
    are the documented ones (\<^verbatim>\<open>base.py\<close>): a create lands at most one booking; an answer
    other than OK or TIMEOUT means that none landed; OK comes with its reference; a
    create does not raise; NO_AVAILABILITY from the reconciliation read means that
    nothing is there under the key.
\<close>

locale world_invariant =
  fixes inv :: "'w \<Rightarrow> bool" and reader :: "'w adapter \<Rightarrow> bool"
  assumes search_keeps:
    "reader a \<Longrightarrow> inv w \<Longrightarrow> leaves (search_availability a ctx req w) w' \<Longrightarrow> inv w'"
begin

lemma attempt_keeps:
  assumes "reader (cand_adapter c)" and "inv (world s)"
  shows "inv (world (snd (attempt self d req i c s)))"
  using call_adapter_world [of self True
          "search_availability (cand_adapter c) (call_context_of self c) req" s]
    search_keeps [OF assms(1) assms(2)] assms(2) by auto

lemma search_loop_keeps:
  assumes "\<And>c. c \<in> set cs \<Longrightarrow> reader (cand_adapter c)" and "inv (world s)"
  shows "inv (world (snd (search_loop self d req i att fb cs s)))"
  using assms
proof (induction cs arbitrary: i att fb s)
  case Nil
  then show ?case by (auto split: option.splits)
next
  case (Cons c rest)
  obtain r s1 where at: "attempt self d req i c s = (r, s1)" by fastforce
  then have s1: "inv (world s1)"
    using attempt_keeps [of c s self d req i] Cons.prems by simp
  show ?case
  proof (cases "expired (clock s) (turn_deadline self)")
    case True
    then show ?thesis using Cons.prems by (simp add: search_loop_expired)
  next
    case False
    then show ?thesis
      using s1 Cons by (cases "usable r")
        (simp_all add: search_loop_serves [OF False at] search_loop_advances [OF False at])
  qed
qed

lemma search_keeps_world:
  assumes "\<And>c. c \<in> set cs \<Longrightarrow> reader (cand_adapter c)" and "inv (world s)"
  shows "inv (world (snd (search self cs req s)))"
  unfolding search_unfold by (rule search_loop_keeps) (use assms in simp_all)

end

locale booking_contract =
  fixes live :: "'w \<Rightarrow> nat" and landed :: "'w \<Rightarrow> string \<Rightarrow> idempotency_key \<Rightarrow> bool"
    and good :: "'w adapter \<Rightarrow> bool"
  assumes search_inert:
      "good a \<Longrightarrow> leaves (search_availability a ctx req w) w' \<Longrightarrow> live w' = live w"
    and find_inert:
      "good a \<Longrightarrow> leaves (find_by_idempotency_key a ctx k w) w' \<Longrightarrow> live w' = live w"
    and find_negative:
      "good a \<Longrightarrow> ending (find_by_idempotency_key a ctx k w) = Returned f \<Longrightarrow>
       outcome f = NO_AVAILABILITY \<Longrightarrow> \<not> landed w (slug a) k"
    and create_once:
      "good a \<Longrightarrow> leaves (create_booking a ctx rq w) w' \<Longrightarrow> live w' \<le> live w + 1"
    and create_missing:
      "good a \<Longrightarrow> leaves (create_booking a ctx rq w) w' \<Longrightarrow>
       \<not> landed w' (slug a) (breq_key rq) \<Longrightarrow> live w' = live w"
    and create_clean:
      "good a \<Longrightarrow> ending (create_booking a ctx rq w) = Returned r \<Longrightarrow>
       outcome r \<noteq> OK \<Longrightarrow> outcome r \<noteq> TIMEOUT \<Longrightarrow>
       live (world_after (create_booking a ctx rq w)) = live w"
    and create_ok:
      "good a \<Longrightarrow> ending (create_booking a ctx rq w) = Returned r \<Longrightarrow> outcome r = OK \<Longrightarrow>
       data r \<noteq> None"
    and create_returns:
      "good a \<Longrightarrow> ending (create_booking a ctx rq w) \<noteq> Raised (Other_Exception e)"

sublocale booking_contract \<subseteq> world_invariant "\<lambda>w. live w = n" good for n
  by unfold_locales (simp add: search_inert)

context booking_contract
begin

lemma search_lands_nothing:
  assumes "\<And>c. c \<in> set cs \<Longrightarrow> good (cand_adapter c)"
  shows "live (world (snd (search self cs req s))) = live (world s)"
  by (rule search_keeps_world [OF assms refl])

lemma create_answer_live:
  assumes "good (cand_adapter c)" and "create_answer self c sl cat name phone decision s = (r, s1)"
  shows "live (world s1) \<le> live (world s) + 1"
proof -
  have s1: "s1 = snd (create_answer self c sl cat name phone decision s)" using assms(2) by simp
  show ?thesis
    using call_adapter_world [of self True "create_booking (cand_adapter c) (call_context_of self c)
            (request_for self c sl cat name phone)" "snd (decided decision s)"]
      create_once [OF assms(1)] unfolding s1 create_answer_def by fastforce
qed

lemma create_answer_clean:
  assumes "good (cand_adapter c)" and "create_answer self c sl cat name phone decision s = (r, s1)"
    and "outcome r \<noteq> TIMEOUT"
  shows "outcome r = OK \<and> data r \<noteq> None \<or> outcome r \<noteq> OK \<and> live (world s1) = live (world s)"
proof -
  let ?f = "create_booking (cand_adapter c) (call_context_of self c)
              (request_for self c sl cat name phone)"
  have r: "r = fst (call_adapter self True ?f (snd (decided decision s)))"
    and s1: "s1 = snd (call_adapter self True ?f (snd (decided decision s)))"
    using assms(2) by (simp_all add: create_answer_def)
  from call_adapter_outcome [of self True ?f "snd (decided decision s)"] assms(3) r s1
  have "world s1 = world_after (?f (world s))" and "ending (?f (world s)) = Returned r"
    using create_returns [OF assms(1)] by auto
  then show ?thesis using create_clean [OF assms(1)] create_ok [OF assms(1)] assms(3) by metis
qed

lemma find_answer_inert:
  assumes "good (cand_adapter c)" and "find_answer self c key d s = (r, s2)"
  shows "live (world s2) = live (world s)"
proof -
  have s2: "s2 = snd (find_answer self c key d s)" using assms(2) by simp
  show ?thesis
    using call_adapter_world [of self False "find_by_idempotency_key (cand_adapter c)
        (call_context_of self c) key" "log_event (Reconciliation_Started d (cand_slug c) key) s"]
      find_inert [OF assms(1)] unfolding s2 find_answer_def by fastforce
qed

lemma find_answer_absent:
  assumes "good (cand_adapter c)" and "find_answer self c key d s = (r, s2)"
    and "outcome r = NO_AVAILABILITY"
  shows "\<not> landed (world s) (slug (cand_adapter c)) key"
proof -
  let ?f = "find_by_idempotency_key (cand_adapter c) (call_context_of self c) key"
  let ?s = "log_event (Reconciliation_Started d (cand_slug c) key) s"
  have r: "r = fst (call_adapter self False ?f ?s)" using assms(2) by (simp add: find_answer_def)
  from call_adapter_outcome [of self False ?f ?s] assms(3) r
  have "ending (?f (world s)) = Returned r" by auto
  then show ?thesis using find_negative [OF assms(1)] assms(3) by blast
qed

text \<open>
  A create whose answer was lost is clean exactly when the reconciliation read proves it.
\<close>

lemma timed_out_then_absent:
  assumes "good (cand_adapter c)" and "create_answer self c sl cat name phone decision s = (r, s1)"
    and "\<not> landed (world s1) (slug (cand_adapter c)) (booking_key self c sl cat)"
  shows "live (world s1) = live (world s)"
proof -
  have s1: "s1 = snd (create_answer self c sl cat name phone decision s)" using assms(2) by simp
  have key: "breq_key (request_for self c sl cat name phone) = booking_key self c sl cat"
    by (simp add: request_for_def)
  show ?thesis
    using call_adapter_world [of self True "create_booking (cand_adapter c) (call_context_of self c)
            (request_for self c sl cat name phone)" "snd (decided decision s)"]
      create_missing [OF assms(1), of "call_context_of self c"
            "request_for self c sl cat name phone" "world s" "world s1"] assms(3) key
    unfolding s1 create_answer_def by auto
qed

lemma book_live:
  assumes good: "good (cand_adapter c)"
  shows "live (world (snd (book self c sl cat name phone decision s))) \<le> live (world s) + 1"
    and "book_status (fst (book self c sl cat name phone decision s)) = FAILED \<Longrightarrow>
         live (world (snd (book self c sl cat name phone decision s))) = live (world s)"
proof -
  obtain r s1 where cr: "create_answer self c sl cat name phone decision s = (r, s1)" by fastforce
  note once = create_answer_live [OF good cr]
  let ?d = "fst (decided decision s)" and ?key = "booking_key self c sl cat"
  let ?s2 = "after_create c cat ?key ?d r s1"
  obtain f s3 where fa: "find_answer self c ?key ?d ?s2 = (f, s3)" by fastforce
  have s3: "live (world s3) = live (world s1)" using find_answer_inert [OF good fa] by simp
  have *: "live (world (snd (book self c sl cat name phone decision s))) \<le> live (world s) + 1 \<and>
    (book_status (fst (book self c sl cat name phone decision s)) = FAILED \<longrightarrow>
     live (world (snd (book self c sl cat name phone decision s))) = live (world s))"
  proof (cases "outcome r = TIMEOUT")
    case True
    note bt = book_timeout [OF cr True]
    show ?thesis
    proof (cases rule: reconcile_cases [of self c ?key ?d ?s2])
      case (landed rec)
      then show ?thesis using once s3 fa
        by (simp add: bt reconcile_booked [OF fa] booked_def)
    next
      case absent
      then have "live (world s1) = live (world s)"
        using timed_out_then_absent [OF good cr] find_answer_absent [OF good fa] fa by simp
      then show ?thesis using s3 fa absent by (simp add: bt reconcile_absent [OF fa])
    next
      case unknown
      then show ?thesis using once s3 fa
        by (simp add: bt reconcile_unknown [OF fa] book_uncertain_def)
    qed
  next
    case False
    then consider (made) ref where "outcome r = OK" "data r = Some ref"
      | (clean) "outcome r \<noteq> OK" "live (world s1) = live (world s)"
      using create_answer_clean [OF good cr] by blast
    then show ?thesis
    proof cases
      case made
      then show ?thesis using once by (simp add: book_ok [OF cr] booked_def)
    next
      case clean
      then show ?thesis using book_clean(2) [OF cr False] by simp
    qed
  qed
  then show "live (world (snd (book self c sl cat name phone decision s))) \<le> live (world s) + 1"
    and "book_status (fst (book self c sl cat name phone decision s)) = FAILED \<Longrightarrow>
         live (world (snd (book self c sl cat name phone decision s))) = live (world s)"
    by auto
qed

end

end
