(* ===== verification/Fakes.thy ===== *)
theory Fakes
  imports Cascade_Contract "HOL-Library.AList"
begin

text \<open>
  The fake adapters, \<^verbatim>\<open>mawjood/core/aggregators/fake/__init__.py\<close>. They are the only
  adapters of the repository that book anything, and the doubles the cascade is tested
  against; here they are the model on which the contracts of the cascade are interpreted.

  The world of the fakes holds every fake's \<open>created\<close> dictionary (one table keyed by slug and
  idempotency key), the calls made, a counter for \<open>uuid4\<close>, and the draws of the seeded
  generator of \<open>FlakyFake\<close>. A \<open>style\<close> says how a UUID and an instant are printed.
\<close>

record style =
  hex :: "nat \<Rightarrow> string"
  iso :: "instant \<Rightarrow> string"

record fake_world =
  created :: "((string \<times> idempotency_key) \<times> booking_ref) list"
  calls :: "(string \<times> string) list"
  next_uuid :: nat
  draws :: "nat \<Rightarrow> real"
  drawn :: nat

definition all_true_capabilities :: capabilities where
  "all_true_capabilities = \<lparr>can_search = True, can_book = True, can_reschedule = True,
     can_cancel = True, can_pick_staff = True, honours_idempotency = True\<rparr>"

definition record_call :: "string \<Rightarrow> string \<Rightarrow> fake_world \<Rightarrow> fake_world" where
  "record_call self_slug method w = w\<lparr>calls := calls w @ [(self_slug, method)]\<rparr>"

definition fake_slot ::
    "style \<Rightarrow> call_context \<Rightarrow> availability_request \<Rightarrow> int \<Rightarrow> real \<Rightarrow> string option \<Rightarrow> slot" where
  "fake_slot st ctx req offset_minutes price staff =
     (let start = window_start req + minutes offset_minutes; m = ctx_merchant ctx in
      \<lparr>slot_id = platform_slug m @ ''-'' @ iso st start, slot_start = start,
       slot_end = start + minutes 45, venue_name = display_name m, service_name = req_service req,
       slot_merchant = m, staff_name = staff, price_amount = Some price,
       price_currency = Some ''AED'', slot_area = py_or (merchant_area m) (req_area req),
       requires_deposit = False\<rparr>)"

text \<open>A call that stalls first and acts after; cancelled while it stalls, it has only been recorded.\<close>

definition stalled ::
    "nat \<Rightarrow> 'a result \<Rightarrow> fake_world \<Rightarrow> fake_world \<Rightarrow> ('a, fake_world) call" where
  "stalled delay r w_after w_recorded =
     \<lparr>elapsed = delay, ending = Returned r, world_after = w_after, world_cut = (\<lambda>_. w_recorded)\<rparr>"

definition base_search ::
    "style \<Rightarrow> string \<Rightarrow> nat \<Rightarrow> call_context \<Rightarrow> availability_request \<Rightarrow> fake_world
       \<Rightarrow> (slot list, fake_world) call" where
  "base_search st self_slug delay ctx req w =
     (let w' = record_call self_slug ''search_availability'' w in
      stalled delay (result_of OK (Some [fake_slot st ctx req 0 120 None]) None 10) w' w')"

definition new_ref :: "style \<Rightarrow> string \<Rightarrow> call_context \<Rightarrow> fake_world \<Rightarrow> booking_ref \<times> fake_world" where
  "new_ref st self_slug ctx w =
     (\<lparr>external_id = self_slug @ ''-'' @ take 10 (hex st (next_uuid w)), ref_platform = self_slug,
       ref_merchant = ctx_merchant ctx,
       confirmation_code = Some (upper (take 6 (hex st (Suc (next_uuid w)))))\<rparr>,
      w\<lparr>next_uuid := next_uuid w + 2\<rparr>)"

definition store_ref ::
    "string \<Rightarrow> idempotency_key \<Rightarrow> booking_ref \<Rightarrow> fake_world \<Rightarrow> fake_world" where
  "store_ref self_slug key ref w = w\<lparr>created := AList.update (self_slug, key) ref (created w)\<rparr>"

definition base_create ::
    "style \<Rightarrow> string \<Rightarrow> nat \<Rightarrow> call_context \<Rightarrow> booking_request \<Rightarrow> fake_world
       \<Rightarrow> (booking_ref, fake_world) call" where
  "base_create st self_slug delay ctx req w =
     (let w' = record_call self_slug ''create_booking'' w in
      case map_of (created w) (self_slug, breq_key req) of
        Some existing \<Rightarrow> stalled delay (result_of OK (Some existing) None 5) w' w'
      | None \<Rightarrow>
          let (ref, w2) = new_ref st self_slug ctx w' in
          stalled delay (result_of OK (Some ref) None 20)
            (store_ref self_slug (breq_key req) ref w2) w')"

definition confirmed_record :: "booking_ref \<Rightarrow> booking_record" where
  "confirmed_record ref = \<lparr>record_ref = ref, record_status = ''confirmed'',
     record_slot_start = None, record_slot_end = None, record_venue_name = None,
     record_service_name = None\<rparr>"

definition at_once :: "'a result \<Rightarrow> fake_world \<Rightarrow> ('a, fake_world) call" where
  "at_once r w = stalled 0 r w w"

definition base_get ::
    "string \<Rightarrow> call_context \<Rightarrow> booking_ref \<Rightarrow> fake_world \<Rightarrow> (booking_record, fake_world) call" where
  "base_get self_slug ctx ref w =
     at_once (case next_such (\<lambda>((p, _), stored). p = self_slug \<and> external_id stored = external_id ref)
                     (created w) of
                Some (_, stored) \<Rightarrow> result_of OK (Some (confirmed_record stored)) None 8
              | None \<Rightarrow> result_of NO_AVAILABILITY None None 8)
       (record_call self_slug ''get_booking'' w)"

definition base_find ::
    "string \<Rightarrow> call_context \<Rightarrow> idempotency_key \<Rightarrow> fake_world \<Rightarrow> (booking_record, fake_world) call" where
  "base_find self_slug ctx key w =
     at_once (case map_of (created w) (self_slug, key) of
                None \<Rightarrow> result_of NO_AVAILABILITY None None 8
              | Some stored \<Rightarrow> result_of OK (Some (confirmed_record stored)) None 8)
       (record_call self_slug ''find_by_idempotency_key'' w)"

definition base_fake :: "style \<Rightarrow> string \<Rightarrow> nat \<Rightarrow> fake_world adapter" where
  "base_fake st self_slug delay = \<lparr>
     slug = self_slug, categories = all_category, capabilities = all_true_capabilities,
     search_availability = base_search st self_slug delay,
     create_booking = base_create st self_slug delay,
     get_booking = base_get self_slug,
     find_by_idempotency_key = base_find self_slug,
     reschedule = (\<lambda>ctx ref sl w. at_once (result_of OK (Some ref) None 15)
                     (record_call self_slug ''reschedule'' w)),
     cancel = (\<lambda>ctx ref why w. at_once (result_of OK None None 10)
                 (record_call self_slug ''cancel'' w)),
     health = (\<lambda>ctx w. at_once (result_of OK None None 2) (record_call self_slug ''health'' w))\<rparr>"

text \<open>A method that answers without acting.\<close>

definition answers_with ::
    "nat \<Rightarrow> 'a result \<Rightarrow> string \<Rightarrow> string \<Rightarrow> fake_world \<Rightarrow> ('a, fake_world) call" where
  "answers_with delay r self_slug method w =
     (let w' = record_call self_slug method w in stalled delay r w' w')"

definition happy_fake :: "style \<Rightarrow> nat \<Rightarrow> fake_world adapter" where
  "happy_fake st delay = (base_fake st ''fake_happy'' delay)\<lparr>
     search_availability := (\<lambda>ctx req. answers_with delay (result_of OK
        (Some [fake_slot st ctx req 0 120 (Some ''Rania''), fake_slot st ctx req 30 120 (Some ''Mei''),
               fake_slot st ctx req 60 140 (Some ''Rania'')]) None 120)
        ''fake_happy'' ''search_availability'')\<rparr>"

definition empty_fake :: "style \<Rightarrow> nat \<Rightarrow> fake_world adapter" where
  "empty_fake st delay = (base_fake st ''fake_empty'' delay)\<lparr>
     search_availability := (\<lambda>ctx req. answers_with delay (result_of NO_AVAILABILITY None None 90)
        ''fake_empty'' ''search_availability''),
     create_booking := (\<lambda>ctx req. answers_with 0 (result_of NO_AVAILABILITY None None 40)
        ''fake_empty'' ''create_booking'')\<rparr>"

definition landed_ref :: "style \<Rightarrow> string \<Rightarrow> call_context \<Rightarrow> fake_world \<Rightarrow> booking_ref \<times> fake_world" where
  "landed_ref st self_slug ctx w =
     (\<lparr>external_id = self_slug @ ''-landed-'' @ take 8 (hex st (next_uuid w)),
       ref_platform = self_slug, ref_merchant = ctx_merchant ctx, confirmation_code = None\<rparr>,
      w\<lparr>next_uuid := Suc (next_uuid w)\<rparr>)"

definition timeout_create ::
    "style \<Rightarrow> string \<Rightarrow> nat \<Rightarrow> bool \<Rightarrow> call_context \<Rightarrow> booking_request \<Rightarrow> fake_world
       \<Rightarrow> (booking_ref, fake_world) call" where
  "timeout_create st self_slug delay lands_anyway ctx req w =
     (let w' = record_call self_slug ''create_booking'' w;
          w_after = (if lands_anyway
                     then let (ref, w2) = landed_ref st self_slug ctx w'
                          in store_ref self_slug (breq_key req) ref w2
                     else w')
      in stalled delay (result_of TIMEOUT None
           (Some ''ReadTimeout after 2500ms on POST /bookings'') 2500) w_after w')"

definition timeout_fake :: "style \<Rightarrow> string \<Rightarrow> nat \<Rightarrow> bool \<Rightarrow> fake_world adapter" where
  "timeout_fake st self_slug delay lands_anyway = (base_fake st self_slug delay)\<lparr>
     search_availability := (\<lambda>ctx req. answers_with delay (result_of TIMEOUT None
        (Some ''ReadTimeout after 2500ms on GET /slots'') 2500) self_slug ''search_availability''),
     create_booking := timeout_create st self_slug delay lands_anyway\<rparr>"

definition inconclusive_fake :: "style \<Rightarrow> nat \<Rightarrow> bool \<Rightarrow> fake_world adapter" where
  "inconclusive_fake st delay lands_anyway =
     (timeout_fake st ''fake_inconclusive'' delay lands_anyway)\<lparr>
       find_by_idempotency_key := (\<lambda>ctx key. answers_with 0 (result_of TIMEOUT None
          (Some ''reconciliation read also timed out'') 900)
          ''fake_inconclusive'' ''find_by_idempotency_key'')\<rparr>"

definition should_fail :: "real \<Rightarrow> fake_world \<Rightarrow> bool \<times> fake_world" where
  "should_fail failure_rate w = (draws w (drawn w) < failure_rate, w\<lparr>drawn := Suc (drawn w)\<rparr>)"

definition flaky_search ::
    "style \<Rightarrow> real \<Rightarrow> call_context \<Rightarrow> availability_request \<Rightarrow> fake_world
       \<Rightarrow> (slot list, fake_world) call" where
  "flaky_search st failure_rate ctx req w =
     (let (fails, w') = should_fail failure_rate (record_call ''fake_flaky'' ''search_availability'' w)
      in at_once (if fails then result_of UPSTREAM_ERROR None (Some ''502 Bad Gateway'') 300
                  else result_of OK (Some [fake_slot st ctx req 0 95 None]) None 180) w')"

definition flaky_create ::
    "style \<Rightarrow> real \<Rightarrow> call_context \<Rightarrow> booking_request \<Rightarrow> fake_world
       \<Rightarrow> (booking_ref, fake_world) call" where
  "flaky_create st failure_rate ctx req w =
     (let (fails, w') = should_fail failure_rate (record_call ''fake_flaky'' ''create_booking'' w)
      in if fails then at_once (result_of UPSTREAM_ERROR None (Some ''503 Service Unavailable'') 250) w'
         else base_create st ''fake_flaky'' 0 ctx req w')"

definition flaky_fake :: "style \<Rightarrow> real \<Rightarrow> fake_world adapter" where
  "flaky_fake st failure_rate = (base_fake st ''fake_flaky'' 0)\<lparr>
     search_availability := flaky_search st failure_rate,
     create_booking := flaky_create st failure_rate\<rparr>"

definition auth_fail_fake :: "style \<Rightarrow> nat \<Rightarrow> fake_world adapter" where
  "auth_fail_fake st delay = (base_fake st ''fake_auth'' delay)\<lparr>
     search_availability := (\<lambda>ctx req. answers_with 0 (result_of AUTH_ERROR None
        (Some ''401 Unauthorized: key revoked'') 60) ''fake_auth'' ''search_availability''),
     create_booking := (\<lambda>ctx req. answers_with 0 (result_of AUTH_ERROR None
        (Some ''401 Unauthorized'') 60) ''fake_auth'' ''create_booking'')\<rparr>"

definition unsupported_fake :: "style \<Rightarrow> nat \<Rightarrow> fake_world adapter" where
  "unsupported_fake st delay = (base_fake st ''fake_unsupported'' delay)\<lparr>
     capabilities := all_true_capabilities\<lparr>can_search := False, can_book := False,
        can_reschedule := False, can_cancel := False, can_pick_staff := False,
        honours_idempotency := False\<rparr>,
     search_availability := (\<lambda>ctx req. answers_with 0 (result_of UNSUPPORTED None None 1)
        ''fake_unsupported'' ''search_availability''),
     create_booking := (\<lambda>ctx req. answers_with 0 (result_of UNSUPPORTED None None 1)
        ''fake_unsupported'' ''create_booking'')\<rparr>"

definition rate_limited_fake :: "style \<Rightarrow> nat \<Rightarrow> fake_world adapter" where
  "rate_limited_fake st delay = (base_fake st ''fake_rate_limited'' delay)\<lparr>
     search_availability := (\<lambda>ctx req. answers_with 0 (result_of RATE_LIMITED None
        (Some ''429 Too Many Requests'') 30) ''fake_rate_limited'' ''search_availability'')\<rparr>"

definition low_confidence_fake :: "style \<Rightarrow> nat \<Rightarrow> fake_world adapter" where
  "low_confidence_fake st delay = (base_fake st ''fake_low_confidence'' delay)\<lparr>
     search_availability := (\<lambda>ctx req. answers_with 0 (result_of LOW_CONFIDENCE
        (Some [fake_slot st ctx req 0 110 None])
        (Some ''fuzzy service-name match below threshold'') 140)
        ''fake_low_confidence'' ''search_availability'')\<rparr>"

subsection \<open>The fakes keep the contract\<close>

text \<open>Any of the fakes, with any name, delay, failure rate and way of printing.\<close>

inductive is_fake :: "fake_world adapter \<Rightarrow> bool" where
  base: "is_fake (base_fake st nm delay)"
| happy: "is_fake (happy_fake st delay)"
| empty: "is_fake (empty_fake st delay)"
| timeout: "is_fake (timeout_fake st nm delay lands)"
| inconclusive: "is_fake (inconclusive_fake st delay lands)"
| flaky: "is_fake (flaky_fake st rate)"
| auth_fail: "is_fake (auth_fail_fake st delay)"
| unsupported: "is_fake (unsupported_fake st delay)"
| rate_limited: "is_fake (rate_limited_fake st delay)"
| low_confidence: "is_fake (low_confidence_fake st delay)"

definition fake_live :: "fake_world \<Rightarrow> nat" where
  "fake_live w = length (created w)"

definition fake_landed :: "fake_world \<Rightarrow> string \<Rightarrow> idempotency_key \<Rightarrow> bool" where
  "fake_landed w p key = (map_of (created w) (p, key) \<noteq> None)"

lemmas fake_defs = base_fake_def happy_fake_def empty_fake_def timeout_fake_def
  inconclusive_fake_def flaky_fake_def auth_fail_fake_def unsupported_fake_def
  rate_limited_fake_def low_confidence_fake_def

lemmas fake_ops = answers_with_def stalled_def at_once_def Let_def leaves_def record_call_def
  base_search_def base_find_def flaky_search_def should_fail_def

lemma length_alist_update:
  "length (AList.update k v xs) = (if map_of xs k = None then Suc (length xs) else length xs)"
  by (induction xs) auto

lemma store_ref_live:
  "fake_live (store_ref p k ref w) = (if fake_landed w p k then fake_live w else Suc (fake_live w))"
  by (simp add: store_ref_def fake_live_def fake_landed_def length_alist_update)

lemma store_ref_landed: "fake_landed (store_ref p k ref w) p k"
  by (simp add: store_ref_def fake_landed_def update_conv)

lemma fake_frames [simp]:
  "created (record_call p m w) = created w" "created (snd (new_ref st p ctx w)) = created w"
  "created (snd (landed_ref st p ctx w)) = created w" "created (snd (should_fail rate w)) = created w"
  by (simp_all add: record_call_def new_ref_def landed_ref_def should_fail_def)

lemma created_store_ref [simp]:
  "created (store_ref p k ref w) = AList.update (p, k) ref (created w)"
  by (simp add: store_ref_def)

text \<open>What each fake's create is.\<close>

lemma fake_creates:
  "create_booking (base_fake st nm delay) = base_create st nm delay"
  "create_booking (happy_fake st delay) = base_create st ''fake_happy'' delay"
  "create_booking (rate_limited_fake st delay) = base_create st ''fake_rate_limited'' delay"
  "create_booking (low_confidence_fake st delay) = base_create st ''fake_low_confidence'' delay"
  "create_booking (timeout_fake st nm delay lands) = timeout_create st nm delay lands"
  "create_booking (inconclusive_fake st delay lands) =
     timeout_create st ''fake_inconclusive'' delay lands"
  "create_booking (flaky_fake st rate) = flaky_create st rate"
  by (simp_all add: fake_defs)

lemma fake_create_refusals:
  "create_booking (empty_fake st delay) = (\<lambda>ctx req. answers_with 0
     (result_of NO_AVAILABILITY None None 40) ''fake_empty'' ''create_booking'')"
  "create_booking (auth_fail_fake st delay) = (\<lambda>ctx req. answers_with 0
     (result_of AUTH_ERROR None (Some ''401 Unauthorized'') 60) ''fake_auth'' ''create_booking'')"
  "create_booking (unsupported_fake st delay) = (\<lambda>ctx req. answers_with 0
     (result_of UNSUPPORTED None None 1) ''fake_unsupported'' ''create_booking'')"
  by (simp_all add: fake_defs)

lemma fake_slugs:
  "slug (base_fake st nm delay) = nm" "slug (happy_fake st delay) = ''fake_happy''"
  "slug (rate_limited_fake st delay) = ''fake_rate_limited''"
  "slug (low_confidence_fake st delay) = ''fake_low_confidence''"
  "slug (timeout_fake st nm delay lands) = nm"
  "slug (inconclusive_fake st delay lands) = ''fake_inconclusive''"
  "slug (flaky_fake st rate) = ''fake_flaky''"
  by (simp_all add: fake_defs)

lemma fake_search_created:
  assumes "is_fake a" and "leaves (search_availability a ctx req w) w'"
  shows "created w' = created w"
  using assms by (cases rule: is_fake.cases) (auto simp: fake_defs fake_ops split_def)

lemma fake_find_created:
  assumes "is_fake a" and "leaves (find_by_idempotency_key a ctx k w) w'"
  shows "created w' = created w"
  using assms by (cases rule: is_fake.cases) (auto simp: fake_defs fake_ops)

lemma fake_find_negative:
  assumes "is_fake a" and "ending (find_by_idempotency_key a ctx k w) = Returned r"
    and "outcome r = NO_AVAILABILITY"
  shows "\<not> fake_landed w (slug a) k"
  using assms
  by (cases rule: is_fake.cases)
     (auto simp: fake_defs fake_ops fake_landed_def result_of_def split: option.splits)

text \<open>The creates that act; every other one only answers.\<close>

lemma created_once:
  assumes "created w' = created w \<or> created w' = AList.update (p, k) ref (created w)"
  shows "created w' = created w \<or> (fake_landed w' p k \<and> fake_live w' \<le> Suc (fake_live w))"
  using assms by (auto simp: fake_landed_def fake_live_def length_alist_update update_conv)

lemma base_create_contract:
  assumes "leaves (base_create st p delay ctx rq w) w'"
  shows "\<exists>ref. created w' = created w \<or> created w' = AList.update (p, breq_key rq) ref (created w)"
  using assms
  by (auto simp: base_create_def Let_def split_def stalled_def leaves_def split: option.splits)

lemma timeout_create_contract:
  assumes "leaves (timeout_create st p delay lands ctx rq w) w'"
  shows "\<exists>ref. created w' = created w \<or> created w' = AList.update (p, breq_key rq) ref (created w)"
  using assms
  by (auto simp: timeout_create_def Let_def split_def stalled_def leaves_def split: if_splits)

lemma flaky_create_contract:
  assumes "leaves (flaky_create st rate ctx rq w) w'"
  shows "\<exists>ref. created w' = created w \<or>
           created w' = AList.update (''fake_flaky'', breq_key rq) ref (created w)"
proof (cases "fst (should_fail rate (record_call ''fake_flaky'' ''create_booking'' w))")
  case True
  with assms show ?thesis
    by (auto simp: flaky_create_def split_def at_once_def stalled_def leaves_def Let_def)
next
  case False
  with assms have "leaves (base_create st ''fake_flaky'' 0 ctx rq
      (snd (should_fail rate (record_call ''fake_flaky'' ''create_booking'' w)))) w'"
    by (simp add: flaky_create_def split_def Let_def)
  from base_create_contract [OF this] show ?thesis by simp
qed

lemma answers_with_created:
  "leaves (answers_with delay r p m w) w' \<Longrightarrow> created w' = created w"
  by (auto simp: answers_with_def stalled_def leaves_def Let_def)

lemma fake_create_contract:
  assumes "is_fake a" and lv: "leaves (create_booking a ctx rq w) w'"
  shows "created w' = created w \<or>
         (fake_landed w' (slug a) (breq_key rq) \<and> fake_live w' \<le> Suc (fake_live w))"
proof -
  have "\<exists>ref. created w' = created w \<or>
          created w' = AList.update (slug a, breq_key rq) ref (created w)"
    using assms
  proof cases
    case (empty st delay)
    then show ?thesis using lv answers_with_created by (auto simp: fake_create_refusals)
  next
    case (auth_fail st delay)
    then show ?thesis using lv answers_with_created by (auto simp: fake_create_refusals)
  next
    case (unsupported st delay)
    then show ?thesis using lv answers_with_created by (auto simp: fake_create_refusals)
  qed (use lv base_create_contract timeout_create_contract flaky_create_contract
        in \<open>simp only: fake_creates fake_slugs; blast\<close>)+
  then show ?thesis using created_once by blast
qed

text \<open>A create that says neither OK nor TIMEOUT has created nothing, and OK has its reference.\<close>

definition honest :: "(booking_ref, fake_world) call \<Rightarrow> fake_world \<Rightarrow> bool" where
  "honest c w \<longleftrightarrow> (\<exists>r. ending c = Returned r \<and> (outcome r = OK \<longrightarrow> data r \<noteq> None) \<and>
     (outcome r \<noteq> OK \<longrightarrow> outcome r \<noteq> TIMEOUT \<longrightarrow> created (world_after c) = created w))"

lemma base_create_honest: "honest (base_create st p delay ctx rq w) w"
  by (auto simp: honest_def base_create_def Let_def split_def stalled_def result_of_def
        split: option.splits)

lemma timeout_create_honest: "honest (timeout_create st p delay lands ctx rq w) w"
  by (simp add: honest_def timeout_create_def Let_def stalled_def result_of_def)

lemma flaky_create_honest: "honest (flaky_create st rate ctx rq w) w"
  using base_create_honest [of st "''fake_flaky''" 0 ctx rq
      "snd (should_fail rate (record_call ''fake_flaky'' ''create_booking'' w))"]
  by (auto simp: honest_def flaky_create_def split_def at_once_def stalled_def Let_def result_of_def)

lemma answers_with_honest: "outcome r \<noteq> OK \<Longrightarrow> honest (answers_with delay r p m w) w"
  by (simp add: honest_def answers_with_def stalled_def Let_def)

lemma fake_create_honest: "is_fake a \<Longrightarrow> honest (create_booking a ctx rq w) w"
  by (erule is_fake.cases)
     (simp_all add: fake_creates fake_create_refusals base_create_honest timeout_create_honest
        flaky_create_honest answers_with_honest)

interpretation fakes: booking_contract fake_live fake_landed is_fake
proof (unfold_locales, goal_cases)
  case (1 a ctx req w w')
  then show ?case by (simp add: fake_live_def fake_search_created)
next
  case (2 a ctx k w w')
  then show ?case by (simp add: fake_live_def fake_find_created)
next
  case (3 a ctx k w f)
  then show ?case by (rule fake_find_negative)
next
  case (4 a ctx rq w w')
  then show ?case using fake_create_contract [of a ctx rq w w'] by (auto simp: fake_live_def)
next
  case (5 a ctx rq w w')
  then show ?case using fake_create_contract [of a ctx rq w w'] by (auto simp: fake_live_def)
next
  case (6 a ctx rq w r)
  then show ?case using fake_create_honest [of a ctx rq w] by (auto simp: honest_def fake_live_def)
next
  case (7 a ctx rq w r)
  then show ?case using fake_create_honest [of a ctx rq w] by (auto simp: honest_def)
next
  case (8 a ctx rq w e)
  then show ?case using fake_create_honest [of a ctx rq w] by (auto simp: honest_def)
qed

end
