(* ===== verification/Samples.thy ===== *)
theory Samples
  imports Fakes
begin

text \<open>
  Concrete objects on which the theorems with hypotheses are exercised: a fake world, a
  merchant, a candidate, a slot, a request, a cascade with four seconds and its run.
\<close>

definition sample_style :: style where
  "sample_style = \<lparr>hex = (\<lambda>n. replicate n CHR ''a''), iso = (\<lambda>_. ''t'')\<rparr>"

definition sample_world :: fake_world where
  "sample_world = \<lparr>created = [], calls = [], next_uuid = 0, draws = (\<lambda>_. 0), drawn = 0\<rparr>"

definition sample_merchant :: "string \<Rightarrow> merchant_ref" where
  "sample_merchant p = \<lparr>platform_slug = p, merchant_id = 1, display_name = ''Salon'',
     external_ids = [], merchant_area = None\<rparr>"

definition sample_candidate :: "fake_world adapter \<Rightarrow> fake_world candidate" where
  "sample_candidate a = \<lparr>cand_adapter = a, cand_merchant = sample_merchant (slug a),
     cand_credentials = []\<rparr>"

definition sample_slot :: slot where
  "sample_slot = \<lparr>slot_id = ''s'', slot_start = 0, slot_end = 1, venue_name = ''Salon'',
     service_name = ''cut'', slot_merchant = sample_merchant ''p'', staff_name = None,
     price_amount = None, price_currency = None, slot_area = None, requires_deposit = False\<rparr>"

definition sample_request :: availability_request where
  "sample_request = \<lparr>req_category = category.SALON, req_service = ''cut'', window_start = 0,
     window_end = 1, req_area = None, party_size = 1, staff_preference = None\<rparr>"

definition sample_cascade :: cascade where
  "sample_cascade = new_cascade 0 (in_ms 0 4000) 1 2 ''corr''"

definition sample_run :: "fake_world run" where
  "sample_run = \<lparr>clock = 0, fresh = 0, trail = [], alerts = [], world = sample_world\<rparr>"

end
