(* ===== verification/Cascade_Props.thy ===== *)
theory Cascade_Props
  imports Samples
begin

text \<open>
  The properties of the fallback cascade: what a search promises the caller, how long it may
  take, what its audit trail records, what a booking attempt concludes, and how many bookings
  it can leave upstream.
\<close>

subsection \<open>Searching\<close>

text \<open>C2. A search serves the first candidate with a usable answer; failing that, the first
  low-confidence one, hedged; failing that, it reports the candidates it had no time for, or is
  exhausted. The candidates are asked in order, without skipping any.\<close>

theorem search_serves_in_order:
  "fst (search self cs req s) = select (fresh s) cs (answers self cs req s) \<and>
   map fst (answers self cs req s) = take (length (answers self cs req s)) cs"
  using search_selects observe_prefix unfolding answers_def by blast



text \<open>C6. The audit trail reconstructs the walk: the attempts a search records are numbered
  1, 2, \<dots> without gaps, and their platforms are the ones the outcome reports as attempted.\<close>

theorem search_is_reconstructable:
  "\<exists>n. attempts_in (trail (snd (search self cs req s)))
         = attempts_in (trail s) @ numbered 0 (answers self cs req s)
     \<and> map fst (numbered 0 (answers self cs req s)) = [1 ..< 1 + n]
     \<and> map (\<lambda>(_, p, _). p) (numbered 0 (answers self cs req s))
         = attempted (fst (search self cs req s))"
  using numbered_numbers [of 0 "answers self cs req s"]
  by (intro exI [of _ "length (answers self cs req s)"])
     (simp add: search_trail numbered_platforms search_selects)

subsection \<open>Booking\<close>

text \<open>C4. The verdict of a booking attempt. OK with a reference is BOOKED; a create that timed
  out is never believed either way: it is BOOKED, FAILED or UNCERTAIN as the reconciliation
  read says, and UNCERTAIN carries a handoff reason; any other answer is a clean failure.\<close>

theorem book_reaches_the_verdict:
  "let (r, s1) = create_answer self c sl cat name phone decision s;
       key = booking_key self c sl cat;
       f = fst (find_answer self c key (fst (decided decision s))
                  (after_create c cat key (fst (decided decision s)) r s1));
       b = fst (book self c sl cat name phone decision s)
   in (book_status b, booked_ref b, book_handoff_reason b) = verdict r f"
  by (rule book_verdict)

text \<open>C7. A booking whose outcome could not be determined is never silent: it always raises a
  CRITICAL alert for the platform and decision, after every alert raised before.\<close>

theorem uncertain_booking_alerts:
  assumes "book_status (fst (book self c sl cat name phone decision s)) = UNCERTAIN"
  shows "alerts (snd (book self c sl cat name phone decision s)) = alerts s @
    [\<lparr>alert_kind = RECONCILIATION_INCONCLUSIVE_ALERT, alert_severity = CRITICAL,
      alert_platform = cand_slug c, alert_merchant = cand_str c,
      alert_decision = Some (fst (decided decision s))\<rparr>]"
proof -
  obtain r s1 where cr: "create_answer self c sl cat name phone decision s = (r, s1)" by fastforce
  have al: "alerts s1 = alerts s"
    using call_adapter_frame(2) cr decided_simps(3) unfolding create_answer_def by (metis snd_conv)
  let ?d = "fst (decided decision s)" and ?key = "booking_key self c sl cat"
  let ?s2 = "after_create c cat ?key ?d r s1"
  obtain f s3 where fa: "find_answer self c ?key ?d ?s2 = (f, s3)" by fastforce
  have to: "outcome r = TIMEOUT"
  proof (rule ccontr)
    assume no: "outcome r \<noteq> TIMEOUT"
    show False
    proof (cases "outcome r = OK \<and> data r \<noteq> None")
      case True
      then show False using assms by (auto simp: book_ok [OF cr] booked_def)
    next
      case False
      then have "outcome r = OK \<Longrightarrow> data r = None" by blast
      from book_clean(1) [OF cr no this] assms show False by (simp add: book_failed_def)
    qed
  qed
  note bt = book_timeout [OF cr to]
  show ?thesis
    using assms fa al
    by (cases rule: reconcile_cases [of self c ?key ?d ?s2])
       (simp_all add: bt reconcile_booked [OF fa] reconcile_absent [OF fa] reconcile_unknown [OF fa]
          outcome_records)
qed

theorem uncertain_booking_alerts_witness:
  "alerts (snd (book sample_cascade (sample_candidate (inconclusive_fake sample_style 0 True))
     sample_slot category.SALON None None None sample_run)) =
    [\<lparr>alert_kind = RECONCILIATION_INCONCLUSIVE_ALERT, alert_severity = CRITICAL,
      alert_platform = ''fake_inconclusive'', alert_merchant = ''fake_inconclusive:Salon'',
      alert_decision = Some 0\<rparr>]"
proof -
  let ?c = "sample_candidate (inconclusive_fake sample_style 0 True)"
  have "book_status (fst (book sample_cascade ?c sample_slot category.SALON None None None sample_run))
          = UNCERTAIN" by code_simp
  from uncertain_booking_alerts [OF this] show ?thesis
    by (simp add: sample_run_def decided_def new_decision_def sample_candidate_def cand_slug_def
          cand_str_def merchant_str_def sample_merchant_def inconclusive_fake_def timeout_fake_def
          base_fake_def)
qed

text \<open>C3. Against any of the fakes, however it misbehaves, one booking attempt leaves at most one
  booking upstream, and an attempt reported as FAILED has left none.\<close>

theorem book_lands_at_most_once:
  assumes "is_fake (cand_adapter c)"
  shows "let (b, s') = book self c sl cat name phone decision s in
    fake_live (world s') \<le> fake_live (world s) + 1 \<and>
    (if book_status b = FAILED then fake_live (world s') = fake_live (world s) else True)"
  using fakes.book_live [OF assms] by (simp add: split_def)

theorem book_lands_at_most_once_witness:
  "let (b, s') = book sample_cascade (sample_candidate (timeout_fake sample_style ''t'' 0 True))
                   sample_slot category.SALON None None None sample_run in
    fake_live (world s') \<le> fake_live (world sample_run) + 1 \<and>
    (if book_status b = FAILED then fake_live (world s') = fake_live (world sample_run) else True)"
  by (rule book_lands_at_most_once) (simp add: sample_candidate_def is_fake.timeout)

definition raising_fake :: "style \<Rightarrow> fake_world adapter" where
  "raising_fake st = (base_fake st ''fake_raising'' 0)\<lparr>
     create_booking := (\<lambda>ctx req w.
       let c = base_create st ''fake_raising'' 0 ctx req w in
       \<lparr>elapsed = 0, ending = Raised (Other_Exception ''ConnectionReset''),
         world_after = world_after c, world_cut = world_cut c\<rparr>)\<rparr>"

text \<open>The contract's clause that an adapter does not raise is needed: when a create lands
  upstream and then raises anything but a timeout, the attempt is reported as FAILED although
  a booking exists, and no reconciliation read is made.\<close>

theorem raised_create_is_reported_failed:
  "let (b, s') = book sample_cascade (sample_candidate (raising_fake sample_style))
                   sample_slot category.SALON None None None sample_run in
    book_status b = FAILED \<and> fake_live (world s') = 1 \<and>
    calls (world s') = [(''fake_raising'', ''create_booking'')]"
  by code_simp

end
