(* ===== verification/Models.thy ===== *)
theory Models
  imports Audit_Trail
begin

text \<open>
  The tables of \<^verbatim>\<open>mawjood/db/models.py\<close>, one record per table and one list of rows per table in
  \<open>store\<close>; a list is in insertion order, and a query's \<open>ORDER BY\<close> is explicit. Columns no
  modelled code reads (\<open>updated_at\<close> and the like) are left out. Ids are drawn from one counter,
  so an id is fresh in every table; \<open>tx_now\<close> is what \<open>now()\<close> is for the whole of the current
  transaction, the server default of the creation timestamps.

  A JSON value carries what the code reads from it: an ISO timestamp text is the instant it
  denotes, a UUID text the UUID.
\<close>

datatype json =
    JNull
  | JBool bool
  | JNum real
  | JStr string
  | JTime instant
  | JUuid uid

type_synonym json_object = "(string \<times> json) list"

text \<open>\<open>d.get(key)\<close>\<close>

definition json_get :: "json_object \<Rightarrow> string \<Rightarrow> json" where
  "json_get d key = (case map_of d key of None \<Rightarrow> JNull | Some v \<Rightarrow> v)"

text \<open>An optional text column read back from JSON.\<close>

fun text_of :: "json \<Rightarrow> string option" where
  "text_of (JStr s) = Some s"
| "text_of _ = None"

fun number_of :: "json \<Rightarrow> real option" where
  "number_of (JNum r) = Some r"
| "number_of _ = None"

definition json_text :: "string option \<Rightarrow> json" where
  "json_text x = (case x of None \<Rightarrow> JNull | Some s \<Rightarrow> JStr s)"

lemma text_of_json_text [simp]: "text_of (json_text x) = x"
  by (simp add: json_text_def split: option.splits)

record tenant =
  tenant_uid :: uid
  tenant_slug :: string
  tenant_name :: string
  default_locale :: string

record lead =
  lead_id :: uid
  lead_tenant :: uid
  wa_id :: string
  phone_e164 :: "string option"
  lead_display_name :: "string option"
  lead_locale :: string
  first_seen_at :: instant
  last_seen_at :: instant

record conversation =
  conv_id :: uid
  conv_tenant :: uid
  conv_lead :: uid
  conv_channel :: channel
  conv_status :: conversation_status
  conv_locale :: string
  bot_muted :: bool
  conv_state :: string
  collected_slots :: json_object
  pending_offer :: json_object
  last_activity_at :: instant

record message =
  msg_id :: uid
  msg_tenant :: uid
  msg_seq :: nat
  msg_conversation :: uid
  msg_lead :: uid
  msg_turn :: uid
  msg_direction :: direction
  msg_channel :: channel
  msg_status :: message_status
  msg_body :: string
  msg_locale :: string
  msg_phrasebank_key :: "string option"
  provider_message_id :: "string option"
  msg_sent_at :: "instant option"
  msg_created_at :: instant

record consent =
  con_id :: uid
  con_tenant :: uid
  con_lead :: uid
  con_conversation :: "uid option"
  con_event :: consent_event
  con_policy_version :: string
  con_wording :: string
  con_locale :: string
  con_channel :: channel
  con_evidence :: "uid option"
  con_occurred_at :: instant

record booking =
  bk_id :: uid
  bk_tenant :: uid
  bk_conversation :: uid
  bk_lead :: uid
  bk_category :: category
  bk_platform :: string
  bk_external_ref :: "string option"
  bk_key :: "uid \<times> string"
  bk_status :: booking_status
  bk_slot_start :: "instant option"
  bk_slot_end :: "instant option"
  bk_venue :: "string option"
  bk_price :: "real option"
  bk_currency :: "string option"
  bk_payment :: payment_status
  bk_confirmed_at :: "instant option"
  bk_created_at :: instant

record notification =
  sn_id :: uid
  sn_tenant :: uid
  sn_booking :: uid
  sn_conversation :: uid
  sn_lead :: uid
  sn_kind :: notification_kind
  sn_status :: notification_status
  sn_due_at :: instant
  sn_sent_at :: "instant option"
  sn_message :: "uid option"
  sn_attempts :: nat
  sn_last_attempt_at :: "instant option"
  sn_reason :: "string option"
  sn_template :: "string option"

record feedback =
  fb_id :: uid
  fb_tenant :: uid
  fb_conversation :: uid
  fb_lead :: uid
  fb_booking :: "uid option"
  fb_rating :: "int option"
  fb_comment :: "string option"
  fb_responded_at :: "instant option"

record attribution =
  at_id :: uid
  at_tenant :: uid
  at_lead :: uid
  at_conversation :: "uid option"
  at_source_code :: string
  at_medium :: attribution_medium
  at_first_touch :: bool
  at_raw_payload :: string

record routing_row =
  rc_id :: uid
  rc_tenant :: uid
  rc_category :: category
  rc_platform :: string
  rc_position :: int
  rc_enabled :: bool

record handoff =
  hq_id :: uid
  hq_tenant :: uid
  hq_conversation :: uid
  hq_lead :: uid
  hq_reason :: handoff_reason
  hq_status :: handoff_status
  hq_priority :: int
  hq_claimed_by :: "string option"
  hq_claimed_at :: "instant option"
  hq_resolved_at :: "instant option"
  hq_notes :: "string option"
  hq_created_at :: instant

record merchant_row =
  mc_id :: uid
  mc_tenant :: uid
  mc_platform :: string
  mc_name :: string
  mc_area :: "string option"
  mc_external_ids :: "(string \<times> string) list"
  mc_secret_ref :: "string option"
  mc_active :: bool
  mc_priority :: int

record store =
  tenants :: "tenant list"
  leads :: "lead list"
  conversations :: "conversation list"
  messages :: "message list"
  consents :: "consent list"
  bookings :: "booking list"
  notifications :: "notification list"
  feedbacks :: "feedback list"
  attributions :: "attribution list"
  routing :: "routing_row list"
  handoffs :: "handoff list"
  merchants :: "merchant_row list"
  audit_log :: "audit_row list"
  next_id :: uid
  next_seq :: nat
  tx_now :: instant

definition empty_store :: "instant \<Rightarrow> store" where
  "empty_store now = \<lparr>tenants = [], leads = [], conversations = [], messages = [], consents = [],
     bookings = [], notifications = [], feedbacks = [], attributions = [], routing = [],
     handoffs = [], merchants = [], audit_log = [], next_id = 0, next_seq = 0, tx_now = now\<rparr>"

subsection \<open>Rows\<close>

text \<open>A fresh primary key.\<close>

definition new_id :: "store \<Rightarrow> uid \<times> store" where
  "new_id db = (next_id db, db\<lparr>next_id := Suc (next_id db)\<rparr>)"

text \<open>The audit row of an event, written under the trail's bindings.\<close>

definition write_audit :: "audit_trail \<Rightarrow> audit_event \<Rightarrow> store \<Rightarrow> store" where
  "write_audit t e db = db\<lparr>audit_log := audit_log db @ [row_of t (tx_now db) e]\<rparr>"

definition update_conversation ::
    "uid \<Rightarrow> (conversation \<Rightarrow> conversation) \<Rightarrow> store \<Rightarrow> store" where
  "update_conversation cid f db =
     db\<lparr>conversations := update_where (\<lambda>c. conv_id c = cid) f (conversations db)\<rparr>"

definition update_handoff :: "uid \<Rightarrow> (handoff \<Rightarrow> handoff) \<Rightarrow> store \<Rightarrow> store" where
  "update_handoff hid f db = db\<lparr>handoffs := update_where (\<lambda>h. hq_id h = hid) f (handoffs db)\<rparr>"

definition update_notification ::
    "uid \<Rightarrow> (notification \<Rightarrow> notification) \<Rightarrow> store \<Rightarrow> store" where
  "update_notification nid f db =
     db\<lparr>notifications := update_where (\<lambda>n. sn_id n = nid) f (notifications db)\<rparr>"

definition update_message :: "uid \<Rightarrow> (message \<Rightarrow> message) \<Rightarrow> store \<Rightarrow> store" where
  "update_message mid f db = db\<lparr>messages := update_where (\<lambda>m. msg_id m = mid) f (messages db)\<rparr>"

definition find_conversation :: "store \<Rightarrow> uid \<Rightarrow> conversation option" where
  "find_conversation db cid = next_such (\<lambda>c. conv_id c = cid) (conversations db)"

lemmas row_ops [store_simps] = new_id_def write_audit_def update_conversation_def
  update_handoff_def update_notification_def update_message_def

lemma find_update_conversation:
  assumes "\<And>c. conv_id (f c) = conv_id c"
  shows "find_conversation (update_conversation cid f db) i =
    (if i = cid then map_option f (find_conversation db i) else find_conversation db i)"
proof -
  have "next_such (\<lambda>c. conv_id c = i) (update_where (\<lambda>c. conv_id c = cid) f cs) =
      (if i = cid then map_option f (next_such (\<lambda>c. conv_id c = i) cs)
       else next_such (\<lambda>c. conv_id c = i) cs)" for cs
    by (induction cs) (auto simp: update_where_def assms)
  then show ?thesis by (simp add: find_conversation_def update_conversation_def)
qed

subsection \<open>The largest row under an order\<close>

text \<open>\<open>ORDER BY \<dots> DESC LIMIT 1\<close>: the first of the rows no other row comes after.\<close>

fun latest_by :: "('a \<Rightarrow> 'a \<Rightarrow> bool) \<Rightarrow> 'a list \<Rightarrow> 'a option" where
  "latest_by lt [] = None"
| "latest_by lt (x # xs) =
     (case latest_by lt xs of
        None \<Rightarrow> Some x
      | Some y \<Rightarrow> if lt x y then Some y else Some x)"

lemma latest_by_None [simp]: "latest_by lt xs = None \<longleftrightarrow> xs = []"
  by (cases xs) (auto split: option.splits)

lemma latest_by_in: "latest_by lt xs = Some x \<Longrightarrow> x \<in> set xs"
  by (induction xs arbitrary: x) (auto split: option.splits if_splits)

lemma latest_by_last:
  assumes "\<And>x. x \<in> set xs \<Longrightarrow> lt x y" and "latest_by lt (xs @ [y]) = Some z"
  shows "z = y"
  using assms
proof (induction xs arbitrary: z)
  case Nil
  then show ?case by simp
next
  case (Cons a xs)
  obtain w where w: "latest_by lt (xs @ [y]) = Some w"
    by (cases "latest_by lt (xs @ [y])") auto
  with Cons have "w = y" by (metis list.set_intros(2))
  with Cons.prems w show ?case by (auto split: if_splits)
qed

lemma latest_by_max:
  assumes "latest_by (\<lambda>a b. f a < (f b :: int)) xs = Some x" and "y \<in> set xs"
  shows "f y \<le> f x"
  using assms
  by (induction xs arbitrary: x) (force split: option.splits if_splits)+

end
