(* ===== verification/Repositories.thy ===== *)
theory Repositories
  imports Models
begin

text \<open>
  The tenant-scoped repositories, \<^verbatim>\<open>mawjood/db/repositories/base.py\<close> and
  \<^verbatim>\<open>mawjood/db/repositories/core.py\<close>. A query carries the tenant's predicate, an insert sets the
  tenant; an operation that writes returns the row and the new store.
\<close>

subsection \<open>Consent state\<close>

datatype consent_state = UNKNOWN | NOTICE_SHOWN | GRANTED | WITHDRAWN

text \<open>\<open>select()\<close> of the base: the rows of one tenant.\<close>

definition scoped :: "('a \<Rightarrow> uid) \<Rightarrow> uid \<Rightarrow> 'a list \<Rightarrow> 'a list" where
  "scoped tenant_of tid rows = filter (\<lambda>r. tenant_of r = tid) rows"

text \<open>\<open>build\<close>: a supplied tenant must be the repository's.\<close>

definition build_tenant :: "uid \<Rightarrow> uid option \<Rightarrow> uid option" where
  "build_tenant tid supplied =
     (case supplied of None \<Rightarrow> Some tid | Some t \<Rightarrow> if t = tid then Some tid else None)"

lemma scoped_iff [simp]: "x \<in> set (scoped f t rows) \<longleftrightarrow> x \<in> set rows \<and> f x = t"
  by (auto simp: scoped_def)

subsection \<open>Tenants\<close>

definition get_by_slug :: "store \<Rightarrow> string \<Rightarrow> tenant option" where
  "get_by_slug db s = next_such (\<lambda>t. tenant_slug t = s) (tenants db)"

definition ensure_tenant :: "string \<Rightarrow> string \<Rightarrow> store \<Rightarrow> tenant \<times> store" where
  "ensure_tenant s nm db =
     (case get_by_slug db s of
        Some t \<Rightarrow> (t, db)
      | None \<Rightarrow>
          let (i, db1) = new_id db;
              t = \<lparr>tenant_uid = i, tenant_slug = s, tenant_name = nm, default_locale = ''en''\<rparr>
          in (t, db1\<lparr>tenants := tenants db1 @ [t]\<rparr>))"

subsection \<open>Leads\<close>

definition get_by_wa_id :: "store \<Rightarrow> uid \<Rightarrow> string \<Rightarrow> lead option" where
  "get_by_wa_id db tid w = next_such (\<lambda>l. wa_id l = w) (scoped lead_tenant tid (leads db))"

definition new_lead :: "uid \<Rightarrow> uid \<Rightarrow> string \<Rightarrow> string \<Rightarrow> instant \<Rightarrow> lead" where
  "new_lead i tid w loc now = \<lparr>lead_id = i, lead_tenant = tid, wa_id = w, phone_e164 = None,
     lead_display_name = None, lead_locale = loc, first_seen_at = now, last_seen_at = now\<rparr>"

definition get_or_create_lead ::
    "uid \<Rightarrow> string \<Rightarrow> string \<Rightarrow> instant \<Rightarrow> store \<Rightarrow> lead \<times> bool \<times> store" where
  "get_or_create_lead tid w loc now db =
     (case get_by_wa_id db tid w of
        Some l \<Rightarrow>
          let l' = l\<lparr>last_seen_at := now\<rparr>
          in (l', False, db\<lparr>leads := update_where (\<lambda>x. lead_id x = lead_id l)
                (\<lambda>x. x\<lparr>last_seen_at := now\<rparr>) (leads db)\<rparr>)
      | None \<Rightarrow>
          let (i, db1) = new_id db; l = new_lead i tid w loc (tx_now db)
          in (l, True, db1\<lparr>leads := leads db1 @ [l]\<rparr>))"

subsection \<open>Conversations\<close>

definition active_for_lead :: "store \<Rightarrow> uid \<Rightarrow> uid \<Rightarrow> conversation option" where
  "active_for_lead db tid lid =
     latest_by (\<lambda>a b. last_activity_at a < last_activity_at b)
       (filter (\<lambda>c. conv_lead c = lid \<and> conv_status c = conversation_status.ACTIVE)
         (scoped conv_tenant tid (conversations db)))"

definition new_conversation ::
    "uid \<Rightarrow> uid \<Rightarrow> uid \<Rightarrow> channel \<Rightarrow> string \<Rightarrow> instant \<Rightarrow> conversation" where
  "new_conversation i tid lid ch loc now = \<lparr>conv_id = i, conv_tenant = tid, conv_lead = lid,
     conv_channel = ch, conv_status = conversation_status.ACTIVE, conv_locale = loc,
     bot_muted = False, conv_state = ''greeting'', collected_slots = [], pending_offer = [],
     last_activity_at = now\<rparr>"

definition open_or_resume ::
    "uid \<Rightarrow> uid \<Rightarrow> channel \<Rightarrow> string \<Rightarrow> instant \<Rightarrow> store \<Rightarrow> conversation \<times> bool \<times> store" where
  "open_or_resume tid lid ch loc now db =
     (case active_for_lead db tid lid of
        Some c \<Rightarrow>
          (c\<lparr>last_activity_at := now\<rparr>, False,
           update_conversation (conv_id c) (\<lambda>x. x\<lparr>last_activity_at := now\<rparr>) db)
      | None \<Rightarrow>
          let (i, db1) = new_id db; c = new_conversation i tid lid ch loc (tx_now db)
          in (c, True, db1\<lparr>conversations := conversations db1 @ [c]\<rparr>))"

subsection \<open>Messages\<close>

definition find_by_provider_id :: "store \<Rightarrow> uid \<Rightarrow> channel \<Rightarrow> string \<Rightarrow> message option" where
  "find_by_provider_id db tid ch pid =
     next_such (\<lambda>m. msg_channel m = ch \<and> provider_message_id m = Some pid)
       (scoped msg_tenant tid (messages db))"

definition add_message :: "(uid \<Rightarrow> nat \<Rightarrow> instant \<Rightarrow> message) \<Rightarrow> store \<Rightarrow> message \<times> store" where
  "add_message mk db =
     (let (i, db1) = new_id db; m = mk i (next_seq db1) (tx_now db1)
      in (m, db1\<lparr>messages := messages db1 @ [m], next_seq := Suc (next_seq db1)\<rparr>))"

definition record_inbound ::
    "uid \<Rightarrow> uid \<Rightarrow> uid \<Rightarrow> uid \<Rightarrow> channel \<Rightarrow> string \<Rightarrow> string \<Rightarrow> string option \<Rightarrow> store
       \<Rightarrow> message \<times> store" where
  "record_inbound tid cid lid turn ch txt loc pid =
     add_message (\<lambda>i n now. \<lparr>msg_id = i, msg_tenant = tid, msg_seq = n, msg_conversation = cid,
       msg_lead = lid, msg_turn = turn, msg_direction = INBOUND, msg_channel = ch,
       msg_status = RECEIVED, msg_body = txt, msg_locale = loc, msg_phrasebank_key = None,
       provider_message_id = pid, msg_sent_at = None, msg_created_at = now\<rparr>)"

definition record_outbound ::
    "uid \<Rightarrow> uid \<Rightarrow> uid \<Rightarrow> uid \<Rightarrow> channel \<Rightarrow> string \<Rightarrow> string \<Rightarrow> string \<Rightarrow> store \<Rightarrow> message \<times> store"
  where
  "record_outbound tid cid lid turn ch txt loc key =
     add_message (\<lambda>i n now. \<lparr>msg_id = i, msg_tenant = tid, msg_seq = n, msg_conversation = cid,
       msg_lead = lid, msg_turn = turn, msg_direction = OUTBOUND, msg_channel = ch,
       msg_status = QUEUED, msg_body = txt, msg_locale = loc, msg_phrasebank_key = Some key,
       provider_message_id = None, msg_sent_at = None, msg_created_at = now\<rparr>)"

text \<open>\<open>ORDER BY seq LIMIT n\<close>: the oldest \<open>n\<close> messages.\<close>

definition history :: "store \<Rightarrow> uid \<Rightarrow> uid \<Rightarrow> nat \<Rightarrow> message list" where
  "history db tid cid n =
     take n (sort_key msg_seq
       (filter (\<lambda>m. msg_conversation m = cid) (scoped msg_tenant tid (messages db))))"

subsection \<open>Consents\<close>

definition con_before :: "consent \<Rightarrow> consent \<Rightarrow> bool" where
  "con_before a b \<longleftrightarrow> con_occurred_at a < con_occurred_at b
     \<or> (con_occurred_at a = con_occurred_at b \<and> con_id a < con_id b)"

definition consents_of :: "store \<Rightarrow> uid \<Rightarrow> uid \<Rightarrow> consent list" where
  "consents_of db tid lid = filter (\<lambda>c. con_lead c = lid) (scoped con_tenant tid (consents db))"

definition decisive :: "consent \<Rightarrow> bool" where
  "decisive c \<longleftrightarrow> con_event c \<in> {consent_event.GRANTED, consent_event.WITHDRAWN}"

definition latest_decisive :: "store \<Rightarrow> uid \<Rightarrow> uid \<Rightarrow> consent option" where
  "latest_decisive db tid lid = latest_by con_before (filter decisive (consents_of db tid lid))"

definition has_been_shown_notice :: "store \<Rightarrow> uid \<Rightarrow> uid \<Rightarrow> bool" where
  "has_been_shown_notice db tid lid \<longleftrightarrow> consents_of db tid lid \<noteq> []"

definition state_for_lead :: "store \<Rightarrow> uid \<Rightarrow> uid \<Rightarrow> consent_state" where
  "state_for_lead db tid lid =
     (case latest_decisive db tid lid of
        Some c \<Rightarrow> if con_event c = consent_event.GRANTED then GRANTED else WITHDRAWN
      | None \<Rightarrow> if has_been_shown_notice db tid lid then NOTICE_SHOWN else UNKNOWN)"

definition is_granted :: "store \<Rightarrow> uid \<Rightarrow> uid \<Rightarrow> bool" where
  "is_granted db tid lid =
     (case latest_decisive db tid lid of
        None \<Rightarrow> False | Some c \<Rightarrow> con_event c = consent_event.GRANTED)"

definition add_consent ::
    "uid \<Rightarrow> uid \<Rightarrow> uid option \<Rightarrow> consent_event \<Rightarrow> string \<Rightarrow> string \<Rightarrow> string \<Rightarrow> channel
       \<Rightarrow> uid option \<Rightarrow> store \<Rightarrow> store" where
  "add_consent tid lid cid ev version wording loc ch evidence db =
     (let (i, db1) = new_id db
      in db1\<lparr>consents := consents db1 @ [\<lparr>con_id = i, con_tenant = tid, con_lead = lid,
           con_conversation = cid, con_event = ev, con_policy_version = version,
           con_wording = wording, con_locale = loc, con_channel = ch, con_evidence = evidence,
           con_occurred_at = tx_now db1\<rparr>]\<rparr>)"

subsection \<open>Routing and handoffs\<close>

definition add_handoff ::
    "uid \<Rightarrow> uid \<Rightarrow> uid \<Rightarrow> handoff_reason \<Rightarrow> store \<Rightarrow> store" where
  "add_handoff tid cid lid why db =
     (let (i, db1) = new_id db
      in db1\<lparr>handoffs := handoffs db1 @ [\<lparr>hq_id = i, hq_tenant = tid, hq_conversation = cid,
           hq_lead = lid, hq_reason = why, hq_status = handoff_status.OPEN, hq_priority = 0,
           hq_claimed_by = None, hq_claimed_at = None, hq_resolved_at = None, hq_notes = None,
           hq_created_at = tx_now db1\<rparr>]\<rparr>)"

definition ordered_platforms :: "store \<Rightarrow> uid \<Rightarrow> category \<Rightarrow> string list" where
  "ordered_platforms db tid cat =
     map rc_platform (sort_key rc_position
       (filter (\<lambda>r. rc_category r = cat \<and> rc_enabled r) (scoped rc_tenant tid (routing db))))"

subsection \<open>Facts\<close>

lemma get_by_wa_id_Some: "get_by_wa_id db tid w = Some l \<Longrightarrow>
    l \<in> set (leads db) \<and> lead_tenant l = tid \<and> wa_id l = w"
  unfolding get_by_wa_id_def by (drule next_such_in) simp

lemma get_by_wa_id_None: "get_by_wa_id db tid w = None \<longleftrightarrow>
    (\<forall>l\<in>set (leads db). lead_tenant l = tid \<longrightarrow> wa_id l \<noteq> w)"
  by (auto simp: get_by_wa_id_def next_such_None)

lemma active_for_lead_Some: "active_for_lead db tid lid = Some c \<Longrightarrow>
    c \<in> set (conversations db) \<and> conv_tenant c = tid \<and> conv_lead c = lid
    \<and> conv_status c = conversation_status.ACTIVE"
  unfolding active_for_lead_def by (drule latest_by_in) auto

lemma is_granted_state: "is_granted db tid lid \<longleftrightarrow> state_for_lead db tid lid = GRANTED"
  by (simp add: is_granted_def state_for_lead_def split: option.splits)

lemma add_consent_simps [simp]:
  "leads (add_consent t l c e v w loc ch ev db) = leads db"
  "conversations (add_consent t l c e v w loc ch ev db) = conversations db"
  "messages (add_consent t l c e v w loc ch ev db) = messages db"
  "bookings (add_consent t l c e v w loc ch ev db) = bookings db"
  "notifications (add_consent t l c e v w loc ch ev db) = notifications db"
  "handoffs (add_consent t l c e v w loc ch ev db) = handoffs db"
  "tx_now (add_consent t l c e v w loc ch ev db) = tx_now db"
  by (simp_all add: add_consent_def new_id_def Let_def)

lemma consents_of_add:
  "consents_of (add_consent t l c e v w loc ch ev db) tid lid =
     (if t = tid \<and> l = lid
      then consents_of db tid lid @ [\<lparr>con_id = next_id db, con_tenant = t, con_lead = l,
           con_conversation = c, con_event = e, con_policy_version = v, con_wording = w,
           con_locale = loc, con_channel = ch, con_evidence = ev, con_occurred_at = tx_now db\<rparr>]
      else consents_of db tid lid)"
  by (simp add: consents_of_def add_consent_def new_id_def Let_def scoped_def)

text \<open>An event recorded now comes after every event already there.\<close>

definition consents_past :: "store \<Rightarrow> bool" where
  "consents_past db \<longleftrightarrow>
     (\<forall>c\<in>set (consents db). con_occurred_at c \<le> tx_now db \<and> con_id c < next_id db)"

lemma state_after_decision:
  assumes "consents_past db" and "e \<in> {consent_event.GRANTED, consent_event.WITHDRAWN}"
  shows "state_for_lead (add_consent tid lid c e v w loc ch ev db) tid lid =
    (if e = consent_event.GRANTED then GRANTED else WITHDRAWN)"
proof -
  let ?new = "\<lparr>con_id = next_id db, con_tenant = tid, con_lead = lid, con_conversation = c,
    con_event = e, con_policy_version = v, con_wording = w, con_locale = loc, con_channel = ch,
    con_evidence = ev, con_occurred_at = tx_now db\<rparr>"
  let ?db = "add_consent tid lid c e v w loc ch ev db"
  have old: "con_before x ?new" if "x \<in> set (filter decisive (consents_of db tid lid))" for x
    using that assms(1) by (force simp: consents_of_def consents_past_def con_before_def)
  have rows: "filter decisive (consents_of ?db tid lid)
      = filter decisive (consents_of db tid lid) @ [?new]"
    using assms(2) by (auto simp: consents_of_add decisive_def)
  obtain z where z: "latest_decisive ?db tid lid = Some z"
    unfolding latest_decisive_def rows by (cases "latest_by con_before
        (filter decisive (consents_of db tid lid) @ [?new])") auto
  moreover have "z = ?new"
    using latest_by_last [OF old z [unfolded latest_decisive_def rows]] .
  ultimately show ?thesis by (simp add: state_for_lead_def)
qed

lemma state_after_notice:
  "state_for_lead (add_consent tid lid c consent_event.NOTICE_SHOWN v w loc ch ev db) tid lid =
     (if state_for_lead db tid lid = UNKNOWN then NOTICE_SHOWN else state_for_lead db tid lid)"
  by (auto simp: state_for_lead_def latest_decisive_def has_been_shown_notice_def consents_of_add
        decisive_def split: option.splits)

lemma state_of_other_lead:
  "lid' \<noteq> lid \<Longrightarrow>
   state_for_lead (add_consent tid lid c e v w loc ch ev db) tid' lid' = state_for_lead db tid' lid'"
  by (simp add: state_for_lead_def latest_decisive_def has_been_shown_notice_def consents_of_add)

section \<open>The base of the repositories\<close>

text \<open>
  The base class of the repositories, \<^verbatim>\<open>mawjood/db/repositories/base.py\<close>, over any table of the store.
  The locale \<open>tenant_table\<close> is what a subclass supplies - its model, which is a table with its tenant
  and its primary key - and what the base class then guarantees; it is interpreted on the table of
  every repository of \<^verbatim>\<open>mawjood/db/repositories/core.py\<close>.
\<close>

subsection \<open>The operations of the base\<close>

text \<open>\<open>get\<close>: \<open>scalar_one_or_none\<close> of the rows of the tenant with that key, of which a primary key leaves
  at most one.\<close>

definition repo_get :: "('a \<Rightarrow> uid) \<Rightarrow> ('a \<Rightarrow> uid) \<Rightarrow> uid \<Rightarrow> 'a list \<Rightarrow> uid \<Rightarrow> 'a option" where
  "repo_get tenant_of row_id tid rows i = next_such (\<lambda>r. row_id r = i) (scoped tenant_of tid rows)"

definition repo_list_all :: "('a \<Rightarrow> uid) \<Rightarrow> uid \<Rightarrow> nat \<Rightarrow> 'a list \<Rightarrow> 'a list" where
  "repo_list_all tenant_of tid n rows = take n (scoped tenant_of tid rows)"

definition repo_count :: "('a \<Rightarrow> uid) \<Rightarrow> uid \<Rightarrow> 'a list \<Rightarrow> nat" where
  "repo_count tenant_of tid rows = length (scoped tenant_of tid rows)"

text \<open>\<open>add\<close>: \<open>build\<close>, which refuses the tenant of another, and the flush that draws the key. None is the
  \<open>ValueError\<close>, before anything is written.\<close>

definition repo_add ::
    "('a \<Rightarrow> store \<Rightarrow> store) \<Rightarrow> (uid \<Rightarrow> uid \<Rightarrow> 'a) \<Rightarrow> uid \<Rightarrow> uid option \<Rightarrow> store \<Rightarrow> ('a \<times> store) option" where
  "repo_add append_row make_row tid supplied db =
     (case build_tenant tid supplied of
        None \<Rightarrow> None
      | Some t \<Rightarrow> let (i, db1) = new_id db; r = make_row i t in Some (r, append_row r db1))"

text \<open>\<open>latest_event\<close>: the newest consent event of any kind.\<close>

definition latest_event :: "store \<Rightarrow> uid \<Rightarrow> uid \<Rightarrow> consent option" where
  "latest_event db tid lid = latest_by con_before (consents_of db tid lid)"

subsection \<open>What every repository guarantees\<close>

locale tenant_table =
  fixes rows :: "store \<Rightarrow> 'a list"
    and append_row :: "'a \<Rightarrow> store \<Rightarrow> store"
    and tenant_of :: "'a \<Rightarrow> uid"
    and row_id :: "'a \<Rightarrow> uid"
  assumes rows_append: "rows (append_row r db) = rows db @ [r]"
    and rows_new_id: "rows (snd (new_id db)) = rows db"
begin

text \<open>A read across tenants returns nothing.\<close>

lemma other_tenant_unseen:
  assumes "distinct (map row_id (rows db))" and "r \<in> set (rows db)" and "tenant_of r \<noteq> tid"
  shows "repo_get tenant_of row_id tid (rows db) (row_id r) = None"
    and "r \<notin> set (repo_list_all tenant_of tid n (rows db))"
proof -
  have "row_id x \<noteq> row_id r" if "x \<in> set (rows db)" and "tenant_of x = tid" for x
    using assms that by (metis distinct_map inj_onD)
  then show "repo_get tenant_of row_id tid (rows db) (row_id r) = None"
    by (auto simp: repo_get_def next_such_None)
  show "r \<notin> set (repo_list_all tenant_of tid n (rows db))"
    using assms(3) by (auto simp: repo_list_all_def dest: in_set_takeD)
qed

lemma get_is_own:
  "repo_get tenant_of row_id tid (rows db) i = Some r \<Longrightarrow>
     r \<in> set (rows db) \<and> tenant_of r = tid \<and> row_id r = i"
  unfolding repo_get_def by (drule next_such_in) simp

text \<open>A row for another tenant is refused; else it is there, of the tenant of the repository, and no
  other tenant sees a difference.\<close>

lemma mismatch_refused: "t \<noteq> tid \<Longrightarrow> repo_add append_row make_row tid (Some t) db = None"
  by (simp add: repo_add_def build_tenant_def)

lemma added_row:
  assumes "repo_add append_row make_row tid supplied db = Some (r, db')"
  shows "r = make_row (next_id db) tid" and "rows db' = rows db @ [r]"
proof -
  have t: "build_tenant tid supplied = Some tid"
    using assms by (auto simp: repo_add_def build_tenant_def split: option.splits if_splits)
  have "(r, db') = (make_row (next_id db) tid, append_row (make_row (next_id db) tid) (snd (new_id db)))"
    using assms by (auto simp: repo_add_def t new_id_def Let_def)
  then show "r = make_row (next_id db) tid" "rows db' = rows db @ [r]"
    by (simp_all add: rows_append rows_new_id)
qed

lemma added_is_found:
  assumes "repo_add append_row make_row tid supplied db = Some (r, db')"
    and "\<And>i t. tenant_of (make_row i t) = t \<and> row_id (make_row i t) = i"
    and "next_id db \<notin> row_id ` set (rows db)"
  shows "repo_get tenant_of row_id tid (rows db') (next_id db) = Some r"
    and "repo_count tenant_of t (rows db') = repo_count tenant_of t (rows db) + (if t = tid then 1 else 0)"
    and "t \<noteq> tid \<Longrightarrow> scoped tenant_of t (rows db') = scoped tenant_of t (rows db)"
proof -
  note add = added_row [OF assms(1)]
  have "next_such (\<lambda>x. row_id x = next_id db) (scoped tenant_of tid (rows db)) = None"
    using assms(3) by (force simp: next_such_None)
  moreover have "next_such p (xs @ ys) = (case next_such p xs of None \<Rightarrow> next_such p ys | Some x \<Rightarrow> Some x)"
    for p :: "'a \<Rightarrow> bool" and xs ys by (induction xs) auto
  ultimately show "repo_get tenant_of row_id tid (rows db') (next_id db) = Some r"
    using assms(2) add by (simp add: repo_get_def scoped_def)
  show "repo_count tenant_of t (rows db') = repo_count tenant_of t (rows db) + (if t = tid then 1 else 0)"
    "t \<noteq> tid \<Longrightarrow> scoped tenant_of t (rows db') = scoped tenant_of t (rows db)"
    using assms(2) add by (auto simp: repo_count_def scoped_def)
qed

end

interpretation lead_repository:
  tenant_table leads "\<lambda>r db. db\<lparr>leads := leads db @ [r]\<rparr>" lead_tenant lead_id
  by unfold_locales (simp_all add: new_id_def)

interpretation conversation_repository:
  tenant_table conversations "\<lambda>r db. db\<lparr>conversations := conversations db @ [r]\<rparr>" conv_tenant conv_id
  by unfold_locales (simp_all add: new_id_def)

interpretation message_repository:
  tenant_table messages "\<lambda>r db. db\<lparr>messages := messages db @ [r]\<rparr>" msg_tenant msg_id
  by unfold_locales (simp_all add: new_id_def)

interpretation consent_repository:
  tenant_table consents "\<lambda>r db. db\<lparr>consents := consents db @ [r]\<rparr>" con_tenant con_id
  by unfold_locales (simp_all add: new_id_def)

interpretation attribution_repository:
  tenant_table attributions "\<lambda>r db. db\<lparr>attributions := attributions db @ [r]\<rparr>" at_tenant at_id
  by unfold_locales (simp_all add: new_id_def)

interpretation handoff_repository:
  tenant_table handoffs "\<lambda>r db. db\<lparr>handoffs := handoffs db @ [r]\<rparr>" hq_tenant hq_id
  by unfold_locales (simp_all add: new_id_def)

subsection \<open>The specialised inserts are the insert of the base\<close>

lemma new_lead_is_added:
  assumes "get_by_wa_id db tid w = None"
  shows "repo_add (\<lambda>r db. db\<lparr>leads := leads db @ [r]\<rparr>) (\<lambda>i t. new_lead i t w loc (tx_now db)) tid None db
    = Some (fst (get_or_create_lead tid w loc now db), snd (snd (get_or_create_lead tid w loc now db)))"
  using assms by (simp add: repo_add_def build_tenant_def get_or_create_lead_def new_id_def Let_def)

lemma new_conversation_is_added:
  assumes "active_for_lead db tid lid = None"
  shows "repo_add (\<lambda>r db. db\<lparr>conversations := conversations db @ [r]\<rparr>)
      (\<lambda>i t. new_conversation i t lid ch loc (tx_now db)) tid None db
    = Some (fst (open_or_resume tid lid ch loc now db), snd (snd (open_or_resume tid lid ch loc now db)))"
  using assms by (simp add: repo_add_def build_tenant_def open_or_resume_def new_id_def Let_def)

text \<open>A lead that is new is found by its key in the repository of its tenant, and counted there and
  nowhere else.\<close>

theorem new_lead_is_of_its_tenant:
  assumes "get_or_create_lead tid w loc now db = (l, True, db')"
    and "next_id db \<notin> lead_id ` set (leads db)"
  shows "repo_get lead_tenant lead_id tid (leads db') (lead_id l) = Some l"
    and "repo_count lead_tenant t (leads db') = repo_count lead_tenant t (leads db) + (if t = tid then 1 else 0)"
proof -
  have none: "get_by_wa_id db tid w = None"
    using assms(1) by (auto simp: get_or_create_lead_def Let_def split: option.splits)
  let ?mk = "\<lambda>i t. new_lead i t w loc (tx_now db)"
  have add: "repo_add (\<lambda>r db. db\<lparr>leads := leads db @ [r]\<rparr>) ?mk tid None db = Some (l, db')"
    using new_lead_is_added [OF none, of loc now] assms(1) by simp
  have mk: "lead_tenant (?mk i t) = t \<and> lead_id (?mk i t) = i" for i t by (simp add: new_lead_def)
  have "lead_id l = next_id db" using lead_repository.added_row(1) [OF add] mk by simp
  then show "repo_get lead_tenant lead_id tid (leads db') (lead_id l) = Some l"
    "repo_count lead_tenant t (leads db') = repo_count lead_tenant t (leads db) + (if t = tid then 1 else 0)"
    using lead_repository.added_is_found(1,2) [OF add mk assms(2)] by simp_all
qed

end
