(* ===== verification/Consent.thy ===== *)
theory Consent
  imports Repositories
begin

text \<open>
  PDPL consent, \<^verbatim>\<open>mawjood/core/conversation/consent.py\<close>: reading a message for a consent signal,
  and the gate. The state itself, \<open>consent_state\<close>, is with the repository that derives it. The
  pattern \<open>[.!,;:\s]+$\<close> strips a trailing run of those characters; the three emoji of the
  affirmative set are their UTF-8 bytes.
\<close>

datatype consent_signal = NONE | AFFIRMATIVE | WITHDRAWAL

definition thumbs_up :: string where
  "thumbs_up = [CHR 0xF0, CHR 0x9F, CHR 0x91, CHR 0x8D]"

definition ok_hand :: string where
  "ok_hand = [CHR 0xF0, CHR 0x9F, CHR 0x91, CHR 0x8C]"

definition check_mark :: string where
  "check_mark = [CHR 0xE2, CHR 0x9C, CHR 0x85]"

definition affirmatives :: "string list" where
  "affirmatives = [''yes'', ''y'', ''yeah'', ''yep'', ''yup'', ''ok'', ''okay'', ''k'', ''sure'',
     ''fine'', ''agreed'', ''agree'', ''accept'', ''accepted'', ''confirm'', ''confirmed'',
     ''go ahead'', ''sounds good'', ''no problem'', ''of course'', ''please do'', ''understood'',
     ''got it'', ''deal'', thumbs_up, ok_hand, check_mark]"

definition withdrawals :: "string list" where
  "withdrawals = [''stop'', ''unsubscribe'', ''opt out'', ''optout'', ''opt-out'',
     ''cancel consent'', ''withdraw'', ''withdraw consent'', ''delete my data'',
     ''delete my details'', ''erase my data'', ''forget me'', ''remove me'']"

definition trailing :: "char \<Rightarrow> bool" where
  "trailing c = (c \<in> {CHR ''.'', CHR ''!'', CHR '','', CHR '';'', CHR '':''} \<or> is_space c)"

definition normalise_signal :: "string \<Rightarrow> string" where
  "normalise_signal s = rstrip trailing (lower (strip s))"

definition classify :: "string \<Rightarrow> consent_signal" where
  "classify s =
     (let cleaned = normalise_signal s in
      if cleaned = [] then NONE
      else if cleaned \<in> set withdrawals then WITHDRAWAL
      else if cleaned \<in> set affirmatives then AFFIRMATIVE
      else NONE)"

definition may_share_pii :: "consent_state \<Rightarrow> bool" where
  "may_share_pii s = (s = GRANTED)"

definition needs_notice :: "consent_state \<Rightarrow> bool" where
  "needs_notice s = (s = UNKNOWN)"

lemma signals_disjoint: "set withdrawals \<inter> set affirmatives = {}"
  by (simp add: withdrawals_def affirmatives_def thumbs_up_def ok_hand_def check_mark_def)

text \<open>Only the letter case and what surrounds the message may vary.\<close>

lemma classify_AFFIRMATIVE: "classify s = AFFIRMATIVE \<longleftrightarrow> normalise_signal s \<in> set affirmatives"
  using signals_disjoint by (auto simp: classify_def Let_def affirmatives_def thumbs_up_def
      ok_hand_def check_mark_def)

lemma classify_WITHDRAWAL: "classify s = WITHDRAWAL \<longleftrightarrow> normalise_signal s \<in> set withdrawals"
  by (auto simp: classify_def Let_def withdrawals_def)

text \<open>Whole-message matching: a message grants consent only when, up to letter case, surrounding
  blanks and trailing punctuation, it is one of the agreed words and nothing else, and stopping
  always wins over agreeing.\<close>

theorem consent_is_the_whole_message:
  "classify s = (if normalise_signal s \<in> set withdrawals then WITHDRAWAL
                 else if normalise_signal s \<in> set affirmatives then AFFIRMATIVE else NONE)"
  using classify_AFFIRMATIVE [of s] classify_WITHDRAWAL [of s] by (cases "classify s") auto

end
