(* ===== verification/Phrasebank.thy ===== *)
theory Phrasebank
  imports Prelude
begin

text \<open>
  The phrasebank, \<^verbatim>\<open>mawjood/core/conversation/phrasebank.py\<close>, and its English copy,
  \<^verbatim>\<open>phrases/en.toml\<close>. Text is UTF-8: a dash and an emoji are their bytes.

  \<open>RenderedMessage\<close> is a record whose only producer in this development is \<open>render\<close>, as the
  constructor token makes it in the source. \<open>Template.substitute\<close> is modelled in full:
  \<open>$name\<close>, \<open>${name}\<close>, \<open>$$\<close>, a missing variable and an invalid placeholder.
\<close>

subsection \<open>Keys\<close>

datatype phrase_key =
    GREETING_WELCOME | GREETING_RETURNING | CONSENT_NOTICE | CONSENT_ACKNOWLEDGED | 
    CONSENT_WITHDRAWN | GREETING_RESUMED | ASK_WHAT_YOU_NEED | ASK_SERVICE | 
    ASK_AREA | ASK_WHEN | CLARIFY_AREA | ACK_RECEIVED | 
    CHANGE_ACKNOWLEDGED | OFFER_SLOT | OFFER_SLOT_HEDGED | CONFIRM_REQUEST | 
    BOOKING_CONFIRMED | POST_STATUS | POST_RESCHEDULE_ASK | POST_CANCELLED | 
    FALLBACK_EMOJI | LANGUAGE_ENGLISH_ONLY | PIVOT_HOLDING | PIVOT_STILL_LOOKING | 
    HANDOFF_CONNECTING | FALLBACK_UNCLEAR | NOTIFY_REMINDER_24H | NOTIFY_REMINDER_2H | 
    NOTIFY_FOLLOW_UP | NOTIFY_SATISFACTION | NOTIFY_SATISFACTION_THANKS

definition phrase_key_value :: "phrase_key \<Rightarrow> string" where
  "phrase_key_value k = (case k of
     GREETING_WELCOME \<Rightarrow> ''greeting.welcome''
   | GREETING_RETURNING \<Rightarrow> ''greeting.returning''
   | CONSENT_NOTICE \<Rightarrow> ''consent.notice''
   | CONSENT_ACKNOWLEDGED \<Rightarrow> ''consent.acknowledged''
   | CONSENT_WITHDRAWN \<Rightarrow> ''consent.withdrawn''
   | GREETING_RESUMED \<Rightarrow> ''greeting.resumed''
   | ASK_WHAT_YOU_NEED \<Rightarrow> ''ask.what_you_need''
   | ASK_SERVICE \<Rightarrow> ''ask.service''
   | ASK_AREA \<Rightarrow> ''ask.area''
   | ASK_WHEN \<Rightarrow> ''ask.when''
   | CLARIFY_AREA \<Rightarrow> ''clarify.area''
   | ACK_RECEIVED \<Rightarrow> ''ack.received''
   | CHANGE_ACKNOWLEDGED \<Rightarrow> ''ack.changed''
   | OFFER_SLOT \<Rightarrow> ''offer.slot''
   | OFFER_SLOT_HEDGED \<Rightarrow> ''offer.slot_hedged''
   | CONFIRM_REQUEST \<Rightarrow> ''confirm.request''
   | BOOKING_CONFIRMED \<Rightarrow> ''booking.confirmed''
   | POST_STATUS \<Rightarrow> ''post.status''
   | POST_RESCHEDULE_ASK \<Rightarrow> ''post.reschedule_ask''
   | POST_CANCELLED \<Rightarrow> ''post.cancelled''
   | FALLBACK_EMOJI \<Rightarrow> ''fallback.emoji''
   | LANGUAGE_ENGLISH_ONLY \<Rightarrow> ''language.english_only''
   | PIVOT_HOLDING \<Rightarrow> ''pivot.holding''
   | PIVOT_STILL_LOOKING \<Rightarrow> ''pivot.still_looking''
   | HANDOFF_CONNECTING \<Rightarrow> ''handoff.connecting''
   | FALLBACK_UNCLEAR \<Rightarrow> ''fallback.unclear''
   | NOTIFY_REMINDER_24H \<Rightarrow> ''notify.reminder_24h''
   | NOTIFY_REMINDER_2H \<Rightarrow> ''notify.reminder_2h''
   | NOTIFY_FOLLOW_UP \<Rightarrow> ''notify.follow_up''
   | NOTIFY_SATISFACTION \<Rightarrow> ''notify.satisfaction''
   | NOTIFY_SATISFACTION_THANKS \<Rightarrow> ''notify.satisfaction_thanks'')"

definition all_phrase_key :: "phrase_key list" where
  "all_phrase_key = [GREETING_WELCOME, GREETING_RETURNING, CONSENT_NOTICE, CONSENT_ACKNOWLEDGED, 
     CONSENT_WITHDRAWN, GREETING_RESUMED, ASK_WHAT_YOU_NEED, ASK_SERVICE, 
     ASK_AREA, ASK_WHEN, CLARIFY_AREA, ACK_RECEIVED, 
     CHANGE_ACKNOWLEDGED, OFFER_SLOT, OFFER_SLOT_HEDGED, CONFIRM_REQUEST, 
     BOOKING_CONFIRMED, POST_STATUS, POST_RESCHEDULE_ASK, POST_CANCELLED, 
     FALLBACK_EMOJI, LANGUAGE_ENGLISH_ONLY, PIVOT_HOLDING, PIVOT_STILL_LOOKING, 
     HANDOFF_CONNECTING, FALLBACK_UNCLEAR, NOTIFY_REMINDER_24H, NOTIFY_REMINDER_2H, 
     NOTIFY_FOLLOW_UP, NOTIFY_SATISFACTION, NOTIFY_SATISFACTION_THANKS]"

subsection \<open>Substitution\<close>

datatype substitution = Substituted string | Missing_Variable string | Invalid_Placeholder

definition id_start :: "char \<Rightarrow> bool" where
  "id_start c = (is_alpha c \<or> c = CHR ''_'')"

definition id_char :: "char \<Rightarrow> bool" where
  "id_char c = (id_start c \<or> is_digit c)"

fun in_front :: "string \<Rightarrow> substitution \<Rightarrow> substitution" where
  "in_front s (Substituted t) = Substituted (s @ t)"
| "in_front s r = r"

text \<open>The placeholder at the head of a text that follows a dollar sign, and what comes after it:
  None is an invalid one.\<close>

datatype placeholder = Escape | Named string

definition placeholder_at :: "string \<Rightarrow> (placeholder \<times> string) option" where
  "placeholder_at s =
     (case s of
        [] \<Rightarrow> None
      | d # ds \<Rightarrow>
          if d = CHR ''$'' then Some (Escape, ds)
          else if id_start d then Some (Named (takeWhile id_char s), dropWhile id_char s)
          else if d = CHR 0x7B then
            (case ds of
               [] \<Rightarrow> None
             | e # _ \<Rightarrow>
                 if id_start e
                 then (case dropWhile id_char ds of
                         f # rest \<Rightarrow> if f = CHR 0x7D
                                     then Some (Named (takeWhile id_char ds), rest) else None
                       | [] \<Rightarrow> None)
                 else None)
          else None)"

lemma placeholder_at_shorter: "placeholder_at s = Some (p, rest) \<Longrightarrow> length rest < length s"
proof (cases s)
  case (Cons d ds)
  assume a: "placeholder_at s = Some (p, rest)"
  have le: "length (dropWhile id_char ds) \<le> length ds" by (rule length_dropWhile_le)
  have "id_start d \<Longrightarrow> length (dropWhile id_char s) \<le> length ds"
    using Cons le by (simp add: id_char_def)
  with a Cons le show ?thesis
    by (auto simp: placeholder_at_def split: if_splits list.splits)
qed (simp add: placeholder_at_def)

function substitute :: "(string \<times> string) list \<Rightarrow> string \<Rightarrow> substitution" where
  "substitute vars [] = Substituted []"
| "substitute vars (c # cs) =
     (if c \<noteq> CHR ''$'' then in_front [c] (substitute vars cs)
      else case placeholder_at cs of
          None \<Rightarrow> Invalid_Placeholder
        | Some (Escape, rest) \<Rightarrow> in_front [c] (substitute vars rest)
        | Some (Named n, rest) \<Rightarrow>
            (case map_of vars n of
               None \<Rightarrow> Missing_Variable n
             | Some v \<Rightarrow> in_front v (substitute vars rest)))"
  by pat_completeness auto
termination
  by (relation "measure (\<lambda>(_, s). length s)") (auto dest: placeholder_at_shorter)

text \<open>The variables a template needs; None when it is malformed.\<close>

function needs :: "string \<Rightarrow> string list option" where
  "needs [] = Some []"
| "needs (c # cs) =
     (if c \<noteq> CHR ''$'' then needs cs
      else case placeholder_at cs of
          None \<Rightarrow> None
        | Some (Escape, rest) \<Rightarrow> needs rest
        | Some (Named n, rest) \<Rightarrow> map_option (\<lambda>ns. n # ns) (needs rest))"
  by pat_completeness auto
termination
  by (relation "measure length") (auto dest: placeholder_at_shorter)

lemma in_front_Substituted: "in_front s r = Substituted t \<longleftrightarrow> (\<exists>u. r = Substituted u \<and> t = s @ u)"
  by (cases r) auto

text \<open>A well-formed template whose variables are all supplied is substituted.\<close>

lemma substitute_needs:
  "needs s = Some ns \<Longrightarrow> set ns \<subseteq> fst ` set vars \<Longrightarrow> \<exists>t. substitute vars s = Substituted t"
proof (induction s arbitrary: ns rule: needs.induct)
  case (2 c cs)
  consider (plain) "c \<noteq> CHR ''$''"
    | (escape) rest where "c = CHR ''$''" "placeholder_at cs = Some (Escape, rest)"
    | (named) n rest where "c = CHR ''$''" "placeholder_at cs = Some (Named n, rest)"
    using "2.prems"(1) by (auto split: if_splits option.splits placeholder.splits)
  then show ?case
  proof cases
    case plain
    then show ?thesis using 2 by (auto simp: in_front_Substituted)
  next
    case escape
    then show ?thesis using "2.IH"(2) [OF _ _ _ ] "2.prems"
      by (fastforce simp: in_front_Substituted)
  next
    case named
    then obtain ms where ms: "needs rest = Some ms" "ns = n # ms" using "2.prems"(1) by auto
    then obtain v where "map_of vars n = Some v"
      using "2.prems"(2) by (cases "map_of vars n") (auto simp: map_of_eq_None_iff)
    moreover have "\<exists>t. substitute vars rest = Substituted t"
      using named ms "2.prems"(2) "2.IH"(3) by fastforce
    ultimately show ?thesis using named by (auto simp: in_front_Substituted)
  qed
qed simp

subsection \<open>Locales\<close>

record phrase_locale =
  locale_name :: string
  policy_version :: string
  phrases :: "(string \<times> string) list"

record phrasebank =
  locales :: "(string \<times> phrase_locale) list"
  fallback_locale :: string

record rendered_message =
  rm_key :: string
  rm_locale :: string
  rm_text :: string

text \<open>\<open>Phrasebank(locales, default)\<close>; None is \<open>PhraseNotFound\<close>.\<close>

definition new_phrasebank ::
    "(string \<times> phrase_locale) list \<Rightarrow> string \<Rightarrow> phrasebank option" where
  "new_phrasebank ls d =
     (if map_of ls d = None then None else Some \<lparr>locales = ls, fallback_locale = d\<rparr>)"

definition locale_of :: "phrasebank \<Rightarrow> string option \<Rightarrow> phrase_locale" where
  "locale_of pb loc =
     (case map_of (locales pb) (or_else loc (fallback_locale pb)) of
        Some l \<Rightarrow> l
      | None \<Rightarrow> the (map_of (locales pb) (fallback_locale pb)))"

definition policy_version_of :: "phrasebank \<Rightarrow> string option \<Rightarrow> string" where
  "policy_version_of pb loc = policy_version (locale_of pb loc)"

definition raw :: "phrasebank \<Rightarrow> string \<Rightarrow> string option \<Rightarrow> string option" where
  "raw pb key loc = map_of (phrases (locale_of pb loc)) key"

text \<open>\<open>render\<close>; None is an exception (a missing phrase or variable, an invalid template).\<close>

definition render ::
    "phrasebank \<Rightarrow> string \<Rightarrow> string option \<Rightarrow> (string \<times> string) list \<Rightarrow> rendered_message option" where
  "render pb key loc vars =
     (let l = locale_of pb loc in
      case raw pb key (Some (locale_name l)) of
        None \<Rightarrow> None
      | Some template \<Rightarrow>
          (case substitute vars template of
             Substituted txt \<Rightarrow> Some \<lparr>rm_key = key, rm_locale = locale_name l, rm_text = txt\<rparr>
           | _ \<Rightarrow> None))"

subsection \<open>English\<close>

definition dash :: string where
  "dash = [CHR 0xE2, CHR 0x80, CHR 0x94]"

definition wave :: string where
  "wave = [CHR 0xF0, CHR 0x9F, CHR 0x91, CHR 0x8B]"

primrec en_text :: "phrase_key \<Rightarrow> string" where
  "en_text GREETING_WELCOME =
     ''Hey '' @ dash @ '' I'm Mawjood '' @ wave @ '' Tell me what you're after and I'll line it up. A haircut, a table, a spa slot, whatever you need.''"
| "en_text GREETING_RETURNING =
     ''Welcome back '' @ wave @ '' What can I line up for you today?''"
| "en_text CONSENT_NOTICE =
     ''Quick bit of housekeeping: I keep your number and what you tell me so I can make your booking and confirm it back to you. Your details go to the venue you book with, and nowhere else. Reply STOP at any time and I'll stop right there and leave your details alone.''"
| "en_text CONSENT_ACKNOWLEDGED =
     ''Noted, thank you. Now '' @ dash @ '' what are you after?''"
| "en_text CONSENT_WITHDRAWN =
     ''Done '' @ dash @ '' I've stopped there and I won't use your details any further. Message me any time if you'd like to pick this back up.''"
| "en_text GREETING_RESUMED =
     ''Good to hear from you again. Where were we '' @ dash @ '' shall I pick up where we left off?''"
| "en_text ASK_WHAT_YOU_NEED =
     ''Tell me what you need '' @ dash @ '' roughly what, where, and when is plenty to start.''"
| "en_text ASK_SERVICE =
     ''What are you after? A haircut, a treatment, a table '' @ dash @ '' whatever it is, I'll find it.''"
| "en_text ASK_AREA =
     ''Whereabouts suits you?''"
| "en_text ASK_WHEN =
     ''When were you thinking?''"
| "en_text CLARIFY_AREA =
     ''Just so I get you to the right one '' @ dash @ '' $options?''"
| "en_text ACK_RECEIVED =
     ''Got it. Give me a moment and I'll line up your options.''"
| "en_text CHANGE_ACKNOWLEDGED =
     ''Noted '' @ dash @ '' let me redo that.''"
| "en_text OFFER_SLOT =
     ''$service at $venue in $area '' @ dash @ '' $day at $time, $price. Shall I lock it in?''"
| "en_text OFFER_SLOT_HEDGED =
     ''Closest match is $service at $venue in $area '' @ dash @ '' $day at $time, $price. Worth a look if that suits. Shall I lock it in?''"
| "en_text CONFIRM_REQUEST =
     ''Just say the word and I'll book it.''"
| "en_text BOOKING_CONFIRMED =
     ''Booked '' @ dash @ '' $venue in $area, $day at $time. Your reference is $code. I'll send you a reminder beforehand.''"
| "en_text POST_STATUS =
     ''You're down for $venue, $day at $time. All set.''"
| "en_text POST_RESCHEDULE_ASK =
     ''Of course '' @ dash @ '' when would suit you better?''"
| "en_text POST_CANCELLED =
     ''That's cancelled. Anything else I can line up for you?''"
| "en_text FALLBACK_EMOJI =
     ''I'll take that as a good sign. What can I line up for you?''"
| "en_text LANGUAGE_ENGLISH_ONLY =
     ''English is what I've got for the moment '' @ dash @ '' send it over in English and I'll take care of it.''"
| "en_text PIVOT_HOLDING =
     ''Let me check a few more options for you '' @ dash @ '' one moment.''"
| "en_text PIVOT_STILL_LOOKING =
     ''Still on it '' @ dash @ '' lining up a couple more for you. I'll come straight back.''"
| "en_text HANDOFF_CONNECTING =
     ''I'm bringing in one of our team to take this the rest of the way '' @ dash @ '' they'll pick up right here in a moment.''"
| "en_text FALLBACK_UNCLEAR =
     ''Give me a little more to go on '' @ dash @ '' what are you after, and roughly where and when?''"
| "en_text NOTIFY_REMINDER_24H =
     ''Reminder '' @ dash @ '' $venue $day at $time. See you there.''"
| "en_text NOTIFY_REMINDER_2H =
     ''$venue at $time today '' @ dash @ '' see you shortly.''"
| "en_text NOTIFY_FOLLOW_UP =
     ''How did it go at $venue? Anything you'd like me to sort, just say.''"
| "en_text NOTIFY_SATISFACTION =
     ''One quick thing on $venue '' @ dash @ '' how would you rate it, 1 to 5?''"
| "en_text NOTIFY_SATISFACTION_THANKS =
     ''Thanks '' @ dash @ '' noted. I'll keep it in mind next time I'm lining something up for you.''"

definition en_phrases :: "(string \<times> string) list" where
  "en_phrases = map (\<lambda>k. (phrase_key_value k, en_text k)) all_phrase_key"

definition en :: phrase_locale where
  "en = \<lparr>locale_name = ''en'', policy_version = ''2026-07-01'', phrases = en_phrases\<rparr>"

definition shipped :: phrasebank where
  "shipped = \<lparr>locales = [(''en'', en)], fallback_locale = ''en''\<rparr>"

subsection \<open>Every message renders\<close>

text \<open>The variables the code supplies with each key.\<close>

definition supplied :: "phrase_key \<Rightarrow> string list" where
  "supplied k = (case k of
     CLARIFY_AREA \<Rightarrow> [''options'']
   | OFFER_SLOT \<Rightarrow> [''service'', ''venue'', ''area'', ''day'', ''time'', ''price'']
   | OFFER_SLOT_HEDGED \<Rightarrow> [''service'', ''venue'', ''area'', ''day'', ''time'', ''price'']
   | BOOKING_CONFIRMED \<Rightarrow> [''venue'', ''area'', ''day'', ''time'', ''code'']
   | POST_STATUS \<Rightarrow> [''venue'', ''day'', ''time'']
   | NOTIFY_REMINDER_24H \<Rightarrow> [''venue'', ''day'', ''time'']
   | NOTIFY_REMINDER_2H \<Rightarrow> [''venue'', ''day'', ''time'']
   | NOTIFY_FOLLOW_UP \<Rightarrow> [''venue'', ''day'', ''time'']
   | NOTIFY_SATISFACTION \<Rightarrow> [''venue'', ''day'', ''time'']
   | _ \<Rightarrow> [])"

declare needs.simps [simp del] substitute.simps [simp del]
declare en_text.simps [simp del]

lemma all_phrase_key_complete: "k \<in> set all_phrase_key"
  by (cases k) (simp_all add: all_phrase_key_def)

lemma phrase_key_value_inj: "inj phrase_key_value"
proof (rule injI)
  fix k k' assume "phrase_key_value k = phrase_key_value k'"
  moreover have "distinct (map phrase_key_value all_phrase_key)" by code_simp
  ultimately show "k = k'"
    using all_phrase_key_complete by (metis distinct_map inj_onD)
qed

lemma phrase_key_value_eq [simp]: "phrase_key_value k = phrase_key_value k' \<longleftrightarrow> k = k'"
  using phrase_key_value_inj by (auto dest: injD)

lemma en_phrases_lookup: "map_of en_phrases (phrase_key_value k) = Some (en_text k)"
proof -
  have "map_of (map (\<lambda>k. (phrase_key_value k, en_text k)) ks) (phrase_key_value k)
      = (if k \<in> set ks then Some (en_text k) else None)" for ks
    by (induction ks) auto
  then show ?thesis by (simp add: en_phrases_def all_phrase_key_complete)
qed

lemma en_needs:
  "needs (en_text GREETING_WELCOME) = Some []"
  "needs (en_text GREETING_RETURNING) = Some []"
  "needs (en_text CONSENT_NOTICE) = Some []"
  "needs (en_text CONSENT_ACKNOWLEDGED) = Some []"
  "needs (en_text CONSENT_WITHDRAWN) = Some []"
  "needs (en_text GREETING_RESUMED) = Some []"
  "needs (en_text ASK_WHAT_YOU_NEED) = Some []"
  "needs (en_text ASK_SERVICE) = Some []"
  "needs (en_text ASK_AREA) = Some []"
  "needs (en_text ASK_WHEN) = Some []"
  "needs (en_text CLARIFY_AREA) = Some [''options'']"
  "needs (en_text ACK_RECEIVED) = Some []"
  "needs (en_text CHANGE_ACKNOWLEDGED) = Some []"
  "needs (en_text OFFER_SLOT) = Some [''service'', ''venue'', ''area'', ''day'', ''time'', ''price'']"
  "needs (en_text OFFER_SLOT_HEDGED) = Some [''service'', ''venue'', ''area'', ''day'', ''time'', ''price'']"
  "needs (en_text CONFIRM_REQUEST) = Some []"
  "needs (en_text BOOKING_CONFIRMED) = Some [''venue'', ''area'', ''day'', ''time'', ''code'']"
  "needs (en_text POST_STATUS) = Some [''venue'', ''day'', ''time'']"
  "needs (en_text POST_RESCHEDULE_ASK) = Some []"
  "needs (en_text POST_CANCELLED) = Some []"
  "needs (en_text FALLBACK_EMOJI) = Some []"
  "needs (en_text LANGUAGE_ENGLISH_ONLY) = Some []"
  "needs (en_text PIVOT_HOLDING) = Some []"
  "needs (en_text PIVOT_STILL_LOOKING) = Some []"
  "needs (en_text HANDOFF_CONNECTING) = Some []"
  "needs (en_text FALLBACK_UNCLEAR) = Some []"
  "needs (en_text NOTIFY_REMINDER_24H) = Some [''venue'', ''day'', ''time'']"
  "needs (en_text NOTIFY_REMINDER_2H) = Some [''venue'', ''time'']"
  "needs (en_text NOTIFY_FOLLOW_UP) = Some [''venue'']"
  "needs (en_text NOTIFY_SATISFACTION) = Some [''venue'']"
  "needs (en_text NOTIFY_SATISFACTION_THANKS) = Some []"
  by code_simp+

lemma en_covered: "\<exists>ns. needs (en_text k) = Some ns \<and> set ns \<subseteq> set (supplied k)"
  by (cases k) (simp_all add: en_needs supplied_def)

text \<open>Falling back: an unknown or absent locale reads the default one.\<close>

lemma locale_of_shipped [simp]: "locale_of shipped loc = en"
  by (simp add: locale_of_def shipped_def)

text \<open>No message the code sends is left half written: every phrase key has English copy, in
  whatever locale it is asked for, and with the variables the code supplies it renders, for
  all values of those variables.\<close>

theorem every_phrase_renders:
  assumes "set (supplied k) \<subseteq> fst ` set vars"
  shows "\<exists>txt. render shipped (phrase_key_value k) loc vars
           = Some \<lparr>rm_key = phrase_key_value k, rm_locale = ''en'', rm_text = txt\<rparr>"
proof -
  obtain ns where ns: "needs (en_text k) = Some ns" "set ns \<subseteq> set (supplied k)"
    using en_covered by blast
  then obtain body where "substitute vars (en_text k) = Substituted body"
    using substitute_needs assms by blast
  then show ?thesis by (simp add: render_def raw_def en_def en_phrases_lookup)
qed

theorem every_phrase_renders_witness:
  "\<exists>txt. render shipped (phrase_key_value CLARIFY_AREA) (Some ''ar'') [(''options'', ''Deira'')]
     = Some \<lparr>rm_key = phrase_key_value CLARIFY_AREA, rm_locale = ''en'', rm_text = txt\<rparr>"
  by (rule every_phrase_renders) (simp add: supplied_def)

end
