(* ===== verification/States.thy ===== *)
theory States
  imports Consent Phrasebank
begin

text \<open>
  The conversation state machine, \<^verbatim>\<open>mawjood/core/conversation/states.py\<close>. \<open>advance\<close> is the
  function of that name: its overrides, first contact, post-booking, silence, confirmation,
  clarification and slot filling in the order of the source, one definition per block. Notes
  are the transition's own, and phrases are keys with variables, never text.
\<close>

subsection \<open>Vocabulary\<close>

datatype conversation_state =
    GREETING | INTENT | SLOT_FILLING | CLARIFICATION | SLOT_PRESENTATION | CONFIRMATION
  | BOOKING | CONFIRMED | POST_BOOKING | HANDOFF_STATE

definition conversation_state_value :: "conversation_state \<Rightarrow> string" where
  "conversation_state_value s = (case s of
     GREETING \<Rightarrow> ''greeting'' | INTENT \<Rightarrow> ''intent'' | SLOT_FILLING \<Rightarrow> ''slot_filling''
   | CLARIFICATION \<Rightarrow> ''clarification'' | SLOT_PRESENTATION \<Rightarrow> ''slot_presentation''
   | CONFIRMATION \<Rightarrow> ''confirmation'' | BOOKING \<Rightarrow> ''booking'' | CONFIRMED \<Rightarrow> ''confirmed''
   | POST_BOOKING \<Rightarrow> ''post_booking'' | HANDOFF_STATE \<Rightarrow> ''handoff'')"

definition all_conversation_state :: "conversation_state list" where
  "all_conversation_state = [GREETING, INTENT, SLOT_FILLING, CLARIFICATION, SLOT_PRESENTATION,
     CONFIRMATION, BOOKING, CONFIRMED, POST_BOOKING, HANDOFF_STATE]"

datatype turn_action = NO_ACTION | SEARCH | BOOK | HAND_OFF | LOOKUP_BOOKING | CANCEL_BOOKING

type_synonym phrase_spec = "phrase_key \<times> (string \<times> string) list"

abbreviation say :: "phrase_key \<Rightarrow> phrase_spec" where
  "say k \<equiv> (k, [])"

text \<open>\<open>_maybe_str\<close> on a text.\<close>

definition maybe_str :: "string option \<Rightarrow> string option" where
  "maybe_str v = (case v of None \<Rightarrow> None | Some s \<Rightarrow> if strip s = [] then None else Some (strip s))"

subsection \<open>Understanding\<close>

record understanding =
  u_intent :: string
  u_service :: "string option"
  u_category :: "string option"
  u_area :: "string option"
  area_ambiguous :: "string list"
  u_date :: "string option"
  u_time :: "string option"
  confirmation :: "string option"
  wants_human :: bool
  is_correction :: bool
  emoji_only :: bool
  u_language :: string

definition understood_nothing :: understanding where
  "understood_nothing = \<lparr>u_intent = ''unclear'', u_service = None, u_category = None,
     u_area = None, area_ambiguous = [], u_date = None, u_time = None, confirmation = None,
     wants_human = False, is_correction = False, emoji_only = False, u_language = ''en''\<rparr>"

definition carries_detail :: "understanding \<Rightarrow> bool" where
  "carries_detail u = (truthy (u_service u) \<or> truthy (u_area u) \<or> truthy (u_date u)
     \<or> truthy (u_time u))"

text \<open>
  A value of a provider's response: the text \<open>str\<close> gives, its truth value, and the texts of its
  items when it can be iterated over. A key that is absent and a JSON null read alike, except
  for \<open>intent\<close> and \<open>language\<close>, whose \<open>str(None)\<close> is not the default.
\<close>

record raw_value =
  as_text :: string
  as_bool :: bool
  as_items :: "string list option"

type_synonym raw_response = "(string \<times> raw_value option) list"

definition raw_get :: "raw_response \<Rightarrow> string \<Rightarrow> raw_value option" where
  "raw_get r key = (case map_of r key of None \<Rightarrow> None | Some v \<Rightarrow> v)"

definition raw_text :: "raw_response \<Rightarrow> string \<Rightarrow> string option" where
  "raw_text r key = maybe_str (map_option as_text (raw_get r key))"

definition raw_flag :: "raw_response \<Rightarrow> string \<Rightarrow> bool" where
  "raw_flag r key = (case raw_get r key of None \<Rightarrow> False | Some v \<Rightarrow> as_bool v)"

definition raw_default :: "raw_response \<Rightarrow> string \<Rightarrow> string \<Rightarrow> string" where
  "raw_default r key d = (case map_of r key of
     None \<Rightarrow> d | Some None \<Rightarrow> ''None'' | Some (Some v) \<Rightarrow> as_text v)"

text \<open>\<open>Understanding.from_dict\<close>; None is the exception of iterating over something that cannot be.\<close>

definition understanding_of :: "raw_response \<Rightarrow> understanding option" where
  "understanding_of r =
     (let ambiguous = (case raw_get r ''area_ambiguous'' of
            None \<Rightarrow> Some [] | Some v \<Rightarrow> if as_bool v then as_items v else Some [])
      in map_option (\<lambda>items. \<lparr>u_intent = raw_default r ''intent'' ''unclear'',
           u_service = raw_text r ''service'', u_category = raw_text r ''category'',
           u_area = raw_text r ''area'', area_ambiguous = items,
           u_date = raw_text r ''date_text'', u_time = raw_text r ''time_text'',
           confirmation = raw_text r ''confirmation'', wants_human = raw_flag r ''wants_human'',
           is_correction = raw_flag r ''is_correction'', emoji_only = raw_flag r ''emoji_only'',
           u_language = raw_default r ''language'' ''en''\<rparr>) ambiguous)"

subsection \<open>Collected slots\<close>

record collected =
  c_service :: "string option"
  c_category :: "string option"
  c_area :: "string option"
  c_date :: "string option"
  c_time :: "string option"

definition no_slots :: collected where
  "no_slots = \<lparr>c_service = None, c_category = None, c_area = None, c_date = None, c_time = None\<rparr>"

definition complete :: "collected \<Rightarrow> bool" where
  "complete c = (truthy (c_service c) \<and> truthy (c_area c) \<and> truthy (c_date c))"

definition missing :: "collected \<Rightarrow> string list" where
  "missing c = (if truthy (c_service c) then [] else [''service''])
     @ (if truthy (c_area c) then [] else [''area''])
     @ (if truthy (c_date c) then [] else [''date''])"

definition merged_with :: "collected \<Rightarrow> understanding \<Rightarrow> collected" where
  "merged_with c u = \<lparr>c_service = py_or (u_service u) (c_service c),
     c_category = py_or (u_category u) (c_category c), c_area = py_or (u_area u) (c_area c),
     c_date = py_or (u_date u) (c_date c), c_time = py_or (u_time u) (c_time c)\<rparr>"

definition as_dict :: "collected \<Rightarrow> json_object" where
  "as_dict c = [(''service'', json_text (c_service c)), (''category'', json_text (c_category c)),
     (''area'', json_text (c_area c)), (''date_text'', json_text (c_date c)),
     (''time_text'', json_text (c_time c))]"

definition collected_of :: "json_object \<Rightarrow> collected" where
  "collected_of d = \<lparr>c_service = maybe_str (text_of (json_get d ''service'')),
     c_category = maybe_str (text_of (json_get d ''category'')),
     c_area = maybe_str (text_of (json_get d ''area'')),
     c_date = maybe_str (text_of (json_get d ''date_text'')),
     c_time = maybe_str (text_of (json_get d ''time_text''))\<rparr>"

subsection \<open>The machine\<close>

record machine_input =
  m_state :: conversation_state
  m_collected :: collected
  m_understanding :: understanding
  m_consent :: consent_state
  m_signal :: consent_signal
  is_new_lead :: bool
  hours_since_last_activity :: real
  m_offer :: "json_object option"
  has_booking :: bool

record transition =
  t_state :: conversation_state
  t_phrases :: "phrase_spec list"
  t_action :: turn_action
  t_collected :: collected
  t_clear_offer :: bool
  t_handoff :: "string option"
  t_note :: string

definition transit ::
    "conversation_state \<Rightarrow> phrase_spec list \<Rightarrow> turn_action \<Rightarrow> collected \<Rightarrow> bool \<Rightarrow> string \<Rightarrow> transition"
  where
  "transit st ps act c clear why = \<lparr>t_state = st, t_phrases = ps, t_action = act, t_collected = c,
     t_clear_offer = clear, t_handoff = None, t_note = why\<rparr>"

definition RESUMPTION_GAP_HOURS :: real where
  "RESUMPTION_GAP_HOURS = 6"

definition ask_for_next_gap :: "collected \<Rightarrow> phrase_spec" where
  "ask_for_next_gap c =
     (let gaps = missing c in
      if ''service'' \<in> set gaps then say ASK_SERVICE
      else if ''area'' \<in> set gaps then say ASK_AREA
      else if ''date'' \<in> set gaps then say ASK_WHEN
      else say ACK_RECEIVED)"

definition offer_pending :: "machine_input \<Rightarrow> bool" where
  "offer_pending i = (case m_offer i of None \<Rightarrow> False | Some d \<Rightarrow> d \<noteq> [])"

definition post_booking :: "machine_input \<Rightarrow> collected \<Rightarrow> transition option" where
  "post_booking i c =
     (let u = m_understanding i in
      if u_intent u = ''booking_status'' then
        Some (transit POST_BOOKING [] LOOKUP_BOOKING c False ''status requested'')
      else if u_intent u = ''reschedule_booking'' then
        Some (transit SLOT_FILLING [say POST_RESCHEDULE_ASK] NO_ACTION
          (merged_with (c\<lparr>c_date := None, c_time := None\<rparr>) u) True ''reschedule requested'')
      else if u_intent u = ''cancel_booking'' then
        Some (transit POST_BOOKING [] CANCEL_BOOKING c False ''cancellation requested'')
      else if truthy (u_service u) \<and> u_service u \<noteq> c_service c then
        let fresh_slots = merged_with no_slots u
        in Some (transit SLOT_FILLING [ask_for_next_gap fresh_slots] NO_ACTION fresh_slots True
             ''new request after a booking'')
      else None)"

definition first_contact :: "collected \<Rightarrow> transition" where
  "first_contact c =
     (let ps = [say GREETING_WELCOME, say phrase_key.CONSENT_NOTICE] in
      if complete c then
        transit SLOT_PRESENTATION ps SEARCH c False
          ''greeted, notice shown, searching on their opening request''
      else if truthy (c_service c) then
        transit SLOT_FILLING (ps @ [ask_for_next_gap c]) NO_ACTION c False
          ''greeted, notice shown, and kept their request''
      else transit INTENT ps NO_ACTION c False [])"

definition redo_search :: "collected \<Rightarrow> string \<Rightarrow> transition" where
  "redo_search c why = transit SLOT_FILLING [say CHANGE_ACKNOWLEDGED]
     (if complete c then SEARCH else NO_ACTION) c True why"

definition awaiting_confirmation :: "machine_input \<Rightarrow> collected \<Rightarrow> transition" where
  "awaiting_confirmation i c =
     (let u = m_understanding i in
      if confirmation u = Some ''yes'' then
        (if \<not> may_share_pii (m_consent i) then
           transit CONFIRMATION [say phrase_key.CONSENT_NOTICE] NO_ACTION c False
             ''consent required before a booking can be created''
         else transit BOOKING [] BOOK c False ''explicit confirmation of a concrete slot'')
      else if confirmation u = Some ''no'' \<or> is_correction u then
        redo_search c ''offer declined or amended''
      else if carries_detail u then redo_search c ''new details supersede the pending offer''
      else transit CONFIRMATION [say CONFIRM_REQUEST] NO_ACTION c False
             ''confirmation still outstanding'')"

text \<open>\<open>sep.join(items)\<close>\<close>

fun join :: "string \<Rightarrow> string list \<Rightarrow> string" where
  "join sep [] = []"
| "join sep [x] = x"
| "join sep (x # y # rest) = x @ sep @ join sep (y # rest)"

definition fill_slots :: "understanding \<Rightarrow> collected \<Rightarrow> transition" where
  "fill_slots u c =
     (if complete c then
        transit SLOT_PRESENTATION (if is_correction u then [say CHANGE_ACKNOWLEDGED] else [])
          SEARCH c True ''all details present; searching''
      else transit SLOT_FILLING [ask_for_next_gap c] NO_ACTION c False
             (''still missing: '' @ join '', '' (missing c)))"

definition nothing_understood :: "collected \<Rightarrow> transition" where
  "nothing_understood c =
     (if complete c then
        transit SLOT_PRESENTATION [] SEARCH c True
          ''unclear message, but the request is already complete''
      else if truthy (c_service c) then
        transit SLOT_FILLING [ask_for_next_gap c] NO_ACTION c False
          ''unclear; re-asked the outstanding detail''
      else transit INTENT [say FALLBACK_UNCLEAR] NO_ACTION c False [])"

definition advance :: "machine_input \<Rightarrow> transition" where
  "advance i =
     (let u = m_understanding i; c = merged_with (m_collected i) u in
      if wants_human u then
        \<lparr>t_state = HANDOFF_STATE, t_phrases = [say HANDOFF_CONNECTING], t_action = HAND_OFF,
          t_collected = c, t_clear_offer = False, t_handoff = Some ''consumer_request'',
          t_note = ''consumer asked for a human''\<rparr>
      else if m_signal i = WITHDRAWAL then
        transit GREETING [say phrase_key.CONSENT_WITHDRAWN] NO_ACTION no_slots True
          ''consent withdrawn''
      else if u_language u = ''ar'' then
        transit (if m_state i \<noteq> GREETING then m_state i else INTENT)
          [say LANGUAGE_ENGLISH_ONLY] NO_ACTION c False
          ''non-English message in an English-only build''
      else if is_new_lead i \<or> m_consent i = UNKNOWN then first_contact c
      else if m_consent i = consent_state.WITHDRAWN then
        transit INTENT [say GREETING_RETURNING, say phrase_key.CONSENT_NOTICE] NO_ACTION c False
          ''previously withdrawn; notice re-shown''
      else
        let post = (if m_state i \<in> {CONFIRMED, POST_BOOKING} \<or> has_booking i
                    then post_booking i c else None)
        in case post of
             Some t \<Rightarrow> t
           | None \<Rightarrow>
             if RESUMPTION_GAP_HOURS \<le> hours_since_last_activity i
                \<and> m_state i \<notin> {GREETING, INTENT} \<and> \<not> carries_detail u \<and> confirmation u = None then
               transit (if truthy (c_service c) then SLOT_FILLING else INTENT)
                 [say GREETING_RESUMED] NO_ACTION c False ''resumed after a gap''
             else if m_state i = CONFIRMATION \<and> offer_pending i then awaiting_confirmation i c
             else if area_ambiguous u \<noteq> [] then
               transit CLARIFICATION [(CLARIFY_AREA, [(''options'', join '' or '' (area_ambiguous u))])]
                 NO_ACTION (c\<lparr>c_area := None\<rparr>) False ''area matches more than one emirate''
             else if emoji_only u then
               transit (m_state i) [say FALLBACK_EMOJI] NO_ACTION c False ''emoji only''
             else if u_intent u = ''unclear'' \<and> \<not> carries_detail u then nothing_understood c
             else fill_slots u c)"

subsection \<open>Facts\<close>

lemma transit_simps [simp]:
  "t_state (transit st ps act c clear why) = st" "t_phrases (transit st ps act c clear why) = ps"
  "t_action (transit st ps act c clear why) = act"
  "t_collected (transit st ps act c clear why) = c"
  "t_clear_offer (transit st ps act c clear why) = clear"
  "t_handoff (transit st ps act c clear why) = None"
  by (simp_all add: transit_def)

lemmas machine_defs = advance_def first_contact_def redo_search_def awaiting_confirmation_def
  fill_slots_def nothing_understood_def post_booking_def Let_def

text \<open>The messages the machine reads past its overrides.\<close>

definition engaged :: "machine_input \<Rightarrow> bool" where
  "engaged i \<longleftrightarrow> \<not> wants_human (m_understanding i) \<and> m_signal i \<noteq> WITHDRAWAL
     \<and> u_language (m_understanding i) \<noteq> ''ar'' \<and> \<not> is_new_lead i
     \<and> m_consent i \<in> {consent_state.NOTICE_SHOWN, GRANTED}"

lemma maybe_str_idem [simp]: "maybe_str (maybe_str v) = maybe_str v"
proof -
  have "strip (strip s) = strip s" for s
  proof -
    have head: "strip s \<noteq> [] \<Longrightarrow> \<not> is_space (hd (strip s))"
    proof -
      assume ne: "strip s \<noteq> []"
      let ?t = "dropWhile is_space s"
      obtain zs where "?t = strip s @ zs"
        using takeWhile_dropWhile_id [of is_space "rev ?t"]
        unfolding strip_def rstrip_def lstrip_def by (metis rev_append rev_rev_ident)
      then have "hd (strip s) = hd ?t" "?t \<noteq> []" using ne by auto
      then show ?thesis by (metis hd_dropWhile)
    qed
    have "dropWhile is_space (strip s) = strip s"
      using head by (cases "strip s") auto
    then show ?thesis
      unfolding strip_def [of "strip s"] lstrip_def by (simp add: strip_def)
  qed
  then show ?thesis by (simp add: maybe_str_def split: option.splits)
qed

end
