(* ===== verification/Registry.thy ===== *)
theory Registry
  imports Fakes
    "HOL-Library.List_Lexorder" "HOL-Library.Char_ord"
begin

text \<open>
  Adapter discovery, \<^verbatim>\<open>mawjood/core/aggregators/registry.py\<close>, and the platforms whose
  interface is not known yet, \<^verbatim>\<open>partners.py\<close>, \<^verbatim>\<open>zenoti/__init__.py\<close> and
  \<^verbatim>\<open>deliveroo/__init__.py\<close>: each registers, declares no capability and answers UNSUPPORTED to
  every call. They share one \<open>stub\<close>, which differs in the slug, the categories and the reason
  given per method.
\<close>

subsection \<open>Documented stubs\<close>

definition no_capabilities :: capabilities where
  "no_capabilities = \<lparr>can_search = False, can_book = False, can_reschedule = False,
     can_cancel = False, can_pick_staff = False, honours_idempotency = False\<rparr>"

definition unsupported :: "string \<Rightarrow> 'w \<Rightarrow> ('a, 'w) call" where
  "unsupported why w = \<lparr>elapsed = 0, ending = Returned (result_of UNSUPPORTED None (Some why) 0),
     world_after = w, world_cut = (\<lambda>_. w)\<rparr>"

definition stub :: "string \<Rightarrow> category list \<Rightarrow> (string \<Rightarrow> string) \<Rightarrow> 'w adapter" where
  "stub nm cats why = \<lparr>slug = nm, categories = cats, capabilities = no_capabilities,
     search_availability = (\<lambda>ctx req. unsupported (why ''search_availability'')),
     create_booking = (\<lambda>ctx req. unsupported (why ''create_booking'')),
     get_booking = (\<lambda>ctx ref. unsupported (why ''get_booking'')),
     find_by_idempotency_key = (\<lambda>ctx key. unsupported (why ''find_by_idempotency_key'')),
     reschedule = (\<lambda>ctx ref sl. unsupported (why ''reschedule'')),
     cancel = (\<lambda>ctx ref why_not. unsupported (why ''cancel'')),
     health = (\<lambda>ctx. unsupported (why ''health''))\<rparr>"

text \<open>The dash is the three bytes of U+2014.\<close>

definition em_dash :: string where
  "em_dash = [CHR 0xE2, CHR 0x80, CHR 0x94]"

text \<open>\<open>GateReason\<close>: why a platform cannot be used yet, and the steps that would change that.\<close>

record gate_reason =
  gt_summary :: string
  gt_blocker :: string
  gt_checklist :: "string list"
  gt_docs :: "string option"

text \<open>A partner's \<open>blocked_reason\<close>, the same for every method.\<close>

definition blocked_reason :: "string \<Rightarrow> gate_reason \<Rightarrow> string" where
  "blocked_reason nm g = nm @ '': '' @ gt_summary g @ '' ('' @ gt_blocker g @ '')''"

definition partner :: "string \<Rightarrow> category list \<Rightarrow> gate_reason \<Rightarrow> 'w adapter" where
  "partner nm cats g = stub nm cats (\<lambda>_. blocked_reason nm g)"

definition opentable_gate :: gate_reason where
  "opentable_gate =
    \<lparr>gt_summary = ''affiliate approval required'',
     gt_blocker = ''the reservation API is gated behind an affiliate agreement'',
     gt_checklist =
      [''Apply to the OpenTable affiliate or partner programme as the operating entity.'',
       ''Obtain the restaurant-availability and reservation API contract; record endpoints, auth, pagination, rate limits and error shapes in docs/INTEGRATION_NOTES.md.'',
       ''Confirm whether reservations can be created on a consumer's behalf by a third party, or only deep-linked. If only deep-linked, this platform can never complete a booking and should be re-scoped to search-only.'',
       ''Confirm idempotency on create, and how to determine after a timeout whether a reservation landed (CLAUDE.md 5.1 depends on this).'',
       ''Confirm UAE market coverage '' @ em_dash @ '' the UAE presence is thinner than the US.''],
     gt_docs = Some (''OpenTable partner/affiliate portal (requires an approved account)'')\<rparr>"

definition opentable_adapter :: "'w adapter" where
  "opentable_adapter = partner ''opentable'' [category.RESTAURANT] opentable_gate"

definition foodics_gate :: gate_reason where
  "foodics_gate =
    \<lparr>gt_summary = ''merchant app registration required'',
     gt_blocker = ''needs an app registered against each merchant's Foodics account'',
     gt_checklist =
      [''Register a developer account and create an application.'',
       ''Establish the per-merchant authorisation flow '' @ em_dash @ '' Foodics is merchant-side, so each venue authorises us separately. Confirm this fits the merchant_credentials model (it should: that is what decision 1 is for).'',
       ''Determine whether the API exposes *reservations* or only orders and menu management. If orders only, the same constraint as Deliveroo applies and an outside assistant cannot originate one.'',
       ''Record endpoints, auth, rate limits and error shapes.'',
       ''Confirm idempotency on create and the post-timeout reconciliation path.''],
     gt_docs = Some (''Foodics developer portal (requires a developer account)'')\<rparr>"

definition foodics_adapter :: "'w adapter" where
  "foodics_adapter = partner ''foodics'' [category.RESTAURANT, category.FOOD_DELIVERY] foodics_gate"

definition booksy_gate :: gate_reason where
  "booksy_gate =
    \<lparr>gt_summary = ''partner API licence required'',
     gt_blocker = ''no public booking API; access is by commercial agreement'',
     gt_checklist =
      [''Contact Booksy partnerships as the operating entity and establish whether a third-party booking API exists at all. This is the open question; if the answer is no, close this adapter out rather than leaving it hopeful.'',
       ''If yes, obtain the contract and record it in docs/INTEGRATION_NOTES.md.'',
       ''Confirm UAE coverage and how venues map to merchant credentials.'',
       ''Confirm idempotency on create and the post-timeout reconciliation path.''],
     gt_docs = Some (''none public '' @ em_dash @ '' obtained under agreement'')\<rparr>"

definition booksy_adapter :: "'w adapter" where
  "booksy_adapter = partner ''booksy'' [category.SALON, category.SPA] booksy_gate"

definition talabat_gate :: gate_reason where
  "talabat_gate =
    \<lparr>gt_summary = ''partnership required'',
     gt_blocker = ''no public consumer ordering API'',
     gt_checklist =
      [''Approach Talabat/Delivery Hero partnerships as the operating entity.'',
       ''Establish first, before anything else, whether a consumer-side ordering API exists for third parties. Deliveroo's does not; assume the same until shown otherwise, and do not spend on integration work before this answer.'',
       ''If ordering is merchant-side only, mark this platform not_what_this_api_is_for, as core/aggregators/deliveroo does.'',
       ''Otherwise record the contract and confirm idempotency on create.''],
     gt_docs = Some (''none public '' @ em_dash @ '' Delivery Hero partner channels'')\<rparr>"

definition talabat_adapter :: "'w adapter" where
  "talabat_adapter = partner ''talabat'' [category.FOOD_DELIVERY] talabat_gate"

definition careem_gate :: gate_reason where
  "careem_gate =
    \<lparr>gt_summary = ''partnership required'',
     gt_blocker = ''Everything App APIs are partner-gated'',
     gt_checklist =
      [''Approach Careem partnerships as the operating entity.'',
       ''Scope which vertical is in play. Rides and food are different products with different contracts; do not assume one agreement covers both.'',
       ''For rides, confirm whether a booking can be made on a consumer's behalf or only deep-linked into the Careem app.'',
       ''Note that ride is the only category with no second candidate configured, so until this exists every ride request goes to a human. That is correct behaviour, not a bug, but it is worth knowing before launch.'',
       ''Record the contract and confirm idempotency on create.''],
     gt_docs = Some (''none public '' @ em_dash @ '' Careem partner channels'')\<rparr>"

definition careem_adapter :: "'w adapter" where
  "careem_adapter = partner ''careem'' [category.RIDE, category.FOOD_DELIVERY] careem_gate"

definition PARTNER_ADAPTERS :: "'w adapter list" where
  "PARTNER_ADAPTERS = [opentable_adapter, foodics_adapter, booksy_adapter, talabat_adapter,
     careem_adapter]"

definition PARTNER_GATES :: "gate_reason list" where
  "PARTNER_GATES = [opentable_gate, foodics_gate, booksy_gate, talabat_gate, careem_gate]"

text \<open>Every gate can be acted on: it says where to turn to and lists at least three steps, each a sentence.\<close>

lemma gates_are_actionable:
  "list_all (\<lambda>g. gt_docs g \<noteq> None \<and> 3 \<le> length (gt_checklist g)
     \<and> list_all (\<lambda>step. 30 < length step) (gt_checklist g)) PARTNER_GATES"
  by code_simp

definition zenoti_adapter :: "'w adapter" where
  "zenoti_adapter = stub ''zenoti'' [category.SALON, category.SPA]
     (\<lambda>_. ''Zenoti API documentation is unreachable (HTTP 403 on every path)'')"

datatype support = BLOCKED | NOT_WHAT_THIS_API_IS_FOR

definition clears_with_a_partnership :: "support \<Rightarrow> bool" where
  "clears_with_a_partnership s = (s = BLOCKED)"

definition support_value :: "support \<Rightarrow> string" where
  "support_value s = (case s of BLOCKED \<Rightarrow> ''blocked''
     | NOT_WHAT_THIS_API_IS_FOR \<Rightarrow> ''not_what_this_api_is_for'')"

definition SUPPORT :: "(string \<times> support \<times> string) list" where
  "SUPPORT =
    [(''search_availability'', BLOCKED,
      ''Restaurant open/closed and delivery-zone data plausibly exists, but the contract is unknown and the docs are unreachable.''),
     (''create_booking'', NOT_WHAT_THIS_API_IS_FOR,
      ''The Order API receives orders Deliveroo has already taken from a consumer through its own apps. It does not place them. An outside assistant cannot originate an order through it, with or without a partnership.''),
     (''get_booking'', NOT_WHAT_THIS_API_IS_FOR,
      ''A merchant can read orders it received. Mawjood never originates one, so there is nothing of ours to read back.''),
     (''find_by_idempotency_key'', NOT_WHAT_THIS_API_IS_FOR,
      ''Reconciliation presupposes a create we performed. See create_booking.''),
     (''reschedule'', NOT_WHAT_THIS_API_IS_FOR,
      ''Food delivery has no reschedule in the sense a booking does.''),
     (''cancel'', BLOCKED,
      ''Merchant-side cancellation exists, but only for orders the merchant owns. Unusable until the two above resolve.''),
     (''health'', BLOCKED, ''Needs a base URL and a credential; both unknown.'')]"

definition deliveroo_why :: "string \<Rightarrow> string" where
  "deliveroo_why method = (case map_of SUPPORT method of
     Some (s, detail) \<Rightarrow>
       ''deliveroo.'' @ method @ '': '' @ support_value s @ '' '' @ em_dash @ '' '' @ detail
   | None \<Rightarrow> [])"

definition deliveroo_adapter :: "'w adapter" where
  "deliveroo_adapter = stub ''deliveroo'' [category.FOOD_DELIVERY, category.RESTAURANT] deliveroo_why"

definition partnership_would_unlock_booking :: bool where
  "partnership_would_unlock_booking =
     (case map_of SUPPORT ''create_booking'' of
        Some (s, _) \<Rightarrow> clears_with_a_partnership s | None \<Rightarrow> False)"

subsection \<open>The registry\<close>

type_synonym 'w registry = "(string \<times> 'w adapter) list"

text \<open>\<open>register\<close>; None is \<open>DuplicateAdapter\<close>.\<close>

definition register :: "'w registry \<Rightarrow> 'w adapter \<Rightarrow> 'w registry option" where
  "register reg a = (if map_of reg (slug a) \<noteq> None then None else Some (reg @ [(slug a, a)]))"

definition registry_get :: "'w registry \<Rightarrow> string \<Rightarrow> 'w adapter option" where
  "registry_get reg s = map_of reg s"

definition registry_for_category :: "'w registry \<Rightarrow> category \<Rightarrow> 'w adapter list" where
  "registry_for_category reg cat = filter (\<lambda>a. cat \<in> set (categories a)) (map snd reg)"

fun register_all :: "'w registry \<Rightarrow> 'w adapter list \<Rightarrow> 'w registry option" where
  "register_all reg [] = Some reg"
| "register_all reg (a # rest) =
     (case register reg a of None \<Rightarrow> None | Some reg' \<Rightarrow> register_all reg' rest)"

definition live_adapters :: "'w adapter list" where
  "live_adapters = zenoti_adapter # deliveroo_adapter # PARTNER_ADAPTERS"

definition default_fakes :: "style \<Rightarrow> fake_world adapter list" where
  "default_fakes st = [happy_fake st 0, empty_fake st 0, timeout_fake st ''fake_timeout'' 0 False,
     inconclusive_fake st 0 False, flaky_fake st (4 / 10), auth_fail_fake st 0]"

definition build_default_registry :: "style \<Rightarrow> bool \<Rightarrow> fake_world registry option" where
  "build_default_registry st include_fakes =
     register_all [] (live_adapters @ (if include_fakes then default_fakes st else []))"

text \<open>\<open>build_registry_for\<close>: fakes in production are refused with a \<open>RuntimeError\<close>.\<close>

datatype 'w registry_result = Registry "'w registry" | Duplicate_Adapter | Fakes_In_Production

definition build_registry_for :: "style \<Rightarrow> string \<Rightarrow> bool \<Rightarrow> fake_world registry_result" where
  "build_registry_for st environment enable_fake_adapters =
     (if enable_fake_adapters \<and> environment = ''prod'' then Fakes_In_Production
      else case build_default_registry st enable_fake_adapters of
        Some reg \<Rightarrow> Registry reg | None \<Rightarrow> Duplicate_Adapter)"

text \<open>\<open>require\<close> raises a \<open>KeyError\<close> where \<open>get\<close> returns None.\<close>

definition registry_require :: "'w registry \<Rightarrow> string \<Rightarrow> string + 'w adapter" where
  "registry_require reg s = (case registry_get reg s of None \<Rightarrow> Inl s | Some a \<Rightarrow> Inr a)"

definition registry_slugs :: "'w registry \<Rightarrow> string list" where
  "registry_slugs reg = sort (map fst reg)"

definition registry_contains :: "'w registry \<Rightarrow> string \<Rightarrow> bool" where
  "registry_contains reg s = list_ex (\<lambda>p. fst p = s) reg"

text \<open>The warning about fakes: the flag of the process, and whether a line is written.\<close>

definition warn_about_fakes :: "bool \<Rightarrow> bool \<times> bool" where
  "warn_about_fakes warned = (True, \<not> warned)"

primrec fake_warnings :: "bool \<Rightarrow> bool list \<Rightarrow> nat" where
  "fake_warnings warned [] = 0"
| "fake_warnings warned (include_fakes # more_builds) =
     (if \<not> include_fakes then fake_warnings warned more_builds
      else let (warned', line) = warn_about_fakes warned
        in (if line then 1 else 0) + fake_warnings warned' more_builds)"

text \<open>However many registries a process builds, it warns once, if fakes were ever among them.\<close>

lemma fakes_are_warned_about_once:
  "fake_warnings False builds = (if True \<in> set builds then 1 else 0)"
proof -
  have quiet: "fake_warnings True bs = 0" for bs by (induction bs) (simp_all add: warn_about_fakes_def)
  show ?thesis by (induction builds) (auto simp: warn_about_fakes_def quiet)
qed

subsection \<open>Registered adapters keep the booking contract\<close>

definition keyed :: "'w registry \<Rightarrow> bool" where
  "keyed reg \<longleftrightarrow> distinct (map fst reg) \<and> (\<forall>(s, a)\<in>set reg. slug a = s)"

lemma register_keyed: "keyed reg \<Longrightarrow> register reg a = Some reg' \<Longrightarrow> keyed reg'"
  by (auto simp: keyed_def register_def map_of_eq_None_iff split: if_splits)

lemma register_all_keyed: "keyed reg \<Longrightarrow> register_all reg as = Some reg' \<Longrightarrow> keyed reg'"
  by (induction reg as rule: register_all.induct) (auto split: option.splits dest: register_keyed)

lemma register_all_adapters:
  "register_all reg as = Some reg' \<Longrightarrow> map snd reg' = map snd reg @ as"
  by (induction reg as rule: register_all.induct)
     (auto simp: register_def split: option.splits if_splits)

lemma keyed_get: "keyed reg \<Longrightarrow> registry_get reg s = Some a \<Longrightarrow> slug a = s \<and> a \<in> set (map snd reg)"
  by (force simp: keyed_def registry_get_def dest: map_of_SomeD)

text \<open>The views of a registry agree: its slugs are each listed once, in order, and are those it has.\<close>

theorem registry_views_agree:
  assumes "keyed reg"
  shows "sorted (registry_slugs reg)" and "distinct (registry_slugs reg)" and "length (registry_slugs reg) = length reg"
    and "s \<in> set (registry_slugs reg) \<longleftrightarrow> registry_contains reg s"
    and "registry_contains reg s \<longleftrightarrow> (\<exists>a. registry_require reg s = Inr a \<and> slug a = s)"
proof -
  show "sorted (registry_slugs reg)" by (simp add: registry_slugs_def)
  show "distinct (registry_slugs reg)" using assms by (simp add: registry_slugs_def keyed_def)
  show "length (registry_slugs reg) = length reg" by (simp add: registry_slugs_def)
  show "s \<in> set (registry_slugs reg) \<longleftrightarrow> registry_contains reg s"
    by (auto simp: registry_slugs_def registry_contains_def list_ex_iff)
  have "registry_contains reg s \<longleftrightarrow> s \<in> fst ` set reg"
    by (auto simp: registry_contains_def list_ex_iff)
  also have "\<dots> \<longleftrightarrow> (\<exists>a. registry_get reg s = Some a)"
    by (simp add: registry_get_def dom_map_of_conv_image_fst [symmetric] domIff)
  finally have "registry_contains reg s \<longleftrightarrow> (\<exists>a. registry_get reg s = Some a)" .
  then show "registry_contains reg s \<longleftrightarrow> (\<exists>a. registry_require reg s = Inr a \<and> slug a = s)"
    using keyed_get [OF assms] by (auto simp: registry_require_def split: option.splits)
qed

inductive is_registered :: "fake_world adapter \<Rightarrow> bool" where
  fake: "is_fake a \<Longrightarrow> is_registered a"
| stub: "is_registered (stub nm cats why)"

lemmas stub_simps = stub_def unsupported_def leaves_def

interpretation platforms: booking_contract fake_live fake_landed is_registered
proof (unfold_locales, goal_cases)
  case (1 a ctx req w w')
  then show ?case by (cases rule: is_registered.cases) (auto simp: fakes.search_inert stub_simps)
next
  case (2 a ctx k w w')
  then show ?case by (cases rule: is_registered.cases) (auto simp: fakes.find_inert stub_simps)
next
  case (3 a ctx k w f)
  then show ?case
    by (cases rule: is_registered.cases) (auto simp: fakes.find_negative stub_simps result_of_def)
next
  case (4 a ctx rq w w')
  then show ?case
    by (cases rule: is_registered.cases)
       (use fakes.create_once [of a ctx rq w w'] in \<open>auto simp: stub_simps\<close>)
next
  case (5 a ctx rq w w')
  then show ?case
    by (cases rule: is_registered.cases)
       (use fakes.create_missing [of a ctx rq w w'] in \<open>auto simp: stub_simps\<close>)
next
  case (6 a ctx rq w r)
  then show ?case
    by (cases rule: is_registered.cases)
       (use fakes.create_clean [of a ctx rq w r] in \<open>auto simp: stub_simps\<close>)
next
  case (7 a ctx rq w r)
  then show ?case
    by (cases rule: is_registered.cases)
       (use fakes.create_ok [of a ctx rq w r] in \<open>auto simp: stub_simps result_of_def\<close>)
next
  case (8 a ctx rq w e)
  then show ?case
    by (cases rule: is_registered.cases)
       (use fakes.create_returns [of a ctx rq w e] in \<open>auto simp: stub_simps\<close>)
qed

lemma live_adapters_registered: "a \<in> set live_adapters \<Longrightarrow> is_registered a"
  by (auto simp: live_adapters_def PARTNER_ADAPTERS_def zenoti_adapter_def deliveroo_adapter_def
        opentable_adapter_def foodics_adapter_def booksy_adapter_def talabat_adapter_def
        careem_adapter_def partner_def intro: is_registered.stub)

lemma default_fakes_registered: "a \<in> set (default_fakes st) \<Longrightarrow> is_registered a"
  by (auto simp: default_fakes_def intro: is_registered.fake is_fake.intros)

lemma live_slugs: "map slug live_adapters = [''zenoti'', ''deliveroo'', ''opentable'', ''foodics'',
    ''booksy'', ''talabat'', ''careem'']"
  by (simp add: live_adapters_def PARTNER_ADAPTERS_def zenoti_adapter_def deliveroo_adapter_def
        opentable_adapter_def foodics_adapter_def booksy_adapter_def talabat_adapter_def
        careem_adapter_def partner_def stub_def)

lemma fake_default_slugs: "map slug (default_fakes st) = [''fake_happy'', ''fake_empty'',
    ''fake_timeout'', ''fake_inconclusive'', ''fake_flaky'', ''fake_auth'']"
  by (simp add: default_fakes_def fake_defs)

lemma register_all_distinct:
  "distinct (map fst reg @ map slug as) \<Longrightarrow> \<exists>reg'. register_all reg as = Some reg'"
proof (induction as arbitrary: reg)
  case (Cons a as)
  then have "map_of reg (slug a) = None" by (auto simp: map_of_eq_None_iff)
  with Cons.IH [of "reg @ [(slug a, a)]"] Cons.prems show ?case by (auto simp: register_def)
qed simp

text \<open>The registry a process runs with always builds: no two adapters claim one slug, each is
  found under its own slug, each keeps the booking contract, and the test doubles are in it
  exactly when they were asked for outside production.\<close>

theorem registry_always_builds:
  "case build_registry_for st environment fakes_wanted of
     Registry reg \<Rightarrow> keyed reg \<and> list_all (\<lambda>p. is_registered (snd p)) reg
       \<and> map snd reg = live_adapters @ (if fakes_wanted then default_fakes st else [])
       \<and> \<not> (fakes_wanted \<and> environment = ''prod'')
   | Duplicate_Adapter \<Rightarrow> False
   | Fakes_In_Production \<Rightarrow> fakes_wanted \<and> environment = ''prod''"
proof (cases "fakes_wanted \<and> environment = ''prod''")
  case True
  then show ?thesis by (simp add: build_registry_for_def)
next
  case False
  let ?as = "live_adapters @ (if fakes_wanted then default_fakes st else [])"
  have "distinct (map slug (live_adapters @ default_fakes st))"
    unfolding map_append live_slugs fake_default_slugs by simp
  then have "distinct (map slug ?as)" by (cases fakes_wanted) simp_all
  then obtain reg where reg: "register_all [] ?as = Some reg"
    using register_all_distinct [of "[]" ?as] by auto
  have "keyed reg" using register_all_keyed [OF _ reg] by (simp add: keyed_def)
  moreover have as: "map snd reg = ?as" using register_all_adapters [OF reg] by simp
  moreover have "is_registered (snd p)" if "p \<in> set reg" for p
  proof -
    have "snd p \<in> set ?as" using that as [symmetric] by simp
    then show ?thesis
      by (auto intro: live_adapters_registered default_fakes_registered split: if_splits)
  qed
  ultimately show ?thesis using reg False
    by (auto simp: build_registry_for_def build_default_registry_def list_all_iff)
qed

end
