(* ===== verification/Router.thy ===== *)
theory Router
  imports Registry Repositories "HOL-Library.List_Lexorder" "HOL-Library.Char_ord"
    "HOL-Library.Multiset" "HOL-Library.AList"
begin

text \<open>
  From configuration to candidates, \<^verbatim>\<open>mawjood/core/routing/router.py\<close>, and the credential
  resolver of \<^verbatim>\<open>mawjood/services/secrets.py\<close> it uses. A secret store is the function its \<open>get\<close>
  is, with None for \<open>SecretNotFound\<close>. The JSON parser is a parameter of the environment store.
\<close>

subsection \<open>Secrets\<close>

type_synonym secret_store = "string \<Rightarrow> (string \<times> string) list option"

definition ENV_PREFIX :: string where
  "ENV_PREFIX = ''MAWJOOD_MERCHANT_''"

definition env_key :: "string \<Rightarrow> string" where
  "env_key ref = ENV_PREFIX @ map (\<lambda>c. if c = CHR ''-'' then CHR ''_'' else c) (upper ref)"

text \<open>What \<open>json.loads\<close> makes of a value: an object of texts, another value, or an error.\<close>

datatype loaded = Loaded_Object "(string \<times> string) list" | Loaded_Other | Not_Json

definition env_store :: "(string \<Rightarrow> string option) \<Rightarrow> (string \<Rightarrow> loaded) \<Rightarrow> secret_store" where
  "env_store environ loads ref =
     (case environ (env_key ref) of
        None \<Rightarrow> None
      | Some raw \<Rightarrow> (case loads raw of Loaded_Object d \<Rightarrow> Some d | _ \<Rightarrow> None))"

definition static_store :: "(string \<times> (string \<times> string) list) list \<Rightarrow> secret_store" where
  "static_store secrets ref = map_of secrets ref"

definition resolve_credentials :: "secret_store \<Rightarrow> string option \<Rightarrow> (string \<times> string) list" where
  "resolve_credentials st secret_ref =
     (if \<not> truthy secret_ref then []
      else case st (the secret_ref) of Some d \<Rightarrow> d | None \<Rightarrow> [])"

text \<open>The backends a setting can choose; the flag is the warning about one that does not exist.\<close>

datatype secret_backend = Env_Backend | Static_Backend "(string \<times> (string \<times> string) list) list"

definition backend_name :: "secret_backend \<Rightarrow> string" where
  "backend_name b = (case b of Env_Backend \<Rightarrow> ''env'' | Static_Backend _ \<Rightarrow> ''static'')"

definition backend_get ::
    "(string \<Rightarrow> string option) \<Rightarrow> (string \<Rightarrow> loaded) \<Rightarrow> secret_backend \<Rightarrow> secret_store" where
  "backend_get environ loads b =
     (case b of Env_Backend \<Rightarrow> env_store environ loads | Static_Backend secrets \<Rightarrow> static_store secrets)"

definition secret_put ::
    "string \<Rightarrow> (string \<times> string) list \<Rightarrow> (string \<times> (string \<times> string) list) list
       \<Rightarrow> (string \<times> (string \<times> string) list) list" where
  "secret_put ref vs secrets = AList.update ref vs secrets"

definition build_secret_store :: "string \<Rightarrow> secret_backend \<times> bool" where
  "build_secret_store requested =
     (if requested = ''static'' then (Static_Backend [], False) else (Env_Backend, requested \<noteq> ''env''))"

text \<open>What is put under a reference is what a merchant with that reference is given, and nobody else's
  credentials change.\<close>

theorem put_credentials_are_resolved:
  "resolve_credentials (static_store (secret_put ref vs secrets)) (Some r)
     = (if r = ref \<and> r \<noteq> [] then vs else resolve_credentials (static_store secrets) (Some r))"
  by (auto simp: resolve_credentials_def static_store_def secret_put_def update_conv')

text \<open>The static backend of a setting starts empty and gives no merchant anything; any name but the two
  reads the environment, with a warning.\<close>

lemma static_backend_knows_nobody:
  "resolve_credentials (backend_get environ loads (fst (build_secret_store ''static''))) r = []"
  by (simp add: build_secret_store_def backend_get_def resolve_credentials_def static_store_def)

lemma unknown_backend_reads_the_environment:
  "backend_name (fst (build_secret_store requested)) = requested \<longleftrightarrow> \<not> snd (build_secret_store requested)"
  by (auto simp: build_secret_store_def backend_name_def)

subsection \<open>The router\<close>

definition platforms_for :: "store \<Rightarrow> uid \<Rightarrow> category \<Rightarrow> string list" where
  "platforms_for db tid cat =
     map rc_platform (sort_key rc_position
       (filter (\<lambda>r. rc_tenant r = tid \<and> rc_category r = cat \<and> rc_enabled r) (routing db)))"

definition merchants_for :: "store \<Rightarrow> uid \<Rightarrow> string \<Rightarrow> merchant_row list" where
  "merchants_for db tid p =
     sort_key mc_priority (sort_key mc_name
       (filter (\<lambda>m. mc_tenant m = tid \<and> mc_platform m = p \<and> mc_active m) (merchants db)))"

definition in_area :: "string \<Rightarrow> merchant_row \<Rightarrow> bool" where
  "in_area wanted m = (lower (strip (or_else (mc_area m) [])) = wanted)"

definition prefer_area :: "string option \<Rightarrow> merchant_row list \<Rightarrow> merchant_row list" where
  "prefer_area area xs =
     (if \<not> truthy area then xs
      else let wanted = lower (strip (the area))
           in filter (in_area wanted) xs @ filter (\<lambda>m. \<not> in_area wanted m) xs)"

definition candidate_of :: "secret_store \<Rightarrow> string \<Rightarrow> 'w adapter \<Rightarrow> merchant_row \<Rightarrow> 'w candidate" where
  "candidate_of st p a m = \<lparr>cand_adapter = a,
     cand_merchant = \<lparr>platform_slug = p, merchant_id = mc_id m, display_name = mc_name m,
        external_ids = mc_external_ids m, merchant_area = mc_area m\<rparr>,
     cand_credentials = resolve_credentials st (mc_secret_ref m)\<rparr>"

text \<open>A platform without an adapter, or without merchants, contributes nothing.\<close>

definition platform_candidates ::
    "'w registry \<Rightarrow> secret_store \<Rightarrow> store \<Rightarrow> uid \<Rightarrow> string option \<Rightarrow> string \<Rightarrow> 'w candidate list"
  where
  "platform_candidates reg st db tid area p =
     (case registry_get reg p of
        None \<Rightarrow> []
      | Some a \<Rightarrow> map (candidate_of st p a) (prefer_area area (merchants_for db tid p)))"

definition candidates_for ::
    "'w registry \<Rightarrow> secret_store \<Rightarrow> store \<Rightarrow> uid \<Rightarrow> category \<Rightarrow> string option \<Rightarrow> 'w candidate list"
  where
  "candidates_for reg st db tid cat area =
     concat (map (platform_candidates reg st db tid area) (platforms_for db tid cat))"

subsection \<open>Facts\<close>

lemma prefer_area_mset [simp]: "mset (prefer_area area xs) = mset xs"
  by (simp add: prefer_area_def Let_def)

lemma prefer_area_set [simp]: "set (prefer_area area xs) = set xs"
  using prefer_area_mset by (metis set_mset_mset)

lemma prefer_area_length [simp]: "length (prefer_area area xs) = length xs"
  using prefer_area_mset by (metis size_mset)

lemma merchants_for_in: "m \<in> set (merchants_for db tid p) \<longleftrightarrow>
    m \<in> set (merchants db) \<and> mc_tenant m = tid \<and> mc_platform m = p \<and> mc_active m"
  by (auto simp: merchants_for_def)

lemma platform_candidates_slug:
  "map cand_slug (platform_candidates reg st db tid area p)
     = replicate (length (platform_candidates reg st db tid area p)) p"
  by (auto simp: platform_candidates_def candidate_of_def cand_slug_def map_replicate_const
        comp_def split: option.splits)

lemma platform_candidates_mset:
  "mset (platform_candidates reg st db tid area p) = mset (platform_candidates reg st db tid None p)"
  by (auto simp: platform_candidates_def split: option.splits)

lemma platform_candidates_length:
  "length (platform_candidates reg st db tid area p)
     = length (platform_candidates reg st db tid None p)"
  using platform_candidates_mset [of reg st db tid area p] by (metis size_mset)

text \<open>Asking for an area only reorders: the candidates are the same ones, each as often, and the
  cascade still goes through the platforms in their configured order.\<close>

theorem area_only_reorders:
  "mset (candidates_for reg st db tid cat area) = mset (candidates_for reg st db tid cat None) \<and>
   map cand_slug (candidates_for reg st db tid cat area)
     = concat (map (\<lambda>p. replicate (length (platform_candidates reg st db tid None p)) p)
                 (map rc_platform (sort_key rc_position
                   (filter (\<lambda>r. rc_tenant r = tid \<and> rc_category r = cat \<and> rc_enabled r)
                     (routing db)))))"
proof
  have "mset (concat (map (platform_candidates reg st db tid area) ps))
      = mset (concat (map (platform_candidates reg st db tid None) ps))" for ps
  proof (induction ps)
    case (Cons p ps)
    then show ?case using platform_candidates_mset [of reg st db tid area p] by simp
  qed simp
  then show "mset (candidates_for reg st db tid cat area)
      = mset (candidates_for reg st db tid cat None)"
    by (simp add: candidates_for_def)
  have "map cand_slug (concat (map (platform_candidates reg st db tid area) ps))
      = concat (map (\<lambda>p. replicate (length (platform_candidates reg st db tid None p)) p) ps)" for ps
    by (induction ps) (simp_all add: platform_candidates_slug
        platform_candidates_length [of reg st db tid area])
  then show "map cand_slug (candidates_for reg st db tid cat area)
     = concat (map (\<lambda>p. replicate (length (platform_candidates reg st db tid None p)) p)
                 (map rc_platform (sort_key rc_position
                   (filter (\<lambda>r. rc_tenant r = tid \<and> rc_category r = cat \<and> rc_enabled r)
                     (routing db)))))"
    by (simp only: candidates_for_def platforms_for_def)
qed

lemma candidates_for_in:
  "c \<in> set (candidates_for reg st db tid cat area) \<longleftrightarrow>
     (\<exists>r a m. r \<in> set (routing db) \<and> rc_tenant r = tid \<and> rc_category r = cat \<and> rc_enabled r
        \<and> registry_get reg (rc_platform r) = Some a
        \<and> m \<in> set (merchants db) \<and> mc_tenant m = tid \<and> mc_platform m = rc_platform r \<and> mc_active m
        \<and> c = candidate_of st (rc_platform r) a m)"
  by (force simp: candidates_for_def platforms_for_def platform_candidates_def merchants_for_in
        split: option.splits)

text \<open>A candidate is exactly a merchant of this tenant that is active, on a platform the tenant
  enabled for the category and that has an adapter: another tenant's rows, disabled platforms
  and unregistered slugs contribute nothing, and every merchant that qualifies is there.\<close>

theorem candidates_are_configured:
  "set (candidates_for reg st db tid cat area) =
     {candidate_of st (rc_platform r) a m | r a m.
        r \<in> set (routing db) \<and> rc_tenant r = tid \<and> rc_category r = cat \<and> rc_enabled r
        \<and> registry_get reg (rc_platform r) = Some a
        \<and> m \<in> set (merchants db) \<and> mc_tenant m = tid \<and> mc_platform m = rc_platform r
        \<and> mc_active m}"
  by (intro set_eqI) (simp only: candidates_for_in mem_Collect_eq, blast)

lemma candidates_adapter:
  assumes "keyed reg" and "c \<in> set (candidates_for reg st db tid cat area)"
  shows "cand_adapter c \<in> set (map snd reg)" and "cand_slug c = slug (cand_adapter c)"
  using assms keyed_get [OF assms(1)]
  by (auto simp: candidates_for_in candidate_of_def cand_slug_def)

end
