(* ===== verification/Materiality.thy ===== *)
theory Materiality
  imports Adapter
begin

text \<open>
  Re-confirmation on material change, \<^verbatim>\<open>mawjood/core/routing/materiality.py\<close>. A reason is the
  message of the source with its interpolated values as arguments.
\<close>

record tolerances =
  venue_must_match :: bool
  start_minutes :: int
  price_percent :: real

definition default_tolerances :: tolerances where
  "default_tolerances = \<lparr>venue_must_match = True, start_minutes = 30, price_percent = 15\<rparr>"

datatype drift =
    Venue_Changed string string
  | Start_Moved int int
  | Price_Rose real real
  | Price_Known_For_One
  | Deposit_Required

record materiality_verdict =
  material :: bool
  reasons :: "drift list"

definition needs_reconfirmation :: "materiality_verdict \<Rightarrow> bool" where
  "needs_reconfirmation v = material v"

definition venue_key :: "slot \<Rightarrow> string \<times> string" where
  "venue_key s = (lower (strip (venue_name s)), platform_slug (slot_merchant s))"

definition drift_minutes :: "slot \<Rightarrow> slot \<Rightarrow> real" where
  "drift_minutes confirmed replacement =
     of_int \<bar>slot_start replacement - slot_start confirmed\<bar> / 60000000"

text \<open>A price of zero is as false as no price at all.\<close>

definition priced :: "slot \<Rightarrow> bool" where
  "priced s = (case price_amount s of None \<Rightarrow> False | Some p \<Rightarrow> p \<noteq> 0)"

definition rise_percent :: "slot \<Rightarrow> slot \<Rightarrow> real" where
  "rise_percent confirmed replacement =
     (the (price_amount replacement) - the (price_amount confirmed))
       / the (price_amount confirmed) * 100"

definition venue_reasons :: "slot \<Rightarrow> slot \<Rightarrow> tolerances \<Rightarrow> drift list" where
  "venue_reasons c r t =
     (if venue_must_match t \<and> venue_key c \<noteq> venue_key r
      then [Venue_Changed (venue_name c) (venue_name r)] else [])"

definition start_reasons :: "slot \<Rightarrow> slot \<Rightarrow> tolerances \<Rightarrow> drift list" where
  "start_reasons c r t =
     (if of_int (start_minutes t) < drift_minutes c r
      then [Start_Moved (\<lfloor>drift_minutes c r\<rfloor>) (start_minutes t)] else [])"

definition price_reasons :: "slot \<Rightarrow> slot \<Rightarrow> tolerances \<Rightarrow> drift list" where
  "price_reasons c r t =
     (if priced c \<and> priced r then
        (if price_percent t < rise_percent c r
         then [Price_Rose (rise_percent c r) (price_percent t)] else [])
      else if priced c \<noteq> priced r then [Price_Known_For_One] else [])"

definition deposit_reasons :: "slot \<Rightarrow> slot \<Rightarrow> drift list" where
  "deposit_reasons c r = (if requires_deposit r \<and> \<not> requires_deposit c then [Deposit_Required] else [])"

definition compare_slots :: "slot \<Rightarrow> slot \<Rightarrow> tolerances \<Rightarrow> materiality_verdict" where
  "compare_slots c r t =
     (let rs = venue_reasons c r t @ start_reasons c r t @ price_reasons c r t
               @ deposit_reasons c r
      in \<lparr>material = (rs \<noteq> []), reasons = rs\<rparr>)"

lemmas reason_defs = venue_reasons_def start_reasons_def price_reasons_def deposit_reasons_def

lemma compare_slots_material:
  "material (compare_slots c r t) \<longleftrightarrow>
     (venue_must_match t \<and> venue_key c \<noteq> venue_key r)
   \<or> of_int (start_minutes t) < drift_minutes c r
   \<or> (priced c \<and> priced r \<and> price_percent t < rise_percent c r)
   \<or> priced c \<noteq> priced r
   \<or> (requires_deposit r \<and> \<not> requires_deposit c)"
  by (auto simp: compare_slots_def Let_def reason_defs)

lemma rise_percent_iff:
  assumes "0 < the (price_amount c)"
  shows "p < rise_percent c r \<longleftrightarrow>
    the (price_amount c) * (1 + p / 100) < the (price_amount r)"
  using assms by (simp add: rise_percent_def field_simps)

text \<open>A replacement may be booked without asking exactly when nothing the consumer agreed to
  has changed beyond tolerance: the same venue on the same platform, a start within thirty
  minutes either way, both slots priced with a rise of at most fifteen percent or neither
  priced, and no deposit that was not there before.\<close>

theorem immaterial_is_within_tolerance:
  "\<not> needs_reconfirmation (compare_slots c r default_tolerances) \<longleftrightarrow>
     lower (strip (venue_name c)) = lower (strip (venue_name r))
   \<and> slot_platform c = slot_platform r
   \<and> \<bar>slot_start r - slot_start c\<bar> \<le> minutes 30
   \<and> (if priced c then priced r \<and> rise_percent c r \<le> 15 else \<not> priced r)
   \<and> \<not> (requires_deposit r \<and> \<not> requires_deposit c)"
proof -
  have "30 < drift_minutes c r \<longleftrightarrow> minutes 30 < \<bar>slot_start r - slot_start c\<bar>"
    unfolding drift_minutes_def minutes_def by (simp add: field_simps) linarith
  then show ?thesis
    by (auto simp: needs_reconfirmation_def compare_slots_material default_tolerances_def
          venue_key_def slot_platform_def not_less)
qed

text \<open>Only an increase of the price is material: a replacement that costs less than the
  confirmed slot and is otherwise the same slot is booked without asking, for every tolerance
  that is not negative.\<close>

theorem cheaper_is_immaterial:
  assumes "0 \<le> start_minutes t" and "0 \<le> price_percent t"
    and "price_amount c = Some p" and "0 < p'" and "p' \<le> p"
  shows "\<not> needs_reconfirmation (compare_slots c (c\<lparr>price_amount := Some p'\<rparr>) t)"
proof -
  have "rise_percent c (c\<lparr>price_amount := Some p'\<rparr>) \<le> 0"
    using assms by (simp add: rise_percent_def divide_nonpos_pos)
  with assms show ?thesis
    by (simp add: needs_reconfirmation_def compare_slots_material venue_key_def drift_minutes_def
          priced_def)
qed

definition priced_slot :: "real \<Rightarrow> slot" where
  "priced_slot p = \<lparr>slot_id = ''s'', slot_start = 0, slot_end = 1, venue_name = '' Salon '',
     service_name = ''cut'',
     slot_merchant = \<lparr>platform_slug = ''p'', merchant_id = 1, display_name = ''Salon'',
        external_ids = [], merchant_area = None\<rparr>,
     staff_name = None, price_amount = Some p, price_currency = Some ''AED'', slot_area = None,
     requires_deposit = False\<rparr>"

theorem cheaper_is_immaterial_witness:
  "\<not> needs_reconfirmation
       (compare_slots (priced_slot 100) ((priced_slot 100)\<lparr>price_amount := Some 80\<rparr>)
          default_tolerances)"
  by (rule cheaper_is_immaterial [where p = 100])
     (simp_all add: default_tolerances_def priced_slot_def)

end
