(* ===== verification/When.thy ===== *)
theory When
  imports Prelude
begin

text \<open>
  From "tomorrow evening" to a search window, \<^verbatim>\<open>mawjood/core/routing/when.py\<close>.

  Arithmetic between aware datetimes of one time zone is arithmetic on the wall clock, so a
  local datetime is its wall time in microseconds since the local epoch. A time zone is the
  pair of conversions; Asia/Dubai, the zone the program runs in, is four hours ahead of UTC
  all year. A date is its number of days since 1970-01-01.

  \<open>datetime.fromisoformat\<close> is modelled for calendar dates, with dashes or without, followed by
  nothing, by a separator alone, or by a separator and a time of day with an optional offset.
\<close>

record timezone =
  to_wall :: "instant \<Rightarrow> int"
  of_wall :: "int \<Rightarrow> instant"

definition dubai :: timezone where
  "dubai = \<lparr>to_wall = (\<lambda>t. t + hours 4), of_wall = (\<lambda>w. w - hours 4)\<rparr>"

definition clock_time :: "int \<Rightarrow> int \<Rightarrow> int" where
  "clock_time h m = hours h + minutes m"

definition combine :: "int \<Rightarrow> int \<Rightarrow> int" where
  "combine day tod = days day + tod"

definition date_of :: "int \<Rightarrow> int" where
  "date_of wall = wall div days 1"

text \<open>Monday is 0; 1970-01-01 was a Thursday.\<close>

definition weekday :: "int \<Rightarrow> int" where
  "weekday day = (day + 3) mod 7"

definition DAYPARTS :: "(string \<times> int \<times> int) list" where
  "DAYPARTS = [(''morning'', clock_time 8 0, clock_time 12 0),
     (''midday'', clock_time 11 30, clock_time 14 0),
     (''afternoon'', clock_time 12 0, clock_time 17 0),
     (''evening'', clock_time 17 0, clock_time 22 0),
     (''night'', clock_time 19 0, clock_time 23 0)]"

definition DEFAULT_DAY :: "int \<times> int" where
  "DEFAULT_DAY = (clock_time 9 0, clock_time 21 0)"

definition WEEKDAYS :: "(string \<times> int) list" where
  "WEEKDAYS = [(''monday'', 0), (''tuesday'', 1), (''wednesday'', 2), (''thursday'', 3),
     (''friday'', 4), (''saturday'', 5), (''sunday'', 6)]"

definition CLOCK_SPREAD :: int where
  "CLOCK_SPREAD = minutes 90"

subsection \<open>The patterns\<close>

definition digit :: "char \<Rightarrow> int" where
  "digit c = int (of_char c) - 48"

fun number :: "int \<Rightarrow> string \<Rightarrow> int option" where
  "number acc [] = Some acc"
| "number acc (c # cs) = (if is_digit c then number (acc * 10 + digit c) cs else None)"

text \<open>\<open>^([01]?\d|2[0-3]):([0-5]\d)$\<close>\<close>

fun match_clock :: "string \<Rightarrow> (int \<times> int) option" where
  "match_clock [h, c, m, n] =
     (if is_digit h \<and> c = CHR '':'' \<and> is_digit m \<and> digit m \<le> 5 \<and> is_digit n
      then Some (digit h, digit m * 10 + digit n) else None)"
| "match_clock [g, h, c, m, n] =
     (if is_digit g \<and> is_digit h \<and> digit g * 10 + digit h \<le> 23 \<and> c = CHR '':''
         \<and> is_digit m \<and> digit m \<le> 5 \<and> is_digit n
      then Some (digit g * 10 + digit h, digit m * 10 + digit n) else None)"
| "match_clock _ = None"

definition is_leap :: "int \<Rightarrow> bool" where
  "is_leap y = (y mod 4 = 0 \<and> (y mod 100 \<noteq> 0 \<or> y mod 400 = 0))"

definition days_in_month :: "int \<Rightarrow> int \<Rightarrow> int" where
  "days_in_month y m = (if m = 2 then (if is_leap y then 29 else 28)
     else if m \<in> {4, 6, 9, 11} then 30 else 31)"

definition day_number :: "int \<Rightarrow> int \<Rightarrow> int \<Rightarrow> int" where
  "day_number y m d =
     (let y' = y - 1 in
      365 * y' + y' div 4 - y' div 100 + y' div 400
      + (\<Sum>k\<leftarrow>[1 ..< nat m]. days_in_month y (int k)) + d - 719163)"

definition checked_date :: "int option \<Rightarrow> int option \<Rightarrow> int option \<Rightarrow> int option" where
  "checked_date y m d = (case (y, m, d) of
     (Some y, Some m, Some d) \<Rightarrow>
       (if 1 \<le> y \<and> 1 \<le> m \<and> m \<le> 12 \<and> 1 \<le> d \<and> d \<le> days_in_month y m
        then Some (day_number y m d) else None)
   | _ \<Rightarrow> None)"

text \<open>A time of day: \<open>HH[[:]MM[[:]SS[(.|,)f+]]]\<close>, the colons all there or all absent.\<close>

definition below :: "int \<Rightarrow> string \<Rightarrow> bool" where
  "below n s = (length s = 2 \<and> (case number 0 s of None \<Rightarrow> False | Some k \<Rightarrow> k < n))"

definition fraction :: "string \<Rightarrow> bool" where
  "fraction s = (case s of [] \<Rightarrow> True
     | c # f \<Rightarrow> (c = CHR ''.'' \<or> c = CHR '','') \<and> f \<noteq> [] \<and> list_all is_digit f)"

definition iso_clock :: "string \<Rightarrow> bool" where
  "iso_clock s = (below 24 (take 2 s) \<and>
     (case drop 2 s of
        [] \<Rightarrow> True
      | c # r \<Rightarrow>
          if c = CHR '':'' then below 60 (take 2 r) \<and>
            (case drop 2 r of [] \<Rightarrow> True
             | c' # r' \<Rightarrow> c' = CHR '':'' \<and> below 60 (take 2 r') \<and> fraction (drop 2 r'))
          else below 60 (take 2 (c # r)) \<and>
            (case drop 2 (c # r) of [] \<Rightarrow> True
             | r' \<Rightarrow> below 60 (take 2 r') \<and> fraction (drop 2 r'))))"

definition iso_time :: "string \<Rightarrow> bool" where
  "iso_time s =
     (let sign = (\<lambda>c. c = CHR ''+'' \<or> c = CHR ''-''); clk = takeWhile (\<lambda>c. \<not> sign c) s;
          offset = dropWhile (\<lambda>c. \<not> sign c) s
      in iso_clock clk \<and> (offset = [] \<or> iso_clock (tl offset)))"

definition fromisoformat_date :: "string \<Rightarrow> int option" where
  "fromisoformat_date s =
     (let dashed = (length s \<ge> 5 \<and> s ! 4 = CHR ''-'');
          date = take (if dashed then 10 else 8) s;
          rest = drop (if dashed then 11 else 9) s;
          d = (if dashed
               then (if length date = 10 \<and> date ! 7 = CHR ''-''
                     then checked_date (number 0 (take 4 date)) (number 0 (take 2 (drop 5 date)))
                            (number 0 (drop 8 date))
                     else None)
               else (if length date = 8
                     then checked_date (number 0 (take 4 date)) (number 0 (take 2 (drop 4 date)))
                            (number 0 (drop 6 date))
                     else None))
      in if rest = [] \<or> iso_time rest then d else None)"

subsection \<open>The window\<close>

text \<open>\<open>days_ahead or 7\<close>\<close>

definition ahead :: "int \<Rightarrow> int \<Rightarrow> int" where
  "ahead target today = (let n = (target - weekday today) mod 7 in if n = 0 then 7 else n)"

definition resolve_day :: "string option \<Rightarrow> int \<Rightarrow> int" where
  "resolve_day date_text local_now =
     (let today = date_of local_now in
      if \<not> truthy date_text then today
      else
        let text = lower (strip (the date_text)) in
        if text = ''today'' \<or> text = ''tonight'' then today
        else if text = ''tomorrow'' then today + 1
        else if text = ''day after tomorrow'' then today + 2
        else if text = ''weekend'' then today + ahead 5 today
        else case map_of WEEKDAYS text of
            Some target \<Rightarrow> today + ahead target today
          | None \<Rightarrow> (case fromisoformat_date text of Some day \<Rightarrow> day | None \<Rightarrow> today))"

definition default_window :: "int \<Rightarrow> int \<Rightarrow> int \<times> int" where
  "default_window day local_now =
     (let (s, e) = DEFAULT_DAY;
          start = (if combine day s < local_now
                   then local_now - local_now mod minutes 1 + minutes 30 else combine day s);
          stop = (if combine day e \<le> start then start + hours 4 else combine day e)
      in (start, stop))"

definition window_of_time :: "string option \<Rightarrow> int \<Rightarrow> (int \<times> int) option" where
  "window_of_time time_text day =
     (if \<not> truthy time_text then None
      else case match_clock (strip (the time_text)) of
          Some (h, m) \<Rightarrow> let centre = combine day (clock_time h m)
                         in Some (centre - CLOCK_SPREAD, centre + CLOCK_SPREAD)
        | None \<Rightarrow> map_option (\<lambda>(s, e). (combine day s, combine day e))
                    (map_of DAYPARTS (lower (strip (the time_text)))))"

definition resolve_window ::
    "string option \<Rightarrow> string option \<Rightarrow> timezone \<Rightarrow> instant \<Rightarrow> instant \<times> instant" where
  "resolve_window date_text time_text tz now =
     (let local_now = to_wall tz now;
          day = resolve_day date_text local_now;
          (start, stop) = (case window_of_time time_text day of
                             Some w \<Rightarrow> w | None \<Rightarrow> default_window day local_now)
      in (of_wall tz start, of_wall tz stop))"

subsection \<open>Properties\<close>

lemmas time_defs = clock_time_def combine_def duration_defs

lemma dayparts_ordered: "map_of DAYPARTS t = Some (s, e) \<Longrightarrow> s < e"
  by (auto simp: DAYPARTS_def time_defs split: if_splits)

lemma default_window_ordered: "fst (default_window day n) < snd (default_window day n)"
  by (auto simp: default_window_def DEFAULT_DAY_def Let_def time_defs)

lemma window_of_time_ordered: "window_of_time t day = Some (s, e) \<Longrightarrow> s < e"
  by (auto simp: window_of_time_def Let_def CLOCK_SPREAD_def duration_defs combine_def
        dest!: dayparts_ordered split: if_splits option.splits)

lemma default_window_future: "n \<le> fst (default_window day n)"
proof -
  have "n mod 60000000 < 60000000" by simp
  then show ?thesis by (auto simp: default_window_def DEFAULT_DAY_def Let_def time_defs)
qed

text \<open>C16. Whatever the consumer said about the day and the time, recognised or not, the window
  that is searched is not empty; and when no time was understood it does not begin in the
  past.\<close>

theorem window_is_proper:
  "let (s, e) = resolve_window date_text time_text dubai now;
       understood = window_of_time time_text (resolve_day date_text (to_wall dubai now))
   in s < e \<and> (if understood = None then now \<le> s else True)"
proof -
  let ?day = "resolve_day date_text (to_wall dubai now)"
  show ?thesis
  proof (cases "window_of_time time_text ?day")
    case None
    then show ?thesis
      using default_window_ordered [of ?day "to_wall dubai now"]
        default_window_future [of "to_wall dubai now" ?day]
      by (simp add: resolve_window_def Let_def split_def dubai_def)
  next
    case (Some w)
    then show ?thesis
      using window_of_time_ordered [of time_text ?day "fst w" "snd w"]
      by (simp add: resolve_window_def Let_def split_def dubai_def)
  qed
qed

lemma ahead_spec: "1 \<le> ahead target today \<and> ahead target today \<le> 7"
  using pos_mod_bound [of 7 "target - weekday today"] pos_mod_sign [of 7 "target - weekday today"]
  by (simp add: ahead_def Let_def) linarith

lemma ahead_weekday: "weekday (today + ahead target today) = target mod 7"
proof -
  let ?n = "(target - weekday today) mod 7"
  have "ahead target today mod 7 = ?n" by (simp add: ahead_def Let_def)
  then have "(weekday today + ahead target today) mod 7 = (weekday today + ?n) mod 7"
    by (metis mod_add_right_eq)
  also have "\<dots> = target mod 7" by (simp add: mod_add_right_eq)
  finally have "(weekday today + ahead target today) mod 7 = target mod 7" .
  moreover have "weekday (today + k) = (weekday today + k) mod 7" for k
    by (simp add: weekday_def mod_simps algebra_simps)
  ultimately show ?thesis by simp
qed

text \<open>A weekday names the next such day after today, never today itself: it is one to seven
  days ahead and falls on the weekday that was asked for.\<close>

theorem weekday_is_the_next_one:
  assumes "map_of WEEKDAYS (lower (strip txt)) = Some target"
  shows "let day = resolve_day (Some txt) local_now; today = date_of local_now
    in weekday day = target \<and> today < day \<and> day \<le> today + 7"
proof -
  have known: "lower (strip txt) \<in> fst ` set WEEKDAYS" and t: "0 \<le> target \<and> target < 7"
    using map_of_SomeD [OF assms] by (force simp: WEEKDAYS_def)+
  then have ne: "txt \<noteq> []" by (auto simp: WEEKDAYS_def strip_def lstrip_def rstrip_def lower_def)
  have "resolve_day (Some txt) local_now = date_of local_now + ahead target (date_of local_now)"
    using known ne assms by (auto simp: resolve_day_def Let_def WEEKDAYS_def)
  then show ?thesis
    using ahead_spec [of target "date_of local_now"] ahead_weekday [of "date_of local_now" target] t
    by simp
qed

theorem weekday_is_the_next_one_witness:
  "let day = resolve_day (Some '' Thursday '') 0; today = date_of 0
   in weekday day = 3 \<and> today < day \<and> day \<le> today + 7"
  by (rule weekday_is_the_next_one) code_simp

end
