(* ===== verification/Formatting.thy ===== *)
theory Formatting
  imports When
begin

text \<open>
  Numbers, dates and times as text: the parts of \<open>strftime\<close> and of format strings that
  \<^verbatim>\<open>engine.py\<close> and \<^verbatim>\<open>scheduler.py\<close> use.
\<close>

function show_nat :: "nat \<Rightarrow> string" where
  "show_nat n = (if n < 10 then [''0123456789'' ! n]
     else show_nat (n div 10) @ [''0123456789'' ! (n mod 10)])"
  by pat_completeness auto
termination
  by (relation "measure id") auto

declare show_nat.simps [simp del]

definition show_int :: "int \<Rightarrow> string" where
  "show_int i = (if i < 0 then CHR ''-'' # show_nat (nat (- i)) else show_nat (nat i))"

definition pad2 :: "int \<Rightarrow> string" where
  "pad2 i = (if 0 \<le> i \<and> i < 10 then CHR ''0'' # show_int i else show_int i)"

text \<open>\<open>{x:.0f}\<close> rounds to the nearest integer, halves to the even one.\<close>

definition round_half_even :: "real \<Rightarrow> int" where
  "round_half_even r =
     (let n = \<lfloor>r\<rfloor>; f = r - of_int n in
      if f < 1 / 2 then n else if f > 1 / 2 then n + 1 else if even n then n else n + 1)"

definition WEEKDAY_NAMES :: "string list" where
  "WEEKDAY_NAMES = [''Monday'', ''Tuesday'', ''Wednesday'', ''Thursday'', ''Friday'', ''Saturday'',
     ''Sunday'']"

definition MONTH_NAMES :: "string list" where
  "MONTH_NAMES = [''January'', ''February'', ''March'', ''April'', ''May'', ''June'', ''July'',
     ''August'', ''September'', ''October'', ''November'', ''December'']"

text \<open>Month and day of the month of a day number, in the proleptic Gregorian calendar.\<close>

definition month_day :: "int \<Rightarrow> int \<times> int" where
  "month_day day =
     (let z = day + 719468;
          doe = z mod 146097;
          yoe = (doe - doe div 1460 + doe div 36524 - doe div 146096) div 365;
          doy = doe - (365 * yoe + yoe div 4 - yoe div 100);
          mp = (5 * doy + 2) div 153
      in (if mp < 10 then mp + 3 else mp - 9, doy - (153 * mp + 2) div 5 + 1))"

definition weekday_name :: "int \<Rightarrow> string" where
  "weekday_name day = WEEKDAY_NAMES ! nat (weekday day)"

text \<open>\<open>%A %-d %B\<close>\<close>

definition long_date :: "int \<Rightarrow> string" where
  "long_date day = (let (m, d) = month_day day in
     weekday_name day @ '' '' @ show_int d @ '' '' @ MONTH_NAMES ! nat (m - 1))"

definition hour_of :: "int \<Rightarrow> int" where
  "hour_of wall = (wall mod days 1) div hours 1"

definition minute_of :: "int \<Rightarrow> int" where
  "minute_of wall = (wall mod hours 1) div minutes 1"

text \<open>\<open>%-I\<close> and \<open>%p\<close>\<close>

definition hour_12 :: "int \<Rightarrow> int" where
  "hour_12 wall = (if hour_of wall mod 12 = 0 then 12 else hour_of wall mod 12)"

definition meridiem :: "int \<Rightarrow> string" where
  "meridiem wall = (if hour_of wall < 12 then ''AM'' else ''PM'')"

subsection \<open>Format specifications\<close>

text \<open>
  \<open>{x:g}\<close> of a float that is not negative: six significant digits, trailing zeros removed,
  scientific notation outside \<open>[1e-4, 1e6)\<close>. The fuel of the exponent covers every double.
\<close>

fun scale_exponent :: "nat \<Rightarrow> real \<Rightarrow> int" where
  "scale_exponent 0 x = 0"
| "scale_exponent (Suc k) x =
     (if 10 \<le> x then scale_exponent k (x / 10) + 1
      else if x < 1 then scale_exponent k (x * 10) - 1 else 0)"

lemma scale_exponent_spec:
  assumes "x < 10 ^ Suc k" and "1 \<le> x * 10 ^ k"
  shows "10 powi scale_exponent k x \<le> x \<and> x < 10 powi (scale_exponent k x + 1)"
  using assms
proof (induction k arbitrary: x)
  case (Suc k)
  have one: "(1::real) \<le> 10 ^ k" by simp
  consider "10 \<le> x" | "x < 1" | "1 \<le> x" "x < 10" by linarith
  then show ?case
  proof cases
    case 1
    then have "1 * 1 \<le> x / 10 * 10 ^ k" using one by (intro mult_mono) auto
    then have "10 powi scale_exponent k (x / 10) \<le> x / 10 \<and> x / 10 < 10 powi (scale_exponent k (x / 10) + 1)"
      using Suc.prems(1) by (intro Suc.IH) auto
    then show ?thesis using 1 by (simp add: power_int_add)
  next
    case 2
    have "x * 10 < 10 * 10 ^ k" using 2 one by linarith
    then have "10 powi scale_exponent k (x * 10) \<le> x * 10 \<and> x * 10 < 10 powi (scale_exponent k (x * 10) + 1)"
      using Suc.prems(2) by (intro Suc.IH) (auto simp: mult.assoc)
    then show ?thesis using 2 by (simp add: power_int_add power_int_diff)
  qed (use Suc.prems in \<open>simp add: power_int_add\<close>)
qed (simp add: power_int_add)

text \<open>400 steps are enough: the doubles lie between these bounds.\<close>

lemma scale_exponent_covers:
  assumes "1 / 10 ^ 330 \<le> x" and "x < 10 ^ 330"
  shows "10 powi scale_exponent 400 x \<le> x \<and> x < 10 powi (scale_exponent 400 x + 1)"
proof (rule scale_exponent_spec)
  show "x < 10 ^ Suc 400" using assms(2) by simp
  have "(1::real) \<le> 1 / 10 ^ 330 * 10 ^ 400" by simp
  also have "\<dots> \<le> x * 10 ^ 400" using assms(1) by (intro mult_right_mono) auto
  finally show "1 \<le> x * 10 ^ 400" .
qed
definition significant :: "real \<Rightarrow> int \<times> string" where
  "significant x =
     (let e = scale_exponent 400 x;
          m = round_half_even (if e \<le> 5 then x * 10 ^ nat (5 - e) else x / 10 ^ nat (e - 5))
      in if 1000000 \<le> m then (e + 1, show_int (m div 10)) else (e, show_int m))"

definition format_g :: "real \<Rightarrow> string" where
  "format_g x = (if x = 0 then ''0'' else
     let (e, digits) = significant x; trim = rstrip (\<lambda>c. c = CHR ''0'');
         point = (\<lambda>f. if f = [] then [] else CHR ''.'' # f)
     in if 0 \<le> e \<and> e < 6 then take (nat e + 1) digits @ point (trim (drop (nat e + 1) digits))
        else if - 4 \<le> e \<and> e < 0 then ''0.'' @ replicate (nat (- e) - 1) CHR ''0'' @ trim digits
        else take 1 digits @ point (trim (drop 1 digits)) @ ''e'' @ (if e < 0 then ''-'' else ''+'')
             @ pad2 \<bar>e\<bar>)"

text \<open>\<open>{s!r}\<close>, the quoted text; bytes above 127 are printed as they are.\<close>

definition escape_char :: "char \<Rightarrow> char \<Rightarrow> string" where
  "escape_char q c =
     (let n = of_char c :: nat; hex = ''0123456789abcdef'' in
      if c = q \<or> n = 92 then [CHR 0x5C, c]
      else if n = 10 then [CHR 0x5C, CHR ''n''] else if n = 13 then [CHR 0x5C, CHR ''r'']
      else if n = 9 then [CHR 0x5C, CHR ''t'']
      else if n < 32 \<or> n = 127 then [CHR 0x5C, CHR ''x'', hex ! (n div 16), hex ! (n mod 16)]
      else [c])"

definition py_repr :: "string \<Rightarrow> string" where
  "py_repr s =
     (let q = (if CHR 0x27 \<in> set s \<and> CHR 0x22 \<notin> set s then CHR 0x22 else CHR 0x27)
      in q # concat (map (escape_char q) s) @ [q])"

lemma hour_12_range: "1 \<le> hour_12 wall \<and> hour_12 wall \<le> 12"
  using pos_mod_bound [of 12 "hour_of wall"] pos_mod_sign [of 12 "hour_of wall"]
  by (simp add: hour_12_def) linarith

lemma minute_range: "0 \<le> minute_of wall \<and> minute_of wall < 60"
proof -
  have "0 \<le> wall mod 3600000000" "wall mod 3600000000 < 3600000000" by simp_all
  then show ?thesis by (auto simp: minute_of_def duration_defs div_less_iff_less_mult
        pos_imp_zdiv_nonneg_iff)
qed

end
