(* ===== verification/Engine.thy ===== *)
theory Engine
  imports States Router Materiality Formatting
begin

text \<open>
  Performing what the state machine decided, \<^verbatim>\<open>mawjood/core/conversation/engine.py\<close>. The engine
  works on the run of the cascade: \<open>now\<close> is the wall clock, which advances with the run's own
  clock. A deferred continuation is the data its closure captures. \<open>book_pending\<close> and
  \<open>_failover_after_confirmation\<close> call each other; that this ends is part of the definition.
\<close>

subsection \<open>Results\<close>

record booking_payload =
  bp_external_id :: string
  bp_platform :: string
  bp_code :: "string option"
  bp_venue :: string
  bp_start :: instant
  bp_end :: instant
  bp_category :: category
  bp_price :: "real option"
  bp_currency :: "string option"

record 'w deferred =
  df_remaining :: "'w candidate list"
  df_request :: availability_request
  df_category :: category

record 'w action_result =
  a_phrases :: "phrase_spec list"
  a_state :: "conversation_state option"
  a_offer :: "json_object option"
  a_clear_offer :: bool
  a_handoff :: "string option"
  a_booking :: "booking_payload option"
  a_deferred :: "'w deferred option"

definition no_result :: "'w action_result" where
  "no_result = \<lparr>a_phrases = [], a_state = None, a_offer = None, a_clear_offer = False,
     a_handoff = None, a_booking = None, a_deferred = None\<rparr>"

text \<open>A person takes over: the pivot every dead end turns into.\<close>

definition hand_over :: "string \<Rightarrow> 'w action_result" where
  "hand_over why = no_result\<lparr>a_phrases := [say HANDOFF_CONNECTING], a_state := Some HANDOFF_STATE,
     a_handoff := Some why, a_clear_offer := True\<rparr>"

record 'w engine =
  eng_cascade :: cascade
  eng_candidates_for :: "category \<Rightarrow> string option \<Rightarrow> 'w candidate list"
  eng_tz :: timezone
  eng_tolerances :: tolerances
  eng_epoch :: int

definition now_of :: "'w engine \<Rightarrow> 'w run \<Rightarrow> instant" where
  "now_of eng s = eng_epoch eng + clock s"

subsection \<open>An offer across turns\<close>

definition json_number :: "real option \<Rightarrow> json" where
  "json_number x = (case x of None \<Rightarrow> JNull | Some r \<Rightarrow> JNum r)"

definition offer_payload :: "slot \<Rightarrow> category \<Rightarrow> bool \<Rightarrow> json_object" where
  "offer_payload s cat low = [
     (''slot_id'', JStr (slot_id s)), (''start'', JTime (slot_start s)), (''end'', JTime (slot_end s)),
     (''venue_name'', JStr (venue_name s)), (''service_name'', JStr (service_name s)),
     (''staff_name'', json_text (staff_name s)), (''price_amount'', json_number (price_amount s)),
     (''price_currency'', json_text (price_currency s)), (''area'', json_text (slot_area s)),
     (''platform_slug'', JStr (platform_slug (slot_merchant s))),
     (''merchant_id'', JUuid (merchant_id (slot_merchant s))),
     (''merchant_name'', JStr (display_name (slot_merchant s))),
     (''category'', JStr (category_value cat)), (''low_confidence'', JBool low)]"

text \<open>\<open>str(payload[key])\<close> and \<open>datetime.fromisoformat(str(payload[key]))\<close>; None is an exception.\<close>

definition text_at :: "json_object \<Rightarrow> string \<Rightarrow> string option" where
  "text_at d key = (case map_of d key of
     Some (JStr s) \<Rightarrow> Some s | Some JNull \<Rightarrow> Some ''None'' | Some (JBool True) \<Rightarrow> Some ''True''
   | Some (JBool False) \<Rightarrow> Some ''False'' | _ \<Rightarrow> None)"

definition time_at :: "json_object \<Rightarrow> string \<Rightarrow> instant option" where
  "time_at d key = (case map_of d key of Some (JTime t) \<Rightarrow> Some t | _ \<Rightarrow> None)"

definition candidate_named :: "json \<Rightarrow> 'w candidate \<Rightarrow> bool" where
  "candidate_named platform c = (platform = JStr (cand_slug c))"

definition slot_of_payload :: "json_object \<Rightarrow> 'w candidate list \<Rightarrow> slot option" where
  "slot_of_payload d cs =
     (case next_such (candidate_named (json_get d ''platform_slug'')) cs of
        None \<Rightarrow> None
      | Some owner \<Rightarrow>
          (case (text_at d ''slot_id'', time_at d ''start'', time_at d ''end'',
                 text_at d ''venue_name'', text_at d ''service_name'') of
             (Some sid, Some start, Some stop, Some venue, Some service) \<Rightarrow>
               Some \<lparr>slot_id = sid, slot_start = start, slot_end = stop, venue_name = venue,
                 service_name = service, slot_merchant = cand_merchant owner,
                 staff_name = text_of (json_get d ''staff_name''),
                 price_amount = number_of (json_get d ''price_amount''),
                 price_currency = text_of (json_get d ''price_currency''),
                 slot_area = text_of (json_get d ''area''), requires_deposit = False\<rparr>
           | _ \<Rightarrow> None))"

text \<open>\<open>Category(payload.get("category", Category.OTHER))\<close>; None is a \<open>ValueError\<close>.\<close>

definition category_at :: "json_object \<Rightarrow> category option" where
  "category_at d = (case map_of d ''category'' of
     None \<Rightarrow> Some category.OTHER | Some (JStr s) \<Rightarrow> category_of_value s | _ \<Rightarrow> None)"

subsection \<open>Words\<close>

definition capitalised :: "string \<Rightarrow> string" where
  "capitalised s = upper (take 1 s) @ drop 1 s"

definition day_phrase :: "timezone \<Rightarrow> instant \<Rightarrow> instant \<Rightarrow> string" where
  "day_phrase tz now start =
     (let day = date_of (to_wall tz start); delta = day - date_of (to_wall tz now) in
      if delta = 0 then ''today''
      else if delta = 1 then ''tomorrow''
      else if 2 \<le> delta \<and> delta \<le> 6 then weekday_name day
      else long_date day)"

text \<open>\<open>strftime("%-I:%M %p").lower().replace(":00", "")\<close>\<close>

definition time_phrase :: "timezone \<Rightarrow> instant \<Rightarrow> string" where
  "time_phrase tz start =
     (let w = to_wall tz start in
      show_int (hour_12 w) @ (if minute_of w = 0 then [] else '':'' @ pad2 (minute_of w))
      @ '' '' @ lower (meridiem w))"

definition price_phrase :: "slot \<Rightarrow> string" where
  "price_phrase s = (case price_amount s of
     None \<Rightarrow> ''price confirmed at the venue''
   | Some p \<Rightarrow> or_else (price_currency s) ''AED'' @ '' '' @ show_int (round_half_even p))"

definition offer_variables :: "slot \<Rightarrow> timezone \<Rightarrow> instant \<Rightarrow> (string \<times> string) list" where
  "offer_variables s tz now = [(''service'', capitalised (service_name s)), (''venue'', venue_name s),
     (''area'', or_else (slot_area s) []), (''day'', day_phrase tz now (slot_start s)),
     (''time'', time_phrase tz (slot_start s)), (''price'', price_phrase s)]"

definition confirmation_variables ::
    "slot \<Rightarrow> string option \<Rightarrow> timezone \<Rightarrow> instant \<Rightarrow> (string \<times> string) list" where
  "confirmation_variables s code tz now = [(''venue'', venue_name s),
     (''area'', or_else (slot_area s) []), (''day'', day_phrase tz now (slot_start s)),
     (''time'', time_phrase tz (slot_start s)), (''code'', or_else code dash)]"

definition category_named :: "string option \<Rightarrow> category" where
  "category_named c = (if truthy c
     then (case category_of_value (the c) of Some k \<Rightarrow> k | None \<Rightarrow> category.OTHER)
     else category.OTHER)"

subsection \<open>Search\<close>

definition offer_found ::
    "'w engine \<Rightarrow> phrase_key \<Rightarrow> slot \<Rightarrow> category \<Rightarrow> bool \<Rightarrow> 'w run \<Rightarrow> 'w action_result" where
  "offer_found eng key sl cat low s = no_result\<lparr>
     a_phrases := [(key, offer_variables sl (eng_tz eng) (now_of eng s))],
     a_state := Some CONFIRMATION, a_offer := Some (offer_payload sl cat low)\<rparr>"

definition from_search ::
    "'w engine \<Rightarrow> 'w search_outcome \<Rightarrow> availability_request \<Rightarrow> category \<Rightarrow> 'w run \<Rightarrow> 'w action_result"
  where
  "from_search eng out req cat s =
     (case (search_status out, found_slot out) of
        (FOUND, Some sl) \<Rightarrow>
          offer_found eng (if low_confidence out then OFFER_SLOT_HEDGED else OFFER_SLOT) sl cat
            (low_confidence out) s
      | (DEADLINE_EXCEEDED, _) \<Rightarrow>
          no_result\<lparr>a_phrases := [say PIVOT_HOLDING], a_state := Some SLOT_PRESENTATION,
            a_deferred := Some \<lparr>df_remaining = remaining_candidates out, df_request = req,
              df_category = cat\<rparr>\<rparr>
      | _ \<Rightarrow> hand_over (or_else (search_handoff_reason out) ''cascade_exhausted''))"

definition request_of :: "'w engine \<Rightarrow> collected \<Rightarrow> 'w run \<Rightarrow> availability_request" where
  "request_of eng c s =
     (let (start, stop) = resolve_window (c_date c) (c_time c) (eng_tz eng) (now_of eng s) in
      \<lparr>req_category = category_named (c_category c), req_service = or_else (c_service c) ''appointment'',
        window_start = start, window_end = stop, req_area = c_area c, party_size = 1,
        staff_preference = None\<rparr>)"

definition perform_search :: "'w engine \<Rightarrow> transition \<Rightarrow> 'w run \<Rightarrow> 'w action_result \<times> 'w run" where
  "perform_search eng t s =
     (let c = t_collected t; req = request_of eng c s; cat = category_named (c_category c);
          (out, s') = search (eng_cascade eng) (eng_candidates_for eng cat (c_area c)) req s
      in (from_search eng out req cat s', s'))"

text \<open>Running a deferred continuation.\<close>

definition finish :: "'w engine \<Rightarrow> 'w deferred \<Rightarrow> 'w run \<Rightarrow> 'w action_result \<times> 'w run" where
  "finish eng d s =
     (let (out, s') = search (eng_cascade eng) (df_remaining d) (df_request d) s
      in (from_search eng out (df_request d) (df_category d) s', s'))"

definition perform :: "'w engine \<Rightarrow> transition \<Rightarrow> 'w run \<Rightarrow> 'w action_result \<times> 'w run" where
  "perform eng t s =
     (case t_action t of
        SEARCH \<Rightarrow> perform_search eng t s
      | HAND_OFF \<Rightarrow> (no_result\<lparr>a_state := Some HANDOFF_STATE,
          a_handoff := Some (or_else (t_handoff t) ''consumer_request''), a_clear_offer := True\<rparr>, s)
      | _ \<Rightarrow> (no_result, s))"

subsection \<open>Book\<close>

definition confirmed_result ::
    "'w engine \<Rightarrow> slot \<Rightarrow> category \<Rightarrow> booking_ref \<Rightarrow> 'w run \<Rightarrow> 'w action_result" where
  "confirmed_result eng sl cat ref s = no_result\<lparr>
     a_phrases := [(BOOKING_CONFIRMED,
        confirmation_variables sl (confirmation_code ref) (eng_tz eng) (now_of eng s))],
     a_state := Some CONFIRMED, a_clear_offer := True,
     a_booking := Some \<lparr>bp_external_id = external_id ref, bp_platform = ref_platform ref,
        bp_code = confirmation_code ref, bp_venue = venue_name sl, bp_start = slot_start sl,
        bp_end = slot_end sl, bp_category = cat, bp_price = price_amount sl,
        bp_currency = price_currency sl\<rparr>\<rparr>"

text \<open>\<open>[c for c in candidates if c is not already_tried]\<close>: the tried one is the first of its slug.\<close>

fun remove_first :: "('a \<Rightarrow> bool) \<Rightarrow> 'a list \<Rightarrow> 'a list" where
  "remove_first p [] = []"
| "remove_first p (x # xs) = (if p x then xs else x # remove_first p xs)"

definition failover_request :: "slot \<Rightarrow> category \<Rightarrow> availability_request" where
  "failover_request sl cat = \<lparr>req_category = cat, req_service = service_name sl,
     window_start = slot_start sl, window_end = slot_end sl, req_area = slot_area sl,
     party_size = 1, staff_preference = None\<rparr>"

text \<open>What the failover search makes of a confirmed slot that fell through.\<close>

datatype 'w failover =
    Settled "'w action_result"
  | Book_Instead json_object "'w candidate"

definition failover_after_confirmation ::
    "'w engine \<Rightarrow> slot \<Rightarrow> category \<Rightarrow> 'w candidate list \<Rightarrow> 'w run \<Rightarrow> 'w failover \<times> 'w run" where
  "failover_after_confirmation eng sl cat remaining s =
     (let (out, s') = search (eng_cascade eng) remaining (failover_request sl cat) s in
      case (search_status out, found_slot out) of
        (FOUND, Some sl') \<Rightarrow>
          if needs_reconfirmation (compare_slots sl sl' (eng_tolerances eng))
          then (Settled (offer_found eng OFFER_SLOT sl' cat (low_confidence out) s'), s')
          else (case next_such (\<lambda>c. cand_slug c = platform_slug (slot_merchant sl')) remaining of
                  None \<Rightarrow> (Settled (hand_over ''system_error''), s')
                | Some c \<Rightarrow> (Book_Instead (offer_payload sl' cat (low_confidence out)) c, s'))
      | _ \<Rightarrow> (Settled (hand_over ''cascade_exhausted''), s'))"

lemma failover_remaining:
  "failover_after_confirmation eng sl cat remaining s = (Book_Instead d c, s') \<Longrightarrow> remaining \<noteq> []"
  by (auto simp: failover_after_confirmation_def split_def Let_def
        split: search_status.splits option.splits if_splits)

lemma length_remove_first:
  "x \<in> set xs \<Longrightarrow> p x \<Longrightarrow> Suc (length (remove_first p xs)) = length xs"
  by (induction xs) auto

text \<open>None is the \<open>ValueError\<close> of a payload that names no category.\<close>

function book_pending ::
    "'w engine \<Rightarrow> json_object \<Rightarrow> 'w candidate list \<Rightarrow> string option \<Rightarrow> string option \<Rightarrow> 'w run
       \<Rightarrow> ('w action_result \<times> 'w run) option" where
  "book_pending eng offer cs name phone s =
     (case slot_of_payload offer cs of
        None \<Rightarrow> Some (hand_over ''system_error'', s)
      | Some sl \<Rightarrow>
        (case category_at offer of
           None \<Rightarrow> None
         | Some cat \<Rightarrow>
           (case next_such (\<lambda>c. cand_slug c = platform_slug (slot_merchant sl)) cs of
              None \<Rightarrow> Some (hand_over ''system_error'', s)
            | Some chosen \<Rightarrow>
                let (b, s1) = book (eng_cascade eng) chosen sl cat name phone None s in
                if book_status b = BOOKED \<and> booked_ref b \<noteq> None then
                  Some (confirmed_result eng sl cat (the (booked_ref b)) s1, s1)
                else if book_status b = UNCERTAIN then
                  Some (hand_over (or_else (book_handoff_reason b) ''reconciliation_inconclusive''), s1)
                else
                  (case failover_after_confirmation eng sl cat
                     (remove_first (\<lambda>c. cand_slug c = platform_slug (slot_merchant sl)) cs) s1 of
                     (Settled r, s2) \<Rightarrow> Some (r, s2)
                   | (Book_Instead d c, s2) \<Rightarrow> book_pending eng d [c] None None s2))))"
  by pat_completeness auto

termination
proof (relation "measure (\<lambda>(_, _, cs, _). length cs)", goal_cases)
  case (2 eng offer cs name phone s sl cat chosen x b s1)
  let ?p = "\<lambda>c. cand_slug c = platform_slug (slot_merchant sl)"
  have "chosen \<in> set cs" "?p chosen" using 2(3) by (auto dest: next_such_in)
  then have "Suc (length (remove_first ?p cs)) = length cs" by (rule length_remove_first)
  moreover have "remove_first ?p cs \<noteq> []"
    using failover_remaining [of eng sl cat "remove_first ?p cs" s1] 2(8-) by (metis prod.collapse)
  ultimately show ?case by (cases "remove_first ?p cs") auto
qed simp

declare book_pending.simps [simp del]

end
