(* ===== verification/States_Props.thy ===== *)
theory States_Props
  imports States
begin

text \<open>
  Properties of the state machine: the only way into booking, that no turn is silent, what an
  action presupposes, that later details win, the stored form of the collected slots, and two
  behaviours of the post-booking block.
\<close>

definition post_of :: "machine_input \<Rightarrow> transition option" where
  "post_of i = post_booking i (merged_with (m_collected i) (m_understanding i))"

text \<open>The actions the post-booking block can ask for.\<close>

lemma post_booking_action:
  "post_booking i c = Some t \<Longrightarrow> t_action t \<in> {NO_ACTION, LOOKUP_BOOKING, CANCEL_BOOKING} \<and>
     t_handoff t = None \<and> (t_phrases t = [] \<longrightarrow> t_action t \<noteq> NO_ACTION)"
  by (auto simp: post_booking_def Let_def split: if_splits)

text \<open>The transition past the overrides and the post-booking block.\<close>

definition onward :: "machine_input \<Rightarrow> collected \<Rightarrow> transition" where
  "onward i c =
     (let u = m_understanding i in
      if RESUMPTION_GAP_HOURS \<le> hours_since_last_activity i
         \<and> m_state i \<notin> {GREETING, INTENT} \<and> \<not> carries_detail u \<and> confirmation u = None then
        transit (if truthy (c_service c) then SLOT_FILLING else INTENT)
          [say GREETING_RESUMED] NO_ACTION c False ''resumed after a gap''
      else if m_state i = CONFIRMATION \<and> offer_pending i then awaiting_confirmation i c
      else if area_ambiguous u \<noteq> [] then
        transit CLARIFICATION [(CLARIFY_AREA, [(''options'', join '' or '' (area_ambiguous u))])]
          NO_ACTION (c\<lparr>c_area := None\<rparr>) False ''area matches more than one emirate''
      else if emoji_only u then
        transit (m_state i) [say FALLBACK_EMOJI] NO_ACTION c False ''emoji only''
      else if u_intent u = ''unclear'' \<and> \<not> carries_detail u then nothing_understood c
      else fill_slots u c)"

lemma advance_engaged:
  assumes "engaged i"
  shows "advance i =
    (case (if m_state i \<in> {CONFIRMED, POST_BOOKING} \<or> has_booking i then post_of i else None) of
       Some t \<Rightarrow> t
     | None \<Rightarrow> onward i (merged_with (m_collected i) (m_understanding i)))"
proof -
  from assms have "wants_human (m_understanding i) = False" "(m_signal i = WITHDRAWAL) = False"
    "(u_language (m_understanding i) = ''ar'') = False" "is_new_lead i = False"
    "(m_consent i = UNKNOWN) = False" "(m_consent i = consent_state.WITHDRAWN) = False"
    by (auto simp: engaged_def)
  then show ?thesis unfolding advance_def onward_def post_of_def Let_def by (simp only: if_False simp_thms)
qed

text \<open>The overrides.\<close>

lemma advance_override:
  assumes "\<not> engaged i"
  shows "advance i =
    (let u = m_understanding i; c = merged_with (m_collected i) u in
      if wants_human u then
        \<lparr>t_state = HANDOFF_STATE, t_phrases = [say HANDOFF_CONNECTING], t_action = HAND_OFF,
          t_collected = c, t_clear_offer = False, t_handoff = Some ''consumer_request'',
          t_note = ''consumer asked for a human''\<rparr>
      else if m_signal i = WITHDRAWAL then
        transit GREETING [say phrase_key.CONSENT_WITHDRAWN] NO_ACTION no_slots True
          ''consent withdrawn''
      else if u_language u = ''ar'' then
        transit (if m_state i \<noteq> GREETING then m_state i else INTENT)
          [say LANGUAGE_ENGLISH_ONLY] NO_ACTION c False
          ''non-English message in an English-only build''
      else if is_new_lead i \<or> m_consent i = UNKNOWN then first_contact c
      else transit INTENT [say GREETING_RETURNING, say phrase_key.CONSENT_NOTICE] NO_ACTION c False
          ''previously withdrawn; notice re-shown'')"
proof -
  consider "wants_human (m_understanding i)" | "m_signal i = WITHDRAWAL"
    | "u_language (m_understanding i) = ''ar''" | "is_new_lead i \<or> m_consent i = UNKNOWN"
    | "m_consent i = consent_state.WITHDRAWN"
    using assms unfolding engaged_def by (cases "m_consent i") auto
  then show ?thesis unfolding advance_def Let_def by cases (simp_all only: if_True simp_thms)
qed

lemma first_contact_simps:
  "t_action (first_contact c) = (if complete c then SEARCH else NO_ACTION)"
  "t_phrases (first_contact c) \<noteq> []" "t_handoff (first_contact c) = None"
  "t_collected (first_contact c) = c"
  by (simp_all add: first_contact_def Let_def)

lemma onward_BOOK:
  "t_action (onward i c) = BOOK \<longleftrightarrow>
     m_state i = CONFIRMATION \<and> offer_pending i
     \<and> confirmation (m_understanding i) = Some ''yes'' \<and> m_consent i = GRANTED"
  by (auto simp: onward_def awaiting_confirmation_def redo_search_def nothing_understood_def
        fill_slots_def may_share_pii_def Let_def)

lemma override_action:
  "\<not> engaged i \<Longrightarrow> t_action (advance i) \<in> {HAND_OFF, NO_ACTION, SEARCH}"
  by (simp add: advance_override first_contact_simps Let_def)

lemma advance_BOOK:
  "t_action (advance i) = BOOK \<longleftrightarrow>
     engaged i \<and> m_consent i = GRANTED \<and> m_state i = CONFIRMATION \<and> offer_pending i
     \<and> confirmation (m_understanding i) = Some ''yes''
     \<and> (if has_booking i then post_of i = None else True)"
proof (cases "engaged i")
  case False
  then show ?thesis using override_action [of i] by auto
next
  case True
  show ?thesis
  proof (cases "if m_state i \<in> {CONFIRMED, POST_BOOKING} \<or> has_booking i then post_of i else None")
    case None
    then show ?thesis
      by (auto simp: advance_engaged [OF True] onward_BOOK True split: if_splits)
  next
    case (Some t)
    then have "t_action t \<noteq> BOOK"
      using post_booking_action unfolding post_of_def by (fastforce split: if_splits)
    with Some show ?thesis by (auto simp: advance_engaged [OF True] split: if_splits)
  qed
qed

text \<open>C9. Nothing is booked without an explicit yes to a concrete offer: the machine asks for a booking
  exactly when an offer is pending in the confirmation state, the message confirms it with
  "yes", the consumer's consent is granted, and no override or post-booking request comes
  first.\<close>

theorem booking_needs_an_explicit_yes:
  "t_action (advance i) = BOOK \<longleftrightarrow>
     engaged i \<and> m_consent i = GRANTED \<and> m_state i = CONFIRMATION \<and> offer_pending i
     \<and> confirmation (m_understanding i) = Some ''yes''
     \<and> (if has_booking i then post_of i = None else True)"
  by (rule advance_BOOK)

lemma onward_speaks: "t_phrases (onward i c) = [] \<Longrightarrow> t_action (onward i c) \<in> {SEARCH, BOOK}"
  by (auto simp: onward_def awaiting_confirmation_def redo_search_def nothing_understood_def
        fill_slots_def Let_def split: if_splits)

lemma override_speaks: "\<not> engaged i \<Longrightarrow> t_phrases (advance i) \<noteq> []"
  by (simp add: advance_override first_contact_simps Let_def)

text \<open>C13. No turn of the machine is silent by itself: every transition either says something or asks
  for an action.\<close>

theorem every_turn_speaks_or_acts:
  "0 < length (t_phrases (advance i)) \<or>
   t_action (advance i) \<in> {SEARCH, BOOK, LOOKUP_BOOKING, CANCEL_BOOKING}"
proof (cases "engaged i")
  case False
  then show ?thesis using override_speaks by simp
next
  case True
  then show ?thesis
    using onward_speaks [of i] post_booking_action [of i]
    by (fastforce simp: advance_engaged post_of_def split: option.splits if_splits)
qed

lemma onward_actions:
  "t_action (onward i c) \<in> {NO_ACTION, SEARCH, BOOK}" "t_handoff (onward i c) = None"
  "t_action (onward i c) = SEARCH \<Longrightarrow> complete (t_collected (onward i c))"
  by (auto simp: onward_def awaiting_confirmation_def redo_search_def nothing_understood_def
        fill_slots_def Let_def split: if_splits)

text \<open>C14. An action has what it needs: the cascade is searched only for a complete request, and a
  human is brought in by the machine exactly when the consumer asks for one, with a reason.\<close>

theorem actions_are_justified:
  "(case t_action (advance i) of
      SEARCH \<Rightarrow> complete (t_collected (advance i))
    | HAND_OFF \<Rightarrow> t_handoff (advance i) = Some ''consumer_request''
    | _ \<Rightarrow> t_handoff (advance i) = None) \<and>
   (t_action (advance i) = HAND_OFF \<longleftrightarrow> wants_human (m_understanding i))"
proof (cases "engaged i")
  case False
  then show ?thesis by (simp add: advance_override first_contact_simps Let_def)
next
  case True
  then have human: "\<not> wants_human (m_understanding i)" by (simp add: engaged_def)
  show ?thesis
  proof (cases "if m_state i \<in> {CONFIRMED, POST_BOOKING} \<or> has_booking i then post_of i else None")
    case None
    have "advance i = onward i (merged_with (m_collected i) (m_understanding i))"
      by (simp only: advance_engaged [OF True] None option.case)
    then show ?thesis
      using onward_actions [of i "merged_with (m_collected i) (m_understanding i)"] human
      by (auto split: turn_action.splits)
  next
    case (Some t)
    have "advance i = t" by (simp only: advance_engaged [OF True] Some option.case)
    moreover
    from Some have "t_action t \<in> {NO_ACTION, LOOKUP_BOOKING, CANCEL_BOOKING} \<and> t_handoff t = None"
      using post_booking_action [of i] unfolding post_of_def by (fastforce split: if_splits)
    ultimately show ?thesis using human by (auto split: turn_action.splits)
  qed
qed

text \<open>Later details win: in a conversation under way, what the message says about the service,
  the day or the time replaces what was known, what it does not say is kept, and an area
  that names two emirates is dropped to be asked for again.\<close>

theorem later_details_win:
  assumes "engaged i" and "m_state i \<notin> {CONFIRMED, POST_BOOKING}" and "\<not> has_booking i"
  shows "let u = m_understanding i; old = m_collected i; new = t_collected (advance i) in
    c_service new = (if truthy (u_service u) then u_service u else c_service old) \<and>
    c_date new = (if truthy (u_date u) then u_date u else c_date old) \<and>
    c_time new = (if truthy (u_time u) then u_time u else c_time old) \<and>
    c_area new \<in> {None, if truthy (u_area u) then u_area u else c_area old}"
proof -
  have "t_collected (onward i c) \<in> {c, c\<lparr>c_area := None\<rparr>}" for c
    by (auto simp: onward_def awaiting_confirmation_def redo_search_def nothing_understood_def
          fill_slots_def Let_def)
  moreover have "advance i = onward i (merged_with (m_collected i) (m_understanding i))"
    using assms by (simp add: advance_engaged)
  ultimately have "t_collected (advance i) \<in>
     {merged_with (m_collected i) (m_understanding i),
      (merged_with (m_collected i) (m_understanding i))\<lparr>c_area := None\<rparr>}" by simp
  then show ?thesis by (auto simp: Let_def merged_with_def py_or_def)
qed

definition sample_input :: "conversation_state \<Rightarrow> understanding \<Rightarrow> machine_input" where
  "sample_input st u = \<lparr>m_state = st,
     m_collected = \<lparr>c_service = Some ''haircut'', c_category = Some ''salon'', c_area = Some ''JLT'',
        c_date = Some ''tomorrow'', c_time = None\<rparr>,
     m_understanding = u, m_consent = GRANTED, m_signal = NONE, is_new_lead = False,
     hours_since_last_activity = 0, m_offer = Some [(''slot_id'', JStr ''s'')],
     has_booking = (st \<in> {CONFIRMED, POST_BOOKING})\<rparr>"

theorem later_details_win_witness:
  "c_date (t_collected (advance
     (sample_input CONFIRMATION (understood_nothing\<lparr>u_date := Some ''thursday''\<rparr>))))
     = Some ''thursday''"
proof -
  let ?i = "sample_input CONFIRMATION (understood_nothing\<lparr>u_date := Some ''thursday''\<rparr>)"
  have "engaged ?i" "m_state ?i \<notin> {CONFIRMED, POST_BOOKING}" "\<not> has_booking ?i"
    by (simp_all add: engaged_def sample_input_def understood_nothing_def)
  from later_details_win [OF this] show ?thesis
    by (simp add: Let_def sample_input_def understood_nothing_def)
qed

definition clean :: "collected \<Rightarrow> bool" where
  "clean c \<longleftrightarrow> maybe_str (c_service c) = c_service c \<and> maybe_str (c_category c) = c_category c
     \<and> maybe_str (c_area c) = c_area c \<and> maybe_str (c_date c) = c_date c
     \<and> maybe_str (c_time c) = c_time c"

lemma collected_of_as_dict: "clean c \<Longrightarrow> collected_of (as_dict c) = c"
  by (simp add: clean_def collected_of_def as_dict_def json_get_def)

lemma clean_collected_of: "clean (collected_of d)"
  by (simp add: clean_def collected_of_def)

lemma clean_merged:
  assumes "clean c" and "understanding_of r = Some u"
  shows "clean (merged_with c u)"
proof -
  have "maybe_str (u_service u) = u_service u" "maybe_str (u_category u) = u_category u"
    "maybe_str (u_area u) = u_area u" "maybe_str (u_date u) = u_date u"
    "maybe_str (u_time u) = u_time u"
    using assms(2) by (auto simp: understanding_of_def raw_text_def Let_def)
  with assms(1) show ?thesis by (auto simp: clean_def merged_with_def py_or_def)
qed

text \<open>What is known of a request survives a restart: merging a reading into the stored slots and
  storing the result loses nothing.\<close>

theorem collected_slots_survive_storage:
  assumes "understanding_of r = Some u"
  shows "collected_of (as_dict (merged_with (collected_of d) u)) = merged_with (collected_of d) u"
  by (rule collected_of_as_dict [OF clean_merged [OF clean_collected_of assms]])

definition sample_response :: raw_response where
  "sample_response = [(''service'', Some \<lparr>as_text = '' haircut '', as_bool = True, as_items = None\<rparr>),
     (''area'', None)]"

theorem collected_slots_survive_storage_witness:
  "\<exists>u. understanding_of sample_response = Some u \<and> u_service u = Some ''haircut'' \<and>
     collected_of (as_dict (merged_with (collected_of []) u)) = merged_with (collected_of []) u"
proof -
  obtain u where u: "understanding_of sample_response = Some u" and "u_service u = Some ''haircut''"
    by (simp add: understanding_of_def sample_response_def raw_get_def raw_text_def maybe_str_def
          string_defs Let_def)
  with collected_slots_survive_storage [OF u, of "[]"] show ?thesis by blast
qed

text \<open>After a booking, naming another service does not start a new request: the service has been
  merged into the collected slots before the post-booking block compares the two, so that
  branch is never taken and the block only ever answers the three post-booking intents.\<close>

theorem new_request_branch_is_dead:
  "(post_of i = None) =
     (u_intent (m_understanding i) \<notin> {''booking_status'', ''reschedule_booking'', ''cancel_booking''})"
  by (auto simp: post_of_def post_booking_def merged_with_def py_or_def Let_def)

text \<open>A message that says nothing new right after a confirmed booking, a "thanks" the reader finds
  unclear, sends the consumer back into a search for the service they have just booked.\<close>

theorem thanks_after_booking_searches_again:
  assumes "engaged i" and "m_state i = CONFIRMED" and "hours_since_last_activity i < 6"
    and "m_understanding i = understood_nothing" and "complete (m_collected i)"
  shows "t_action (advance i) = SEARCH \<and> t_state (advance i) = SLOT_PRESENTATION"
proof -
  have "post_of i = None"
    using assms(4) by (simp add: post_of_def post_booking_def understood_nothing_def Let_def)
  moreover have "merged_with (m_collected i) understood_nothing = m_collected i"
    by (simp add: merged_with_def understood_nothing_def)
  ultimately show ?thesis
    using assms
    by (simp add: advance_engaged onward_def Let_def understood_nothing_def carries_detail_def
          nothing_understood_def RESUMPTION_GAP_HOURS_def)
qed

theorem thanks_after_booking_searches_again_witness:
  "t_action (advance (sample_input CONFIRMED understood_nothing)) = SEARCH \<and>
   t_state (advance (sample_input CONFIRMED understood_nothing)) = SLOT_PRESENTATION"
  by (rule thanks_after_booking_searches_again)
     (simp_all add: engaged_def sample_input_def understood_nothing_def complete_def)

end
