(* ===== verification/Engine_Props.thy ===== *)
theory Engine_Props
  imports Engine States_Props Samples
begin

text \<open>
  Properties of the engine: what a stored offer comes back as, the shape of every result, at
  most one booking per confirmed offer, the materiality rule, and what becomes of a search
  that ran out of time.
\<close>

subsection \<open>Offers\<close>

lemma map_of_offer_payload:
  "map_of (offer_payload s cat low) ''slot_id'' = Some (JStr (slot_id s))"
  "map_of (offer_payload s cat low) ''start'' = Some (JTime (slot_start s))"
  "map_of (offer_payload s cat low) ''end'' = Some (JTime (slot_end s))"
  "map_of (offer_payload s cat low) ''venue_name'' = Some (JStr (venue_name s))"
  "map_of (offer_payload s cat low) ''service_name'' = Some (JStr (service_name s))"
  "map_of (offer_payload s cat low) ''staff_name'' = Some (json_text (staff_name s))"
  "map_of (offer_payload s cat low) ''price_amount'' = Some (json_number (price_amount s))"
  "map_of (offer_payload s cat low) ''price_currency'' = Some (json_text (price_currency s))"
  "map_of (offer_payload s cat low) ''area'' = Some (json_text (slot_area s))"
  "map_of (offer_payload s cat low) ''platform_slug''
     = Some (JStr (platform_slug (slot_merchant s)))"
  "map_of (offer_payload s cat low) ''category'' = Some (JStr (category_value cat))"
  by (simp_all add: offer_payload_def)

lemma number_of_json_number [simp]: "number_of (json_number x) = x"
  by (simp add: json_number_def split: option.splits)

lemma candidate_named_JStr [simp]: "candidate_named (JStr p) = (\<lambda>c. cand_slug c = p)"
  by (auto simp: candidate_named_def)

lemma slot_of_offer_payload:
  "slot_of_payload (offer_payload s cat low) cs =
     map_option (\<lambda>owner. s\<lparr>slot_merchant := cand_merchant owner, requires_deposit := False\<rparr>)
       (next_such (\<lambda>c. cand_slug c = platform_slug (slot_merchant s)) cs)"
  by (simp add: slot_of_payload_def json_get_def text_at_def time_at_def map_of_offer_payload
        split: option.splits)

lemma category_at_offer_payload: "category_at (offer_payload s cat low) = Some cat"
  by (simp add: category_at_def map_of_offer_payload category_of_value_value)

text \<open>C15. A stored offer comes back as the slot that was offered, for the same category, except that
  its merchant is the first candidate's on the platform, whichever merchant offered it, and
  that a required deposit is forgotten.\<close>

theorem stored_offer_comes_back:
  "slot_of_payload (offer_payload s cat low) cs =
     (case next_such (\<lambda>c. cand_slug c = slot_platform s) cs of
        None \<Rightarrow> None
      | Some owner \<Rightarrow> Some (s\<lparr>slot_merchant := cand_merchant owner, requires_deposit := False\<rparr>))
   \<and> category_at (offer_payload s cat low) = Some cat"
  by (simp add: slot_of_offer_payload category_at_offer_payload slot_platform_def
        split: option.splits)

subsection \<open>Shapes\<close>

lemma hand_over_simps [simp]:
  "a_phrases (hand_over w) = [say HANDOFF_CONNECTING]" "a_state (hand_over w) = Some HANDOFF_STATE"
  "a_handoff (hand_over w) = Some w" "a_booking (hand_over w) = None" "a_offer (hand_over w) = None"
  "a_deferred (hand_over w) = None"
  by (simp_all add: hand_over_def no_result_def)

lemma offer_found_simps [simp]:
  "a_phrases (offer_found eng k sl cat low s) = [(k, offer_variables sl (eng_tz eng) (now_of eng s))]"
  "a_state (offer_found eng k sl cat low s) = Some CONFIRMATION"
  "a_handoff (offer_found eng k sl cat low s) = None"
  "a_booking (offer_found eng k sl cat low s) = None"
  "a_offer (offer_found eng k sl cat low s) = Some (offer_payload sl cat low)"
  "a_deferred (offer_found eng k sl cat low s) = None"
  by (simp_all add: offer_found_def no_result_def)

lemma confirmed_result_simps [simp]:
  "a_phrases (confirmed_result eng sl cat ref s) =
     [(BOOKING_CONFIRMED, confirmation_variables sl (confirmation_code ref) (eng_tz eng) (now_of eng s))]"
  "a_state (confirmed_result eng sl cat ref s) = Some CONFIRMED"
  "a_handoff (confirmed_result eng sl cat ref s) = None"
  "a_offer (confirmed_result eng sl cat ref s) = None"
  "a_deferred (confirmed_result eng sl cat ref s) = None"
  "a_booking (confirmed_result eng sl cat ref s) = Some \<lparr>bp_external_id = external_id ref,
     bp_platform = ref_platform ref, bp_code = confirmation_code ref, bp_venue = venue_name sl,
     bp_start = slot_start sl, bp_end = slot_end sl, bp_category = cat,
     bp_price = price_amount sl, bp_currency = price_currency sl\<rparr>"
  by (simp_all add: confirmed_result_def no_result_def)

text \<open>What the consumer is left with: an offer to answer, a booking, or a person.\<close>

definition settled :: "'w action_result \<Rightarrow> bool" where
  "settled r = (case a_state r of
     Some CONFIRMED \<Rightarrow> a_booking r \<noteq> None \<and> map fst (a_phrases r) = [BOOKING_CONFIRMED]
       \<and> a_handoff r = None
   | Some CONFIRMATION \<Rightarrow> a_offer r \<noteq> None \<and> a_booking r = None \<and> a_handoff r = None
       \<and> (\<exists>k vars. a_phrases r = [(k, vars)] \<and> k \<in> {OFFER_SLOT, OFFER_SLOT_HEDGED})
   | Some HANDOFF_STATE \<Rightarrow> a_handoff r \<noteq> None \<and> a_booking r = None
       \<and> a_phrases r = [say HANDOFF_CONNECTING]
   | _ \<Rightarrow> False)"

lemma settled_simps [simp]:
  "settled (hand_over w)" "k \<in> {OFFER_SLOT, OFFER_SLOT_HEDGED} \<Longrightarrow> settled (offer_found eng k sl cat low s)"
  "settled (confirmed_result eng sl cat ref s)"
  by (auto simp: settled_def)

lemma failover_settled:
  "failover_after_confirmation eng sl cat cs s = (Settled r, s') \<Longrightarrow> settled r \<and> a_booking r = None"
  by (auto simp: failover_after_confirmation_def split_def Let_def
        split: search_status.splits option.splits if_splits)

subsection \<open>At most one booking\<close>

lemma search_live:
  assumes "\<And>c. c \<in> set cs \<Longrightarrow> is_registered (cand_adapter c)"
  shows "fake_live (world (snd (search self cs req s))) = fake_live (world s)"
  by (rule platforms.search_lands_nothing [OF assms])

lemma failover_live:
  assumes "\<And>c. c \<in> set cs \<Longrightarrow> is_registered (cand_adapter c)"
    and "failover_after_confirmation eng sl cat cs s = (f, s')"
  shows "fake_live (world s') = fake_live (world s)"
    and "f = Book_Instead d c \<Longrightarrow> c \<in> set cs"
proof -
  have "s' = snd (search (eng_cascade eng) cs (failover_request sl cat) s)"
    using assms(2) by (auto simp: failover_after_confirmation_def split_def Let_def
        split: search_status.splits option.splits if_splits)
  then show "fake_live (world s') = fake_live (world s)" using search_live [OF assms(1)] by simp
  show "c \<in> set cs" if "f = Book_Instead d c"
    using assms(2) that by (auto simp: failover_after_confirmation_def split_def Let_def
        dest: next_such_in split: search_status.splits option.splits if_splits)
qed

lemma set_remove_first: "set (remove_first p xs) \<subseteq> set xs"
  by (induction xs) auto

text \<open>The cases of a booking attempt, with what each leaves to do.\<close>

lemma book_pending_cases:
  assumes "book_pending eng offer cs name phone s = Some (r, s')"
  obtains (refused) "r = hand_over ''system_error''" "s' = s"
  | (booked) sl cat chosen ref b where "slot_of_payload offer cs = Some sl"
      "category_at offer = Some cat" "chosen \<in> set cs"
      "book (eng_cascade eng) chosen sl cat name phone None s = (b, s')"
      "book_status b = BOOKED" "r = confirmed_result eng sl cat ref s'"
  | (uncertain) sl cat chosen b w where "chosen \<in> set cs"
      "book (eng_cascade eng) chosen sl cat name phone None s = (b, s')" "r = hand_over w"
  | (settled) sl cat chosen b s1 where "chosen \<in> set cs"
      "book (eng_cascade eng) chosen sl cat name phone None s = (b, s1)" "book_status b = FAILED"
      "failover_after_confirmation eng sl cat
         (remove_first (\<lambda>c. cand_slug c = platform_slug (slot_merchant sl)) cs) s1 = (Settled r, s')"
  | (instead) sl cat chosen b s1 d c s2 where "slot_of_payload offer cs = Some sl"
      "category_at offer = Some cat" "chosen \<in> set cs"
      "book (eng_cascade eng) chosen sl cat name phone None s = (b, s1)" "book_status b = FAILED"
      "failover_after_confirmation eng sl cat
         (remove_first (\<lambda>c. cand_slug c = platform_slug (slot_merchant sl)) cs) s1
           = (Book_Instead d c, s2)"
      "book_pending eng d [c] None None s2 = Some (r, s')"
proof -
  note body = assms [unfolded book_pending.simps [of eng offer cs name phone s]]
  show ?thesis
  proof (cases "slot_of_payload offer cs")
    case None
    with body refused show ?thesis by simp
  next
    case (Some sl)
    note sl = Some
    then obtain cat where cat: "category_at offer = Some cat" using body by (auto split: option.splits)
    let ?p = "\<lambda>c. cand_slug c = platform_slug (slot_merchant sl)"
    show ?thesis
    proof (cases "next_such ?p cs")
      case None
      with body sl cat refused show ?thesis by simp
    next
      case (Some chosen)
      obtain b s1 where b: "book (eng_cascade eng) chosen sl cat name phone None s = (b, s1)"
        by fastforce
      obtain f s2 where f: "failover_after_confirmation eng sl cat (remove_first ?p cs) s1 = (f, s2)"
        by fastforce
      have in_cs: "chosen \<in> set cs" using Some by (auto dest: next_such_in)
      have ref: "book_status b = BOOKED \<longleftrightarrow> booked_ref b \<noteq> None"
        using book_ref_iff [of "eng_cascade eng" chosen sl cat name phone None s] b by simp
      note rest = body [simplified sl cat Some b f option.case Let_def split_conv]
      show ?thesis
      proof (cases "book_status b")
        case BOOKED
        then show ?thesis using rest ref booked [OF sl cat in_cs] b by auto
      next
        case UNCERTAIN
        then show ?thesis using rest uncertain [OF in_cs] b by auto
      next
        case FAILED
        show ?thesis
        proof (cases f)
          case (Settled r')
          then show ?thesis using rest FAILED settled [OF in_cs b FAILED] f by auto
        next
          case (Book_Instead d c)
          then show ?thesis using rest FAILED instead [OF sl cat in_cs b FAILED] f by auto
        qed
      qed
    qed
  qed
qed

lemma remove_first_shorter:
  "slot_of_payload offer cs = Some sl \<Longrightarrow> chosen \<in> set cs \<Longrightarrow>
   failover_after_confirmation eng sl' cat (remove_first p cs) s = (Book_Instead d c, s2) \<Longrightarrow>
   p chosen \<Longrightarrow> 1 < length cs"
  using failover_remaining length_remove_first [of chosen cs p]
  by (metis One_nat_def Suc_less_eq length_greater_0_conv)

text \<open>Induction over the attempts a confirmed offer makes.\<close>

lemma book_pending_result_induct [consumes 1, case_names refused booked uncertain settled instead]:
  assumes "book_pending eng offer cs name phone s = Some (r, s')"
    and refused: "\<And>offer cs name phone s. P offer cs name phone s (hand_over ''system_error'') s"
    and booked: "\<And>offer cs name phone s sl cat chosen ref b s'.
      slot_of_payload offer cs = Some sl \<Longrightarrow> category_at offer = Some cat \<Longrightarrow>
      chosen \<in> set cs \<Longrightarrow> book (eng_cascade eng) chosen sl cat name phone None s = (b, s') \<Longrightarrow>
      P offer cs name phone s (confirmed_result eng sl cat ref s') s'"
    and uncertain: "\<And>offer cs name phone s sl cat chosen b w s'. chosen \<in> set cs \<Longrightarrow>
      book (eng_cascade eng) chosen sl cat name phone None s = (b, s') \<Longrightarrow>
      P offer cs name phone s (hand_over w) s'"
    and settled: "\<And>offer cs name phone s sl cat chosen b s1 r s' rest. chosen \<in> set cs \<Longrightarrow>
      book (eng_cascade eng) chosen sl cat name phone None s = (b, s1) \<Longrightarrow>
      book_status b = FAILED \<Longrightarrow> set rest \<subseteq> set cs \<Longrightarrow>
      failover_after_confirmation eng sl cat rest s1 = (Settled r, s') \<Longrightarrow>
      P offer cs name phone s r s'"
    and instead: "\<And>offer cs name phone s sl cat chosen b s1 d c s2 r s' rest.
      slot_of_payload offer cs = Some sl \<Longrightarrow> category_at offer = Some cat \<Longrightarrow>
      chosen \<in> set cs \<Longrightarrow> book (eng_cascade eng) chosen sl cat name phone None s = (b, s1) \<Longrightarrow>
      book_status b = FAILED \<Longrightarrow> set rest \<subseteq> set cs \<Longrightarrow>
      failover_after_confirmation eng sl cat rest s1 = (Book_Instead d c, s2) \<Longrightarrow>
      book_pending eng d [c] None None s2 = Some (r, s') \<Longrightarrow> P d [c] None None s2 r s' \<Longrightarrow>
      P offer cs name phone s r s'"
  shows "P offer cs name phone s r s'"
  using assms(1)
proof (induction "length cs" arbitrary: offer cs name phone s rule: less_induct)
  case less
  from less.prems show ?case
  proof (cases rule: book_pending_cases)
    case refused
    then show ?thesis using assms(2) by simp
  next
    case (booked sl cat chosen ref b)
    then show ?thesis using assms(3) by blast
  next
    case (uncertain sl cat chosen b w)
    then show ?thesis using assms(4) by blast
  next
    case (settled sl cat chosen b s1)
    then show ?thesis using assms(5) [OF settled(1,2,3) set_remove_first settled(4)] by simp
  next
    case (instead sl cat chosen b s1 d c s2)
    let ?p = "\<lambda>c. cand_slug c = platform_slug (slot_merchant sl)"
    from instead(1) obtain owner where "next_such (candidate_named (json_get offer ''platform_slug'')) cs
        = Some owner" and m: "slot_merchant sl = cand_merchant owner"
      by (auto simp: slot_of_payload_def split: option.splits)
    then have "owner \<in> set cs" "?p owner" by (auto dest: next_such_in simp: cand_slug_def)
    with instead have "1 < length cs" using remove_first_shorter by blast
    then have "P d [c] None None s2 r s'" using less.hyps [OF _ instead(7)] by simp
    then show ?thesis
      using assms(6) [OF instead(1-5) set_remove_first instead(6,7)] by blast
  qed
qed

lemma book_pending_settled:
  "book_pending eng offer cs name phone s = Some (r, s') \<Longrightarrow> settled r"
  by (induction rule: book_pending_result_induct) (auto dest: failover_settled)

lemma failover_payload:
  "failover_after_confirmation eng sl cat cs s = (Book_Instead d c, s') \<Longrightarrow>
   \<exists>sl' low. d = offer_payload sl' cat low \<and> cand_slug c = platform_slug (slot_merchant sl')
     \<and> \<not> needs_reconfirmation (compare_slots sl sl' (eng_tolerances eng))"
  by (fastforce simp: failover_after_confirmation_def split_def Let_def
        dest: next_such_in split: search_status.splits option.splits if_splits)

lemma book_pending_returns:
  "category_at offer = Some cat \<Longrightarrow> \<exists>r s'. book_pending eng offer cs name phone s = Some (r, s')"
proof (induction eng offer cs name phone s arbitrary: cat rule: book_pending.induct)
  case (1 eng offer cs name phone s)
  show ?case
  proof (cases "slot_of_payload offer cs")
    case None
    then show ?thesis by (simp add: book_pending.simps [of eng offer])
  next
    case (Some sl)
    note sl = Some
    let ?p = "\<lambda>c. cand_slug c = platform_slug (slot_merchant sl)"
    show ?thesis
    proof (cases "next_such ?p cs")
      case None
      with sl "1.prems" show ?thesis by (simp add: book_pending.simps [of eng offer])
    next
      case (Some chosen)
      obtain b s1 where b: "book (eng_cascade eng) chosen sl cat name phone None s = (b, s1)"
        by fastforce
      obtain f s2 where f: "failover_after_confirmation eng sl cat (remove_first ?p cs) s1 = (f, s2)"
        by fastforce
      note body = book_pending.simps [of eng offer cs name phone s,
        simplified sl "1.prems" Some b f option.case Let_def split_conv]
      show ?thesis
      proof (cases f)
        case (Settled r)
        then show ?thesis unfolding body by simp
      next
        case (Book_Instead d c)
        then obtain sl' low where "d = offer_payload sl' cat low" using failover_payload f by blast
        then have "category_at d = Some cat" by (simp add: category_at_offer_payload)
        then have "\<not> (book_status b = BOOKED \<and> booked_ref b \<noteq> None) \<Longrightarrow> book_status b \<noteq> UNCERTAIN \<Longrightarrow>
            \<exists>r s'. book_pending eng d [c] None None s2 = Some (r, s')"
          using "1.IH" [OF sl "1.prems" Some b [symmetric] refl _ _ f [symmetric] Book_Instead] by simp
        then show ?thesis unfolding body Book_Instead by auto
      qed
    qed
  qed
qed

text \<open>C10. Confirming a stored offer always comes to an end, and however it turns out the consumer is
  left with a booking and its confirmation, a fresh offer to answer, or a person on the way:
  never with nothing.\<close>

theorem confirmed_offer_is_settled:
  "\<exists>r s'. book_pending eng (offer_payload sl cat low) cs name phone s = Some (r, s') \<and> settled r"
  using book_pending_returns [OF category_at_offer_payload] book_pending_settled by metis

definition sample_engine :: "fake_world engine" where
  "sample_engine = \<lparr>eng_cascade = sample_cascade, eng_candidates_for = (\<lambda>_ _. []), eng_tz = dubai,
     eng_tolerances = default_tolerances, eng_epoch = 0\<rparr>"

text \<open>C8. A confirmed offer never books twice: whatever the registered platforms do, and however the
  attempt fails over, it leaves at most one booking more than there was; when it ends in a
  fresh offer, none.\<close>

theorem confirmed_offer_books_at_most_once:
  assumes "\<And>c. c \<in> set cs \<Longrightarrow> is_registered (cand_adapter c)"
    and "book_pending eng offer cs name phone s = Some (r, s')"
  shows "fake_live (world s') \<le> fake_live (world s) + 1 \<and>
    (if a_state r = Some CONFIRMATION then fake_live (world s') = fake_live (world s) else True)"
  using assms(2,1)
proof (induction rule: book_pending_result_induct)
  case (booked offer cs name phone s sl cat chosen ref b s')
  then have "is_registered (cand_adapter chosen)" by blast
  then show ?case
    using platforms.book_live(1) [of chosen "eng_cascade eng" sl cat name phone None s] booked(4)
    by simp
next
  case (uncertain offer cs name phone s sl cat chosen b w s')
  then have "is_registered (cand_adapter chosen)" by blast
  then show ?case
    using platforms.book_live(1) [of chosen "eng_cascade eng" sl cat name phone None s] uncertain(2)
    by simp
next
  case (settled offer cs name phone s sl cat chosen b s1 r s' rest)
  then have "is_registered (cand_adapter chosen)" by blast
  then have "fake_live (world s1) = fake_live (world s)"
    using platforms.book_live(2) [of chosen "eng_cascade eng" sl cat name phone None s] settled(2,3)
    by simp
  moreover have "fake_live (world s') = fake_live (world s1)"
    using failover_live(1) [OF _ settled(5)] settled(4,6) by blast
  ultimately show ?case by simp
next
  case (instead offer cs name phone s sl cat chosen b s1 d c s2 r s' rest)
  then have "is_registered (cand_adapter chosen)" by blast
  then have "fake_live (world s1) = fake_live (world s)"
    using platforms.book_live(2) [of chosen "eng_cascade eng" sl cat name phone None s] instead(4,5)
    by simp
  moreover have "fake_live (world s2) = fake_live (world s1)"
    using failover_live(1) [OF _ instead(7)] instead(6,10) by blast
  moreover have "c \<in> set rest" using failover_live(2) [OF _ instead(7)] instead(6,10) by blast
  ultimately show ?case using instead(6,9,10) by auto
qed simp

theorem confirmed_offer_books_at_most_once_witness:
  "\<exists>r s'. book_pending sample_engine (offer_payload sample_slot category.SALON False)
       [sample_candidate (timeout_fake sample_style ''p'' 0 True)] None None sample_run = Some (r, s')
     \<and> fake_live (world s') \<le> 1"
proof -
  let ?cs = "[sample_candidate (timeout_fake sample_style ''p'' 0 True)]"
  let ?o = "offer_payload sample_slot category.SALON False"
  obtain r s' where run: "book_pending sample_engine ?o ?cs None None sample_run = Some (r, s')"
    using book_pending_returns [OF category_at_offer_payload] by blast
  have "fake_live (world s') \<le> fake_live (world sample_run) + 1"
    using confirmed_offer_books_at_most_once [OF _ run]
    by (simp add: sample_candidate_def is_registered.fake is_fake.timeout)
  with run show ?thesis by (auto simp: sample_run_def sample_world_def fake_live_def)
qed

lemma offer_read:
  "slot_of_payload (offer_payload sl cat low) cs = Some sl1 \<Longrightarrow>
   \<exists>m. sl1 = sl\<lparr>slot_merchant := m, requires_deposit := False\<rparr>"
  by (auto simp: slot_of_offer_payload)

lemma book_pending_booked:
  assumes "slot_of_payload offer cs = Some sl" and "category_at offer = Some cat"
    and "next_such (\<lambda>c. cand_slug c = platform_slug (slot_merchant sl)) cs = Some chosen"
    and "book (eng_cascade eng) chosen sl cat name phone None s = (b, s')" and "book_status b = BOOKED"
  shows "\<exists>ref. book_pending eng offer cs name phone s = Some (confirmed_result eng sl cat ref s', s')"
  using assms book_ref_iff [of "eng_cascade eng" chosen sl cat name phone None s]
  by (auto simp: book_pending.simps [of eng offer])

subsection \<open>The materiality rule\<close>

lemma immaterial_payload:
  assumes "\<not> needs_reconfirmation (compare_slots sl sl' t)"
  shows "\<not> needs_reconfirmation (compare_slots sl
     (sl'\<lparr>slot_merchant := m, requires_deposit := False\<rparr>) (t\<lparr>venue_must_match := False\<rparr>))"
  using assms
  by (simp add: needs_reconfirmation_def compare_slots_material drift_minutes_def priced_def
        rise_percent_def)

lemma failover_alone:
  "failover_after_confirmation eng sl cat [] s \<noteq> (Book_Instead d c, s')"
  using failover_remaining by blast

text \<open>What is booked is the confirmed slot or a replacement the rule lets through.\<close>

lemma single_candidate_booking:
  assumes "book_pending eng (offer_payload sl cat low) [c] None None s = Some (r, s')"
    and "a_booking r = Some bp"
  shows "bp_venue bp = venue_name sl \<and> bp_start bp = slot_start sl \<and> bp_end bp = slot_end sl
     \<and> bp_price bp = price_amount sl \<and> bp_category bp = cat"
  using assms(1)
proof (cases rule: book_pending_cases)
  case (instead sl1 cat1 chosen b s1 d c1 s2)
  then have "remove_first (\<lambda>c. cand_slug c = platform_slug (slot_merchant sl1)) [c] \<noteq> []"
    using failover_remaining by blast
  moreover have "cand_slug c = platform_slug (slot_merchant sl1)"
    using instead(1)
    by (auto simp: slot_of_offer_payload cand_slug_def split: if_splits)
  ultimately show ?thesis by simp
next
  case (booked sl1 cat1 chosen ref b)
  then obtain m where "sl1 = sl\<lparr>slot_merchant := m, requires_deposit := False\<rparr>"
    using offer_read by blast
  with booked assms(2) show ?thesis by (auto simp: category_at_offer_payload)
next
  case (settled sl1 cat1 chosen b s1)
  then show ?thesis using assms(2) failover_settled [OF settled(4)] by simp
qed (use assms(2) in auto)


definition sample_engine_run :: "(fake_world action_result \<times> fake_world run) option" where
  "sample_engine_run = book_pending sample_engine (offer_payload sample_slot category.SALON False)
     [sample_candidate (base_fake sample_style ''p'' 0)] None None sample_run"

lemma sample_books:
  "\<exists>r s' bp. sample_engine_run = Some (r, s') \<and> a_booking r = Some bp"
proof -
  let ?c = "sample_candidate (base_fake sample_style ''p'' 0)"
  have slug: "cand_slug ?c = ''p''"
    by (simp add: sample_candidate_def cand_slug_def sample_merchant_def base_fake_def)
  have mine: "platform_slug (slot_merchant sample_slot) = ''p''"
    by (simp add: sample_slot_def sample_merchant_def)
  have slot: "slot_of_payload (offer_payload sample_slot category.SALON False) [?c] = Some sample_slot"
    by (simp add: slot_of_offer_payload slug mine)
       (simp add: sample_candidate_def sample_merchant_def sample_slot_def base_fake_def)
  obtain b s1 where b: "book (eng_cascade sample_engine) ?c sample_slot category.SALON None None None
      sample_run = (b, s1)" by fastforce
  have "book_status (fst (book sample_cascade ?c sample_slot category.SALON None None None sample_run))
      = BOOKED" by code_simp
  then have "book_status b = BOOKED" using b by (simp add: sample_engine_def)
  from book_pending_booked [OF slot category_at_offer_payload _ b this] show ?thesis
    by (auto simp: sample_engine_run_def slug mine)
qed


subsection \<open>Searching\<close>

text \<open>C12. A search action never leaves the consumer with nothing: it ends in an offer to answer, or in
  a person on the way, or, when time ran out, in the holding message and a continuation over
  the candidates that were not asked.\<close>

theorem search_action_pivots:
  "let (r, s') = perform_search eng t s in
   case a_state r of
     Some CONFIRMATION \<Rightarrow> a_offer r \<noteq> None \<and> a_handoff r = None \<and> a_deferred r = None
   | Some HANDOFF_STATE \<Rightarrow> a_handoff r \<noteq> None \<and> a_phrases r = [say HANDOFF_CONNECTING]
   | Some SLOT_PRESENTATION \<Rightarrow> a_phrases r = [say PIVOT_HOLDING] \<and>
       (\<exists>d. a_deferred r = Some d \<and> df_remaining d \<noteq> [] \<and>
          set (df_remaining d) \<subseteq> set (eng_candidates_for eng (df_category d) (c_area (t_collected t))))
   | _ \<Rightarrow> False"
proof -
  let ?cat = "category_named (c_category (t_collected t))"
  let ?cs = "eng_candidates_for eng ?cat (c_area (t_collected t))"
  let ?req = "request_of eng (t_collected t) s"
  obtain out s' where out: "search (eng_cascade eng) ?cs ?req s = (out, s')" by fastforce
  have sel: "out = select (fresh s) ?cs (answers (eng_cascade eng) ?cs ?req s)"
    using search_selects [of "eng_cascade eng" ?cs ?req s] out by simp
  have "length (answers (eng_cascade eng) ?cs ?req s) \<le> length ?cs"
    unfolding answers_def by (rule observe_length)
  then have "search_status out = FOUND \<and> found_slot out \<noteq> None
      \<or> search_status out = EXHAUSTED
      \<or> search_status out = DEADLINE_EXCEEDED \<and> remaining_candidates out \<noteq> []
        \<and> set (remaining_candidates out) \<subseteq> set ?cs"
    unfolding sel by (auto simp: select_def outcome_records Let_def
        dest: in_set_dropD split: option.splits)
  then show ?thesis
    by (auto simp: perform_search_def out from_search_def Let_def no_result_def
        split: option.splits if_splits)
qed

lemma search_nobody: "search_status (fst (search self [] req s)) = EXHAUSTED"
  by (simp add: search_selects select_def answers_def outcome_records Let_def)

text \<open>Time only runs out on a search when the deadline has passed.\<close>

lemma search_loop_deadline:
  assumes "search_status (fst (search_loop self d req i att fb cs s)) = DEADLINE_EXCEEDED"
  shows "expired (clock (snd (search_loop self d req i att fb cs s))) (turn_deadline self)"
  using assms
proof (induction cs arbitrary: i att fb s)
  case Nil
  then show ?case by (auto simp: outcome_records split: option.splits)
next
  case (Cons c rest)
  obtain r s1 where at: "attempt self d req i c s = (r, s1)" by fastforce
  show ?case
  proof (cases "expired (clock s) (turn_deadline self)")
    case True
    then show ?thesis by (simp add: search_loop_expired)
  next
    case False
    then show ?thesis
      using Cons by (cases "usable r")
        (simp_all add: search_loop_serves [OF False at] search_loop_advances [OF False at]
           outcome_records)
  qed
qed

lemma search_deadline:
  "search_status (fst (search self cs req s)) = DEADLINE_EXCEEDED \<Longrightarrow>
   expired (clock (snd (search self cs req s))) (turn_deadline self)"
  unfolding search_unfold by (rule search_loop_deadline)

text \<open>The follow-up of a search that ran out of time asks nobody: the continuation searches under
  the same, already expired turn deadline, so whenever it is run it answers with the holding
  message again and yet another continuation, and the platforms it should have asked are left
  alone.\<close>

theorem deferred_follow_up_asks_nobody:
  assumes "search_status (fst (search (eng_cascade eng) cs req s)) = DEADLINE_EXCEEDED"
    and "clock (snd (search (eng_cascade eng) cs req s)) \<le> clock s'"
    and "df_remaining d = remaining_candidates (fst (search (eng_cascade eng) cs req s))"
  shows "let (r, s'') = finish eng d s' in
    a_phrases r = [say PIVOT_HOLDING] \<and> a_offer r = None \<and> a_handoff r = None
    \<and> a_deferred r \<noteq> None \<and> world s'' = world s'"
proof -
  let ?out = "fst (search (eng_cascade eng) cs req s)"
  have "expired (clock s') (turn_deadline (eng_cascade eng))"
    using expired_mono [OF search_deadline [OF assms(1)] assms(2)] .
  moreover have "length (answers (eng_cascade eng) cs req s) \<le> length cs"
    unfolding answers_def by (rule observe_length)
  then have "df_remaining d \<noteq> []"
    using assms(1,3) unfolding search_selects
    by (auto simp: select_def outcome_records Let_def split: option.splits if_splits)
  ultimately show ?thesis
    using search_expired [of s' "eng_cascade eng" "df_remaining d" "df_request d"]
    by (auto simp: finish_def split_def Let_def from_search_def no_result_def
        split: option.splits)
qed

definition late_engine :: "fake_world engine" where
  "late_engine = sample_engine\<lparr>eng_cascade := new_cascade 0 (expired_now 0) 1 2 ''corr''\<rparr>"

definition late_run :: "fake_world search_outcome \<times> fake_world run" where
  "late_run = search (eng_cascade late_engine) [sample_candidate (happy_fake sample_style 0)]
     sample_request sample_run"

theorem deferred_follow_up_asks_nobody_witness:
  "let (r, s'') = finish late_engine \<lparr>df_remaining = remaining_candidates (fst late_run),
       df_request = sample_request, df_category = category.SALON\<rparr> (snd late_run) in
    a_phrases r = [say PIVOT_HOLDING] \<and> a_offer r = None \<and> a_handoff r = None
    \<and> a_deferred r \<noteq> None \<and> world s'' = world (snd late_run)"
proof (rule deferred_follow_up_asks_nobody)
  have "expired (clock sample_run) (turn_deadline (eng_cascade late_engine))"
    by (simp add: sample_run_def late_engine_def new_cascade_def expired_def remaining_ms_def
          expired_now_def)
  from search_expired(1) [OF this]
  show "search_status (fst (search (eng_cascade late_engine)
     [sample_candidate (happy_fake sample_style 0)] sample_request sample_run)) = DEADLINE_EXCEEDED"
    by simp
qed (simp_all add: late_run_def)

text \<open>Asking to cancel, or for the status of, a confirmed booking is answered with nothing: the
  machine says nothing and leaves it to the engine, which does nothing and says nothing.\<close>

theorem post_booking_requests_get_no_answer:
  assumes "engaged i" and "m_state i = CONFIRMED"
    and "u_intent (m_understanding i) \<in> {''cancel_booking'', ''booking_status''}"
  shows "t_phrases (advance i) = [] \<and> perform eng (advance i) s = (no_result, s)"
proof -
  have "\<exists>t. post_of i = Some t \<and> t_phrases t = [] \<and> t_action t \<in> {LOOKUP_BOOKING, CANCEL_BOOKING}"
    using assms(3) by (auto simp: post_of_def post_booking_def Let_def)
  then obtain t where t: "post_of i = Some t" "t_phrases t = []"
    "t_action t \<in> {LOOKUP_BOOKING, CANCEL_BOOKING}" by blast
  then have "advance i = t" using assms(2) by (simp add: advance_engaged [OF assms(1)])
  with t show ?thesis by (auto simp: perform_def)
qed

theorem post_booking_requests_get_no_answer_witness:
  "let i = sample_input CONFIRMED (understood_nothing\<lparr>u_intent := ''cancel_booking''\<rparr>) in
   t_phrases (advance i) = [] \<and> perform sample_engine (advance i) sample_run = (no_result, sample_run)"
  unfolding Let_def
  by (rule post_booking_requests_get_no_answer)
     (simp_all add: engaged_def sample_input_def understood_nothing_def)

definition merchant_no :: "uid \<Rightarrow> merchant_ref" where
  "merchant_no n = (sample_merchant ''fake_happy'')\<lparr>merchant_id := n\<rparr>"

definition candidate_no :: "uid \<Rightarrow> fake_world candidate" where
  "candidate_no n = \<lparr>cand_adapter = happy_fake sample_style 0, cand_merchant = merchant_no n,
     cand_credentials = []\<rparr>"

text \<open>When a platform has several merchants, the booking goes to the first one configured, whoever
  made the offer: here the second merchant's slot is confirmed and the first one is booked.\<close>

theorem wrong_merchant_is_booked:
  "\<exists>r s'. book_pending sample_engine
       (offer_payload (sample_slot\<lparr>slot_merchant := merchant_no 2\<rparr>) category.SALON False)
       [candidate_no 1, candidate_no 2] None None sample_run = Some (r, s')
     \<and> map (\<lambda>(_, ref). merchant_id (ref_merchant ref)) (created (world s')) = [1]"
proof -
  let ?sl = "sample_slot\<lparr>slot_merchant := merchant_no 2\<rparr>"
  let ?cs = "[candidate_no 1, candidate_no 2]"
  let ?sl1 = "sample_slot\<lparr>slot_merchant := merchant_no 1\<rparr>"
  have slug: "cand_slug (candidate_no n) = ''fake_happy''" for n
    by (simp add: candidate_no_def cand_slug_def merchant_no_def sample_merchant_def)
  have plat: "platform_slug (slot_merchant (sample_slot\<lparr>slot_merchant := merchant_no n\<rparr>)) = ''fake_happy''"
    for n by (simp add: merchant_no_def sample_merchant_def)
  have slot: "slot_of_payload (offer_payload ?sl category.SALON False) ?cs = Some ?sl1"
    unfolding slot_of_offer_payload plat
    by (simp add: slug) (simp add: candidate_no_def sample_slot_def)
  have first: "next_such (\<lambda>c. cand_slug c = platform_slug (slot_merchant ?sl1)) ?cs
      = Some (candidate_no 1)" unfolding plat by (simp add: slug)
  obtain b s1 where b: "book (eng_cascade sample_engine) (candidate_no 1) ?sl1 category.SALON None
      None None sample_run = (b, s1)" by fastforce
  have "book_status (fst (book sample_cascade (candidate_no 1) ?sl1 category.SALON None None None
      sample_run)) = BOOKED" by code_simp
  then have "book_status b = BOOKED" using b by (simp add: sample_engine_def)
  moreover have "map (\<lambda>(_, ref). merchant_id (ref_merchant ref)) (created (world (snd (book sample_cascade
      (candidate_no 1) ?sl1 category.SALON None None None sample_run)))) = [1]" by code_simp
  then have "map (\<lambda>(_, ref). merchant_id (ref_merchant ref)) (created (world s1)) = [1]"
    using b by (simp add: sample_engine_def)
  ultimately show ?thesis
    using book_pending_booked [OF slot category_at_offer_payload first b] by metis
qed

end
