(* ===== verification/Notify_Policy.thy ===== *)
theory Notify_Policy
  imports Repositories Phrasebank Formatting
begin

text \<open>
  When a notification is due and how it may be sent, \<^verbatim>\<open>mawjood/core/notifications/policy.py\<close>,
  and the provider's templates, \<^verbatim>\<open>mawjood/core/notifications/templates.py\<close>. Everything is a
  function of its arguments: the caller passes \<open>now\<close>.
\<close>

subsection \<open>Templates\<close>

datatype template_status = NOT_SUBMITTED | PENDING | APPROVED | REJECTED

definition template_status_value :: "template_status \<Rightarrow> string" where
  "template_status_value s = (case s of
     template_status.NOT_SUBMITTED \<Rightarrow> ''not_submitted'' | template_status.PENDING \<Rightarrow> ''pending''
   | template_status.APPROVED \<Rightarrow> ''approved'' | template_status.REJECTED \<Rightarrow> ''rejected'')"

record template =
  tp_name :: string
  tp_phrasebank_key :: string
  tp_locale :: string
  tp_status :: template_status
  tp_variables :: "string list"

definition usable :: "template \<Rightarrow> bool" where
  "usable t = (tp_status t = APPROVED)"

definition PHRASE_FOR :: "notification_kind \<Rightarrow> phrase_key" where
  "PHRASE_FOR k = (case k of
     REMINDER_24H \<Rightarrow> NOTIFY_REMINDER_24H | REMINDER_2H \<Rightarrow> NOTIFY_REMINDER_2H
   | FOLLOW_UP \<Rightarrow> NOTIFY_FOLLOW_UP | SATISFACTION \<Rightarrow> NOTIFY_SATISFACTION)"

definition VARIABLES_FOR :: "notification_kind \<Rightarrow> string list" where
  "VARIABLES_FOR k = (case k of
     REMINDER_24H \<Rightarrow> [''venue'', ''day'', ''time''] | REMINDER_2H \<Rightarrow> [''venue'', ''time'']
   | FOLLOW_UP \<Rightarrow> [''venue''] | SATISFACTION \<Rightarrow> [''venue''])"

definition DEFAULT_NAMES :: "notification_kind \<Rightarrow> string" where
  "DEFAULT_NAMES k = (case k of
     REMINDER_24H \<Rightarrow> ''booking_reminder_24h'' | REMINDER_2H \<Rightarrow> ''booking_reminder_2h''
   | FOLLOW_UP \<Rightarrow> ''booking_follow_up'' | SATISFACTION \<Rightarrow> ''booking_satisfaction'')"

text \<open>\<open>TemplateRegistry\<close>: a dict keyed by kind and locale.\<close>

type_synonym template_registry = "(string \<times> string) \<rightharpoonup> template"

definition declare_template ::
    "notification_kind \<Rightarrow> template \<Rightarrow> template_registry \<Rightarrow> template_registry" where
  "declare_template k t reg = reg((notification_kind_value k, tp_locale t) \<mapsto> t)"

definition template_for :: "template_registry \<Rightarrow> notification_kind \<Rightarrow> string \<Rightarrow> template option" where
  "template_for reg k loc = reg (notification_kind_value k, loc)"

definition approved_template ::
    "template_registry \<Rightarrow> notification_kind \<Rightarrow> string \<Rightarrow> template option" where
  "approved_template reg k loc =
     (case template_for reg k loc of
        Some t \<Rightarrow> if usable t then Some t else None | None \<Rightarrow> None)"

text \<open>
  \<open>build_template_registry\<close>. The settings are the texts of \<open>template_name_<kind>\<close>, where they
  are set, and of \<open>approved_templates\<close>.
\<close>

record template_settings =
  template_name_of :: "notification_kind \<Rightarrow> string option"
  approved_templates :: "string list"

definition approved_names :: "template_settings \<Rightarrow> string list" where
  "approved_names st = filter (\<lambda>n. n \<noteq> []) (map strip (approved_templates st))"

definition configured_template ::
    "template_settings \<Rightarrow> string \<Rightarrow> notification_kind \<Rightarrow> template" where
  "configured_template st loc k =
     (let nm = (if truthy (template_name_of st k) then strip (the (template_name_of st k))
                else DEFAULT_NAMES k)
      in \<lparr>tp_name = nm, tp_phrasebank_key = phrase_key_value (PHRASE_FOR k), tp_locale = loc,
          tp_status = (if nm \<in> set (approved_names st) then APPROVED else NOT_SUBMITTED),
          tp_variables = VARIABLES_FOR k\<rparr>)"

definition build_template_registry :: "template_settings \<Rightarrow> string \<Rightarrow> template_registry" where
  "build_template_registry st loc =
     fold (\<lambda>k. declare_template k (configured_template st loc k)) all_notification_kind Map.empty"

subsection \<open>Offsets\<close>

record offsets =
  reminder_24h_before :: real
  reminder_2h_before :: real
  follow_up_after :: real
  satisfaction_after :: real
  grace_hours :: real
  session_window_hours :: real

definition default_offsets :: offsets where
  "default_offsets = \<lparr>reminder_24h_before = 24, reminder_2h_before = 2, follow_up_after = 2,
     satisfaction_after = 24, grace_hours = 2, session_window_hours = 24\<rparr>"

text \<open>\<open>__post_init__\<close>; None is the \<open>ValueError\<close>.\<close>

definition checked_offsets :: "offsets \<Rightarrow> offsets option" where
  "checked_offsets f =
     (if grace_hours f < 0 then None else if session_window_hours f \<le> 0 then None else Some f)"

text \<open>\<open>Offsets.from_settings\<close>: every attribute is read with its default.\<close>

definition offsets_of_settings :: "(string \<Rightarrow> real option) \<Rightarrow> offsets option" where
  "offsets_of_settings st =
     (let read = (\<lambda>nm d. case st nm of Some x \<Rightarrow> x | None \<Rightarrow> d) in
      checked_offsets \<lparr>reminder_24h_before = read ''notify_reminder_24h_before'' 24,
        reminder_2h_before = read ''notify_reminder_2h_before'' 2,
        follow_up_after = read ''notify_follow_up_after'' 2,
        satisfaction_after = read ''notify_satisfaction_after'' 24,
        grace_hours = read ''notify_grace_hours'' 2,
        session_window_hours = read ''whatsapp_session_window_hours'' 24\<rparr>)"

definition offset_for :: "offsets \<Rightarrow> notification_kind \<Rightarrow> real" where
  "offset_for f k = (case k of
     REMINDER_24H \<Rightarrow> reminder_24h_before f | REMINDER_2H \<Rightarrow> reminder_2h_before f
   | FOLLOW_UP \<Rightarrow> follow_up_after f | SATISFACTION \<Rightarrow> satisfaction_after f)"

subsection \<open>Due and open\<close>

definition due_at ::
    "notification_kind \<Rightarrow> instant option \<Rightarrow> instant option \<Rightarrow> offsets \<Rightarrow> instant option" where
  "due_at k start stop f =
     (case start of
        None \<Rightarrow> None
      | Some t \<Rightarrow>
          let end_of = (case stop of Some e \<Rightarrow> e | None \<Rightarrow> t) in
          Some (if is_reminder k then t - timedelta_hours (offset_for f k)
                else end_of + timedelta_hours (offset_for f k)))"

definition window_is_open :: "instant option \<Rightarrow> instant \<Rightarrow> offsets \<Rightarrow> bool" where
  "window_is_open last_inbound now f =
     (case last_inbound of
        None \<Rightarrow> False | Some t \<Rightarrow> now - t < timedelta_hours (session_window_hours f))"

subsection \<open>The decision\<close>

datatype verdict = SEND_TEMPLATE | SEND_SESSION | DEFERRED_NO_TEMPLATE | NOT_YET | EXPIRED
  | CANCELLED

definition verdict_value :: "verdict \<Rightarrow> string" where
  "verdict_value v = (case v of
     SEND_TEMPLATE \<Rightarrow> ''send_template'' | SEND_SESSION \<Rightarrow> ''send_session''
   | DEFERRED_NO_TEMPLATE \<Rightarrow> ''deferred_no_template'' | NOT_YET \<Rightarrow> ''not_yet''
   | EXPIRED \<Rightarrow> ''expired'' | verdict.CANCELLED \<Rightarrow> ''cancelled'')"

definition verdict_sends :: "verdict \<Rightarrow> bool" where
  "verdict_sends v = (v \<in> {SEND_TEMPLATE, SEND_SESSION})"

definition verdict_is_terminal :: "verdict \<Rightarrow> bool" where
  "verdict_is_terminal v = (v \<in> {EXPIRED, verdict.CANCELLED})"

record plan =
  pl_kind :: notification_kind
  pl_verdict :: verdict
  pl_reason :: string
  pl_template :: "template option"

definition held_reason :: "offsets \<Rightarrow> template option \<Rightarrow> string" where
  "held_reason f t = ''outside the '' @ format_g (session_window_hours f)
     @ ''h session window and template ''
     @ py_repr (case t of Some x \<Rightarrow> tp_name x | None \<Rightarrow> dash) @ '' is ''
     @ (case t of Some x \<Rightarrow> template_status_value (tp_status x) | None \<Rightarrow> ''no template declared'')
     @ ''. Held, not sent, not recorded as sent.''"

definition decide_notification ::
    "notification_kind \<Rightarrow> instant \<Rightarrow> instant \<Rightarrow> instant option \<Rightarrow> offsets \<Rightarrow> template option \<Rightarrow> bool
       \<Rightarrow> plan" where
  "decide_notification k now due last_inbound f t cancelled =
     (if cancelled then \<lparr>pl_kind = k, pl_verdict = verdict.CANCELLED,
        pl_reason = ''the booking is no longer standing'', pl_template = None\<rparr>
      else if now < due then \<lparr>pl_kind = k, pl_verdict = NOT_YET,
        pl_reason = ''not due yet'', pl_template = None\<rparr>
      else if now - due > timedelta_hours (grace_hours f) then \<lparr>pl_kind = k, pl_verdict = EXPIRED,
        pl_reason = ''more than '' @ format_g (grace_hours f)
          @ ''h late; sending now would be worse than not'', pl_template = None\<rparr>
      else if (case t of Some x \<Rightarrow> usable x | None \<Rightarrow> False) then
        \<lparr>pl_kind = k, pl_verdict = SEND_TEMPLATE,
         pl_reason = ''approved template '' @ py_repr (tp_name (the t)), pl_template = t\<rparr>
      else if window_is_open last_inbound now f then \<lparr>pl_kind = k, pl_verdict = SEND_SESSION,
        pl_reason = ''no approved template; inside the session window, sending as a session message'',
        pl_template = None\<rparr>
      else \<lparr>pl_kind = k, pl_verdict = DEFERRED_NO_TEMPLATE, pl_reason = held_reason f t,
        pl_template = t\<rparr>)"

subsection \<open>Facts\<close>

lemma pl_kind_decide [simp]: "pl_kind (decide_notification k now due spoke f t c) = k"
  by (simp add: decide_notification_def)

text \<open>The verdict, whatever its words.\<close>

lemma decide_verdict:
  "pl_verdict (decide_notification k now due spoke f t c) =
     (if c then verdict.CANCELLED
      else if now < due then NOT_YET
      else if now - due > timedelta_hours (grace_hours f) then EXPIRED
      else if (case t of Some x \<Rightarrow> usable x | None \<Rightarrow> False) then SEND_TEMPLATE
      else if window_is_open spoke now f then SEND_SESSION else DEFERRED_NO_TEMPLATE)"
  by (simp add: decide_notification_def)

lemma verdict_splits:
  "verdict_sends v \<Longrightarrow> \<not> verdict_is_terminal v"
  "verdict_sends v \<Longrightarrow> v \<noteq> NOT_YET"
  "verdict_is_terminal v \<Longrightarrow> v \<noteq> NOT_YET"
  by (auto simp: verdict_sends_def verdict_is_terminal_def)

text \<open>
  A notification that is sent is due, no more than the grace late, for a booking that stands, and
  permitted: by an approved template, or by a consumer who wrote within the session window.
\<close>

lemma sends_only_when_permitted:
  assumes "verdict_sends (pl_verdict (decide_notification k now due spoke f t c))"
  shows "\<not> c" and "due \<le> now" and "now \<le> due + timedelta_hours (grace_hours f)"
    and "(\<exists>x. t = Some x \<and> usable x) \<or> window_is_open spoke now f"
  using assms
  by (auto simp: decide_verdict verdict_sends_def split: if_splits option.splits)

lemma dom_declared: "(fold (\<lambda>k. declare_template k (g k)) ks reg) (notification_kind_value k, loc)
    = (if k \<in> set ks \<and> tp_locale (g k) = loc then Some (g k)
       else reg (notification_kind_value k, loc))"
  by (induction ks arbitrary: reg) (auto simp: declare_template_def inj_eq [OF notification_kind_value_inj])

lemma template_for_built:
  "template_for (build_template_registry st loc) k loc' =
     (if loc' = loc then Some (configured_template st loc k) else None)"
proof -
  have "tp_locale (configured_template st loc k) = loc" for k
    by (simp add: configured_template_def Let_def)
  then show ?thesis
    by (simp add: template_for_def build_template_registry_def dom_declared
        set_all_notification_kind)
qed

text \<open>
  Approval is configuration alone: a template is usable exactly when the name it goes by is among
  the approved ones.
\<close>

lemma usable_iff_approved:
  "usable (configured_template st loc k) \<longleftrightarrow>
     tp_name (configured_template st loc k) \<in> set (approved_names st)"
  by (simp add: usable_def configured_template_def Let_def)

lemma due_at_Some: "due_at k (Some t) e f =
   Some (if is_reminder k then t - timedelta_hours (offset_for f k)
         else (case e of Some x \<Rightarrow> x | None \<Rightarrow> t) + timedelta_hours (offset_for f k))"
  by (simp add: due_at_def Let_def)

lemma due_at_None [simp]: "due_at k None e f = None"
  by (simp add: due_at_def)

end
