(* ===== verification/Messages.thy ===== *)
theory Messages
  imports Repositories Phrasebank
begin

text \<open>
  The boundary types of a turn, \<^verbatim>\<open>mawjood/core/conversation/types.py\<close>. The provider's raw payload,
  which no modelled code reads, is left out.
\<close>

record inbound_message =
  in_tenant_slug :: string
  in_channel :: channel
  in_wa_id :: string
  in_text :: string
  in_provider_message_id :: "string option"
  in_display_name :: "string option"

record outbound_message =
  om_message :: rendered_message
  om_conversation :: uid
  om_lead :: uid
  om_channel :: channel

definition om_text :: "outbound_message \<Rightarrow> string" where
  "om_text m = rm_text (om_message m)"

definition om_key :: "outbound_message \<Rightarrow> string" where
  "om_key m = rm_key (om_message m)"

text \<open>
  A provider's \<open>send\<close>: what it answers for the message row it is asked to send, an identifier,
  none, or an exception. The provider is outside the repository's control, so it is a parameter.
\<close>

datatype send_answer = Accepted "string option" | Send_Raised

type_synonym provider = "uid \<Rightarrow> outbound_message \<Rightarrow> send_answer"

end
