(* ===== verification/Scheduler.thy ===== *)
theory Scheduler
  imports Notify_Policy Messages
begin

text \<open>
  Writing the schedule, running it and capturing what comes back,
  \<^verbatim>\<open>mawjood/core/notifications/scheduler.py\<close>. A pass works on the store: it decides every open
  row against the clock first, then acts on the rows in that order. An exception (the phrasebank's
  or the provider's) is None and leaves the transaction to be rolled back.
\<close>

subsection \<open>The schedule of a booking\<close>

definition scheduled_kinds :: "store \<Rightarrow> uid \<Rightarrow> notification_kind list" where
  "scheduled_kinds db bid = map sn_kind (filter (\<lambda>n. sn_booking n = bid) (notifications db))"

definition new_notification ::
    "uid \<Rightarrow> uid \<Rightarrow> booking \<Rightarrow> notification_kind \<Rightarrow> instant \<Rightarrow> notification" where
  "new_notification i tid b k due = \<lparr>sn_id = i, sn_tenant = tid, sn_booking = bk_id b,
     sn_conversation = bk_conversation b, sn_lead = bk_lead b, sn_kind = k,
     sn_status = notification_status.PENDING, sn_due_at = due, sn_sent_at = None,
     sn_message = None, sn_attempts = 0, sn_last_attempt_at = None, sn_reason = None,
     sn_template = None\<rparr>"

fun schedule_kinds ::
    "uid \<Rightarrow> booking \<Rightarrow> offsets \<Rightarrow> notification_kind list \<Rightarrow> notification_kind list \<Rightarrow> store
       \<Rightarrow> notification list \<times> store" where
  "schedule_kinds tid b f existing [] db = ([], db)"
| "schedule_kinds tid b f existing (k # ks) db =
     (if k \<in> set existing then schedule_kinds tid b f existing ks db
      else case due_at k (bk_slot_start b) (bk_slot_end b) f of
        None \<Rightarrow> schedule_kinds tid b f existing ks db
      | Some due \<Rightarrow>
          let (i, db1) = new_id db;
              row = new_notification i tid b k due;
              (rows, db2) = schedule_kinds tid b f existing ks
                (db1\<lparr>notifications := notifications db1 @ [row]\<rparr>)
          in (row # rows, db2))"

definition schedule_for_booking ::
    "uid \<Rightarrow> booking \<Rightarrow> offsets option \<Rightarrow> store \<Rightarrow> notification list \<times> store" where
  "schedule_for_booking tid b f db =
     (if bk_slot_start b = None then ([], db)
      else schedule_kinds tid b (case f of Some x \<Rightarrow> x | None \<Rightarrow> default_offsets)
             (scheduled_kinds db (bk_id b)) all_notification_kind db)"

subsection \<open>A pass\<close>

record scheduler =
  sch_tenant :: uid
  sch_offsets :: offsets
  sch_templates :: template_registry
  sch_phrasebank :: phrasebank
  sch_tz :: timezone

record due_item =
  di_row :: notification
  di_booking :: booking
  di_conversation :: conversation
  di_lead :: lead
  di_plan :: plan

definition is_open :: "notification \<Rightarrow> bool" where
  "is_open n = (sn_status n \<in> {notification_status.PENDING, notification_status.DEFERRED})"

text \<open>\<open>_load_open\<close>: an inner join, ordered by the due time.\<close>

definition join_row ::
    "store \<Rightarrow> notification \<Rightarrow> (notification \<times> booking \<times> conversation \<times> lead) option" where
  "join_row db n =
     (case (next_such (\<lambda>b. bk_id b = sn_booking n) (bookings db),
            find_conversation db (sn_conversation n),
            next_such (\<lambda>l. lead_id l = sn_lead n) (leads db)) of
        (Some b, Some c, Some l) \<Rightarrow> Some (n, b, c, l)
      | _ \<Rightarrow> None)"

definition load_open ::
    "store \<Rightarrow> uid \<Rightarrow> (notification \<times> booking \<times> conversation \<times> lead) list" where
  "load_open db tid =
     List.map_filter (join_row db)
       (sort_key sn_due_at (filter is_open (scoped sn_tenant tid (notifications db))))"

definition last_inbound_at :: "store \<Rightarrow> uid \<Rightarrow> instant option" where
  "last_inbound_at db cid =
     map_option msg_created_at
       (latest_by (\<lambda>a b. msg_seq a < msg_seq b)
         (filter (\<lambda>m. msg_conversation m = cid \<and> msg_direction m = INBOUND) (messages db)))"

definition decide_row ::
    "scheduler \<Rightarrow> store \<Rightarrow> instant \<Rightarrow> notification \<times> booking \<times> conversation \<times> lead \<Rightarrow> due_item" where
  "decide_row self db moment = (\<lambda>(n, b, c, l).
     \<lparr>di_row = n, di_booking = b, di_conversation = c, di_lead = l,
      di_plan = decide_notification (sn_kind n) moment (sn_due_at n) (last_inbound_at db (conv_id c))
        (sch_offsets self) (template_for (sch_templates self) (sn_kind n) (conv_locale c))
        (bk_status b = booking_status.CANCELLED)\<rparr>)"

definition pending :: "scheduler \<Rightarrow> instant \<Rightarrow> store \<Rightarrow> due_item list" where
  "pending self moment db = map (decide_row self db moment) (load_open db (sch_tenant self))"

definition due_items :: "scheduler \<Rightarrow> instant \<Rightarrow> store \<Rightarrow> due_item list" where
  "due_items self moment db =
     filter (\<lambda>d. pl_verdict (di_plan d) \<noteq> NOT_YET) (pending self moment db)"

subsection \<open>Words\<close>

definition local_time :: "instant option \<Rightarrow> timezone \<Rightarrow> string" where
  "local_time x tz = (case x of None \<Rightarrow> ''your booking time''
     | Some t \<Rightarrow>
         let w = to_wall tz t; h = show_int (hour_12 w); m = lower (meridiem w) in
         if minute_of w = 0 then h @ '' '' @ m else h @ ''.'' @ pad2 (minute_of w) @ '' '' @ m)"

text \<open>\<open>_local_day\<close> reads the wall clock itself.\<close>

definition local_day :: "instant option \<Rightarrow> timezone \<Rightarrow> instant \<Rightarrow> string" where
  "local_day x tz wall = (case x of None \<Rightarrow> ''soon''
     | Some t \<Rightarrow>
         let day = date_of (to_wall tz t); delta = day - date_of (to_wall tz wall) in
         if delta = 0 then ''today'' else if delta = 1 then ''tomorrow'' else long_date day)"

definition notice_variables :: "scheduler \<Rightarrow> instant \<Rightarrow> booking \<Rightarrow> (string \<times> string) list" where
  "notice_variables self wall b =
     [(''venue'', or_else (bk_venue b) ''your booking''),
      (''day'', local_day (bk_slot_start b) (sch_tz self) wall),
      (''time'', local_time (bk_slot_start b) (sch_tz self))]"

subsection \<open>Acting on a row\<close>

definition template_name :: "plan \<Rightarrow> string option" where
  "template_name p = map_option tp_name (pl_template p)"

definition item_audit :: "scheduler \<Rightarrow> string \<Rightarrow> uid \<Rightarrow> due_item \<Rightarrow> audit_trail" where
  "item_audit self corr turn d = bind_trail (Some (conv_id (di_conversation d)))
     (Some (lead_id (di_lead d)))
     \<lparr>trail_tenant_id = sch_tenant self, trail_correlation_id = corr, trail_turn_id = turn,
      trail_conversation_id = None, trail_lead_id = None\<rparr>"

definition note_attempt :: "instant \<Rightarrow> plan \<Rightarrow> notification \<Rightarrow> notification" where
  "note_attempt moment p n = n\<lparr>sn_attempts := Suc (sn_attempts n),
     sn_last_attempt_at := Some moment, sn_reason := Some (pl_reason p)\<rparr>"

definition sent_row :: "instant \<Rightarrow> uid \<Rightarrow> plan \<Rightarrow> notification \<Rightarrow> notification" where
  "sent_row moment mid p n = n\<lparr>sn_status := notification_status.SENT, sn_sent_at := Some moment,
     sn_message := Some mid, sn_template := template_name p\<rparr>"

definition accepted :: "instant \<Rightarrow> string \<Rightarrow> message \<Rightarrow> message" where
  "accepted moment pid m = m\<lparr>provider_message_id := Some pid, msg_status := message_status.SENT,
     msg_sent_at := Some moment\<rparr>"

definition send_item ::
    "scheduler \<Rightarrow> provider option \<Rightarrow> instant \<Rightarrow> instant \<Rightarrow> audit_trail \<Rightarrow> due_item \<Rightarrow> store
       \<Rightarrow> store option" where
  "send_item self bsp moment wall audit d db =
     (case render (sch_phrasebank self) (phrase_key_value (PHRASE_FOR (sn_kind (di_row d))))
             (Some (conv_locale (di_conversation d))) (notice_variables self wall (di_booking d)) of
        None \<Rightarrow> None
      | Some rm \<Rightarrow>
          let c = di_conversation d; l = di_lead d; p = di_plan d;
              (turn, db1) = new_id db;
              (m, db2) = record_outbound (sch_tenant self) (conv_id c) (lead_id l) turn
                 (conv_channel c) (rm_text rm) (rm_locale rm) (rm_key rm) db1;
              answer = (case bsp of None \<Rightarrow> Accepted None
                 | Some send \<Rightarrow> send (msg_id m) \<lparr>om_message = rm, om_conversation = conv_id c,
                     om_lead = lead_id l, om_channel = conv_channel c\<rparr>)
          in case answer of
               Send_Raised \<Rightarrow> None
             | Accepted pid \<Rightarrow>
                 let db3 = (if truthy pid
                            then update_message (msg_id m) (accepted moment (the pid)) db2 else db2);
                     db4 = update_notification (sn_id (di_row d)) (sent_row moment (msg_id m) p) db3
                 in Some (write_audit audit (Notification_Sent (rm_key rm) (rm_locale rm) (rm_text rm)
                      (sn_kind (di_row d)) (verdict_value (pl_verdict p)) (bk_id (di_booking d))
                      (template_name p)) db4))"

definition act_on ::
    "scheduler \<Rightarrow> provider option \<Rightarrow> instant \<Rightarrow> instant \<Rightarrow> string \<Rightarrow> due_item \<Rightarrow> store \<Rightarrow> store option"
  where
  "act_on self bsp moment wall corr d db =
     (let p = di_plan d; k = sn_kind (di_row d); nid = sn_id (di_row d);
          (turn, db0) = new_id db;
          audit = item_audit self corr turn d;
          db1 = update_notification nid (note_attempt moment p) db0
      in if verdict_is_terminal (pl_verdict p) then
           Some (write_audit audit (Notification_Skipped k (verdict_value (pl_verdict p)) (pl_reason p)
               (bk_id (di_booking d)))
             (update_notification nid (\<lambda>n. n\<lparr>sn_status := notification_status.SKIPPED\<rparr>) db1))
         else if \<not> verdict_sends (pl_verdict p) then
           Some (write_audit audit (Notification_Deferred k (verdict_value (pl_verdict p)) (pl_reason p)
               (bk_id (di_booking d)) (template_name p))
             (update_notification nid (\<lambda>n. n\<lparr>sn_status := notification_status.DEFERRED,
                 sn_template := template_name p\<rparr>) db1))
         else send_item self bsp moment wall audit d db1)"

fun act_on_all ::
    "scheduler \<Rightarrow> provider option \<Rightarrow> instant \<Rightarrow> instant \<Rightarrow> string \<Rightarrow> due_item list \<Rightarrow> store
       \<Rightarrow> store option" where
  "act_on_all self bsp moment wall corr [] db = Some db"
| "act_on_all self bsp moment wall corr (d # ds) db =
     (case act_on self bsp moment wall corr d db of
        None \<Rightarrow> None | Some db' \<Rightarrow> act_on_all self bsp moment wall corr ds db')"

text \<open>\<open>Scheduler.run\<close>: \<open>now\<close> is the time the caller passed, \<open>wall\<close> what the clock reads.\<close>

definition run_pass ::
    "scheduler \<Rightarrow> provider option \<Rightarrow> instant option \<Rightarrow> instant \<Rightarrow> string \<Rightarrow> store
       \<Rightarrow> (due_item list \<times> store) option" where
  "run_pass self bsp now wall corr db =
     (let moment = (case now of Some t \<Rightarrow> t | None \<Rightarrow> wall); ds = due_items self moment db
      in map_option (Pair ds) (act_on_all self bsp moment wall corr ds db))"

end
