(* ===== verification/Scheduler_Props.thy ===== *)
theory Scheduler_Props
  imports Scheduler Samples
begin

text \<open>
  The schedule is written once and each notification goes out once: scheduling again adds nothing,
  and a second pass at the same moment finds only what has to wait.
\<close>

subsection \<open>Scheduling\<close>

text \<open>A row of the schedule: pending, at the time its kind gives it.\<close>

definition scheduled_row :: "uid \<Rightarrow> booking \<Rightarrow> offsets \<Rightarrow> notification \<Rightarrow> bool" where
  "scheduled_row tid b f n = (sn_booking n = bk_id b \<and> sn_tenant n = tid
     \<and> sn_conversation n = bk_conversation b \<and> sn_lead n = bk_lead b
     \<and> sn_status n = notification_status.PENDING
     \<and> due_at (sn_kind n) (bk_slot_start b) (bk_slot_end b) f = Some (sn_due_at n))"

lemma schedule_kinds_rows:
  assumes "schedule_kinds tid b f existing ks db = (rows, db')" and "bk_slot_start b = Some start"
  shows "notifications db' = notifications db @ rows \<and> messages db' = messages db
     \<and> list_all (scheduled_row tid b f) rows
     \<and> map sn_kind rows = filter (\<lambda>k. k \<notin> set existing) ks"
  using assms
proof (induction ks arbitrary: db rows)
  case (Cons k ks)
  show ?case
  proof (cases "k \<in> set existing")
    case True
    with Cons show ?thesis by simp
  next
    case False
    obtain due where due: "due_at k (bk_slot_start b) (bk_slot_end b) f = Some due"
      using Cons.prems(2) by (simp add: due_at_Some)
    let ?row = "new_notification (next_id db) tid b k due"
    let ?db = "db\<lparr>next_id := Suc (next_id db), notifications := notifications db @ [?row]\<rparr>"
    obtain rest where rest: "schedule_kinds tid b f existing ks ?db = (rest, db')"
      and rows: "rows = ?row # rest"
      using Cons.prems(1) False due by (auto simp: new_id_def Let_def split_def prod_eq_iff)
    show ?thesis
      using Cons.IH [OF rest Cons.prems(2)] False due
      by (simp add: rows new_notification_def scheduled_row_def)
  qed
qed simp

definition offsets_or_default :: "offsets option \<Rightarrow> offsets" where
  "offsets_or_default f = (case f of Some x \<Rightarrow> x | None \<Rightarrow> default_offsets)"

lemma schedule_for_booking_rows:
  assumes "schedule_for_booking tid b f db = (rows, db')" and "bk_slot_start b = Some start"
  shows "notifications db' = notifications db @ rows" and "messages db' = messages db"
    and "list_all (scheduled_row tid b (offsets_or_default f)) rows"
    and "map sn_kind rows
      = filter (\<lambda>k. k \<notin> set (scheduled_kinds db (bk_id b))) all_notification_kind"
  using assms schedule_kinds_rows [of tid b "offsets_or_default f"
      "scheduled_kinds db (bk_id b)" all_notification_kind db rows db' start]
  by (simp_all add: schedule_for_booking_def offsets_or_default_def)

lemma scheduled_kinds_append:
  "notifications db' = notifications db @ rows \<Longrightarrow> list_all (scheduled_row tid b f) rows \<Longrightarrow>
   scheduled_kinds db' (bk_id b) = scheduled_kinds db (bk_id b) @ map sn_kind rows"
  by (simp add: scheduled_kinds_def filter_id_conv [THEN iffD2] list_all_iff scheduled_row_def)

lemma schedule_kinds_nothing: "set ks \<subseteq> set existing \<Longrightarrow> schedule_kinds tid b f existing ks db = ([], db)"
  by (induction ks) simp_all

text \<open>After scheduling, every kind has its row, so scheduling again writes nothing.\<close>

lemma schedule_covers:
  assumes "schedule_for_booking tid b f db = (rows, db')" and "bk_slot_start b = Some start"
  shows "set (scheduled_kinds db' (bk_id b)) = UNIV"
proof -
  have s: "scheduled_kinds db' (bk_id b) = scheduled_kinds db (bk_id b)
      @ filter (\<lambda>k. k \<notin> set (scheduled_kinds db (bk_id b))) all_notification_kind"
    using schedule_for_booking_rows [OF assms] scheduled_kinds_append by metis
  show ?thesis unfolding s set_append set_filter set_all_notification_kind by blast
qed

text \<open>C23. The schedule of a booking is written once. A booking with a start gets exactly the rows
  for the kinds it has none for, each pending at the time its kind gives; a booking without one
  gets none; and scheduling again, with whatever offsets, writes nothing.\<close>

theorem schedule_is_written_once:
  "case schedule_for_booking tid b f db of (rows, db') \<Rightarrow>
     notifications db' = notifications db @ rows
     \<and> map sn_kind rows = (if bk_slot_start b = None then []
          else filter (\<lambda>k. k \<notin> set (scheduled_kinds db (bk_id b))) all_notification_kind)
     \<and> list_all (scheduled_row tid b (offsets_or_default f)) rows
     \<and> schedule_for_booking tid b g db' = ([], db')"
proof (cases "bk_slot_start b")
  case None
  then show ?thesis by (simp add: schedule_for_booking_def)
next
  case (Some start)
  obtain rows db' where s: "schedule_for_booking tid b f db = (rows, db')" by fastforce
  have "schedule_for_booking tid b g db' = ([], db')"
    using schedule_covers [OF s Some] Some by (simp add: schedule_for_booking_def schedule_kinds_nothing)
  with schedule_for_booking_rows [OF s Some] Some s show ?thesis by simp
qed

subsection \<open>What a pass changes\<close>

text \<open>The session window reads only what a pass leaves alone.\<close>

definition spoken :: "message \<Rightarrow> uid \<times> direction \<times> nat \<times> instant" where
  "spoken m = (msg_conversation m, msg_direction m, msg_seq m, msg_created_at m)"

definition inbound_log :: "store \<Rightarrow> (uid \<times> direction \<times> nat \<times> instant) list" where
  "inbound_log db = filter (\<lambda>(c, d, n, t). d = INBOUND) (map spoken (messages db))"

lemma latest_by_map: "latest_by (\<lambda>a b. g a < g b) (map f xs)
    = map_option f (latest_by (\<lambda>a b. g (f a) < g (f b)) xs)"
  by (induction xs) (auto split: option.splits)

lemma last_inbound_log: "last_inbound_at db cid = map_option (\<lambda>(c, d, n, t). t)
    (latest_by (\<lambda>a b. fst (snd (snd a)) < fst (snd (snd b)))
      (filter (\<lambda>(c, d, n, t). c = cid) (inbound_log db)))"
proof -
  have "filter (\<lambda>(c, d, n, t). c = cid) (inbound_log db) = map spoken
      (filter (\<lambda>m. msg_conversation m = cid \<and> msg_direction m = INBOUND) (messages db))"
    by (simp add: inbound_log_def filter_map o_def spoken_def conj_commute)
  then show ?thesis
    by (simp add: last_inbound_at_def latest_by_map spoken_def option.map_comp o_def)
qed

definition acted_status :: "verdict \<Rightarrow> notification_status" where
  "acted_status v = (if verdict_is_terminal v then notification_status.SKIPPED
     else if verdict_sends v then notification_status.SENT else notification_status.DEFERRED)"

text \<open>The columns the decision depends on.\<close>

definition essence :: "notification \<Rightarrow> uid \<times> uid \<times> uid \<times> uid \<times> uid \<times> notification_kind \<times> instant" where
  "essence n = (sn_id n, sn_tenant n, sn_booking n, sn_conversation n, sn_lead n, sn_kind n,
     sn_due_at n)"

definition same_world :: "store \<Rightarrow> store \<Rightarrow> bool" where
  "same_world db db' \<longleftrightarrow> bookings db' = bookings db \<and> conversations db' = conversations db
     \<and> leads db' = leads db \<and> inbound_log db' = inbound_log db"

lemma update_where_twice:
  "(\<And>x. p (f x) = p x) \<Longrightarrow> update_where p g (update_where p f xs) = update_where p (g \<circ> f) xs"
  by (simp add: update_where_def)

lemma spoken_accepted: "map spoken (update_where p (accepted moment pid) msgs) = map spoken msgs"
  by (simp add: update_where_def spoken_def accepted_def)

lemma send_item_effect:
  assumes "send_item self bsp moment wall audit d db = Some db'"
  shows "same_world db db'"
    and "length (messages db') = Suc (length (messages db))"
    and "\<exists>mid. notifications db' = update_where (\<lambda>n. sn_id n = sn_id (di_row d))
           (sent_row moment mid (di_plan d)) (notifications db)"
  using assms
  by (auto simp: send_item_def record_outbound_def add_message_def store_simps Let_def same_world_def
        inbound_log_def spoken_accepted spoken_def
      split: option.splits send_answer.splits if_splits)

lemma act_on_effect:
  assumes "act_on self bsp moment wall corr d db = Some db'"
  shows "same_world db db'"
    and "length (messages db') = length (messages db)
           + (if verdict_sends (pl_verdict (di_plan d)) then 1 else 0)"
    and "\<not> verdict_sends (pl_verdict (di_plan d)) \<longrightarrow> messages db' = messages db"
    and "\<exists>f. notifications db' = update_where (\<lambda>n. sn_id n = sn_id (di_row d)) f (notifications db)
           \<and> (\<forall>n. essence (f n) = essence n
                \<and> sn_status (f n) = acted_status (pl_verdict (di_plan d)))"
proof -
  let ?v = "pl_verdict (di_plan d)"
  let ?p = "\<lambda>n. sn_id n = sn_id (di_row d)"
  let ?note = "note_attempt moment (di_plan d)"
  let ?db0 = "update_notification (sn_id (di_row d)) ?note (snd (new_id db))"
  have kept: "?p (?note n) = ?p n" for n by (simp add: note_attempt_def)
  consider (terminal) "verdict_is_terminal ?v" | (held) "\<not> verdict_is_terminal ?v" "\<not> verdict_sends ?v"
    | (sends) "\<not> verdict_is_terminal ?v" "verdict_sends ?v" by blast
  then have "same_world db db' \<and> length (messages db') = length (messages db)
           + (if verdict_sends ?v then 1 else 0)
      \<and> (\<not> verdict_sends ?v \<longrightarrow> messages db' = messages db)
      \<and> (\<exists>f. notifications db' = update_where ?p f (notifications db)
           \<and> (\<forall>n. essence (f n) = essence n \<and> sn_status (f n) = acted_status ?v))"
  proof cases
    case terminal
    let ?f = "(\<lambda>n. n\<lparr>sn_status := notification_status.SKIPPED\<rparr>) \<circ> ?note"
    have "notifications db' = update_where ?p ?f (notifications db)" "same_world db db'"
      "messages db' = messages db"
      using assms terminal
      by (auto simp: act_on_def Let_def store_simps same_world_def inbound_log_def
          update_where_twice kept)
    moreover have "\<not> verdict_sends ?v" using terminal verdict_splits(1) by blast
    ultimately show ?thesis using terminal
      by (auto simp: essence_def note_attempt_def acted_status_def intro!: exI [of _ ?f])
  next
    case held
    let ?f = "(\<lambda>n. n\<lparr>sn_status := notification_status.DEFERRED,
        sn_template := template_name (di_plan d)\<rparr>) \<circ> ?note"
    have "notifications db' = update_where ?p ?f (notifications db)" "same_world db db'"
      "messages db' = messages db"
      using assms held
      by (auto simp: act_on_def Let_def store_simps same_world_def inbound_log_def
          update_where_twice kept)
    with held show ?thesis
      by (auto simp: essence_def note_attempt_def acted_status_def intro!: exI [of _ ?f])
  next
    case sends
    obtain audit where s: "send_item self bsp moment wall audit d ?db0 = Some db'"
      using assms sends by (auto simp: act_on_def Let_def split_def)
    obtain mid where rows: "notifications db' = update_where ?p (sent_row moment mid (di_plan d))
        (notifications ?db0)" using send_item_effect(3) [OF s] by blast
    have "notifications db' = update_where ?p (sent_row moment mid (di_plan d) \<circ> ?note)
        (notifications db)"
      unfolding rows by (simp add: store_simps update_where_twice kept)
    moreover have "same_world db db'" "length (messages db') = Suc (length (messages db))"
      using send_item_effect(1,2) [OF s] by (simp_all add: same_world_def store_simps inbound_log_def)
    ultimately show ?thesis using sends
      by (auto simp: essence_def note_attempt_def sent_row_def acted_status_def
          intro!: exI [of _ "sent_row moment mid (di_plan d) \<circ> ?note"])
  qed
  then show "same_world db db'"
    "length (messages db') = length (messages db) + (if verdict_sends ?v then 1 else 0)"
    "\<not> verdict_sends ?v \<longrightarrow> messages db' = messages db"
    "\<exists>f. notifications db' = update_where ?p f (notifications db)
           \<and> (\<forall>n. essence (f n) = essence n \<and> sn_status (f n) = acted_status ?v)"
    by blast+
qed

definition row_ids :: "due_item list \<Rightarrow> uid set" where
  "row_ids ds = (\<lambda>d. sn_id (di_row d)) ` set ds"

definition sends_item :: "due_item \<Rightarrow> bool" where
  "sends_item d = verdict_sends (pl_verdict (di_plan d))"

text \<open>Where a row of the store after a pass comes from.\<close>

definition comes_from :: "due_item list \<Rightarrow> store \<Rightarrow> notification \<Rightarrow> bool" where
  "comes_from ds db n' \<longleftrightarrow> (\<exists>n\<in>set (notifications db). essence n' = essence n
     \<and> (if sn_id n \<in> row_ids ds
         then \<exists>d\<in>set ds. sn_id (di_row d) = sn_id n
                \<and> sn_status n' = acted_status (pl_verdict (di_plan d))
         else n' = n))"

lemma essence_id: "essence a = essence b \<Longrightarrow> sn_id a = sn_id b"
  by (simp add: essence_def)

lemma act_on_comes_from:
  assumes "act_on self bsp moment wall corr d db = Some db1" and "comes_from ds db1 n'"
  shows "comes_from (d # ds) db n'"
proof -
  obtain f where f: "notifications db1 = update_where (\<lambda>n. sn_id n = sn_id (di_row d)) f (notifications db)"
    "\<And>n. essence (f n) = essence n" "\<And>n. sn_status (f n) = acted_status (pl_verdict (di_plan d))"
    using act_on_effect(4) [OF assms(1)] by blast
  obtain m where m: "m \<in> set (notifications db1)" "essence n' = essence m"
    "if sn_id m \<in> row_ids ds then \<exists>d\<in>set ds. sn_id (di_row d) = sn_id m
        \<and> sn_status n' = acted_status (pl_verdict (di_plan d)) else n' = m"
    using assms(2) unfolding comes_from_def by blast
  obtain n where n: "n \<in> set (notifications db)" "m = (if sn_id n = sn_id (di_row d) then f n else n)"
    using m(1) unfolding f(1) set_update_where by blast
  have "essence m = essence n" using n(2) f(2) by simp
  then have "sn_id m = sn_id n" by (rule essence_id)
  have "essence n' = essence n" using m(2) \<open>essence m = essence n\<close> by (rule trans)
  have "if sn_id n \<in> row_ids (d # ds)
      then \<exists>x\<in>set (d # ds). sn_id (di_row x) = sn_id n
             \<and> sn_status n' = acted_status (pl_verdict (di_plan x))
      else n' = n"
  proof (cases "sn_id n \<in> row_ids ds")
    case True
    then have "sn_id n \<in> row_ids (d # ds)" by (simp add: row_ids_def)
    with True m(3) \<open>sn_id m = sn_id n\<close> show ?thesis by auto
  next
    case False
    then have eq: "n' = m" using m(3) \<open>sn_id m = sn_id n\<close> by simp
    show ?thesis
    proof (cases "sn_id n = sn_id (di_row d)")
      case True
      then have "sn_status n' = acted_status (pl_verdict (di_plan d))" using eq n(2) f(3) by simp
      with True show ?thesis by (simp add: row_ids_def)
    next
      case other: False
      then have "sn_id n \<notin> row_ids (d # ds)" using False by (simp add: row_ids_def)
      with other eq n(2) show ?thesis by simp
    qed
  qed
  with n(1) \<open>essence n' = essence n\<close> show ?thesis unfolding comes_from_def by blast
qed

lemma act_on_all_effect:
  assumes "act_on_all self bsp moment wall corr ds db = Some db'"
  shows "same_world db db'
    \<and> length (messages db') = length (messages db) + length (filter sends_item ds)
    \<and> (\<forall>n'\<in>set (notifications db'). comes_from ds db n')"
  using assms
proof (induction ds arbitrary: db)
  case Nil
  then show ?case by (auto simp: same_world_def comes_from_def row_ids_def)
next
  case (Cons d ds)
  obtain db1 where d: "act_on self bsp moment wall corr d db = Some db1"
    and ds: "act_on_all self bsp moment wall corr ds db1 = Some db'"
    using Cons.prems by (auto split: option.splits)
  have "same_world db db'"
    using Cons.IH [OF ds] act_on_effect(1) [OF d] by (simp add: same_world_def)
  moreover have "length (messages db') = length (messages db) + length (filter sends_item (d # ds))"
    using Cons.IH [OF ds] act_on_effect(2) [OF d] by (simp add: sends_item_def [of d])
  moreover have "\<forall>n'\<in>set (notifications db'). comes_from (d # ds) db n'"
    using Cons.IH [OF ds] act_on_comes_from [OF d] by blast
  ultimately show ?case by blast
qed

lemma act_on_held: "\<not> sends_item d \<Longrightarrow>
    \<exists>db'. act_on self bsp moment wall corr d db = Some db' \<and> messages db' = messages db"
  using act_on_effect(3) [of self bsp moment wall corr d db]
  by (cases "act_on self bsp moment wall corr d db")
     (auto simp: sends_item_def act_on_def Let_def split_def split: if_splits)

lemma act_on_all_held: "list_all (\<lambda>d. \<not> sends_item d) ds \<Longrightarrow>
    \<exists>db'. act_on_all self bsp moment wall corr ds db = Some db' \<and> messages db' = messages db"
proof (induction ds arbitrary: db)
  case (Cons d ds)
  then obtain db1 where "act_on self bsp moment wall corr d db = Some db1" "messages db1 = messages db"
    using act_on_held [of d self bsp moment wall corr db] by auto
  moreover obtain db' where "act_on_all self bsp moment wall corr ds db1 = Some db'"
    "messages db' = messages db1"
    using Cons by auto
  ultimately show ?case by simp
qed simp

subsection \<open>Two passes\<close>

lemma in_map_filter: "y \<in> set (List.map_filter f xs) \<longleftrightarrow> (\<exists>x\<in>set xs. f x = Some y)"
  by (force simp: map_filter_def)

lemma join_row_fst: "join_row db n = Some r \<Longrightarrow> fst r = n"
  by (auto simp: join_row_def split: option.splits)

lemma due_items_in:
  "d \<in> set (due_items self moment db) \<longleftrightarrow>
     (\<exists>n b c l. n \<in> set (notifications db) \<and> sn_tenant n = sch_tenant self \<and> is_open n
        \<and> join_row db n = Some (n, b, c, l) \<and> d = decide_row self db moment (n, b, c, l)
        \<and> pl_verdict (di_plan d) \<noteq> NOT_YET)"
proof -
  have "d \<in> set (due_items self moment db) \<longleftrightarrow>
     (\<exists>n r. n \<in> set (notifications db) \<and> sn_tenant n = sch_tenant self \<and> is_open n
        \<and> join_row db n = Some r \<and> d = decide_row self db moment r
        \<and> pl_verdict (di_plan d) \<noteq> NOT_YET)"
    unfolding due_items_def pending_def load_open_def set_filter set_map in_map_filter set_sort
      scoped_iff mem_Collect_eq image_iff Bex_def by auto blast
  also have "\<dots> \<longleftrightarrow> (\<exists>n b c l. n \<in> set (notifications db) \<and> sn_tenant n = sch_tenant self \<and> is_open n
        \<and> join_row db n = Some (n, b, c, l) \<and> d = decide_row self db moment (n, b, c, l)
        \<and> pl_verdict (di_plan d) \<noteq> NOT_YET)" (is "(\<exists>n r. ?P n r) \<longleftrightarrow> (\<exists>n b c l. ?Q n b c l)")
  proof
    assume "\<exists>n r. ?P n r"
    then obtain n r where p: "?P n r" by blast
    obtain b c l where r: "r = (n, b, c, l)" using p join_row_fst by (cases r) fastforce
    have "?Q n b c l" using p unfolding r by blast
    then show "\<exists>n b c l. ?Q n b c l" by blast
  next
    assume "\<exists>n b c l. ?Q n b c l"
    then show "\<exists>n r. ?P n r" by blast
  qed
  finally show ?thesis .
qed

lemma decide_row_cong:
  assumes "same_world db db'" and "essence n' = essence n"
  shows "pl_verdict (di_plan (decide_row self db' moment (n', b, c, l)))
    = pl_verdict (di_plan (decide_row self db moment (n, b, c, l)))"
  using assms by (simp add: decide_row_def last_inbound_log same_world_def essence_def)

lemma join_row_cong:
  assumes "same_world db db'" and "essence n' = essence n"
  shows "join_row db' n' = map_option (\<lambda>(_, b, c, l). (n', b, c, l)) (join_row db n)"
  using assms
  by (auto simp: join_row_def same_world_def essence_def find_conversation_def split: option.splits)

lemma second_pass_holds:
  assumes ids: "distinct (map sn_id (notifications db))"
    and run: "act_on_all self bsp moment wall corr (due_items self moment db) db = Some db'"
    and d': "d' \<in> set (due_items self moment db')"
  shows "pl_verdict (di_plan d') = DEFERRED_NO_TEMPLATE"
proof -
  let ?ds = "due_items self moment db"
  obtain n' b c l where n': "n' \<in> set (notifications db')" "sn_tenant n' = sch_tenant self" "is_open n'"
    "join_row db' n' = Some (n', b, c, l)" "d' = decide_row self db' moment (n', b, c, l)"
    "pl_verdict (di_plan d') \<noteq> NOT_YET"
    using d' unfolding due_items_in by blast
  have world: "same_world db db'" and "comes_from ?ds db n'"
    using act_on_all_effect [OF run] n'(1) by blast+
  then obtain n where n: "n \<in> set (notifications db)" "essence n' = essence n"
    "if sn_id n \<in> row_ids ?ds then \<exists>d\<in>set ?ds. sn_id (di_row d) = sn_id n
       \<and> sn_status n' = acted_status (pl_verdict (di_plan d)) else n' = n"
    unfolding comes_from_def by blast
  let ?d = "decide_row self db moment (n, b, c, l)"
  have v: "pl_verdict (di_plan d') = pl_verdict (di_plan ?d)"
    using decide_row_cong [OF world n(2)] n'(5) by simp
  have join: "join_row db n = Some (n, b, c, l)"
    using n'(4) join_row_cong [OF world n(2)] by (auto simp: join_row_def split: option.splits)
  show ?thesis
  proof (cases "sn_id n \<in> row_ids ?ds")
    case True
    then obtain d where d: "d \<in> set ?ds" "sn_id (di_row d) = sn_id n"
      "sn_status n' = acted_status (pl_verdict (di_plan d))" using n(3) by auto
    obtain m b2 c2 l2 where m: "m \<in> set (notifications db)" "join_row db m = Some (m, b2, c2, l2)"
      "d = decide_row self db moment (m, b2, c2, l2)"
      using d(1) unfolding due_items_in by blast
    have "m = n"
      using ids m(1) n(1) d(2) by (auto simp: m(3) decide_row_def distinct_map dest: inj_onD)
    with m join have "d = ?d" by simp
    then show ?thesis
      using d(3) n'(3,6) v
      by (cases "pl_verdict (di_plan ?d)")
         (auto simp: is_open_def acted_status_def verdict_is_terminal_def verdict_sends_def)
  next
    case False
    have "n' = n" using n(3) False by simp
    then have "?d \<in> set ?ds" using n'(2,3,6) n(1) join v unfolding due_items_in by auto
    then have "sn_id n \<in> row_ids ?ds" by (force simp: row_ids_def decide_row_def)
    with False show ?thesis by simp
  qed
qed

text \<open>C22. One consumer is not reminded twice. A pass writes a message for each item it sends and for
  nothing else; and a second pass at the same moment, by any provider, sends nothing at all: it
  finds only what the first one had to hold back, and it always completes.\<close>

theorem second_pass_sends_nothing:
  assumes "distinct (map sn_id (notifications db))"
    and "run_pass self bsp now wall corr db = Some (acted, db')"
  shows "length (messages db') = length (messages db) + length (filter sends_item acted)
    \<and> (case run_pass self bsp' (Some (case now of Some t \<Rightarrow> t | None \<Rightarrow> wall)) wall' corr' db' of
           None \<Rightarrow> False
         | Some (acted', db'') \<Rightarrow> messages db'' = messages db'
             \<and> list_all (\<lambda>d. pl_verdict (di_plan d) = DEFERRED_NO_TEMPLATE) acted')"
proof (intro conjI)
  let ?moment = "case now of Some t \<Rightarrow> t | None \<Rightarrow> wall"
  have acted: "acted = due_items self ?moment db"
    and run: "act_on_all self bsp ?moment wall corr (due_items self ?moment db) db = Some db'"
    using assms(2) by (auto simp: run_pass_def Let_def)
  show "length (messages db') = length (messages db) + length (filter sends_item acted)"
    using act_on_all_effect [OF run] acted by blast
  have held: "list_all (\<lambda>d. pl_verdict (di_plan d) = DEFERRED_NO_TEMPLATE)
      (due_items self ?moment db')"
    using second_pass_holds [OF assms(1) run] by (simp add: list_all_iff)
  then have "list_all (\<lambda>d. \<not> sends_item d) (due_items self ?moment db')"
    by (auto simp: list_all_iff sends_item_def verdict_sends_def)
  from act_on_all_held [OF this, of self bsp' ?moment wall' corr' db'] held
  show "case run_pass self bsp' (Some ?moment) wall' corr' db' of
      None \<Rightarrow> False
    | Some (acted', db'') \<Rightarrow> messages db'' = messages db'
        \<and> list_all (\<lambda>d. pl_verdict (di_plan d) = DEFERRED_NO_TEMPLATE) acted'"
    by (auto simp: run_pass_def Let_def)
qed

definition sample_conversation :: conversation where
  "sample_conversation = new_conversation 1 7 2 WHATSAPP ''en'' 0"

definition sample_booking :: booking where
  "sample_booking = \<lparr>bk_id = 3, bk_tenant = 7, bk_conversation = 1, bk_lead = 2,
     bk_category = category.SALON, bk_platform = ''p'', bk_external_ref = None, bk_key = (1, ''x''),
     bk_status = booking_status.CONFIRMED, bk_slot_start = Some (hours 2), bk_slot_end = None,
     bk_venue = Some ''Salon'', bk_price = None, bk_currency = None,
     bk_payment = PAY_AT_VENUE, bk_confirmed_at = None, bk_created_at = 0\<rparr>"

definition sample_notified :: store where
  "sample_notified = (empty_store 0)\<lparr>conversations := [sample_conversation],
     leads := [new_lead 2 7 ''971'' ''en'' 0], bookings := [sample_booking],
     notifications := [new_notification 4 7 sample_booking REMINDER_2H 0], next_id := 5\<rparr>"

definition sample_bank :: phrasebank where
  "sample_bank = \<lparr>locales = [(''en'', \<lparr>locale_name = ''en'', policy_version = ''1'',
     phrases = [(''notify.reminder_2h'', ''Soon: $venue'')]\<rparr>)], fallback_locale = ''en''\<rparr>"

definition sample_template :: template where
  "sample_template = \<lparr>tp_name = ''r'', tp_phrasebank_key = ''notify.reminder_2h'', tp_locale = ''en'',
     tp_status = APPROVED, tp_variables = []\<rparr>"

definition sample_scheduler :: scheduler where
  "sample_scheduler = \<lparr>sch_tenant = 7, sch_offsets = default_offsets,
     sch_templates = (\<lambda>k. if k = (''reminder_2h'', ''en'') then Some sample_template else None),
     sch_phrasebank = sample_bank, sch_tz = dubai\<rparr>"

lemma sample_pass: "case run_pass sample_scheduler None (Some 0) 0 ''c'' sample_notified of
    None \<Rightarrow> False | Some (ds, db') \<Rightarrow> map sends_item ds = [True]"
  by code_simp

theorem second_pass_sends_nothing_witness:
  "\<exists>acted db'. run_pass sample_scheduler None (Some 0) 0 ''c'' sample_notified = Some (acted, db')
     \<and> length (messages db') = 1
     \<and> (case run_pass sample_scheduler None (Some 0) 5 ''d'' db' of
          None \<Rightarrow> False | Some (acted', db'') \<Rightarrow> messages db'' = messages db')"
proof -
  obtain acted db' where r: "run_pass sample_scheduler None (Some 0) 0 ''c'' sample_notified
      = Some (acted, db')" and s: "map sends_item acted = [True]"
    using sample_pass by (auto split: option.splits)
  have ids: "distinct (map sn_id (notifications sample_notified))"
    by (simp add: sample_notified_def)
  have n: "length (messages sample_notified) = 0" by (simp add: sample_notified_def empty_store_def)
  from s have "length (filter sends_item acted) = 1" by (cases acted) auto
  with second_pass_sends_nothing [OF ids r, of None 5 "''d''"] r n show ?thesis
    by (auto split: option.splits)
qed

end
