(* ===== verification/Understanding.thy ===== *)
theory Understanding
  imports States
begin

text \<open>
  Understanding one message, \<^verbatim>\<open>mawjood/core/conversation/nlu.py\<close>. The language model is a
  parameter: for the turns it is shown it answers with an object, with something that is not an
  object, or it raises. Whatever it does, the reading is one the state machine can use.
\<close>

datatype turn_role = User | Assistant

type_synonym turn = "turn_role \<times> string"

datatype llm_answer = Llm_Object raw_response | Llm_Other | Llm_Raised

type_synonym llm = "turn list \<Rightarrow> llm_answer"

definition HISTORY_TURNS :: nat where
  "HISTORY_TURNS = 6"

text \<open>\<open>xs[-n:]\<close>\<close>

definition last_n :: "nat \<Rightarrow> 'a list \<Rightarrow> 'a list" where
  "last_n n xs = drop (length xs - n) xs"

definition understand :: "llm \<Rightarrow> string \<Rightarrow> turn list \<Rightarrow> understanding" where
  "understand extract msg hist =
     (case extract (last_n HISTORY_TURNS hist @ [(User, msg)]) of
        Llm_Object d \<Rightarrow> (case understanding_of d of Some u \<Rightarrow> u | None \<Rightarrow> understood_nothing)
      | Llm_Other \<Rightarrow> understood_nothing
      | Llm_Raised \<Rightarrow> understood_nothing)"

lemma length_last_n [simp]: "length (last_n n xs) = min n (length xs)"
  by (simp add: last_n_def)

lemma understand_failed [simp]:
  "understand (\<lambda>_. Llm_Raised) msg hist = understood_nothing"
  "understand (\<lambda>_. Llm_Other) msg hist = understood_nothing"
  by (simp_all add: understand_def)

end
