(* ===== verification/Attribution.thy ===== *)
theory Attribution
  imports Repositories
begin

text \<open>
  Where a consumer came from, \<^verbatim>\<open>mawjood/core/attribution/__init__.py\<close>.

  \<open>SOURCE_PATTERN\<close> is a run of letters and digits between two word boundaries, so a match is a
  whole word of the text: the search goes from word to word. Letters are ASCII; a byte of any
  other character counts as part of a word.
\<close>

definition is_alnum :: "char \<Rightarrow> bool" where
  "is_alnum c = (is_alpha c \<or> is_digit c)"

definition source_word :: "string \<Rightarrow> bool" where
  "source_word w = (lower (take 3 w) = ''src'' \<and> 5 \<le> length w \<and> length w \<le> 19
     \<and> list_all is_alnum (drop 3 w))"

function find_source :: "string \<Rightarrow> string option" where
  "find_source s =
     (let w = takeWhile is_word s in
      if source_word w then Some w
      else case dropWhile is_word s of [] \<Rightarrow> None | c # cs \<Rightarrow> find_source cs)"
  by pat_completeness auto
termination
proof (relation "measure length", simp)
  fix s :: string and w c cs
  assume "dropWhile is_word s = c # cs"
  then have "length (c # cs) \<le> length s" by (metis length_dropWhile_le)
  then show "(cs, s) \<in> measure length" by simp
qed

function remove_sources :: "string \<Rightarrow> string" where
  "remove_sources s =
     (let w = takeWhile is_word s in
      (if source_word w then [] else w) @
      (case dropWhile is_word s of [] \<Rightarrow> [] | c # cs \<Rightarrow> c # remove_sources cs))"
  by pat_completeness auto
termination
proof (relation "measure length", simp)
  fix s :: string and w c cs
  assume "dropWhile is_word s = c # cs"
  then have "length (c # cs) \<le> length s" by (metis length_dropWhile_le)
  then show "(cs, s) \<in> measure length" by simp
qed

declare find_source.simps [simp del] remove_sources.simps [simp del]

definition parse_source_code :: "string \<Rightarrow> string option" where
  "parse_source_code s = map_option (\<lambda>w. ''SRC'' @ upper (drop 3 w)) (find_source s)"

definition strip_source_code :: "string \<Rightarrow> string" where
  "strip_source_code s = strip (remove_sources s)"

definition medium_for :: "string \<Rightarrow> attribution_medium" where
  "medium_for s = (if strip_source_code s = [] then QR else WA_LINK)"

definition build_wa_link :: "string \<Rightarrow> string \<Rightarrow> string" where
  "build_wa_link phone code =
     ''https://wa.me/'' @ filter is_digit phone @ ''?text='' @ code"

definition capture_attribution ::
    "uid \<Rightarrow> uid \<Rightarrow> uid \<Rightarrow> string \<Rightarrow> string \<Rightarrow> audit_trail \<Rightarrow> store \<Rightarrow> store" where
  "capture_attribution tid lid cid code payload audit db =
     (let first = filter (\<lambda>a. at_lead a = lid) (scoped at_tenant tid (attributions db)) = [];
          (i, db1) = new_id db;
          db2 = db1\<lparr>attributions := attributions db1 @ [\<lparr>at_id = i, at_tenant = tid, at_lead = lid,
             at_conversation = Some cid, at_source_code = code, at_medium = medium_for payload,
             at_first_touch = first, at_raw_payload = take 500 payload\<rparr>]\<rparr>
      in write_audit audit (Attribution_Captured code (medium_for payload) first) db2)"

subsection \<open>Words\<close>

lemma not_source_empty [simp]: "\<not> source_word []"
  by (simp add: source_word_def)

lemma find_source_Nil [simp]: "find_source [] = None"
  by (simp add: find_source.simps)

lemma takeWhile_word: "list_all is_word w \<Longrightarrow> \<not> is_word c \<Longrightarrow> takeWhile is_word (w @ c # cs) = w"
  by (induction w) auto

lemma dropWhile_word: "list_all is_word w \<Longrightarrow> \<not> is_word c \<Longrightarrow> dropWhile is_word (w @ c # cs) = c # cs"
  by (induction w) auto

lemma find_source_at_word:
  "list_all is_word w \<Longrightarrow> \<not> is_word c \<Longrightarrow>
   find_source (w @ c # cs) = (if source_word w then Some w else find_source cs)"
  by (subst find_source.simps) (simp add: takeWhile_word dropWhile_word)

lemma find_source_word: "list_all is_word w \<Longrightarrow>
    find_source w = (if source_word w then Some w else None)"
  by (subst find_source.simps) (simp add: list_all_iff takeWhile_eq_all_conv [THEN iffD2]
      dropWhile_eq_Nil_conv [THEN iffD2])

lemma word_split: obtains (word) w where "s = w" "list_all is_word w"
  | (more) w c cs where "s = w @ c # cs" "list_all is_word w" "\<not> is_word c"
proof (cases "dropWhile is_word s")
  case Nil
  then show ?thesis using word by (auto simp: dropWhile_eq_Nil_conv list_all_iff)
next
  case (Cons c cs)
  have "s = takeWhile is_word s @ c # cs" using Cons by (metis takeWhile_dropWhile_id)
  moreover have "list_all is_word (takeWhile is_word s)" by (auto simp: list_all_iff dest: set_takeWhileD)
  moreover have "\<not> is_word c" using Cons by (metis hd_dropWhile list.distinct(1) list.sel(1))
  ultimately show ?thesis using more by blast
qed

lemma remove_sources_at_word:
  "list_all is_word w \<Longrightarrow> \<not> is_word c \<Longrightarrow>
   remove_sources (w @ c # cs) = (if source_word w then [] else w) @ c # remove_sources cs"
  by (subst remove_sources.simps) (simp add: takeWhile_word dropWhile_word)

lemma remove_sources_word: "list_all is_word w \<Longrightarrow>
    remove_sources w = (if source_word w then [] else w)"
  by (subst remove_sources.simps) (simp add: list_all_iff takeWhile_eq_all_conv [THEN iffD2]
      dropWhile_eq_Nil_conv [THEN iffD2])

lemma find_source_removed: "find_source (remove_sources s) = None"
proof (induction s rule: length_induct)
  case (1 s)
  show ?case
  proof (cases rule: word_split [of s])
    case (word w)
    then show ?thesis by (simp add: remove_sources_word find_source_word)
  next
    case (more w c cs)
    then have "find_source (remove_sources cs) = None" using 1 by simp
    with more find_source_at_word [of "[]" c] show ?thesis
      by (simp add: remove_sources_at_word find_source_at_word)
  qed
qed

text \<open>White space at either end is no part of a word.\<close>

lemma space_not_word: "is_space c \<Longrightarrow> \<not> is_word c"
  by (auto simp: is_space_def is_word_def is_digit_def is_alpha_def Let_def)

lemma find_source_space: "is_space c \<Longrightarrow> find_source (c # cs) = find_source cs"
  using find_source_at_word [of "[]" c cs] by (simp add: space_not_word)

lemma find_source_trailing: "is_space c \<Longrightarrow> find_source (s @ [c]) = find_source s"
proof (induction s rule: length_induct)
  case (1 s)
  show ?case
  proof (cases rule: word_split [of s])
    case (word w)
    with 1 show ?thesis by (simp add: find_source_word find_source_at_word space_not_word)
  next
    case (more w d ds)
    then have "find_source (ds @ [c]) = find_source ds" using 1 by simp
    with more find_source_at_word [of w d "ds @ [c]"] show ?thesis
      by (simp add: find_source_at_word)
  qed
qed

lemma find_source_strip: "find_source (strip s) = find_source s"
proof -
  have left: "find_source (dropWhile is_space s) = find_source s" for s
    by (induction s) (auto simp: find_source_space)
  have "find_source (rev (dropWhile is_space t)) = find_source (rev t)" for t
    by (induction t) (auto simp: find_source_trailing)
  from this [of "rev (dropWhile is_space s)"] show ?thesis
    by (simp add: strip_def rstrip_def lstrip_def left)
qed

text \<open>What is left of a message carries no code, so stripping is bookkeeping done once.\<close>

lemma stripped_has_no_source: "parse_source_code (strip_source_code s) = None"
  by (simp add: parse_source_code_def strip_source_code_def find_source_strip find_source_removed)

text \<open>A message without a code reaches the engine as it is, trimmed.\<close>

lemma remove_sources_none: "find_source s = None \<Longrightarrow> remove_sources s = s"
proof (induction s rule: length_induct)
  case (1 s)
  show ?case
  proof (cases rule: word_split [of s])
    case (word w)
    with 1 show ?thesis by (simp add: remove_sources_word find_source_word split: if_splits)
  next
    case (more w c cs)
    with 1 show ?thesis
      by (simp add: remove_sources_at_word find_source_at_word split: if_splits)
  qed
qed

lemma no_source_no_change: "parse_source_code s = None \<Longrightarrow> strip_source_code s = strip s"
  by (simp add: parse_source_code_def strip_source_code_def remove_sources_none)

subsection \<open>First touch\<close>

definition touches :: "store \<Rightarrow> uid \<Rightarrow> uid \<Rightarrow> attribution list" where
  "touches db tid lid = filter (\<lambda>a. at_lead a = lid) (scoped at_tenant tid (attributions db))"

text \<open>The first touch of a lead is its first attribution and no other.\<close>

definition first_touch_once :: "store \<Rightarrow> bool" where
  "first_touch_once db \<longleftrightarrow> (\<forall>tid lid. case touches db tid lid of
     [] \<Rightarrow> True | a # rest \<Rightarrow> at_first_touch a \<and> list_all (\<lambda>b. \<not> at_first_touch b) rest)"

lemma touches_capture:
  "touches (capture_attribution tid lid cid code payload audit db) t l =
     touches db t l @ (if t = tid \<and> l = lid then
       [\<lparr>at_id = next_id db, at_tenant = tid, at_lead = lid, at_conversation = Some cid,
         at_source_code = code, at_medium = medium_for payload,
         at_first_touch = (touches db tid lid = []), at_raw_payload = take 500 payload\<rparr>] else [])"
  by (simp add: capture_attribution_def touches_def new_id_def write_audit_def Let_def scoped_def)

lemma capture_keeps_first_touch:
  assumes "first_touch_once db"
  shows "first_touch_once (capture_attribution tid lid cid code payload audit db)"
  unfolding first_touch_once_def touches_capture
proof (intro allI)
  fix t l
  show "case touches db t l @ (if t = tid \<and> l = lid then
       [\<lparr>at_id = next_id db, at_tenant = tid, at_lead = lid, at_conversation = Some cid,
         at_source_code = code, at_medium = medium_for payload,
         at_first_touch = (touches db tid lid = []), at_raw_payload = take 500 payload\<rparr>] else [])
     of [] \<Rightarrow> True | a # rest \<Rightarrow> at_first_touch a \<and> list_all (\<lambda>b. \<not> at_first_touch b) rest"
    using assms [unfolded first_touch_once_def, rule_format, of t l]
    by (cases "touches db t l") (auto simp: touches_def)
qed

end
