(* ===== verification/Satisfaction.thy ===== *)
theory Satisfaction
  imports Notify_Policy
begin

text \<open>
  Satisfaction capture, the second half of \<^verbatim>\<open>mawjood/core/notifications/scheduler.py\<close>: the
  regular expression \<open>_RATING\<close> as a search over the positions of the text, in the order the
  alternatives are tried, and the feedback row it ends in. Letters are ASCII and every byte of
  another character counts as part of a word.
\<close>

subsection \<open>\<open>_RATING\<close>\<close>

definition starts_word :: "string \<Rightarrow> bool" where
  "starts_word s = (case s of [] \<Rightarrow> False | c # _ \<Rightarrow> is_word c)"

definition is_score :: "char \<Rightarrow> bool" where
  "is_score c = (c \<in> set ''12345'')"

text \<open>The text after a literal at the front, letters in either case.\<close>

definition after :: "string \<Rightarrow> string \<Rightarrow> string option" where
  "after lit s = (if lower (take (length lit) s) = lit then Some (drop (length lit) s) else None)"

text \<open>\<open>([1-5])\s*(?:/|out of)\s*5\<close>\<close>

definition score_out_of :: "string \<Rightarrow> (char \<times> string) option" where
  "score_out_of s =
     (case s of [] \<Rightarrow> None
      | c # cs \<Rightarrow>
          if \<not> is_score c then None
          else let r = dropWhile is_space cs in
            case (case after ''/'' r of Some x \<Rightarrow> Some x | None \<Rightarrow> after ''out of'' r) of
              None \<Rightarrow> None
            | Some x \<Rightarrow> (case after ''5'' (dropWhile is_space x) of
                           None \<Rightarrow> None | Some rest \<Rightarrow> Some (c, rest)))"

text \<open>\<open>\s*\b([1-5])\b\<close>, after a character that is or is not of a word\<close>

definition score_alone :: "bool \<Rightarrow> string \<Rightarrow> (char \<times> string) option" where
  "score_alone prev_word s =
     (let sp = takeWhile is_space s in
      case dropWhile is_space s of
        [] \<Rightarrow> None
      | c # cs \<Rightarrow>
          if is_score c \<and> (sp \<noteq> [] \<or> \<not> prev_word) \<and> \<not> starts_word cs then Some (c, cs) else None)"

fun first_after :: "string list \<Rightarrow> string \<Rightarrow> string option" where
  "first_after [] s = None"
| "first_after (l # ls) s = (case after l s of Some r \<Rightarrow> Some r | None \<Rightarrow> first_after ls s)"

definition score_named :: "bool \<Rightarrow> string \<Rightarrow> (char \<times> string) option" where
  "score_named prev_word s =
     (case first_after [''rate'', ''rating'', ''give it'', ''gave it''] s of
        None \<Rightarrow> score_alone prev_word s
      | Some r \<Rightarrow> (case score_alone True r of
                     Some x \<Rightarrow> Some x | None \<Rightarrow> score_alone prev_word s))"

text \<open>\<open>^\<close> or \<open>\b\<close>, then the alternatives\<close>

definition score_at :: "bool \<Rightarrow> bool \<Rightarrow> string \<Rightarrow> (char \<times> string) option" where
  "score_at first prev_word s =
     (if first \<or> prev_word \<noteq> starts_word s
      then (case score_out_of s of Some x \<Rightarrow> Some x | None \<Rightarrow> score_named prev_word s)
      else None)"

fun find_score :: "bool \<Rightarrow> bool \<Rightarrow> string \<Rightarrow> (string \<times> char \<times> string) option" where
  "find_score first prev_word [] = None"
| "find_score first prev_word (c # cs) =
     (case score_at first prev_word (c # cs) of
        Some (d, rest) \<Rightarrow> Some ([], d, rest)
      | None \<Rightarrow> map_option (\<lambda>(pre, d, rest). (c # pre, d, rest)) (find_score False (is_word c) cs))"

subsection \<open>\<open>parse_satisfaction\<close>\<close>

definition edge_char :: "char \<Rightarrow> bool" where
  "edge_char c = (is_space c \<or> c \<in> set '',.-:;'')"

text \<open>\<open>[\s,.\-\<dash>:;]+\<close> at the front; \<open>d\<close> is the dash, or its bytes reversed.\<close>

function drop_edge :: "string \<Rightarrow> string \<Rightarrow> string" where
  "drop_edge d s =
     (if s \<noteq> [] \<and> edge_char (hd s) then drop_edge d (tl s)
      else if d \<noteq> [] \<and> take (length d) s = d then drop_edge d (drop (length d) s)
      else s)"
  by pat_completeness auto
termination
proof (relation "measure (\<lambda>(d, s). length s)", goal_cases)
  case (3 d s)
  then have "s \<noteq> []" by (metis take_Nil)
  with 3 show ?case by simp
qed simp_all

declare drop_edge.simps [simp del]

definition trim_edges :: "string \<Rightarrow> string" where
  "trim_edges s = rev (drop_edge (rev dash) (rev (drop_edge dash s)))"

definition drop_denominator :: "string \<Rightarrow> string" where
  "drop_denominator s =
     (case first_after [''out of 5'', ''/5''] s of
        Some r \<Rightarrow> if starts_word r then s else r | None \<Rightarrow> s)"

record satisfaction =
  sat_rating :: "int option"
  sat_comment :: "string option"

definition is_feedback :: "satisfaction \<Rightarrow> bool" where
  "is_feedback s = (sat_rating s \<noteq> None)"

text \<open>\<open>s or None\<close>\<close>

definition or_none :: "string \<Rightarrow> string option" where
  "or_none s = (if s = [] then None else Some s)"

definition score_value :: "char \<Rightarrow> int" where
  "score_value c = int (of_char c) - 48"

definition parse_satisfaction :: "string \<Rightarrow> satisfaction" where
  "parse_satisfaction txt =
     (let s = strip txt in
      if s = [] then \<lparr>sat_rating = None, sat_comment = None\<rparr>
      else case find_score True False s of
        None \<Rightarrow> \<lparr>sat_rating = None, sat_comment = or_none s\<rparr>
      | Some (pre, d, rest) \<Rightarrow>
          let remainder = strip (drop_denominator (trim_edges (strip (pre @ '' '' @ rest))))
          in \<lparr>sat_rating = Some (score_value d), sat_comment = or_none remainder\<rparr>)"

subsection \<open>\<open>capture_satisfaction\<close>\<close>

definition latest_booking :: "store \<Rightarrow> uid \<Rightarrow> uid \<Rightarrow> booking option" where
  "latest_booking db tid cid =
     latest_by (\<lambda>a b. bk_created_at a < bk_created_at b)
       (filter (\<lambda>b. bk_conversation b = cid) (scoped bk_tenant tid (bookings db)))"

definition feedback_of :: "store \<Rightarrow> uid \<Rightarrow> uid \<Rightarrow> feedback option" where
  "feedback_of db tid cid =
     next_such (\<lambda>f. fb_conversation f = cid) (scoped fb_tenant tid (feedbacks db))"

definition amend_feedback :: "satisfaction \<Rightarrow> instant \<Rightarrow> feedback \<Rightarrow> feedback" where
  "amend_feedback p now f = f\<lparr>fb_rating := sat_rating p,
     fb_comment := (if truthy (sat_comment p) then sat_comment p else fb_comment f),
     fb_responded_at := Some now\<rparr>"

definition capture_satisfaction ::
    "uid \<Rightarrow> uid \<Rightarrow> uid \<Rightarrow> string \<Rightarrow> instant \<Rightarrow> audit_trail \<Rightarrow> store \<Rightarrow> (feedback \<times> store) option"
  where
  "capture_satisfaction tid cid lid txt now audit db =
     (let p = parse_satisfaction txt; b = map_option bk_id (latest_booking db tid cid);
          event = Feedback_Captured (sat_rating p) (truthy (sat_comment p)) b
      in if \<not> is_feedback p then None
         else case feedback_of db tid cid of
           Some f \<Rightarrow>
             Some (amend_feedback p now f, write_audit audit event
               (db\<lparr>feedbacks := update_where (\<lambda>x. fb_id x = fb_id f) (amend_feedback p now)
                  (feedbacks db)\<rparr>))
         | None \<Rightarrow>
             let (i, db1) = new_id db;
                 f = \<lparr>fb_id = i, fb_tenant = tid, fb_conversation = cid, fb_lead = lid,
                   fb_booking = b, fb_rating = sat_rating p, fb_comment = sat_comment p,
                   fb_responded_at = Some now\<rparr>
             in Some (f, write_audit audit event (db1\<lparr>feedbacks := feedbacks db1 @ [f]\<rparr>)))"

subsection \<open>What is scored\<close>

lemma score_alone_score: "score_alone p s = Some (c, r) \<Longrightarrow> is_score c"
  by (auto simp: score_alone_def Let_def split: list.splits if_splits)

lemma score_at_score: "score_at f p s = Some (c, r) \<Longrightarrow> is_score c"
  by (auto simp: score_at_def score_out_of_def score_named_def Let_def
      split: if_splits option.splits list.splits dest: score_alone_score)

lemma find_score_score: "find_score f p s = Some (pre, c, r) \<Longrightarrow> is_score c"
  by (induction s arbitrary: f p pre) (auto split: option.splits dest: score_at_score)

text \<open>A rating the table's check accepts: from one to five.\<close>

lemma rating_range: "sat_rating (parse_satisfaction txt) = Some r \<Longrightarrow> 1 \<le> r \<and> r \<le> 5"
  by (auto simp: parse_satisfaction_def Let_def is_score_def score_value_def
      split: if_splits option.splits dest!: find_score_score)

text \<open>
  What the pattern reads: a bare score, a score out of five, a sentence, and any request that holds
  a digit from one to five as a word of its own.
\<close>

lemma satisfaction_samples:
  "parse_satisfaction ''4, staff were lovely'' =
     \<lparr>sat_rating = Some 4, sat_comment = Some ''staff were lovely''\<rparr>"
  "parse_satisfaction ''3/5'' = \<lparr>sat_rating = Some 3, sat_comment = None\<rparr>"
  "parse_satisfaction ''40 minutes'' = \<lparr>sat_rating = None, sat_comment = Some ''40 minutes''\<rparr>"
  "parse_satisfaction ''book me 5 people'' =
     \<lparr>sat_rating = Some 5, sat_comment = Some ''book me  people''\<rparr>"
  by code_simp+

end
