(* ===== verification/Pipeline.thy ===== *)
theory Pipeline
  imports Engine Understanding Attribution Scheduler Satisfaction
begin

text \<open>
  The inbound pipeline, \<^verbatim>\<open>mawjood/core/conversation/pipeline.py\<close>. A turn works on the store and on
  the run of the cascade: the audit events the cascade logs become rows under the turn's trail,
  and what happened upstream stays even where the turn raises and its transaction is rolled back.
  \<open>datetime.now(UTC)\<close> is the epoch plus the run's clock, which only adapter calls move.
\<close>

subsection \<open>Configuration and results\<close>

record 'w pipeline =
  pipe_registry :: "'w registry"
  pipe_secrets :: secret_store
  pipe_phrasebank :: phrasebank
  pipe_llm :: llm
  pipe_deadline_ms :: int
  pipe_tz :: timezone
  pipe_offsets :: "offsets option"
  pipe_epoch :: int

text \<open>A continuation: the closure of the engine it was made in, and the trail it writes to.\<close>

record 'w continuation =
  ct_engine :: "'w engine"
  ct_deferred :: "'w deferred"
  ct_audit :: audit_trail

record 'w turn_result =
  tr_turn :: uid
  tr_outbound :: "outbound_message list"
  tr_conversation :: uid
  tr_lead :: uid
  tr_duplicate :: bool
  tr_deferred :: "'w continuation option"
  tr_state :: "string option"

datatype turn_error = Unknown_Tenant | Turn_Raised

type_synonym 'w turn_end = "(turn_error + 'w turn_result \<times> store) \<times> 'w run"

definition wall :: "'w pipeline \<Rightarrow> 'w run \<Rightarrow> instant" where
  "wall pipe s = pipe_epoch pipe + clock s"

definition silent_result :: "uid \<Rightarrow> uid \<Rightarrow> uid \<Rightarrow> 'w turn_result" where
  "silent_result turn cid lid = \<lparr>tr_turn = turn, tr_outbound = [], tr_conversation = cid,
     tr_lead = lid, tr_duplicate = False, tr_deferred = None, tr_state = None\<rparr>"

definition new_trail :: "uid \<Rightarrow> string \<Rightarrow> uid \<Rightarrow> audit_trail" where
  "new_trail tid corr turn = \<lparr>trail_tenant_id = tid, trail_correlation_id = corr,
     trail_turn_id = turn, trail_conversation_id = None, trail_lead_id = None\<rparr>"

definition write_all :: "audit_trail \<Rightarrow> audit_event list \<Rightarrow> store \<Rightarrow> store" where
  "write_all t es db = fold (write_audit t) es db"

definition touch :: "uid \<Rightarrow> instant \<Rightarrow> store \<Rightarrow> store" where
  "touch cid now = update_conversation cid (\<lambda>c. c\<lparr>last_activity_at := now\<rparr>)"

subsection \<open>Helpers\<close>

definition state_of :: "string \<Rightarrow> conversation_state" where
  "state_of s = (if s = [] then GREETING
     else case enum_of_value conversation_state_value all_conversation_state s of
       Some x \<Rightarrow> x | None \<Rightarrow> GREETING)"

definition hours_since :: "instant \<Rightarrow> instant \<Rightarrow> real" where
  "hours_since now t = max 0 (of_int (now - t) / 3600000000)"

text \<open>\<open>_emit\<close>: every rendered message becomes a row, an audit row and an outbound message.\<close>

fun emit ::
    "uid \<Rightarrow> uid \<Rightarrow> uid \<Rightarrow> channel \<Rightarrow> uid \<Rightarrow> audit_trail \<Rightarrow> rendered_message list \<Rightarrow> store
       \<Rightarrow> outbound_message list \<times> store" where
  "emit tid cid lid ch turn audit [] db = ([], db)"
| "emit tid cid lid ch turn audit (m # rest) db =
     (let (_, db1) = record_outbound tid cid lid turn ch (rm_text m) (rm_locale m) (rm_key m) db;
          db2 = write_audit audit (Message_Sent (rm_key m) (rm_locale m) (rm_text m) ch) db1;
          (outs, db3) = emit tid cid lid ch turn audit rest db2
      in (\<lparr>om_message = m, om_conversation = cid, om_lead = lid, om_channel = ch\<rparr> # outs, db3))"

fun render_all ::
    "phrasebank \<Rightarrow> string \<Rightarrow> phrase_spec list \<Rightarrow> rendered_message list option" where
  "render_all pb loc [] = Some []"
| "render_all pb loc ((key, vars) # ps) =
     (case (render pb (phrase_key_value key) (Some loc) vars, render_all pb loc ps) of
        (Some m, Some rest) \<Rightarrow> Some (m # rest)
      | _ \<Rightarrow> None)"

definition record_booking ::
    "uid \<Rightarrow> uid \<Rightarrow> uid \<Rightarrow> booking_payload \<Rightarrow> offsets option \<Rightarrow> instant \<Rightarrow> store \<Rightarrow> store" where
  "record_booking tid cid lid p f now db =
     (let key = (cid, bp_external_id p) in
      case next_such (\<lambda>b. bk_key b = key) (scoped bk_tenant tid (bookings db)) of
        Some _ \<Rightarrow> db
      | None \<Rightarrow>
          let (i, db1) = new_id db;
              b = \<lparr>bk_id = i, bk_tenant = tid, bk_conversation = cid, bk_lead = lid,
                bk_category = bp_category p, bk_platform = bp_platform p,
                bk_external_ref = Some (bp_external_id p), bk_key = key,
                bk_status = booking_status.CONFIRMED, bk_slot_start = Some (bp_start p),
                bk_slot_end = Some (bp_end p), bk_venue = Some (bp_venue p),
                bk_price = bp_price p, bk_currency = bp_currency p, bk_payment = PAY_AT_VENUE,
                bk_confirmed_at = Some now, bk_created_at = tx_now db\<rparr>
          in snd (schedule_for_booking tid b f (db1\<lparr>bookings := bookings db1 @ [b]\<rparr>)))"

definition awaiting_satisfaction :: "store \<Rightarrow> uid \<Rightarrow> uid \<Rightarrow> bool" where
  "awaiting_satisfaction db tid cid =
     list_ex (\<lambda>m. msg_conversation m = cid \<and> msg_direction m = OUTBOUND
         \<and> msg_phrasebank_key m = Some (phrase_key_value (PHRASE_FOR SATISFACTION)))
       (scoped msg_tenant tid (messages db))"

definition enqueue_handoff ::
    "uid \<Rightarrow> uid \<Rightarrow> uid \<Rightarrow> string \<Rightarrow> audit_trail \<Rightarrow> store \<Rightarrow> store" where
  "enqueue_handoff tid cid lid why audit db =
     (let parsed = (case handoff_reason_of_value why of
            Some r \<Rightarrow> r | None \<Rightarrow> handoff_reason.SYSTEM_ERROR)
      in write_audit audit (Handoff_Enqueued parsed) (add_handoff tid cid lid parsed db))"

subsection \<open>Consent events\<close>

text \<open>The notice, recorded as it was rendered.\<close>

definition record_notice ::
    "uid \<Rightarrow> uid \<Rightarrow> uid \<Rightarrow> channel \<Rightarrow> string \<Rightarrow> audit_trail \<Rightarrow> rendered_message \<Rightarrow> store \<Rightarrow> store" where
  "record_notice tid cid lid ch version audit m db =
     (if rm_key m = phrase_key_value phrase_key.CONSENT_NOTICE
      then write_audit audit (Consent_Notice_Shown version (rm_text m) (rm_locale m))
             (add_consent tid lid (Some cid) consent_event.NOTICE_SHOWN version (rm_text m)
                (rm_locale m) ch None db)
      else db)"

text \<open>None is \<open>PhraseNotFound\<close> of the notice's wording.\<close>

definition record_consent ::
    "phrasebank \<Rightarrow> uid \<Rightarrow> uid \<Rightarrow> uid \<Rightarrow> channel \<Rightarrow> string \<Rightarrow> audit_trail \<Rightarrow> rendered_message list
       \<Rightarrow> consent_state \<Rightarrow> consent_signal \<Rightarrow> uid \<Rightarrow> string \<Rightarrow> store \<Rightarrow> store option" where
  "record_consent pb tid cid lid ch loc audit rendered prior signal evidence txt db =
     (let version = policy_version_of pb (Some loc);
          db1 = fold (record_notice tid cid lid ch version audit) rendered db;
          decide = (\<lambda>ev event. case raw pb (phrase_key_value phrase_key.CONSENT_NOTICE) (Some loc) of
             None \<Rightarrow> None
           | Some wording \<Rightarrow> Some (write_audit audit event
               (add_consent tid lid (Some cid) ev version wording loc ch (Some evidence) db1)))
      in if signal = WITHDRAWAL then
           decide consent_event.WITHDRAWN (Consent_Withdrawn version txt)
         else if signal = AFFIRMATIVE \<and> prior = NOTICE_SHOWN then
           decide consent_event.GRANTED (Consent_Granted version txt)
         else Some db1)"

subsection \<open>One turn\<close>

record turn_context =
  tc_tenant :: uid
  tc_lead :: lead
  tc_created :: bool
  tc_conversation :: conversation
  tc_audit :: audit_trail
  tc_message :: message
  tc_hours_idle :: real

text \<open>Steps 3 to 5: the lead, its conversation, its attribution and the message's row.\<close>

definition name_lead :: "string option \<Rightarrow> lead \<Rightarrow> lead" where
  "name_lead nm l = (if truthy nm \<and> \<not> truthy (lead_display_name l)
     then l\<lparr>lead_display_name := nm\<rparr> else l)"

definition resolve_lead ::
    "tenant \<Rightarrow> inbound_message \<Rightarrow> instant \<Rightarrow> audit_trail \<Rightarrow> store \<Rightarrow> lead \<times> bool \<times> audit_trail \<times> store"
  where
  "resolve_lead t inb now audit db =
     (let (l0, created, db1) = get_or_create_lead (tenant_uid t) (in_wa_id inb) (default_locale t) now db;
          l = name_lead (in_display_name inb) l0;
          db2 = db1\<lparr>leads := update_where (\<lambda>x. lead_id x = lead_id l0)
                 (name_lead (in_display_name inb)) (leads db1)\<rparr>;
          audit1 = bind_trail None (Some (lead_id l)) audit
      in (l, created, audit1, if created then write_audit audit1 Lead_Created db2 else db2))"

definition resolve_conversation ::
    "uid \<Rightarrow> lead \<Rightarrow> channel \<Rightarrow> instant \<Rightarrow> audit_trail \<Rightarrow> store \<Rightarrow> conversation \<times> audit_trail \<times> store" where
  "resolve_conversation tid l ch now audit db =
     (let (c, started, db1) = open_or_resume tid (lead_id l) ch (lead_locale l) now db;
          audit1 = bind_trail (Some (conv_id c)) None audit
      in (c, audit1, write_audit audit1
            (if started then Conversation_Started ch else Conversation_Resumed ch) db1))"

definition capture_source ::
    "uid \<Rightarrow> uid \<Rightarrow> uid \<Rightarrow> string \<Rightarrow> audit_trail \<Rightarrow> store \<Rightarrow> store" where
  "capture_source tid lid cid txt audit db =
     (case parse_source_code txt of
        None \<Rightarrow> db | Some code \<Rightarrow> capture_attribution tid lid cid code txt audit db)"

definition open_turn ::
    "tenant \<Rightarrow> inbound_message \<Rightarrow> instant \<Rightarrow> audit_trail \<Rightarrow> store \<Rightarrow> turn_context \<times> store" where
  "open_turn t inb now audit db =
     (let tid = tenant_uid t;
          (l, created, audit1, db1) = resolve_lead t inb now audit db;
          (c, audit2, db2) = resolve_conversation tid l (in_channel inb) now audit1 db1;
          db3 = capture_source tid (lead_id l) (conv_id c) (in_text inb) audit2 db2;
          (m, db4) = record_inbound tid (conv_id c) (lead_id l) (trail_turn_id audit2) (in_channel inb)
             (in_text inb) (lead_locale l) (in_provider_message_id inb) db3;
          db5 = write_audit audit2 (Message_Received (int (length (in_text inb)))
             (in_provider_message_id inb) (in_channel inb)) db4
      in (\<lparr>tc_tenant = tid, tc_lead = l, tc_created = created, tc_conversation = c,
           tc_audit = audit2, tc_message = m, tc_hours_idle = hours_since now (last_activity_at c)\<rparr>,
          db5))"

text \<open>Step 6: the message and what is known, as the state machine sees them.\<close>

definition turn_of_message :: "message \<Rightarrow> turn" where
  "turn_of_message m = (if msg_direction m = INBOUND then User else Assistant, msg_body m)"

definition effective_consent :: "consent_signal \<Rightarrow> consent_state \<Rightarrow> consent_state" where
  "effective_consent signal c = (if signal = AFFIRMATIVE \<and> c = NOTICE_SHOWN then GRANTED else c)"

definition machine_input_of ::
    "'w pipeline \<Rightarrow> turn_context \<Rightarrow> string \<Rightarrow> store \<Rightarrow> machine_input" where
  "machine_input_of pipe x txt db =
     (let c = tc_conversation x;
          hist = map turn_of_message (history db (tc_tenant x) (conv_id c) 8);
          st = state_of (conv_state c)
      in \<lparr>m_state = st, m_collected = collected_of (collected_slots c),
          m_understanding = understand (pipe_llm pipe) (strip_source_code txt) (butlast hist),
          m_consent = effective_consent (classify txt)
             (state_for_lead db (tc_tenant x) (lead_id (tc_lead x))),
          m_signal = classify txt, is_new_lead = tc_created x,
          hours_since_last_activity = tc_hours_idle x,
          m_offer = (if pending_offer c = [] then None else Some (pending_offer c)),
          has_booking = st \<in> {CONFIRMED, POST_BOOKING}\<rparr>)"

text \<open>Step 8.\<close>

definition engine_of :: "'w pipeline \<Rightarrow> turn_context \<Rightarrow> string \<Rightarrow> store \<Rightarrow> 'w run \<Rightarrow> 'w engine" where
  "engine_of pipe x corr db s = \<lparr>
     eng_cascade = new_cascade (clock s) (in_ms (clock s) (pipe_deadline_ms pipe)) (tc_tenant x)
        (conv_id (tc_conversation x)) corr,
     eng_candidates_for = candidates_for (pipe_registry pipe) (pipe_secrets pipe) db (tc_tenant x),
     eng_tz = pipe_tz pipe, eng_tolerances = default_tolerances, eng_epoch = pipe_epoch pipe\<rparr>"

text \<open>The offer's category and area; None is the \<open>ValueError\<close> of an unknown category.\<close>

definition perform_turn ::
    "'w engine \<Rightarrow> turn_context \<Rightarrow> transition \<Rightarrow> 'w run \<Rightarrow> ('w action_result \<times> 'w run) option" where
  "perform_turn eng x t s =
     (if t_action t = BOOK then
        let offer = pending_offer (tc_conversation x) in
        case category_at offer of
          None \<Rightarrow> None
        | Some cat \<Rightarrow> book_pending eng offer
            (eng_candidates_for eng cat (text_of (json_get offer ''area'')))
            (lead_display_name (tc_lead x)) (phone_e164 (tc_lead x)) s
      else Some (perform eng t s))"

text \<open>The merge of the transition and the action into the conversation.\<close>

definition next_state :: "transition \<Rightarrow> 'w action_result \<Rightarrow> conversation_state" where
  "next_state t a = (case a_state a of Some st \<Rightarrow> st | None \<Rightarrow> t_state t)"

definition merge_conversation ::
    "transition \<Rightarrow> 'w action_result \<Rightarrow> conversation \<Rightarrow> conversation" where
  "merge_conversation t a c = c\<lparr>conv_state := conversation_state_value (next_state t a),
     collected_slots := as_dict (t_collected t),
     pending_offer := (case a_offer a of
        Some d \<Rightarrow> d | None \<Rightarrow> if a_clear_offer a \<or> t_clear_offer t then [] else pending_offer c)\<rparr>"

definition turn_handoff :: "transition \<Rightarrow> 'w action_result \<Rightarrow> string option" where
  "turn_handoff t a = (if truthy (a_handoff a) then a_handoff a else t_handoff t)"

definition record_outcome ::
    "'w pipeline \<Rightarrow> turn_context \<Rightarrow> transition \<Rightarrow> 'w action_result \<Rightarrow> instant \<Rightarrow> store \<Rightarrow> store" where
  "record_outcome pipe x t a now db =
     (let tid = tc_tenant x; cid = conv_id (tc_conversation x); lid = lead_id (tc_lead x);
          db1 = update_conversation cid (merge_conversation t a) db;
          db2 = (case a_booking a of
             None \<Rightarrow> db1 | Some p \<Rightarrow> record_booking tid cid lid p (pipe_offsets pipe) now db1)
      in if truthy (turn_handoff t a)
         then update_conversation cid (\<lambda>c. c\<lparr>bot_muted := True\<rparr>)
                (enqueue_handoff tid cid lid (the (turn_handoff t a)) (tc_audit x) db2)
         else db2)"

text \<open>Steps 9 and 10.\<close>

definition speak ::
    "'w pipeline \<Rightarrow> turn_context \<Rightarrow> string \<Rightarrow> channel \<Rightarrow> consent_state \<Rightarrow> phrase_spec list \<Rightarrow> store
       \<Rightarrow> (outbound_message list \<times> store) option" where
  "speak pipe x txt ch prior specs db =
     (let tid = tc_tenant x; cid = conv_id (tc_conversation x); l = tc_lead x in
      case render_all (pipe_phrasebank pipe) (lead_locale l) specs of
        None \<Rightarrow> None
      | Some rendered \<Rightarrow>
          map_option (emit tid cid (lead_id l) ch (trail_turn_id (tc_audit x)) (tc_audit x) rendered)
            (record_consent (pipe_phrasebank pipe) tid cid (lead_id l) ch (lead_locale l) (tc_audit x)
               rendered prior (classify txt) (msg_id (tc_message x)) txt db))"

text \<open>A handed-over thread: the message is kept and nothing is said.\<close>

definition muted_turn :: "turn_context \<Rightarrow> instant \<Rightarrow> store \<Rightarrow> 'w turn_result \<times> store" where
  "muted_turn x now db =
     (let c = tc_conversation x in
      (silent_result (trail_turn_id (tc_audit x)) (conv_id c) (lead_id (tc_lead x))
         \<lparr>tr_state := Some (conv_state c)\<rparr>,
       touch (conv_id c) now (write_audit (tc_audit x) Bot_Muted_Skip db)))"

text \<open>A rating is thanked for and does not reach the state machine.\<close>

definition thanks_turn ::
    "'w pipeline \<Rightarrow> turn_context \<Rightarrow> channel \<Rightarrow> instant \<Rightarrow> store \<Rightarrow> ('w turn_result \<times> store) option" where
  "thanks_turn pipe x ch now db =
     (let c = tc_conversation x; l = tc_lead x; turn = trail_turn_id (tc_audit x) in
      case render (pipe_phrasebank pipe) (phrase_key_value NOTIFY_SATISFACTION_THANKS)
             (Some (lead_locale l)) [] of
        None \<Rightarrow> None
      | Some m \<Rightarrow>
          let (outs, db1) = emit (tc_tenant x) (conv_id c) (lead_id l) ch turn (tc_audit x) [m] db
          in Some (silent_result turn (conv_id c) (lead_id l)
               \<lparr>tr_outbound := outs, tr_state := Some (conv_state c)\<rparr>, touch (conv_id c) now db1))"

definition rating_captured ::
    "turn_context \<Rightarrow> string \<Rightarrow> instant \<Rightarrow> store \<Rightarrow> store option" where
  "rating_captured x txt now db =
     (let tid = tc_tenant x; cid = conv_id (tc_conversation x) in
      if awaiting_satisfaction db tid cid
      then map_option snd (capture_satisfaction tid cid (lead_id (tc_lead x)) txt now (tc_audit x) db)
      else None)"

text \<open>Steps 7 to 10.\<close>

definition answer_turn ::
    "'w pipeline \<Rightarrow> turn_context \<Rightarrow> inbound_message \<Rightarrow> string \<Rightarrow> store \<Rightarrow> 'w run \<Rightarrow> 'w turn_end" where
  "answer_turn pipe x inb corr db s =
     (let tid = tc_tenant x; c = tc_conversation x; l = tc_lead x; turn = trail_turn_id (tc_audit x);
          eng = engine_of pipe x corr db s;
          t = advance (machine_input_of pipe x (in_text inb) db)
      in case perform_turn eng x t (s\<lparr>trail := []\<rparr>) of
           None \<Rightarrow> (Inl Turn_Raised, s)
         | Some (a, s1) \<Rightarrow>
             let db1 = write_all (tc_audit x) (trail s1) db;
                 db2 = record_outcome pipe x t a (wall pipe s1) db1
             in case speak pipe x (in_text inb) (in_channel inb)
                       (state_for_lead db tid (lead_id l)) (t_phrases t @ a_phrases a) db2 of
                  None \<Rightarrow> (Inl Turn_Raised, s1)
                | Some (outs, db3) \<Rightarrow>
                    (Inr (silent_result turn (conv_id c) (lead_id l)
                       \<lparr>tr_outbound := outs,
                        tr_deferred := map_option (\<lambda>d. \<lparr>ct_engine = eng, ct_deferred = d,
                          ct_audit = tc_audit x\<rparr>) (a_deferred a),
                        tr_state := Some (conversation_state_value (next_state t a))\<rparr>,
                      touch (conv_id c) (wall pipe s1) db3), s1))"

definition seen_before :: "store \<Rightarrow> uid \<Rightarrow> inbound_message \<Rightarrow> message option" where
  "seen_before db tid inb =
     (if truthy (in_provider_message_id inb)
      then find_by_provider_id db tid (in_channel inb) (the (in_provider_message_id inb)) else None)"

definition duplicate_turn ::
    "inbound_message \<Rightarrow> message \<Rightarrow> audit_trail \<Rightarrow> store \<Rightarrow> 'w turn_result \<times> store" where
  "duplicate_turn inb m audit db =
     (silent_result (trail_turn_id audit) (msg_conversation m) (msg_lead m) \<lparr>tr_duplicate := True\<rparr>,
      write_audit (bind_trail (Some (msg_conversation m)) (Some (msg_lead m)) audit)
        (Duplicate_Ignored (the (in_provider_message_id inb)) (in_channel inb)) db)"

definition new_turn ::
    "'w pipeline \<Rightarrow> tenant \<Rightarrow> inbound_message \<Rightarrow> string \<Rightarrow> audit_trail \<Rightarrow> store \<Rightarrow> 'w run \<Rightarrow> 'w turn_end"
  where
  "new_turn pipe t inb corr audit db s =
     (let now = wall pipe s; (x, db1) = open_turn t inb now audit db in
      if bot_muted (tc_conversation x) then (Inr (muted_turn x now db1), s)
      else case rating_captured x (in_text inb) now db1 of
        Some db2 \<Rightarrow>
          (case thanks_turn pipe x (in_channel inb) now db2 of
             None \<Rightarrow> (Inl Turn_Raised, s) | Some r \<Rightarrow> (Inr r, s))
      | None \<Rightarrow> answer_turn pipe x inb corr db1 s)"

definition handle_inbound ::
    "'w pipeline \<Rightarrow> inbound_message \<Rightarrow> string \<Rightarrow> store \<Rightarrow> 'w run \<Rightarrow> 'w turn_end" where
  "handle_inbound pipe inb corr db s =
     (case get_by_slug db (in_tenant_slug inb) of
        None \<Rightarrow> (Inl Unknown_Tenant, s)
      | Some t \<Rightarrow>
          let (turn, db1) = new_id db; audit = new_trail (tenant_uid t) corr turn in
          (case seen_before db1 (tenant_uid t) inb of
             Some m \<Rightarrow> (Inr (duplicate_turn inb m audit db1), s)
           | None \<Rightarrow> new_turn pipe t inb corr audit db1 s))"

subsection \<open>The follow-up of a deferred search\<close>

definition merge_deferred :: "'w action_result \<Rightarrow> conversation \<Rightarrow> conversation" where
  "merge_deferred a c = c\<lparr>
     conv_state := (case a_state a of Some st \<Rightarrow> conversation_state_value st | None \<Rightarrow> conv_state c),
     pending_offer := (case a_offer a of
        Some d \<Rightarrow> d | None \<Rightarrow> if a_clear_offer a then [] else pending_offer c)\<rparr>"

definition deliver_deferred ::
    "phrasebank \<Rightarrow> string \<Rightarrow> uid \<Rightarrow> uid \<Rightarrow> channel \<Rightarrow> 'w continuation \<Rightarrow> string \<Rightarrow> store \<Rightarrow> 'w run
       \<Rightarrow> 'w turn_end" where
  "deliver_deferred pb tenant cid lid ch k corr db s =
     (case get_by_slug db tenant of
        None \<Rightarrow> (Inl Unknown_Tenant, s)
      | Some t \<Rightarrow>
          let tid = tenant_uid t; (turn, db0) = new_id db;
              audit = bind_trail (Some cid) (Some lid) (new_trail tid corr turn);
              (a, s1) = finish (ct_engine k) (ct_deferred k) (s\<lparr>trail := []\<rparr>);
              db1 = write_all (ct_audit k) (trail s1) db0;
              db2 = (case find_conversation db1 cid of
                 Some c \<Rightarrow> if conv_tenant c = tid
                    then update_conversation cid (merge_deferred a) db1 else db1
               | None \<Rightarrow> db1);
              db3 = (if truthy (a_handoff a)
                     then enqueue_handoff tid cid lid (the (a_handoff a)) audit db2 else db2)
          in case render_all pb ''en'' (a_phrases a) of
               None \<Rightarrow> (Inl Turn_Raised, s1)
             | Some rendered \<Rightarrow>
                 let (outs, db4) = emit tid cid lid ch turn audit rendered db3
                 in (Inr (silent_result turn cid lid \<lparr>tr_outbound := outs\<rparr>, db4), s1))"

end
