(* ===== verification/Pipeline_Facts.thy ===== *)
theory Pipeline_Facts
  imports Pipeline
begin

text \<open>
  What each step of a turn leaves alone. \<open>core\<close> are the tables only the outcome of a turn may
  change; the bookkeeping steps keep them and never reuse an id.
\<close>

definition core ::
    "store \<Rightarrow> tenant list \<times> consent list \<times> booking list \<times> handoff list \<times> instant" where
  "core db = (tenants db, consents db, bookings db, handoffs db, tx_now db)"

text \<open>A step that only keeps books.\<close>

definition steady :: "store \<Rightarrow> store \<Rightarrow> bool" where
  "steady db db' \<longleftrightarrow> core db' = core db \<and> messages db' = messages db \<and> next_id db \<le> next_id db'"

lemma steady_refl [simp]: "steady db db"
  by (simp add: steady_def)

lemma steady_trans: "steady a b \<Longrightarrow> steady b c \<Longrightarrow> steady a c"
  by (simp add: steady_def)

lemma steady_write_audit [simp]: "steady db (write_audit t e db)"
  by (simp add: steady_def core_def write_audit_def)

lemma steady_write_all [simp]: "steady db (write_all t es db)"
proof (induction es arbitrary: db)
  case (Cons e es)
  have "steady db (write_audit t e db)" by simp
  then have "steady db (write_all t es (write_audit t e db))" using Cons steady_trans by blast
  then show ?case by (simp add: write_all_def)
qed (simp add: write_all_def)

lemma steady_update_conversation [simp]: "steady db (update_conversation cid f db)"
  by (simp add: steady_def core_def update_conversation_def)

lemma steady_touch [simp]: "steady db (touch cid now db)"
  by (simp add: touch_def)

lemma steady_new_id: "new_id db = (i, db') \<Longrightarrow> steady db db' \<and> i = next_id db"
  by (auto simp: steady_def core_def new_id_def)

lemma steady_capture_source [simp]: "steady db (capture_source tid lid cid txt audit db)"
  by (auto simp: capture_source_def capture_attribution_def steady_def core_def write_audit_def
      new_id_def Let_def split: option.splits)

lemma steady_resolve_lead:
  "resolve_lead t inb now audit db = (l, is_new, audit', db') \<Longrightarrow> steady db db'"
  by (auto simp: resolve_lead_def get_or_create_lead_def steady_def core_def write_audit_def
      new_id_def Let_def split: option.splits prod.splits if_splits)

lemma steady_resolve_conversation:
  "resolve_conversation tid l ch now audit db = (c, audit', db') \<Longrightarrow> steady db db'"
  by (auto simp: resolve_conversation_def open_or_resume_def steady_def core_def write_audit_def
      update_conversation_def new_id_def Let_def split: option.splits prod.splits if_splits)

lemma steady_rating_captured: "rating_captured x txt now db = Some db' \<Longrightarrow> steady db db'"
  by (auto simp: rating_captured_def capture_satisfaction_def steady_def core_def write_audit_def
      new_id_def Let_def split: option.splits if_splits)

subsection \<open>Rows of messages\<close>

text \<open>A row of the transcript, as the consumer sees it.\<close>

definition said :: "message \<Rightarrow> direction \<times> uid \<times> uid \<times> string option \<times> string" where
  "said m = (msg_direction m, msg_conversation m, msg_lead m, msg_phrasebank_key m, msg_body m)"

definition shown :: "outbound_message \<Rightarrow> direction \<times> uid \<times> uid \<times> string option \<times> string" where
  "shown x = (OUTBOUND, om_conversation x, om_lead x, Some (om_key x), om_text x)"

lemma emit_effect:
  "emit tid cid lid ch turn audit rendered db = (outs, db') \<Longrightarrow>
     core db' = core db \<and> next_id db \<le> next_id db' \<and> map om_message outs = rendered
     \<and> list_all (\<lambda>x. om_conversation x = cid \<and> om_lead x = lid) outs
     \<and> conversations db' = conversations db
     \<and> (\<exists>rows. messages db' = messages db @ rows \<and> map said rows = map shown outs
          \<and> list_all (\<lambda>m. msg_tenant m = tid \<and> msg_channel m = ch \<and> msg_turn m = turn) rows)"
proof (induction tid cid lid ch turn audit rendered db arbitrary: outs db' rule: emit.induct)
  case (2 tid cid lid ch turn audit m rest db)
  let ?db1 = "snd (record_outbound tid cid lid turn ch (rm_text m) (rm_locale m) (rm_key m) db)"
  let ?row = "fst (record_outbound tid cid lid turn ch (rm_text m) (rm_locale m) (rm_key m) db)"
  let ?db2 = "write_audit audit (Message_Sent (rm_key m) (rm_locale m) (rm_text m) ch) ?db1"
  obtain outs' where rest: "emit tid cid lid ch turn audit rest ?db2 = (outs', db')"
    and outs: "outs = \<lparr>om_message = m, om_conversation = cid, om_lead = lid, om_channel = ch\<rparr> # outs'"
    using 2(2) by (auto simp: Let_def split_def prod_eq_iff)
  have step: "core ?db2 = core db" "next_id db \<le> next_id ?db2" "conversations ?db2 = conversations db"
    "messages ?db2 = messages db @ [?row]" "said ?row = (OUTBOUND, cid, lid, Some (rm_key m), rm_text m)"
    "msg_tenant ?row = tid" "msg_channel ?row = ch" "msg_turn ?row = turn"
    by (simp_all add: record_outbound_def add_message_def new_id_def write_audit_def core_def said_def
        Let_def)
  from 2(1) [OF refl prod.collapse refl rest] obtain rows where
    "core db' = core ?db2" "next_id ?db2 \<le> next_id db'" "map om_message outs' = rest"
    "list_all (\<lambda>x. om_conversation x = cid \<and> om_lead x = lid) outs'"
    "conversations db' = conversations ?db2" "messages db' = messages ?db2 @ rows"
    "map said rows = map shown outs'"
    "list_all (\<lambda>m. msg_tenant m = tid \<and> msg_channel m = ch \<and> msg_turn m = turn) rows"
    by blast
  with step outs show ?case
    by (auto simp: shown_def om_key_def om_text_def intro!: exI [of _ "?row # rows"])
qed auto

lemma render_all_keys:
  "render_all pb loc specs = Some rendered \<Longrightarrow>
   map rm_key rendered = map (\<lambda>(k, v). phrase_key_value k) specs"
proof (induction pb loc specs arbitrary: rendered rule: render_all.induct)
  case (2 pb loc key vars ps)
  then show ?case
    by (auto simp: render_def Let_def split: option.splits substitution.splits)
qed simp

subsection \<open>The steps of a turn\<close>

definition turn_of :: "turn_context \<Rightarrow> uid" where
  "turn_of x = trail_turn_id (tc_audit x)"

definition turn_conv :: "turn_context \<Rightarrow> uid" where
  "turn_conv x = conv_id (tc_conversation x)"

definition turn_lead :: "turn_context \<Rightarrow> uid" where
  "turn_lead x = lead_id (tc_lead x)"

lemma bind_trail_turn [simp]: "trail_turn_id (bind_trail c l t) = trail_turn_id t"
  by (simp add: bind_trail_def)

lemma resolve_lead_turn:
  "resolve_lead t inb now audit db = (l, is_new, audit', db') \<Longrightarrow>
   trail_turn_id audit' = trail_turn_id audit"
  by (auto simp: resolve_lead_def Let_def split: prod.splits)

lemma resolve_conversation_turn:
  "resolve_conversation tid l ch now audit db = (c, audit', db') \<Longrightarrow>
   trail_turn_id audit' = trail_turn_id audit"
  by (auto simp: resolve_conversation_def Let_def split: prod.splits)

text \<open>The row of the message a turn answers.\<close>

definition inbound_row :: "turn_context \<Rightarrow> inbound_message \<Rightarrow> bool" where
  "inbound_row x inb \<longleftrightarrow> (let m = tc_message x in
     said m = (INBOUND, turn_conv x, turn_lead x, None, in_text inb) \<and> msg_tenant m = tc_tenant x
     \<and> msg_channel m = in_channel inb \<and> provider_message_id m = in_provider_message_id inb
     \<and> msg_turn m = turn_of x)"

lemma open_turn_effect:
  assumes "open_turn t inb now audit db = (x, db')"
  shows "core db' = core db" and "next_id db \<le> next_id db'" and "tc_tenant x = tenant_uid t"
    and "turn_of x = trail_turn_id audit" and "inbound_row x inb"
    and "messages db' = messages db @ [tc_message x]"
proof -
  obtain l is_new a1 db1 where lead: "resolve_lead t inb now audit db = (l, is_new, a1, db1)"
    by (rule prod_cases4)
  obtain c a2 db2 where conv: "resolve_conversation (tenant_uid t) l (in_channel inb) now a1 db1 = (c, a2, db2)"
    by (rule prod_cases3)
  let ?db3 = "capture_source (tenant_uid t) (lead_id l) (conv_id c) (in_text inb) a2 db2"
  have s: "steady db ?db3"
    using steady_resolve_lead [OF lead] steady_resolve_conversation [OF conv]
      steady_capture_source steady_trans by metis
  have turn: "trail_turn_id a2 = trail_turn_id audit"
    using resolve_lead_turn [OF lead] resolve_conversation_turn [OF conv] by simp
  show "core db' = core db" "next_id db \<le> next_id db'" "tc_tenant x = tenant_uid t"
    "turn_of x = trail_turn_id audit" "inbound_row x inb"
    "messages db' = messages db @ [tc_message x]"
    using assms s turn
    by (auto simp: open_turn_def lead conv Let_def record_inbound_def add_message_def new_id_def write_audit_def steady_def
        core_def turn_of_def turn_conv_def turn_lead_def inbound_row_def said_def)
qed

text \<open>What the outcome of a turn may change besides its bookings and handoffs.\<close>

lemma schedule_for_booking_frame:
  "tenants (snd (schedule_for_booking tid b f db)) = tenants db
   \<and> consents (snd (schedule_for_booking tid b f db)) = consents db
   \<and> bookings (snd (schedule_for_booking tid b f db)) = bookings db
   \<and> handoffs (snd (schedule_for_booking tid b f db)) = handoffs db
   \<and> conversations (snd (schedule_for_booking tid b f db)) = conversations db
   \<and> messages (snd (schedule_for_booking tid b f db)) = messages db
   \<and> tx_now (snd (schedule_for_booking tid b f db)) = tx_now db
   \<and> next_id db \<le> next_id (snd (schedule_for_booking tid b f db))"
proof -
  have "tenants db' = tenants db \<and> consents db' = consents db \<and> bookings db' = bookings db
      \<and> handoffs db' = handoffs db \<and> conversations db' = conversations db
      \<and> messages db' = messages db \<and> tx_now db' = tx_now db \<and> next_id db \<le> next_id db'"
    if "schedule_kinds tid b g ex ks db = (rows, db')" for g ex ks db rows db'
    using that
  proof (induction tid b g ex ks db arbitrary: rows db' rule: schedule_kinds.induct)
    case (2 tid b g ex k ks db)
    show ?case
    proof (cases "k \<in> set ex")
      case True
      with 2(1,4) show ?thesis by simp
    next
      case False
      show ?thesis
      proof (cases "due_at k (bk_slot_start b) (bk_slot_end b) g")
        case None
        with False 2(2,4) show ?thesis by simp
      next
        case (Some due)
        let ?row = "new_notification (next_id db) tid b k due"
        let ?db = "db\<lparr>next_id := Suc (next_id db), notifications := notifications db @ [?row]\<rparr>"
        obtain rest where "schedule_kinds tid b g ex ks ?db = (rest, db')"
          using 2(4) False Some by (auto simp: new_id_def Let_def split_def prod_eq_iff)
        with 2(3) [OF False Some _ refl refl, of "next_id db"
            "db\<lparr>next_id := Suc (next_id db)\<rparr>" rest db']
        show ?thesis by (simp add: new_id_def)
      qed
    qed
  qed simp
  from this [OF prod.collapse [symmetric]] show ?thesis
    unfolding schedule_for_booking_def by (cases "bk_slot_start b") simp_all
qed

lemma schedule_next_id: "n \<le> next_id db \<Longrightarrow> n \<le> next_id (snd (schedule_for_booking tid b f db))"
  using schedule_for_booking_frame le_trans by blast

lemma record_booking_frame:
  "tenants (record_booking tid cid lid p f now db) = tenants db
   \<and> consents (record_booking tid cid lid p f now db) = consents db
   \<and> handoffs (record_booking tid cid lid p f now db) = handoffs db
   \<and> conversations (record_booking tid cid lid p f now db) = conversations db
   \<and> messages (record_booking tid cid lid p f now db) = messages db
   \<and> tx_now (record_booking tid cid lid p f now db) = tx_now db
   \<and> next_id db \<le> next_id (record_booking tid cid lid p f now db)"
  by (auto simp: record_booking_def Let_def new_id_def schedule_for_booking_frame
      split: option.splits intro!: schedule_next_id)

lemma enqueue_handoff_frame:
  "tenants (enqueue_handoff tid cid lid why audit db) = tenants db
   \<and> consents (enqueue_handoff tid cid lid why audit db) = consents db
   \<and> bookings (enqueue_handoff tid cid lid why audit db) = bookings db
   \<and> conversations (enqueue_handoff tid cid lid why audit db) = conversations db
   \<and> messages (enqueue_handoff tid cid lid why audit db) = messages db
   \<and> tx_now (enqueue_handoff tid cid lid why audit db) = tx_now db
   \<and> next_id db \<le> next_id (enqueue_handoff tid cid lid why audit db)"
  by (simp add: enqueue_handoff_def add_handoff_def write_audit_def new_id_def Let_def)

lemma update_conversation_frame [simp]:
  "tenants (update_conversation cid f db) = tenants db"
  "consents (update_conversation cid f db) = consents db"
  "bookings (update_conversation cid f db) = bookings db"
  "handoffs (update_conversation cid f db) = handoffs db"
  "messages (update_conversation cid f db) = messages db"
  "tx_now (update_conversation cid f db) = tx_now db"
  "next_id (update_conversation cid f db) = next_id db"
  "leads (update_conversation cid f db) = leads db"
  by (simp_all add: update_conversation_def)

lemma record_outcome_frame:
  "tenants (record_outcome pipe x t a now db) = tenants db
   \<and> consents (record_outcome pipe x t a now db) = consents db
   \<and> messages (record_outcome pipe x t a now db) = messages db
   \<and> tx_now (record_outcome pipe x t a now db) = tx_now db
   \<and> next_id db \<le> next_id (record_outcome pipe x t a now db)
   \<and> (a_booking a = None \<longrightarrow> bookings (record_outcome pipe x t a now db) = bookings db)
   \<and> (\<not> truthy (turn_handoff t a) \<longrightarrow> handoffs (record_outcome pipe x t a now db) = handoffs db)"
proof (cases "a_booking a")
  case None
  then show ?thesis
    using enqueue_handoff_frame [of "tc_tenant x" "conv_id (tc_conversation x)" "lead_id (tc_lead x)"
        "the (turn_handoff t a)" "tc_audit x"
        "update_conversation (conv_id (tc_conversation x)) (merge_conversation t a) db"]
    by (simp add: record_outcome_def Let_def)
next
  case (Some p)
  show ?thesis
    using record_booking_frame [of "tc_tenant x" "conv_id (tc_conversation x)" "lead_id (tc_lead x)" p
        "pipe_offsets pipe" now "update_conversation (conv_id (tc_conversation x)) (merge_conversation t a) db"]
      enqueue_handoff_frame [of "tc_tenant x" "conv_id (tc_conversation x)" "lead_id (tc_lead x)"
        "the (turn_handoff t a)" "tc_audit x" "record_booking (tc_tenant x) (conv_id (tc_conversation x))
          (lead_id (tc_lead x)) p (pipe_offsets pipe) now
          (update_conversation (conv_id (tc_conversation x)) (merge_conversation t a) db)"]
    by (auto simp: record_outcome_def Let_def Some)
qed

text \<open>Consent events only add to the consents and the audit log.\<close>

lemma record_notice_frame:
  "tenants (record_notice tid cid lid ch v audit m db) = tenants db
   \<and> bookings (record_notice tid cid lid ch v audit m db) = bookings db
   \<and> handoffs (record_notice tid cid lid ch v audit m db) = handoffs db
   \<and> conversations (record_notice tid cid lid ch v audit m db) = conversations db
   \<and> messages (record_notice tid cid lid ch v audit m db) = messages db
   \<and> tx_now (record_notice tid cid lid ch v audit m db) = tx_now db
   \<and> next_id db \<le> next_id (record_notice tid cid lid ch v audit m db)"
  by (simp add: record_notice_def add_consent_def write_audit_def new_id_def Let_def)

lemma record_consent_frame:
  assumes "record_consent pb tid cid lid ch loc audit rendered prior signal ev txt db = Some db'"
  shows "tenants db' = tenants db \<and> bookings db' = bookings db \<and> handoffs db' = handoffs db
    \<and> conversations db' = conversations db \<and> messages db' = messages db \<and> tx_now db' = tx_now db
    \<and> next_id db \<le> next_id db'"
proof -
  let ?v = "policy_version_of pb (Some loc)"
  have notices: "tenants d = tenants db \<and> bookings d = bookings db \<and> handoffs d = handoffs db
    \<and> conversations d = conversations db \<and> messages d = messages db \<and> tx_now d = tx_now db
    \<and> next_id db \<le> next_id d" if "d = fold (record_notice tid cid lid ch ?v audit) ms db" for d ms db
    using that
  proof (induction ms arbitrary: db)
    case (Cons m ms)
    then show ?case using record_notice_frame [of tid cid lid ch ?v audit m db] by fastforce
  qed simp
  from assms notices [OF refl] show ?thesis
    by (auto simp: record_consent_def Let_def add_consent_def write_audit_def new_id_def
        split: if_splits option.splits intro: le_trans le_SucI)
qed

subsection \<open>A whole turn\<close>

definition decided :: "'w pipeline \<Rightarrow> turn_context \<Rightarrow> inbound_message \<Rightarrow> store \<Rightarrow> transition" where
  "decided pipe x inb db = advance (machine_input_of pipe x (in_text inb) db)"

definition after_action ::
    "'w pipeline \<Rightarrow> turn_context \<Rightarrow> transition \<Rightarrow> 'w action_result \<Rightarrow> 'w run \<Rightarrow> store \<Rightarrow> store" where
  "after_action pipe x t a s db =
     record_outcome pipe x t a (wall pipe s) (write_all (tc_audit x) (trail s) db)"

text \<open>An answered turn: what was decided, what came of it, what was said.\<close>

definition answered ::
    "'w pipeline \<Rightarrow> turn_context \<Rightarrow> inbound_message \<Rightarrow> string \<Rightarrow> store \<Rightarrow> 'w run
       \<Rightarrow> 'w action_result \<Rightarrow> outbound_message list \<Rightarrow> store \<Rightarrow> 'w run \<Rightarrow> bool" where
  "answered pipe x inb corr db s a outs db3 s' \<longleftrightarrow> (let t = decided pipe x inb db in
     perform_turn (engine_of pipe x corr db s) x t (s\<lparr>trail := []\<rparr>) = Some (a, s')
     \<and> speak pipe x (in_text inb) (in_channel inb) (state_for_lead db (tc_tenant x) (turn_lead x))
         (t_phrases t @ a_phrases a) (after_action pipe x t a s' db) = Some (outs, db3))"

lemma answer_turnE:
  assumes "answer_turn pipe x inb corr db s = (Inr (r, db'), s')"
  obtains a db3 where "answered pipe x inb corr db s a (tr_outbound r) db3 s'"
    and "db' = touch (turn_conv x) (wall pipe s') db3"
    and "\<not> tr_duplicate r" and "tr_conversation r = turn_conv x" and "tr_lead r = turn_lead x"
    and "tr_turn r = turn_of x"
  using assms
  by (auto simp: answer_turn_def Let_def answered_def decided_def after_action_def turn_conv_def
      turn_lead_def turn_of_def silent_result_def split: option.splits prod.splits)

lemma speak_effect:
  assumes "speak pipe x txt ch prior specs db = Some (outs, db')"
  shows "tenants db' = tenants db" and "bookings db' = bookings db" and "handoffs db' = handoffs db"
    and "conversations db' = conversations db" and "tx_now db' = tx_now db"
    and "render_all (pipe_phrasebank pipe) (lead_locale (tc_lead x)) specs = Some (map om_message outs)"
    and "list_all (\<lambda>y. om_conversation y = turn_conv x \<and> om_lead y = turn_lead x) outs"
    and "\<exists>rows. messages db' = messages db @ rows \<and> map said rows = map shown outs
           \<and> list_all (\<lambda>m. msg_tenant m = tc_tenant x \<and> msg_channel m = ch \<and> msg_turn m = turn_of x) rows"
    and "\<exists>db1. record_consent (pipe_phrasebank pipe) (tc_tenant x) (turn_conv x) (turn_lead x) ch
           (lead_locale (tc_lead x)) (tc_audit x) (map om_message outs) prior (classify txt)
           (msg_id (tc_message x)) txt db = Some db1 \<and> consents db' = consents db1"
proof -
  obtain rendered db1 where r: "render_all (pipe_phrasebank pipe) (lead_locale (tc_lead x)) specs = Some rendered"
    and c: "record_consent (pipe_phrasebank pipe) (tc_tenant x) (turn_conv x) (turn_lead x) ch
           (lead_locale (tc_lead x)) (tc_audit x) rendered prior (classify txt)
           (msg_id (tc_message x)) txt db = Some db1"
    and e: "emit (tc_tenant x) (turn_conv x) (turn_lead x) ch (turn_of x) (tc_audit x) rendered db1 = (outs, db')"
    using assms by (auto simp: speak_def Let_def turn_conv_def turn_lead_def turn_of_def split: option.splits)
  note emitted = emit_effect [OF e]
  note consented = record_consent_frame [OF c]
  show "tenants db' = tenants db" "bookings db' = bookings db" "handoffs db' = handoffs db"
    "conversations db' = conversations db" "tx_now db' = tx_now db"
    "list_all (\<lambda>y. om_conversation y = turn_conv x \<and> om_lead y = turn_lead x) outs"
    using emitted consented by (auto simp: core_def)
  show "render_all (pipe_phrasebank pipe) (lead_locale (tc_lead x)) specs = Some (map om_message outs)"
    using r emitted by blast
  show "\<exists>rows. messages db' = messages db @ rows \<and> map said rows = map shown outs
           \<and> list_all (\<lambda>m. msg_tenant m = tc_tenant x \<and> msg_channel m = ch \<and> msg_turn m = turn_of x) rows"
    using emitted consented by simp
  show "\<exists>db1. record_consent (pipe_phrasebank pipe) (tc_tenant x) (turn_conv x) (turn_lead x) ch
           (lead_locale (tc_lead x)) (tc_audit x) (map om_message outs) prior (classify txt)
           (msg_id (tc_message x)) txt db = Some db1 \<and> consents db' = consents db1"
    using c emitted by (auto simp: core_def)
qed

lemma after_action_frame:
  "tenants (after_action pipe x t a s db) = tenants db
   \<and> consents (after_action pipe x t a s db) = consents db
   \<and> messages (after_action pipe x t a s db) = messages db
   \<and> tx_now (after_action pipe x t a s db) = tx_now db
   \<and> next_id db \<le> next_id (after_action pipe x t a s db)
   \<and> (a_booking a = None \<longrightarrow> bookings (after_action pipe x t a s db) = bookings db)
   \<and> (\<not> truthy (turn_handoff t a) \<longrightarrow> handoffs (after_action pipe x t a s db) = handoffs db)"
  using record_outcome_frame [of pipe x t a "wall pipe s" "write_all (tc_audit x) (trail s) db"]
    steady_write_all [of db "tc_audit x" "trail s"]
  by (simp add: after_action_def steady_def core_def)

text \<open>The transcript of a turn: the consumer's message, then exactly what was said.\<close>

definition transcript ::
    "inbound_message \<Rightarrow> 'w turn_result \<Rightarrow> message \<Rightarrow> message list \<Rightarrow> bool" where
  "transcript inb r m rows \<longleftrightarrow>
     said m = (INBOUND, tr_conversation r, tr_lead r, None, in_text inb)
     \<and> msg_channel m = in_channel inb \<and> provider_message_id m = in_provider_message_id inb
     \<and> map said rows = map shown (tr_outbound r)
     \<and> list_all (\<lambda>y. om_conversation y = tr_conversation r \<and> om_lead y = tr_lead r) (tr_outbound r)
     \<and> list_all (\<lambda>y. msg_turn y = tr_turn r \<and> msg_tenant y = msg_tenant m) (m # rows)"

lemma new_turn_transcript:
  assumes "new_turn pipe t inb corr audit db s = (Inr (r, db'), s')"
  shows "tenants db' = tenants db \<and> \<not> tr_duplicate r \<and> tr_turn r = trail_turn_id audit
    \<and> (\<exists>m rows. messages db' = messages db @ m # rows \<and> transcript inb r m rows
          \<and> msg_tenant m = tenant_uid t)"
proof -
  let ?now = "wall pipe s"
  obtain x db1 where x: "open_turn t inb ?now audit db = (x, db1)" by fastforce
  note opened = open_turn_effect [OF x]
  consider (muted) "bot_muted (tc_conversation x)"
    | (rated) db2 where "\<not> bot_muted (tc_conversation x)" "rating_captured x (in_text inb) ?now db1 = Some db2"
    | (answered) "\<not> bot_muted (tc_conversation x)" "rating_captured x (in_text inb) ?now db1 = None"
    by (cases "rating_captured x (in_text inb) ?now db1") auto
  then show ?thesis
  proof cases
    case muted
    then have r: "muted_turn x ?now db1 = (r, db')" using assms x by (auto simp: new_turn_def Let_def)
    have "steady db1 db'" using r steady_trans [OF steady_write_audit steady_touch]
      by (auto simp: muted_turn_def Let_def)
    with r opened show ?thesis
      by (auto simp: muted_turn_def Let_def silent_result_def steady_def core_def transcript_def
          inbound_row_def turn_conv_def turn_lead_def turn_of_def intro!: exI [of _ "[]"])
  next
    case (rated db2)
    then have "thanks_turn pipe x (in_channel inb) ?now db2 = Some (r, db')"
      using assms x by (auto simp: new_turn_def Let_def split: option.splits)
    then obtain m outs db3 where
      e: "emit (tc_tenant x) (turn_conv x) (turn_lead x) (in_channel inb) (turn_of x) (tc_audit x) [m] db2
        = (outs, db3)"
      and r: "r = silent_result (turn_of x) (turn_conv x) (turn_lead x)
          \<lparr>tr_outbound := outs, tr_state := Some (conv_state (tc_conversation x))\<rparr>"
        "db' = touch (turn_conv x) ?now db3"
      by (auto simp: thanks_turn_def Let_def turn_conv_def turn_lead_def turn_of_def split: option.splits
          prod.splits)
    have "steady db1 db2" by (rule steady_rating_captured) (rule rated(2))
    with emit_effect [OF e] r opened steady_touch [of db3 "turn_conv x" ?now] show ?thesis
      by (auto simp: silent_result_def steady_def core_def transcript_def inbound_row_def
          list_all_iff Let_def)
  next
    case answered
    then have "answer_turn pipe x inb corr db1 s = (Inr (r, db'), s')"
      using assms x by (auto simp: new_turn_def Let_def)
    then obtain a db3 where ans: "answered pipe x inb corr db1 s a (tr_outbound r) db3 s'"
      and r: "db' = touch (turn_conv x) (wall pipe s') db3" "\<not> tr_duplicate r"
        "tr_conversation r = turn_conv x" "tr_lead r = turn_lead x" "tr_turn r = turn_of x"
      by (rule answer_turnE)
    let ?t = "decided pipe x inb db1"
    from ans have "speak pipe x (in_text inb) (in_channel inb) (state_for_lead db1 (tc_tenant x) (turn_lead x))
         (t_phrases ?t @ a_phrases a) (after_action pipe x ?t a s' db1) = Some (tr_outbound r, db3)"
      by (simp add: answered_def Let_def)
    note said = speak_effect(1,7,8) [OF this]
    from said after_action_frame [of pipe x ?t a s' db1] r opened
      steady_touch [of db3 "turn_conv x" "wall pipe s'"] show ?thesis
      by (auto simp: steady_def core_def transcript_def inbound_row_def list_all_iff Let_def)
  qed
qed

lemma handle_inboundE:
  assumes "handle_inbound pipe inb corr db s = (Inr (r, db'), s')"
  obtains (duplicate) t m where "get_by_slug db (in_tenant_slug inb) = Some t"
      and "seen_before db (tenant_uid t) inb = Some m" and "s' = s"
      and "(r, db') = duplicate_turn inb m (new_trail (tenant_uid t) corr (next_id db)) (snd (new_id db))"
  | (turn) t where "get_by_slug db (in_tenant_slug inb) = Some t"
      and "seen_before db (tenant_uid t) inb = None"
      and "new_turn pipe t inb corr (new_trail (tenant_uid t) corr (next_id db)) (snd (new_id db)) s
         = (Inr (r, db'), s')"
proof -
  have seen: "seen_before (snd (new_id db)) tid inb = seen_before db tid inb" for tid
    by (simp add: seen_before_def find_by_provider_id_def new_id_def)
  from assms show ?thesis
    by (auto simp: handle_inbound_def new_id_def Let_def split: option.splits
        intro: duplicate turn simp flip: seen [unfolded new_id_def snd_conv])
qed

end
