(* ===== verification/Pipeline_Consent.thy ===== *)
theory Pipeline_Consent
  imports Pipeline_Facts States_Props
begin

text \<open>
  Consent across a turn: the state of every lead after a turn is given by one function of the
  state before, the signal of the message and whether the notice went out, and nothing is booked
  for a lead who has not granted it.
\<close>

subsection \<open>The automaton\<close>

definition consent_after :: "consent_signal \<Rightarrow> bool \<Rightarrow> consent_state \<Rightarrow> consent_state" where
  "consent_after signal notice c =
     (if signal = WITHDRAWAL then consent_state.WITHDRAWN
      else if signal = AFFIRMATIVE \<and> c = NOTICE_SHOWN then GRANTED
      else if notice \<and> c = UNKNOWN then NOTICE_SHOWN else c)"

definition shows_notice :: "rendered_message list \<Rightarrow> bool" where
  "shows_notice msgs \<longleftrightarrow> list_ex (\<lambda>m. rm_key m = phrase_key_value phrase_key.CONSENT_NOTICE) msgs"

lemma consent_after_WITHDRAWN: "consent_after signal notice consent_state.WITHDRAWN = consent_state.WITHDRAWN"
  by (simp add: consent_after_def)

subsection \<open>Recording\<close>

lemma state_for_lead_cong: "consents db' = consents db \<Longrightarrow> state_for_lead db' = state_for_lead db"
  by (intro ext) (simp add: state_for_lead_def latest_decisive_def has_been_shown_notice_def
      consents_of_def)

lemma consents_past_cong:
  "consents db' = consents db \<Longrightarrow> tx_now db' = tx_now db \<Longrightarrow> next_id db \<le> next_id db' \<Longrightarrow>
   consents_past db \<Longrightarrow> consents_past db'"
  by (auto simp: consents_past_def)

lemma consents_past_add: "consents_past db \<Longrightarrow> consents_past (add_consent t l c e v w loc ch ev db)"
  by (auto simp: consents_past_def add_consent_def new_id_def Let_def)

lemma state_of_other:
  "(t, l) \<noteq> (tid, lid) \<Longrightarrow>
   state_for_lead (add_consent tid lid c e v w loc ch ev db) t l = state_for_lead db t l"
  by (auto simp: state_for_lead_def latest_decisive_def has_been_shown_notice_def consents_of_add)

lemma state_write_audit [simp]: "state_for_lead (write_audit a e db) = state_for_lead db"
  by (rule state_for_lead_cong) (simp add: write_audit_def)

lemma consents_past_write_audit [simp]: "consents_past (write_audit a e db) = consents_past db"
  by (simp add: consents_past_def write_audit_def)

lemma state_after_notices:
  "state_for_lead (fold (record_notice tid cid lid ch v audit) msgs db) t l =
     (if (t, l) = (tid, lid) \<and> shows_notice msgs \<and> state_for_lead db t l = UNKNOWN
      then NOTICE_SHOWN else state_for_lead db t l)
   \<and> (consents_past db \<longrightarrow> consents_past (fold (record_notice tid cid lid ch v audit) msgs db))"
proof (induction msgs arbitrary: db)
  case Nil
  then show ?case by (simp add: shows_notice_def)
next
  case (Cons m msgs)
  have "state_for_lead (record_notice tid cid lid ch v audit m db) t l =
      (if (t, l) = (tid, lid) \<and> rm_key m = phrase_key_value phrase_key.CONSENT_NOTICE
          \<and> state_for_lead db t l = UNKNOWN then NOTICE_SHOWN else state_for_lead db t l)"
    by (cases "(t, l) = (tid, lid)") (auto simp: record_notice_def state_after_notice state_of_other)
  moreover have "consents_past db \<longrightarrow> consents_past (record_notice tid cid lid ch v audit m db)"
    by (simp add: record_notice_def consents_past_add)
  ultimately show ?case
    using Cons.IH [of "record_notice tid cid lid ch v audit m db"]
    by (auto simp: shows_notice_def)
qed

lemma record_consent_state:
  assumes "record_consent pb tid cid lid ch loc audit msgs prior signal ev txt db = Some db'"
    and "consents_past db" and "prior = state_for_lead db tid lid"
  shows "state_for_lead db' t l =
     (if (t, l) = (tid, lid) then consent_after signal (shows_notice msgs) prior
      else state_for_lead db t l)"
proof -
  let ?v = "policy_version_of pb (Some loc)"
  let ?db1 = "fold (record_notice tid cid lid ch ?v audit) msgs db"
  have past: "consents_past ?db1" and st: "\<And>t l. state_for_lead ?db1 t l =
     (if (t, l) = (tid, lid) \<and> shows_notice msgs \<and> state_for_lead db t l = UNKNOWN
      then NOTICE_SHOWN else state_for_lead db t l)"
    using state_after_notices assms(2) by blast+
  consider (stop) w where "signal = WITHDRAWAL"
      "db' = write_audit audit (Consent_Withdrawn ?v txt) (add_consent tid lid (Some cid)
         consent_event.WITHDRAWN ?v w loc ch (Some ev) ?db1)"
    | (grant) w where "signal = AFFIRMATIVE" "prior = NOTICE_SHOWN"
      "db' = write_audit audit (Consent_Granted ?v txt) (add_consent tid lid (Some cid)
         consent_event.GRANTED ?v w loc ch (Some ev) ?db1)"
    | (none) "signal \<noteq> WITHDRAWAL" "\<not> (signal = AFFIRMATIVE \<and> prior = NOTICE_SHOWN)" "db' = ?db1"
    using assms(1) by (auto simp: record_consent_def Let_def split: if_splits option.splits)
  then show ?thesis
  proof cases
    case (stop w)
    then show ?thesis
      using state_after_decision [OF past] by (auto simp: consent_after_def state_of_other st)
  next
    case (grant w)
    then show ?thesis
      using state_after_decision [OF past] by (auto simp: consent_after_def state_of_other st)
  next
    case none
    then show ?thesis using assms(3) by (auto simp: consent_after_def st)
  qed
qed

subsection \<open>The turn\<close>

text \<open>A turn the machine answers, as against a duplicate, a muted thread or a rating.\<close>

definition reaches_machine :: "'w pipeline \<Rightarrow> inbound_message \<Rightarrow> store \<Rightarrow> 'w run \<Rightarrow> string \<Rightarrow> bool" where
  "reaches_machine pipe inb db s corr \<longleftrightarrow>
     (case get_by_slug db (in_tenant_slug inb) of
        None \<Rightarrow> False
      | Some t \<Rightarrow>
          seen_before db (tenant_uid t) inb = None \<and>
          (let (x, db1) = open_turn t inb (wall pipe s) (new_trail (tenant_uid t) corr (next_id db))
                 (snd (new_id db))
           in \<not> bot_muted (tc_conversation x) \<and> rating_captured x (in_text inb) (wall pipe s) db1 = None))"

lemma core_new_id [simp]: "core (snd (new_id db)) = core db"
  by (simp add: core_def new_id_def)

lemma new_turn_machine:
  assumes "new_turn pipe t inb corr audit db s = (Inr (r, db'), s')"
    and "open_turn t inb (wall pipe s) audit db = (x, db1)"
    and "\<not> bot_muted (tc_conversation x)" and "rating_captured x (in_text inb) (wall pipe s) db1 = None"
  shows "answer_turn pipe x inb corr db1 s = (Inr (r, db'), s')"
  using assms by (auto simp: new_turn_def Let_def)

lemma thanks_turn_core:
  assumes "thanks_turn pipe x ch now db = Some (r, db')"
  shows "core db' = core db"
proof -
  obtain m outs db3 where
    e: "emit (tc_tenant x) (turn_conv x) (turn_lead x) ch (turn_of x) (tc_audit x) [m] db = (outs, db3)"
    and "db' = touch (turn_conv x) now db3"
    using assms by (auto simp: thanks_turn_def Let_def turn_conv_def turn_lead_def turn_of_def
        split: option.splits prod.splits)
  then show ?thesis using emit_effect [OF e] steady_touch [of db3] by (simp add: steady_def)
qed

lemma new_turn_quiet:
  assumes "new_turn pipe t inb corr audit db s = (Inr (r, db'), s')"
    and "open_turn t inb (wall pipe s) audit db = (x, db1)"
    and "bot_muted (tc_conversation x) \<or> rating_captured x (in_text inb) (wall pipe s) db1 \<noteq> None"
  shows "core db' = core db \<and> s' = s"
proof -
  have opened: "core db1 = core db" using open_turn_effect [OF assms(2)] by simp
  show ?thesis
  proof (cases "bot_muted (tc_conversation x)")
    case True
    then show ?thesis
      using assms(1,2) opened by (auto simp: new_turn_def Let_def muted_turn_def core_def write_audit_def touch_def)
  next
    case False
    then obtain db2 where db2: "rating_captured x (in_text inb) (wall pipe s) db1 = Some db2"
      using assms(3) by auto
    then have "thanks_turn pipe x (in_channel inb) (wall pipe s) db2 = Some (r, db')" "s' = s"
      using assms(1,2) False by (auto simp: new_turn_def Let_def split: option.splits)
    moreover have "core db2 = core db1" using steady_rating_captured [OF db2] by (simp add: steady_def)
    ultimately show ?thesis using opened thanks_turn_core by fastforce
  qed
qed

text \<open>Consent after an answered turn.\<close>

lemma answered_consent:
  assumes "answered pipe x inb corr db s a outs db3 s'" and "consents_past db"
  shows "state_for_lead db3 t l =
    (if (t, l) = (tc_tenant x, turn_lead x)
     then consent_after (classify (in_text inb)) (shows_notice (map om_message outs)) (state_for_lead db t l)
     else state_for_lead db t l)"
proof -
  let ?t = "decided pipe x inb db"
  let ?db2 = "after_action pipe x ?t a s' db"
  have same: "consents ?db2 = consents db" "tx_now ?db2 = tx_now db" "next_id db \<le> next_id ?db2"
    using after_action_frame by blast+
  have st: "state_for_lead ?db2 = state_for_lead db" using same(1) by (rule state_for_lead_cong)
  have past: "consents_past ?db2" using consents_past_cong [OF same assms(2)] .
  have said: "speak pipe x (in_text inb) (in_channel inb) (state_for_lead db (tc_tenant x) (turn_lead x))
     (t_phrases ?t @ a_phrases a) ?db2 = Some (outs, db3)"
    using assms(1) by (simp add: answered_def Let_def)
  obtain db1 where rec: "record_consent (pipe_phrasebank pipe) (tc_tenant x) (turn_conv x) (turn_lead x)
      (in_channel inb) (lead_locale (tc_lead x)) (tc_audit x) (map om_message outs)
      (state_for_lead db (tc_tenant x) (turn_lead x)) (classify (in_text inb)) (msg_id (tc_message x))
      (in_text inb) ?db2 = Some db1" and "consents db3 = consents db1"
    using speak_effect(9) [OF said] by blast
  have "state_for_lead db3 = state_for_lead db1"
    using \<open>consents db3 = consents db1\<close> by (rule state_for_lead_cong)
  with record_consent_state [OF rec past] st show ?thesis by simp
qed

lemma tr_duplicate_new_turn: "new_turn pipe t inb corr audit db s = (Inr (r, db'), s') \<Longrightarrow> \<not> tr_duplicate r"
  using new_turn_transcript by blast

text \<open>C20. The consent record is a function of what was said. For every lead, the state after a turn is
  the state before it, except for the lead who wrote, in a turn the machine answers: there STOP
  makes it withdrawn, an agreeing message makes a shown notice granted, and a notice that really
  went out turns unknown into shown. In particular a withdrawal is never undone.\<close>

theorem consent_follows_the_conversation:
  assumes "consents_past db" and "handle_inbound pipe inb corr db s = (Inr (r, db'), s')"
  shows "state_for_lead db' tid lid =
    (if reaches_machine pipe inb db s corr \<and> lid = tr_lead r
        \<and> (case get_by_slug db (in_tenant_slug inb) of None \<Rightarrow> False | Some t \<Rightarrow> tid = tenant_uid t)
     then consent_after (classify (in_text inb)) (shows_notice (map om_message (tr_outbound r)))
            (state_for_lead db tid lid)
     else state_for_lead db tid lid)"
  using assms(2)
proof (cases rule: handle_inboundE)
  case (duplicate t m)
  then have "consents db' = consents db" by (simp add: duplicate_turn_def write_audit_def new_id_def)
  with duplicate show ?thesis using state_for_lead_cong [of db' db] by (simp add: reaches_machine_def)
next
  case (turn t)
  let ?audit = "new_trail (tenant_uid t) corr (next_id db)"
  obtain x db1 where x: "open_turn t inb (wall pipe s) ?audit (snd (new_id db)) = (x, db1)" by fastforce
  have opened: "core db1 = core db" "next_id db \<le> next_id db1" "tc_tenant x = tenant_uid t"
    using open_turn_effect [OF x] by (auto simp: new_id_def core_def)
  have reach: "reaches_machine pipe inb db s corr \<longleftrightarrow> \<not> bot_muted (tc_conversation x)
      \<and> rating_captured x (in_text inb) (wall pipe s) db1 = None"
    using turn x by (simp add: reaches_machine_def)
  show ?thesis
  proof (cases "reaches_machine pipe inb db s corr")
    case False
    then have "core db' = core db" using new_turn_quiet [OF turn(3) x] reach by auto
    then have "consents db' = consents db" by (simp add: core_def)
    with False show ?thesis using state_for_lead_cong [of db' db] by simp
  next
    case True
    then have m: "\<not> bot_muted (tc_conversation x)"
      and q: "rating_captured x (in_text inb) (wall pipe s) db1 = None" using reach by auto
    from new_turn_machine [OF turn(3) x m q] obtain a db3 where ans: "answered pipe x inb corr db1 s a (tr_outbound r) db3 s'"
      and r: "db' = touch (turn_conv x) (wall pipe s') db3" "tr_lead r = turn_lead x"
      by (rule answer_turnE)
    have past: "consents_past db1"
      using consents_past_cong [of db1 db] opened assms(1) by (auto simp: core_def)
    have "state_for_lead db1 = state_for_lead db" "state_for_lead db' = state_for_lead db3"
      using opened r(1) by (auto intro!: state_for_lead_cong simp: core_def touch_def)
    with answered_consent [OF ans past, of tid lid] True r(2) opened(3) turn(1) show ?thesis
      by auto
  qed
qed

subsection \<open>Bookings\<close>

lemma perform_no_booking: "a_booking (fst (perform eng t s)) = None"
  by (auto simp: perform_def perform_search_def from_search_def offer_found_def hand_over_def
      no_result_def Let_def split: turn_action.splits prod.splits search_status.splits option.splits)

lemma booking_needs_BOOK:
  "perform_turn eng x t s = Some (a, s') \<Longrightarrow> a_booking a \<noteq> None \<Longrightarrow> t_action t = BOOK"
  using perform_no_booking [of eng t s] by (auto simp: perform_turn_def split: if_splits)

definition fresh_booking :: "uid \<Rightarrow> uid \<Rightarrow> uid \<Rightarrow> booking \<Rightarrow> bool" where
  "fresh_booking tid cid lid b \<longleftrightarrow> bk_tenant b = tid \<and> bk_conversation b = cid \<and> bk_lead b = lid
     \<and> bk_status b = booking_status.CONFIRMED"

lemma record_booking_rows:
  "\<exists>new. bookings (record_booking tid cid lid p f now db) = bookings db @ new \<and> length new \<le> 1
     \<and> list_all (fresh_booking tid cid lid) new"
  by (auto simp: record_booking_def Let_def new_id_def schedule_for_booking_frame fresh_booking_def
      split: option.splits intro: exI [of _ "[]"])

lemma after_action_bookings:
  "\<exists>new. bookings (after_action pipe x t a s db) = bookings db @ new \<and> length new \<le> 1
     \<and> list_all (fresh_booking (tc_tenant x) (turn_conv x) (turn_lead x)) new"
proof -
  let ?db = "update_conversation (turn_conv x) (merge_conversation t a) (write_all (tc_audit x) (trail s) db)"
  have "bookings ?db = bookings db" using steady_write_all [of db] by (simp add: steady_def core_def)
  then show ?thesis
    using record_booking_rows [of "tc_tenant x" "turn_conv x" "turn_lead x" _ "pipe_offsets pipe"
        "wall pipe s" ?db]
    by (auto simp: after_action_def record_outcome_def Let_def enqueue_handoff_frame turn_conv_def
        turn_lead_def split: option.splits intro: exI [of _ "[]"])
qed

lemma effective_GRANTED:
  "effective_consent signal c = GRANTED \<Longrightarrow> signal \<noteq> WITHDRAWAL \<Longrightarrow>
   consent_after signal notice c = GRANTED \<and> c \<in> {NOTICE_SHOWN, GRANTED}"
  by (auto simp: effective_consent_def consent_after_def split: if_splits)

lemma answered_bookings:
  assumes "answered pipe x inb corr db s a outs db3 s'" and "consents_past db"
  obtains new where "bookings db3 = bookings db @ new" and "length new \<le> 1"
    and "list_all (\<lambda>b. fresh_booking (tc_tenant x) (turn_conv x) (turn_lead x) b
          \<and> state_for_lead db (bk_tenant b) (bk_lead b) \<in> {NOTICE_SHOWN, GRANTED}
          \<and> state_for_lead db3 (bk_tenant b) (bk_lead b) = GRANTED) new"
proof -
  let ?t = "decided pipe x inb db"
  let ?i = "machine_input_of pipe x (in_text inb) db"
  let ?c = "state_for_lead db (tc_tenant x) (turn_lead x)"
  from assms(1) have perf: "perform_turn (engine_of pipe x corr db s) x ?t (s\<lparr>trail := []\<rparr>) = Some (a, s')"
    and said: "speak pipe x (in_text inb) (in_channel inb) ?c (t_phrases ?t @ a_phrases a)
      (after_action pipe x ?t a s' db) = Some (outs, db3)" by (auto simp: answered_def Let_def)
  have bk: "bookings db3 = bookings (after_action pipe x ?t a s' db)" using speak_effect(2) [OF said] .
  show thesis
  proof (cases "a_booking a")
    case None
    with bk that [of "[]"] after_action_frame [of pipe x ?t a s' db] show thesis by simp
  next
    case (Some p)
    then have "t_action ?t = BOOK" using booking_needs_BOOK [OF perf] by simp
    then have "m_consent ?i = GRANTED" "engaged ?i" unfolding decided_def advance_BOOK by blast+
    then have "effective_consent (classify (in_text inb)) ?c = GRANTED" "classify (in_text inb) \<noteq> WITHDRAWAL"
      by (auto simp: machine_input_of_def engaged_def Let_def turn_lead_def)
    then have granted: "consent_after (classify (in_text inb)) n ?c = GRANTED \<and> ?c \<in> {NOTICE_SHOWN, GRANTED}"
      for n by (rule effective_GRANTED)
    obtain new where new: "bookings (after_action pipe x ?t a s' db) = bookings db @ new" "length new \<le> 1"
      "list_all (fresh_booking (tc_tenant x) (turn_conv x) (turn_lead x)) new"
      using after_action_bookings by blast
    have "state_for_lead db3 (tc_tenant x) (turn_lead x) = GRANTED"
      using answered_consent [OF assms] granted by simp
    with new granted have "list_all (\<lambda>b. fresh_booking (tc_tenant x) (turn_conv x) (turn_lead x) b
          \<and> state_for_lead db (bk_tenant b) (bk_lead b) \<in> {NOTICE_SHOWN, GRANTED}
          \<and> state_for_lead db3 (bk_tenant b) (bk_lead b) = GRANTED) new"
      by (auto simp: list_all_iff fresh_booking_def)
    with new bk that show thesis by simp
  qed
qed

text \<open>C18. No booking without recorded consent. A turn adds at most one booking; it is confirmed, of the
  conversation and the lead of the turn, and of a lead who had been shown the notice and whose
  consent is on record as granted when the turn ends.\<close>

theorem booked_leads_have_consented:
  assumes "consents_past db" and "handle_inbound pipe inb corr db s = (Inr (r, db'), s')"
  shows "\<exists>new. bookings db' = bookings db @ new \<and> length new \<le> 1 \<and>
    list_all (\<lambda>b. fresh_booking (bk_tenant b) (tr_conversation r) (tr_lead r) b
      \<and> state_for_lead db (bk_tenant b) (bk_lead b) \<in> {NOTICE_SHOWN, GRANTED}
      \<and> state_for_lead db' (bk_tenant b) (bk_lead b) = GRANTED) new"
  using assms(2)
proof (cases rule: handle_inboundE)
  case (duplicate t m)
  then show ?thesis by (intro exI [of _ "[]"]) (simp add: duplicate_turn_def write_audit_def new_id_def)
next
  case (turn t)
  let ?audit = "new_trail (tenant_uid t) corr (next_id db)"
  obtain x db1 where x: "open_turn t inb (wall pipe s) ?audit (snd (new_id db)) = (x, db1)" by fastforce
  have opened: "core db1 = core db" "next_id db \<le> next_id db1"
    using open_turn_effect [OF x] by (auto simp: new_id_def core_def)
  show ?thesis
  proof (cases "bot_muted (tc_conversation x) \<or> rating_captured x (in_text inb) (wall pipe s) db1 \<noteq> None")
    case True
    with new_turn_quiet [OF turn(3) x] show ?thesis
      by (intro exI [of _ "[]"]) (simp add: core_def new_id_def)
  next
    case False
    then have m: "\<not> bot_muted (tc_conversation x)"
      and q: "rating_captured x (in_text inb) (wall pipe s) db1 = None" by auto
    from new_turn_machine [OF turn(3) x m q] obtain a db3 where
      ans: "answered pipe x inb corr db1 s a (tr_outbound r) db3 s'"
      and r: "db' = touch (turn_conv x) (wall pipe s') db3" "tr_lead r = turn_lead x"
        "tr_conversation r = turn_conv x" by (rule answer_turnE)
    have past: "consents_past db1"
      using consents_past_cong [of db1 db] opened assms(1) by (auto simp: core_def)
    have st: "state_for_lead db1 = state_for_lead db" "state_for_lead db' = state_for_lead db3"
      using opened r(1) by (auto intro!: state_for_lead_cong simp: core_def touch_def)
    obtain new where "bookings db3 = bookings db1 @ new" "length new \<le> 1"
      "list_all (\<lambda>b. fresh_booking (tc_tenant x) (turn_conv x) (turn_lead x) b
          \<and> state_for_lead db1 (bk_tenant b) (bk_lead b) \<in> {NOTICE_SHOWN, GRANTED}
          \<and> state_for_lead db3 (bk_tenant b) (bk_lead b) = GRANTED) new"
      by (rule answered_bookings [OF ans past])
    then show ?thesis
      using opened r st by (intro exI [of _ new]) (auto simp: core_def touch_def list_all_iff fresh_booking_def)
  qed
qed

end
