(* ===== verification/Pipeline_Samples.thy ===== *)
theory Pipeline_Samples
  imports Pipeline_Facts Samples
begin

text \<open>
  A small deployment on which the theorems about turns are exercised: one tenant, one lead with a
  pending offer on the happy fake, a language model that reads every message as a yes, and a
  phrasebank with the few phrases such a turn needs.
\<close>

definition sample_copy :: phrasebank where
  "sample_copy = \<lparr>locales = [(''en'', \<lparr>locale_name = ''en'', policy_version = ''1'',
     phrases = [(''greeting.welcome'', ''Hey''), (''consent.notice'', ''Notice''),
       (''booking.confirmed'', ''Booked at $venue''), (''handoff.connecting'', ''One moment'')]\<rparr>)],
     fallback_locale = ''en''\<rparr>"

definition reads_yes :: llm where
  "reads_yes _ = Llm_Object [(''confirmation'', Some \<lparr>as_text = ''yes'', as_bool = True,
     as_items = None\<rparr>)]"

definition sample_pipe :: "fake_world pipeline" where
  "sample_pipe = \<lparr>pipe_registry = [(''fake_happy'', happy_fake sample_style 0)],
     pipe_secrets = (\<lambda>_. None), pipe_phrasebank = sample_copy, pipe_llm = reads_yes,
     pipe_deadline_ms = 2500, pipe_tz = dubai, pipe_offsets = None, pipe_epoch = 0\<rparr>"

definition sample_tenant :: tenant where
  "sample_tenant = \<lparr>tenant_uid = 1, tenant_slug = ''m'', tenant_name = ''M'', default_locale = ''en''\<rparr>"

definition sample_offered :: slot where
  "sample_offered = sample_slot\<lparr>slot_merchant := (sample_merchant ''fake_happy'')\<rparr>"

definition offered_conversation :: conversation where
  "offered_conversation = (new_conversation 3 1 2 WHATSAPP ''en'' 0)\<lparr>conv_state := ''confirmation'',
     pending_offer := offer_payload sample_offered category.SALON False\<rparr>"

definition sample_db :: store where
  "sample_db = (empty_store 0)\<lparr>tenants := [sample_tenant],
     leads := [new_lead 2 1 ''971'' ''en'' 0], conversations := [offered_conversation],
     consents := [\<lparr>con_id = 4, con_tenant = 1, con_lead = 2, con_conversation = Some 3,
       con_event = consent_event.NOTICE_SHOWN, con_policy_version = ''1'', con_wording = ''Notice'',
       con_locale = ''en'', con_channel = WHATSAPP, con_evidence = None, con_occurred_at = 0\<rparr>],
     routing := [\<lparr>rc_id = 5, rc_tenant = 1, rc_category = category.SALON,
       rc_platform = ''fake_happy'', rc_position = 0, rc_enabled = True\<rparr>],
     merchants := [\<lparr>mc_id = 6, mc_tenant = 1, mc_platform = ''fake_happy'', mc_name = ''Salon'',
       mc_area = None, mc_external_ids = [], mc_secret_ref = None, mc_active = True,
       mc_priority = 0\<rparr>], next_id := 10\<rparr>"

definition sample_inbound :: "string \<Rightarrow> string \<Rightarrow> inbound_message" where
  "sample_inbound w txt = \<lparr>in_tenant_slug = ''m'', in_channel = WHATSAPP, in_wa_id = w,
     in_text = txt, in_provider_message_id = Some ''wamid'', in_display_name = None\<rparr>"

text \<open>The stages of the turn in which the lead's yes becomes a booking.\<close>

definition yes_turn :: "turn_context \<times> store" where
  "yes_turn = open_turn sample_tenant (sample_inbound ''971'' ''yes'') 0 (new_trail 1 ''c'' 10)
     (snd (new_id sample_db))"

definition yes_decided :: "turn_context \<Rightarrow> store \<Rightarrow> transition" where
  "yes_decided x db = decided sample_pipe x (sample_inbound ''971'' ''yes'') db"

definition yes_done ::
    "turn_context \<Rightarrow> store \<Rightarrow> transition \<Rightarrow> (fake_world action_result \<times> fake_world run) option" where
  "yes_done x db t = perform_turn (engine_of sample_pipe x ''c'' db sample_run) x t (sample_run\<lparr>trail := []\<rparr>)"

definition yes_holds :: "turn_context \<Rightarrow> store \<Rightarrow> transition
    \<Rightarrow> (fake_world action_result \<times> fake_world run) option \<Rightarrow> bool" where
  "yes_holds x db t result = (case result of None \<Rightarrow> False | Some (a, s1) \<Rightarrow>
     render_all sample_copy (lead_locale (tc_lead x)) (t_phrases t @ a_phrases a) \<noteq> None
     \<and> map fst (t_phrases t @ a_phrases a) = [BOOKING_CONFIRMED]
     \<and> length (bookings (after_action sample_pipe x t a s1 db)) = 1)"

definition yes_acts :: "turn_context \<Rightarrow> store \<Rightarrow> transition \<Rightarrow> bool" where
  "yes_acts x db t \<longleftrightarrow> yes_holds x db t (yes_done x db t)"

definition yes_decides :: "turn_context \<times> store \<Rightarrow> bool" where
  "yes_decides p \<longleftrightarrow> yes_acts (fst p) (snd p) (yes_decided (fst p) (snd p))"

lemmas yes_stages = yes_decides_def yes_acts_def yes_holds_def yes_done_def yes_decided_def

lemma yes_turn_live: "case yes_turn of (x, db) \<Rightarrow> \<not> bot_muted (tc_conversation x)
    \<and> rating_captured x ''yes'' 0 db = None \<and> turn_lead x = 2"
  by code_simp

lemma yes_decides_live: "yes_decides yes_turn"
  by code_simp

lemma notice_worded: "raw sample_copy ''consent.notice'' (Some loc) \<noteq> None"
  by (simp add: raw_def locale_of_def sample_copy_def)

text \<open>A turn whose phrases render is spoken, if the notice has a wording.\<close>

lemma speak_returns:
  assumes "render_all (pipe_phrasebank pipe) (lead_locale (tc_lead x)) specs \<noteq> None"
    and "raw (pipe_phrasebank pipe) ''consent.notice'' (Some (lead_locale (tc_lead x))) \<noteq> None"
  obtains outs db' where "speak pipe x txt ch prior specs db = Some (outs, db')"
    and "map om_key outs = map (\<lambda>(k, v). phrase_key_value k) specs" and "bookings db' = bookings db"
proof -
  obtain rendered where r: "render_all (pipe_phrasebank pipe) (lead_locale (tc_lead x)) specs = Some rendered"
    using assms(1) by auto
  have "\<exists>outs db'. speak pipe x txt ch prior specs db = Some (outs, db')"
    using assms(2) by (auto simp: speak_def r record_consent_def Let_def phrase_key_value_def split: option.splits)
  then obtain outs db' where s: "speak pipe x txt ch prior specs db = Some (outs, db')" by blast
  have "map om_key outs = map rm_key (map om_message outs)" by (simp add: om_key_def)
  moreover have "rendered = map om_message outs" using speak_effect(6) [OF s] r by simp
  ultimately have "map om_key outs = map (\<lambda>(k, v). phrase_key_value k) specs"
    using render_all_keys [OF r] by metis
  with that s speak_effect(2) [OF s] show thesis by blast
qed

lemma sample_inbound_fields [simp]:
  "in_tenant_slug (sample_inbound w txt) = ''m''" "in_text (sample_inbound w txt) = txt"
  "in_channel (sample_inbound w txt) = WHATSAPP"
  "in_provider_message_id (sample_inbound w txt) = Some ''wamid''"
  by (simp_all add: sample_inbound_def)

lemma sample_db_unseen: "seen_before (snd (new_id sample_db)) 1 (sample_inbound ''971'' ''yes'') = None"
  by (simp add: seen_before_def find_by_provider_id_def scoped_def new_id_def sample_db_def empty_store_def)

lemma yes_opening:
  "get_by_slug sample_db ''m'' = Some sample_tenant" "fst (new_id sample_db) = 10"
  "wall sample_pipe sample_run = 0" "tenant_uid sample_tenant = 1"
  by (simp_all add: get_by_slug_def sample_db_def new_id_def wall_def sample_pipe_def sample_run_def
      sample_tenant_def empty_store_def)

lemma tenant_of_turn: "open_turn t inb now audit db = (x, db') \<Longrightarrow> tc_tenant x = tenant_uid t"
  by (rule open_turn_effect(3))

text \<open>The whole turn: it ends normally, with one booking and the confirmation said.\<close>

lemma yes_handled:
  obtains r db' s' where
    "handle_inbound sample_pipe (sample_inbound ''971'' ''yes'') ''c'' sample_db sample_run = (Inr (r, db'), s')"
    and "length (bookings db') = 1" and "map om_key (tr_outbound r) = [''booking.confirmed'']"
    and "tr_lead r = 2" and "\<not> tr_duplicate r"
proof -
  let ?inb = "sample_inbound ''971'' ''yes''"
  obtain x db where x: "yes_turn = (x, db)" by fastforce
  have live: "\<not> bot_muted (tc_conversation x)" "rating_captured x ''yes'' 0 db = None" "turn_lead x = 2"
    using yes_turn_live unfolding x prod.case by blast+
  have tid: "tc_tenant x = 1"
    using tenant_of_turn [OF x [unfolded yes_turn_def]] yes_opening(4) by simp
  define t where "t = advance (machine_input_of sample_pipe x ''yes'' db)"
  then have t: "advance (machine_input_of sample_pipe x ''yes'' db) = t" by simp
  have "yes_decides (x, db)" using yes_decides_live by (simp add: x)
  then obtain a s1 where
    p: "perform_turn (engine_of sample_pipe x ''c'' db sample_run) x t (sample_run\<lparr>trail := []\<rparr>) = Some (a, s1)"
    and shown: "render_all sample_copy (lead_locale (tc_lead x)) (t_phrases t @ a_phrases a) \<noteq> None"
      "map fst (t_phrases t @ a_phrases a) = [BOOKING_CONFIRMED]"
    and one: "length (bookings (after_action sample_pipe x t a s1 db)) = 1"
    using t by (auto simp: yes_stages decided_def split: option.splits)
  obtain outs db3 where "speak sample_pipe x ''yes'' WHATSAPP (state_for_lead db 1 (lead_id (tc_lead x)))
       (t_phrases t @ a_phrases a) (after_action sample_pipe x t a s1 db) = Some (outs, db3)"
    and keys: "map om_key outs = map (\<lambda>(k, v). phrase_key_value k) (t_phrases t @ a_phrases a)"
    and "bookings db3 = bookings (after_action sample_pipe x t a s1 db)"
    by (rule speak_returns [of sample_pipe x "t_phrases t @ a_phrases a" "''yes''" WHATSAPP])
      (use shown notice_worded in \<open>auto simp: sample_pipe_def\<close>)
  then have q: "speak sample_pipe x ''yes'' WHATSAPP (state_for_lead db 1 (lead_id (tc_lead x)))
       (t_phrases t @ a_phrases a)
       (record_outcome sample_pipe x t a (wall sample_pipe s1) (write_all (tc_audit x) (trail s1) db))
     = Some (outs, db3)" and one3: "length (bookings db3) = 1"
    using one by (simp_all add: after_action_def)
  have "map om_key outs = map phrase_key_value (map fst (t_phrases t @ a_phrases a))"
    using keys by (simp add: comp_def split_def)
  then have said: "map om_key outs = [''booking.confirmed'']" unfolding shown(2) by (simp add: phrase_key_value_def)
  have id: "new_id sample_db = (10, snd (new_id sample_db))" using yes_opening(2) by (metis prod.collapse)
  have "\<exists>r db'. handle_inbound sample_pipe ?inb ''c'' sample_db sample_run = (Inr (r, db'), s1)
     \<and> bookings db' = bookings db3 \<and> tr_outbound r = outs \<and> tr_lead r = 2 \<and> \<not> tr_duplicate r"
    unfolding handle_inbound_def
    apply (simp only: sample_inbound_fields yes_opening(1) option.case)
    apply (subst id)
    apply (simp only: Let_def prod.case yes_opening(4) sample_db_unseen option.case new_turn_def)
    apply (simp only: yes_opening(3) yes_turn_def [symmetric] x prod.case live sample_inbound_fields option.case if_False)
    apply (simp only: answer_turn_def Let_def sample_inbound_fields t p tid option.case prod.case q)
    using live(3) apply (simp add: silent_result_def turn_lead_def touch_def)
    done
  with that said one3 show thesis by auto
qed

end
