(* ===== verification/Pipeline_Props.thy ===== *)
theory Pipeline_Props
  imports Pipeline_Consent Pipeline_Samples
begin

text \<open>What a turn guarantees: the transcript, redelivery, the mute, consent and handoffs.\<close>

subsection \<open>The transcript\<close>

text \<open>C21. The record is what the consumer saw. After a turn the messages of the store are the ones from
  before, the consumer's message, and one outbound row for each message handed to the transport,
  with its key and its text, in that order; a redelivered message adds none and says nothing.\<close>

theorem transcript_is_complete:
  "case handle_inbound pipe inb corr db s of
     (Inl e, s') \<Rightarrow> True
   | (Inr (r, db'), s') \<Rightarrow>
       if tr_duplicate r then tr_outbound r = [] \<and> messages db' = messages db
       else \<exists>m rows. messages db' = messages db @ m # rows \<and> transcript inb r m rows"
proof -
  have "if tr_duplicate r then tr_outbound r = [] \<and> messages db' = messages db
       else \<exists>m rows. messages db' = messages db @ m # rows \<and> transcript inb r m rows"
    if "handle_inbound pipe inb corr db s = (Inr (r, db'), s')" for r db' s'
    using that
  proof (cases rule: handle_inboundE)
    case (duplicate t m)
    then show ?thesis by (simp add: duplicate_turn_def silent_result_def write_audit_def new_id_def)
  next
    case (turn t)
    from new_turn_transcript [OF turn(3)] show ?thesis by (auto simp: new_id_def)
  qed
  then show ?thesis by (auto split: prod.splits sum.splits)
qed

subsection \<open>Redelivery\<close>

lemma get_by_slug_cong: "tenants db' = tenants db \<Longrightarrow> get_by_slug db' = get_by_slug db"
  by (rule ext) (simp add: get_by_slug_def)

lemma seen_before_cong: "messages db' = messages db \<Longrightarrow> seen_before db' = seen_before db"
  by (intro ext) (simp add: seen_before_def find_by_provider_id_def)

lemma new_id_tables [simp]:
  "tenants (snd (new_id db)) = tenants db" "messages (snd (new_id db)) = messages db"
  by (simp_all add: new_id_def)

lemma seen_again:
  assumes "truthy (in_provider_message_id inb)" and "m \<in> set (messages db)"
    and "msg_tenant m = tid" and "msg_channel m = in_channel inb"
    and "provider_message_id m = in_provider_message_id inb"
  shows "seen_before db tid inb \<noteq> None"
proof -
  have "provider_message_id m = Some (the (in_provider_message_id inb))"
    using assms(1,5) by (auto simp: truthy_def split: option.splits)
  with assms show ?thesis
    by (auto simp: seen_before_def find_by_provider_id_def next_such_None)
qed

lemma redelivered:
  assumes "handle_inbound pipe inb corr db s = (Inr (r, db'), s')"
    and "truthy (in_provider_message_id inb)"
  obtains t m where "get_by_slug db' (in_tenant_slug inb) = Some t"
    and "seen_before db' (tenant_uid t) inb = Some m"
  using assms(1)
proof (cases rule: handle_inboundE)
  case (duplicate t m)
  then have "tenants db' = tenants db" "messages db' = messages db"
    by (simp_all add: duplicate_turn_def write_audit_def new_id_def)
  with duplicate that [of t m] get_by_slug_cong [of db' db] seen_before_cong [of db' db] show ?thesis
    by simp
next
  case (turn t)
  from new_turn_transcript [OF turn(3)] obtain m rows where
    "tenants db' = tenants db" "messages db' = messages db @ m # rows" "transcript inb r m rows"
    "msg_tenant m = tenant_uid t" by (auto simp: new_id_def)
  with seen_again [OF assms(2), of m db' "tenant_uid t"] turn(1) that show ?thesis
    by (auto simp: get_by_slug_def transcript_def)
qed

text \<open>C19. At-least-once delivery is harmless. Once a message with a provider's id has been handled,
  delivering it again, to any process and at any time, is recognised as a duplicate: nothing is
  said, nobody upstream is called, and apart from one audit row the store is left as it is.\<close>

theorem redelivery_is_harmless:
  assumes "handle_inbound pipe inb corr db s = (Inr (r, db'), s')"
    and "truthy (in_provider_message_id inb)"
  shows "\<exists>r2 e. handle_inbound pipe2 inb corr2 db' s2
    = (Inr (r2, db'\<lparr>next_id := Suc (next_id db'), audit_log := audit_log db' @ [e]\<rparr>), s2)
    \<and> tr_duplicate r2 \<and> tr_outbound r2 = [] \<and> tr_deferred r2 = None"
proof -
  obtain t m where t: "get_by_slug db' (in_tenant_slug inb) = Some t"
    and m: "seen_before db' (tenant_uid t) inb = Some m"
    using redelivered [OF assms] .
  have "get_by_slug (snd (new_id db')) (in_tenant_slug inb) = Some t"
    "seen_before (snd (new_id db')) (tenant_uid t) inb = Some m"
    using t m get_by_slug_cong [of "snd (new_id db')" db'] seen_before_cong [of "snd (new_id db')" db']
    by simp_all
  with t show ?thesis
    by (auto simp: handle_inbound_def new_id_def duplicate_turn_def silent_result_def write_audit_def
        Let_def)
qed

section \<open>Instances\<close>

text \<open>The theorems about turns at the turn in which a lead's yes becomes a booking.\<close>

lemma sample_consents_past: "consents_past sample_db"
  by (simp add: consents_past_def sample_db_def empty_store_def)

theorem redelivery_is_harmless_witness:
  "case handle_inbound sample_pipe (sample_inbound ''971'' ''yes'') ''c'' sample_db sample_run of
     (Inl e, s') \<Rightarrow> False
   | (Inr (r, db'), s') \<Rightarrow>
       (\<exists>r2 e. handle_inbound sample_pipe (sample_inbound ''971'' ''yes'') ''d'' db' sample_run
          = (Inr (r2, db'\<lparr>next_id := Suc (next_id db'), audit_log := audit_log db' @ [e]\<rparr>), sample_run)
          \<and> tr_duplicate r2 \<and> tr_outbound r2 = [] \<and> tr_deferred r2 = None)"
proof -
  obtain r db' s' where turn: "handle_inbound sample_pipe (sample_inbound ''971'' ''yes'') ''c'' sample_db
    sample_run = (Inr (r, db'), s')" by (rule yes_handled)
  have "truthy (in_provider_message_id (sample_inbound ''971'' ''yes''))" by simp
  from redelivery_is_harmless [OF turn this, of sample_pipe "''d''" sample_run]
  show ?thesis unfolding turn prod.case sum.case .
qed

theorem consent_follows_the_conversation_witness:
  "case handle_inbound sample_pipe (sample_inbound ''971'' ''yes'') ''c'' sample_db sample_run of
     (Inl e, s') \<Rightarrow> False
   | (Inr (r, db'), s') \<Rightarrow> state_for_lead db' 1 7 = UNKNOWN"
proof -
  obtain r db' s' where turn: "handle_inbound sample_pipe (sample_inbound ''971'' ''yes'') ''c'' sample_db
    sample_run = (Inr (r, db'), s')" and lead: "tr_lead r = 2" by (rule yes_handled)
  have "state_for_lead sample_db 1 7 = UNKNOWN" by code_simp
  with consent_follows_the_conversation [OF sample_consents_past turn, of 1 7] lead
  show ?thesis unfolding turn prod.case sum.case by simp
qed

theorem booked_leads_have_consented_witness:
  "case handle_inbound sample_pipe (sample_inbound ''971'' ''yes'') ''c'' sample_db sample_run of
     (Inl e, s') \<Rightarrow> False
   | (Inr (r, db'), s') \<Rightarrow> length (bookings db') = 1
       \<and> list_ex (\<lambda>b. state_for_lead db' (bk_tenant b) 2 = GRANTED) (bookings db')"
proof -
  obtain r db' s' where turn: "handle_inbound sample_pipe (sample_inbound ''971'' ''yes'') ''c'' sample_db
    sample_run = (Inr (r, db'), s')" and one: "length (bookings db') = 1" and lead: "tr_lead r = 2"
    by (rule yes_handled)
  have none: "bookings sample_db = []" by (simp add: sample_db_def empty_store_def)
  obtain b where b: "bookings db' = [b]" using one by (auto simp: length_Suc_conv)
  from booked_leads_have_consented [OF sample_consents_past turn] lead none b
  have "bk_lead b = 2 \<and> state_for_lead db' (bk_tenant b) (bk_lead b) = GRANTED"
    by (auto simp: fresh_booking_def)
  with b show ?thesis unfolding turn prod.case sum.case by auto
qed

end
