(* ===== verification/Handoff.thy ===== *)
theory Handoff
  imports Repositories
begin

text \<open>
  The operator's side of a handoff, \<^verbatim>\<open>mawjood/core/handoff/__init__.py\<close>: claiming a conversation,
  replying in it, giving it back, and the queue. \<open>now\<close> is what \<open>datetime.now(UTC)\<close> reads; an
  exception is the left value and leaves the transaction to be rolled back.
\<close>

datatype handoff_error = Handoff_Not_Found | Handoff_Already_Claimed | Empty_Reply

record handoff_view =
  hv_handoff :: handoff
  hv_conversation :: conversation

definition load_handoff :: "store \<Rightarrow> uid \<Rightarrow> uid \<Rightarrow> handoff_error + handoff_view" where
  "load_handoff db tid hid =
     (case next_such (\<lambda>h. hq_id h = hid) (scoped hq_tenant tid (handoffs db)) of
        None \<Rightarrow> Inl Handoff_Not_Found
      | Some h \<Rightarrow>
          (case find_conversation db (hq_conversation h) of
             None \<Rightarrow> Inl Handoff_Not_Found
           | Some c \<Rightarrow> Inr \<lparr>hv_handoff = h, hv_conversation = c\<rparr>))"

text \<open>The trail of an operator's action, bound to the conversation and its lead.\<close>

definition operator_trail :: "uid \<Rightarrow> string \<Rightarrow> uid \<Rightarrow> handoff_view \<Rightarrow> audit_trail" where
  "operator_trail tid corr turn v = bind_trail (Some (conv_id (hv_conversation v)))
     (Some (hq_lead (hv_handoff v)))
     \<lparr>trail_tenant_id = tid, trail_correlation_id = corr, trail_turn_id = turn,
      trail_conversation_id = None, trail_lead_id = None\<rparr>"

text \<open>Both rows of a view written back.\<close>

definition store_view ::
    "(handoff \<Rightarrow> handoff) \<Rightarrow> (conversation \<Rightarrow> conversation) \<Rightarrow> handoff_view \<Rightarrow> store
       \<Rightarrow> handoff_view \<times> store" where
  "store_view f g v db =
     (\<lparr>hv_handoff = f (hv_handoff v), hv_conversation = g (hv_conversation v)\<rparr>,
      update_handoff (hq_id (hv_handoff v)) f (update_conversation (conv_id (hv_conversation v)) g db))"

subsection \<open>Claiming\<close>

definition claimed_handoff :: "string \<Rightarrow> instant \<Rightarrow> handoff \<Rightarrow> handoff" where
  "claimed_handoff op now h = h\<lparr>hq_status := handoff_status.CLAIMED, hq_claimed_by := Some op,
     hq_claimed_at := Some now\<rparr>"

definition taken_conversation :: "conversation \<Rightarrow> conversation" where
  "taken_conversation c = c\<lparr>conv_status := conversation_status.HANDED_OFF, bot_muted := True\<rparr>"

definition claim ::
    "uid \<Rightarrow> uid \<Rightarrow> string \<Rightarrow> string \<Rightarrow> instant \<Rightarrow> store \<Rightarrow> handoff_error + handoff_view \<times> store" where
  "claim tid hid op corr now db =
     (case load_handoff db tid hid of
        Inl e \<Rightarrow> Inl e
      | Inr v \<Rightarrow>
          let h = hv_handoff v in
          if hq_status h = handoff_status.RESOLVED then Inl Handoff_Already_Claimed
          else if truthy (hq_claimed_by h) \<and> hq_claimed_by h \<noteq> Some op
          then Inl Handoff_Already_Claimed
          else
            let (v', db1) = store_view (claimed_handoff op now) taken_conversation v db;
                (turn, db2) = new_id db1
            in Inr (v', write_audit (operator_trail tid corr turn v) (Handoff_Claimed op hid) db2))"

subsection \<open>Replying\<close>

definition OPERATOR_REPLY :: string where
  "OPERATOR_REPLY = ''operator.reply''"

definition reply ::
    "uid \<Rightarrow> uid \<Rightarrow> string \<Rightarrow> string \<Rightarrow> string \<Rightarrow> instant \<Rightarrow> store \<Rightarrow> handoff_error + message \<times> store"
  where
  "reply tid hid op txt corr now db =
     (case load_handoff db tid hid of
        Inl e \<Rightarrow> Inl e
      | Inr v \<Rightarrow>
          if hq_claimed_by (hv_handoff v) \<noteq> Some op then Inl Handoff_Already_Claimed
          else if strip txt = [] then Inl Empty_Reply
          else
            let c = hv_conversation v; (turn, db1) = new_id db;
                (m, db2) = record_outbound tid (conv_id c) (hq_lead (hv_handoff v)) turn
                  (conv_channel c) (strip txt) (conv_locale c) OPERATOR_REPLY db1;
                db3 = update_conversation (conv_id c) (\<lambda>x. x\<lparr>last_activity_at := now\<rparr>) db2
            in Inr (m, write_audit (operator_trail tid corr turn v)
                 (Operator_Replied (conv_locale c) (strip txt) op hid) db3))"

subsection \<open>Giving the conversation back\<close>

definition resolved_handoff :: "string option \<Rightarrow> instant \<Rightarrow> handoff \<Rightarrow> handoff" where
  "resolved_handoff nt now h = h\<lparr>hq_status := handoff_status.RESOLVED, hq_resolved_at := Some now,
     hq_notes := (if truthy nt then nt else hq_notes h)\<rparr>"

definition returned_conversation :: "instant \<Rightarrow> conversation \<Rightarrow> conversation" where
  "returned_conversation now c = c\<lparr>bot_muted := False, conv_status := conversation_status.ACTIVE,
     last_activity_at := now\<rparr>"

definition release ::
    "uid \<Rightarrow> uid \<Rightarrow> string \<Rightarrow> string option \<Rightarrow> string \<Rightarrow> instant \<Rightarrow> store
       \<Rightarrow> handoff_error + handoff_view \<times> store" where
  "release tid hid op nt corr now db =
     (case load_handoff db tid hid of
        Inl e \<Rightarrow> Inl e
      | Inr v \<Rightarrow>
          let (v', db1) = store_view (resolved_handoff nt now) (returned_conversation now) v db;
              (turn, db2) = new_id db1
          in Inr (v', write_audit (operator_trail tid corr turn v) (Handoff_Resolved op nt hid) db2))"

subsection \<open>The queue\<close>

text \<open>By priority, the highest first, then by age; the sort is stable.\<close>

definition open_queue :: "store \<Rightarrow> uid \<Rightarrow> nat \<Rightarrow> handoff_view list" where
  "open_queue db tid limit =
     take limit (List.map_filter
       (\<lambda>h. map_option (\<lambda>c. \<lparr>hv_handoff = h, hv_conversation = c\<rparr>)
          (find_conversation db (hq_conversation h)))
       (sort_key (\<lambda>h. - hq_priority h) (sort_key hq_created_at
         (filter (\<lambda>h. hq_status h \<noteq> handoff_status.RESOLVED)
           (scoped hq_tenant tid (handoffs db))))))"

subsection \<open>Loading after a change\<close>

text \<open>What a change of both rows of a view leaves to be loaded.\<close>

lemma find_update_where:
  assumes "\<And>x. key (f x) = key x"
  shows "next_such (\<lambda>x. key x = k) (update_where (\<lambda>x. key x = k') f xs) =
    (if k = k' then map_option f (next_such (\<lambda>x. key x = k) xs) else next_such (\<lambda>x. key x = k) xs)"
  by (induction xs) (auto simp: update_where_def assms)

lemma scoped_update_where:
  assumes "\<And>x. tenant_of (f x) = tenant_of x"
  shows "scoped tenant_of tid (update_where p f xs) = update_where p f (scoped tenant_of tid xs)"
  by (induction xs) (auto simp: update_where_def scoped_def assms)

lemma load_handoff_Inr:
  "load_handoff db tid hid = Inr v \<Longrightarrow>
     hq_id (hv_handoff v) = hid \<and> hq_tenant (hv_handoff v) = tid
     \<and> conv_id (hv_conversation v) = hq_conversation (hv_handoff v)
     \<and> hv_handoff v \<in> set (handoffs db) \<and> hv_conversation v \<in> set (conversations db)
     \<and> next_such (\<lambda>h. hq_id h = hid) (scoped hq_tenant tid (handoffs db)) = Some (hv_handoff v)
     \<and> find_conversation db (hq_conversation (hv_handoff v)) = Some (hv_conversation v)"
  unfolding load_handoff_def find_conversation_def
  by (auto split: option.splits intro: next_such_in [THEN conjunct1] dest: next_such_in)

lemma load_store_view:
  assumes "load_handoff db tid hid = Inr v" and "store_view f g v db = (v', db')"
    and f: "\<And>h. hq_id (f h) = hq_id h" "\<And>h. hq_tenant (f h) = hq_tenant h"
      "\<And>h. hq_conversation (f h) = hq_conversation h"
    and g: "\<And>c. conv_id (g c) = conv_id c"
  shows "load_handoff db' tid hid = Inr v'"
proof -
  note v = load_handoff_Inr [OF assms(1)]
  let ?h = "hv_handoff v" and ?c = "hv_conversation v"
  have db': "db' = update_handoff hid f (update_conversation (conv_id ?c) g db)"
    and v': "v' = \<lparr>hv_handoff = f ?h, hv_conversation = g ?c\<rparr>"
    using assms(2) v by (auto simp: store_view_def)
  have "next_such (\<lambda>h. hq_id h = hid) (scoped hq_tenant tid (handoffs db')) = Some (f ?h)"
    using v by (simp add: db' update_handoff_def update_conversation_def scoped_update_where f
        find_update_where)
  moreover have "find_conversation db' (hq_conversation (f ?h)) = Some (g ?c)"
    using v find_update_conversation [of g "conv_id ?c" db "conv_id ?c"]
    by (simp add: db' update_handoff_def f g find_conversation_def)
  ultimately show ?thesis by (simp add: load_handoff_def v')
qed

lemma load_cong:
  assumes "handoffs db' = handoffs db" and "conversations db' = conversations db"
  shows "load_handoff db' tid hid = load_handoff db tid hid"
proof -
  have "find_conversation db' = find_conversation db"
    using assms(2) by (intro ext) (simp add: find_conversation_def)
  then show ?thesis by (simp add: load_handoff_def assms(1) cong: option.case_cong)
qed

end
