(* ===== verification/Handoff_Props.thy ===== *)
theory Handoff_Props
  imports Handoff Pipeline_Samples
begin

text \<open>
  Who may act on a handoff, and what claiming it does to the thread.
\<close>

lemma new_id_frame: "new_id db = (i, db') \<Longrightarrow> handoffs db' = handoffs db \<and> conversations db' = conversations db"
  by (auto simp: new_id_def)

lemma audit_frame: "handoffs (write_audit a e db) = handoffs db" "conversations (write_audit a e db) = conversations db"
  by (simp_all add: write_audit_def)

text \<open>What a successful claim has stored.\<close>

lemma claim_stores:
  assumes "claim tid hid op corr now db = Inr (v', db')"
  obtains v where "load_handoff db tid hid = Inr v" and "hq_status (hv_handoff v) \<noteq> handoff_status.RESOLVED"
    and "load_handoff db' tid hid = Inr v'"
    and "v' = \<lparr>hv_handoff = claimed_handoff op now (hv_handoff v), hv_conversation = taken_conversation (hv_conversation v)\<rparr>"
    and "conversations db' = update_where (\<lambda>c. conv_id c = conv_id (hv_conversation v)) taken_conversation (conversations db)"
proof -
  obtain v where v: "load_handoff db tid hid = Inr v" using assms by (auto simp: claim_def split: sum.splits)
  obtain w db1 where s: "store_view (claimed_handoff op now) taken_conversation v db = (w, db1)" by fastforce
  obtain turn db2 where n: "new_id db1 = (turn, db2)" by fastforce
  have st: "hq_status (hv_handoff v) \<noteq> handoff_status.RESOLVED"
    and e: "w = v'" "db' = write_audit (operator_trail tid corr turn v) (Handoff_Claimed op hid) db2"
    using assms v s n by (auto simp: claim_def Let_def split: if_splits)
  have "load_handoff db1 tid hid = Inr w"
    by (rule load_store_view [OF v s]) (simp_all add: claimed_handoff_def taken_conversation_def)
  then have "load_handoff db' tid hid = Inr v'"
    using load_cong [of db' db1 tid hid] new_id_frame [OF n] e by (simp add: audit_frame)
  moreover have "w = \<lparr>hv_handoff = claimed_handoff op now (hv_handoff v), hv_conversation = taken_conversation (hv_conversation v)\<rparr>"
    and "conversations db1 = update_where (\<lambda>c. conv_id c = conv_id (hv_conversation v)) taken_conversation (conversations db)"
    using s by (auto simp: store_view_def update_handoff_def update_conversation_def)
  ultimately show thesis using that [OF v st] e new_id_frame [OF n] by (simp add: audit_frame)
qed

text \<open>C31. A claim is exclusive: until the handoff is given back, no other operator can claim it or
  speak in its conversation, and the claimant may claim it again.\<close>

theorem claim_is_exclusive:
  assumes "claim tid hid op corr now db = Inr (v, db')" and "op \<noteq> []" and "op' \<noteq> op"
  shows "claim tid hid op' corr' now' db' = Inl Handoff_Already_Claimed
    \<and> reply tid hid op' msg corr' now' db' = Inl Handoff_Already_Claimed
    \<and> isl (claim tid hid op corr' now' db') = False"
proof -
  obtain v0 where "load_handoff db tid hid = Inr v0" and "hq_status (hv_handoff v0) \<noteq> handoff_status.RESOLVED"
    and l: "load_handoff db' tid hid = Inr v"
    and v: "v = \<lparr>hv_handoff = claimed_handoff op now (hv_handoff v0), hv_conversation = taken_conversation (hv_conversation v0)\<rparr>"
    and cs: "conversations db' = update_where (\<lambda>c. conv_id c = conv_id (hv_conversation v0)) taken_conversation (conversations db)"
    by (rule claim_stores [OF assms(1)])
  have mine: "hq_claimed_by (hv_handoff v) = Some op" "hq_status (hv_handoff v) = handoff_status.CLAIMED"
    by (simp_all add: v claimed_handoff_def)
  show ?thesis
    using assms(2,3) by (simp add: claim_def reply_def l mine truthy_def split_def Let_def)
qed

lemma taken_not_active: "conv_status (taken_conversation c) = conversation_status.HANDED_OFF"
  by (simp add: taken_conversation_def)

text \<open>C32. Claiming takes the thread out of the lead's reach: the conversation is handed off, which is not
  active, so where it was the lead's only active one the next message of the lead opens a new
  conversation, and that one is not muted: the assistant answers beside the operator.\<close>

theorem claim_reopens_the_assistant:
  assumes "claim tid hid op corr now db = Inr (v, db')"
    and "filter (\<lambda>c. conv_lead c = lid \<and> conv_status c = conversation_status.ACTIVE) (scoped conv_tenant tid (conversations db))
      = [c]" and "conv_id c = conv_id (hv_conversation v)"
  shows "case open_or_resume tid lid ch loc now' db' of (c', is_new, db'') \<Rightarrow>
    is_new \<and> \<not> bot_muted c' \<and> conv_id c' = next_id db' \<and> conv_state c' = ''greeting''"
proof -
  obtain v0 where "load_handoff db tid hid = Inr v0" and "hq_status (hv_handoff v0) \<noteq> handoff_status.RESOLVED"
    and l: "load_handoff db' tid hid = Inr v"
    and v: "v = \<lparr>hv_handoff = claimed_handoff op now (hv_handoff v0), hv_conversation = taken_conversation (hv_conversation v0)\<rparr>"
    and cs: "conversations db' = update_where (\<lambda>c. conv_id c = conv_id (hv_conversation v0)) taken_conversation (conversations db)"
    by (rule claim_stores [OF assms(1)])
  have id: "conv_id c = conv_id (hv_conversation v0)" using assms(3) by (simp add: v taken_conversation_def)
  have "filter (\<lambda>c. conv_lead c = lid \<and> conv_status c = conversation_status.ACTIVE)
      (scoped conv_tenant tid (conversations db')) = []"
  proof -
    have "False" if x: "x \<in> set (conversations db')" "conv_tenant x = tid" "conv_lead x = lid"
      "conv_status x = conversation_status.ACTIVE" for x
    proof -
      obtain y where y: "y \<in> set (conversations db)"
        and xy: "x = (if conv_id y = conv_id (hv_conversation v0) then taken_conversation y else y)"
        using x(1) by (auto simp: cs update_where_def)
      have ne: "conv_id y \<noteq> conv_id (hv_conversation v0)" using x(4) xy by (auto simp: taken_not_active)
      then have "x = y" using xy by simp
      then have "y \<in> set [c]" unfolding assms(2) [symmetric] using y x by (simp add: scoped_def)
      then show False using ne id by simp
    qed
    then show ?thesis by (auto simp: filter_empty_conv scoped_def)
  qed
  then have "active_for_lead db' tid lid = None" by (simp add: active_for_lead_def)
  then show ?thesis by (simp add: open_or_resume_def new_id_def new_conversation_def Let_def)
qed

text \<open>What a release has stored.\<close>

lemma release_stores:
  assumes "release tid hid op nt corr now db = Inr (v', db')"
  obtains v where "load_handoff db tid hid = Inr v" and "load_handoff db' tid hid = Inr v'"
    and "v' = \<lparr>hv_handoff = resolved_handoff nt now (hv_handoff v), hv_conversation = returned_conversation now (hv_conversation v)\<rparr>"
proof -
  obtain v where v: "load_handoff db tid hid = Inr v" using assms by (auto simp: release_def split: sum.splits)
  obtain w db1 where s: "store_view (resolved_handoff nt now) (returned_conversation now) v db = (w, db1)" by fastforce
  obtain turn db2 where n: "new_id db1 = (turn, db2)" by fastforce
  have e: "w = v'" "db' = write_audit (operator_trail tid corr turn v) (Handoff_Resolved op nt hid) db2"
    using assms v s n by (auto simp: release_def Let_def)
  have "load_handoff db1 tid hid = Inr w"
    by (rule load_store_view [OF v s]) (simp_all add: resolved_handoff_def returned_conversation_def)
  then have "load_handoff db' tid hid = Inr v'"
    using load_cong [of db' db1 tid hid] new_id_frame [OF n] e by (simp add: audit_frame)
  moreover have "w = \<lparr>hv_handoff = resolved_handoff nt now (hv_handoff v), hv_conversation = returned_conversation now (hv_conversation v)\<rparr>"
    using s by (auto simp: store_view_def)
  ultimately show thesis using that [OF v] e by simp
qed

text \<open>Any operator may give a handoff back, whoever claimed it; the assistant is then unmuted and the
  thread active, nobody can claim it again, but the operator who had claimed it can still reply in it.\<close>

theorem release_returns_the_thread:
  assumes "release tid hid op nt corr now db = Inr (v, db')"
  shows "\<not> bot_muted (hv_conversation v) \<and> conv_status (hv_conversation v) = conversation_status.ACTIVE
    \<and> claim tid hid op' corr' now' db' = Inl Handoff_Already_Claimed
    \<and> isl (reply tid hid op'' msg corr' now' db') = (hq_claimed_by (hv_handoff v) \<noteq> Some op'' \<or> strip msg = [])"
proof -
  obtain v0 where "load_handoff db tid hid = Inr v0" and l: "load_handoff db' tid hid = Inr v"
    and v: "v = \<lparr>hv_handoff = resolved_handoff nt now (hv_handoff v0), hv_conversation = returned_conversation now (hv_conversation v0)\<rparr>"
    by (rule release_stores [OF assms])
  have c: "\<not> bot_muted (hv_conversation v)" "conv_status (hv_conversation v) = conversation_status.ACTIVE"
    and h: "hq_status (hv_handoff v) = handoff_status.RESOLVED"
    by (simp_all add: v returned_conversation_def resolved_handoff_def)
  show ?thesis using c h by (simp add: claim_def reply_def l split_def Let_def)
qed

subsection \<open>On the sample deployment\<close>

definition queued_db :: store where
  "queued_db = sample_db\<lparr>handoffs := [\<lparr>hq_id = 7, hq_tenant = 1, hq_conversation = 3, hq_lead = 2,
     hq_reason = handoff_reason.CONSUMER_REQUEST, hq_status = handoff_status.OPEN, hq_priority = 0,
     hq_claimed_by = None, hq_claimed_at = None, hq_resolved_at = None, hq_notes = None,
     hq_created_at = 0\<rparr>]\<rparr>"

definition sample_claim :: "string \<Rightarrow> handoff_error + handoff_view \<times> store" where
  "sample_claim who = claim 1 7 who ''c'' 4 queued_db"

lemma queued_load: "\<exists>v. load_handoff queued_db 1 7 = Inr v \<and> hq_status (hv_handoff v) = handoff_status.OPEN
    \<and> hq_claimed_by (hv_handoff v) = None \<and> conv_id (hv_conversation v) = 3"
  by (simp add: load_handoff_def find_conversation_def queued_db_def sample_db_def scoped_def
      offered_conversation_def new_conversation_def)

lemma sample_claimed: "\<exists>v db'. sample_claim ''ann'' = Inr (v, db') \<and> conv_id (hv_conversation v) = 3"
proof -
  obtain v where v: "load_handoff queued_db 1 7 = Inr v" "hq_status (hv_handoff v) = handoff_status.OPEN"
    "hq_claimed_by (hv_handoff v) = None" "conv_id (hv_conversation v) = 3" using queued_load by blast
  then show ?thesis
    by (simp add: sample_claim_def claim_def Let_def split_def truthy_def store_view_def taken_conversation_def)
qed

theorem claim_is_exclusive_witness:
  "case sample_claim ''ann'' of Inl e \<Rightarrow> False
   | Inr (v, db') \<Rightarrow> claim 1 7 ''bob'' ''d'' 5 db' = Inl Handoff_Already_Claimed"
proof -
  obtain v db' where c: "sample_claim ''ann'' = Inr (v, db')" using sample_claimed by blast
  from claim_is_exclusive [OF c [unfolded sample_claim_def], of "''bob''" "''d''" 5]
  show ?thesis unfolding c by simp
qed

theorem claim_reopens_the_assistant_witness:
  "case sample_claim ''ann'' of Inl e \<Rightarrow> False
   | Inr (v, db') \<Rightarrow> (case open_or_resume 1 2 WHATSAPP ''en'' 6 db' of (c, is_new, db'') \<Rightarrow> is_new \<and> \<not> bot_muted c)"
proof -
  obtain v db' where c: "sample_claim ''ann'' = Inr (v, db')" and v: "conv_id (hv_conversation v) = 3"
    using sample_claimed by blast
  have a: "filter (\<lambda>c. conv_lead c = 2 \<and> conv_status c = conversation_status.ACTIVE)
      (scoped conv_tenant 1 (conversations queued_db)) = [offered_conversation]"
    and id: "conv_id offered_conversation = 3"
    by (simp_all add: queued_db_def sample_db_def scoped_def offered_conversation_def new_conversation_def)
  from claim_reopens_the_assistant [OF c [unfolded sample_claim_def] a, of WHATSAPP "''en''" 6] id v
  show ?thesis unfolding c by (auto split: prod.splits)
qed

theorem release_returns_the_thread_witness:
  "case release 1 7 ''bob'' None ''c'' 5 queued_db of Inl e \<Rightarrow> False
   | Inr (v, db') \<Rightarrow> claim 1 7 ''ann'' ''d'' 6 db' = Inl Handoff_Already_Claimed"
proof -
  obtain v0 where "load_handoff queued_db 1 7 = Inr v0" using queued_load by blast
  then obtain v db' where r: "release 1 7 ''bob'' None ''c'' 5 queued_db = Inr (v, db')"
    by (simp add: release_def Let_def split_def)
  from release_returns_the_thread [OF r, of "''ann''" "''d''" 6] show ?thesis unfolding r by simp
qed

end
