(* ===== verification/Rate_Limit.thy ===== *)
theory Rate_Limit
  imports Prelude
begin

text \<open>
  Rate limiting, \<^verbatim>\<open>mawjood/api/ratelimit.py\<close>: a token bucket per key, the in-memory store with its
  lazy sweep, and the address a request is counted under. A time is a real number of seconds,
  what \<open>time.monotonic()\<close> reads. The store is an association list in insertion order, as the dict is.
\<close>

subsection \<open>Limits\<close>

record limit =
  per_minute :: int
  burst :: "int option"

text \<open>\<open>__post_init__\<close>; None is the \<open>ValueError\<close>.\<close>

definition checked_limit :: "limit \<Rightarrow> limit option" where
  "checked_limit l =
     (if per_minute l \<le> 0 then None
      else if (case burst l of None \<Rightarrow> False | Some b \<Rightarrow> b \<le> 0) then None else Some l)"

definition capacity :: "limit \<Rightarrow> real" where
  "capacity l = of_int (case burst l of Some b \<Rightarrow> b | None \<Rightarrow> per_minute l)"

definition refill_per_second :: "limit \<Rightarrow> real" where
  "refill_per_second l = of_int (per_minute l) / 60"

subsection \<open>Buckets\<close>

record bucket =
  tokens :: real
  updated_at :: real

type_synonym buckets = "(string \<times> bucket) list"

text \<open>A bucket brought up to a moment; a clock that stands still or goes back refills nothing.\<close>

definition refilled :: "limit \<Rightarrow> real \<Rightarrow> bucket \<Rightarrow> bucket" where
  "refilled l now b = \<lparr>tokens = min (capacity l)
       (tokens b + max 0 (now - updated_at b) * refill_per_second l), updated_at = now\<rparr>"

definition draw :: "limit \<Rightarrow> real \<Rightarrow> bucket \<Rightarrow> bool \<times> bucket" where
  "draw l now b =
     (let b1 = refilled l now b in
      if tokens b1 < 1 then (False, b1) else (True, b1\<lparr>tokens := tokens b1 - 1\<rparr>))"

definition full_bucket :: "limit \<Rightarrow> real \<Rightarrow> bucket" where
  "full_bucket l now = \<lparr>tokens = capacity l, updated_at = now\<rparr>"

subsection \<open>The store\<close>

text \<open>\<open>_sweep\<close>: the keys that have refilled go, or else the half that is oldest.\<close>

definition sweep :: "real \<Rightarrow> limit \<Rightarrow> buckets \<Rightarrow> buckets" where
  "sweep now l bs =
     (let full_after = capacity l / refill_per_second l;
          stale = (\<lambda>b. full_after < now - updated_at b);
          oldest = sort_key (\<lambda>p. updated_at (snd p)) bs
      in if list_ex (\<lambda>p. stale (snd p)) bs then filter (\<lambda>p. \<not> stale (snd p)) bs
         else filter (\<lambda>p. fst p \<notin> set (map fst (take (length bs div 2) oldest))) bs)"

definition put :: "string \<Rightarrow> bucket \<Rightarrow> buckets \<Rightarrow> buckets" where
  "put k b bs = (if map_of bs k = None then bs @ [(k, b)]
     else map (\<lambda>p. if fst p = k then (k, b) else p) bs)"

record memory_store =
  ms_buckets :: buckets
  ms_max_keys :: int

definition new_memory_store :: memory_store where
  "new_memory_store = \<lparr>ms_buckets = [], ms_max_keys = 10000\<rparr>"

definition take_token :: "string \<Rightarrow> limit \<Rightarrow> real \<Rightarrow> memory_store \<Rightarrow> bool \<times> memory_store" where
  "take_token k l now st =
     (let (bs, b) = (case map_of (ms_buckets st) k of
            Some b \<Rightarrow> (ms_buckets st, b)
          | None \<Rightarrow>
              (if ms_max_keys st \<le> int (length (ms_buckets st)) then sweep now l (ms_buckets st)
               else ms_buckets st, full_bucket l now));
          (ok, b1) = draw l now b
      in (ok, st\<lparr>ms_buckets := put k b1 bs\<rparr>))"

definition allow :: "string \<Rightarrow> string \<Rightarrow> limit \<Rightarrow> real \<Rightarrow> memory_store \<Rightarrow> bool \<times> memory_store" where
  "allow scope key l now st = take_token (scope @ '':'' @ key) l now st"

subsection \<open>The caller's address\<close>

text \<open>\<open>split(",")\<close>\<close>

fun split_commas :: "string \<Rightarrow> string list" where
  "split_commas [] = [[]]"
| "split_commas (c # cs) =
     (if c = CHR '','' then [] # split_commas cs
      else case split_commas cs of [] \<Rightarrow> [[c]] | w # ws \<Rightarrow> (c # w) # ws)"

definition client_address :: "(string \<times> string) list \<Rightarrow> string option \<Rightarrow> string" where
  "client_address headers fallback =
     (let hops = (case map_of headers ''x-forwarded-for'' of
            None \<Rightarrow> []
          | Some f \<Rightarrow> if f = [] then [] else filter (\<lambda>h. h \<noteq> []) (map strip (split_commas f)))
      in if hops \<noteq> [] then last hops else or_else fallback ''unknown'')"

subsection \<open>Runs of one bucket\<close>

text \<open>The requests of one key, at the times they arrive, and how many of them are let through.\<close>

fun admitted :: "limit \<Rightarrow> real list \<Rightarrow> bucket \<Rightarrow> nat" where
  "admitted l [] b = 0"
| "admitted l (t # ts) b =
     (let (ok, b1) = draw l t b in (if ok then 1 else 0) + admitted l ts b1)"

lemma capacity_pos: "checked_limit l = Some l \<Longrightarrow> 1 \<le> capacity l \<and> 0 < refill_per_second l"
  by (auto simp: checked_limit_def capacity_def refill_per_second_def split: if_splits option.splits)

text \<open>
  What is admitted is paid for: with the tokens left at the end it never exceeds the tokens at the
  start and the refill of the time between.
\<close>

lemma draw_budget:
  assumes "draw l now b = (ok, b')" and "updated_at b \<le> now" and "0 \<le> refill_per_second l"
  shows "(if ok then 1 else 0) + tokens b' \<le> tokens b + (now - updated_at b) * refill_per_second l"
    and "tokens b' \<le> capacity l" and "updated_at b' = now" and "0 \<le> tokens b \<Longrightarrow> 0 \<le> capacity l \<Longrightarrow> 0 \<le> tokens b'"
proof -
  have "max 0 (now - updated_at b) = now - updated_at b" using assms(2) by simp
  then show "(if ok then 1 else 0) + tokens b' \<le> tokens b + (now - updated_at b) * refill_per_second l"
    "tokens b' \<le> capacity l" "updated_at b' = now"
    using assms(1) by (auto simp: draw_def refilled_def Let_def split: if_splits)
  show "0 \<le> tokens b'" if "0 \<le> tokens b" "0 \<le> capacity l"
  proof -
    have "0 \<le> tokens (refilled l now b)" using that assms(3) by (auto simp: refilled_def)
    then show ?thesis using assms(1) by (auto simp: draw_def Let_def split: if_splits)
  qed
qed

fun ends :: "real \<Rightarrow> real list \<Rightarrow> real" where
  "ends t [] = t"
| "ends t (x # xs) = ends x xs"

lemma admitted_budget:
  assumes "sorted (updated_at b # ts)" and "0 \<le> tokens b" and "0 \<le> capacity l"
    and "0 \<le> refill_per_second l"
  shows "real (admitted l ts b) \<le> tokens b + (ends (updated_at b) ts - updated_at b) * refill_per_second l"
  using assms
proof (induction ts arbitrary: b)
  case (Cons t ts)
  obtain ok b1 where d: "draw l t b = (ok, b1)" by fastforce
  have le: "updated_at b \<le> t" using Cons.prems(1) by simp
  note step = draw_budget [OF d le Cons.prems(4)]
  have "sorted (updated_at b1 # ts)" using Cons.prems(1) step(3) by simp
  then have "real (admitted l ts b1) \<le> tokens b1 + (ends t ts - t) * refill_per_second l"
    using Cons.IH [of b1] step Cons.prems by simp
  moreover have "real (admitted l (t # ts) b) = (if ok then 1 else 0) + real (admitted l ts b1)"
    using d by simp
  moreover have "(ends t ts - updated_at b) * refill_per_second l
      = (ends t ts - t) * refill_per_second l + (t - updated_at b) * refill_per_second l"
    by (simp add: algebra_simps)
  ultimately show ?case using step(1) by simp
qed simp

end
