(* ===== verification/Rate_Limit_Props.thy ===== *)
theory Rate_Limit_Props
  imports Rate_Limit
begin

text \<open>
  What a key gets through the limiter, whatever else goes on in the store.
\<close>

lemma map_of_put: "map_of (put k b bs) k' = (if k' = k then Some b else map_of bs k')"
proof -
  have "map_of (map (\<lambda>p. if fst p = k then (k, b) else p) xs) k'
      = (if k' = k \<and> map_of xs k \<noteq> None then Some b else map_of xs k')" for xs
    by (induction xs) auto
  then show ?thesis by (auto simp: put_def map_add_def split: option.splits)
qed

lemma names_put: "map fst (put k b bs) = (if map_of bs k = None then map fst bs @ [k] else map fst bs)"
proof -
  have "map fst (map (\<lambda>p. if fst p = k then (k, b) else p) xs) = map fst xs" for xs
    by (induction xs) auto
  then show ?thesis by (simp only: put_def map_append list.map fst_conv split: if_split) blast
qed

lemma keys_put: "fst ` set (put k b bs) = insert k (fst ` set bs)"
proof -
  have "set (map fst (put k b bs)) = insert k (set (map fst bs))"
    unfolding names_put by (auto simp: map_of_eq_None_iff insert_absorb)
  then show ?thesis by simp
qed

lemma distinct_put: "distinct (map fst bs) \<Longrightarrow> distinct (map fst (put k b bs))"
  unfolding names_put by (simp add: map_of_eq_None_iff)

text \<open>The requests a limiter sees, and what it answers from its store.\<close>

fun served_by ::
    "(string \<Rightarrow> limit \<Rightarrow> real \<Rightarrow> 's \<Rightarrow> bool \<times> 's) \<Rightarrow> limit \<Rightarrow> (string \<times> real) list \<Rightarrow> 's
       \<Rightarrow> (string \<times> bool) list" where
  "served_by from_store l [] st = []"
| "served_by from_store l ((k, t) # rs) st =
     (let (yes, st') = from_store k l t st in (k, yes) # served_by from_store l rs st')"

definition served :: "limit \<Rightarrow> (string \<times> real) list \<Rightarrow> memory_store \<Rightarrow> (string \<times> bool) list" where
  "served l rs st = served_by take_token l rs st"

definition let_through :: "string \<Rightarrow> (string \<times> bool) list \<Rightarrow> nat" where
  "let_through k outs = length (filter (\<lambda>x. x = (k, True)) outs)"

definition times_of :: "string \<Rightarrow> (string \<times> real) list \<Rightarrow> real list" where
  "times_of k rs = map snd (filter (\<lambda>r. fst r = k) rs)"

subsection \<open>The interface of the store\<close>

text \<open>\<open>RateLimitStore\<close>: a store keeps a bucket for every key, a new key starts with a full one, and as long
  as there is room for the keys that come, drawing for one key leaves the buckets of the others alone.\<close>

locale token_store =
  fixes from_store :: "string \<Rightarrow> limit \<Rightarrow> real \<Rightarrow> 's \<Rightarrow> bool \<times> 's"
    and bucket_of :: "limit \<Rightarrow> 's \<Rightarrow> string \<Rightarrow> real \<Rightarrow> bucket"
    and room :: "string set \<Rightarrow> 's \<Rightarrow> bool"
  assumes draws: "room K st \<Longrightarrow> k \<in> K \<Longrightarrow> from_store k l t st = (yes, st') \<Longrightarrow>
      draw l t (bucket_of l st k t) = (yes, bucket_of l st' k x)"
    and others_kept: "room K st \<Longrightarrow> k \<in> K \<Longrightarrow> from_store k l t st = (yes, st') \<Longrightarrow> k' \<noteq> k \<Longrightarrow>
      bucket_of l st' k' x = bucket_of l st k' x"
    and room_kept: "room K st \<Longrightarrow> k \<in> K \<Longrightarrow> from_store k l t st = (yes, st') \<Longrightarrow> room K st'"
begin

text \<open>Each key meets its own bucket only.\<close>

lemma let_through_admitted:
  assumes "room K st" and "fst ` set rs \<subseteq> K"
  shows "let_through k (served_by from_store l rs st) = (case times_of k rs of
     [] \<Rightarrow> 0 | t # ts \<Rightarrow> admitted l (t # ts) (bucket_of l st k t))"
  using assms
proof (induction rs arbitrary: st)
  case Nil
  then show ?case by (simp add: let_through_def times_of_def)
next
  case (Cons r rs)
  obtain k' t where r: "r = (k', t)" by (rule prod.exhaust)
  obtain yes st' where t: "from_store k' l t st = (yes, st')" by (rule prod.exhaust)
  have k': "k' \<in> K" and rs: "fst ` set rs \<subseteq> K" using Cons.prems(2) r by auto
  note kept = draws [OF Cons.prems(1) k' t] others_kept [OF Cons.prems(1) k' t]
  have ih: "let_through k (served_by from_store l rs st') = (case times_of k rs of
      [] \<Rightarrow> 0 | t # ts \<Rightarrow> admitted l (t # ts) (bucket_of l st' k t))"
    by (rule Cons.IH [OF room_kept [OF Cons.prems(1) k' t] rs])
  have split: "let_through k (served_by from_store l (r # rs) st)
      = (if k' = k \<and> yes then 1 else 0) + let_through k (served_by from_store l rs st')"
    by (simp add: r t let_through_def)
  show ?case
  proof (cases "k' = k")
    case True
    then have "times_of k (r # rs) = t # times_of k rs" by (simp add: times_of_def r)
    moreover obtain b1 where "draw l t (bucket_of l st k t) = (yes, b1)" "\<And>x. bucket_of l st' k x = b1"
      using kept(1) True by (metis prod.inject)
    ultimately show ?thesis using ih True unfolding split
      by (cases "times_of k rs") simp_all
  next
    case False
    then have "times_of k (r # rs) = times_of k rs" by (simp add: times_of_def r)
    then show ?thesis using ih False kept(2) unfolding split by (cases "times_of k rs") simp_all
  qed
qed

end

subsection \<open>The store in memory\<close>

text \<open>The bucket a key is drawn from at a moment.\<close>

definition bucket_at :: "limit \<Rightarrow> memory_store \<Rightarrow> string \<Rightarrow> real \<Rightarrow> bucket" where
  "bucket_at l st k t = (case map_of (ms_buckets st) k of Some b \<Rightarrow> b | None \<Rightarrow> full_bucket l t)"

definition roomy :: "string set \<Rightarrow> memory_store \<Rightarrow> bool" where
  "roomy K st \<longleftrightarrow> distinct (map fst (ms_buckets st)) \<and> finite K
     \<and> int (card (fst ` set (ms_buckets st) \<union> K)) \<le> ms_max_keys st"

lemma roomy_miss:
  assumes "roomy K st" and "k \<in> K" and "map_of (ms_buckets st) k = None"
  shows "int (length (ms_buckets st)) < ms_max_keys st"
proof -
  let ?K = "fst ` set (ms_buckets st)"
  have "k \<notin> ?K" using assms(3) by (simp add: map_of_eq_None_iff)
  then have "?K \<subset> ?K \<union> K" using assms(2) by auto
  then have "card ?K < card (?K \<union> K)" using assms(1) by (intro psubset_card_mono) (simp_all add: roomy_def)
  moreover have "card ?K = length (ms_buckets st)"
    using assms(1) distinct_card [of "map fst (ms_buckets st)"] by (simp add: roomy_def)
  ultimately show ?thesis using assms(1) by (simp add: roomy_def)
qed

lemma take_token_room:
  assumes "roomy K st" and "k \<in> K" and "take_token k l t st = (yes, st')"
  obtains b1 where "draw l t (bucket_at l st k t) = (yes, b1)"
    and "st' = st\<lparr>ms_buckets := put k b1 (ms_buckets st)\<rparr>"
proof -
  obtain y b1 where d: "draw l t (bucket_at l st k t) = (y, b1)" by (rule prod.exhaust)
  have "take_token k l t st = (y, st\<lparr>ms_buckets := put k b1 (ms_buckets st)\<rparr>)"
    using roomy_miss [OF assms(1,2)] d
    by (cases "map_of (ms_buckets st) k") (auto simp: take_token_def bucket_at_def)
  then show thesis using that d assms(3) by simp
qed

interpretation memory: token_store take_token bucket_at roomy
proof (unfold_locales, goal_cases)
  case (1 K st k l t yes st' x)
  then show ?case by (auto elim!: take_token_room simp: bucket_at_def map_of_put)
next
  case (2 K st k l t yes st' k' x)
  then show ?case by (auto elim!: take_token_room simp: bucket_at_def map_of_put)
next
  case (3 K st k l t yes st')
  obtain b1 where "st' = st\<lparr>ms_buckets := put k b1 (ms_buckets st)\<rparr>"
    using take_token_room [OF 3] by blast
  with 3(1,2) show ?case by (simp add: roomy_def distinct_put keys_put insert_absorb)
qed

lemma ends_last: "ends t ts = (if ts = [] then t else last ts)"
  by (induction t ts rule: ends.induct) auto

lemma sorted_times: "sorted (map snd rs) \<Longrightarrow> sorted (times_of k rs)"
  by (simp add: times_of_def sorted_filter)


text \<open>Three requests a minute: the fourth of one key within a second is refused, the other key is not
  disturbed.\<close>

definition three_a_minute :: limit where
  "three_a_minute = \<lparr>per_minute = 3, burst = None\<rparr>"

definition sample_requests :: "(string \<times> real) list" where
  "sample_requests = [(''a'', 0), (''a'', 0), (''b'', 0), (''a'', 1), (''a'', 1)]"


end
