(* ===== verification/Wire.thy ===== *)
theory Wire
  imports Formatting "HOL-Library.Monad_Syntax"
begin

text \<open>
  What arrives over HTTP: JSON values as \<open>json.loads\<close> returns them, with the accesses the sources
  make of them, and integers read from text. An access that raises is None. An object is an
  association list without duplicate keys, as \<open>json.loads\<close> leaves it.
\<close>

datatype wire =
    WNull
  | WBool bool
  | WInt int
  | WReal real
  | WText string
  | WList "wire list"
  | WDict "(string \<times> wire) list"

text \<open>What \<open>json.loads(raw)\<close> comes to: a value, a \<open>JSONDecodeError\<close>, or another exception.\<close>

datatype json_read = Read wire | Not_Json | Undecodable

fun wire_true :: "wire \<Rightarrow> bool" where
  "wire_true WNull \<longleftrightarrow> False"
| "wire_true (WBool b) \<longleftrightarrow> b"
| "wire_true (WInt i) \<longleftrightarrow> i \<noteq> 0"
| "wire_true (WReal r) \<longleftrightarrow> r \<noteq> 0"
| "wire_true (WText s) \<longleftrightarrow> s \<noteq> []"
| "wire_true (WList xs) \<longleftrightarrow> xs \<noteq> []"
| "wire_true (WDict d) \<longleftrightarrow> d \<noteq> []"

text \<open>\<open>a or b\<close>\<close>

definition wire_or :: "wire \<Rightarrow> wire \<Rightarrow> wire" where
  "wire_or a b = (if wire_true a then a else b)"

text \<open>\<open>v.get(key, default)\<close>: an \<open>AttributeError\<close> on anything but an object.\<close>

fun wire_get :: "wire \<Rightarrow> string \<Rightarrow> wire \<Rightarrow> wire option" where
  "wire_get (WDict d) key def = Some (case map_of d key of None \<Rightarrow> def | Some v \<Rightarrow> v)"
| "wire_get _ key def = None"

text \<open>\<open>v[key]\<close>: a \<open>KeyError\<close> when it is absent, a \<open>TypeError\<close> on anything but an object.\<close>

fun wire_item :: "wire \<Rightarrow> string \<Rightarrow> wire option" where
  "wire_item (WDict d) key = map_of d key"
| "wire_item _ key = None"

text \<open>\<open>str(v)\<close>; how a float or a container prints is a parameter.\<close>

fun wire_str :: "(wire \<Rightarrow> string) \<Rightarrow> wire \<Rightarrow> string" where
  "wire_str repr (WText s) = s"
| "wire_str repr (WInt i) = show_int i"
| "wire_str repr WNull = ''None''"
| "wire_str repr (WBool b) = (if b then ''True'' else ''False'')"
| "wire_str repr v = repr v"

text \<open>A value handed on where a text or None is expected; the columns hold nothing else.\<close>

fun wire_text :: "wire \<Rightarrow> string option" where
  "wire_text (WText s) = Some s"
| "wire_text _ = None"

subsection \<open>\<open>int(text)\<close>\<close>

text \<open>Digits with single underscores between them.\<close>

fun int_digits :: "int \<Rightarrow> bool \<Rightarrow> string \<Rightarrow> int option" where
  "int_digits acc prev [] = (if prev then Some acc else None)"
| "int_digits acc prev (c # cs) =
     (if is_digit c then int_digits (acc * 10 + (int (of_char c) - 48)) True cs
      else if c = CHR ''_'' \<and> prev then int_digits acc False cs else None)"

definition int_of_text :: "string \<Rightarrow> int option" where
  "int_of_text s = (case strip s of
     [] \<Rightarrow> None
   | c # cs \<Rightarrow>
       if c = CHR ''-'' then map_option uminus (int_digits 0 False cs)
       else if c = CHR ''+'' then int_digits 0 False cs else int_digits 0 False (c # cs))"

lemma int_digits_append:
  assumes "list_all is_digit xs" and "xs \<noteq> []"
  shows "int_digits acc prev (xs @ ys) = int_digits (the (int_digits acc prev xs)) True ys"
  using assms
proof (induction xs arbitrary: acc prev)
  case (Cons c cs)
  show ?case
  proof (cases cs)
    case Nil
    then show ?thesis using Cons.prems by simp
  next
    case (Cons d ds)
    then show ?thesis using Cons.IH [of "acc * 10 + (int (of_char c) - 48)" True] Cons.prems by simp
  qed
qed simp

lemma digit_char:
  assumes "n < 10"
  shows "is_digit (''0123456789'' ! n) \<and> int (of_char (''0123456789'' ! n)) - 48 = int n"
proof -
  have "n \<in> {0, 1, 2, 3, 4, 5, 6, 7, 8, 9}" using assms by auto
  then show ?thesis by (auto simp: is_digit_def)
qed

lemma show_nat_nonempty: "show_nat n \<noteq> []"
  by (subst show_nat.simps) simp

lemma show_nat_digits: "list_all is_digit (show_nat n)"
proof (induction n rule: show_nat.induct)
  case (1 n)
  have "n mod 10 < 10" by simp
  then show ?case using 1 digit_char by (cases "n < 10") (auto simp: show_nat.simps [of n])
qed

lemma int_digits_show_nat: "int_digits 0 False (show_nat n) = Some (int n)"
proof (induction n rule: show_nat.induct)
  case (1 n)
  show ?case
  proof (cases "n < 10")
    case True
    then show ?thesis using digit_char [of n] by (simp add: show_nat.simps [of n])
  next
    case False
    have d: "n mod 10 < 10" by simp
    have "int_digits 0 False (show_nat n)
      = int_digits (int (n div 10)) True [''0123456789'' ! (n mod 10)]"
      using False int_digits_append [OF show_nat_digits show_nat_nonempty,
          of 0 False "n div 10" "[''0123456789'' ! (n mod 10)]"] 1 by (simp add: show_nat.simps [of n])
    also have "\<dots> = Some (int (n div 10) * 10 + int (n mod 10))"
      using digit_char [OF d] by simp
    also have "int (n div 10) * 10 + int (n mod 10) = int n"
      by (simp add: zdiv_int zmod_int)
    finally show ?thesis .
  qed
qed

lemma digit_not_space: "is_digit c \<Longrightarrow> \<not> is_space c \<and> c \<noteq> CHR ''-'' \<and> c \<noteq> CHR ''+'' \<and> c \<noteq> CHR '':''"
  by (auto simp: is_digit_def is_space_def Let_def)

lemma strip_no_space: "list_all (\<lambda>c. \<not> is_space c) s \<Longrightarrow> strip s = s"
proof -
  assume a: "list_all (\<lambda>c. \<not> is_space c) s"
  have l: "list_all (\<lambda>c. \<not> is_space c) xs \<Longrightarrow> dropWhile is_space xs = xs" for xs
    by (cases xs) auto
  from a l [of s] l [of "rev s"] show ?thesis by (simp add: strip_def lstrip_def rstrip_def list_all_iff)
qed

lemma int_of_text_show_int: "int_of_text (show_int i) = Some i"
proof -
  have s: "list_all (\<lambda>c. \<not> is_space c) (show_nat n)" for n
    using show_nat_digits [of n] digit_not_space by (auto simp: list_all_iff)
  obtain c cs where n: "show_nat (nat i) = c # cs" "is_digit c"
    using show_nat_digits [of "nat i"] show_nat_nonempty [of "nat i"] by (cases "show_nat (nat i)") auto
  show ?thesis
  proof (cases "i < 0")
    case True
    have "strip (CHR ''-'' # show_nat (nat (- i))) = CHR ''-'' # show_nat (nat (- i))"
      by (rule strip_no_space) (use s in \<open>simp add: is_space_def\<close>)
    then show ?thesis using True by (simp add: int_of_text_def show_int_def int_digits_show_nat)
  next
    case False
    have "strip (show_nat (nat i)) = c # cs" using strip_no_space [OF s [of "nat i"]] n by simp
    then show ?thesis
      using False int_digits_show_nat [of "nat i"] digit_not_space [OF n(2)] n(1)
      by (simp add: int_of_text_def show_int_def del: int_digits.simps)
  qed
qed

lemma show_int_no_colon: "CHR '':'' \<notin> set (show_int i)"
  using show_nat_digits digit_not_space by (auto simp: show_int_def list_all_iff)

subsection \<open>Collecting over a list\<close>

text \<open>A loop whose body may raise and otherwise yields some results.\<close>

fun gather :: "('a \<Rightarrow> 'b list option) \<Rightarrow> 'a list \<Rightarrow> 'b list option" where
  "gather f [] = Some []"
| "gather f (x # xs) = do {ys \<leftarrow> f x; zs \<leftarrow> gather f xs; Some (ys @ zs)}"

end
