(* ===== verification/Bsp.thy ===== *)
theory Bsp
  imports Wire Messages
begin

text \<open>
  Messaging providers, \<^verbatim>\<open>mawjood/services/bsp/\<close>: the signature of a webhook, the parsers of the three
  providers, and sending. A text of an HTTP header is read as Latin-1. \<open>loads\<close> is \<open>json.loads\<close>,
  \<open>repr\<close> how a JSON float or container prints, \<open>hmac\<close> the hexadecimal HMAC for a digest, a key and
  a body, and \<open>post\<close> the answer of the provider's own service. None is an exception.
\<close>

subsection \<open>Signatures\<close>

datatype signature_result =
    SIG_VALID | MISSING_HEADER | MALFORMED_HEADER | MISMATCH | NOT_CONFIGURED | SKIPPED

definition signature_ok :: "signature_result \<Rightarrow> bool" where
  "signature_ok r \<longleftrightarrow> r \<in> {SIG_VALID, SKIPPED}"

record signature_scheme =
  sg_header :: string
  sg_prefix :: string
  sg_digest :: string

definition default_scheme :: signature_scheme where
  "default_scheme = \<lparr>sg_header = ''x-hub-signature-256'', sg_prefix = ''sha256='', sg_digest = ''sha256''\<rparr>"

definition latin_space :: "char \<Rightarrow> bool" where
  "latin_space c \<longleftrightarrow> is_space c \<or> (of_char c :: nat) \<in> {133, 160}"

definition is_ascii :: "string \<Rightarrow> bool" where
  "is_ascii s = list_all (\<lambda>c. (of_char c :: nat) < 128) s"

text \<open>\<open>hmac.compare_digest\<close> of two texts raises unless both are ASCII.\<close>

definition compare_digest :: "string \<Rightarrow> string \<Rightarrow> bool option" where
  "compare_digest a b = (if is_ascii a \<and> is_ascii b then Some (a = b) else None)"

definition find_header :: "string \<Rightarrow> (string \<times> string) list \<Rightarrow> string option" where
  "find_header name headers =
     map_option snd (next_such (\<lambda>h. lower (fst h) = lower name) headers)"

definition verify_signature ::
    "(string \<Rightarrow> string \<Rightarrow> string \<Rightarrow> string) \<Rightarrow> signature_scheme \<Rightarrow> string option \<Rightarrow> string
       \<Rightarrow> (string \<times> string) list \<Rightarrow> signature_result option" where
  "verify_signature hmac scheme secret body headers =
     (if \<not> truthy secret then Some NOT_CONFIGURED
      else case find_header (sg_header scheme) headers of
        None \<Rightarrow> Some MISSING_HEADER
      | Some v \<Rightarrow>
          let given = rstrip latin_space (lstrip latin_space v) in
          if take (length (sg_prefix scheme)) given \<noteq> sg_prefix scheme then Some MALFORMED_HEADER
          else
            let hex = drop (length (sg_prefix scheme)) given in
            if hex = [] then Some MALFORMED_HEADER
            else map_option (\<lambda>same. if same then SIG_VALID else MISMATCH)
                   (compare_digest (hmac (sg_digest scheme) (the secret) body) (lower hex)))"

definition sign_payload ::
    "(string \<Rightarrow> string \<Rightarrow> string \<Rightarrow> string) \<Rightarrow> signature_scheme \<Rightarrow> string \<Rightarrow> string \<Rightarrow> string" where
  "sign_payload hmac scheme secret body = sg_prefix scheme @ hmac (sg_digest scheme) secret body"

record delivery_receipt =
  dr_message :: string
  dr_status :: message_status
  dr_occurred_at :: "instant option"
  dr_failed_reason :: "string option"

subsection \<open>360dialog and Meta\<close>

text \<open>\<open>_as_list\<close>\<close>

fun as_list :: "wire \<Rightarrow> wire list" where
  "as_list WNull = []"
| "as_list (WList xs) = xs"
| "as_list v = [v]"

definition TEXT_TYPES :: "string list" where
  "TEXT_TYPES = [''text'']"

definition STATUS_MAP :: "(string \<times> message_status) list" where
  "STATUS_MAP = [(''sent'', message_status.SENT), (''delivered'', DELIVERED),
     (''read'', READ), (''failed'', message_status.FAILED)]"

text \<open>The profile name of every sender, the last one that is given.\<close>

definition contact_name :: "(wire \<Rightarrow> string) \<Rightarrow> wire \<Rightarrow> (string \<times> wire) list option" where
  "contact_name repr c = do {
     w \<leftarrow> wire_get c ''wa_id'' WNull;
     if wire_true w then do {
       profile \<leftarrow> wire_get c ''profile'' WNull;
       nm \<leftarrow> wire_get (wire_or profile (WDict [])) ''name'' WNull;
       Some [(wire_str repr w, nm)]}
     else Some []}"

definition contact_names :: "(wire \<Rightarrow> string) \<Rightarrow> wire \<Rightarrow> (string \<times> wire) list option" where
  "contact_names repr value = do {
     cs \<leftarrow> wire_get value ''contacts'' WNull;
     gather (contact_name repr) (as_list cs)}"

definition parse_message ::
    "(wire \<Rightarrow> string) \<Rightarrow> (string \<times> wire) list \<Rightarrow> string \<Rightarrow> wire \<Rightarrow> inbound_message list option" where
  "parse_message repr names tslug m = do {
     ty \<leftarrow> wire_get m ''type'' (WText []);
     if wire_str repr ty \<notin> set TEXT_TYPES then Some [] else do {
       w \<leftarrow> wire_get m ''from'' WNull;
       i \<leftarrow> wire_get m ''id'' WNull;
       txt \<leftarrow> wire_get m ''text'' WNull;
       body \<leftarrow> wire_get (wire_or txt (WDict [])) ''body'' WNull;
       if \<not> wire_true w \<or> \<not> wire_true i \<or> body = WNull then Some []
       else Some [\<lparr>in_tenant_slug = tslug, in_channel = WHATSAPP, in_wa_id = wire_str repr w,
         in_text = wire_str repr body, in_provider_message_id = Some (wire_str repr i),
         in_display_name = Option.bind (map_of (rev names) (wire_str repr w)) wire_text\<rparr>]}}"

text \<open>The walk over \<open>entry\<close> and \<open>changes\<close> both parsers make.\<close>

definition each_value :: "(wire \<Rightarrow> 'a list option) \<Rightarrow> wire \<Rightarrow> 'a list option" where
  "each_value f payload = do {
     es \<leftarrow> wire_get payload ''entry'' WNull;
     gather (\<lambda>entry. do {
       cs \<leftarrow> wire_get entry ''changes'' WNull;
       gather (\<lambda>change. do {
         value \<leftarrow> wire_get change ''value'' WNull;
         f (wire_or value (WDict []))}) (as_list cs)}) (as_list es)}"

definition cloud_parse_inbound ::
    "(string \<Rightarrow> json_read) \<Rightarrow> (wire \<Rightarrow> string) \<Rightarrow> string \<Rightarrow> string \<Rightarrow> inbound_message list option" where
  "cloud_parse_inbound loads repr body tslug = (case loads body of
     Not_Json \<Rightarrow> Some []
   | Undecodable \<Rightarrow> None
   | Read payload \<Rightarrow> each_value (\<lambda>value. do {
       names \<leftarrow> contact_names repr value;
       msgs \<leftarrow> wire_get value ''messages'' WNull;
       gather (parse_message repr names tslug) (as_list msgs)}) payload)"

text \<open>
  \<open>datetime.fromtimestamp(int(x), tz=UTC)\<close> on a 64-bit Linux: the moment, an error the parser
  catches, or one (\<open>OverflowError\<close>, \<open>OSError\<close>) it does not.
\<close>

datatype timestamp = Moment instant | Not_A_Time | Out_Of_Range

definition from_timestamp :: "int \<Rightarrow> timestamp" where
  "from_timestamp n =
     (if -62135596800 \<le> n \<and> n \<le> 253402300799 then Moment (seconds n)
      else if -67768040609740800 \<le> n \<and> n \<le> 67768036191676799 then Not_A_Time else Out_Of_Range)"

fun timestamp_of :: "wire \<Rightarrow> timestamp" where
  "timestamp_of (WText s) = (case int_of_text s of None \<Rightarrow> Not_A_Time | Some n \<Rightarrow> from_timestamp n)"
| "timestamp_of (WInt n) = from_timestamp n"
| "timestamp_of (WBool b) = from_timestamp (if b then 1 else 0)"
| "timestamp_of (WReal r) = from_timestamp (if r < 0 then \<lceil>r\<rceil> else \<lfloor>r\<rfloor>)"
| "timestamp_of _ = Not_A_Time"

definition occurred :: "wire \<Rightarrow> instant option option" where
  "occurred v = (if v = WNull then Some None else case timestamp_of v of
     Moment t \<Rightarrow> Some (Some t) | Not_A_Time \<Rightarrow> Some None | Out_Of_Range \<Rightarrow> None)"

definition failure_reason :: "(wire \<Rightarrow> string) \<Rightarrow> wire list \<Rightarrow> string option option" where
  "failure_reason repr errors = (case errors of
     [] \<Rightarrow> Some None
   | e # _ \<Rightarrow> do {
       t \<leftarrow> wire_get e ''title'' WNull;
       m \<leftarrow> wire_get e ''message'' WNull;
       c \<leftarrow> wire_get e ''code'' WNull;
       (let r = take 500 (wire_str repr (wire_or t (wire_or m (wire_or c (WText [])))))
        in Some (if r = [] then None else Some r))})"

definition parse_status :: "(wire \<Rightarrow> string) \<Rightarrow> wire \<Rightarrow> delivery_receipt list option" where
  "parse_status repr st = do {
     i \<leftarrow> wire_get st ''id'' WNull;
     s \<leftarrow> wire_get st ''status'' (WText []);
     (case map_of STATUS_MAP (lower (wire_str repr s)) of
        None \<Rightarrow> Some []
      | Some status \<Rightarrow>
          if \<not> wire_true i then Some [] else do {
            raw \<leftarrow> wire_get st ''timestamp'' WNull;
            moment \<leftarrow> occurred raw;
            errors \<leftarrow> wire_get st ''errors'' WNull;
            why \<leftarrow> failure_reason repr (as_list errors);
            Some [\<lparr>dr_message = wire_str repr i, dr_status = status, dr_occurred_at = moment,
              dr_failed_reason = why\<rparr>]})}"

definition cloud_parse_receipts ::
    "(string \<Rightarrow> json_read) \<Rightarrow> (wire \<Rightarrow> string) \<Rightarrow> string \<Rightarrow> delivery_receipt list option" where
  "cloud_parse_receipts loads repr body = (case loads body of
     Not_Json \<Rightarrow> Some []
   | Undecodable \<Rightarrow> None
   | Read payload \<Rightarrow> each_value (\<lambda>value. do {
       sts \<leftarrow> wire_get value ''statuses'' WNull;
       gather (parse_status repr) (as_list sts)}) payload)"

text \<open>What is posted: the key of the account, the recipient and the text.\<close>

record cloud_request =
  cr_base :: string
  cr_key :: string
  cr_to :: uid
  cr_body :: string

definition cloud_send ::
    "(wire \<Rightarrow> string) \<Rightarrow> string option \<Rightarrow> string option \<Rightarrow> (cloud_request \<Rightarrow> wire option)
       \<Rightarrow> outbound_message \<Rightarrow> send_answer" where
  "cloud_send repr base key post out =
     (if \<not> truthy base \<or> \<not> truthy key then Send_Raised
      else case do {
          answer \<leftarrow> post \<lparr>cr_base = the base, cr_key = the key, cr_to = om_lead out, cr_body = om_text out\<rparr>;
          ms' \<leftarrow> wire_get answer ''messages'' WNull;
          (case as_list ms' of [] \<Rightarrow> Some None
           | m # _ \<Rightarrow> map_option (\<lambda>i. Some (wire_str repr i)) (wire_item m ''id''))} of
        None \<Rightarrow> Send_Raised
      | Some i \<Rightarrow> Accepted i)"

subsection \<open>Wati and the terminal\<close>

definition wati_parse_inbound :: "string \<Rightarrow> string \<Rightarrow> inbound_message list option" where
  "wati_parse_inbound body tslug = None"

definition wati_parse_receipts :: "string \<Rightarrow> delivery_receipt list option" where
  "wati_parse_receipts body = None"

definition wati_send :: "outbound_message \<Rightarrow> send_answer" where
  "wati_send out = Send_Raised"

definition console_parse_inbound ::
    "(string \<Rightarrow> json_read) \<Rightarrow> (wire \<Rightarrow> string) \<Rightarrow> string \<Rightarrow> string \<Rightarrow> inbound_message list option" where
  "console_parse_inbound loads repr body tslug = (case loads body of
     Read payload \<Rightarrow> do {
       w \<leftarrow> wire_item payload ''wa_id'';
       txt \<leftarrow> wire_item payload ''text'';
       i \<leftarrow> wire_get payload ''id'' WNull;
       Some [\<lparr>in_tenant_slug = tslug, in_channel = CONSOLE, in_wa_id = wire_str repr w,
         in_text = wire_str repr txt, in_provider_message_id = wire_text i, in_display_name = None\<rparr>]}
   | _ \<Rightarrow> None)"

definition console_parse_receipts :: "string \<Rightarrow> delivery_receipt list option" where
  "console_parse_receipts body = Some []"

definition console_send :: "outbound_message \<Rightarrow> outbound_message list \<Rightarrow> send_answer \<times> outbound_message list" where
  "console_send out sent = (Accepted None, sent @ [out])"

definition sent_texts :: "outbound_message list \<Rightarrow> string list" where
  "sent_texts sent = map om_text sent"

subsection \<open>The configured provider\<close>

record bsp =
  bsp_slug :: string
  bsp_scheme :: signature_scheme
  bsp_inbound :: "string \<Rightarrow> string \<Rightarrow> inbound_message list option"
  bsp_receipts :: "string \<Rightarrow> delivery_receipt list option"

definition build_bsp :: "(string \<Rightarrow> json_read) \<Rightarrow> (wire \<Rightarrow> string) \<Rightarrow> string \<Rightarrow> bsp" where
  "build_bsp loads repr provider =
     (if provider = ''console'' then \<lparr>bsp_slug = ''console'', bsp_scheme = default_scheme,
        bsp_inbound = console_parse_inbound loads repr, bsp_receipts = console_parse_receipts\<rparr>
      else if provider = ''wati'' then \<lparr>bsp_slug = ''wati'', bsp_scheme = default_scheme,
        bsp_inbound = wati_parse_inbound, bsp_receipts = wati_parse_receipts\<rparr>
      else \<lparr>bsp_slug = ''360dialog'', bsp_scheme = default_scheme,
        bsp_inbound = cloud_parse_inbound loads repr, bsp_receipts = cloud_parse_receipts loads repr\<rparr>)"

end
