(* ===== verification/Config.thy ===== *)
theory Config
  imports Wire
begin

text \<open>
  \<^verbatim>\<open>mawjood/config.py\<close>: the settings with a constraint, read from the environment, and what pydantic
  and the validators make of them. None is a \<open>ValidationError\<close>, with which the service does not start.
  The time zone database is a parameter.
\<close>

datatype environment = LOCAL | DEV | STAGING | PROD

record settings =
  environment :: environment
  region :: string
  zone_name :: string
  database_pool_size :: int
  database_max_overflow :: int
  database_connect_timeout_s :: real
  turn_deadline_ms :: int
  llm_timeout_ms :: int
  notify_hours :: "real list"
  whatsapp_session_window_hours :: real
  bsp_provider :: string
  bsp_webhook_secret :: "string option"
  bsp_verify_token :: "string option"
  bsp_require_signature :: bool
  bsp_api_base :: "string option"
  bsp_api_key :: "string option"
  openai_api_key :: "string option"
  console_username :: string
  console_password :: "string option"
  sentry_dsn :: "string option"
  webhook_rate_per_minute :: int
  consumer_rate_per_minute :: int
  webhook_max_body_bytes :: int
  sentry_traces_sample_rate :: real
  log_retention_days :: int
  data_retention_days :: int
  default_tenant_slug :: string

text \<open>\<open>_empty_string_is_unset\<close>\<close>

definition unset_if_blank :: "string option \<Rightarrow> string option" where
  "unset_if_blank v = (case v of Some s \<Rightarrow> if strip s = [] then None else Some s | None \<Rightarrow> None)"

definition blanks_unset :: "settings \<Rightarrow> settings" where
  "blanks_unset s = s\<lparr>sentry_dsn := unset_if_blank (sentry_dsn s),
     bsp_webhook_secret := unset_if_blank (bsp_webhook_secret s),
     bsp_verify_token := unset_if_blank (bsp_verify_token s),
     bsp_api_key := unset_if_blank (bsp_api_key s), bsp_api_base := unset_if_blank (bsp_api_base s),
     openai_api_key := unset_if_blank (openai_api_key s),
     console_password := unset_if_blank (console_password s)\<rparr>"

text \<open>The ranges of the fields; \<open>notify_hours\<close> are the five offsets and the grace.\<close>

definition in_range :: "settings \<Rightarrow> bool" where
  "in_range s \<longleftrightarrow> 1 \<le> database_pool_size s \<and> database_pool_size s \<le> 50
     \<and> 0 \<le> database_max_overflow s \<and> database_max_overflow s \<le> 50
     \<and> 0 < database_connect_timeout_s s \<and> 0 < turn_deadline_ms s \<and> 0 < llm_timeout_ms s
     \<and> list_all (\<lambda>h. 0 \<le> h) (notify_hours s) \<and> 0 < whatsapp_session_window_hours s
     \<and> 0 < webhook_rate_per_minute s \<and> 0 < consumer_rate_per_minute s \<and> 0 < webhook_max_body_bytes s
     \<and> 0 \<le> sentry_traces_sample_rate s \<and> sentry_traces_sample_rate s \<le> 1
     \<and> 1 \<le> log_retention_days s \<and> 1 \<le> data_retention_days s
     \<and> bsp_provider s \<in> {''360dialog'', ''wati'', ''console''}"

text \<open>\<open>^(us[-_]|northamerica-|.*-us-|useast|uswest|centralus|eastus|westus)\<close>, ignoring case; a dot
  matches no newline.\<close>

definition starts_with :: "string \<Rightarrow> string \<Rightarrow> bool" where
  "starts_with p s \<longleftrightarrow> take (length p) s = p"

fun mentions :: "string \<Rightarrow> string \<Rightarrow> bool" where
  "mentions p [] \<longleftrightarrow> p = []"
| "mentions p (c # cs) \<longleftrightarrow> starts_with p (c # cs) \<or> mentions p cs"

definition us_region :: "string \<Rightarrow> bool" where
  "us_region r = (let s = lower r in
     list_ex (\<lambda>p. starts_with p s) [''us-'', ''us_'', ''northamerica-'', ''useast'', ''uswest'',
       ''centralus'', ''eastus'', ''westus'']
     \<or> mentions ''-us-'' (takeWhile (\<lambda>c. c \<noteq> CHR 0x0A) s))"

text \<open>\<open>_production_demands_signed_webhooks\<close>\<close>

definition production_ready :: "settings \<Rightarrow> bool" where
  "production_ready s \<longleftrightarrow> (environment s = environment.PROD \<longrightarrow>
     bsp_require_signature s
     \<and> (bsp_provider s \<noteq> ''console'' \<longrightarrow> bsp_webhook_secret s \<noteq> None)
     \<and> console_password s \<noteq> None)"

definition checked_settings :: "(string \<Rightarrow> bool) \<Rightarrow> settings \<Rightarrow> settings option" where
  "checked_settings zone_known raw =
     (let s = blanks_unset raw in
      if \<not> in_range s \<or> us_region (strip (region s)) \<or> \<not> zone_known (zone_name s) then None
      else let s' = s\<lparr>region := strip (region s)\<rparr> in if production_ready s' then Some s' else None)"

subsection \<open>The database address that is logged\<close>

record db_host =
  dh_username :: "string option"
  dh_password :: "string option"
  dh_host :: "string option"
  dh_port :: "int option"

record db_url =
  du_scheme :: string
  du_hosts :: "db_host list"
  du_path :: "string option"

definition database_url_safe :: "db_url \<Rightarrow> string" where
  "database_url_safe u = (case du_hosts u of
     [] \<Rightarrow> du_scheme u @ ''://''
   | h # _ \<Rightarrow>
       let hostname = or_else (dh_host h) [];
           userinfo = (if truthy (dh_username h) then the (dh_username h) @ ''@'' else []);
           netloc = (case dh_port h of None \<Rightarrow> hostname
             | Some p \<Rightarrow> if p = 0 then hostname else hostname @ '':'' @ show_int p)
       in du_scheme u @ ''://'' @ userinfo @ netloc @ or_else (du_path u) [])"

lemma url_password_unread:
  "database_url_safe (u\<lparr>du_hosts := map (\<lambda>h. h\<lparr>dh_password := p\<rparr>) (du_hosts u)\<rparr>) = database_url_safe u"
  by (auto simp: database_url_safe_def split: list.splits)

text \<open>The pattern knows the Azure names that begin with a compass point, but not those that put one
  before \<open>central\<close>, so three regions of the United States are accepted.\<close>

lemma us_regions_refused:
  "us_region ''us-east-1'' \<and> us_region ''US-CENTRAL1'' \<and> us_region ''eastus2'' \<and> us_region ''centralus''
    \<and> us_region ''aws-us-west-2''"
  by code_simp

lemma us_regions_accepted:
  "\<not> us_region ''southcentralus'' \<and> \<not> us_region ''northcentralus'' \<and> \<not> us_region ''westcentralus''"
  by code_simp

lemma canadian_region_refused: "us_region ''northamerica-northeast1''"
  by code_simp

end
