(* ===== verification/Webhook.thy ===== *)
theory Webhook
  imports Bsp Config Rate_Limit Pipeline
begin

text \<open>
  The inbound webhook, \<^verbatim>\<open>mawjood/api/webhooks/whatsapp.py\<close>: the subscription handshake, and the
  receipt of a batch. The state is the rate limiter's store, the database and the run of the
  cascade. A session is a transaction of its own: its \<open>now()\<close> is the moment it opens, and it commits
  or leaves nothing. A response of None is an exception that reaches the framework. \<open>new_hex\<close> is what
  \<open>uuid4().hex\<close> gives.
\<close>

subsection \<open>The handshake\<close>

record text_response =
  tx_status :: nat
  tx_body :: string

definition verify_subscription :: "settings \<Rightarrow> (string \<times> string) list \<Rightarrow> text_response" where
  "verify_subscription st params =
     (case bsp_verify_token st of
        None \<Rightarrow> \<lparr>tx_status = 503, tx_body = ''verification not configured''\<rparr>
      | Some expected \<Rightarrow>
          (case map_of params ''hub.challenge'' of
             Some challenge \<Rightarrow>
               if map_of params ''hub.mode'' = Some ''subscribe''
                 \<and> map_of params ''hub.verify_token'' = Some expected
               then \<lparr>tx_status = 200, tx_body = challenge\<rparr>
               else \<lparr>tx_status = 403, tx_body = ''verification failed''\<rparr>
           | None \<Rightarrow> \<lparr>tx_status = 403, tx_body = ''verification failed''\<rparr>))"

subsection \<open>Receipts\<close>

definition RANK :: "message_status \<Rightarrow> nat" where
  "RANK s = (case s of message_status.RECEIVED \<Rightarrow> 0 | message_status.QUEUED \<Rightarrow> 1
     | message_status.SENT \<Rightarrow> 2 | message_status.DELIVERED \<Rightarrow> 3 | message_status.READ \<Rightarrow> 4
     | message_status.FAILED \<Rightarrow> 5)"

definition names_message :: "delivery_receipt \<Rightarrow> message \<Rightarrow> bool" where
  "names_message r m \<longleftrightarrow> provider_message_id m = Some (dr_message r)"

text \<open>What a receipt makes of the message it names.\<close>

definition mark_message :: "instant \<Rightarrow> delivery_receipt \<Rightarrow> message \<Rightarrow> message" where
  "mark_message now r m =
     (let m1 = m\<lparr>msg_status := dr_status r\<rparr> in
      if dr_status r = message_status.SENT \<and> msg_sent_at m = None
      then m1\<lparr>msg_sent_at := Some (case dr_occurred_at r of Some t \<Rightarrow> t | None \<Rightarrow> now)\<rparr> else m1)"

text \<open>One receipt; None is \<open>MultipleResultsFound\<close>.\<close>

definition apply_receipt :: "instant \<Rightarrow> delivery_receipt \<Rightarrow> nat \<times> store \<Rightarrow> (nat \<times> store) option" where
  "apply_receipt now r st =
     (case st of (n, db) \<Rightarrow>
        (case filter (names_message r) (messages db) of
           [] \<Rightarrow> Some (n, db)
         | [m] \<Rightarrow>
             if RANK (dr_status r) \<le> RANK (msg_status m) then Some (n, db)
             else Some (n + 1, update_message (msg_id m) (mark_message now r) db)
         | _ \<Rightarrow> None))"

fun apply_all :: "instant \<Rightarrow> delivery_receipt list \<Rightarrow> nat \<times> store \<Rightarrow> (nat \<times> store) option" where
  "apply_all now [] st = Some st"
| "apply_all now (r # rs) st = Option.bind (apply_receipt now r st) (apply_all now rs)"

definition apply_receipts :: "bsp \<Rightarrow> string \<Rightarrow> instant \<Rightarrow> store \<Rightarrow> (nat \<times> store) option" where
  "apply_receipts b body now db =
     (case bsp_receipts b body of
        None \<Rightarrow> Some (0, db)
      | Some rs \<Rightarrow> apply_all now rs (0, db))"

subsection \<open>Checks before anything is parsed\<close>

definition check_signature ::
    "(string \<Rightarrow> string \<Rightarrow> string \<Rightarrow> string) \<Rightarrow> settings \<Rightarrow> bsp \<Rightarrow> string \<Rightarrow> (string \<times> string) list
       \<Rightarrow> signature_result option" where
  "check_signature hmac st b body headers =
     (if \<not> bsp_require_signature st then Some SKIPPED
      else verify_signature hmac (bsp_scheme b) (bsp_webhook_secret st) body headers)"

text \<open>\<open>str.isdigit\<close> of a Latin-1 text also accepts the superscripts, which \<open>int\<close> refuses.\<close>

definition latin_digit :: "char \<Rightarrow> bool" where
  "latin_digit c \<longleftrightarrow> is_digit c \<or> (of_char c :: nat) \<in> {178, 179, 185}"

definition declared_too_large :: "string option \<Rightarrow> int \<Rightarrow> bool option" where
  "declared_too_large declared limit = (case declared of
     None \<Rightarrow> Some False
   | Some d \<Rightarrow>
       if d = [] \<or> \<not> list_all latin_digit d then Some False
       else map_option (\<lambda>n. limit < n) (number 0 d))"

subsection \<open>Receiving a batch\<close>

record 'w webhook_state =
  wh_limiter :: memory_store
  wh_db :: store
  wh_run :: "'w run"

record request =
  rq_headers :: "(string \<times> string) list"
  rq_client :: "string option"
  rq_body :: string

datatype answer =
    Rate_Limited
  | Too_Large
  | Rejected signature_result
  | Unparsed
  | Accepted_Batch "(uid \<times> bool \<times> nat) list" nat

definition status_code :: "answer \<Rightarrow> nat" where
  "status_code a = (case a of Rate_Limited \<Rightarrow> 429 | Too_Large \<Rightarrow> 413 | Rejected r \<Rightarrow> 403
     | Unparsed \<Rightarrow> 200 | Accepted_Batch rs n \<Rightarrow> 200)"

text \<open>\<open>time.monotonic()\<close>, in seconds.\<close>

definition monotonic :: "'w run \<Rightarrow> real" where
  "monotonic s = of_int (clock s) / 1000000"

text \<open>\<open>limiter.allow(scope, key, Limit(per_minute=n))\<close>; None is the \<open>ValueError\<close> of the limit.\<close>

definition allow_request ::
    "string \<Rightarrow> string \<Rightarrow> int \<Rightarrow> 'w webhook_state \<Rightarrow> (bool \<times> 'w webhook_state) option" where
  "allow_request scope key n w =
     map_option (\<lambda>l. case allow scope key l (monotonic (wh_run w)) (wh_limiter w) of
         (yes, kept) \<Rightarrow> (yes, w\<lparr>wh_limiter := kept\<rparr>))
       (checked_limit \<lparr>per_minute = n, burst = None\<rparr>)"

definition begin_session :: "instant \<Rightarrow> store \<Rightarrow> store" where
  "begin_session now db = db\<lparr>tx_now := now\<rparr>"

text \<open>One message: throttled, failed and rolled back, or handled and committed.\<close>

definition receive_message ::
    "'w pipeline \<Rightarrow> settings \<Rightarrow> string \<Rightarrow> inbound_message \<Rightarrow> 'w webhook_state
       \<Rightarrow> (uid \<times> bool \<times> nat) list option \<times> 'w webhook_state" where
  "receive_message pipe st corr inb w =
     (case allow_request ''webhook.consumer'' (in_wa_id inb) (consumer_rate_per_minute st) w of
        None \<Rightarrow> (None, w)
      | Some (False, w1) \<Rightarrow> (Some [], w1)
      | Some (True, w1) \<Rightarrow>
          (case handle_inbound pipe inb corr (begin_session (wall pipe (wh_run w1)) (wh_db w1)) (wh_run w1) of
             (Inl e, s') \<Rightarrow> (Some [], w1\<lparr>wh_run := s'\<rparr>)
           | (Inr (r, db'), s') \<Rightarrow> (Some [(tr_turn r, tr_duplicate r, length (tr_outbound r))],
               w1\<lparr>wh_db := db', wh_run := s'\<rparr>)))"

fun receive_messages ::
    "'w pipeline \<Rightarrow> settings \<Rightarrow> string \<Rightarrow> inbound_message list \<Rightarrow> 'w webhook_state
       \<Rightarrow> (uid \<times> bool \<times> nat) list option \<times> 'w webhook_state" where
  "receive_messages pipe st corr [] w = (Some [], w)"
| "receive_messages pipe st corr (m # rest) w =
     (case receive_message pipe st corr m w of
        (None, w1) \<Rightarrow> (None, w1)
      | (Some rs, w1) \<Rightarrow> apfst (map_option (append rs)) (receive_messages pipe st corr rest w1))"

text \<open>The body past its checks: receipts first, then the messages.\<close>

definition receive_body ::
    "'w pipeline \<Rightarrow> settings \<Rightarrow> bsp \<Rightarrow> string \<Rightarrow> string \<Rightarrow> 'w webhook_state
       \<Rightarrow> answer option \<times> 'w webhook_state" where
  "receive_body pipe st b corr body w =
     (case bsp_inbound b body (default_tenant_slug st) of
        None \<Rightarrow> (Some Unparsed, w)
      | Some inbound \<Rightarrow>
          let now = wall pipe (wh_run w) in
          (case apply_receipts b body now (begin_session now (wh_db w)) of
             None \<Rightarrow> (None, w)
           | Some (n, db1) \<Rightarrow>
               let w1 = w\<lparr>wh_db := db1\<rparr> in
               apfst (map_option (\<lambda>rs. Accepted_Batch rs n)) (receive_messages pipe st corr inbound w1)))"

definition receive ::
    "(string \<Rightarrow> string \<Rightarrow> string \<Rightarrow> string) \<Rightarrow> 'w pipeline \<Rightarrow> settings \<Rightarrow> bsp \<Rightarrow> string \<Rightarrow> request
       \<Rightarrow> 'w webhook_state \<Rightarrow> answer option \<times> 'w webhook_state" where
  "receive hmac pipe st b new_hex rq w =
     (let headers = rq_headers rq; body = rq_body rq;
          corr = or_else (map_of headers ''x-request-id'') new_hex;
          source = client_address headers (rq_client rq)
      in case allow_request ''webhook.source'' source (webhook_rate_per_minute st) w of
           None \<Rightarrow> (None, w)
         | Some (False, w1) \<Rightarrow> (Some Rate_Limited, w1)
         | Some (True, w1) \<Rightarrow>
             (case declared_too_large (map_of headers ''content-length'') (webhook_max_body_bytes st) of
                None \<Rightarrow> (None, w1)
              | Some True \<Rightarrow> (Some Too_Large, w1)
              | Some False \<Rightarrow>
                  if webhook_max_body_bytes st < int (length body) then (Some Too_Large, w1)
                  else (case check_signature hmac st b body headers of
                      None \<Rightarrow> (None, w1)
                    | Some sig \<Rightarrow>
                        if \<not> signature_ok sig then (Some (Rejected sig), w1)
                        else receive_body pipe st b corr body w1)))"

end
