(* ===== verification/Webhook_Props.thy ===== *)
theory Webhook_Props
  imports Webhook Pipeline_Samples
begin

text \<open>
  What the webhook lets through and what it does with receipts.
\<close>

subsection \<open>Receipts\<close>

lemma RANK_inj: "RANK a = RANK b \<longleftrightarrow> a = b"
  by (cases a; cases b; simp add: RANK_def)

text \<open>The status of a message after its receipts: the highest of all.\<close>

definition top_rank :: "delivery_receipt list \<Rightarrow> message \<Rightarrow> nat" where
  "top_rank rs m = Max (insert (RANK (msg_status m)) ((\<lambda>r. RANK (dr_status r)) ` {r \<in> set rs. names_message r m}))"

lemma top_rank_Nil: "top_rank [] m = RANK (msg_status m)"
  by (simp add: top_rank_def)

lemma top_rank_Cons:
  "top_rank (r # rs) m = (if names_message r m then max (RANK (dr_status r)) (top_rank rs m) else top_rank rs m)"
proof (cases "names_message r m")
  case True
  then have "{x \<in> set (r # rs). names_message x m} = insert r {x \<in> set rs. names_message x m}" by auto
  then have "insert (RANK (msg_status m)) ((\<lambda>x. RANK (dr_status x)) ` {x \<in> set (r # rs). names_message x m})
      = insert (RANK (dr_status r)) (insert (RANK (msg_status m)) ((\<lambda>x. RANK (dr_status x)) ` {x \<in> set rs. names_message x m}))"
    by auto
  then show ?thesis using True by (simp add: top_rank_def Max_insert)
next
  case False
  then have "{x \<in> set (r # rs). names_message x m} = {x \<in> set rs. names_message x m}" by auto
  then show ?thesis using False by (simp add: top_rank_def)
qed

lemma mark_message_fields [simp]:
  "msg_id (mark_message now r m) = msg_id m" "provider_message_id (mark_message now r m) = provider_message_id m"
  "msg_status (mark_message now r m) = dr_status r" "msg_lead (mark_message now r m) = msg_lead m"
  "msg_tenant (mark_message now r m) = msg_tenant m" "msg_conversation (mark_message now r m) = msg_conversation m"
  by (simp_all add: mark_message_def Let_def)

lemma names_marked [simp]: "names_message r (mark_message now r' m) = names_message r m"
  by (simp add: names_message_def)

lemma top_rank_marked:
  "RANK (msg_status m) \<le> RANK (dr_status r) \<Longrightarrow> names_message r m \<Longrightarrow>
   top_rank rs (mark_message now r m) = top_rank (r # rs) m"
proof (induction rs)
  case Nil
  then show ?case by (simp add: top_rank_Nil top_rank_Cons)
next
  case (Cons x rs)
  then show ?case by (simp add: top_rank_Cons max.left_commute)
qed

text \<open>One receipt changes the rank of one message at most, upwards.\<close>

lemma apply_receipt_effect:
  assumes "apply_receipt now r (n, db) = Some (n', db')" and "distinct (map msg_id (messages db))"
  shows "map (top_rank rs) (messages db') = map (top_rank (r # rs)) (messages db)
    \<and> map msg_id (messages db') = map msg_id (messages db)
    \<and> map provider_message_id (messages db') = map provider_message_id (messages db)"
proof -
  consider "filter (names_message r) (messages db) = []" | m where "filter (names_message r) (messages db) = [m]"
    using assms(1) by (auto simp: apply_receipt_def split: list.splits)
  then show ?thesis
  proof cases
    case 1
    then have "db' = db" using assms(1) by (simp add: apply_receipt_def)
    moreover have "\<not> names_message r m" if "m \<in> set (messages db)" for m
      using 1 that by (auto simp: filter_empty_conv)
    ultimately show ?thesis by (simp add: top_rank_Cons)
  next
    case (2 m)
    have only: "names_message r x \<longleftrightarrow> x = m" if "x \<in> set (messages db)" for x
    proof -
      have "x \<in> set (filter (names_message r) (messages db)) \<longleftrightarrow> x \<in> {m}" using 2 by simp
      then show ?thesis using that by simp
    qed
    have mem: "m \<in> set (messages db)" "names_message r m"
      using 2 by (auto simp: filter_eq_Cons_iff)
    show ?thesis
    proof (cases "RANK (dr_status r) \<le> RANK (msg_status m)")
      case True
      then have "db' = db" using assms(1) 2 by (simp add: apply_receipt_def)
      moreover have "top_rank (r # rs) m = top_rank rs m"
      proof -
        have "RANK (msg_status m) \<le> top_rank rs m" by (simp add: top_rank_def)
        then show ?thesis using True by (simp add: top_rank_Cons max_def)
      qed
      ultimately show ?thesis using only by (auto simp: top_rank_Cons)
    next
      case False
      then have db': "db' = update_message (msg_id m) (mark_message now r) db"
        using assms(1) 2 by (simp add: apply_receipt_def)
      have ids: "msg_id x = msg_id m \<longleftrightarrow> x = m" if "x \<in> set (messages db)" for x
        using assms(2) mem(1) that by (auto simp: distinct_map dest: inj_onD)
      have "top_rank rs (mark_message now r m) = top_rank (r # rs) m"
        using False mem(2) by (intro top_rank_marked) simp_all
      then show ?thesis
        using ids only by (auto simp: db' update_message_def update_where_def top_rank_Cons)
    qed
  qed
qed

lemma apply_all_effect:
  assumes "apply_all now rs (n, db) = Some (n', db')" and "distinct (map msg_id (messages db))"
  shows "map (\<lambda>m. RANK (msg_status m)) (messages db') = map (top_rank rs) (messages db)"
  using assms
proof (induction rs arbitrary: n db)
  case Nil
  then show ?case by (simp add: top_rank_Nil)
next
  case (Cons r rs)
  obtain n1 db1 where r: "apply_receipt now r (n, db) = Some (n1, db1)" "apply_all now rs (n1, db1) = Some (n', db')"
    using Cons.prems(1) by (cases "apply_receipt now r (n, db)") auto
  note e = apply_receipt_effect [OF r(1) Cons.prems(2), of rs]
  then have "distinct (map msg_id (messages db1))" using Cons.prems(2) by simp
  from Cons.IH [OF r(2) this] e show ?case by simp
qed

text \<open>C30. Delivery is a ratchet: whatever order a batch of receipts comes in, and however often one
  is repeated, every message ends at the highest status of its own and of the receipts that name it,
  so no receipt ever takes a message back.\<close>

theorem receipts_are_a_ratchet:
  assumes "apply_receipts b body now db = Some (n, db')" and "distinct (map msg_id (messages db))"
    and "bsp_receipts b body = Some rs"
  shows "map (\<lambda>m. RANK (msg_status m)) (messages db')
    = map (\<lambda>m. Max (insert (RANK (msg_status m)) ((\<lambda>r. RANK (dr_status r)) ` {r \<in> set rs. names_message r m})))
        (messages db)"
  using apply_all_effect [of now rs 0 db n db'] assms by (simp add: apply_receipts_def top_rank_def)

subsection \<open>Admission\<close>

lemma allow_request_frame:
  "allow_request scope key n w = Some (yes, w') \<Longrightarrow> wh_db w' = wh_db w \<and> wh_run w' = wh_run w"
  by (auto simp: allow_request_def split_def)

text \<open>How a request gets past the checks.\<close>

lemma receive_cases:
  assumes "receive hmac pipe st b nx rq w = (a, w')"
  obtains (stopped) "wh_db w' = wh_db w" "wh_run w' = wh_run w"
      "case a of Some x \<Rightarrow> status_code x \<noteq> 200 | None \<Rightarrow> True"
  | (passed) sig w1 corr where "check_signature hmac st b (rq_body rq) (rq_headers rq) = Some sig" "signature_ok sig"
      "wh_db w1 = wh_db w" "wh_run w1 = wh_run w" "receive_body pipe st b corr (rq_body rq) w1 = (a, w')"
proof -
  let ?corr = "or_else (map_of (rq_headers rq) ''x-request-id'') nx"
  show thesis
  proof (cases "allow_request ''webhook.source'' (client_address (rq_headers rq) (rq_client rq))
      (webhook_rate_per_minute st) w")
    case None
    then show ?thesis using assms stopped by (simp add: receive_def Let_def)
  next
    case (Some p)
    obtain yes w1 where p: "p = (yes, w1)" by fastforce
    note frame = allow_request_frame [OF Some [unfolded p]]
    show ?thesis
    proof (cases yes)
      case False
      then show ?thesis using assms stopped frame by (auto simp: receive_def Let_def Some p status_code_def)
    next
      case True
      note eq = assms [unfolded receive_def Let_def Some p, simplified True, simplified]
      show ?thesis
      proof (cases "declared_too_large (map_of (rq_headers rq) ''content-length'') (webhook_max_body_bytes st)")
        case None
        then show ?thesis using eq stopped frame by simp
      next
        case (Some big)
        show ?thesis
        proof (cases "big \<or> webhook_max_body_bytes st < int (length (rq_body rq))")
          case True
          then show ?thesis using eq stopped frame Some by (cases big) (auto simp: status_code_def)
        next
          case False
          then have eq': "(case check_signature hmac st b (rq_body rq) (rq_headers rq) of
              None \<Rightarrow> (None, w1)
            | Some sig \<Rightarrow> if \<not> signature_ok sig then (Some (Rejected sig), w1)
                else receive_body pipe st b ?corr (rq_body rq) w1) = (a, w')"
            using eq Some by simp
          show ?thesis
          proof (cases "check_signature hmac st b (rq_body rq) (rq_headers rq)")
            case None
            then show ?thesis using eq' stopped frame by simp
          next
            case (Some sig)
            show ?thesis
            proof (cases "signature_ok sig")
              case True
              with eq' Some have "receive_body pipe st b ?corr (rq_body rq) w1 = (a, w')" by simp
              with passed [OF Some True _ _ this] frame show ?thesis by blast
            next
              case False
              then show ?thesis using eq' Some stopped frame by (auto simp: status_code_def)
            qed
          qed
        qed
      qed
    qed
  qed
qed


lemma valid_signature:
  assumes "verify_signature hmac scheme secret body headers = Some SIG_VALID"
  shows "\<exists>k v. secret = Some k \<and> k \<noteq> [] \<and> find_header (sg_header scheme) headers = Some v
    \<and> lower (drop (length (sg_prefix scheme)) (rstrip latin_space (lstrip latin_space v)))
        = hmac (sg_digest scheme) k body"
  using assms
  by (auto simp: verify_signature_def Let_def truthy_def compare_digest_def split: if_splits option.splits)

lemma never_skipped: "verify_signature hmac scheme secret body headers \<noteq> Some SKIPPED"
  by (auto simp: verify_signature_def Let_def split: if_splits option.splits)

lemma production_signs:
  "checked_settings known env = Some st \<Longrightarrow> environment st = environment.PROD \<Longrightarrow> bsp_require_signature st"
  by (auto simp: checked_settings_def Let_def production_ready_def split: if_splits)

text \<open>C28. With settings that were accepted for production, no request changes the database or reaches
  the outside unless it carries the HMAC of its own raw body under the configured, non-empty
  webhook secret.\<close>

theorem production_requires_the_signature:
  assumes "checked_settings known env = Some st" and "environment st = environment.PROD"
    and "receive hmac pipe st b nx rq w = (a, w')"
    and "(wh_db w', wh_run w') \<noteq> (wh_db w, wh_run w)"
  shows "\<exists>k v. bsp_webhook_secret st = Some k \<and> k \<noteq> []
    \<and> find_header (sg_header (bsp_scheme b)) (rq_headers rq) = Some v
    \<and> lower (drop (length (sg_prefix (bsp_scheme b))) (rstrip latin_space (lstrip latin_space v)))
        = hmac (sg_digest (bsp_scheme b)) k (rq_body rq)"
  using assms(3)
proof (cases rule: receive_cases)
  case (passed sig w1 corr)
  have "verify_signature hmac (bsp_scheme b) (bsp_webhook_secret st) (rq_body rq) (rq_headers rq) = Some sig"
    using passed(1) production_signs [OF assms(1,2)] by (simp add: check_signature_def)
  moreover from this have "sig = SIG_VALID"
    using passed(2) never_skipped by (auto simp: signature_ok_def)
  ultimately show ?thesis using valid_signature by blast
qed (use assms(4) in simp)

subsection \<open>A sample\<close>

definition sample_sent :: message where
  "sample_sent = \<lparr>msg_id = 8, msg_tenant = 1, msg_seq = 0, msg_conversation = 3, msg_lead = 2, msg_turn = 9,
     msg_direction = OUTBOUND, msg_channel = WHATSAPP, msg_status = message_status.QUEUED, msg_body = ''Hey'',
     msg_locale = ''en'', msg_phrasebank_key = Some ''greeting.welcome'', provider_message_id = Some ''p'',
     msg_sent_at = None, msg_created_at = 0\<rparr>"

definition sample_receipt :: "message_status \<Rightarrow> delivery_receipt" where
  "sample_receipt x = \<lparr>dr_message = ''p'', dr_status = x, dr_occurred_at = None, dr_failed_reason = None\<rparr>"

definition sample_bsp :: bsp where
  "sample_bsp = \<lparr>bsp_slug = ''s'', bsp_scheme = default_scheme, bsp_inbound = (\<lambda>body tslug. Some []),
     bsp_receipts = (\<lambda>body. Some [sample_receipt READ, sample_receipt message_status.SENT])\<rparr>"

definition sent_db :: store where
  "sent_db = sample_db\<lparr>messages := [sample_sent]\<rparr>"

definition sample_hook :: "fake_world webhook_state" where
  "sample_hook = \<lparr>wh_limiter = new_memory_store, wh_db = sent_db, wh_run = sample_run\<rparr>"

definition sample_settings :: settings where
  "sample_settings = \<lparr>environment = environment.PROD, region = ''me-central-1'', zone_name = ''Asia/Dubai'',
     database_pool_size = 5, database_max_overflow = 5, database_connect_timeout_s = 5,
     turn_deadline_ms = 2500, llm_timeout_ms = 2000, notify_hours = [24, 2, 2, 24, 2],
     whatsapp_session_window_hours = 24, bsp_provider = ''360dialog'', bsp_webhook_secret = Some ''k'',
     bsp_verify_token = None, bsp_require_signature = True, bsp_api_base = None, bsp_api_key = None,
     openai_api_key = None, console_username = ''ops'', console_password = Some ''pw'', sentry_dsn = None,
     webhook_rate_per_minute = 600, consumer_rate_per_minute = 30, webhook_max_body_bytes = 262144,
     sentry_traces_sample_rate = 0, log_retention_days = 90, data_retention_days = 365,
     default_tenant_slug = ''m''\<rparr>"

definition hook_request :: "string \<Rightarrow> request" where
  "hook_request sig = \<lparr>rq_headers = [(''x-hub-signature-256'', sig)], rq_client = None, rq_body = ''b''\<rparr>"

lemma hook_request_fields:
  "rq_headers (hook_request sig) = [(''x-hub-signature-256'', sig)]" "rq_body (hook_request sig) = ''b''"
  "webhook_rate_per_minute sample_settings = 600" "webhook_max_body_bytes sample_settings = 262144"
  by (simp_all add: hook_request_def sample_settings_def)

definition sample_receive :: "string \<Rightarrow> answer option \<times> fake_world webhook_state" where
  "sample_receive sig = receive (\<lambda>dig key body. ''ab'') sample_pipe sample_settings sample_bsp ''c''
     (hook_request sig) sample_hook"

lemma sample_settings_checked: "checked_settings (\<lambda>z. True) sample_settings = Some sample_settings"
  by code_simp

lemma sample_receipts: "apply_receipts sample_bsp ''b'' 0 sent_db
    = Some (1, sent_db\<lparr>messages := [sample_sent\<lparr>msg_status := READ\<rparr>]\<rparr>)"
  by (simp add: apply_receipts_def sample_bsp_def sent_db_def apply_receipt_def names_message_def
      sample_receipt_def sample_sent_def RANK_def update_message_def update_where_def mark_message_def Let_def)

lemma sample_allowed:
  "\<exists>w. allow_request ''webhook.source'' k 600 sample_hook = Some (True, w)
    \<and> wh_db w = sent_db \<and> wh_run w = sample_run"
  by (simp add: allow_request_def checked_limit_def allow_def take_token_def sample_hook_def
      new_memory_store_def full_bucket_def draw_def refilled_def capacity_def Let_def split_def)

theorem receipts_are_a_ratchet_witness:
  "map (\<lambda>m. RANK (msg_status m)) [sample_sent\<lparr>msg_status := READ\<rparr>] = [4]
    \<and> distinct (map msg_id (messages sent_db))"
proof -
  have d: "distinct (map msg_id (messages sent_db))" by (simp add: sent_db_def)
  have "bsp_receipts sample_bsp ''b'' = Some [sample_receipt READ, sample_receipt message_status.SENT]"
    by (simp add: sample_bsp_def)
  from receipts_are_a_ratchet [OF sample_receipts d this] d show ?thesis
    by (simp add: sent_db_def sample_sent_def sample_receipt_def names_message_def RANK_def
        Collect_conv_if insert_Collect cong: conj_cong)
qed


theorem production_requires_the_signature_witness:
  "case sample_receive ''sha256=AB'' of (a, w') \<Rightarrow> wh_db w' \<noteq> wh_db sample_hook
    \<and> lower ''AB'' = ''ab''"
proof -
  obtain w1 where w: "allow_request ''webhook.source'' (client_address (rq_headers (hook_request ''sha256=AB''))
      (rq_client (hook_request ''sha256=AB''))) 600 sample_hook = Some (True, w1)"
    and w1: "wh_db w1 = sent_db" "wh_run w1 = sample_run"
    using sample_allowed by blast
  have sig: "check_signature (\<lambda>dig key body. ''ab'') sample_settings sample_bsp ''b''
      (rq_headers (hook_request ''sha256=AB'')) = Some SIG_VALID" by code_simp
  let ?db = "sent_db\<lparr>messages := [sample_sent\<lparr>msg_status := READ\<rparr>]\<rparr>"
  have now: "wall sample_pipe sample_run = 0" "begin_session 0 sent_db = sent_db"
    by (simp_all add: yes_opening begin_session_def sent_db_def sample_db_def empty_store_def)
  have inb: "bsp_inbound sample_bsp ''b'' (default_tenant_slug sample_settings) = Some []"
    by (simp add: sample_bsp_def)
  have body: "receive_body sample_pipe sample_settings sample_bsp ''c'' ''b'' w1
      = (Some (Accepted_Batch [] 1), w1\<lparr>wh_db := ?db\<rparr>)"
    unfolding receive_body_def inb option.case Let_def w1 now sample_receipts by simp
  have e: "sample_receive ''sha256=AB'' = (Some (Accepted_Batch [] 1), w1\<lparr>wh_db := ?db\<rparr>)"
    using w sig body
    by (simp add: sample_receive_def receive_def Let_def hook_request_fields declared_too_large_def
        signature_ok_def or_else_def)
  have "messages (wh_db (w1\<lparr>wh_db := ?db\<rparr>)) \<noteq> messages (wh_db sample_hook)"
    by (simp add: sample_hook_def sent_db_def sample_sent_def)
  then have ne: "wh_db (w1\<lparr>wh_db := ?db\<rparr>) \<noteq> wh_db sample_hook" by metis
  have prod: "environment sample_settings = environment.PROD" by (simp add: sample_settings_def)
  from production_requires_the_signature [OF sample_settings_checked prod e [unfolded sample_receive_def]] ne
  have "\<exists>v. find_header ''x-hub-signature-256'' (rq_headers (hook_request ''sha256=AB'')) = Some v
    \<and> lower (drop (length ''sha256='') (rstrip latin_space (lstrip latin_space v))) = ''ab''"
    by (auto simp: sample_bsp_def default_scheme_def)
  moreover have "find_header ''x-hub-signature-256'' (rq_headers (hook_request ''sha256=AB'')) = Some ''sha256=AB''"
    and "drop (length ''sha256='') (rstrip latin_space (lstrip latin_space ''sha256=AB'')) = ''AB''"
    by code_simp+
  ultimately have "lower ''AB'' = ''ab''" by auto
  with ne show ?thesis unfolding e prod.case by blast
qed

section \<open>The contract of a messaging provider\<close>

text \<open>
  What the webhook relies on of a provider, the protocol \<open>BSPAdapter\<close> of
  \<^verbatim>\<open>mawjood/services/bsp/base.py\<close>, as a locale: messages carry the tenant they are asked for, and a
  receipt reports what became of a message that went out. It is interpreted on whatever provider
  \<open>build_bsp\<close> chooses.
\<close>

lemma gather_all:
  "gather f xs = Some ys \<Longrightarrow> y \<in> set ys \<Longrightarrow> \<exists>x\<in>set xs. \<exists>zs. f x = Some zs \<and> y \<in> set zs"
proof (induction xs arbitrary: ys)
  case (Cons x xs)
  then obtain as bs where "f x = Some as" "gather f xs = Some bs" "ys = as @ bs"
    by (auto simp: bind_eq_Some_conv)
  then show ?case using Cons by auto
qed simp

lemma each_value_all:
  assumes "each_value f payload = Some ys" and "y \<in> set ys"
  shows "\<exists>v zs. f v = Some zs \<and> y \<in> set zs"
proof -
  obtain es where "gather (\<lambda>entry. do {
       cs \<leftarrow> wire_get entry ''changes'' WNull;
       gather (\<lambda>change. do {
         value \<leftarrow> wire_get change ''value'' WNull;
         f (wire_or value (WDict []))}) (as_list cs)}) es = Some ys"
    using assms(1) by (auto simp: each_value_def bind_eq_Some_conv)
  from gather_all [OF this assms(2)] obtain entry cs where
    "gather (\<lambda>change. do {
         value \<leftarrow> wire_get change ''value'' WNull;
         f (wire_or value (WDict []))}) (as_list cs) = Some entry" "y \<in> set entry"
    by (auto simp: bind_eq_Some_conv)
  from gather_all [OF this] show ?thesis by (auto simp: bind_eq_Some_conv)
qed

subsection \<open>The contract\<close>

definition dispatched :: "message_status \<Rightarrow> bool" where
  "dispatched s \<longleftrightarrow> s \<in> {message_status.SENT, message_status.DELIVERED, message_status.READ, message_status.FAILED}"

locale bsp_contract =
  fixes b :: bsp
  assumes addressed: "bsp_inbound b body tslug = Some ms' \<Longrightarrow> m \<in> set ms' \<Longrightarrow> in_tenant_slug m = tslug"
    and reports_dispatch: "bsp_receipts b body = Some rs \<Longrightarrow> r \<in> set rs \<Longrightarrow> dispatched (dr_status r)"
begin

text \<open>Receipts never take a message back: its status stays or becomes one of a message that went out.\<close>

lemma receipt_dispatches:
  assumes "apply_receipt now r (n, db) = Some (n', db')" and "dispatched (dr_status r)"
  shows "list_all2 (\<lambda>m m'. msg_status m' = msg_status m \<or> dispatched (msg_status m')) (messages db) (messages db')"
  using assms
  by (auto simp: apply_receipt_def update_message_def update_where_def list_all2_conv_all_nth
      split: list.splits if_splits)

lemma receipts_dispatch:
  assumes "apply_receipts b body now db = Some (n, db')"
  shows "list_all2 (\<lambda>m m'. msg_status m' = msg_status m \<or> dispatched (msg_status m')) (messages db) (messages db')"
proof -
  let ?R = "\<lambda>m m'. msg_status m' = msg_status m \<or> dispatched (msg_status m')"
  have refl: "list_all2 ?R xs xs" for xs by (simp add: list_all2_refl)
  have trans: "list_all2 ?R xs zs" if xy: "list_all2 ?R xs ys" and yz: "list_all2 ?R ys zs" for xs ys zs
    by (rule list_all2_trans [OF _ xy yz]) auto
  have all: "list_all2 ?R (messages d) (messages db')"
    if "apply_all now rs (k, d) = Some (n, db')" and "list_all (\<lambda>r. dispatched (dr_status r)) rs" for rs k d
    using that
  proof (induction rs arbitrary: k d)
    case Nil
    then show ?case using refl by simp
  next
    case (Cons r rs)
    then obtain k1 d1 where "apply_receipt now r (k, d) = Some (k1, d1)" "apply_all now rs (k1, d1) = Some (n, db')"
      by (auto simp: bind_eq_Some_conv)
    moreover have "list_all2 ?R (messages d) (messages d1)"
      using receipt_dispatches calculation(1) Cons.prems(2) by simp
    moreover have "list_all2 ?R (messages d1) (messages db')"
      using Cons.IH calculation(2) Cons.prems(2) by simp
    ultimately show ?case using trans by blast
  qed
  show ?thesis
  proof (cases "bsp_receipts b body")
    case None
    then show ?thesis using assms refl by (simp add: apply_receipts_def)
  next
    case (Some rs)
    then have "list_all (\<lambda>r. dispatched (dr_status r)) rs" using reports_dispatch by (auto simp: list_all_iff)
    then show ?thesis using all [of rs 0 db] assms Some by (simp add: apply_receipts_def)
  qed
qed

text \<open>As long as the tenant is not provisioned no message is handled.\<close>

lemma unprovisioned_message:
  assumes "get_by_slug (wh_db w) (in_tenant_slug m) = None"
    and "receive_message pipe st corr m w = (a, w')"
  shows "wh_db w' = wh_db w \<and> wh_run w' = wh_run w"
proof (cases "allow_request ''webhook.consumer'' (in_wa_id m) (consumer_rate_per_minute st) w")
  case None
  then show ?thesis using assms(2) by (simp add: receive_message_def)
next
  case (Some p)
  obtain yes w1 where p: "p = (yes, w1)" by (rule prod.exhaust)
  then have same: "wh_db w1 = wh_db w" "wh_run w1 = wh_run w" using allow_request_frame Some by blast+
  have "handle_inbound pipe m corr (begin_session now (wh_db w1)) s = (Inl Unknown_Tenant, s)" for now s
    using assms(1) same(1) by (simp add: handle_inbound_def begin_session_def get_by_slug_def)
  then show ?thesis using assms(2) Some p same by (cases yes) (auto simp: receive_message_def)
qed

lemma unprovisioned_batch:
  assumes "list_all (\<lambda>m. get_by_slug (wh_db w) (in_tenant_slug m) = None) inb"
    and "receive_messages pipe st corr inb w = (a, w')"
  shows "wh_db w' = wh_db w \<and> wh_run w' = wh_run w"
  using assms
proof (induction inb arbitrary: w a)
  case (Cons m inb)
  obtain x w1 where x: "receive_message pipe st corr m w = (x, w1)" by (rule prod.exhaust)
  note same = unprovisioned_message [OF _ x]
  show ?case
  proof (cases x)
    case None
    then show ?thesis using Cons.prems x same by simp
  next
    case (Some rs)
    obtain y w2 where y: "receive_messages pipe st corr inb w1 = (y, w2)" by (rule prod.exhaust)
    then have "w' = w2" using Cons.prems(2) x Some by simp
    moreover have "wh_db w1 = wh_db w \<and> wh_run w1 = wh_run w" using same Cons.prems(1) by simp
    moreover have "wh_db w2 = wh_db w1 \<and> wh_run w2 = wh_run w1"
      by (rule Cons.IH [of w1 y, unfolded \<open>w' = w2\<close>]) (use Cons.prems(1) calculation(2) y in simp_all)
    ultimately show ?thesis by simp
  qed
qed simp

lemma unprovisioned_request:
  assumes "get_by_slug (wh_db w) (default_tenant_slug st) = None"
    and "receive_body pipe st b corr body w = (a, w')"
  shows "wh_run w' = wh_run w \<and> tenants (wh_db w') = tenants (wh_db w) \<and> leads (wh_db w') = leads (wh_db w)
    \<and> bookings (wh_db w') = bookings (wh_db w)"
proof (cases "bsp_inbound b body (default_tenant_slug st)")
  case None
  then show ?thesis using assms(2) by (simp add: receive_body_def)
next
  case (Some inb)
  let ?now = "wall pipe (wh_run w)"
  show ?thesis
  proof (cases "apply_receipts b body ?now (begin_session ?now (wh_db w))")
    case None
    then show ?thesis using assms(2) Some by (simp add: receive_body_def)
  next
    case r: (Some p)
    obtain n db1 where p: "p = (n, db1)" by (rule prod.exhaust)
    have frame: "tenants d' = tenants d \<and> leads d' = leads d \<and> bookings d' = bookings d"
      if "apply_all ?now rs (k, d) = Some (k', d')" for rs k d k' d'
      using that
      by (induction rs arbitrary: k d)
        (force simp: bind_eq_Some_conv apply_receipt_def update_message_def split: list.splits if_splits)+
    have db1: "tenants db1 = tenants (wh_db w)" "leads db1 = leads (wh_db w)" "bookings db1 = bookings (wh_db w)"
      using r p frame by (auto simp: apply_receipts_def begin_session_def split: option.splits)
    obtain y w2 where y: "receive_messages pipe st corr inb (w\<lparr>wh_db := db1\<rparr>) = (y, w2)" by (rule prod.exhaust)
    have "list_all (\<lambda>m. get_by_slug db1 (in_tenant_slug m) = None) inb"
      using addressed [OF Some] assms(1) db1(1) by (auto simp: list_all_iff get_by_slug_def)
    then have "wh_db w2 = db1 \<and> wh_run w2 = wh_run w" using unprovisioned_batch [OF _ y] by simp
    moreover have "w' = w2" using assms(2) Some r p y by (simp add: receive_body_def Let_def)
    ultimately show ?thesis using db1 by simp
  qed
qed

end

subsection \<open>The providers\<close>

lemma parse_message_slug: "parse_message repr names tslug m = Some ms' \<Longrightarrow> x \<in> set ms' \<Longrightarrow> in_tenant_slug x = tslug"
  by (auto simp: parse_message_def bind_eq_Some_conv split: if_splits)

lemma cloud_inbound_slug:
  assumes "cloud_parse_inbound loads repr body tslug = Some ms'" and "m \<in> set ms'"
  shows "in_tenant_slug m = tslug"
proof -
  obtain payload where "each_value (\<lambda>value. do {
       names \<leftarrow> contact_names repr value;
       msgs \<leftarrow> wire_get value ''messages'' WNull;
       gather (parse_message repr names tslug) (as_list msgs)}) payload = Some ms'"
    using assms by (auto simp: cloud_parse_inbound_def split: json_read.splits)
  from each_value_all [OF this assms(2)] obtain names msgs zs where
    "gather (parse_message repr names tslug) (as_list msgs) = Some zs" "m \<in> set zs"
    by (auto simp: bind_eq_Some_conv)
  from gather_all [OF this] show ?thesis using parse_message_slug by blast
qed

lemma parse_status_dispatched:
  "parse_status repr st = Some rs \<Longrightarrow> r \<in> set rs \<Longrightarrow> dispatched (dr_status r)"
  by (auto simp: parse_status_def bind_eq_Some_conv dispatched_def STATUS_MAP_def
      split: option.splits if_splits)

lemma cloud_receipts_dispatched:
  assumes "cloud_parse_receipts loads repr body = Some rs" and "r \<in> set rs"
  shows "dispatched (dr_status r)"
proof -
  obtain payload where "each_value (\<lambda>value. do {
       sts \<leftarrow> wire_get value ''statuses'' WNull;
       gather (parse_status repr) (as_list sts)}) payload = Some rs"
    using assms by (auto simp: cloud_parse_receipts_def split: json_read.splits)
  from each_value_all [OF this assms(2)] obtain sts zs where
    "gather (parse_status repr) (as_list sts) = Some zs" "r \<in> set zs"
    by (auto simp: bind_eq_Some_conv)
  from gather_all [OF this] show ?thesis using parse_status_dispatched by blast
qed

interpretation configured: bsp_contract "build_bsp loads repr provider" for loads repr provider
proof (unfold_locales, goal_cases)
  case (1 body tslug ms' m)
  then show ?case
    by (auto simp: build_bsp_def wati_parse_inbound_def console_parse_inbound_def bind_eq_Some_conv
        dest: cloud_inbound_slug split: if_splits json_read.splits)
next
  case (2 body rs r)
  then show ?case
    by (auto simp: build_bsp_def wati_parse_receipts_def console_parse_receipts_def
        dest: cloud_receipts_dispatched split: if_splits)
qed

text \<open>Whatever the provider, a batch of receipts never takes a message back to the queue, and a request for
  a tenant that is not provisioned creates no lead and books nothing.\<close>

theorem receipts_never_requeue:
  "apply_receipts (build_bsp loads repr provider) body now db = Some (n, db') \<Longrightarrow>
   list_all2 (\<lambda>m m'. msg_status m' = msg_status m \<or> dispatched (msg_status m')) (messages db) (messages db')"
  by (rule configured.receipts_dispatch)

theorem unprovisioned_tenant_gets_nothing:
  "get_by_slug (wh_db w) (default_tenant_slug st) = None \<Longrightarrow>
   receive_body pipe st (build_bsp loads repr provider) corr body w = (a, w') \<Longrightarrow>
   wh_run w' = wh_run w \<and> tenants (wh_db w') = tenants (wh_db w) \<and> leads (wh_db w') = leads (wh_db w)
     \<and> bookings (wh_db w') = bookings (wh_db w)"
  by (rule configured.unprovisioned_request)

end
