(* ===== verification/Integrity.thy ===== *)
theory Integrity
  imports Pipeline_Facts Handoff
begin

text \<open>
  The constraints of the schema, \<^verbatim>\<open>mawjood/db/models.py\<close>, as one predicate on the store: primary keys
  are unique, and every row refers to rows that exist and belong to the same lead and tenant. The
  primitive operations keep it.
\<close>

subsection \<open>A table\<close>

definition table_ok :: "('a \<Rightarrow> uid) \<Rightarrow> ('a \<Rightarrow> bool) \<Rightarrow> uid \<Rightarrow> 'a list \<Rightarrow> bool" where
  "table_ok pk good n rows \<longleftrightarrow> distinct (map pk rows) \<and> (\<forall>r\<in>set rows. pk r < n \<and> good r)"

lemma table_ok_Nil [simp]: "table_ok pk good n []"
  by (simp add: table_ok_def)

lemma table_ok_mono:
  "table_ok pk good n rows \<Longrightarrow> n \<le> n' \<Longrightarrow> (\<And>r. r \<in> set rows \<Longrightarrow> good r \<Longrightarrow> good' r) \<Longrightarrow>
   table_ok pk good' n' rows"
  by (fastforce simp: table_ok_def)

lemma table_ok_append:
  "table_ok pk good n rows \<Longrightarrow> pk r = n \<Longrightarrow> n < n' \<Longrightarrow> good r \<Longrightarrow> table_ok pk good n' (rows @ [r])"
  by (fastforce simp: table_ok_def)

lemma table_ok_update:
  assumes "table_ok pk good n rows" and "\<And>r. pk (f r) = pk r"
    and "\<And>r. r \<in> set rows \<Longrightarrow> p r \<Longrightarrow> good r \<Longrightarrow> good (f r)"
  shows "table_ok pk good n (update_where p f rows)"
  using assms by (auto simp: table_ok_def set_update_where)

lemma table_ok_filter: "table_ok pk good n rows \<Longrightarrow> table_ok pk good n (filter p rows)"
  by (auto simp: table_ok_def distinct_map_filter)

lemma table_ok_unique:
  "table_ok pk good n rows \<Longrightarrow> x \<in> set rows \<Longrightarrow> y \<in> set rows \<Longrightarrow> pk x = pk y \<Longrightarrow> x = y"
  by (auto simp: table_ok_def distinct_map dest: inj_onD)

lemma table_okD: "table_ok pk good n rows \<Longrightarrow> r \<in> set rows \<Longrightarrow> pk r < n \<and> good r"
  by (simp add: table_ok_def)

subsection \<open>Keys\<close>

text \<open>The rows others refer to, each with the lead and the tenant it belongs to.\<close>

definition tenant_keys :: "store \<Rightarrow> uid set" where
  "tenant_keys db = tenant_uid ` set (tenants db)"

definition lead_keys :: "store \<Rightarrow> (uid \<times> uid) set" where
  "lead_keys db = (\<lambda>l. (lead_id l, lead_tenant l)) ` set (leads db)"

definition conv_keys :: "store \<Rightarrow> (uid \<times> uid \<times> uid) set" where
  "conv_keys db = (\<lambda>c. (conv_id c, conv_lead c, conv_tenant c)) ` set (conversations db)"

definition msg_keys :: "store \<Rightarrow> (uid \<times> uid \<times> uid) set" where
  "msg_keys db = (\<lambda>m. (msg_id m, msg_lead m, msg_tenant m)) ` set (messages db)"

definition booking_keys :: "store \<Rightarrow> (uid \<times> uid \<times> uid) set" where
  "booking_keys db = (\<lambda>b. (bk_id b, bk_lead b, bk_tenant b)) ` set (bookings db)"

lemmas key_defs = tenant_keys_def lead_keys_def conv_keys_def msg_keys_def booking_keys_def

definition opt_ref :: "('a \<times> uid \<times> uid) set \<Rightarrow> 'a option \<Rightarrow> uid \<Rightarrow> uid \<Rightarrow> bool" where
  "opt_ref keys r l t \<longleftrightarrow> (case r of None \<Rightarrow> True | Some i \<Rightarrow> (i, l, t) \<in> keys)"

lemma opt_ref_simps [simp]: "opt_ref keys None l t" "opt_ref keys (Some i) l t \<longleftrightarrow> (i, l, t) \<in> keys"
  by (simp_all add: opt_ref_def)

lemma opt_ref_mono: "opt_ref keys r l t \<Longrightarrow> keys \<subseteq> keys' \<Longrightarrow> opt_ref keys' r l t"
  by (auto simp: opt_ref_def split: option.splits)

text \<open>An audit row is of no lead, of a lead, or of a conversation of its lead.\<close>

definition audit_ids_ok :: "store \<Rightarrow> uid option \<Rightarrow> uid option \<Rightarrow> uid \<Rightarrow> bool" where
  "audit_ids_ok db c l t \<longleftrightarrow> (case l of
     None \<Rightarrow> c = None | Some i \<Rightarrow> (i, t) \<in> lead_keys db \<and> opt_ref (conv_keys db) c i t)"

subsection \<open>Well-formed stores\<close>

definition lead_ok :: "store \<Rightarrow> lead \<Rightarrow> bool" where
  "lead_ok db l \<longleftrightarrow> lead_tenant l \<in> tenant_keys db"

definition conversation_ok :: "store \<Rightarrow> conversation \<Rightarrow> bool" where
  "conversation_ok db c \<longleftrightarrow> (conv_lead c, conv_tenant c) \<in> lead_keys db"

definition message_ok :: "store \<Rightarrow> message \<Rightarrow> bool" where
  "message_ok db m \<longleftrightarrow> (msg_conversation m, msg_lead m, msg_tenant m) \<in> conv_keys db"

definition consent_ok :: "store \<Rightarrow> consent \<Rightarrow> bool" where
  "consent_ok db c \<longleftrightarrow> (con_lead c, con_tenant c) \<in> lead_keys db
     \<and> opt_ref (conv_keys db) (con_conversation c) (con_lead c) (con_tenant c)
     \<and> opt_ref (msg_keys db) (con_evidence c) (con_lead c) (con_tenant c)"

definition booking_ok :: "store \<Rightarrow> booking \<Rightarrow> bool" where
  "booking_ok db b \<longleftrightarrow> (bk_conversation b, bk_lead b, bk_tenant b) \<in> conv_keys db"

definition notification_ok :: "store \<Rightarrow> notification \<Rightarrow> bool" where
  "notification_ok db n \<longleftrightarrow> (sn_conversation n, sn_lead n, sn_tenant n) \<in> conv_keys db
     \<and> (sn_booking n, sn_lead n, sn_tenant n) \<in> booking_keys db
     \<and> opt_ref (msg_keys db) (sn_message n) (sn_lead n) (sn_tenant n)"

definition feedback_ok :: "store \<Rightarrow> feedback \<Rightarrow> bool" where
  "feedback_ok db f \<longleftrightarrow> (fb_conversation f, fb_lead f, fb_tenant f) \<in> conv_keys db
     \<and> opt_ref (booking_keys db) (fb_booking f) (fb_lead f) (fb_tenant f)"

definition attribution_ok :: "store \<Rightarrow> attribution \<Rightarrow> bool" where
  "attribution_ok db a \<longleftrightarrow> (at_lead a, at_tenant a) \<in> lead_keys db
     \<and> opt_ref (conv_keys db) (at_conversation a) (at_lead a) (at_tenant a)"

definition handoff_ok :: "store \<Rightarrow> handoff \<Rightarrow> bool" where
  "handoff_ok db h \<longleftrightarrow> (hq_conversation h, hq_lead h, hq_tenant h) \<in> conv_keys db"

definition audit_ok :: "store \<Rightarrow> audit_row \<Rightarrow> bool" where
  "audit_ok db r \<longleftrightarrow> audit_ids_ok db (row_conversation_id r) (row_lead_id r) (row_tenant_id r)"

definition well_formed :: "store \<Rightarrow> bool" where
  "well_formed db \<longleftrightarrow> (let n = next_id db in
     table_ok lead_id (lead_ok db) n (leads db)
     \<and> table_ok conv_id (conversation_ok db) n (conversations db)
     \<and> table_ok msg_id (message_ok db) n (messages db)
     \<and> table_ok con_id (consent_ok db) n (consents db)
     \<and> table_ok bk_id (booking_ok db) n (bookings db)
     \<and> table_ok sn_id (notification_ok db) n (notifications db)
     \<and> table_ok fb_id (feedback_ok db) n (feedbacks db)
     \<and> table_ok at_id (attribution_ok db) n (attributions db)
     \<and> table_ok hq_id (handoff_ok db) n (handoffs db)
     \<and> list_all (audit_ok db) (audit_log db))"

lemmas row_ok_defs = lead_ok_def conversation_ok_def message_ok_def consent_ok_def booking_ok_def
  notification_ok_def feedback_ok_def attribution_ok_def handoff_ok_def audit_ok_def
  audit_ids_ok_def

lemma well_formed_tables:
  assumes "well_formed db"
  shows "table_ok lead_id (lead_ok db) (next_id db) (leads db)"
    and "table_ok conv_id (conversation_ok db) (next_id db) (conversations db)"
    and "table_ok msg_id (message_ok db) (next_id db) (messages db)"
    and "table_ok con_id (consent_ok db) (next_id db) (consents db)"
    and "table_ok bk_id (booking_ok db) (next_id db) (bookings db)"
    and "table_ok sn_id (notification_ok db) (next_id db) (notifications db)"
    and "table_ok fb_id (feedback_ok db) (next_id db) (feedbacks db)"
    and "table_ok at_id (attribution_ok db) (next_id db) (attributions db)"
    and "table_ok hq_id (handoff_ok db) (next_id db) (handoffs db)"
    and "list_all (audit_ok db) (audit_log db)"
  using assms by (simp_all add: well_formed_def Let_def)

lemma well_formed_empty: "well_formed (empty_store now)"
  by (simp add: well_formed_def empty_store_def)

subsection \<open>Growing stores\<close>

text \<open>Nothing that is referred to goes away, and ids are not reused.\<close>

definition extends :: "store \<Rightarrow> store \<Rightarrow> bool" where
  "extends db db' \<longleftrightarrow> tenant_keys db \<subseteq> tenant_keys db' \<and> lead_keys db \<subseteq> lead_keys db'
     \<and> conv_keys db \<subseteq> conv_keys db' \<and> msg_keys db \<subseteq> msg_keys db'
     \<and> booking_keys db \<subseteq> booking_keys db' \<and> next_id db \<le> next_id db'"

lemma extends_refl [simp]: "extends db db"
  by (simp add: extends_def)

lemma extends_trans: "extends a b \<Longrightarrow> extends b c \<Longrightarrow> extends a c"
  by (auto simp: extends_def)

lemma audit_ids_mono: "audit_ids_ok db c l t \<Longrightarrow> extends db db' \<Longrightarrow> audit_ids_ok db' c l t"
  by (auto simp: audit_ids_ok_def extends_def split: option.splits intro: opt_ref_mono)

lemma extends_rows:
  assumes "extends db db'"
  shows "lead_ok db l \<Longrightarrow> lead_ok db' l" "conversation_ok db c \<Longrightarrow> conversation_ok db' c"
    "message_ok db m \<Longrightarrow> message_ok db' m" "consent_ok db e \<Longrightarrow> consent_ok db' e"
    "booking_ok db b \<Longrightarrow> booking_ok db' b" "notification_ok db n \<Longrightarrow> notification_ok db' n"
    "feedback_ok db f \<Longrightarrow> feedback_ok db' f" "attribution_ok db a \<Longrightarrow> attribution_ok db' a"
    "handoff_ok db h \<Longrightarrow> handoff_ok db' h" "audit_ok db r \<Longrightarrow> audit_ok db' r"
  using assms audit_ids_mono [OF _ assms]
  by (auto simp: extends_def lead_ok_def conversation_ok_def message_ok_def consent_ok_def
      booking_ok_def notification_ok_def feedback_ok_def attribution_ok_def handoff_ok_def
      audit_ok_def intro: opt_ref_mono)

text \<open>The rows already there stay well-formed when a store grows.\<close>

lemma tables_mono:
  assumes "well_formed db" and "extends db db'"
  shows "table_ok lead_id (lead_ok db') (next_id db') (leads db)"
    and "table_ok conv_id (conversation_ok db') (next_id db') (conversations db)"
    and "table_ok msg_id (message_ok db') (next_id db') (messages db)"
    and "table_ok con_id (consent_ok db') (next_id db') (consents db)"
    and "table_ok bk_id (booking_ok db') (next_id db') (bookings db)"
    and "table_ok sn_id (notification_ok db') (next_id db') (notifications db)"
    and "table_ok fb_id (feedback_ok db') (next_id db') (feedbacks db)"
    and "table_ok at_id (attribution_ok db') (next_id db') (attributions db)"
    and "table_ok hq_id (handoff_ok db') (next_id db') (handoffs db)"
    and "list_all (audit_ok db') (audit_log db)"
proof -
  have n: "next_id db \<le> next_id db'" using assms(2) by (simp add: extends_def)
  note t = well_formed_tables [OF assms(1)] and r = extends_rows [OF assms(2)]
  show "table_ok lead_id (lead_ok db') (next_id db') (leads db)"
    "table_ok conv_id (conversation_ok db') (next_id db') (conversations db)"
    "table_ok msg_id (message_ok db') (next_id db') (messages db)"
    "table_ok con_id (consent_ok db') (next_id db') (consents db)"
    "table_ok bk_id (booking_ok db') (next_id db') (bookings db)"
    "table_ok sn_id (notification_ok db') (next_id db') (notifications db)"
    "table_ok fb_id (feedback_ok db') (next_id db') (feedbacks db)"
    "table_ok at_id (attribution_ok db') (next_id db') (attributions db)"
    "table_ok hq_id (handoff_ok db') (next_id db') (handoffs db)"
    "list_all (audit_ok db') (audit_log db)"
    using t(10) r(10) by (auto simp: list_all_iff intro: table_ok_mono [OF t(1) n r(1)]
        table_ok_mono [OF t(2) n r(2)] table_ok_mono [OF t(3) n r(3)] table_ok_mono [OF t(4) n r(4)]
        table_ok_mono [OF t(5) n r(5)] table_ok_mono [OF t(6) n r(6)] table_ok_mono [OF t(7) n r(7)]
        table_ok_mono [OF t(8) n r(8)] table_ok_mono [OF t(9) n r(9)])
qed

text \<open>What a step of the program does to a well-formed store.\<close>

definition sound_step :: "store \<Rightarrow> store \<Rightarrow> bool" where
  "sound_step db db' \<longleftrightarrow> well_formed db' \<and> extends db db'"

lemma sound_stepI: "well_formed db' \<Longrightarrow> extends db db' \<Longrightarrow> sound_step db db'"
  by (simp add: sound_step_def)

lemma sound_refl: "well_formed db \<Longrightarrow> sound_step db db"
  by (simp add: sound_step_def)

lemma sound_trans: "sound_step a b \<Longrightarrow> sound_step b c \<Longrightarrow> sound_step a c"
  by (auto simp: sound_step_def intro: extends_trans)

lemma sound_well_formed: "sound_step db db' \<Longrightarrow> well_formed db'"
  by (simp add: sound_step_def)

lemma sound_extends: "sound_step db db' \<Longrightarrow> extends db db'"
  by (simp add: sound_step_def)

text \<open>A step that grows the store is sound when the tables it changes are in order after it.\<close>

lemma sound_tables:
  assumes "well_formed db" and "extends db db'"
    and "leads db' = leads db \<or> table_ok lead_id (lead_ok db') (next_id db') (leads db')"
    and "conversations db' = conversations db
      \<or> table_ok conv_id (conversation_ok db') (next_id db') (conversations db')"
    and "messages db' = messages db \<or> table_ok msg_id (message_ok db') (next_id db') (messages db')"
    and "consents db' = consents db \<or> table_ok con_id (consent_ok db') (next_id db') (consents db')"
    and "bookings db' = bookings db \<or> table_ok bk_id (booking_ok db') (next_id db') (bookings db')"
    and "notifications db' = notifications db
      \<or> table_ok sn_id (notification_ok db') (next_id db') (notifications db')"
    and "feedbacks db' = feedbacks db \<or> table_ok fb_id (feedback_ok db') (next_id db') (feedbacks db')"
    and "attributions db' = attributions db
      \<or> table_ok at_id (attribution_ok db') (next_id db') (attributions db')"
    and "handoffs db' = handoffs db \<or> table_ok hq_id (handoff_ok db') (next_id db') (handoffs db')"
    and "audit_log db' = audit_log db \<or> list_all (audit_ok db') (audit_log db')"
  shows "sound_step db db'"
proof (intro sound_stepI assms(2))
  note t = tables_mono [OF assms(1,2)]
  have "table_ok lead_id (lead_ok db') (next_id db') (leads db')" using assms(3) t(1) by auto
  moreover have "table_ok conv_id (conversation_ok db') (next_id db') (conversations db')" using assms(4) t(2) by auto
  moreover have "table_ok msg_id (message_ok db') (next_id db') (messages db')" using assms(5) t(3) by auto
  moreover have "table_ok con_id (consent_ok db') (next_id db') (consents db')" using assms(6) t(4) by auto
  moreover have "table_ok bk_id (booking_ok db') (next_id db') (bookings db')" using assms(7) t(5) by auto
  moreover have "table_ok sn_id (notification_ok db') (next_id db') (notifications db')" using assms(8) t(6) by auto
  moreover have "table_ok fb_id (feedback_ok db') (next_id db') (feedbacks db')" using assms(9) t(7) by auto
  moreover have "table_ok at_id (attribution_ok db') (next_id db') (attributions db')" using assms(10) t(8) by auto
  moreover have "table_ok hq_id (handoff_ok db') (next_id db') (handoffs db')" using assms(11) t(9) by auto
  moreover have "list_all (audit_ok db') (audit_log db')" using assms(12) t(10) by auto
  ultimately show "well_formed db'" unfolding well_formed_def Let_def by blast
qed

subsection \<open>The primitive operations\<close>

lemma extends_fields:
  assumes "tenants db' = tenants db" and "leads db' = leads db"
    and "conversations db' = conversations db" and "messages db' = messages db"
    and "bookings db' = bookings db" and "next_id db \<le> next_id db'"
  shows "extends db db'"
  using assms by (simp add: extends_def key_defs)

lemma sound_new_id: "well_formed db \<Longrightarrow> sound_step db (snd (new_id db))"
  by (rule sound_tables) (auto simp: new_id_def intro: extends_fields)

lemma sound_audit:
  assumes "well_formed db"
    and "audit_ids_ok db (trail_conversation_id t) (trail_lead_id t) (trail_tenant_id t)"
  shows "sound_step db (write_audit t e db)"
proof -
  have x: "extends db (write_audit t e db)"
    by (rule extends_fields) (simp_all add: write_audit_def)
  then have "audit_ok (write_audit t e db) (row_of t (tx_now db) e)"
    using audit_ids_mono [OF assms(2)] by (simp add: audit_ok_def)
  then show ?thesis
    using tables_mono(10) [OF assms(1) x]
    by (intro sound_tables [OF assms(1) x]) (simp_all add: write_audit_def)
qed

lemma sound_add_lead:
  assumes "well_formed db" and "lead_id l = next_id db" and "lead_tenant l \<in> tenant_keys db"
  shows "sound_step db (db\<lparr>next_id := Suc (next_id db), leads := leads db @ [l]\<rparr>)" (is "sound_step _ ?db")
proof -
  have x: "extends db ?db" by (auto simp: extends_def key_defs)
  have "table_ok lead_id (lead_ok ?db) (next_id db) (leads db)"
    using tables_mono(1) [OF assms(1) x] well_formed_tables(1) [OF assms(1)] by (auto simp: table_ok_def)
  then show ?thesis
    using assms by (intro sound_tables [OF assms(1) x])
      (auto intro!: table_ok_append simp: lead_ok_def key_defs)
qed

lemma sound_add_conversation:
  assumes "well_formed db" and "conv_id c = next_id db" and "(conv_lead c, conv_tenant c) \<in> lead_keys db"
  shows "sound_step db (db\<lparr>next_id := Suc (next_id db), conversations := conversations db @ [c]\<rparr>)"
    (is "sound_step _ ?db")
proof -
  have x: "extends db ?db" by (auto simp: extends_def key_defs)
  have "table_ok conv_id (conversation_ok ?db) (next_id db) (conversations db)"
    using tables_mono(2) [OF assms(1) x] well_formed_tables(2) [OF assms(1)] by (auto simp: table_ok_def)
  then show ?thesis
    using assms by (intro sound_tables [OF assms(1) x])
      (auto intro!: table_ok_append simp: conversation_ok_def lead_keys_def)
qed

lemma sound_add_message:
  assumes "well_formed db" and "msg_id m = next_id db"
    and "(msg_conversation m, msg_lead m, msg_tenant m) \<in> conv_keys db"
  shows "sound_step db (db\<lparr>next_id := Suc (next_id db), messages := messages db @ [m], next_seq := n\<rparr>)"
    (is "sound_step _ ?db")
proof -
  have x: "extends db ?db" by (auto simp: extends_def key_defs)
  have "table_ok msg_id (message_ok ?db) (next_id db) (messages db)"
    using tables_mono(3) [OF assms(1) x] well_formed_tables(3) [OF assms(1)] by (auto simp: table_ok_def)
  then show ?thesis
    using assms by (intro sound_tables [OF assms(1) x])
      (auto intro!: table_ok_append simp: message_ok_def conv_keys_def)
qed

lemma sound_add_booking:
  assumes "well_formed db" and "bk_id b = next_id db"
    and "(bk_conversation b, bk_lead b, bk_tenant b) \<in> conv_keys db"
  shows "sound_step db (db\<lparr>next_id := Suc (next_id db), bookings := bookings db @ [b]\<rparr>)"
    (is "sound_step _ ?db")
proof -
  have x: "extends db ?db" by (auto simp: extends_def key_defs)
  have "table_ok bk_id (booking_ok ?db) (next_id db) (bookings db)"
    using tables_mono(5) [OF assms(1) x] well_formed_tables(5) [OF assms(1)] by (auto simp: table_ok_def)
  then show ?thesis
    using assms by (intro sound_tables [OF assms(1) x])
      (auto intro!: table_ok_append simp: booking_ok_def conv_keys_def)
qed

text \<open>Tables nothing refers to.\<close>

lemma sound_add_leaf:
  assumes "well_formed db"
  shows "con_id e = next_id db \<Longrightarrow> consent_ok db e \<Longrightarrow>
      sound_step db (db\<lparr>next_id := Suc (next_id db), consents := consents db @ [e]\<rparr>)"
    and "sn_id sn = next_id db \<Longrightarrow> notification_ok db sn \<Longrightarrow>
      sound_step db (db\<lparr>next_id := Suc (next_id db), notifications := notifications db @ [sn]\<rparr>)"
    and "fb_id fb = next_id db \<Longrightarrow> feedback_ok db fb \<Longrightarrow>
      sound_step db (db\<lparr>next_id := Suc (next_id db), feedbacks := feedbacks db @ [fb]\<rparr>)"
    and "at_id a = next_id db \<Longrightarrow> attribution_ok db a \<Longrightarrow>
      sound_step db (db\<lparr>next_id := Suc (next_id db), attributions := attributions db @ [a]\<rparr>)"
    and "hq_id hq = next_id db \<Longrightarrow> handoff_ok db hq \<Longrightarrow>
      sound_step db (db\<lparr>next_id := Suc (next_id db), handoffs := handoffs db @ [hq]\<rparr>)"
proof -
  let ?n = "Suc (next_id db)"
  note t = well_formed_tables [OF assms]
  have x: "extends db (db\<lparr>next_id := ?n, consents := consents db @ [e]\<rparr>)"
    "extends db (db\<lparr>next_id := ?n, notifications := notifications db @ [sn]\<rparr>)"
    "extends db (db\<lparr>next_id := ?n, feedbacks := feedbacks db @ [fb]\<rparr>)"
    "extends db (db\<lparr>next_id := ?n, attributions := attributions db @ [a]\<rparr>)"
    "extends db (db\<lparr>next_id := ?n, handoffs := handoffs db @ [hq]\<rparr>)"
    by (auto simp: extends_def key_defs)
  note good = table_ok_mono [OF table_ok_append]
  show "con_id e = next_id db \<Longrightarrow> consent_ok db e \<Longrightarrow>
      sound_step db (db\<lparr>next_id := ?n, consents := consents db @ [e]\<rparr>)"
    by (intro sound_tables [OF assms x(1)])
      (auto intro!: good [OF t(4)] intro: extends_rows(4) [OF x(1)])
  show "sn_id sn = next_id db \<Longrightarrow> notification_ok db sn \<Longrightarrow>
      sound_step db (db\<lparr>next_id := ?n, notifications := notifications db @ [sn]\<rparr>)"
    by (intro sound_tables [OF assms x(2)])
      (auto intro!: good [OF t(6)] intro: extends_rows(6) [OF x(2)])
  show "fb_id fb = next_id db \<Longrightarrow> feedback_ok db fb \<Longrightarrow>
      sound_step db (db\<lparr>next_id := ?n, feedbacks := feedbacks db @ [fb]\<rparr>)"
    by (intro sound_tables [OF assms x(3)])
      (auto intro!: good [OF t(7)] intro: extends_rows(7) [OF x(3)])
  show "at_id a = next_id db \<Longrightarrow> attribution_ok db a \<Longrightarrow>
      sound_step db (db\<lparr>next_id := ?n, attributions := attributions db @ [a]\<rparr>)"
    by (intro sound_tables [OF assms x(4)])
      (auto intro!: good [OF t(8)] intro: extends_rows(8) [OF x(4)])
  show "hq_id hq = next_id db \<Longrightarrow> handoff_ok db hq \<Longrightarrow>
      sound_step db (db\<lparr>next_id := ?n, handoffs := handoffs db @ [hq]\<rparr>)"
    by (intro sound_tables [OF assms x(5)])
      (auto intro!: good [OF t(9)] intro: extends_rows(9) [OF x(5)])
qed

text \<open>Updates that leave the keys of a row alone.\<close>

lemma image_update_where:
  assumes "\<And>r. g (f r) = g r"
  shows "g ` set (update_where p f rows) = g ` set rows"
  using map_update_where [of g f p rows] assms by (metis set_map)

lemma sound_update_leads:
  assumes "well_formed db" and f: "\<And>l. lead_id (f l) = lead_id l" "\<And>l. lead_tenant (f l) = lead_tenant l"
  shows "sound_step db (db\<lparr>leads := update_where p f (leads db)\<rparr>)" (is "sound_step _ ?db")
proof -
  have x: "extends db ?db" by (simp add: extends_def key_defs image_update_where f)
  have "table_ok lead_id (lead_ok ?db) (next_id ?db) (update_where p f (leads db))"
    by (rule table_ok_update [OF tables_mono(1) [OF assms(1) x]]) (simp_all add: f lead_ok_def)
  then show ?thesis by (intro sound_tables [OF assms(1) x]) (simp_all)
qed

lemma sound_update_conversation:
  assumes "well_formed db" and f: "\<And>c. conv_id (f c) = conv_id c" "\<And>c. conv_lead (f c) = conv_lead c"
    "\<And>c. conv_tenant (f c) = conv_tenant c"
  shows "sound_step db (update_conversation cid f db)" (is "sound_step _ ?db")
proof -
  have x: "extends db ?db" by (simp add: extends_def key_defs image_update_where f update_conversation_def)
  have "table_ok conv_id (conversation_ok ?db) (next_id ?db) (update_where (\<lambda>c. conv_id c = cid) f (conversations db))"
    by (rule table_ok_update [OF tables_mono(2) [OF assms(1) x]]) (simp_all add: f conversation_ok_def)
  then show ?thesis by (intro sound_tables [OF assms(1) x]) (simp_all add: update_conversation_def)
qed

lemma sound_update_message:
  assumes "well_formed db" and f: "\<And>m. msg_id (f m) = msg_id m" "\<And>m. msg_lead (f m) = msg_lead m"
    "\<And>m. msg_tenant (f m) = msg_tenant m" "\<And>m. msg_conversation (f m) = msg_conversation m"
  shows "sound_step db (update_message mid f db)" (is "sound_step _ ?db")
proof -
  have x: "extends db ?db" by (simp add: extends_def key_defs image_update_where f update_message_def)
  have "table_ok msg_id (message_ok ?db) (next_id ?db) (update_where (\<lambda>m. msg_id m = mid) f (messages db))"
    by (rule table_ok_update [OF tables_mono(3) [OF assms(1) x]]) (simp_all add: f message_ok_def)
  then show ?thesis by (intro sound_tables [OF assms(1) x]) (simp_all add: update_message_def)
qed

lemma sound_update_notification:
  assumes "well_formed db" and f: "\<And>n. sn_id (f n) = sn_id n"
    and "\<And>n. n \<in> set (notifications db) \<Longrightarrow> sn_id n = i \<Longrightarrow> notification_ok db n \<Longrightarrow> notification_ok db (f n)"
  shows "sound_step db (update_notification i f db)" (is "sound_step _ ?db")
proof -
  have x: "extends db ?db" by (simp add: extends_def key_defs update_notification_def)
  have "table_ok sn_id (notification_ok db) (next_id db) (update_where (\<lambda>n. sn_id n = i) f (notifications db))"
    by (rule table_ok_update [OF well_formed_tables(6) [OF assms(1)]]) (use assms in auto)
  then have "table_ok sn_id (notification_ok ?db) (next_id ?db) (notifications ?db)"
    using extends_rows(6) [OF x] by (auto simp: update_notification_def intro: table_ok_mono)
  then show ?thesis
    by (intro sound_tables [OF assms(1) x]) (simp_all add: update_notification_def)
qed

lemma sound_update_feedback:
  assumes "well_formed db" and f: "\<And>x. fb_id (f x) = fb_id x" "\<And>x. feedback_ok db (f x) = feedback_ok db x"
  shows "sound_step db (db\<lparr>feedbacks := update_where p f (feedbacks db)\<rparr>)" (is "sound_step _ ?db")
proof -
  have x: "extends db ?db" by (simp add: extends_def key_defs)
  have "table_ok fb_id (feedback_ok db) (next_id db) (update_where p f (feedbacks db))"
    by (rule table_ok_update [OF well_formed_tables(7) [OF assms(1)]]) (use f in auto)
  then have "table_ok fb_id (feedback_ok ?db) (next_id ?db) (feedbacks ?db)"
    using extends_rows(7) [OF x] by (auto intro: table_ok_mono)
  then show ?thesis by (intro sound_tables [OF assms(1) x]) simp_all
qed

lemma sound_update_handoff:
  assumes "well_formed db" and f: "\<And>h. hq_id (f h) = hq_id h" "\<And>h. hq_lead (f h) = hq_lead h"
    "\<And>h. hq_tenant (f h) = hq_tenant h" "\<And>h. hq_conversation (f h) = hq_conversation h"
  shows "sound_step db (update_handoff i f db)" (is "sound_step _ ?db")
proof -
  have x: "extends db ?db" by (simp add: extends_def key_defs update_handoff_def)
  have "table_ok hq_id (handoff_ok ?db) (next_id ?db) (update_where (\<lambda>h. hq_id h = i) f (handoffs db))"
    by (rule table_ok_update [OF tables_mono(9) [OF assms(1) x]]) (simp_all add: f handoff_ok_def)
  then show ?thesis by (intro sound_tables [OF assms(1) x]) (simp_all add: update_handoff_def)
qed

lemma sound_touch: "well_formed db \<Longrightarrow> sound_step db (touch cid now db)"
  unfolding touch_def by (rule sound_update_conversation) simp_all

lemma sound_write_all:
  assumes "well_formed db"
    and "audit_ids_ok db (trail_conversation_id t) (trail_lead_id t) (trail_tenant_id t)"
  shows "sound_step db (write_all t es db)"
  using assms
proof (induction es arbitrary: db)
  case (Cons e es)
  have s: "sound_step db (write_audit t e db)" using Cons.prems by (rule sound_audit)
  then have "sound_step (write_audit t e db) (write_all t es (write_audit t e db))"
    using Cons.prems(2) audit_ids_mono by (intro Cons.IH) (auto simp: sound_step_def)
  with s show ?case using sound_trans by (auto simp: write_all_def)
qed (simp add: write_all_def sound_refl)

end
