(* ===== verification/Integrity_Turn.thy ===== *)
theory Integrity_Turn
  imports Integrity
begin

text \<open>Every step of a turn, and the follow-up of a deferred search, keep the store well-formed.\<close>

subsection \<open>Chaining\<close>

text \<open>What a turn may rely on once it is open: its rows exist, and its trail names them.\<close>

definition trail_fits :: "audit_trail \<Rightarrow> uid option \<Rightarrow> uid option \<Rightarrow> uid \<Rightarrow> bool" where
  "trail_fits a c l t \<longleftrightarrow> trail_conversation_id a = c \<and> trail_lead_id a = l \<and> trail_tenant_id a = t"

definition thread_at :: "store \<Rightarrow> uid \<Rightarrow> uid \<Rightarrow> uid \<Rightarrow> bool" where
  "thread_at db cid lid tid \<longleftrightarrow> (cid, lid, tid) \<in> conv_keys db \<and> (lid, tid) \<in> lead_keys db"

lemma thread_at_mono: "thread_at db cid lid tid \<Longrightarrow> sound_step db db' \<Longrightarrow> thread_at db' cid lid tid"
  by (auto simp: thread_at_def sound_step_def extends_def)

lemma thread_audit: "thread_at db cid lid tid \<Longrightarrow> trail_fits a (Some cid) (Some lid) tid \<Longrightarrow>
    audit_ids_ok db (trail_conversation_id a) (trail_lead_id a) (trail_tenant_id a)"
  by (auto simp: thread_at_def trail_fits_def audit_ids_ok_def)

lemma sound_thread_audit:
  "well_formed db \<Longrightarrow> thread_at db cid lid tid \<Longrightarrow> trail_fits a (Some cid) (Some lid) tid \<Longrightarrow>
   sound_step db (write_audit a e db)"
  by (rule sound_audit) (auto dest: thread_audit)

lemma conversation_thread:
  assumes "well_formed db" and "c \<in> set (conversations db)"
  shows "thread_at db (conv_id c) (conv_lead c) (conv_tenant c)"
  using table_okD [OF well_formed_tables(2) [OF assms(1)] assms(2)] assms(2)
  by (auto simp: thread_at_def conversation_ok_def conv_keys_def)

lemma conv_key_thread: "well_formed db \<Longrightarrow> (cid, lid, tid) \<in> conv_keys db \<Longrightarrow> thread_at db cid lid tid"
  using conversation_thread by (fastforce simp: conv_keys_def)

lemma conv_key_unique:
  assumes "well_formed db" and "(c, l, t) \<in> conv_keys db" and "(c, l', t') \<in> conv_keys db"
  shows "l' = l \<and> t' = t"
  using assms(2,3) table_ok_unique [OF well_formed_tables(2) [OF assms(1)]] by (auto simp: conv_keys_def)

subsection \<open>Opening a turn\<close>

lemma sound_get_or_create_lead:
  assumes "well_formed db" and "tid \<in> tenant_keys db"
    and "get_or_create_lead tid w loc now db = (l, is_new, db')"
  shows "sound_step db db' \<and> (lead_id l, tid) \<in> lead_keys db'"
proof (cases "get_by_wa_id db tid w")
  case (Some x)
  then have x: "x \<in> set (leads db)" "lead_tenant x = tid" by (auto dest: get_by_wa_id_Some)
  let ?db = "db\<lparr>leads := update_where (\<lambda>y. lead_id y = lead_id x) (\<lambda>y. y\<lparr>last_seen_at := now\<rparr>) (leads db)\<rparr>"
  have "sound_step db ?db" by (rule sound_update_leads [OF assms(1)]) simp_all
  moreover have "(lead_id x, tid) \<in> lead_keys db" using x by (force simp: lead_keys_def)
  ultimately show ?thesis using assms(3) Some
    by (auto simp: get_or_create_lead_def sound_step_def extends_def)
next
  case None
  let ?l = "new_lead (next_id db) tid w loc (tx_now db)"
  have "sound_step db (db\<lparr>next_id := Suc (next_id db), leads := leads db @ [?l]\<rparr>)"
    by (rule sound_add_lead) (use assms in \<open>simp_all add: new_lead_def\<close>)
  then show ?thesis using assms(3) None
    by (auto simp: get_or_create_lead_def new_id_def Let_def lead_keys_def new_lead_def)
qed

lemma sound_resolve_lead:
  assumes "well_formed db" and "tenant_uid t \<in> tenant_keys db" and "trail_fits a None None (tenant_uid t)"
    and r: "resolve_lead t inb now a db = (l, is_new, a', db')"
  shows "sound_step db db' \<and> (lead_id l, tenant_uid t) \<in> lead_keys db'
    \<and> trail_fits a' None (Some (lead_id l)) (tenant_uid t)"
proof -
  obtain l0 db1 where g: "get_or_create_lead (tenant_uid t) (in_wa_id inb) (default_locale t) now db
      = (l0, is_new, db1)" using r by (auto simp: resolve_lead_def Let_def split: prod.splits)
  let ?f = "name_lead (in_display_name inb)"
  let ?db2 = "db1\<lparr>leads := update_where (\<lambda>x. lead_id x = lead_id l0) ?f (leads db1)\<rparr>"
  note s1 = sound_get_or_create_lead [OF assms(1,2) g]
  have s2: "sound_step db1 ?db2"
    by (rule sound_update_leads [OF sound_well_formed]) (use s1 in \<open>auto simp: name_lead_def\<close>)
  have key: "(lead_id l0, tenant_uid t) \<in> lead_keys ?db2"
    using s1 s2 by (auto simp: sound_step_def extends_def)
  have l: "lead_id l = lead_id l0" and a: "a' = bind_trail None (Some (lead_id l)) a"
    and db': "db' = (if is_new then write_audit a' Lead_Created ?db2 else ?db2)"
    using r g by (auto simp: resolve_lead_def Let_def name_lead_def)
  have fits: "trail_fits a' None (Some (lead_id l)) (tenant_uid t)"
    using assms(3) by (simp add: trail_fits_def a)
  have "sound_step ?db2 (write_audit a' Lead_Created ?db2)"
    by (rule sound_audit [OF sound_well_formed [OF s2]])
      (use fits key l in \<open>auto simp: trail_fits_def audit_ids_ok_def\<close>)
  then have "sound_step ?db2 db'" using db' sound_refl [OF sound_well_formed [OF s2]] by auto
  with s1 s2 key fits l show ?thesis
    by (auto intro: sound_trans simp: sound_step_def extends_def)
qed

lemma sound_resolve_conversation:
  assumes "well_formed db" and "(lead_id l, tid) \<in> lead_keys db" and "trail_fits a None (Some (lead_id l)) tid"
    and r: "resolve_conversation tid l ch now a db = (c, a', db')"
  shows "sound_step db db' \<and> thread_at db' (conv_id c) (lead_id l) tid
    \<and> trail_fits a' (Some (conv_id c)) (Some (lead_id l)) tid"
proof -
  obtain is_new db1 where o: "open_or_resume tid (lead_id l) ch (lead_locale l) now db = (c, is_new, db1)"
    using r by (auto simp: resolve_conversation_def Let_def split: prod.splits)
  have s1: "sound_step db db1 \<and> (conv_id c, lead_id l, tid) \<in> conv_keys db1"
  proof (cases "active_for_lead db tid (lead_id l)")
    case (Some x)
    then have x: "x \<in> set (conversations db)" "conv_tenant x = tid" "conv_lead x = lead_id l"
      by (auto dest: active_for_lead_Some)
    have "sound_step db (update_conversation (conv_id x) (\<lambda>y. y\<lparr>last_activity_at := now\<rparr>) db)"
      by (rule sound_update_conversation [OF assms(1)]) simp_all
    moreover have "(conv_id x, lead_id l, tid) \<in> conv_keys db" using x by (force simp: conv_keys_def)
    ultimately show ?thesis using o Some by (auto simp: open_or_resume_def sound_step_def extends_def)
  next
    case None
    let ?c = "new_conversation (next_id db) tid (lead_id l) ch (lead_locale l) (tx_now db)"
    have "sound_step db (db\<lparr>next_id := Suc (next_id db), conversations := conversations db @ [?c]\<rparr>)"
      by (rule sound_add_conversation) (use assms in \<open>simp_all add: new_conversation_def\<close>)
    then show ?thesis using o None
      by (auto simp: open_or_resume_def new_id_def Let_def conv_keys_def new_conversation_def)
  qed
  have a: "a' = bind_trail (Some (conv_id c)) None a"
    and db': "db' = write_audit a' (if is_new then Conversation_Started ch else Conversation_Resumed ch) db1"
    using r o by (auto simp: resolve_conversation_def Let_def)
  have fits: "trail_fits a' (Some (conv_id c)) (Some (lead_id l)) tid"
    using assms(3) by (simp add: trail_fits_def a)
  have thread: "thread_at db1 (conv_id c) (lead_id l) tid"
    using s1 conv_key_thread sound_well_formed by blast
  have "sound_step db1 db'"
    unfolding db' using s1 thread fits by (blast intro: sound_thread_audit sound_well_formed)
  with s1 thread fits show ?thesis by (blast intro: sound_trans thread_at_mono)
qed

lemma sound_capture_source:
  assumes "well_formed db" and "thread_at db cid lid tid" and "trail_fits a (Some cid) (Some lid) tid"
  shows "sound_step db (capture_source tid lid cid txt a db)"
proof (cases "parse_source_code txt")
  case None
  with assms show ?thesis by (simp add: capture_source_def sound_refl)
next
  case (Some code)
  define row where "row = \<lparr>at_id = next_id db, at_tenant = tid, at_lead = lid,
     at_conversation = Some cid, at_source_code = code, at_medium = medium_for txt,
     at_first_touch = (filter (\<lambda>a. at_lead a = lid) (scoped at_tenant tid (attributions db)) = []),
     at_raw_payload = take 500 txt\<rparr>"
  let ?db = "db\<lparr>next_id := Suc (next_id db), attributions := attributions db @ [row]\<rparr>"
  have s: "sound_step db ?db"
    by (rule sound_add_leaf(4) [OF assms(1)])
      (use assms(2) in \<open>auto simp: row_def attribution_ok_def thread_at_def\<close>)
  have "sound_step ?db (write_audit a (Attribution_Captured code (medium_for txt) (at_first_touch row)) ?db)"
    using s assms by (blast intro: sound_thread_audit sound_well_formed thread_at_mono)
  then have "sound_step db (write_audit a (Attribution_Captured code (medium_for txt) (at_first_touch row)) ?db)"
    using s sound_trans by blast
  then show ?thesis
    by (simp add: capture_source_def Some capture_attribution_def new_id_def Let_def row_def)
qed

text \<open>Messages.\<close>

lemma sound_message:
  assumes "well_formed db" and "thread_at db cid lid tid"
  shows "record_inbound tid cid lid turn ch txt loc pid db = (m, db') \<Longrightarrow>
      sound_step db db' \<and> (msg_id m, lid, tid) \<in> msg_keys db'"
    and "record_outbound tid cid lid turn ch txt loc key db = (m, db') \<Longrightarrow>
      sound_step db db' \<and> (msg_id m, lid, tid) \<in> msg_keys db'"
  using assms sound_add_message [OF assms(1), of _ "Suc (next_seq db)"]
  by (auto simp: record_inbound_def record_outbound_def add_message_def new_id_def Let_def
      thread_at_def msg_keys_def)

definition turn_ready :: "turn_context \<Rightarrow> store \<Rightarrow> bool" where
  "turn_ready x db \<longleftrightarrow> thread_at db (turn_conv x) (turn_lead x) (tc_tenant x)
     \<and> (msg_id (tc_message x), turn_lead x, tc_tenant x) \<in> msg_keys db
     \<and> trail_fits (tc_audit x) (Some (turn_conv x)) (Some (turn_lead x)) (tc_tenant x)"

lemma turn_ready_mono: "turn_ready x db \<Longrightarrow> sound_step db db' \<Longrightarrow> turn_ready x db'"
  by (auto simp: turn_ready_def sound_step_def extends_def thread_at_def)

lemma sound_open_turn:
  assumes "well_formed db" and "tenant_uid t \<in> tenant_keys db" and "trail_fits a None None (tenant_uid t)"
    and "open_turn t inb now a db = (x, db')"
  shows "sound_step db db' \<and> turn_ready x db'"
proof -
  let ?tid = "tenant_uid t"
  obtain l is_new a1 db1 where lead: "resolve_lead t inb now a db = (l, is_new, a1, db1)"
    by (rule prod_cases4)
  obtain c a2 db2 where conv: "resolve_conversation ?tid l (in_channel inb) now a1 db1 = (c, a2, db2)"
    by (rule prod_cases3)
  let ?db3 = "capture_source ?tid (lead_id l) (conv_id c) (in_text inb) a2 db2"
  obtain m db4 where msg: "record_inbound ?tid (conv_id c) (lead_id l) (trail_turn_id a2) (in_channel inb)
      (in_text inb) (lead_locale l) (in_provider_message_id inb) ?db3 = (m, db4)" by fastforce
  note s1 = sound_resolve_lead [OF assms(1-3) lead]
  note s2 = sound_resolve_conversation [OF sound_well_formed _ _ conv, of db]
  have 2: "sound_step db1 db2" and th2: "thread_at db2 (conv_id c) (lead_id l) ?tid"
    and fits: "trail_fits a2 (Some (conv_id c)) (Some (lead_id l)) ?tid"
    using s1 s2 by blast+
  have 3: "sound_step db2 ?db3" using sound_capture_source [OF sound_well_formed [OF 2] th2 fits] .
  have th3: "thread_at ?db3 (conv_id c) (lead_id l) ?tid" using thread_at_mono [OF th2 3] .
  have 4: "sound_step ?db3 db4" and key: "(msg_id m, lead_id l, ?tid) \<in> msg_keys db4"
    using sound_message(1) [OF sound_well_formed [OF 3] th3 msg] by auto
  have th4: "thread_at db4 (conv_id c) (lead_id l) ?tid" using thread_at_mono [OF th3 4] .
  have db': "db' = write_audit a2 (Message_Received (int (length (in_text inb)))
      (in_provider_message_id inb) (in_channel inb)) db4"
    and x: "turn_conv x = conv_id c" "turn_lead x = lead_id l" "tc_tenant x = ?tid" "tc_audit x = a2"
      "tc_message x = m"
    using assms(4) lead conv msg by (auto simp: open_turn_def Let_def turn_conv_def turn_lead_def)
  have 5: "sound_step db4 db'"
    unfolding db' by (rule sound_thread_audit [OF sound_well_formed [OF 4] th4 fits])
  have "turn_ready x db4" using th4 fits key by (simp add: turn_ready_def x)
  then have "turn_ready x db'" using turn_ready_mono 5 by blast
  with s1 2 3 4 5 show ?thesis by (blast intro: sound_trans)
qed

subsection \<open>What a turn says\<close>

lemma sound_emit:
  "well_formed db \<Longrightarrow> thread_at db cid lid tid \<Longrightarrow> trail_fits a (Some cid) (Some lid) tid \<Longrightarrow>
   emit tid cid lid ch turn a rendered db = (outs, db') \<Longrightarrow> sound_step db db'"
proof (induction tid cid lid ch turn a rendered db arbitrary: outs db' rule: emit.induct)
  case (2 tid cid lid ch turn a m rest db)
  obtain row db1 where r: "record_outbound tid cid lid turn ch (rm_text m) (rm_locale m) (rm_key m) db = (row, db1)"
    by fastforce
  let ?db2 = "write_audit a (Message_Sent (rm_key m) (rm_locale m) (rm_text m) ch) db1"
  obtain outs' where rest: "emit tid cid lid ch turn a rest ?db2 = (outs', db')"
    using "2.prems"(4) by (auto simp: r Let_def split: prod.splits)
  have 1: "sound_step db db1" using sound_message(2) [OF "2.prems"(1,2) r] by simp
  have th: "thread_at db1 cid lid tid" using thread_at_mono [OF "2.prems"(2) 1] .
  have s2: "sound_step db1 ?db2" by (rule sound_thread_audit [OF sound_well_formed [OF 1] th "2.prems"(3)])
  have "sound_step ?db2 db'"
    using "2.IH" [OF r [symmetric] refl refl] rest sound_well_formed [OF s2] thread_at_mono [OF th s2] "2.prems"(3)
    by simp
  with 1 s2 show ?case by (blast intro: sound_trans)
qed (simp add: sound_refl)

lemma sound_add_consent:
  assumes "well_formed db" and "thread_at db cid lid tid" and "opt_ref (msg_keys db) ev lid tid"
  shows "sound_step db (add_consent tid lid (Some cid) e v w loc ch ev db)"
proof -
  have "sound_step db (db\<lparr>next_id := Suc (next_id db), consents := consents db @ [\<lparr>con_id = next_id db,
      con_tenant = tid, con_lead = lid, con_conversation = Some cid, con_event = e,
      con_policy_version = v, con_wording = w, con_locale = loc, con_channel = ch, con_evidence = ev,
      con_occurred_at = tx_now db\<rparr>]\<rparr>)"
    by (rule sound_add_leaf(1) [OF assms(1)]) (use assms in \<open>simp_all add: consent_ok_def thread_at_def\<close>)
  then show ?thesis by (simp add: add_consent_def new_id_def Let_def)
qed

text \<open>A consent event and its audit row.\<close>

lemma sound_consent_event:
  assumes "well_formed db" and "thread_at db cid lid tid" and "opt_ref (msg_keys db) ev lid tid"
    and "trail_fits a (Some cid) (Some lid) tid"
  shows "sound_step db (write_audit a event (add_consent tid lid (Some cid) e v w loc ch ev db))"
proof -
  have s: "sound_step db (add_consent tid lid (Some cid) e v w loc ch ev db)"
    using sound_add_consent [OF assms(1-3)] .
  then show ?thesis
    using sound_thread_audit [OF sound_well_formed [OF s] thread_at_mono [OF assms(2) s] assms(4)] sound_trans
    by blast
qed

lemma sound_notices:
  assumes "well_formed db" and "thread_at db cid lid tid" and "trail_fits a (Some cid) (Some lid) tid"
  shows "sound_step db (fold (record_notice tid cid lid ch v a) msgs db)"
  using assms(1,2)
proof (induction msgs arbitrary: db)
  case (Cons m msgs)
  have s: "sound_step db (record_notice tid cid lid ch v a m db)"
    using sound_consent_event [OF Cons.prems _ assms(3)] sound_refl [OF Cons.prems(1)]
    by (simp add: record_notice_def)
  with Cons.IH [OF sound_well_formed [OF s] thread_at_mono [OF Cons.prems(2) s]] show ?case
    by (auto intro: sound_trans)
qed (simp add: sound_refl)

lemma sound_record_consent:
  assumes "well_formed db" and "thread_at db cid lid tid" and "trail_fits a (Some cid) (Some lid) tid"
    and "(ev, lid, tid) \<in> msg_keys db"
    and "record_consent pb tid cid lid ch loc a rendered prior signal ev txt db = Some db'"
  shows "sound_step db db'"
proof -
  let ?v = "policy_version_of pb (Some loc)"
  let ?db1 = "fold (record_notice tid cid lid ch ?v a) rendered db"
  have 1: "sound_step db ?db1" by (rule sound_notices [OF assms(1-3)])
  have "sound_step ?db1 (write_audit a event (add_consent tid lid (Some cid) e ?v w loc ch (Some ev) ?db1))"
    for event e w
    by (rule sound_consent_event [OF sound_well_formed [OF 1] thread_at_mono [OF assms(2) 1] _ assms(3)])
      (use assms(4) 1 in \<open>auto simp: sound_step_def extends_def\<close>)
  with 1 have "sound_step db (write_audit a event (add_consent tid lid (Some cid) e ?v w loc ch (Some ev) ?db1))"
    for event e w using sound_trans by blast
  with 1 assms(5) show ?thesis
    by (auto simp: record_consent_def Let_def split: if_splits option.splits)
qed

lemma sound_speak:
  assumes "well_formed db" and "turn_ready x db" and "speak pipe x txt ch prior specs db = Some (outs, db')"
  shows "sound_step db db'"
proof -
  let ?tid = "tc_tenant x" and ?cid = "turn_conv x" and ?lid = "turn_lead x"
  obtain rendered db1 where
    c: "record_consent (pipe_phrasebank pipe) ?tid ?cid ?lid ch (lead_locale (tc_lead x)) (tc_audit x)
         rendered prior (classify txt) (msg_id (tc_message x)) txt db = Some db1"
    and e: "emit ?tid ?cid ?lid ch (turn_of x) (tc_audit x) rendered db1 = (outs, db')"
    using assms(3) by (auto simp: speak_def Let_def turn_conv_def turn_lead_def turn_of_def split: option.splits)
  have r: "thread_at db ?cid ?lid ?tid" "trail_fits (tc_audit x) (Some ?cid) (Some ?lid) ?tid"
    "(msg_id (tc_message x), ?lid, ?tid) \<in> msg_keys db" using assms(2) by (simp_all add: turn_ready_def)
  have 1: "sound_step db db1" by (rule sound_record_consent [OF assms(1) r c])
  have "sound_step db1 db'"
    by (rule sound_emit [OF sound_well_formed [OF 1] thread_at_mono [OF r(1) 1] r(2) e])
  with 1 show ?thesis by (rule sound_trans)
qed

subsection \<open>What a turn does\<close>

lemma sound_schedule_kinds:
  "schedule_kinds tid b f existing ks db = (rows, db') \<Longrightarrow> well_formed db \<Longrightarrow>
   (bk_conversation b, bk_lead b, tid) \<in> conv_keys db \<Longrightarrow> (bk_id b, bk_lead b, tid) \<in> booking_keys db \<Longrightarrow>
   sound_step db db'"
proof (induction ks arbitrary: db rows)
  case (Cons k ks)
  show ?case
  proof (cases "k \<in> set existing \<or> due_at k (bk_slot_start b) (bk_slot_end b) f = None")
    case True
    with Cons show ?thesis by (auto split: if_splits option.splits)
  next
    case False
    then obtain due where due: "due_at k (bk_slot_start b) (bk_slot_end b) f = Some due" by auto
    let ?row = "new_notification (next_id db) tid b k due"
    let ?db = "db\<lparr>next_id := Suc (next_id db), notifications := notifications db @ [?row]\<rparr>"
    have s: "sound_step db ?db"
      by (rule sound_add_leaf(2) [OF Cons.prems(2)])
        (use Cons.prems in \<open>simp_all add: new_notification_def notification_ok_def\<close>)
    obtain rest where rest: "schedule_kinds tid b f existing ks ?db = (rest, db')"
      using Cons.prems(1) False due by (auto simp: new_id_def Let_def split_def prod_eq_iff)
    have "sound_step ?db db'"
      by (rule Cons.IH [OF rest sound_well_formed [OF s]])
        (use Cons.prems in \<open>simp_all add: conv_keys_def booking_keys_def\<close>)
    with s show ?thesis by (rule sound_trans)
  qed
qed (simp add: sound_refl)

lemma sound_record_booking:
  assumes "well_formed db" and "thread_at db cid lid tid"
  shows "sound_step db (record_booking tid cid lid p f now db)"
proof (cases "next_such (\<lambda>b. bk_key b = (cid, bp_external_id p)) (scoped bk_tenant tid (bookings db))")
  case (Some x)
  then show ?thesis using assms by (simp add: record_booking_def sound_refl)
next
  case None
  define b where "b = \<lparr>bk_id = next_id db, bk_tenant = tid, bk_conversation = cid, bk_lead = lid,
    bk_category = bp_category p, bk_platform = bp_platform p, bk_external_ref = Some (bp_external_id p),
    bk_key = (cid, bp_external_id p), bk_status = booking_status.CONFIRMED,
    bk_slot_start = Some (bp_start p), bk_slot_end = Some (bp_end p), bk_venue = Some (bp_venue p),
    bk_price = bp_price p, bk_currency = bp_currency p, bk_payment = PAY_AT_VENUE,
    bk_confirmed_at = Some now, bk_created_at = tx_now db\<rparr>"
  let ?db = "db\<lparr>next_id := Suc (next_id db), bookings := bookings db @ [b]\<rparr>"
  have s: "sound_step db ?db"
    by (rule sound_add_booking [OF assms(1)]) (use assms(2) in \<open>simp_all add: b_def thread_at_def\<close>)
  have eq: "record_booking tid cid lid p f now db = snd (schedule_for_booking tid b f ?db)"
    using None by (simp add: record_booking_def new_id_def Let_def b_def)
  have "(bk_id b, bk_lead b, tid) \<in> booking_keys ?db" by (simp add: booking_keys_def b_def)
  moreover have "(bk_conversation b, bk_lead b, tid) \<in> conv_keys ?db"
    using assms(2) by (simp add: thread_at_def b_def conv_keys_def)
  ultimately have "sound_step ?db (snd (schedule_for_booking tid b f ?db))"
    using sound_schedule_kinds [OF surjective_pairing sound_well_formed [OF s]] sound_refl [OF sound_well_formed [OF s]]
    by (simp add: schedule_for_booking_def)
  with s show ?thesis unfolding eq by (rule sound_trans)
qed

lemma sound_enqueue_handoff:
  assumes "well_formed db" and "thread_at db cid lid tid" and "trail_fits a (Some cid) (Some lid) tid"
  shows "sound_step db (enqueue_handoff tid cid lid why a db)"
proof -
  have s: "sound_step db (add_handoff tid cid lid r db)" for r
    using sound_add_leaf(5) [OF assms(1)] assms(2)
    by (simp add: add_handoff_def new_id_def Let_def handoff_ok_def thread_at_def)
  then have "sound_step db (write_audit a e (add_handoff tid cid lid r db))" for e r
    using sound_thread_audit [OF sound_well_formed [OF s] thread_at_mono [OF assms(2) s] assms(3)] sound_trans
    by blast
  then show ?thesis by (simp add: enqueue_handoff_def Let_def)
qed

lemma sound_record_outcome:
  assumes "well_formed db" and "turn_ready x db"
  shows "sound_step db (record_outcome pipe x t a now db)"
proof -
  let ?tid = "tc_tenant x" and ?cid = "turn_conv x" and ?lid = "turn_lead x"
  let ?db1 = "update_conversation ?cid (merge_conversation t a) db"
  let ?db2 = "case a_booking a of None \<Rightarrow> ?db1
    | Some p \<Rightarrow> record_booking ?tid ?cid ?lid p (pipe_offsets pipe) now ?db1"
  have r: "thread_at db ?cid ?lid ?tid" "trail_fits (tc_audit x) (Some ?cid) (Some ?lid) ?tid"
    using assms(2) by (simp_all add: turn_ready_def)
  have 1: "sound_step db ?db1" by (rule sound_update_conversation [OF assms(1)]) (simp_all add: merge_conversation_def)
  have "sound_step ?db1 (record_booking ?tid ?cid ?lid p (pipe_offsets pipe) now ?db1)" for p
    by (rule sound_record_booking [OF sound_well_formed [OF 1] thread_at_mono [OF r(1) 1]])
  then have 2: "sound_step ?db1 ?db2"
    using sound_refl [OF sound_well_formed [OF 1]] by (auto split: option.splits)
  have 3: "sound_step db ?db2" using sound_trans [OF 1 2] .
  let ?db3 = "enqueue_handoff ?tid ?cid ?lid (the (turn_handoff t a)) (tc_audit x) ?db2"
  have 4: "sound_step ?db2 ?db3"
    by (rule sound_enqueue_handoff [OF sound_well_formed [OF 3] thread_at_mono [OF r(1) 3] r(2)])
  have "sound_step ?db3 (update_conversation ?cid (\<lambda>c. c\<lparr>bot_muted := True\<rparr>) ?db3)"
    by (rule sound_update_conversation [OF sound_well_formed [OF 4]]) simp_all
  with 3 4 have "sound_step db (update_conversation ?cid (\<lambda>c. c\<lparr>bot_muted := True\<rparr>) ?db3)"
    by (blast intro: sound_trans)
  with 3 show ?thesis
    unfolding turn_conv_def turn_lead_def by (simp add: record_outcome_def Let_def)
qed

lemma sound_capture_satisfaction:
  assumes "well_formed db" and "thread_at db cid lid tid" and "trail_fits a (Some cid) (Some lid) tid"
    and "capture_satisfaction tid cid lid txt now a db = Some (f, db')"
  shows "sound_step db db'"
proof -
  let ?p = "parse_satisfaction txt" and ?b = "map_option bk_id (latest_booking db tid cid)"
  let ?e = "Feedback_Captured (sat_rating ?p) (truthy (sat_comment ?p)) ?b"
  have "opt_ref (booking_keys db) ?b lid tid"
  proof (cases "latest_booking db tid cid")
    case (Some b)
    then have b: "b \<in> set (bookings db)" "bk_tenant b = tid" "bk_conversation b = cid"
      by (auto simp: latest_booking_def dest!: latest_by_in)
    then have "(cid, bk_lead b, tid) \<in> conv_keys db"
      using table_okD [OF well_formed_tables(5) [OF assms(1)]] by (fastforce simp: booking_ok_def)
    then have "bk_lead b = lid" using conv_key_unique [OF assms(1)] assms(2) by (auto simp: thread_at_def)
    with b Some show ?thesis by (force simp: booking_keys_def)
  qed simp
  then have fresh: "feedback_ok db \<lparr>fb_id = next_id db, fb_tenant = tid, fb_conversation = cid, fb_lead = lid,
      fb_booking = ?b, fb_rating = sat_rating ?p, fb_comment = sat_comment ?p, fb_responded_at = Some now\<rparr>"
    using assms(2) by (simp add: feedback_ok_def thread_at_def)
  have s: "sound_step db (write_audit a ?e db1)" if "sound_step db db1" for db1
    using sound_thread_audit [OF sound_well_formed [OF that] thread_at_mono [OF assms(2) that] assms(3)] that
      sound_trans by blast
  show ?thesis
  proof (cases "feedback_of db tid cid")
    case None
    with assms(4) sound_add_leaf(3) [OF assms(1) _ fresh] show ?thesis
      by (auto simp: capture_satisfaction_def Let_def new_id_def split: if_splits intro!: s)
  next
    case (Some f0)
    have "sound_step db (db\<lparr>feedbacks := update_where (\<lambda>x. fb_id x = fb_id f0) (amend_feedback ?p now) (feedbacks db)\<rparr>)"
      by (rule sound_update_feedback [OF assms(1)]) (simp_all add: amend_feedback_def feedback_ok_def)
    with assms(4) Some show ?thesis
      by (auto simp: capture_satisfaction_def Let_def split: if_splits intro!: s)
  qed
qed

subsection \<open>Whole turns\<close>

lemma turn_ready_parts:
  assumes "turn_ready x db"
  shows "thread_at db (turn_conv x) (turn_lead x) (tc_tenant x)"
    and "trail_fits (tc_audit x) (Some (turn_conv x)) (Some (turn_lead x)) (tc_tenant x)"
  using assms by (simp_all add: turn_ready_def)

lemma sound_muted_turn:
  assumes "well_formed db" and "turn_ready x db" and "muted_turn x now db = (r, db')"
  shows "sound_step db db'"
proof -
  have s: "sound_step db (write_audit (tc_audit x) Bot_Muted_Skip db)"
    by (rule sound_thread_audit [OF assms(1) turn_ready_parts [OF assms(2)]])
  have "db' = touch (turn_conv x) now (write_audit (tc_audit x) Bot_Muted_Skip db)"
    using assms(3) by (auto simp: muted_turn_def Let_def turn_conv_def)
  then show ?thesis using sound_trans [OF s sound_touch [OF sound_well_formed [OF s]]] by simp
qed

lemma sound_thanks_turn:
  assumes "well_formed db" and "turn_ready x db" and "thanks_turn pipe x ch now db = Some (r, db')"
  shows "sound_step db db'"
proof -
  obtain m outs db1 where
    e: "emit (tc_tenant x) (turn_conv x) (turn_lead x) ch (turn_of x) (tc_audit x) [m] db = (outs, db1)"
    and db': "db' = touch (turn_conv x) now db1"
    using assms(3) by (auto simp: thanks_turn_def Let_def turn_conv_def turn_lead_def turn_of_def
        split: option.splits prod.splits)
  have s: "sound_step db db1" using sound_emit [OF assms(1) turn_ready_parts [OF assms(2)] e] .
  then show ?thesis unfolding db' using sound_trans sound_touch sound_well_formed by blast
qed

lemma sound_rating_captured:
  assumes "well_formed db" and "turn_ready x db" and "rating_captured x txt now db = Some db'"
  shows "sound_step db db'"
  using assms sound_capture_satisfaction [OF assms(1) turn_ready_parts [OF assms(2)]]
  by (auto simp: rating_captured_def Let_def turn_conv_def turn_lead_def split: if_splits)

lemma sound_answer_turn:
  assumes "well_formed db" and "turn_ready x db" and "answer_turn pipe x inb corr db s = (Inr (r, db'), s')"
  shows "sound_step db db'"
proof -
  obtain a db3 where ans: "answered pipe x inb corr db s a (tr_outbound r) db3 s'"
    and db': "db' = touch (turn_conv x) (wall pipe s') db3" using assms(3) by (rule answer_turnE)
  let ?t = "decided pipe x inb db"
  let ?db1 = "write_all (tc_audit x) (trail s') db"
  have 1: "sound_step db ?db1"
    by (rule sound_write_all [OF assms(1)]) (rule thread_audit [OF turn_ready_parts [OF assms(2)]])
  have 2: "sound_step ?db1 (after_action pipe x ?t a s' db)"
    unfolding after_action_def
    by (rule sound_record_outcome [OF sound_well_formed [OF 1] turn_ready_mono [OF assms(2) 1]])
  have 12: "sound_step db (after_action pipe x ?t a s' db)" using sound_trans [OF 1 2] .
  have "speak pipe x (in_text inb) (in_channel inb) (state_for_lead db (tc_tenant x) (turn_lead x))
      (t_phrases ?t @ a_phrases a) (after_action pipe x ?t a s' db) = Some (tr_outbound r, db3)"
    using ans by (simp add: answered_def Let_def)
  then have 3: "sound_step (after_action pipe x ?t a s' db) db3"
    by (rule sound_speak [OF sound_well_formed [OF 2] turn_ready_mono [OF assms(2) 12]])
  have "sound_step db3 db'" unfolding db' by (rule sound_touch [OF sound_well_formed [OF 3]])
  with 12 3 show ?thesis by (blast intro: sound_trans)
qed

lemma sound_new_turn:
  assumes "well_formed db" and "tenant_uid t \<in> tenant_keys db" and "trail_fits audit None None (tenant_uid t)"
    and "new_turn pipe t inb corr audit db s = (Inr (r, db'), s')"
  shows "sound_step db db' \<and> thread_at db' (tr_conversation r) (tr_lead r) (tenant_uid t)"
proof -
  let ?now = "wall pipe s"
  obtain x db1 where x: "open_turn t inb ?now audit db = (x, db1)" by fastforce
  have 1: "sound_step db db1" and ready: "turn_ready x db1" using sound_open_turn [OF assms(1-3) x] by auto
  note wf = sound_well_formed [OF 1]
  have tid: "tc_tenant x = tenant_uid t" using open_turn_effect(3) [OF x] .
  have "sound_step db1 db' \<and> tr_conversation r = turn_conv x \<and> tr_lead r = turn_lead x"
  proof (cases "bot_muted (tc_conversation x)")
    case True
    then have m: "muted_turn x ?now db1 = (r, db')" using assms(4) x by (auto simp: new_turn_def Let_def)
    then have "tr_conversation r = turn_conv x \<and> tr_lead r = turn_lead x"
      by (auto simp: muted_turn_def Let_def silent_result_def turn_conv_def turn_lead_def)
    with sound_muted_turn [OF wf ready m] show ?thesis by blast
  next
    case False
    show ?thesis
    proof (cases "rating_captured x (in_text inb) ?now db1")
      case (Some db2)
      then have t: "thanks_turn pipe x (in_channel inb) ?now db2 = Some (r, db')"
        using assms(4) x False by (auto simp: new_turn_def Let_def split: option.splits)
      have 2: "sound_step db1 db2" by (rule sound_rating_captured [OF wf ready Some])
      have "tr_conversation r = turn_conv x \<and> tr_lead r = turn_lead x"
        using t by (auto simp: thanks_turn_def Let_def silent_result_def turn_conv_def turn_lead_def
            split: option.splits prod.splits)
      with 2 sound_thanks_turn [OF sound_well_formed [OF 2] turn_ready_mono [OF ready 2] t]
      show ?thesis by (blast intro: sound_trans)
    next
      case None
      then have a: "answer_turn pipe x inb corr db1 s = (Inr (r, db'), s')"
        using assms(4) x False by (auto simp: new_turn_def Let_def)
      then have "tr_conversation r = turn_conv x \<and> tr_lead r = turn_lead x" by (auto elim: answer_turnE)
      with sound_answer_turn [OF wf ready a] show ?thesis by blast
    qed
  qed
  with 1 turn_ready_parts(1) [OF ready] tid show ?thesis
    by (auto intro: sound_trans thread_at_mono)
qed

lemma tenant_key: "get_by_slug db nm = Some t \<Longrightarrow> tenant_uid t \<in> tenant_keys db"
  by (auto simp: get_by_slug_def tenant_keys_def dest!: next_such_in)

lemma trail_fits_new [simp]: "trail_fits (new_trail tid corr turn) None None tid"
  by (simp add: trail_fits_def new_trail_def)

lemma trail_fits_bound: "trail_fits (bind_trail (Some cid) (Some lid) (new_trail tid corr turn)) (Some cid) (Some lid) tid"
  by (simp add: trail_fits_def new_trail_def)

lemma sound_handle_inbound:
  assumes "well_formed db" and "handle_inbound pipe inb corr db s = (Inr (r, db'), s')"
  shows "sound_step db db'
    \<and> (\<exists>t. get_by_slug db (in_tenant_slug inb) = Some t
         \<and> thread_at db' (tr_conversation r) (tr_lead r) (tenant_uid t))"
proof -
  let ?db0 = "snd (new_id db)"
  have 0: "sound_step db ?db0" by (rule sound_new_id [OF assms(1)])
  show ?thesis
    using assms(2)
  proof (cases rule: handle_inboundE)
    case (duplicate t m)
    let ?a = "bind_trail (Some (msg_conversation m)) (Some (msg_lead m)) (new_trail (tenant_uid t) corr (next_id db))"
    have m: "m \<in> set (messages db)" "msg_tenant m = tenant_uid t"
      using duplicate(2) by (auto simp: seen_before_def find_by_provider_id_def split: if_splits dest!: next_such_in)
    have th: "thread_at ?db0 (msg_conversation m) (msg_lead m) (tenant_uid t)"
      using table_okD [OF well_formed_tables(3) [OF assms(1)] m(1)] m(2) conv_key_thread [OF assms(1)]
        thread_at_mono [OF _ 0] by (auto simp: message_ok_def)
    have 1: "sound_step ?db0 (write_audit ?a e ?db0)" for e
      by (rule sound_thread_audit [OF sound_well_formed [OF 0] th trail_fits_bound])
    have "db' = write_audit ?a (Duplicate_Ignored (the (in_provider_message_id inb)) (in_channel inb)) ?db0"
      and "tr_conversation r = msg_conversation m" "tr_lead r = msg_lead m"
      using duplicate(4) by (simp_all add: duplicate_turn_def silent_result_def)
    then show ?thesis
      using duplicate(1) sound_trans [OF 0 1] thread_at_mono [OF th 1] by auto
  next
    case (turn t)
    have "tenant_uid t \<in> tenant_keys ?db0" using tenant_key [OF turn(1)] 0 by (auto simp: sound_step_def extends_def)
    with sound_new_turn [OF sound_well_formed [OF 0] this trail_fits_new turn(3)] turn(1) 0 show ?thesis
      by (blast intro: sound_trans)
  qed
qed

text \<open>The follow-up of a search, delivered to the thread it was deferred in.\<close>

lemma sound_deliver_deferred:
  assumes "well_formed db" and "get_by_slug db tenant = Some t" and "thread_at db cid lid (tenant_uid t)"
    and "trail_fits (ct_audit k) (Some cid) (Some lid) (tenant_uid t)"
    and "deliver_deferred pb tenant cid lid ch k corr db s = (Inr (r, db'), s')"
  shows "sound_step db db'"
proof -
  let ?tid = "tenant_uid t" and ?db0 = "snd (new_id db)"
  let ?a = "bind_trail (Some cid) (Some lid) (new_trail ?tid corr (next_id db))"
  obtain a s1 where fin: "finish (ct_engine k) (ct_deferred k) (s\<lparr>trail := []\<rparr>) = (a, s1)" by fastforce
  define db1 where "db1 = write_all (ct_audit k) (trail s1) ?db0"
  define db2 where "db2 = (case find_conversation db1 cid of
     Some c \<Rightarrow> if conv_tenant c = ?tid then update_conversation cid (merge_deferred a) db1 else db1
   | None \<Rightarrow> db1)"
  define db3 where "db3 = (if truthy (a_handoff a) then enqueue_handoff ?tid cid lid (the (a_handoff a)) ?a db2 else db2)"
  have "deliver_deferred pb tenant cid lid ch k corr db s =
      (case render_all pb ''en'' (a_phrases a) of
         None \<Rightarrow> (Inl Turn_Raised, s1)
       | Some rendered \<Rightarrow>
           let (outs, db4) = emit ?tid cid lid ch (next_id db) ?a rendered db3
           in (Inr (silent_result (next_id db) cid lid \<lparr>tr_outbound := outs\<rparr>, db4), s1))"
    unfolding deliver_deferred_def assms(2) new_id_def db1_def db2_def db3_def Let_def option.case
      prod.case snd_conv fin ..
  then obtain rendered outs where e: "emit ?tid cid lid ch (next_id db) ?a rendered db3 = (outs, db')"
    using assms(5) by (auto split: option.splits prod.splits)
  have 0: "sound_step db ?db0" by (rule sound_new_id [OF assms(1)])
  have 1: "sound_step ?db0 db1"
    unfolding db1_def by (rule sound_write_all [OF sound_well_formed [OF 0]])
      (rule thread_audit [OF thread_at_mono [OF assms(3) 0] assms(4)])
  have "sound_step db1 (update_conversation cid (merge_deferred a) db1)"
    by (rule sound_update_conversation [OF sound_well_formed [OF 1]]) (simp_all add: merge_deferred_def)
  then have 2: "sound_step db1 db2"
    using sound_refl [OF sound_well_formed [OF 1]] by (auto simp: db2_def split: option.splits)
  have 02: "sound_step db db2" using 0 1 2 by (blast intro: sound_trans)
  have 3: "sound_step db2 db3"
    using sound_enqueue_handoff [OF sound_well_formed [OF 2] thread_at_mono [OF assms(3) 02] trail_fits_bound]
      sound_refl [OF sound_well_formed [OF 2]] by (simp add: db3_def)
  have 03: "sound_step db db3" using 02 3 by (rule sound_trans)
  have "sound_step db3 db'"
    by (rule sound_emit [OF sound_well_formed [OF 3] thread_at_mono [OF assms(3) 03] trail_fits_bound e])
  with 03 show ?thesis by (rule sound_trans)
qed

end
