(* ===== verification/Integrity_Pass.thy ===== *)
theory Integrity_Pass
  imports Integrity_Turn Scheduler_Props
begin

text \<open>A pass of the scheduler and the actions of an operator keep the store well-formed.\<close>

subsection \<open>A pass\<close>

text \<open>The row an item was made from is still of the item's lead and conversation.\<close>

definition item_fits :: "uid \<Rightarrow> store \<Rightarrow> due_item \<Rightarrow> bool" where
  "item_fits tid db d \<longleftrightarrow> thread_at db (conv_id (di_conversation d)) (lead_id (di_lead d)) tid
     \<and> (\<forall>n\<in>set (notifications db). sn_id n = sn_id (di_row d)
          \<longrightarrow> sn_lead n = lead_id (di_lead d) \<and> sn_tenant n = tid)"

lemma item_trail: "trail_fits (item_audit self corr turn d) (Some (conv_id (di_conversation d)))
    (Some (lead_id (di_lead d))) (sch_tenant self)"
  by (simp add: trail_fits_def item_audit_def)

lemma item_fits_next:
  assumes "item_fits tid db e" and "sound_step db db'"
    and "\<And>n'. n' \<in> set (notifications db') \<Longrightarrow> \<exists>n\<in>set (notifications db). essence n' = essence n"
  shows "item_fits tid db' e"
proof -
  have "sn_lead n' = lead_id (di_lead e) \<and> sn_tenant n' = tid"
    if "n' \<in> set (notifications db')" "sn_id n' = sn_id (di_row e)" for n'
    using assms(3) [OF that(1)] that(2) assms(1) by (auto simp: item_fits_def essence_def)
  with assms thread_at_mono show ?thesis by (auto simp: item_fits_def)
qed

lemma sound_plain_update:
  assumes "well_formed db" and "\<And>n. sn_id (f n) = sn_id n"
    and "\<And>n. sn_lead (f n) = sn_lead n \<and> sn_tenant (f n) = sn_tenant n \<and> sn_booking (f n) = sn_booking n
      \<and> sn_conversation (f n) = sn_conversation n \<and> sn_message (f n) = sn_message n"
  shows "sound_step db (update_notification i f db)"
  by (rule sound_update_notification) (use assms in \<open>auto simp: notification_ok_def\<close>)

lemma sound_send_item:
  assumes "well_formed db" and "item_fits (sch_tenant self) db d"
    and a: "trail_fits a (Some (conv_id (di_conversation d))) (Some (lead_id (di_lead d))) (sch_tenant self)"
    and "send_item self bsp moment wclock a d db = Some db'"
  shows "sound_step db db'"
proof -
  let ?tid = "sch_tenant self" and ?cid = "conv_id (di_conversation d)" and ?lid = "lead_id (di_lead d)"
  let ?nid = "sn_id (di_row d)" and ?p = "di_plan d"
  obtain rm where rm: "render (sch_phrasebank self) (phrase_key_value (PHRASE_FOR (sn_kind (di_row d))))
      (Some (conv_locale (di_conversation d))) (notice_variables self wclock (di_booking d)) = Some rm"
    using assms(4) by (auto simp: send_item_def split: option.splits)
  obtain m db2 where
    m: "record_outbound ?tid ?cid ?lid (fst (new_id db)) (conv_channel (di_conversation d)) (rm_text rm)
         (rm_locale rm) (rm_key rm) (snd (new_id db)) = (m, db2)" by fastforce
  obtain pid where db': "db' = write_audit a (Notification_Sent (rm_key rm) (rm_locale rm) (rm_text rm)
         (sn_kind (di_row d)) (verdict_value (pl_verdict ?p)) (bk_id (di_booking d)) (template_name ?p))
         (update_notification ?nid (sent_row moment (msg_id m) ?p)
           (if truthy pid then update_message (msg_id m) (accepted moment (the pid)) db2 else db2))"
    using assms(4) unfolding send_item_def rm option.case Let_def split_def m fst_conv snd_conv
    by (auto split: send_answer.splits)
  let ?db3 = "if truthy pid then update_message (msg_id m) (accepted moment (the pid)) db2 else db2"
  let ?db4 = "update_notification ?nid (sent_row moment (msg_id m) ?p) ?db3"
  have th: "thread_at db ?cid ?lid ?tid" using assms(2) by (simp add: item_fits_def)
  have 0: "sound_step db (snd (new_id db))" by (rule sound_new_id [OF assms(1)])
  have 2: "sound_step (snd (new_id db)) db2" and key: "(msg_id m, ?lid, ?tid) \<in> msg_keys db2"
    using sound_message(2) [OF sound_well_formed [OF 0] thread_at_mono [OF th 0] m] by auto
  have "sound_step db2 (update_message (msg_id m) (accepted moment (the pid)) db2)"
    by (rule sound_update_message [OF sound_well_formed [OF 2]]) (simp_all add: accepted_def)
  then have 3: "sound_step db2 ?db3" using sound_refl [OF sound_well_formed [OF 2]] by simp
  have rows: "notifications ?db3 = notifications db"
    using m by (auto simp: record_outbound_def add_message_def new_id_def Let_def update_message_def)
  have key3: "(msg_id m, ?lid, ?tid) \<in> msg_keys ?db3" using key 3 by (auto simp: sound_step_def extends_def)
  have 4: "sound_step ?db3 ?db4"
  proof (rule sound_update_notification [OF sound_well_formed [OF 3]])
    fix n assume n: "n \<in> set (notifications ?db3)" "sn_id n = ?nid" "notification_ok ?db3 n"
    then have "sn_lead n = ?lid \<and> sn_tenant n = ?tid" using assms(2) rows by (simp add: item_fits_def)
    with n(3) key3 show "notification_ok ?db3 (sent_row moment (msg_id m) ?p n)"
      by (simp add: notification_ok_def sent_row_def)
  qed (simp add: sent_row_def)
  have 04: "sound_step db ?db4" using 0 2 3 4 by (blast intro: sound_trans)
  have "sound_step ?db4 db'" unfolding db'
    by (rule sound_thread_audit [OF sound_well_formed [OF 4] thread_at_mono [OF th 04] a])
  with 04 show ?thesis by (rule sound_trans)
qed

lemma sound_act_on:
  assumes "well_formed db" and "item_fits (sch_tenant self) db d"
    and "act_on self bsp moment wclock corr d db = Some db'"
  shows "sound_step db db'"
proof -
  let ?nid = "sn_id (di_row d)" and ?p = "di_plan d" and ?db0 = "snd (new_id db)"
  let ?db1 = "update_notification ?nid (note_attempt moment ?p) ?db0"
  let ?a = "item_audit self corr (fst (new_id db)) d"
  have 0: "sound_step db ?db0" by (rule sound_new_id [OF assms(1)])
  have 1: "sound_step ?db0 ?db1"
    by (rule sound_plain_update [OF sound_well_formed [OF 0]]) (simp_all add: note_attempt_def)
  have 01: "sound_step db ?db1" using 0 1 by (rule sound_trans)
  have kept: "\<exists>n\<in>set (notifications db). essence n' = essence n" if "n' \<in> set (notifications ?db1)" for n'
  proof -
    have "n' \<in> (\<lambda>n. if sn_id n = ?nid then note_attempt moment ?p n else n) ` set (notifications db)"
      using that by (simp add: store_simps set_update_where)
    then obtain n where n: "n \<in> set (notifications db)"
      "n' = (if sn_id n = ?nid then note_attempt moment ?p n else n)" by (rule imageE)
    then have "essence n' = essence n" by (simp add: essence_def note_attempt_def)
    with n(1) show ?thesis by blast
  qed
  have fits: "item_fits (sch_tenant self) ?db1 d" by (rule item_fits_next [OF assms(2) 01 kept])
  then have th: "thread_at ?db1 (conv_id (di_conversation d)) (lead_id (di_lead d)) (sch_tenant self)"
    by (simp add: item_fits_def)
  have marked: "sound_step ?db1 (write_audit ?a e (update_notification ?nid f ?db1))"
    if f: "\<And>n. sn_id (f n) = sn_id n \<and> sn_lead (f n) = sn_lead n \<and> sn_tenant (f n) = sn_tenant n
        \<and> sn_booking (f n) = sn_booking n \<and> sn_conversation (f n) = sn_conversation n
        \<and> sn_message (f n) = sn_message n" for e f
  proof -
    have s: "sound_step ?db1 (update_notification ?nid f ?db1)"
      by (rule sound_plain_update [OF sound_well_formed [OF 1]]) (use f in auto)
    show ?thesis
      using sound_thread_audit [OF sound_well_formed [OF s] thread_at_mono [OF th s] item_trail] s sound_trans
      by blast
  qed
  show ?thesis
  proof (cases "verdict_is_terminal (pl_verdict ?p) \<or> \<not> verdict_sends (pl_verdict ?p)")
    case True
    then have "sound_step ?db1 db'"
      using assms(3) by (auto simp: act_on_def Let_def split_def split: if_splits intro!: marked)
    with 01 show ?thesis by (rule sound_trans)
  next
    case False
    then have "send_item self bsp moment wclock ?a d ?db1 = Some db'"
      using assms(3) by (simp add: act_on_def Let_def split_def)
    with sound_send_item [OF sound_well_formed [OF 1] fits item_trail] 01 show ?thesis
      by (blast intro: sound_trans)
  qed
qed

lemma sound_act_on_all:
  assumes "well_formed db" and "\<And>d. d \<in> set ds \<Longrightarrow> item_fits (sch_tenant self) db d"
    and "act_on_all self bsp moment wclock corr ds db = Some db'"
  shows "sound_step db db'"
  using assms
proof (induction ds arbitrary: db)
  case (Cons d ds)
  obtain db1 where d: "act_on self bsp moment wclock corr d db = Some db1"
    and ds: "act_on_all self bsp moment wclock corr ds db1 = Some db'"
    using Cons.prems(3) by (auto split: option.splits)
  have s: "sound_step db db1" by (rule sound_act_on [OF Cons.prems(1) _ d]) (simp add: Cons.prems(2))
  obtain f where f: "notifications db1 = update_where (\<lambda>n. sn_id n = sn_id (di_row d)) f (notifications db)"
    "\<And>n. essence (f n) = essence n" using act_on_effect(4) [OF d] by blast
  have kept: "\<exists>n\<in>set (notifications db). essence n' = essence n" if "n' \<in> set (notifications db1)" for n'
    using that f by (auto simp: set_update_where split: if_splits)
  have "sound_step db1 db'"
    by (rule Cons.IH [OF sound_well_formed [OF s] _ ds]) (use Cons.prems(2) item_fits_next [OF _ s kept] in auto)
  with s show ?case by (rule sound_trans)
qed (simp add: sound_refl)

lemma due_items_fit:
  assumes "well_formed db" and "d \<in> set (due_items self moment db)"
  shows "item_fits (sch_tenant self) db d"
proof -
  obtain n b c l where n: "n \<in> set (notifications db)" "sn_tenant n = sch_tenant self"
    and j: "join_row db n = Some (n, b, c, l)" and d: "d = decide_row self db moment (n, b, c, l)"
  proof -
    obtain row where "row \<in> set (load_open db (sch_tenant self))" "d = decide_row self db moment row"
      using assms(2) by (auto simp: due_items_def pending_def)
    then obtain n where "n \<in> set (notifications db)" "sn_tenant n = sch_tenant self" "join_row db n = Some row"
      by (auto simp: load_open_def in_map_filter)
    with that \<open>d = _\<close> show thesis by (cases row) (auto simp: join_row_def split: option.splits)
  qed
  from j have c: "c \<in> set (conversations db)" "conv_id c = sn_conversation n" "lead_id l = sn_lead n"
    by (auto simp: join_row_def find_conversation_def split: option.splits dest!: next_such_in)
  have n_ok: "(sn_conversation n, sn_lead n, sn_tenant n) \<in> conv_keys db"
    using table_okD [OF well_formed_tables(6) [OF assms(1)] n(1)] by (simp add: notification_ok_def)
  have "sn_lead m = sn_lead n \<and> sn_tenant m = sn_tenant n"
    if "m \<in> set (notifications db)" "sn_id m = sn_id n" for m
    using table_ok_unique [OF well_formed_tables(6) [OF assms(1)] that(1) n(1) that(2)] by simp
  moreover have "thread_at db (conv_id c) (lead_id l) (sch_tenant self)"
    using conv_key_thread [OF assms(1) n_ok] n(2) c(2,3) by simp
  ultimately show ?thesis unfolding item_fits_def d decide_row_def using n(2) c(3) by simp
qed

lemma sound_run_pass:
  assumes "well_formed db" and "run_pass self bsp now wclock corr db = Some (ds, db')"
  shows "sound_step db db'"
proof -
  let ?moment = "case now of Some t \<Rightarrow> t | None \<Rightarrow> wclock"
  have "act_on_all self bsp ?moment wclock corr (due_items self ?moment db) db = Some db'"
    using assms(2) by (auto simp: run_pass_def Let_def)
  with due_items_fit [OF assms(1)] show ?thesis by (intro sound_act_on_all [OF assms(1)])
qed

subsection \<open>Operators\<close>

lemma view_thread:
  assumes "well_formed db" and "load_handoff db tid hid = Inr v"
  shows "thread_at db (conv_id (hv_conversation v)) (hq_lead (hv_handoff v)) tid"
proof -
  note v = load_handoff_Inr [OF assms(2)]
  have "(hq_conversation (hv_handoff v), hq_lead (hv_handoff v), tid) \<in> conv_keys db"
    using table_okD [OF well_formed_tables(9) [OF assms(1)]] v by (force simp: handoff_ok_def)
  then show ?thesis using conv_key_thread [OF assms(1)] v by simp
qed

lemma operator_fits: "trail_fits (operator_trail tid corr turn v) (Some (conv_id (hv_conversation v)))
    (Some (hq_lead (hv_handoff v))) tid"
  by (simp add: trail_fits_def operator_trail_def)

lemma sound_store_view:
  assumes "well_formed db" and "store_view f g v db = (v', db')"
    and f: "\<And>h. hq_id (f h) = hq_id h \<and> hq_lead (f h) = hq_lead h \<and> hq_tenant (f h) = hq_tenant h
      \<and> hq_conversation (f h) = hq_conversation h"
    and g: "\<And>c. conv_id (g c) = conv_id c \<and> conv_lead (g c) = conv_lead c \<and> conv_tenant (g c) = conv_tenant c"
  shows "sound_step db db'"
proof -
  let ?db1 = "update_conversation (conv_id (hv_conversation v)) g db"
  have s: "sound_step db ?db1" by (rule sound_update_conversation [OF assms(1)]) (use g in auto)
  have "sound_step ?db1 (update_handoff (hq_id (hv_handoff v)) f ?db1)"
    by (rule sound_update_handoff [OF sound_well_formed [OF s]]) (use f in auto)
  with s have "sound_step db (update_handoff (hq_id (hv_handoff v)) f ?db1)" by (rule sound_trans)
  with assms(2) show ?thesis by (auto simp: store_view_def)
qed

lemma sound_operator_step:
  assumes "well_formed db" and "load_handoff db tid hid = Inr v" and "sound_step db db1"
  shows "sound_step db (write_audit (operator_trail tid corr turn v) e (snd (new_id db1)))"
proof -
  have 1: "sound_step db1 (snd (new_id db1))" by (rule sound_new_id [OF sound_well_formed [OF assms(3)]])
  have 2: "sound_step db (snd (new_id db1))" using assms(3) 1 by (rule sound_trans)
  have "sound_step (snd (new_id db1)) (write_audit (operator_trail tid corr turn v) e (snd (new_id db1)))"
    by (rule sound_thread_audit [OF sound_well_formed [OF 2] thread_at_mono [OF view_thread [OF assms(1,2)] 2]
          operator_fits])
  with 2 show ?thesis by (rule sound_trans)
qed

lemma sound_claim:
  assumes "well_formed db" and "claim tid hid op corr now db = Inr (v', db')"
  shows "sound_step db db'"
proof -
  obtain v where v: "load_handoff db tid hid = Inr v" using assms(2) by (auto simp: claim_def split: sum.splits)
  obtain w db1 where w: "store_view (claimed_handoff op now) taken_conversation v db = (w, db1)" by fastforce
  have "sound_step db db1"
    by (rule sound_store_view [OF assms(1) w]) (simp_all add: claimed_handoff_def taken_conversation_def)
  then have "sound_step db (write_audit (operator_trail tid corr (fst (new_id db1)) v) (Handoff_Claimed op hid)
      (snd (new_id db1)))" by (rule sound_operator_step [OF assms(1) v])
  with assms(2) v w show ?thesis by (auto simp: claim_def Let_def split_def split: if_splits)
qed

lemma sound_release:
  assumes "well_formed db" and "release tid hid op nt corr now db = Inr (v', db')"
  shows "sound_step db db'"
proof -
  obtain v where v: "load_handoff db tid hid = Inr v" using assms(2) by (auto simp: release_def split: sum.splits)
  obtain w db1 where w: "store_view (resolved_handoff nt now) (returned_conversation now) v db = (w, db1)"
    by fastforce
  have "sound_step db db1"
    by (rule sound_store_view [OF assms(1) w]) (simp_all add: resolved_handoff_def returned_conversation_def)
  then have "sound_step db (write_audit (operator_trail tid corr (fst (new_id db1)) v)
      (Handoff_Resolved op nt hid) (snd (new_id db1)))" by (rule sound_operator_step [OF assms(1) v])
  with assms(2) v w show ?thesis by (auto simp: release_def Let_def split_def split: if_splits)
qed

lemma sound_reply:
  assumes "well_formed db" and "reply tid hid op txt corr now db = Inr (m, db')"
  shows "sound_step db db'"
proof -
  obtain v where v: "load_handoff db tid hid = Inr v" using assms(2) by (auto simp: reply_def split: sum.splits)
  let ?c = "hv_conversation v" and ?lid = "hq_lead (hv_handoff v)" and ?db0 = "snd (new_id db)"
  obtain m0 db2 where m: "record_outbound tid (conv_id ?c) ?lid (fst (new_id db)) (conv_channel ?c) (strip txt)
      (conv_locale ?c) OPERATOR_REPLY ?db0 = (m0, db2)" by fastforce
  let ?db3 = "update_conversation (conv_id ?c) (\<lambda>x. x\<lparr>last_activity_at := now\<rparr>) db2"
  have th: "thread_at db (conv_id ?c) ?lid tid" using view_thread [OF assms(1) v] .
  have 0: "sound_step db ?db0" by (rule sound_new_id [OF assms(1)])
  have 2: "sound_step ?db0 db2"
    using sound_message(2) [OF sound_well_formed [OF 0] thread_at_mono [OF th 0] m] by simp
  have 3: "sound_step db2 ?db3" by (rule sound_update_conversation [OF sound_well_formed [OF 2]]) simp_all
  have 03: "sound_step db ?db3" using 0 2 3 by (blast intro: sound_trans)
  have "sound_step ?db3 (write_audit (operator_trail tid corr (fst (new_id db)) v)
      (Operator_Replied (conv_locale ?c) (strip txt) op hid) ?db3)"
    by (rule sound_thread_audit [OF sound_well_formed [OF 3] thread_at_mono [OF th 03] operator_fits])
  with 03 have "sound_step db (write_audit (operator_trail tid corr (fst (new_id db)) v)
      (Operator_Replied (conv_locale ?c) (strip txt) op hid) ?db3)" by (rule sound_trans)
  with assms(2) v m show ?thesis by (auto simp: reply_def Let_def split_def split: if_splits)
qed

end
