(* ===== verification/Erasure.thy ===== *)
theory Erasure
  imports Repositories Formatting
begin

text \<open>
  Erasure and retention, \<^verbatim>\<open>mawjood/core/compliance/erasure.py\<close> and \<^verbatim>\<open>retention.py\<close>. A \<open>DELETE\<close> does
  what the foreign keys of \<^verbatim>\<open>mawjood/db/models.py\<close> say: it takes the rows that cascade with it and
  clears the references that are set to null. The purge flag that lets the audit log be deleted from
  is set by both operations before their first \<open>DELETE\<close>, so the trigger it answers to does not show.
  \<open>hashlib.sha256\<close> and the printed form of a UUID are parameters.
\<close>

subsection \<open>Deleting rows\<close>

text \<open>\<open>ON DELETE SET NULL\<close> for a reference to one of the rows that went.\<close>

definition detach :: "uid list \<Rightarrow> ('a \<Rightarrow> uid option) \<Rightarrow> ('a \<Rightarrow> 'a) \<Rightarrow> 'a list \<Rightarrow> 'a list" where
  "detach gone ref clear rows =
     map (\<lambda>r. if list_ex (\<lambda>i. ref r = Some i) gone then clear r else r) rows"

definition drop_messages :: "(message \<Rightarrow> bool) \<Rightarrow> store \<Rightarrow> store" where
  "drop_messages q db = (let gone = map msg_id (filter q (messages db)) in
     db\<lparr>messages := filter (\<lambda>m. \<not> q m) (messages db),
        consents := detach gone con_evidence (\<lambda>c. c\<lparr>con_evidence := None\<rparr>) (consents db),
        notifications := detach gone sn_message (\<lambda>n. n\<lparr>sn_message := None\<rparr>) (notifications db)\<rparr>)"

definition drop_bookings :: "(booking \<Rightarrow> bool) \<Rightarrow> store \<Rightarrow> store" where
  "drop_bookings q db = (let gone = map bk_id (filter q (bookings db)) in
     db\<lparr>bookings := filter (\<lambda>b. \<not> q b) (bookings db),
        notifications := filter (\<lambda>n. sn_booking n \<notin> set gone) (notifications db),
        feedbacks := detach gone fb_booking (\<lambda>f. f\<lparr>fb_booking := None\<rparr>) (feedbacks db)\<rparr>)"

definition drop_conversations :: "(conversation \<Rightarrow> bool) \<Rightarrow> store \<Rightarrow> store" where
  "drop_conversations q db =
     (let gone = map conv_id (filter q (conversations db));
          db1 = drop_bookings (\<lambda>b. bk_conversation b \<in> set gone)
                  (drop_messages (\<lambda>m. msg_conversation m \<in> set gone) db)
      in db1\<lparr>conversations := filter (\<lambda>c. \<not> q c) (conversations db1),
           notifications := filter (\<lambda>n. sn_conversation n \<notin> set gone) (notifications db1),
           feedbacks := filter (\<lambda>f. fb_conversation f \<notin> set gone) (feedbacks db1),
           handoffs := filter (\<lambda>h. hq_conversation h \<notin> set gone) (handoffs db1),
           audit_log := filter (\<lambda>r. \<not> list_ex (\<lambda>i. row_conversation_id r = Some i) gone)
                          (audit_log db1),
           consents := detach gone con_conversation (\<lambda>c. c\<lparr>con_conversation := None\<rparr>) (consents db1),
           attributions := detach gone at_conversation (\<lambda>a. a\<lparr>at_conversation := None\<rparr>)
                          (attributions db1)\<rparr>)"

definition drop_leads :: "(uid \<Rightarrow> bool) \<Rightarrow> store \<Rightarrow> store" where
  "drop_leads p db =
     (let gone = filter p (map lead_id (leads db));
          db1 = drop_bookings (\<lambda>b. bk_lead b \<in> set gone)
                  (drop_messages (\<lambda>m. msg_lead m \<in> set gone)
                    (drop_conversations (\<lambda>c. conv_lead c \<in> set gone) db))
      in db1\<lparr>leads := filter (\<lambda>l. \<not> p (lead_id l)) (leads db1),
           consents := filter (\<lambda>c. con_lead c \<notin> set gone) (consents db1),
           notifications := filter (\<lambda>n. sn_lead n \<notin> set gone) (notifications db1),
           feedbacks := filter (\<lambda>f. fb_lead f \<notin> set gone) (feedbacks db1),
           attributions := filter (\<lambda>a. at_lead a \<notin> set gone) (attributions db1),
           handoffs := filter (\<lambda>h. hq_lead h \<notin> set gone) (handoffs db1),
           audit_log := filter (\<lambda>r. \<not> list_ex (\<lambda>i. row_lead_id r = Some i) gone) (audit_log db1)\<rparr>)"

subsection \<open>The consumer tables\<close>

text \<open>A table with a lead column: its name, that column, and \<open>delete(model).where(\<dots> lead_id \<dots>)\<close>.\<close>

record consumer_table =
  ct_name :: string
  ct_leads :: "store \<Rightarrow> uid list"
  ct_delete :: "(uid \<Rightarrow> bool) \<Rightarrow> store \<Rightarrow> store"

definition feedback_table :: consumer_table where
  "feedback_table = \<lparr>ct_name = ''feedback'', ct_leads = (\<lambda>db. map fb_lead (feedbacks db)),
     ct_delete = (\<lambda>p db. db\<lparr>feedbacks := filter (\<lambda>f. \<not> p (fb_lead f)) (feedbacks db)\<rparr>)\<rparr>"

definition notifications_table :: consumer_table where
  "notifications_table = \<lparr>ct_name = ''scheduled_notifications'',
     ct_leads = (\<lambda>db. map sn_lead (notifications db)),
     ct_delete = (\<lambda>p db. db\<lparr>notifications := filter (\<lambda>n. \<not> p (sn_lead n)) (notifications db)\<rparr>)\<rparr>"

definition handoff_table :: consumer_table where
  "handoff_table = \<lparr>ct_name = ''handoff_queue'', ct_leads = (\<lambda>db. map hq_lead (handoffs db)),
     ct_delete = (\<lambda>p db. db\<lparr>handoffs := filter (\<lambda>h. \<not> p (hq_lead h)) (handoffs db)\<rparr>)\<rparr>"

definition attribution_table :: consumer_table where
  "attribution_table = \<lparr>ct_name = ''attribution'', ct_leads = (\<lambda>db. map at_lead (attributions db)),
     ct_delete = (\<lambda>p db. db\<lparr>attributions := filter (\<lambda>a. \<not> p (at_lead a)) (attributions db)\<rparr>)\<rparr>"

definition consents_table :: consumer_table where
  "consents_table = \<lparr>ct_name = ''consents'', ct_leads = (\<lambda>db. map con_lead (consents db)),
     ct_delete = (\<lambda>p db. db\<lparr>consents := filter (\<lambda>c. \<not> p (con_lead c)) (consents db)\<rparr>)\<rparr>"

definition messages_table :: consumer_table where
  "messages_table = \<lparr>ct_name = ''messages'', ct_leads = (\<lambda>db. map msg_lead (messages db)),
     ct_delete = (\<lambda>p. drop_messages (\<lambda>m. p (msg_lead m)))\<rparr>"

definition bookings_table :: consumer_table where
  "bookings_table = \<lparr>ct_name = ''bookings'', ct_leads = (\<lambda>db. map bk_lead (bookings db)),
     ct_delete = (\<lambda>p. drop_bookings (\<lambda>b. p (bk_lead b)))\<rparr>"

definition conversations_table :: consumer_table where
  "conversations_table = \<lparr>ct_name = ''conversations'',
     ct_leads = (\<lambda>db. map conv_lead (conversations db)),
     ct_delete = (\<lambda>p. drop_conversations (\<lambda>c. p (conv_lead c)))\<rparr>"

definition audit_leads :: "store \<Rightarrow> uid list" where
  "audit_leads db = List.map_filter row_lead_id (audit_log db)"

definition audit_table :: consumer_table where
  "audit_table = \<lparr>ct_name = ''audit_log'', ct_leads = audit_leads,
     ct_delete = (\<lambda>p db. db\<lparr>audit_log := filter (\<lambda>r. case row_lead_id r of
        None \<Rightarrow> True | Some i \<Rightarrow> \<not> p i) (audit_log db)\<rparr>)\<rparr>"

definition leads_table :: consumer_table where
  "leads_table = \<lparr>ct_name = ''leads'', ct_leads = (\<lambda>db. map lead_id (leads db)), ct_delete = drop_leads\<rparr>"

text \<open>\<open>_CONSUMER_TABLES\<close> of the erasure: children first.\<close>

definition CONSUMER_TABLES :: "consumer_table list" where
  "CONSUMER_TABLES = [feedback_table, notifications_table, handoff_table, attribution_table,
     consents_table, messages_table, bookings_table, conversations_table]"

definition count_for :: "(uid \<Rightarrow> bool) \<Rightarrow> consumer_table \<Rightarrow> store \<Rightarrow> nat" where
  "count_for p t db = length (filter p (ct_leads t db))"

definition count_tables ::
    "(uid \<Rightarrow> bool) \<Rightarrow> consumer_table list \<Rightarrow> store \<Rightarrow> (string \<times> nat) list" where
  "count_tables p ts db = map (\<lambda>t. (ct_name t, count_for p t db)) ts"

fun delete_tables ::
    "(uid \<Rightarrow> bool) \<Rightarrow> consumer_table list \<Rightarrow> store \<Rightarrow> (string \<times> nat) list \<times> store" where
  "delete_tables p [] db = ([], db)"
| "delete_tables p (t # ts) db =
     (let n = count_for p t db; (ns, db') = delete_tables p ts (ct_delete t p db)
      in ((ct_name t, n) # ns, db'))"

subsection \<open>Erasing a consumer\<close>

definition identifier_hash :: "(string \<Rightarrow> string) \<Rightarrow> (uid \<Rightarrow> string) \<Rightarrow> string \<Rightarrow> uid \<Rightarrow> string" where
  "identifier_hash sha256 uuid_text w tid = sha256 (uuid_text tid @ '':'' @ w)"

record erasure_plan =
  ep_lead :: uid
  ep_wa_id :: string
  ep_rows :: "(string \<times> nat) list"
  ep_live_bookings :: "string list"

definition ep_total_rows :: "erasure_plan \<Rightarrow> nat" where
  "ep_total_rows p = sum_values (ep_rows p)"

definition needs_attention :: "erasure_plan \<Rightarrow> bool" where
  "needs_attention p \<longleftrightarrow> ep_live_bookings p \<noteq> []"

text \<open>\<open>%d %b %H:%M\<close> of an instant, in UTC as the database returns it.\<close>

definition short_stamp :: "instant \<Rightarrow> string" where
  "short_stamp t = (let (m, d) = month_day (date_of t) in
     pad2 d @ '' '' @ take 3 (MONTH_NAMES ! nat (m - 1)) @ '' '' @ pad2 (hour_of t) @ '':''
       @ pad2 (minute_of t))"

definition still_ahead :: "instant \<Rightarrow> booking \<Rightarrow> bool" where
  "still_ahead now b \<longleftrightarrow> bk_status b = booking_status.CONFIRMED
     \<and> (case bk_slot_start b of None \<Rightarrow> False | Some t \<Rightarrow> now < t)"

definition live_booking :: "booking \<Rightarrow> string" where
  "live_booking b = or_else (bk_venue b) (bk_platform b) @ '' at ''
     @ (case bk_slot_start b of None \<Rightarrow> [] | Some t \<Rightarrow> short_stamp t)"

definition plan_erasure :: "uid \<Rightarrow> string \<Rightarrow> instant \<Rightarrow> store \<Rightarrow> erasure_plan option" where
  "plan_erasure tid w now db =
     (case get_by_wa_id db tid w of
        None \<Rightarrow> None
      | Some l \<Rightarrow>
          Some \<lparr>ep_lead = lead_id l, ep_wa_id = wa_id l,
            ep_rows = (''leads'', 1) # count_tables (\<lambda>i. i = lead_id l) (CONSUMER_TABLES @ [audit_table]) db,
            ep_live_bookings = map live_booking
              (filter (\<lambda>b. bk_lead b = lead_id l \<and> still_ahead now b) (bookings db))\<rparr>)"

record erasure_receipt =
  er_lead :: uid
  er_subject_hash :: string
  er_tenant :: uid
  er_requested_at :: instant
  er_completed_at :: instant
  er_deleted :: "(string \<times> nat) list"
  er_remaining :: "(string \<times> nat) list"

definition erasure_complete :: "erasure_receipt \<Rightarrow> bool" where
  "erasure_complete r = (\<not> any_values (er_remaining r))"

definition er_total_deleted :: "erasure_receipt \<Rightarrow> nat" where
  "er_total_deleted r = sum_values (er_deleted r)"

text \<open>An audit row that names nobody; its details are the receipt.\<close>

definition compliance_row :: "uid \<Rightarrow> string \<Rightarrow> string \<Rightarrow> instant \<Rightarrow> audit_row" where
  "compliance_row tid ty actor now = \<lparr>row_tenant_id = tid, row_turn_id = None, row_decision_id = None,
     row_conversation_id = None, row_lead_id = None, row_correlation_id = None, row_event_type = ty,
     row_actor = actor, row_category = None, row_platform_slug = None, row_merchant_ref = None,
     row_attempt_number = None, row_outcome = None, row_latency_ms = None, row_advance_reason = None,
     row_consumer_visible = False, row_phrasebank_key = None, row_locale = None,
     row_consumer_text = None, row_occurred_at = now, row_schema_version = SCHEMA_VERSION\<rparr>"

definition log_compliance :: "uid \<Rightarrow> string \<Rightarrow> string \<Rightarrow> store \<Rightarrow> store" where
  "log_compliance tid ty actor db =
     db\<lparr>audit_log := audit_log db @ [compliance_row tid ty actor (tx_now db)]\<rparr>"

definition erase_consumer ::
    "(string \<Rightarrow> string) \<Rightarrow> (uid \<Rightarrow> string) \<Rightarrow> uid \<Rightarrow> string \<Rightarrow> instant option \<Rightarrow> instant \<Rightarrow> instant
       \<Rightarrow> store \<Rightarrow> (erasure_receipt \<times> store) option" where
  "erase_consumer sha256 uuid_text tid w requested_at started finished db =
     (case get_by_wa_id db tid w of
        None \<Rightarrow> None
      | Some l \<Rightarrow>
          let p = (\<lambda>i. i = lead_id l);
              db1 = log_compliance tid ''compliance.erasure_requested'' ''operator'' db;
              (deleted, db2) = delete_tables p (CONSUMER_TABLES @ [audit_table, leads_table]) db1;
              remaining = count_tables p (CONSUMER_TABLES @ [audit_table, leads_table]) db2
          in Some (\<lparr>er_lead = lead_id l, er_subject_hash = identifier_hash sha256 uuid_text w tid,
                er_tenant = tid,
                er_requested_at = (case requested_at of Some t \<Rightarrow> t | None \<Rightarrow> started),
                er_completed_at = finished, er_deleted = deleted, er_remaining = remaining\<rparr>,
              log_compliance tid ''compliance.erasure_completed'' ''operator'' db2))"

subsection \<open>Retention\<close>

record retention_policy =
  audit_days :: int
  consumer_days :: int

definition default_retention :: retention_policy where
  "default_retention = \<lparr>audit_days = 90, consumer_days = 365\<rparr>"

text \<open>\<open>__post_init__\<close>; None is the \<open>ValueError\<close>.\<close>

definition checked_retention :: "retention_policy \<Rightarrow> retention_policy option" where
  "checked_retention p = (if audit_days p < 1 \<or> consumer_days p < 1 then None else Some p)"

definition retention_of_settings :: "(string \<Rightarrow> int option) \<Rightarrow> retention_policy option" where
  "retention_of_settings st =
     (let read = (\<lambda>nm d. case st nm of Some x \<Rightarrow> x | None \<Rightarrow> d) in
      checked_retention \<lparr>audit_days = read ''log_retention_days'' 90,
        consumer_days = read ''data_retention_days'' 365\<rparr>)"

record retention_sweep =
  rs_ran_at :: instant
  rs_policy :: retention_policy
  rs_audit_cutoff :: instant
  rs_consumer_cutoff :: instant
  rs_deleted :: "(string \<times> nat) list"
  rs_skipped :: nat
  rs_dry_run :: bool

definition rs_total_deleted :: "retention_sweep \<Rightarrow> nat" where
  "rs_total_deleted s = sum_values (rs_deleted s)"

definition future_booking_leads :: "uid \<Rightarrow> instant \<Rightarrow> store \<Rightarrow> uid list" where
  "future_booking_leads tid moment db =
     map bk_lead (filter (still_ahead moment) (scoped bk_tenant tid (bookings db)))"

definition unseen_leads :: "uid \<Rightarrow> instant \<Rightarrow> store \<Rightarrow> uid list" where
  "unseen_leads tid cutoff db =
     map lead_id (filter (\<lambda>l. last_seen_at l < cutoff) (scoped lead_tenant tid (leads db)))"

text \<open>The subquery \<open>stale\<close>, which every statement evaluates anew.\<close>

definition stale :: "uid \<Rightarrow> instant \<Rightarrow> instant \<Rightarrow> store \<Rightarrow> uid \<Rightarrow> bool" where
  "stale tid moment cutoff db i \<longleftrightarrow>
     i \<in> set (unseen_leads tid cutoff db) \<and> i \<notin> set (future_booking_leads tid moment db)"

definition SWEPT_TABLES :: "consumer_table list" where
  "SWEPT_TABLES = [feedback_table, consents_table, notifications_table, handoff_table,
     attribution_table, messages_table, bookings_table, conversations_table, leads_table]"

fun sweep_tables ::
    "uid \<Rightarrow> instant \<Rightarrow> instant \<Rightarrow> bool \<Rightarrow> consumer_table list \<Rightarrow> store \<Rightarrow> (string \<times> nat) list \<times> store"
  where
  "sweep_tables tid moment cutoff dry [] db = ([], db)"
| "sweep_tables tid moment cutoff dry (t # ts) db =
     (let p = stale tid moment cutoff db;
          (ns, db') = sweep_tables tid moment cutoff dry ts (if dry then db else ct_delete t p db)
      in ((ct_name t, count_for p t db) # ns, db'))"

definition expired_audit :: "uid \<Rightarrow> instant \<Rightarrow> audit_row \<Rightarrow> bool" where
  "expired_audit tid cutoff r \<longleftrightarrow> row_tenant_id r = tid \<and> row_occurred_at r < cutoff"

definition sweep_retention ::
    "uid \<Rightarrow> retention_policy option \<Rightarrow> instant option \<Rightarrow> instant \<Rightarrow> bool \<Rightarrow> store
       \<Rightarrow> retention_sweep \<times> store" where
  "sweep_retention tid policy now clock_now dry db =
     (let pol = (case policy of Some p \<Rightarrow> p | None \<Rightarrow> default_retention);
          moment = (case now of Some t \<Rightarrow> t | None \<Rightarrow> clock_now);
          audit_cutoff = moment - days (audit_days pol);
          cutoff = moment - days (consumer_days pol);
          n = length (filter (expired_audit tid audit_cutoff) (audit_log db));
          db1 = (if dry then db
                 else db\<lparr>audit_log := filter (\<lambda>r. \<not> expired_audit tid audit_cutoff r) (audit_log db)\<rparr>);
          skipped = length (filter (\<lambda>i. i \<in> set (future_booking_leads tid moment db1))
                 (unseen_leads tid cutoff db1));
          (ns, db2) = sweep_tables tid moment cutoff dry SWEPT_TABLES db1
      in (\<lparr>rs_ran_at = moment, rs_policy = pol, rs_audit_cutoff = audit_cutoff,
            rs_consumer_cutoff = cutoff, rs_deleted = (''audit_log'', n) # ns, rs_skipped = skipped,
            rs_dry_run = dry\<rparr>,
          if dry then db2 else log_compliance tid ''compliance.retention_swept'' ''system'' db2))"

end
