(* ===== verification/Erasure_Props.thy ===== *)
theory Erasure_Props
  imports Erasure Integrity
begin

text \<open>
  What erasure and retention remove. In a well-formed store every row that cascades with a deleted
  row, or loses a reference to it, is of the same lead; since both operations delete children first,
  the cascades find nothing left to do, and what goes is exactly the rows of the leads concerned.
\<close>

subsection \<open>Owners\<close>

text \<open>A reference leads to a row of the same lead. Unlike well-formedness this survives deletion.\<close>

definition owned :: "store \<Rightarrow> bool" where
  "owned db \<longleftrightarrow>
     (\<forall>m\<in>set (messages db). \<forall>c\<in>set (conversations db). msg_conversation m = conv_id c \<longrightarrow> msg_lead m = conv_lead c)
     \<and> (\<forall>b\<in>set (bookings db). \<forall>c\<in>set (conversations db). bk_conversation b = conv_id c \<longrightarrow> bk_lead b = conv_lead c)
     \<and> (\<forall>n\<in>set (notifications db). \<forall>c\<in>set (conversations db). sn_conversation n = conv_id c \<longrightarrow> sn_lead n = conv_lead c)
     \<and> (\<forall>f\<in>set (feedbacks db). \<forall>c\<in>set (conversations db). fb_conversation f = conv_id c \<longrightarrow> fb_lead f = conv_lead c)
     \<and> (\<forall>h\<in>set (handoffs db). \<forall>c\<in>set (conversations db). hq_conversation h = conv_id c \<longrightarrow> hq_lead h = conv_lead c)
     \<and> (\<forall>e\<in>set (consents db). \<forall>c\<in>set (conversations db). con_conversation e = Some (conv_id c) \<longrightarrow> con_lead e = conv_lead c)
     \<and> (\<forall>a\<in>set (attributions db). \<forall>c\<in>set (conversations db). at_conversation a = Some (conv_id c) \<longrightarrow> at_lead a = conv_lead c)
     \<and> (\<forall>r\<in>set (audit_log db). \<forall>c\<in>set (conversations db). row_conversation_id r = Some (conv_id c) \<longrightarrow> row_lead_id r = Some (conv_lead c))
     \<and> (\<forall>n\<in>set (notifications db). \<forall>b\<in>set (bookings db). sn_booking n = bk_id b \<longrightarrow> sn_lead n = bk_lead b)
     \<and> (\<forall>f\<in>set (feedbacks db). \<forall>b\<in>set (bookings db). fb_booking f = Some (bk_id b) \<longrightarrow> fb_lead f = bk_lead b)
     \<and> (\<forall>e\<in>set (consents db). \<forall>m\<in>set (messages db). con_evidence e = Some (msg_id m) \<longrightarrow> con_lead e = msg_lead m)
     \<and> (\<forall>n\<in>set (notifications db). \<forall>m\<in>set (messages db). sn_message n = Some (msg_id m) \<longrightarrow> sn_lead n = msg_lead m)"

lemma key_owner:
  assumes "well_formed db"
  shows "(i, l, t) \<in> conv_keys db \<Longrightarrow> c \<in> set (conversations db) \<Longrightarrow> i = conv_id c \<Longrightarrow> l = conv_lead c"
    and "(i, l, t) \<in> booking_keys db \<Longrightarrow> b \<in> set (bookings db) \<Longrightarrow> i = bk_id b \<Longrightarrow> l = bk_lead b"
    and "(i, l, t) \<in> msg_keys db \<Longrightarrow> m \<in> set (messages db) \<Longrightarrow> i = msg_id m \<Longrightarrow> l = msg_lead m"
  by (auto simp: conv_keys_def booking_keys_def msg_keys_def
      dest: table_ok_unique [OF well_formed_tables(2) [OF assms]]
        table_ok_unique [OF well_formed_tables(5) [OF assms]]
        table_ok_unique [OF well_formed_tables(3) [OF assms]])

lemma well_formed_owned:
  assumes "well_formed db"
  shows "owned db"
proof -
  note t = well_formed_tables [OF assms]
  note conv = key_owner(1) [OF assms] and bk = key_owner(2) [OF assms] and msg = key_owner(3) [OF assms]
  show ?thesis
    unfolding owned_def
  proof (intro conjI ballI impI)
    show "msg_lead m = conv_lead c" if "m \<in> set (messages db)" "c \<in> set (conversations db)"
      "msg_conversation m = conv_id c" for m c
      using conv [OF _ that(2,3)] table_okD [OF t(3) that(1)] by (auto simp: message_ok_def)
    show "bk_lead b = conv_lead c" if "b \<in> set (bookings db)" "c \<in> set (conversations db)"
      "bk_conversation b = conv_id c" for b c
      using conv [OF _ that(2,3)] table_okD [OF t(5) that(1)] by (auto simp: booking_ok_def)
    show "sn_lead n = conv_lead c" if "n \<in> set (notifications db)" "c \<in> set (conversations db)"
      "sn_conversation n = conv_id c" for n c
      using conv [OF _ that(2,3)] table_okD [OF t(6) that(1)] by (auto simp: notification_ok_def)
    show "fb_lead f = conv_lead c" if "f \<in> set (feedbacks db)" "c \<in> set (conversations db)"
      "fb_conversation f = conv_id c" for f c
      using conv [OF _ that(2,3)] table_okD [OF t(7) that(1)] by (auto simp: feedback_ok_def)
    show "hq_lead h = conv_lead c" if "h \<in> set (handoffs db)" "c \<in> set (conversations db)"
      "hq_conversation h = conv_id c" for h c
      using conv [OF _ that(2,3)] table_okD [OF t(9) that(1)] by (auto simp: handoff_ok_def)
    show "con_lead e = conv_lead c" if "e \<in> set (consents db)" "c \<in> set (conversations db)"
      "con_conversation e = Some (conv_id c)" for e c
      using conv [OF _ that(2) refl] table_okD [OF t(4) that(1)] that(3)
      by (auto simp: consent_ok_def)
    show "at_lead a = conv_lead c" if "a \<in> set (attributions db)" "c \<in> set (conversations db)"
      "at_conversation a = Some (conv_id c)" for a c
      using conv [OF _ that(2) refl] table_okD [OF t(8) that(1)] that(3)
      by (auto simp: attribution_ok_def)
    show "row_lead_id r = Some (conv_lead c)" if r: "r \<in> set (audit_log db)"
      and c: "c \<in> set (conversations db)" and rc: "row_conversation_id r = Some (conv_id c)" for r c
    proof -
      have "audit_ok db r" using t(10) r by (simp add: list_all_iff)
      then obtain l where "row_lead_id r = Some l" "(conv_id c, l, row_tenant_id r) \<in> conv_keys db"
        using rc by (auto simp: audit_ok_def audit_ids_ok_def split: option.splits)
      then show ?thesis using conv [OF _ c refl] by simp
    qed
    show "sn_lead n = bk_lead b" if "n \<in> set (notifications db)" "b \<in> set (bookings db)"
      "sn_booking n = bk_id b" for n b
      using bk [OF _ that(2,3)] table_okD [OF t(6) that(1)] by (auto simp: notification_ok_def)
    show "fb_lead f = bk_lead b" if "f \<in> set (feedbacks db)" "b \<in> set (bookings db)"
      "fb_booking f = Some (bk_id b)" for f b
      using bk [OF _ that(2) refl] table_okD [OF t(7) that(1)] that(3)
      by (auto simp: feedback_ok_def)
    show "con_lead e = msg_lead m" if "e \<in> set (consents db)" "m \<in> set (messages db)"
      "con_evidence e = Some (msg_id m)" for e m
      using msg [OF _ that(2) refl] table_okD [OF t(4) that(1)] that(3)
      by (auto simp: consent_ok_def)
    show "sn_lead n = msg_lead m" if "n \<in> set (notifications db)" "m \<in> set (messages db)"
      "sn_message n = Some (msg_id m)" for n m
      using msg [OF _ that(2) refl] table_okD [OF t(6) that(1)] that(3)
      by (auto simp: notification_ok_def)
  qed
qed

subsection \<open>Children first\<close>

lemma detach_none:
  "(\<And>r. r \<in> set rows \<Longrightarrow> \<not> list_ex (\<lambda>i. ref r = Some i) gone) \<Longrightarrow> detach gone ref clear rows = rows"
  unfolding detach_def by (rule map_idI) auto

lemma detach_Nil [simp]: "detach [] ref clear rows = rows"
  by (rule detach_none) simp

text \<open>The tables nothing refers to, without the rows of some leads.\<close>

definition without_leaves :: "(uid \<Rightarrow> bool) \<Rightarrow> store \<Rightarrow> store" where
  "without_leaves p db = db\<lparr>
     consents := filter (\<lambda>c. \<not> p (con_lead c)) (consents db),
     notifications := filter (\<lambda>n. \<not> p (sn_lead n)) (notifications db),
     feedbacks := filter (\<lambda>f. \<not> p (fb_lead f)) (feedbacks db),
     attributions := filter (\<lambda>a. \<not> p (at_lead a)) (attributions db),
     handoffs := filter (\<lambda>h. \<not> p (hq_lead h)) (handoffs db)\<rparr>"

definition other_audit :: "(uid \<Rightarrow> bool) \<Rightarrow> audit_row \<Rightarrow> bool" where
  "other_audit p r \<longleftrightarrow> (case row_lead_id r of None \<Rightarrow> True | Some i \<Rightarrow> \<not> p i)"

definition of_gone_thread :: "(uid \<Rightarrow> bool) \<Rightarrow> store \<Rightarrow> audit_row \<Rightarrow> bool" where
  "of_gone_thread p db r \<longleftrightarrow>
     list_ex (\<lambda>i. row_conversation_id r = Some i) (map conv_id (filter (\<lambda>c. p (conv_lead c)) (conversations db)))"

text \<open>The store without the rows of some leads.\<close>

definition without :: "(uid \<Rightarrow> bool) \<Rightarrow> store \<Rightarrow> store" where
  "without p db = (without_leaves p db)\<lparr>
     leads := filter (\<lambda>l. \<not> p (lead_id l)) (leads db),
     conversations := filter (\<lambda>c. \<not> p (conv_lead c)) (conversations db),
     messages := filter (\<lambda>m. \<not> p (msg_lead m)) (messages db),
     bookings := filter (\<lambda>b. \<not> p (bk_lead b)) (bookings db),
     audit_log := filter (other_audit p) (audit_log db)\<rparr>"

lemma drop_messages_leaf:
  assumes "owned db"
  shows "drop_messages (\<lambda>m. p (msg_lead m)) (without_leaves p db) =
    (without_leaves p db)\<lparr>messages := filter (\<lambda>m. \<not> p (msg_lead m)) (messages db)\<rparr>"
proof -
  let ?gone = "map msg_id (filter (\<lambda>m. p (msg_lead m)) (messages db))"
  have "detach ?gone con_evidence (\<lambda>c. c\<lparr>con_evidence := None\<rparr>) (filter (\<lambda>c. \<not> p (con_lead c)) (consents db))
      = filter (\<lambda>c. \<not> p (con_lead c)) (consents db)"
    by (rule detach_none) (use assms in \<open>auto simp: list_ex_iff owned_def\<close>)
  moreover have "detach ?gone sn_message (\<lambda>n. n\<lparr>sn_message := None\<rparr>) (filter (\<lambda>n. \<not> p (sn_lead n)) (notifications db))
      = filter (\<lambda>n. \<not> p (sn_lead n)) (notifications db)"
    by (rule detach_none) (use assms in \<open>auto simp: list_ex_iff owned_def\<close>)
  ultimately show ?thesis by (simp add: drop_messages_def without_leaves_def Let_def)
qed

lemma drop_bookings_leaf:
  assumes "owned db"
  shows "drop_bookings (\<lambda>b. p (bk_lead b)) ((without_leaves p db)\<lparr>messages := ms'\<rparr>) =
    (without_leaves p db)\<lparr>messages := ms', bookings := filter (\<lambda>b. \<not> p (bk_lead b)) (bookings db)\<rparr>"
proof -
  let ?gone = "map bk_id (filter (\<lambda>b. p (bk_lead b)) (bookings db))"
  have "detach ?gone fb_booking (\<lambda>f. f\<lparr>fb_booking := None\<rparr>) (filter (\<lambda>f. \<not> p (fb_lead f)) (feedbacks db))
      = filter (\<lambda>f. \<not> p (fb_lead f)) (feedbacks db)"
    by (rule detach_none) (use assms in \<open>auto simp: list_ex_iff owned_def\<close>)
  moreover have "filter (\<lambda>n. sn_booking n \<notin> set ?gone) (filter (\<lambda>n. \<not> p (sn_lead n)) (notifications db))
      = filter (\<lambda>n. \<not> p (sn_lead n)) (notifications db)"
    by (rule filter_True) (use assms in \<open>auto simp: owned_def\<close>)
  ultimately show ?thesis by (simp add: drop_bookings_def without_leaves_def Let_def)
qed

text \<open>Everything but the leads and the rest of their audit.\<close>

definition without_threads :: "(uid \<Rightarrow> bool) \<Rightarrow> store \<Rightarrow> store" where
  "without_threads p db = (without_leaves p db)\<lparr>
     conversations := filter (\<lambda>c. \<not> p (conv_lead c)) (conversations db),
     messages := filter (\<lambda>m. \<not> p (msg_lead m)) (messages db),
     bookings := filter (\<lambda>b. \<not> p (bk_lead b)) (bookings db),
     audit_log := filter (\<lambda>r. \<not> of_gone_thread p db r) (audit_log db)\<rparr>"

lemma drop_conversations_leaf:
  assumes "owned db"
  shows "drop_conversations (\<lambda>c. p (conv_lead c)) ((without_leaves p db)\<lparr>
      messages := filter (\<lambda>m. \<not> p (msg_lead m)) (messages db),
      bookings := filter (\<lambda>b. \<not> p (bk_lead b)) (bookings db)\<rparr>) = without_threads p db"
proof -
  let ?gone = "map conv_id (filter (\<lambda>c. p (conv_lead c)) (conversations db))"
  let ?db = "(without_leaves p db)\<lparr>messages := filter (\<lambda>m. \<not> p (msg_lead m)) (messages db),
      bookings := filter (\<lambda>b. \<not> p (bk_lead b)) (bookings db)\<rparr>"
  have m: "filter (\<lambda>m. msg_conversation m \<in> set ?gone) (messages ?db) = []"
    and b: "filter (\<lambda>b. bk_conversation b \<in> set ?gone) (bookings ?db) = []"
    using assms by (auto simp: owned_def filter_empty_conv)
  have m2: "filter (\<lambda>m. msg_conversation m \<notin> set ?gone) (messages ?db) = messages ?db"
    by (rule filter_True) (use m in \<open>auto simp: filter_empty_conv\<close>)
  have b2: "filter (\<lambda>b. bk_conversation b \<notin> set ?gone) (bookings ?db) = bookings ?db"
    by (rule filter_True) (use b in \<open>auto simp: filter_empty_conv\<close>)
  have 1: "drop_messages (\<lambda>m. msg_conversation m \<in> set ?gone) ?db = ?db"
    unfolding drop_messages_def Let_def m m2 by simp
  have 2: "drop_bookings (\<lambda>b. bk_conversation b \<in> set ?gone) ?db = ?db"
    unfolding drop_bookings_def Let_def b b2 by simp
  have n: "filter (\<lambda>n. sn_conversation n \<notin> set ?gone) (notifications ?db) = notifications ?db"
    by (rule filter_True) (use assms in \<open>auto simp: owned_def without_leaves_def\<close>)
  have f: "filter (\<lambda>f. fb_conversation f \<notin> set ?gone) (feedbacks ?db) = feedbacks ?db"
    by (rule filter_True) (use assms in \<open>auto simp: owned_def without_leaves_def\<close>)
  have h: "filter (\<lambda>h. hq_conversation h \<notin> set ?gone) (handoffs ?db) = handoffs ?db"
    by (rule filter_True) (use assms in \<open>auto simp: owned_def without_leaves_def\<close>)
  have c: "detach ?gone con_conversation (\<lambda>c. c\<lparr>con_conversation := None\<rparr>) (consents ?db) = consents ?db"
    by (rule detach_none) (use assms in \<open>auto simp: list_ex_iff owned_def without_leaves_def\<close>)
  have a: "detach ?gone at_conversation (\<lambda>a. a\<lparr>at_conversation := None\<rparr>) (attributions ?db) = attributions ?db"
    by (rule detach_none) (use assms in \<open>auto simp: list_ex_iff owned_def without_leaves_def\<close>)
  have gone: "map conv_id (filter (\<lambda>c. p (conv_lead c)) (conversations ?db)) = ?gone"
    by (simp add: without_leaves_def)
  show ?thesis
    unfolding drop_conversations_def Let_def gone 1 2 n f h c a
    by (simp add: without_threads_def of_gone_thread_def without_leaves_def)
qed

lemma of_gone_thread_other: "owned db \<Longrightarrow> r \<in> set (audit_log db) \<Longrightarrow> of_gone_thread p db r \<Longrightarrow> \<not> other_audit p r"
  by (auto simp: of_gone_thread_def owned_def list_ex_iff other_audit_def)

lemma audit_of_threads:
  "owned db \<Longrightarrow> filter (other_audit p) (filter (\<lambda>r. \<not> of_gone_thread p db r) (audit_log db))
    = filter (other_audit p) (audit_log db)"
  by (auto simp: filter_filter intro!: filter_cong dest: of_gone_thread_other)

text \<open>The leads go last, when the only rows of theirs left can be of the audit log.\<close>

lemma drop_leads_last:
  assumes "set (filter p (map lead_id (leads db))) = G"
    and "list_all (\<lambda>c. conv_lead c \<notin> G) (conversations db)" and "list_all (\<lambda>m. msg_lead m \<notin> G) (messages db)"
    and "list_all (\<lambda>b. bk_lead b \<notin> G) (bookings db)" and "list_all (\<lambda>c. con_lead c \<notin> G) (consents db)"
    and "list_all (\<lambda>n. sn_lead n \<notin> G) (notifications db)" and "list_all (\<lambda>f. fb_lead f \<notin> G) (feedbacks db)"
    and "list_all (\<lambda>a. at_lead a \<notin> G) (attributions db)" and "list_all (\<lambda>h. hq_lead h \<notin> G) (handoffs db)"
  shows "drop_leads p db = db\<lparr>leads := filter (\<lambda>l. \<not> p (lead_id l)) (leads db),
    audit_log := filter (other_audit (\<lambda>i. i \<in> G)) (audit_log db)\<rparr>"
proof -
  let ?gone = "filter p (map lead_id (leads db))"
  have e: "filter (\<lambda>c. conv_lead c \<in> set ?gone) (conversations db) = []"
    "filter (\<lambda>m. msg_lead m \<in> set ?gone) (messages db) = []"
    "filter (\<lambda>b. bk_lead b \<in> set ?gone) (bookings db) = []"
    unfolding assms(1) using assms(2-4) by (auto simp: filter_empty_conv list_all_iff)
  have k: "filter (\<lambda>c. conv_lead c \<notin> set ?gone) (conversations db) = conversations db"
    "filter (\<lambda>m. msg_lead m \<notin> set ?gone) (messages db) = messages db"
    "filter (\<lambda>b. bk_lead b \<notin> set ?gone) (bookings db) = bookings db"
    "filter (\<lambda>c. con_lead c \<notin> set ?gone) (consents db) = consents db"
    "filter (\<lambda>n. sn_lead n \<notin> set ?gone) (notifications db) = notifications db"
    "filter (\<lambda>f. fb_lead f \<notin> set ?gone) (feedbacks db) = feedbacks db"
    "filter (\<lambda>a. at_lead a \<notin> set ?gone) (attributions db) = attributions db"
    "filter (\<lambda>h. hq_lead h \<notin> set ?gone) (handoffs db) = handoffs db"
    unfolding assms(1) using assms(2-) by (auto intro!: filter_True simp: list_all_iff)
  have m0: "drop_messages (\<lambda>m. False) db = db" "drop_bookings (\<lambda>b. False) db = db"
    by (simp_all add: drop_messages_def drop_bookings_def)
  have 1: "drop_conversations (\<lambda>c. conv_lead c \<in> set ?gone) db = db"
    unfolding drop_conversations_def Let_def e list.map list.set by (simp add: m0 k(1) [simplified])
  have 2: "drop_messages (\<lambda>m. msg_lead m \<in> set ?gone) db = db"
    unfolding drop_messages_def Let_def e k by simp
  have 3: "drop_bookings (\<lambda>b. bk_lead b \<in> set ?gone) db = db"
    unfolding drop_bookings_def Let_def e k by simp
  have au: "(\<lambda>r. \<not> list_ex (\<lambda>i. row_lead_id r = Some i) ?gone) = other_audit (\<lambda>i. i \<in> G)"
    unfolding assms(1) [symmetric] by (rule ext) (auto simp: other_audit_def list_ex_iff split: option.splits)
  show ?thesis unfolding drop_leads_def Let_def 1 2 3 k au by simp
qed

lemma drop_leads_of_threads:
  assumes "owned db" and "\<And>i. p i \<Longrightarrow> i \<in> lead_id ` set (leads db)"
  shows "drop_leads p (without_threads p db) = without p db"
    and "drop_leads p ((without_threads p db)\<lparr>audit_log := filter (other_audit p) (audit_log db)\<rparr>)
      = without p db"
proof -
  have G: "set (filter p (map lead_id (leads db))) = {i. p i}" using assms(2) by auto
  have 1: "drop_leads p (without_threads p db) = (without_threads p db)
      \<lparr>leads := filter (\<lambda>l. \<not> p (lead_id l)) (leads (without_threads p db)),
       audit_log := filter (other_audit (\<lambda>i. i \<in> {i. p i})) (audit_log (without_threads p db))\<rparr>"
    by (rule drop_leads_last) (use G in \<open>simp_all add: without_threads_def without_leaves_def list_all_iff\<close>)
  then show "drop_leads p (without_threads p db) = without p db"
    using audit_of_threads [OF assms(1)] by (simp add: without_threads_def without_leaves_def without_def)
  let ?db = "(without_threads p db)\<lparr>audit_log := filter (other_audit p) (audit_log db)\<rparr>"
  have "drop_leads p ?db = ?db\<lparr>leads := filter (\<lambda>l. \<not> p (lead_id l)) (leads ?db),
       audit_log := filter (other_audit (\<lambda>i. i \<in> {i. p i})) (audit_log ?db)\<rparr>"
    by (rule drop_leads_last) (use G in \<open>simp_all add: without_threads_def without_leaves_def list_all_iff\<close>)
  then show "drop_leads p ?db = without p db"
    by (simp add: without_threads_def without_leaves_def without_def)
qed

subsection \<open>Erasure\<close>

lemma delete_tables_Cons:
  "snd (delete_tables p (t # ts) db) = snd (delete_tables p ts (ct_delete t p db))"
  by (simp add: Let_def split: prod.splits)

lemmas table_defs = feedback_table_def notifications_table_def handoff_table_def attribution_table_def
  consents_table_def messages_table_def bookings_table_def conversations_table_def leads_table_def
  audit_table_def

lemma leaves_in_any_order:
  "db\<lparr>feedbacks := filter (\<lambda>f. \<not> p (fb_lead f)) (feedbacks db),
     notifications := filter (\<lambda>n. \<not> p (sn_lead n)) (notifications db),
     handoffs := filter (\<lambda>h. \<not> p (hq_lead h)) (handoffs db),
     attributions := filter (\<lambda>a. \<not> p (at_lead a)) (attributions db),
     consents := filter (\<lambda>c. \<not> p (con_lead c)) (consents db)\<rparr> = without_leaves p db"
  "db\<lparr>feedbacks := filter (\<lambda>f. \<not> p (fb_lead f)) (feedbacks db),
     consents := filter (\<lambda>c. \<not> p (con_lead c)) (consents db),
     notifications := filter (\<lambda>n. \<not> p (sn_lead n)) (notifications db),
     handoffs := filter (\<lambda>h. \<not> p (hq_lead h)) (handoffs db),
     attributions := filter (\<lambda>a. \<not> p (at_lead a)) (attributions db)\<rparr> = without_leaves p db"
  by (rule store.equality; simp add: without_leaves_def)+

lemma delete_consumer_tables:
  assumes "owned db" and "\<And>i. p i \<Longrightarrow> i \<in> lead_id ` set (leads db)"
  shows "snd (delete_tables p (CONSUMER_TABLES @ [audit_table, leads_table]) db) = without p db"
proof -
  have 1: "snd (delete_tables p (CONSUMER_TABLES @ [audit_table, leads_table]) db) =
    drop_leads p (ct_delete audit_table p (drop_conversations (\<lambda>c. p (conv_lead c))
      (drop_bookings (\<lambda>b. p (bk_lead b)) (drop_messages (\<lambda>m. p (msg_lead m)) (without_leaves p db)))))"
    unfolding CONSUMER_TABLES_def append.simps delete_tables_Cons
    by (simp add: table_defs leaves_in_any_order)
  have 2: "ct_delete audit_table p (without_threads p db)
      = (without_threads p db)\<lparr>audit_log := filter (other_audit p) (audit_log db)\<rparr>"
    using audit_of_threads [OF assms(1)]
    by (simp add: audit_table_def without_threads_def other_audit_def)
  show ?thesis
    unfolding 1 drop_messages_leaf [OF assms(1)] drop_bookings_leaf [OF assms(1)]
      drop_conversations_leaf [OF assms(1)] 2
    by (rule drop_leads_of_threads(2) [OF assms])
qed

text \<open>What each table counts when its turn comes.\<close>

lemma fst_delete_tables:
  "fst (delete_tables p (t # ts) db) = (ct_name t, count_for p t db) # fst (delete_tables p ts (ct_delete t p db))"
  "fst (delete_tables p [] db) = []"
  by (simp_all add: Let_def split: prod.splits)

lemma leaf_counts:
  "t \<in> {messages_table, bookings_table, conversations_table, audit_table, leads_table} \<Longrightarrow>
    count_for p t (without_leaves p db) = count_for p t db"
  by (auto simp: count_for_def table_defs without_leaves_def audit_leads_def)

definition loose_audit :: "(uid \<Rightarrow> bool) \<Rightarrow> store \<Rightarrow> nat" where
  "loose_audit p db = length (filter (\<lambda>r. \<not> other_audit p r \<and> \<not> of_gone_thread p db r) (audit_log db))"

lemma length_audit_leads:
  "length (filter p (List.map_filter row_lead_id rows)) = length (filter (\<lambda>r. \<not> other_audit p r) rows)"
  by (induction rows) (auto simp: List.map_filter_simps other_audit_def split: option.splits)

lemma count_loose_audit: "count_for p audit_table (without_threads p db) = loose_audit p db"
  by (simp add: count_for_def audit_table_def audit_leads_def without_threads_def loose_audit_def
      length_audit_leads filter_filter conj_commute)

lemma deleted_counts:
  assumes "owned db"
  shows "fst (delete_tables p (CONSUMER_TABLES @ [audit_table, leads_table]) db)
    = count_tables p CONSUMER_TABLES db @ [(''audit_log'', loose_audit p db), (''leads'', count_for p leads_table db)]"
proof -
  let ?m = "(without_leaves p db)\<lparr>messages := filter (\<lambda>m. \<not> p (msg_lead m)) (messages db)\<rparr>"
  let ?b = "(without_leaves p db)\<lparr>messages := filter (\<lambda>m. \<not> p (msg_lead m)) (messages db),
      bookings := filter (\<lambda>b. \<not> p (bk_lead b)) (bookings db)\<rparr>"
  note leaf = drop_messages_leaf [OF assms, of p] drop_bookings_leaf [OF assms, of p]
    drop_conversations_leaf [OF assms, of p]
  have seq: "ct_delete messages_table p (without_leaves p db) = ?m" "ct_delete bookings_table p ?m = ?b"
    "ct_delete conversations_table p ?b = without_threads p db"
    using leaf by (simp_all add: table_defs)
  have leaves: "ct_delete consents_table p (ct_delete attribution_table p (ct_delete handoff_table p
      (ct_delete notifications_table p (ct_delete feedback_table p db)))) = without_leaves p db"
    by (simp add: table_defs leaves_in_any_order)
  have counts: "count_for p messages_table (without_leaves p db) = count_for p messages_table db"
    "count_for p bookings_table ?m = count_for p bookings_table db"
    "count_for p conversations_table ?b = count_for p conversations_table db"
    "count_for p leads_table (ct_delete audit_table p (without_threads p db)) = count_for p leads_table db"
    by (simp_all add: count_for_def table_defs without_leaves_def without_threads_def)
  have early: "count_for p notifications_table (ct_delete feedback_table p db) = count_for p notifications_table db"
    "count_for p handoff_table (ct_delete notifications_table p (ct_delete feedback_table p db)) = count_for p handoff_table db"
    "count_for p attribution_table (ct_delete handoff_table p (ct_delete notifications_table p
        (ct_delete feedback_table p db))) = count_for p attribution_table db"
    "count_for p consents_table (ct_delete attribution_table p (ct_delete handoff_table p
        (ct_delete notifications_table p (ct_delete feedback_table p db)))) = count_for p consents_table db"
    by (simp_all add: count_for_def table_defs)
  have names: "ct_name audit_table = ''audit_log''" "ct_name leads_table = ''leads''"
    by (simp_all add: table_defs)
  show ?thesis
    unfolding CONSUMER_TABLES_def append.simps fst_delete_tables leaves seq counts early names
      count_loose_audit count_tables_def list.map ..
qed

lemma count_for_without:
  "t \<in> set (CONSUMER_TABLES @ [audit_table, leads_table]) \<Longrightarrow> count_for p t (without p db) = 0"
  by (auto simp: CONSUMER_TABLES_def count_for_def table_defs without_def without_leaves_def audit_leads_def
      other_audit_def List.map_filter_def filter_empty_conv split: option.splits)

lemma any_values_zero: "(\<And>k n. (k, n) \<in> set xs \<Longrightarrow> n = 0) \<Longrightarrow> \<not> any_values xs"
  by (auto simp: any_values_def list_ex_iff)

lemma log_compliance_other:
  "leads (log_compliance t ty a db) = leads db" "owned db \<Longrightarrow> owned (log_compliance t ty a db)"
  by (auto simp: log_compliance_def owned_def compliance_row_def)

lemma erasure_exact_aux:
  assumes "well_formed db"
    and "erase_consumer sha256 uuid_text tid w req t0 t1 db = Some (r, db')"
  shows "db' = log_compliance tid ''compliance.erasure_completed'' ''operator''
      (without (\<lambda>i. i = er_lead r) (log_compliance tid ''compliance.erasure_requested'' ''operator'' db))"
    and "erasure_complete r"
proof -
  obtain l where l: "get_by_wa_id db tid w = Some l"
    using assms(2) by (auto simp: erase_consumer_def split: option.splits)
  let ?db = "log_compliance tid ''compliance.erasure_requested'' ''operator'' db"
  let ?p = "\<lambda>i. i = lead_id l"
  have mem: "l \<in> set (leads db)" using l by (auto simp: get_by_wa_id_def scoped_def dest: next_such_in)
  have d: "snd (delete_tables ?p (CONSUMER_TABLES @ [audit_table, leads_table]) ?db) = without ?p ?db"
    by (rule delete_consumer_tables)
      (use well_formed_owned [OF assms(1)] mem in \<open>auto simp: log_compliance_other\<close>)
  obtain ns db2 where dt: "delete_tables ?p (CONSUMER_TABLES @ [audit_table, leads_table]) ?db = (ns, db2)"
    by (meson surj_pair)
  have db2: "db2 = without ?p ?db" using d dt by simp
  have r: "er_lead r = lead_id l" "er_remaining r = count_tables ?p (CONSUMER_TABLES @ [audit_table, leads_table]) db2"
    "db' = log_compliance tid ''compliance.erasure_completed'' ''operator'' db2"
    using assms(2) by (auto simp: erase_consumer_def l dt Let_def)
  show "db' = log_compliance tid ''compliance.erasure_completed'' ''operator''
      (without (\<lambda>i. i = er_lead r) (log_compliance tid ''compliance.erasure_requested'' ''operator'' db))"
    by (simp add: r(1,3) db2)
  show "erasure_complete r"
    unfolding erasure_complete_def not_not r(2) db2
    by (rule any_values_zero) (auto simp: count_tables_def count_for_without)
qed

lemma unthreaded_audit:
  assumes "well_formed db" and "r \<in> set (audit_log db)"
  shows "\<not> other_audit p r \<and> \<not> of_gone_thread p db r \<longleftrightarrow> \<not> other_audit p r \<and> row_conversation_id r = None"
proof -
  have "audit_ok db r" using well_formed_tables(10) [OF assms(1)] assms(2) by (simp add: list_all_iff)
  then show ?thesis
    by (cases "row_conversation_id r"; cases "row_lead_id r")
      (auto simp: audit_ok_def audit_ids_ok_def other_audit_def of_gone_thread_def list_ex_iff conv_keys_def)
qed

subsection \<open>Retention\<close>

text \<open>The states a sequence of deletes goes through, each as the next \<open>DELETE\<close> finds it.\<close>

fun states_seen :: "(uid \<Rightarrow> bool) \<Rightarrow> consumer_table list \<Rightarrow> store \<Rightarrow> store list" where
  "states_seen p [] db = []"
| "states_seen p (t # ts) db = db # states_seen p ts (ct_delete t p db)"

lemma sweep_is_delete:
  "list_all (\<lambda>d. stale tid m c d = p) (states_seen p ts db)
    \<Longrightarrow> sweep_tables tid m c False ts db = delete_tables p ts db"
  by (induction ts arbitrary: db) (simp_all add: Let_def split: prod.splits)

lemma dry_sweep: "sweep_tables tid m c True ts db = (count_tables (stale tid m c db) ts db, db)"
  by (induction ts) (simp_all add: count_tables_def Let_def)

text \<open>Deleting the bookings of stale leads takes no appointment that is still ahead.\<close>

lemma stale_cong:
  "leads d = leads db \<Longrightarrow> bookings d = bookings db \<Longrightarrow> stale tid m c d = stale tid m c db"
  by (rule ext) (simp add: stale_def unseen_leads_def future_booking_leads_def)

lemma stale_stable:
  assumes "leads d = leads db" and "bookings d = filter (\<lambda>b. \<not> stale tid m c db (bk_lead b)) (bookings db)"
  shows "stale tid m c d = stale tid m c db"
proof -
  have u: "unseen_leads tid c d = unseen_leads tid c db" by (simp add: unseen_leads_def assms(1))
  have "set (future_booking_leads tid m d) = set (future_booking_leads tid m db)"
    by (auto simp: future_booking_leads_def assms(2) stale_def scoped_def image_iff)
  then show ?thesis by (intro ext) (simp add: stale_def u)
qed

lemma stale_leads: "stale tid m c db i \<Longrightarrow> i \<in> lead_id ` set (leads db)"
  by (auto simp: stale_def unseen_leads_def scoped_def)

lemma swept_stores:
  assumes "owned db"
  shows "ct_delete messages_table p (without_leaves p db) =
      (without_leaves p db)\<lparr>messages := filter (\<lambda>m. \<not> p (msg_lead m)) (messages db)\<rparr>"
    and "ct_delete bookings_table p ((without_leaves p db)\<lparr>messages := filter (\<lambda>m. \<not> p (msg_lead m)) (messages db)\<rparr>)
      = (without_leaves p db)\<lparr>messages := filter (\<lambda>m. \<not> p (msg_lead m)) (messages db),
          bookings := filter (\<lambda>b. \<not> p (bk_lead b)) (bookings db)\<rparr>"
    and "ct_delete conversations_table p ((without_leaves p db)\<lparr>
          messages := filter (\<lambda>m. \<not> p (msg_lead m)) (messages db),
          bookings := filter (\<lambda>b. \<not> p (bk_lead b)) (bookings db)\<rparr>) = without_threads p db"
    and "ct_delete attribution_table p (ct_delete handoff_table p (ct_delete notifications_table p
      (ct_delete consents_table p (ct_delete feedback_table p db)))) = without_leaves p db"
  using drop_messages_leaf [OF assms, of p] drop_bookings_leaf [OF assms, of p]
    drop_conversations_leaf [OF assms, of p]
  by (simp_all add: table_defs leaves_in_any_order)

lemma early_stores:
  "leads (ct_delete feedback_table p db) = leads db" "bookings (ct_delete feedback_table p db) = bookings db"
  "leads (ct_delete consents_table p db) = leads db" "bookings (ct_delete consents_table p db) = bookings db"
  "leads (ct_delete notifications_table p db) = leads db"
  "bookings (ct_delete notifications_table p db) = bookings db"
  "leads (ct_delete handoff_table p db) = leads db" "bookings (ct_delete handoff_table p db) = bookings db"
  "leads (without_leaves p db) = leads db" "bookings (without_leaves p db) = bookings db"
  by (simp_all add: table_defs without_leaves_def)

lemma real_sweep:
  assumes "owned db"
  shows "sweep_tables tid m c False SWEPT_TABLES db
    = (count_tables (stale tid m c db) SWEPT_TABLES db, without (stale tid m c db) db)"
proof -
  let ?p = "stale tid m c db"
  note seq = swept_stores [OF assms, of ?p]
  let ?f = "ct_delete feedback_table ?p db"
  let ?c = "ct_delete consents_table ?p ?f"
  let ?n = "ct_delete notifications_table ?p ?c"
  let ?h = "ct_delete handoff_table ?p ?n"
  let ?m = "(without_leaves ?p db)\<lparr>messages := filter (\<lambda>m. \<not> ?p (msg_lead m)) (messages db)\<rparr>"
  let ?b = "(without_leaves ?p db)\<lparr>messages := filter (\<lambda>m. \<not> ?p (msg_lead m)) (messages db),
    bookings := filter (\<lambda>b. \<not> ?p (bk_lead b)) (bookings db)\<rparr>"
  have seen: "stale tid m c ?f = ?p" "stale tid m c ?c = ?p" "stale tid m c ?n = ?p" "stale tid m c ?h = ?p"
    "stale tid m c (without_leaves ?p db) = ?p" "stale tid m c ?m = ?p"
    by (rule stale_cong; simp add: early_stores)+
  have gone: "stale tid m c ?b = ?p" "stale tid m c (without_threads ?p db) = ?p"
    by (rule stale_stable; simp add: early_stores without_threads_def)+
  have "list_all (\<lambda>d. stale tid m c d = ?p) (states_seen ?p SWEPT_TABLES db)"
    unfolding SWEPT_TABLES_def states_seen.simps seq list.pred_inject
    using seen gone by (intro conjI) (assumption | rule refl | simp)+
  then have 1: "sweep_tables tid m c False SWEPT_TABLES db = delete_tables ?p SWEPT_TABLES db"
    by (rule sweep_is_delete)
  have s: "snd (delete_tables ?p SWEPT_TABLES db) = without ?p db"
    unfolding SWEPT_TABLES_def delete_tables_Cons seq
    using drop_leads_of_threads(1) [OF assms, of ?p] stale_leads by (simp add: leads_table_def)
  have counts: "count_for ?p messages_table (without_leaves ?p db) = count_for ?p messages_table db"
    "count_for ?p bookings_table ((without_leaves ?p db)\<lparr>messages := filter (\<lambda>m. \<not> ?p (msg_lead m)) (messages db)\<rparr>)
      = count_for ?p bookings_table db"
    "count_for ?p conversations_table ((without_leaves ?p db)\<lparr>
          messages := filter (\<lambda>m. \<not> ?p (msg_lead m)) (messages db),
          bookings := filter (\<lambda>b. \<not> ?p (bk_lead b)) (bookings db)\<rparr>) = count_for ?p conversations_table db"
    "count_for ?p leads_table (without_threads ?p db) = count_for ?p leads_table db"
    "count_for ?p consents_table (ct_delete feedback_table ?p db) = count_for ?p consents_table db"
    "count_for ?p notifications_table (ct_delete consents_table ?p (ct_delete feedback_table ?p db))
      = count_for ?p notifications_table db"
    "count_for ?p handoff_table (ct_delete notifications_table ?p (ct_delete consents_table ?p
        (ct_delete feedback_table ?p db))) = count_for ?p handoff_table db"
    "count_for ?p attribution_table (ct_delete handoff_table ?p (ct_delete notifications_table ?p
        (ct_delete consents_table ?p (ct_delete feedback_table ?p db)))) = count_for ?p attribution_table db"
    by (simp_all add: count_for_def table_defs without_leaves_def without_threads_def)
  have "fst (delete_tables ?p SWEPT_TABLES db) = count_tables ?p SWEPT_TABLES db"
    unfolding SWEPT_TABLES_def fst_delete_tables seq counts count_tables_def list.map ..
  with s show ?thesis unfolding 1 by (simp add: prod_eq_iff)
qed

definition drop_expired :: "uid \<Rightarrow> instant \<Rightarrow> store \<Rightarrow> store" where
  "drop_expired tid cutoff db = db\<lparr>audit_log := filter (\<lambda>r. \<not> expired_audit tid cutoff r) (audit_log db)\<rparr>"

lemma drop_expired_owned: "owned db \<Longrightarrow> owned (drop_expired tid c db)"
  by (auto simp: drop_expired_def owned_def)

lemma drop_expired_stale [simp]: "stale tid m c (drop_expired tid' c' db) = stale tid m c db"
  by (rule stale_cong) (simp_all add: drop_expired_def)

lemma drop_expired_counts [simp]:
  "count_tables p SWEPT_TABLES (drop_expired tid c db) = count_tables p SWEPT_TABLES db"
  by (simp add: count_tables_def SWEPT_TABLES_def count_for_def table_defs drop_expired_def)

lemma drop_expired_lists [simp]:
  "future_booking_leads tid m (drop_expired tid' c db) = future_booking_leads tid m db"
  "unseen_leads tid m (drop_expired tid' c db) = unseen_leads tid m db"
  by (simp_all add: drop_expired_def future_booking_leads_def unseen_leads_def)

subsection \<open>What is left is well-formed\<close>

lemma without_tables:
  "tenants (without p db) = tenants db" "next_id (without p db) = next_id db"
  "lead_keys (without p db) = {(i, t). (i, t) \<in> lead_keys db \<and> \<not> p i}"
  "conv_keys (without p db) = {(i, l, t). (i, l, t) \<in> conv_keys db \<and> \<not> p l}"
  "msg_keys (without p db) = {(i, l, t). (i, l, t) \<in> msg_keys db \<and> \<not> p l}"
  "booking_keys (without p db) = {(i, l, t). (i, l, t) \<in> booking_keys db \<and> \<not> p l}"
  "tenant_keys (without p db) = tenant_keys db"
  by (auto simp: without_def without_leaves_def key_defs)

lemma opt_ref_without:
  "opt_ref {(i, l, t). (i, l, t) \<in> keys \<and> \<not> p l} r l t \<longleftrightarrow> opt_ref keys r l t \<and> (r = None \<or> \<not> p l)"
  by (auto simp: opt_ref_def split: option.splits)

lemma table_ok_kept:
  "table_ok pk good n rows \<Longrightarrow> (\<And>r. r \<in> set rows \<Longrightarrow> keep r \<Longrightarrow> good r \<Longrightarrow> good' r) \<Longrightarrow>
   table_ok pk good' n (filter keep rows)"
  by (auto simp: table_ok_def distinct_map_filter)

lemma without_well_formed:
  assumes "well_formed db"
  shows "well_formed (without p db)"
proof -
  note t = well_formed_tables [OF assms]
  have rows: "leads (without p db) = filter (\<lambda>l. \<not> p (lead_id l)) (leads db)"
    "conversations (without p db) = filter (\<lambda>c. \<not> p (conv_lead c)) (conversations db)"
    "messages (without p db) = filter (\<lambda>m. \<not> p (msg_lead m)) (messages db)"
    "bookings (without p db) = filter (\<lambda>b. \<not> p (bk_lead b)) (bookings db)"
    "consents (without p db) = filter (\<lambda>c. \<not> p (con_lead c)) (consents db)"
    "notifications (without p db) = filter (\<lambda>n. \<not> p (sn_lead n)) (notifications db)"
    "feedbacks (without p db) = filter (\<lambda>f. \<not> p (fb_lead f)) (feedbacks db)"
    "attributions (without p db) = filter (\<lambda>a. \<not> p (at_lead a)) (attributions db)"
    "handoffs (without p db) = filter (\<lambda>h. \<not> p (hq_lead h)) (handoffs db)"
    "audit_log (without p db) = filter (other_audit p) (audit_log db)"
    by (simp_all add: without_def without_leaves_def)
  note keys = without_tables opt_ref_without
  have audit: "list_all (audit_ok (without p db)) (filter (other_audit p) (audit_log db))"
    using t(10) by (auto simp: list_all_iff audit_ok_def audit_ids_ok_def keys other_audit_def split: option.splits)
  show ?thesis
    unfolding well_formed_def Let_def rows without_tables(2)
    by (intro conjI audit table_ok_kept [OF t(1)] table_ok_kept [OF t(2)] table_ok_kept [OF t(3)]
        table_ok_kept [OF t(4)] table_ok_kept [OF t(5)] table_ok_kept [OF t(6)] table_ok_kept [OF t(7)]
        table_ok_kept [OF t(8)] table_ok_kept [OF t(9)])
      (simp_all add: lead_ok_def conversation_ok_def message_ok_def consent_ok_def booking_ok_def
        notification_ok_def feedback_ok_def attribution_ok_def handoff_ok_def keys)
qed

lemma audit_log_keys:
  "lead_ok (db\<lparr>audit_log := x\<rparr>) = lead_ok db" "conversation_ok (db\<lparr>audit_log := x\<rparr>) = conversation_ok db"
  "message_ok (db\<lparr>audit_log := x\<rparr>) = message_ok db" "consent_ok (db\<lparr>audit_log := x\<rparr>) = consent_ok db"
  "booking_ok (db\<lparr>audit_log := x\<rparr>) = booking_ok db" "notification_ok (db\<lparr>audit_log := x\<rparr>) = notification_ok db"
  "feedback_ok (db\<lparr>audit_log := x\<rparr>) = feedback_ok db" "attribution_ok (db\<lparr>audit_log := x\<rparr>) = attribution_ok db"
  "handoff_ok (db\<lparr>audit_log := x\<rparr>) = handoff_ok db" "audit_ok (db\<lparr>audit_log := x\<rparr>) = audit_ok db"
  by (rule ext, simp add: lead_ok_def conversation_ok_def message_ok_def consent_ok_def booking_ok_def
      notification_ok_def feedback_ok_def attribution_ok_def handoff_ok_def audit_ok_def audit_ids_ok_def
      key_defs cong: option.case_cong)+

lemma well_formed_audit_log:
  assumes "well_formed db" and "list_all (audit_ok db) rows"
  shows "well_formed (db\<lparr>audit_log := rows\<rparr>)"
  unfolding well_formed_def Let_def audit_log_keys
  using well_formed_tables [OF assms(1)] assms(2) by simp

lemma log_compliance_well_formed:
  assumes "well_formed db"
  shows "well_formed (log_compliance tid ty a db)"
  unfolding log_compliance_def
  by (rule well_formed_audit_log [OF assms])
    (use well_formed_tables(10) [OF assms] in \<open>simp add: compliance_row_def audit_ok_def audit_ids_ok_def\<close>)

lemma drop_expired_well_formed:
  assumes "well_formed db"
  shows "well_formed (drop_expired tid c db)"
  unfolding drop_expired_def
  by (rule well_formed_audit_log [OF assms])
    (use well_formed_tables(10) [OF assms] in \<open>simp add: list_all_iff\<close>)

end
