(* ===== verification/Replay.thy ===== *)
theory Replay
  imports Models Formatting
begin

text \<open>
  Reading the audit trail back, the second half of \<^verbatim>\<open>mawjood/observability/audit.py\<close>: the rows of
  one turn or one conversation in the order they were written, and their rendering for a human. The
  table is in insertion order, which is the order of its identity column; the rendering takes each
  row with its number.
\<close>

definition replay_turn :: "store \<Rightarrow> uid \<Rightarrow> uid \<Rightarrow> audit_row list" where
  "replay_turn db tid turn =
     filter (\<lambda>r. row_tenant_id r = tid \<and> row_turn_id r = Some turn) (audit_log db)"

definition replay_conversation :: "store \<Rightarrow> uid \<Rightarrow> uid \<Rightarrow> audit_row list" where
  "replay_conversation db tid cid =
     filter (\<lambda>r. row_tenant_id r = tid \<and> row_conversation_id r = Some cid) (audit_log db)"

subsection \<open>Rendering\<close>

definition pad_left :: "nat \<Rightarrow> char \<Rightarrow> string \<Rightarrow> string" where
  "pad_left n c s = replicate (n - length s) c @ s"

definition pad_right :: "nat \<Rightarrow> string \<Rightarrow> string" where
  "pad_right n s = s @ replicate (n - length s) CHR '' ''"

text \<open>\<open>%H:%M:%S.%f\<close>\<close>

definition clock_text :: "instant \<Rightarrow> string" where
  "clock_text t = pad2 (hour_of t) @ '':'' @ pad2 (minute_of t) @ '':''
     @ pad2 (t mod minutes 1 div seconds 1) @ ''.'' @ pad_left 6 CHR ''0'' (show_int (t mod seconds 1))"

definition trail_parts :: "nat \<times> audit_row \<Rightarrow> string list" where
  "trail_parts = (\<lambda>(n, r).
     (let front = ''['' @ pad_left 4 CHR '' '' (show_nat n) @ ''] '' @ clock_text (row_occurred_at r)
      in [take (length front - 3) front, pad_right 34 (row_event_type r)])
     @ (case row_platform_slug r of
          Some p \<Rightarrow> if p = [] then [] else
            [p @ (case row_attempt_number r of None \<Rightarrow> '''' | Some a \<Rightarrow> ''#'' @ show_nat a)]
        | None \<Rightarrow> [])
     @ (if truthy (row_outcome r) then [''-> '' @ the (row_outcome r)] else [])
     @ (case row_latency_ms r of None \<Rightarrow> [] | Some l \<Rightarrow> [''('' @ show_int l @ ''ms)''])
     @ (if truthy (row_advance_reason r) then [''| '' @ the (row_advance_reason r)] else [])
     @ (if row_consumer_visible r \<and> truthy (row_consumer_text r)
        then [''| consumer saw: '' @ [CHR 0x22] @ the (row_consumer_text r) @ [CHR 0x22]] else []))"

fun join_with :: "string \<Rightarrow> string list \<Rightarrow> string" where
  "join_with sep [] = []"
| "join_with sep [x] = x"
| "join_with sep (x # y # zs) = x @ sep @ join_with sep (y # zs)"

definition format_trail :: "(nat \<times> audit_row) list \<Rightarrow> string" where
  "format_trail rows = join_with [CHR 0x0A] (map (\<lambda>p. join_with '' '' (trail_parts p)) rows)"

subsection \<open>A turn is replayed as it was written\<close>

definition write_events :: "audit_trail \<Rightarrow> audit_event list \<Rightarrow> store \<Rightarrow> store" where
  "write_events t es db = fold (write_audit t) es db"

lemma write_events_log:
  "audit_log (write_events t es db) = audit_log db @ map (row_of t (tx_now db)) es
   \<and> tx_now (write_events t es db) = tx_now db"
  unfolding write_events_def by (induction es arbitrary: db) (simp_all add: write_audit_def)

lemma replay_of_a_turn:
  "replay_turn (write_events t es db) (trail_tenant_id t) (trail_turn_id t)
     = replay_turn db (trail_tenant_id t) (trail_turn_id t) @ map (row_of t (tx_now db)) es"
  by (simp add: replay_turn_def write_events_log)

lemma replay_of_another_turn:
  "tid \<noteq> trail_tenant_id t \<or> turn \<noteq> trail_turn_id t
   \<Longrightarrow> replay_turn (write_events t es db) tid turn = replay_turn db tid turn"
  by (auto simp: replay_turn_def write_events_log)

text \<open>A line shows everything a consumer was shown.\<close>

lemma join_with_append: "x \<in> set xs \<Longrightarrow> \<exists>a b. join_with sep xs = a @ x @ b"
proof (induction sep xs rule: join_with.induct)
  case (3 sep x y zs)
  then show ?case by auto (metis append.assoc append_Cons append_Nil)+
qed (auto intro: exI [of _ "[]"])

lemma line_shows_text:
  assumes "row_consumer_visible r" and "row_consumer_text r = Some txt'" and "txt' \<noteq> []"
  shows "\<exists>a b. join_with '' '' (trail_parts (n, r)) = a @ txt' @ b"
proof -
  let ?p = "''| consumer saw: '' @ [CHR 0x22] @ txt' @ [CHR 0x22]"
  have "?p \<in> set (trail_parts (n, r))" using assms by (simp add: trail_parts_def Let_def)
  from join_with_append [OF this] obtain a b where "join_with '' '' (trail_parts (n, r)) = a @ ?p @ b"
    by blast
  then have "join_with '' '' (trail_parts (n, r))
      = (a @ ''| consumer saw: '' @ [CHR 0x22]) @ txt' @ ([CHR 0x22] @ b)" by simp
  then show ?thesis by blast
qed

end
