(* ===== verification/Chat_Sim.thy ===== *)
theory Chat_Sim
  imports Webhook Erasure Replay
begin

text \<open>
  The terminal harness, \<^verbatim>\<open>tools/chat_sim.py\<close>: a transport like the webhook, which hands every line to
  \<open>handle_inbound\<close> in a session of its own and, where the turn was deferred, waits for the follow-up.
  What it prints is the list of the replies, before they are coloured; \<open>--audit\<close> prints the rows of
  the turn that \<open>replay_turn\<close> gives.
\<close>

subsection \<open>Forgetting a consumer\<close>

text \<open>\<open>--reset\<close>: the lead is deleted, with what refers to it, then what is left of its audit.\<close>

definition reset_consumer :: "uid \<Rightarrow> string \<Rightarrow> store \<Rightarrow> store" where
  "reset_consumer tid w db =
     (case get_by_wa_id db tid w of
        None \<Rightarrow> db
      | Some l \<Rightarrow> let p = (\<lambda>i. i = lead_id l) in ct_delete audit_table p (drop_leads p db))"

subsection \<open>Turns\<close>

record chat_options =
  opt_audit :: bool
  opt_show_state :: bool
  opt_reset :: bool

record chat_output =
  co_replies :: "string list"
  co_follow_up :: "string list"
  co_state :: "string option"
  co_trail :: "audit_row list option"

text \<open>How the loop ends: with an exit code, or with an exception nobody catches.\<close>

datatype chat_stop = Exit nat | Raised

definition console_message :: "string \<Rightarrow> string \<Rightarrow> string \<Rightarrow> inbound_message" where
  "console_message tslug wa line = \<lparr>in_tenant_slug = tslug, in_channel = channel.CONSOLE, in_wa_id = wa,
     in_text = line, in_provider_message_id = None, in_display_name = None\<rparr>"

definition printed :: "chat_options \<Rightarrow> uid \<Rightarrow> 'w turn_result \<Rightarrow> outbound_message list \<Rightarrow> store \<Rightarrow> chat_output" where
  "printed opts tid r follow db = \<lparr>co_replies = map om_text (tr_outbound r), co_follow_up = map om_text follow,
     co_state = (if opt_show_state opts \<and> truthy (tr_state r) then tr_state r else None),
     co_trail = (if opt_audit opts then Some (replay_turn db tid (tr_turn r)) else None)\<rparr>"

definition chat_turn ::
    "'w pipeline \<Rightarrow> chat_options \<Rightarrow> uid \<Rightarrow> string \<Rightarrow> string \<Rightarrow> string \<Rightarrow> string \<Rightarrow> store \<times> 'w run
       \<Rightarrow> (chat_stop + chat_output) \<times> store \<times> 'w run" where
  "chat_turn pipe opts tid tslug corr wa line = (\<lambda>(db, s).
     (case handle_inbound pipe (console_message tslug wa line) corr (begin_session (wall pipe s) db) s of
        (Inl Unknown_Tenant, s1) \<Rightarrow> (Inl (Exit 1), db, s1)
      | (Inl Turn_Raised, s1) \<Rightarrow> (Inl Raised, db, s1)
      | (Inr (r, db1), s1) \<Rightarrow>
          (case tr_deferred r of
             None \<Rightarrow> (Inr (printed opts tid r [] db1), db1, s1)
           | Some k \<Rightarrow>
               (case deliver_deferred (pipe_phrasebank pipe) tslug (tr_conversation r) (tr_lead r)
                       channel.CONSOLE k corr (begin_session (wall pipe s1) db1) s1 of
                  (Inl _, s2) \<Rightarrow> (Inl Raised, db1, s2)
                | (Inr (f, db2), s2) \<Rightarrow> (Inr (printed opts tid r (tr_outbound f) db2), db2, s2)))))"

text \<open>The lines: the script, or what is typed until a line that leaves.\<close>

definition chat_lines :: "string list option \<Rightarrow> string list \<Rightarrow> string list" where
  "chat_lines script typed = (case script of
     Some ls \<Rightarrow> ls
   | None \<Rightarrow> takeWhile (\<lambda>l. strip l \<noteq> ''/quit'' \<and> strip l \<noteq> ''/exit'') typed)"

fun chat_loop ::
    "'w pipeline \<Rightarrow> chat_options \<Rightarrow> uid \<Rightarrow> string \<Rightarrow> string \<Rightarrow> string \<Rightarrow> string list \<Rightarrow> store \<times> 'w run
       \<Rightarrow> chat_output list \<times> chat_stop \<times> store \<times> 'w run" where
  "chat_loop pipe opts tid tslug corr wa [] st = ([], Exit 0, st)"
| "chat_loop pipe opts tid tslug corr wa (l # ls) st =
     (case chat_turn pipe opts tid tslug corr wa l st of
        (Inl stop, st1) \<Rightarrow> ([], stop, st1)
      | (Inr out, st1) \<Rightarrow>
          let (outs, stop, st2) = chat_loop pipe opts tid tslug corr wa ls st1 in (out # outs, stop, st2))"

definition chat_run ::
    "'w pipeline \<Rightarrow> chat_options \<Rightarrow> string \<Rightarrow> string \<Rightarrow> string \<Rightarrow> string \<Rightarrow> string list \<Rightarrow> store \<times> 'w run
       \<Rightarrow> chat_output list \<times> chat_stop \<times> store \<times> 'w run" where
  "chat_run pipe opts tslug nm corr wa lns = (\<lambda>(db, s).
     (let (t, db1) = ensure_tenant tslug nm (begin_session (wall pipe s) db);
          db2 = (if opt_reset opts
                 then reset_consumer (tenant_uid t) wa (begin_session (wall pipe s) db1) else db1)
      in chat_loop pipe opts (tenant_uid t) tslug corr wa lns (db2, s)))"

subsection \<open>The loop\<close>

text \<open>A loop that is left by its last line has answered every line, in order.\<close>

lemma chat_loop_answers:
  "chat_loop pipe opts tid tslug corr wa ls st = (outs, Exit 0, st') \<Longrightarrow> length outs = length ls"
proof (induction ls arbitrary: st outs st')
  case (Cons l ls)
  obtain x st1 where t: "chat_turn pipe opts tid tslug corr wa l st = (x, st1)" by (rule prod.exhaust)
  obtain outs1 stop1 st2 where r: "chat_loop pipe opts tid tslug corr wa ls st1 = (outs1, stop1, st2)"
    by (rule prod_cases3)
  have "x \<noteq> Inl (Exit 0)"
    using t by (auto simp: chat_turn_def split: prod.splits sum.splits turn_error.splits option.splits)
  then show ?case using Cons.prems Cons.IH [of st1 outs1 st2] t r by (cases x) auto
qed simp

end
