(* ===== verification/Cascade_Delete.thy ===== *)
theory Cascade_Delete
  imports Erasure_Props Chat_Sim
begin

text \<open>
  Deleting a lead and leaving the rest to the foreign keys, as \<open>--reset\<close> of the chat simulator does,
  removes what the erasure removes table by table.
\<close>

subsection \<open>References that are cleared\<close>

lemma filter_detach:
  assumes "\<And>r. keep (clear r) = keep r"
    and "\<And>r i. r \<in> set rows \<Longrightarrow> i \<in> set gone \<Longrightarrow> ref r = Some i \<Longrightarrow> \<not> keep r"
  shows "filter keep (detach gone ref clear rows) = filter keep rows"
  using assms(2) by (induction rows) (auto simp: detach_def list_ex_iff assms(1))

lemma in_detach: "r \<in> set (detach gone ref clear rows) \<Longrightarrow> \<exists>x\<in>set rows. r = x \<or> r = clear x"
  by (auto simp: detach_def split: if_splits)

lemma filter_twice: "(\<And>x. x \<in> set xs \<Longrightarrow> q x \<Longrightarrow> p x) \<Longrightarrow> filter (\<lambda>x. \<not> p x) (filter (\<lambda>x. \<not> q x) xs) = filter (\<lambda>x. \<not> p x) xs"
  by (auto simp: filter_filter intro!: filter_cong)

subsection \<open>Cascades stay within the leads\<close>

lemma owned_drop_messages: "owned db \<Longrightarrow> owned (drop_messages q db)"
  unfolding owned_def drop_messages_def Let_def
  by (auto dest!: in_detach)

lemma owned_drop_bookings: "owned db \<Longrightarrow> owned (drop_bookings q db)"
  unfolding owned_def drop_bookings_def Let_def
  by (auto dest!: in_detach)

lemma without_drop_messages:
  assumes "owned db" and "\<And>m. m \<in> set (messages db) \<Longrightarrow> q m \<Longrightarrow> p (msg_lead m)"
  shows "without p (drop_messages q db) = without p db"
proof -
  let ?gone = "map msg_id (filter q (messages db))"
  have "filter (\<lambda>c. \<not> p (con_lead c)) (detach ?gone con_evidence (\<lambda>c. c\<lparr>con_evidence := None\<rparr>) (consents db))
      = filter (\<lambda>c. \<not> p (con_lead c)) (consents db)"
    by (rule filter_detach) (use assms in \<open>auto simp: owned_def\<close>)
  moreover have "filter (\<lambda>n. \<not> p (sn_lead n)) (detach ?gone sn_message (\<lambda>n. n\<lparr>sn_message := None\<rparr>) (notifications db))
      = filter (\<lambda>n. \<not> p (sn_lead n)) (notifications db)"
    by (rule filter_detach) (use assms in \<open>auto simp: owned_def\<close>)
  moreover have "filter (\<lambda>m. \<not> p (msg_lead m)) (filter (\<lambda>m. \<not> q m) (messages db))
      = filter (\<lambda>m. \<not> p (msg_lead m)) (messages db)"
    by (rule filter_twice) (use assms(2) in blast)
  ultimately show ?thesis
    by (simp add: without_def without_leaves_def drop_messages_def Let_def)
qed

lemma without_drop_bookings:
  assumes "owned db" and "\<And>b. b \<in> set (bookings db) \<Longrightarrow> q b \<Longrightarrow> p (bk_lead b)"
  shows "without p (drop_bookings q db) = without p db"
proof -
  let ?gone = "map bk_id (filter q (bookings db))"
  have "filter (\<lambda>f. \<not> p (fb_lead f)) (detach ?gone fb_booking (\<lambda>f. f\<lparr>fb_booking := None\<rparr>) (feedbacks db))
      = filter (\<lambda>f. \<not> p (fb_lead f)) (feedbacks db)"
    by (rule filter_detach) (use assms in \<open>auto simp: owned_def\<close>)
  moreover have "filter (\<lambda>n. \<not> p (sn_lead n)) (filter (\<lambda>n. sn_booking n \<notin> set ?gone) (notifications db))
      = filter (\<lambda>n. \<not> p (sn_lead n)) (notifications db)"
    using assms by (auto simp: filter_filter owned_def intro!: filter_cong)
  moreover have "filter (\<lambda>b. \<not> p (bk_lead b)) (filter (\<lambda>b. \<not> q b) (bookings db))
      = filter (\<lambda>b. \<not> p (bk_lead b)) (bookings db)"
    by (rule filter_twice) (use assms(2) in blast)
  ultimately show ?thesis
    by (simp add: without_def without_leaves_def drop_bookings_def Let_def)
qed

text \<open>What goes with a conversation, before the conversation itself.\<close>

definition emptied_threads :: "uid list \<Rightarrow> store \<Rightarrow> store" where
  "emptied_threads gone db = drop_bookings (\<lambda>b. bk_conversation b \<in> set gone)
     (drop_messages (\<lambda>m. msg_conversation m \<in> set gone) db)"

lemma dropped_tables [simp]:
  "conversations (drop_messages q db) = conversations db" "conversations (drop_bookings r db) = conversations db"
  "bookings (drop_messages q db) = bookings db" "messages (drop_bookings r db) = messages db"
  "leads (drop_messages q db) = leads db" "leads (drop_bookings r db) = leads db"
  "messages (drop_messages q db) = filter (\<lambda>m. \<not> q m) (messages db)"
  "bookings (drop_bookings r db) = filter (\<lambda>b. \<not> r b) (bookings db)"
  by (simp_all add: drop_messages_def drop_bookings_def Let_def)

lemma owned_threads:
  assumes "owned db" and "gone = map conv_id (filter (\<lambda>c. p (conv_lead c)) (conversations db))"
  shows "m \<in> set (messages db) \<Longrightarrow> msg_conversation m \<in> set gone \<Longrightarrow> p (msg_lead m)"
    and "b \<in> set (bookings db) \<Longrightarrow> bk_conversation b \<in> set gone \<Longrightarrow> p (bk_lead b)"
  using assms by (auto simp: owned_def)

lemma emptied_threads_facts:
  assumes "owned db" and "gone = map conv_id (filter (\<lambda>c. p (conv_lead c)) (conversations db))"
  shows "owned (emptied_threads gone db)" and "without p (emptied_threads gone db) = without p db"
proof -
  let ?db = "drop_messages (\<lambda>m. msg_conversation m \<in> set gone) db"
  note o1 = owned_drop_messages [OF assms(1), of "\<lambda>m. msg_conversation m \<in> set gone"]
  show "owned (emptied_threads gone db)"
    unfolding emptied_threads_def by (rule owned_drop_bookings [OF o1])
  have "without p ?db = without p db"
    by (rule without_drop_messages [OF assms(1)]) (rule owned_threads(1) [OF assms])
  moreover have "without p (emptied_threads gone db) = without p ?db"
    unfolding emptied_threads_def
    by (rule without_drop_bookings [OF o1]) (use owned_threads(2) [OF assms] in simp)
  ultimately show "without p (emptied_threads gone db) = without p db" by simp
qed

lemma drop_conversations_threads:
  "drop_conversations q db = (let gone = map conv_id (filter q (conversations db)); db1 = emptied_threads gone db in
     db1\<lparr>conversations := filter (\<lambda>c. \<not> q c) (conversations db1),
       notifications := filter (\<lambda>n. sn_conversation n \<notin> set gone) (notifications db1),
       feedbacks := filter (\<lambda>f. fb_conversation f \<notin> set gone) (feedbacks db1),
       handoffs := filter (\<lambda>h. hq_conversation h \<notin> set gone) (handoffs db1),
       audit_log := filter (\<lambda>r. \<not> list_ex (\<lambda>i. row_conversation_id r = Some i) gone) (audit_log db1),
       consents := detach gone con_conversation (\<lambda>c. c\<lparr>con_conversation := None\<rparr>) (consents db1),
       attributions := detach gone at_conversation (\<lambda>a. a\<lparr>at_conversation := None\<rparr>) (attributions db1)\<rparr>)"
  by (simp add: drop_conversations_def emptied_threads_def Let_def)

lemma ownedD:
  assumes "owned db"
  shows "m \<in> set (messages db) \<Longrightarrow> c \<in> set (conversations db) \<Longrightarrow> msg_conversation m = conv_id c \<Longrightarrow> msg_lead m = conv_lead c"
    and "b \<in> set (bookings db) \<Longrightarrow> c \<in> set (conversations db) \<Longrightarrow> bk_conversation b = conv_id c \<Longrightarrow> bk_lead b = conv_lead c"
    and "n \<in> set (notifications db) \<Longrightarrow> c \<in> set (conversations db) \<Longrightarrow> sn_conversation n = conv_id c \<Longrightarrow> sn_lead n = conv_lead c"
    and "f \<in> set (feedbacks db) \<Longrightarrow> c \<in> set (conversations db) \<Longrightarrow> fb_conversation f = conv_id c \<Longrightarrow> fb_lead f = conv_lead c"
    and "h \<in> set (handoffs db) \<Longrightarrow> c \<in> set (conversations db) \<Longrightarrow> hq_conversation h = conv_id c \<Longrightarrow> hq_lead h = conv_lead c"
    and "r \<in> set (audit_log db) \<Longrightarrow> c \<in> set (conversations db) \<Longrightarrow> row_conversation_id r = Some (conv_id c) \<Longrightarrow> row_lead_id r = Some (conv_lead c)"
    and "n \<in> set (notifications db) \<Longrightarrow> b \<in> set (bookings db) \<Longrightarrow> sn_booking n = bk_id b \<Longrightarrow> sn_lead n = bk_lead b"
    and "f \<in> set (feedbacks db) \<Longrightarrow> b \<in> set (bookings db) \<Longrightarrow> fb_booking f = Some (bk_id b) \<Longrightarrow> fb_lead f = bk_lead b"
    and "n \<in> set (notifications db) \<Longrightarrow> m \<in> set (messages db) \<Longrightarrow> sn_message n = Some (msg_id m) \<Longrightarrow> sn_lead n = msg_lead m"
  using assms by (simp_all add: owned_def)

lemma owned_subset:
  assumes "owned db"
    and "set (conversations db') \<subseteq> set (conversations db)" "messages db' = messages db" "bookings db' = bookings db"
    "set (notifications db') \<subseteq> set (notifications db)" "set (feedbacks db') \<subseteq> set (feedbacks db)"
    "set (handoffs db') \<subseteq> set (handoffs db)" "set (audit_log db') \<subseteq> set (audit_log db)"
    and con: "\<And>e. e \<in> set (consents db') \<Longrightarrow> \<exists>x\<in>set (consents db). con_lead e = con_lead x
      \<and> con_evidence e = con_evidence x \<and> con_conversation e \<in> {con_conversation x, None}"
    and att: "\<And>a. a \<in> set (attributions db') \<Longrightarrow> \<exists>x\<in>set (attributions db). at_lead a = at_lead x
      \<and> at_conversation a \<in> {at_conversation x, None}"
  shows "owned db'"
  unfolding owned_def assms(3,4)
proof (intro conjI ballI impI)
  note o = assms(1) [unfolded owned_def]
  fix e c assume e: "e \<in> set (consents db')" and c: "c \<in> set (conversations db')" "con_conversation e = Some (conv_id c)"
  from con [OF e] obtain x where "x \<in> set (consents db)" "con_lead e = con_lead x" "con_conversation x = Some (conv_id c)"
    using c(2) by auto
  then show "con_lead e = conv_lead c" using o c(1) assms(2) by auto
next
  note o = assms(1) [unfolded owned_def]
  fix e m assume e: "e \<in> set (consents db')" and m: "m \<in> set (messages db)" "con_evidence e = Some (msg_id m)"
  from con [OF e] obtain x where "x \<in> set (consents db)" "con_lead e = con_lead x" "con_evidence x = Some (msg_id m)"
    using m(2) by auto
  then show "con_lead e = msg_lead m" using o m(1) by auto
next
  note o = assms(1) [unfolded owned_def]
  fix a c assume a: "a \<in> set (attributions db')" and c: "c \<in> set (conversations db')" "at_conversation a = Some (conv_id c)"
  from att [OF a] obtain x where "x \<in> set (attributions db)" "at_lead a = at_lead x" "at_conversation x = Some (conv_id c)"
    using c(2) by auto
  then show "at_lead a = conv_lead c" using o c(1) assms(2) by auto
qed (blast intro: ownedD [OF assms(1)] subsetD [OF assms(2)] subsetD [OF assms(5)] subsetD [OF assms(6)]
    subsetD [OF assms(7)] subsetD [OF assms(8)])+

lemma owned_drop_conversations: "owned db \<Longrightarrow> owned (drop_conversations (\<lambda>c. p (conv_lead c)) db)"
  unfolding drop_conversations_threads Let_def
  by (rule owned_subset [OF emptied_threads_facts(1) [OF _ refl, of db p]]) (auto dest!: in_detach)

lemma dropped_conversations [simp]:
  "leads (drop_conversations q db) = leads db"
  "conversations (drop_conversations q db) = filter (\<lambda>c. \<not> q c) (conversations db)"
  by (simp_all add: drop_conversations_threads Let_def emptied_threads_def)

lemma without_drop_conversations:
  assumes "owned db"
  shows "without p (drop_conversations (\<lambda>c. p (conv_lead c)) db) = without p db"
proof -
  let ?gone = "map conv_id (filter (\<lambda>c. p (conv_lead c)) (conversations db))"
  let ?db = "emptied_threads ?gone db"
  note e = emptied_threads_facts [OF assms refl, of p]
  have c: "conversations ?db = conversations db" by (simp add: emptied_threads_def)
  note o = e(1) [unfolded owned_def c]
  have "filter (\<lambda>n. \<not> p (sn_lead n)) (filter (\<lambda>n. sn_conversation n \<notin> set ?gone) (notifications ?db))
      = filter (\<lambda>n. \<not> p (sn_lead n)) (notifications ?db)"
    using o by (auto simp: filter_filter intro!: filter_cong)
  moreover have "filter (\<lambda>f. \<not> p (fb_lead f)) (filter (\<lambda>f. fb_conversation f \<notin> set ?gone) (feedbacks ?db))
      = filter (\<lambda>f. \<not> p (fb_lead f)) (feedbacks ?db)"
    using o by (auto simp: filter_filter intro!: filter_cong)
  moreover have "filter (\<lambda>h. \<not> p (hq_lead h)) (filter (\<lambda>h. hq_conversation h \<notin> set ?gone) (handoffs ?db))
      = filter (\<lambda>h. \<not> p (hq_lead h)) (handoffs ?db)"
    using o by (auto simp: filter_filter intro!: filter_cong)
  moreover have "filter (\<lambda>r. other_audit p r) (filter (\<lambda>r. \<not> list_ex (\<lambda>i. row_conversation_id r = Some i) ?gone)
      (audit_log ?db)) = filter (\<lambda>r. other_audit p r) (audit_log ?db)"
    using audit_of_threads [OF e(1), of p] by (simp add: of_gone_thread_def c cong: filter_cong)
  moreover have "filter (\<lambda>x. \<not> p (con_lead x)) (detach ?gone con_conversation (\<lambda>x. x\<lparr>con_conversation := None\<rparr>)
      (consents ?db)) = filter (\<lambda>x. \<not> p (con_lead x)) (consents ?db)"
    by (rule filter_detach) (use o in auto)
  moreover have "filter (\<lambda>a. \<not> p (at_lead a)) (detach ?gone at_conversation (\<lambda>a. a\<lparr>at_conversation := None\<rparr>)
      (attributions ?db)) = filter (\<lambda>a. \<not> p (at_lead a)) (attributions ?db)"
    by (rule filter_detach) (use o in auto)
  ultimately have "without p (drop_conversations (\<lambda>c. p (conv_lead c)) db) = without p ?db"
    by (simp add: drop_conversations_threads Let_def without_def without_leaves_def)
  then show ?thesis using e(2) by simp
qed

subsection \<open>A lead deleted with what refers to it\<close>

lemma drop_leads_is_without:
  assumes "owned db" and "\<And>i. p i \<Longrightarrow> i \<in> lead_id ` set (leads db)"
  shows "drop_leads p db = without p db"
proof -
  let ?gone = "filter p (map lead_id (leads db))"
  have g: "i \<in> set ?gone \<longleftrightarrow> p i" for i using assms(2) by auto
  let ?db1 = "drop_conversations (\<lambda>c. p (conv_lead c)) db"
  let ?db2 = "drop_messages (\<lambda>m. p (msg_lead m)) ?db1"
  let ?db3 = "drop_bookings (\<lambda>b. p (bk_lead b)) ?db2"
  have 1: "owned ?db1" "without p ?db1 = without p db"
    using owned_drop_conversations without_drop_conversations assms(1) by blast+
  have 2: "owned ?db2" "without p ?db2 = without p db"
    using owned_drop_messages [OF 1(1)] without_drop_messages [OF 1(1), of "\<lambda>m. p (msg_lead m)" p] 1(2) by simp_all
  have 3: "without p ?db3 = without p db"
    using without_drop_bookings [OF 2(1), of "\<lambda>b. p (bk_lead b)" p] 2(2) by simp
  have au: "(\<lambda>r. \<not> list_ex (\<lambda>i. row_lead_id r = Some i) ?gone) = other_audit p"
    by (rule ext) (use g in \<open>auto simp: other_audit_def list_ex_iff split: option.splits\<close>)
  have "drop_leads p db = ?db3\<lparr>leads := filter (\<lambda>l. \<not> p (lead_id l)) (leads ?db3),
       consents := filter (\<lambda>c. \<not> p (con_lead c)) (consents ?db3),
       notifications := filter (\<lambda>n. \<not> p (sn_lead n)) (notifications ?db3),
       feedbacks := filter (\<lambda>f. \<not> p (fb_lead f)) (feedbacks ?db3),
       attributions := filter (\<lambda>a. \<not> p (at_lead a)) (attributions ?db3),
       handoffs := filter (\<lambda>h. \<not> p (hq_lead h)) (handoffs ?db3),
       audit_log := filter (other_audit p) (audit_log ?db3)\<rparr>"
    unfolding drop_leads_def Let_def au g by simp
  also have "\<dots> = without p ?db3"
    by (simp add: without_def without_leaves_def)
  finally show ?thesis using 3 by simp
qed

end
