(* ===== verification/Compliance_Props.thy ===== *)
theory Compliance_Props
  imports Erasure_Props Pipeline_Samples Wire
begin

text \<open>
  What an erasure and a retention sweep do to a well-formed store, each with its witness on the
  sample deployment.
\<close>

subsection \<open>Erasure\<close>

lemma erase_steps:
  assumes "erase_consumer sha256 uuid_text tid w req t0 t1 db = Some (r, db')"
  obtains l where "get_by_wa_id db tid w = Some l" and "er_lead r = lead_id l" and "l \<in> set (leads db)"
    and "er_deleted r = fst (delete_tables (\<lambda>i. i = lead_id l) (CONSUMER_TABLES @ [audit_table, leads_table])
      (log_compliance tid ''compliance.erasure_requested'' ''operator'' db))"
proof -
  obtain l where l: "get_by_wa_id db tid w = Some l"
    using assms by (auto simp: erase_consumer_def split: option.splits)
  then have "l \<in> set (leads db)" by (auto simp: get_by_wa_id_def scoped_def dest: next_such_in)
  moreover have "er_lead r = lead_id l"
    and "er_deleted r = fst (delete_tables (\<lambda>i. i = lead_id l) (CONSUMER_TABLES @ [audit_table, leads_table])
      (log_compliance tid ''compliance.erasure_requested'' ''operator'' db))"
    using assms by (auto simp: erase_consumer_def l Let_def split: prod.splits)
  ultimately show thesis using that l by blast
qed

lemma count_log_compliance [simp]:
  "count_tables p CONSUMER_TABLES (log_compliance tid ty a db) = count_tables p CONSUMER_TABLES db"
  "count_for p leads_table (log_compliance tid ty a db) = count_for p leads_table db"
  by (simp_all add: log_compliance_def count_tables_def CONSUMER_TABLES_def count_for_def table_defs)

lemma loose_audit_requested [simp]: "loose_audit p (log_compliance tid ty a db) = loose_audit p db"
  by (simp add: loose_audit_def log_compliance_def compliance_row_def other_audit_def of_gone_thread_def)

lemma length_filter_distinct: "distinct xs \<Longrightarrow> x \<in> set xs \<Longrightarrow> length (filter (\<lambda>i. i = x) xs) = 1"
  by (induction xs) (auto simp: filter_empty_conv)

lemma one_lead:
  assumes "well_formed db" and "l \<in> set (leads db)"
  shows "count_for (\<lambda>i. i = lead_id l) leads_table db = 1"
proof -
  have "distinct (map lead_id (leads db))" using well_formed_tables(1) [OF assms(1)] by (simp add: table_ok_def)
  then have "length (filter (\<lambda>i. i = lead_id l) (map lead_id (leads db))) = 1"
    by (rule length_filter_distinct) (use assms(2) in simp)
  then show ?thesis by (simp add: count_for_def leads_table_def)
qed

lemma loose_audit_wf:
  assumes "well_formed db"
  shows "loose_audit (\<lambda>i. i = k) db =
    length (filter (\<lambda>r. row_lead_id r = Some k \<and> row_conversation_id r = None) (audit_log db))"
proof -
  have "filter (\<lambda>r. \<not> other_audit (\<lambda>i. i = k) r \<and> \<not> of_gone_thread (\<lambda>i. i = k) db r) (audit_log db)
      = filter (\<lambda>r. row_lead_id r = Some k \<and> row_conversation_id r = None) (audit_log db)"
    by (rule filter_cong [OF refl])
      (use unthreaded_audit [OF assms] in \<open>auto simp: other_audit_def split: option.splits\<close>)
  then show ?thesis by (simp add: loose_audit_def)
qed

text \<open>C25. Erasing a consumer removes every row of that lead from every table and no row of anybody
  else, although its deletes cascade: the store afterwards is the store before with the request
  logged, less the rows of the lead, with the completion logged. The receipt finds nothing left.\<close>

theorem erasure_is_exact:
  assumes "well_formed db"
    and "erase_consumer sha256 uuid_text tid w req t0 t1 db = Some (r, db')"
  shows "db' = log_compliance tid ''compliance.erasure_completed'' ''operator''
      (without (\<lambda>i. i = er_lead r) (log_compliance tid ''compliance.erasure_requested'' ''operator'' db))
    \<and> erasure_complete r"
  using erasure_exact_aux [OF assms] by blast

text \<open>The receipt counts what the plan announced in every table but one: the audit rows that
  name a conversation have gone with it before the log is deleted from, so the count of the audit
  log is only of the rows that name the lead alone.\<close>

theorem erasure_receipt_counts:
  assumes "well_formed db"
    and "erase_consumer sha256 uuid_text tid w req t0 t1 db = Some (r, db')"
  shows "er_deleted r = count_tables (\<lambda>i. i = er_lead r) CONSUMER_TABLES db
    @ [(''audit_log'', length (filter (\<lambda>a. row_lead_id a = Some (er_lead r) \<and> row_conversation_id a = None)
          (audit_log db))), (''leads'', 1)]"
proof -
  obtain l where l: "er_lead r = lead_id l" "l \<in> set (leads db)"
    and d: "er_deleted r = fst (delete_tables (\<lambda>i. i = lead_id l) (CONSUMER_TABLES @ [audit_table, leads_table])
      (log_compliance tid ''compliance.erasure_requested'' ''operator'' db))"
    by (rule erase_steps [OF assms(2)])
  have "owned (log_compliance tid ''compliance.erasure_requested'' ''operator'' db)"
    by (rule log_compliance_other(2) [OF well_formed_owned [OF assms(1)]])
  from deleted_counts [OF this] show ?thesis
    by (simp add: d l one_lead [OF assms(1) l(2)] loose_audit_wf [OF assms(1)])
qed

subsection \<open>Retention\<close>

lemma sweep_effect:
  assumes "well_formed db" and "sweep_retention tid pol now clock_now False db = (s, db')"
  shows "db' = log_compliance tid ''compliance.retention_swept'' ''system''
    (without (stale tid (rs_ran_at s) (rs_consumer_cutoff s) db) (drop_expired tid (rs_audit_cutoff s) db))"
  using assms(2) real_sweep [OF drop_expired_owned [OF well_formed_owned [OF assms(1)]]]
  unfolding sweep_retention_def by (auto simp: Let_def drop_expired_def [symmetric])

text \<open>C26. A dry run of the retention sweep changes nothing and reports exactly what the real run
  then reports, although the real run deletes table by table and asks each time anew who is stale;
  what the real run removes is the expired audit and every row of the stale leads.\<close>

theorem dry_run_predicts_the_sweep:
  assumes "well_formed db"
  shows "sweep_retention tid pol now clock_now True db
      = ((fst (sweep_retention tid pol now clock_now False db))\<lparr>rs_dry_run := True\<rparr>, db)
    \<and> snd (sweep_retention tid pol now clock_now False db)
      = log_compliance tid ''compliance.retention_swept'' ''system''
          (without (stale tid (rs_ran_at (fst (sweep_retention tid pol now clock_now False db)))
              (rs_consumer_cutoff (fst (sweep_retention tid pol now clock_now False db))) db)
            (drop_expired tid (rs_audit_cutoff (fst (sweep_retention tid pol now clock_now False db))) db))"
proof (intro conjI)
  show "sweep_retention tid pol now clock_now True db
      = ((fst (sweep_retention tid pol now clock_now False db))\<lparr>rs_dry_run := True\<rparr>, db)"
    using real_sweep [OF drop_expired_owned [OF well_formed_owned [OF assms]]]
    unfolding sweep_retention_def by (simp add: Let_def drop_expired_def [symmetric] dry_sweep)
qed (rule sweep_effect [OF assms prod.collapse [symmetric]])


subsection \<open>On the sample deployment\<close>

lemma sample_db_well_formed: "well_formed sample_db"
  unfolding well_formed_def Let_def
  by (simp add: sample_db_def empty_store_def table_ok_def lead_ok_def conversation_ok_def consent_ok_def
      key_defs new_lead_def offered_conversation_def new_conversation_def sample_tenant_def)

text \<open>What is left of the sample deployment without its one lead.\<close>

definition erased_sample :: "(erasure_receipt \<times> store) option" where
  "erased_sample = erase_consumer (\<lambda>x. x) (\<lambda>i. ''t'') 1 ''971'' None 5 6 sample_db"

lemma erased_sample_some: "erased_sample \<noteq> None"
  by (simp add: erased_sample_def erase_consumer_def get_by_wa_id_def sample_db_def empty_store_def
      new_lead_def scoped_def Let_def split: prod.splits)

theorem erasure_is_exact_witness:
  "case erased_sample of None \<Rightarrow> False | Some (r, db') \<Rightarrow> erasure_complete r \<and> length (audit_log db') = 2"
proof -
  obtain r db' where e: "erased_sample = Some (r, db')" using erased_sample_some by auto
  from erasure_is_exact [OF sample_db_well_formed e [unfolded erased_sample_def]]
  show ?thesis
    by (simp add: e log_compliance_def without_def sample_db_def empty_store_def compliance_row_def other_audit_def)
qed

theorem erasure_receipt_counts_witness:
  "case erased_sample of None \<Rightarrow> False | Some (r, db') \<Rightarrow> map_of (er_deleted r) ''leads'' = Some 1"
proof -
  obtain r db' where e: "erased_sample = Some (r, db')" using erased_sample_some by auto
  from erasure_receipt_counts [OF sample_db_well_formed e [unfolded erased_sample_def]]
  show ?thesis by (simp add: e count_tables_def CONSUMER_TABLES_def table_defs)
qed

theorem dry_run_predicts_the_sweep_witness:
  "snd (sweep_retention 1 None (Some (days 400)) 0 True sample_db) = sample_db"
  using dry_run_predicts_the_sweep [OF sample_db_well_formed, of 1 None "Some (days 400)" 0] by simp

definition booked_sample :: store where
  "booked_sample = sample_db\<lparr>bookings := [\<lparr>bk_id = 7, bk_tenant = 1, bk_conversation = 3, bk_lead = 2,
     bk_category = category.SALON, bk_platform = ''fake_happy'', bk_external_ref = None, bk_key = (3, ''k''),
     bk_status = booking_status.CONFIRMED, bk_slot_start = Some (days 500), bk_slot_end = None,
     bk_venue = None, bk_price = None, bk_currency = None, bk_payment = payment_status.PAY_AT_VENUE,
     bk_confirmed_at = Some 0, bk_created_at = 0\<rparr>]\<rparr>"

lemma booked_sample_well_formed: "well_formed booked_sample"
  unfolding well_formed_def Let_def
  by (simp add: booked_sample_def sample_db_def empty_store_def table_ok_def lead_ok_def conversation_ok_def
      consent_ok_def booking_ok_def key_defs new_lead_def offered_conversation_def new_conversation_def
      sample_tenant_def)


section \<open>Evidence\<close>

text \<open>
  What is handed to a compliance reviewer, \<open>as_evidence\<close> of \<^verbatim>\<open>mawjood/core/compliance/erasure.py\<close> and
  \<^verbatim>\<open>retention.py\<close>: a dictionary of texts and numbers. How an instant and an identifier print is given
  by \<open>isoformat\<close> and \<open>uuid_text\<close>.
\<close>

definition wire_counts :: "(string \<times> nat) list \<Rightarrow> wire" where
  "wire_counts xs = WDict (map (\<lambda>(k, n). (k, WInt (int n))) xs)"

definition erasure_evidence ::
    "(instant \<Rightarrow> string) \<Rightarrow> (uid \<Rightarrow> string) \<Rightarrow> erasure_receipt \<Rightarrow> (string \<times> wire) list" where
  "erasure_evidence isoformat uuid_text r =
     [(''subject_hash'', WText (er_subject_hash r)),
      (''tenant_id'', WText (uuid_text (er_tenant r))),
      (''requested_at'', WText (isoformat (er_requested_at r))),
      (''completed_at'', WText (isoformat (er_completed_at r))),
      (''rows_deleted'', wire_counts (er_deleted r)),
      (''rows_remaining'', wire_counts (er_remaining r)),
      (''complete'', WBool (erasure_complete r))]"

definition retention_evidence ::
    "(instant \<Rightarrow> string) \<Rightarrow> retention_sweep \<Rightarrow> (string \<times> wire) list" where
  "retention_evidence isoformat s =
     [(''ran_at'', WText (isoformat (rs_ran_at s))),
      (''dry_run'', WBool (rs_dry_run s)),
      (''audit_retention_days'', WInt (audit_days (rs_policy s))),
      (''consumer_retention_days'', WInt (consumer_days (rs_policy s))),
      (''audit_cutoff'', WText (isoformat (rs_audit_cutoff s))),
      (''consumer_cutoff'', WText (isoformat (rs_consumer_cutoff s))),
      (''rows_deleted'', wire_counts (rs_deleted s)),
      (''consumers_kept_for_future_bookings'', WInt (int (rs_skipped s)))]"

text \<open>The evidence of an erasure is that of the receipt without its subject: of the consumer it says
  nothing but the hash, and it claims completeness exactly when nothing is said to remain.\<close>

lemma evidence_names_nobody:
  "erasure_evidence isoformat uuid_text (r\<lparr>er_lead := l\<rparr>) = erasure_evidence isoformat uuid_text r"
  by (simp add: erasure_evidence_def erasure_complete_def)

theorem evidence_of_completeness:
  "map_of (erasure_evidence isoformat uuid_text r) ''complete'' = Some (WBool True) \<longleftrightarrow>
   (\<forall>p\<in>set (er_remaining r). snd p = 0)"
  by (auto simp: erasure_evidence_def erasure_complete_def any_values_def list_ex_iff)

end
