(* ===== verification/Seeding.thy ===== *)
theory Seeding
  imports Replay Repositories
begin

text \<open>
  Seeding a deployment, \<^verbatim>\<open>tools/seed_dev.py\<close> and its door \<^verbatim>\<open>tools/seed_routing.py\<close>: the tenant, the
  merchants of the platforms and the order of the platforms per category. The tenant, the merchants
  and the routing are committed one after the other; False is a routing row the unique constraints
  refuse, which leaves the first two.
\<close>

definition STARTER_ROUTING :: "(category \<times> string list) list" where
  "STARTER_ROUTING = [
     (category.SALON, [''zenoti'', ''fake_happy'', ''fake_flaky'']),
     (category.SPA, [''zenoti'', ''fake_happy'']),
     (category.RESTAURANT, [''fake_happy'']),
     (category.FOOD_DELIVERY, [''fake_happy''])]"

definition ALL_DOWN_ROUTING :: "(category \<times> string list) list" where
  "ALL_DOWN_ROUTING = [(category.SALON, [''fake_empty'', ''fake_auth'', ''fake_timeout'', ''zenoti''])]"

definition STARTER_MERCHANTS :: "(string \<times> string \<times> string) list" where
  "STARTER_MERCHANTS = [
     (''fake_happy'', ''Marina Beauty Lounge'', ''Dubai Marina''),
     (''fake_happy'', ''JLT Hair Studio'', ''JLT''),
     (''fake_flaky'', ''Downtown Cuts'', ''Downtown Dubai''),
     (''fake_empty'', ''Al Barsha Salon'', ''Al Barsha''),
     (''fake_auth'', ''Business Bay Spa'', ''Business Bay''),
     (''fake_timeout'', ''Deira Barbers'', ''Deira''),
     (''zenoti'', ''Zenoti Partner Salon'', ''Dubai Marina'')]"

subsection \<open>Merchants\<close>

definition has_merchant :: "uid \<Rightarrow> string \<Rightarrow> string \<Rightarrow> store \<Rightarrow> bool" where
  "has_merchant tid p nm db =
     list_ex (\<lambda>m. mc_tenant m = tid \<and> mc_platform m = p \<and> mc_name m = nm) (merchants db)"

definition new_merchant :: "uid \<Rightarrow> nat \<Rightarrow> string \<times> string \<times> string \<Rightarrow> store \<Rightarrow> store" where
  "new_merchant tid n = (\<lambda>(p, nm, area) db.
     (let (i, db1) = new_id db
      in db1\<lparr>merchants := merchants db1 @ [\<lparr>mc_id = i, mc_tenant = tid, mc_platform = p, mc_name = nm,
           mc_area = Some area, mc_external_ids = [(''centre_id'', ''c-'' @ pad_left 3 CHR ''0'' (show_nat n))],
           mc_secret_ref = None, mc_active = True, mc_priority = 0\<rparr>]\<rparr>))"

fun seed_merchants :: "uid \<Rightarrow> nat \<Rightarrow> (string \<times> string \<times> string) list \<Rightarrow> store \<Rightarrow> nat \<times> store" where
  "seed_merchants tid n [] db = (n, db)"
| "seed_merchants tid n (m # rest) db =
     (if has_merchant tid (fst m) (fst (snd m)) db then seed_merchants tid n rest db
      else seed_merchants tid (Suc n) rest (new_merchant tid n m db))"

subsection \<open>Routing\<close>

definition routing_conflict :: "uid \<Rightarrow> category \<Rightarrow> string \<Rightarrow> int \<Rightarrow> store \<Rightarrow> bool" where
  "routing_conflict tid cat p pos db =
     list_ex (\<lambda>r. rc_tenant r = tid \<and> rc_category r = cat \<and> (rc_platform r = p \<or> rc_position r = pos))
       (routing db)"

fun seed_platforms :: "uid \<Rightarrow> category \<Rightarrow> int \<Rightarrow> string list \<Rightarrow> store \<Rightarrow> store option" where
  "seed_platforms tid cat pos [] db = Some db"
| "seed_platforms tid cat pos (p # ps) db =
     (if routing_conflict tid cat p pos db then None
      else let (i, db1) = new_id db
           in seed_platforms tid cat (pos + 1) ps (db1\<lparr>routing := routing db1 @ [\<lparr>rc_id = i, rc_tenant = tid,
                rc_category = cat, rc_platform = p, rc_position = pos, rc_enabled = True\<rparr>]\<rparr>))"

fun seed_routing :: "uid \<Rightarrow> (category \<times> string list) list \<Rightarrow> store \<Rightarrow> store option" where
  "seed_routing tid [] db = Some db"
| "seed_routing tid ((cat, ps) # table) db =
     (if ordered_platforms db tid cat \<noteq> [] then seed_routing tid table db
      else case seed_platforms tid cat 0 ps db of
          None \<Rightarrow> None | Some db1 \<Rightarrow> seed_routing tid table db1)"

definition seed :: "bool \<Rightarrow> bool \<Rightarrow> string \<Rightarrow> string \<Rightarrow> store \<Rightarrow> bool \<times> store" where
  "seed with_routing all_down tslug tname db =
     (let (t, db1) = ensure_tenant tslug tname db in
      if \<not> with_routing then (True, db1)
      else
        let (made, db2) = seed_merchants (tenant_uid t) 0 STARTER_MERCHANTS db1 in
        case seed_routing (tenant_uid t) (if all_down then ALL_DOWN_ROUTING else STARTER_ROUTING) db2 of
          None \<Rightarrow> (False, db2) | Some db3 \<Rightarrow> (True, db3))"

text \<open>\<open>main\<close> of the two doors\<close>

definition seed_dev_main :: "bool \<Rightarrow> bool \<Rightarrow> string \<Rightarrow> string \<Rightarrow> store \<Rightarrow> bool \<times> store" where
  "seed_dev_main routing_flag all_down = seed (routing_flag \<or> all_down) all_down"

definition seed_routing_main :: "bool \<Rightarrow> string \<Rightarrow> string \<Rightarrow> store \<Rightarrow> bool \<times> store" where
  "seed_routing_main all_down = seed True all_down"

subsection \<open>Seeding twice\<close>

lemma next_such_snoc: "next_such p xs = None \<Longrightarrow> next_such p (xs @ [x]) = (if p x then Some x else None)"
  by (induction xs) (auto split: if_splits)

lemma ensure_again:
  assumes "ensure_tenant s nm db = (t, db')" and "tenants db'' = tenants db'"
  shows "ensure_tenant s nm db'' = (t, db'')"
proof (cases "get_by_slug db s")
  case None
  let ?t = "\<lparr>tenant_uid = next_id db, tenant_slug = s, tenant_name = nm, default_locale = ''en''\<rparr>"
  have "t = ?t" "tenants db' = tenants db @ [?t]"
    using assms(1) None by (auto simp: ensure_tenant_def new_id_def Let_def)
  moreover have "next_such (\<lambda>t. tenant_slug t = s) (tenants db @ [?t]) = Some ?t"
    using None by (simp add: get_by_slug_def next_such_snoc)
  ultimately show ?thesis using assms(2) by (simp add: ensure_tenant_def get_by_slug_def)
next
  case (Some t')
  then show ?thesis using assms by (auto simp: ensure_tenant_def get_by_slug_def)
qed

lemma new_merchant_keeps [simp]:
  "tenants (new_merchant tid n m db) = tenants db" "routing (new_merchant tid n m db) = routing db"
  by (simp_all add: new_merchant_def new_id_def split: prod.splits)

lemma new_merchant_has:
  "has_merchant tid p nm (new_merchant tid n m db) \<longleftrightarrow>
     has_merchant tid p nm db \<or> (fst m = p \<and> fst (snd m) = nm)"
  by (auto simp: has_merchant_def new_merchant_def new_id_def split: prod.splits)

lemma seed_merchants_has:
  "seed_merchants tid n mcs db = (k, db') \<Longrightarrow>
     (\<forall>m\<in>set mcs. has_merchant tid (fst m) (fst (snd m)) db')
     \<and> (\<forall>p nm. has_merchant tid p nm db \<longrightarrow> has_merchant tid p nm db')
     \<and> tenants db' = tenants db \<and> routing db' = routing db"
  by (induction tid n mcs db rule: seed_merchants.induct) (auto simp: new_merchant_has split: if_splits)

lemma seed_merchants_again:
  "\<forall>m\<in>set mcs. has_merchant tid (fst m) (fst (snd m)) db \<Longrightarrow> seed_merchants tid n mcs db = (n, db)"
  by (induction mcs) auto

lemma has_order:
  "ordered_platforms db tid c \<noteq> [] \<longleftrightarrow>
     (\<exists>r\<in>set (routing db). rc_tenant r = tid \<and> rc_category r = c \<and> rc_enabled r)"
proof -
  have "ordered_platforms db tid c \<noteq> [] \<longleftrightarrow> set (ordered_platforms db tid c) \<noteq> {}" by simp
  then show ?thesis by (auto simp: ordered_platforms_def scoped_def)
qed

lemma seed_platforms_adds:
  "seed_platforms tid cat pos ps db = Some db' \<Longrightarrow>
     tenants db' = tenants db \<and> merchants db' = merchants db \<and> set (routing db) \<subseteq> set (routing db')
     \<and> (ps \<noteq> [] \<longrightarrow> ordered_platforms db' tid cat \<noteq> [])"
proof (induction ps arbitrary: pos db)
  case (Cons p ps)
  let ?r = "\<lparr>rc_id = next_id db, rc_tenant = tid, rc_category = cat, rc_platform = p, rc_position = pos,
      rc_enabled = True\<rparr>"
  have "seed_platforms tid cat (pos + 1) ps (db\<lparr>next_id := Suc (next_id db), routing := routing db @ [?r]\<rparr>) = Some db'"
    using Cons.prems by (auto simp: new_id_def split: if_splits)
  then have "tenants db' = tenants db" "merchants db' = merchants db"
    "set (routing db) \<subseteq> set (routing db')" "?r \<in> set (routing db')"
    using Cons.IH by force+
  moreover from this(4) have "ordered_platforms db' tid cat \<noteq> []" unfolding has_order by force
  ultimately show ?case by blast
qed simp

lemma order_kept: "set (routing db) \<subseteq> set (routing db') \<Longrightarrow>
    ordered_platforms db tid c \<noteq> [] \<Longrightarrow> ordered_platforms db' tid c \<noteq> []"
  unfolding has_order by blast

lemma seed_routing_fills:
  assumes "\<forall>(c, ps)\<in>set table. ps \<noteq> []"
  shows "seed_routing tid table db = Some db' \<Longrightarrow>
     tenants db' = tenants db \<and> merchants db' = merchants db \<and> set (routing db) \<subseteq> set (routing db')
     \<and> (\<forall>c\<in>fst ` set table. ordered_platforms db' tid c \<noteq> [])"
  using assms
proof (induction table arbitrary: db)
  case (Cons e table)
  obtain cat ps where e: "e = (cat, ps)" by fastforce
  obtain db1 where r: "seed_routing tid table db1 = Some db'"
    and k: "tenants db1 = tenants db" "merchants db1 = merchants db" "set (routing db) \<subseteq> set (routing db1)"
      "ordered_platforms db1 tid cat \<noteq> []"
  proof (cases "ordered_platforms db tid cat \<noteq> []")
    case True
    then show ?thesis using that Cons.prems by (auto simp: e)
  next
    case False
    then obtain db1 where "seed_platforms tid cat 0 ps db = Some db1" "seed_routing tid table db1 = Some db'"
      using Cons.prems by (auto simp: e split: option.splits)
    then show ?thesis using that seed_platforms_adds [of tid cat 0 ps db db1] Cons.prems(2) by (auto simp: e)
  qed
  have i: "tenants db' = tenants db1" "merchants db' = merchants db1" "set (routing db1) \<subseteq> set (routing db')"
    "\<forall>c\<in>fst ` set table. ordered_platforms db' tid c \<noteq> []"
    using Cons.IH [OF r] Cons.prems(2) by auto
  show ?case using i k order_kept [OF i(3) k(4)] by (auto simp: e)
qed simp

lemma seed_routing_again:
  "\<forall>c\<in>fst ` set table. ordered_platforms db tid c \<noteq> [] \<Longrightarrow> seed_routing tid table db = Some db"
  by (induction table) auto

lemma tables_filled:
  "\<forall>(c, ps)\<in>set STARTER_ROUTING. ps \<noteq> []" "\<forall>(c, ps)\<in>set ALL_DOWN_ROUTING. ps \<noteq> []"
  by (auto simp: STARTER_ROUTING_def ALL_DOWN_ROUTING_def)

text \<open>What a completed seeding leaves: the tenant, every merchant and an order for every category.\<close>

lemma seeded:
  assumes "seed True all_down s nm db = (True, db')"
  obtains t where "\<And>db''. tenants db'' = tenants db' \<Longrightarrow> ensure_tenant s nm db'' = (t, db'')"
    and "\<forall>m\<in>set STARTER_MERCHANTS. has_merchant (tenant_uid t) (fst m) (fst (snd m)) db'"
    and "\<forall>c\<in>fst ` set (if all_down then ALL_DOWN_ROUTING else STARTER_ROUTING).
      ordered_platforms db' (tenant_uid t) c \<noteq> []"
proof -
  obtain t db1 where t: "ensure_tenant s nm db = (t, db1)" by fastforce
  obtain k db2 where m: "seed_merchants (tenant_uid t) 0 STARTER_MERCHANTS db1 = (k, db2)" by fastforce
  let ?table = "if all_down then ALL_DOWN_ROUTING else STARTER_ROUTING"
  have r: "seed_routing (tenant_uid t) ?table db2 = Some db'"
    using assms by (auto simp: seed_def t m split: option.splits if_splits)
  have ne: "\<forall>(c, ps)\<in>set ?table. ps \<noteq> []" using tables_filled by simp
  have f: "tenants db' = tenants db2" "merchants db' = merchants db2"
    "\<forall>c\<in>fst ` set ?table. ordered_platforms db' (tenant_uid t) c \<noteq> []"
    using seed_routing_fills [OF ne r] by auto
  have "has_merchant (tenant_uid t) p nm' db' = has_merchant (tenant_uid t) p nm' db2" for p nm'
    by (simp add: has_merchant_def f)
  then show thesis
    using that [of t] seed_merchants_has [OF m] f ensure_again [OF t] by simp
qed

lemma seed_twice:
  assumes "seed with_routing all_down s nm db = (True, db')"
  shows "seed with_routing all_down s nm db' = (True, db')"
proof (cases with_routing)
  case False
  obtain t db1 where t: "ensure_tenant s nm db = (t, db1)" by fastforce
  then show ?thesis using assms False ensure_again [OF t, of db1] by (simp add: seed_def)
next
  case True
  have a: "seed True all_down s nm db = (True, db')" using assms True by simp
  obtain t where t: "\<And>db''. tenants db'' = tenants db' \<Longrightarrow> ensure_tenant s nm db'' = (t, db'')"
    "\<forall>m\<in>set STARTER_MERCHANTS. has_merchant (tenant_uid t) (fst m) (fst (snd m)) db'"
    "\<forall>c\<in>fst ` set (if all_down then ALL_DOWN_ROUTING else STARTER_ROUTING). ordered_platforms db' (tenant_uid t) c \<noteq> []"
    using seeded [OF a] by metis
  show ?thesis
    using t(1) [of db'] seed_merchants_again [OF t(2), of 0] seed_routing_again [OF t(3)] True
    by (simp add: seed_def)
qed

text \<open>\<open>--all-down\<close> on a deployment that has been seeded before changes nothing: the salons keep the
  order they have.\<close>

lemma all_down_after_seeding:
  assumes "seed True False s nm db = (True, db')"
  shows "seed True True s nm db' = (True, db')"
proof -
  obtain t where t: "\<And>db''. tenants db'' = tenants db' \<Longrightarrow> ensure_tenant s nm db'' = (t, db'')"
    "\<forall>m\<in>set STARTER_MERCHANTS. has_merchant (tenant_uid t) (fst m) (fst (snd m)) db'"
    "\<forall>c\<in>fst ` set (if False then ALL_DOWN_ROUTING else STARTER_ROUTING). ordered_platforms db' (tenant_uid t) c \<noteq> []"
    using seeded [OF assms] by metis
  have "\<forall>c\<in>fst ` set ALL_DOWN_ROUTING. ordered_platforms db' (tenant_uid t) c \<noteq> []"
    using t(3) by (simp add: ALL_DOWN_ROUTING_def STARTER_ROUTING_def)
  then show ?thesis
    using t(1) [of db'] seed_merchants_again [OF t(2), of 0] seed_routing_again by (simp add: seed_def)
qed

end
