(* ===== verification/Tool_Props.thy ===== *)
theory Tool_Props
  imports Cascade_Delete Integrity_Turn Compliance_Props Seeding
begin

text \<open>
  The development tools keep the store well-formed: the chat simulator, whose reset is an erasure
  that leaves the work to the foreign keys, and the seeding.
\<close>

subsection \<open>Sessions\<close>

lemma tx_now_keys:
  "lead_ok (db\<lparr>tx_now := x\<rparr>) = lead_ok db" "conversation_ok (db\<lparr>tx_now := x\<rparr>) = conversation_ok db"
  "message_ok (db\<lparr>tx_now := x\<rparr>) = message_ok db" "consent_ok (db\<lparr>tx_now := x\<rparr>) = consent_ok db"
  "booking_ok (db\<lparr>tx_now := x\<rparr>) = booking_ok db" "notification_ok (db\<lparr>tx_now := x\<rparr>) = notification_ok db"
  "feedback_ok (db\<lparr>tx_now := x\<rparr>) = feedback_ok db" "attribution_ok (db\<lparr>tx_now := x\<rparr>) = attribution_ok db"
  "handoff_ok (db\<lparr>tx_now := x\<rparr>) = handoff_ok db" "audit_ok (db\<lparr>tx_now := x\<rparr>) = audit_ok db"
  by (rule ext, simp add: lead_ok_def conversation_ok_def message_ok_def consent_ok_def booking_ok_def
      notification_ok_def feedback_ok_def attribution_ok_def handoff_ok_def audit_ok_def audit_ids_ok_def
      key_defs cong: option.case_cong)+

lemma well_formed_begin [simp]: "well_formed (begin_session t db) = well_formed db"
  unfolding well_formed_def begin_session_def Let_def tx_now_keys by simp

lemma well_formed_ensure_tenant:
  assumes "well_formed db" and "ensure_tenant s nm db = (t, db')"
  shows "well_formed db'"
proof (cases "get_by_slug db s")
  case None
  let ?t = "\<lparr>tenant_uid = next_id db, tenant_slug = s, tenant_name = nm, default_locale = ''en''\<rparr>"
  have db': "db' = db\<lparr>next_id := Suc (next_id db), tenants := tenants db @ [?t]\<rparr>"
    using assms(2) None by (auto simp: ensure_tenant_def new_id_def Let_def)
  have x: "extends db db'" by (auto simp: extends_def key_defs db')
  note t = tables_mono [OF assms(1) x]
  have same: "leads db' = leads db" "conversations db' = conversations db" "messages db' = messages db"
    "consents db' = consents db" "bookings db' = bookings db" "notifications db' = notifications db"
    "feedbacks db' = feedbacks db" "attributions db' = attributions db" "handoffs db' = handoffs db"
    "audit_log db' = audit_log db" by (simp_all add: db')
  show ?thesis unfolding well_formed_def Let_def same using t by simp
qed (use assms in \<open>simp add: ensure_tenant_def\<close>)

subsection \<open>Forgetting a consumer\<close>

lemma audit_of_without: "ct_delete audit_table p (without p db) = without p db"
proof -
  have "filter (other_audit p) (filter (other_audit p) (audit_log db)) = filter (other_audit p) (audit_log db)"
    by (simp add: filter_filter)
  then show ?thesis by (simp add: audit_table_def without_def other_audit_def)
qed

lemma reset_is_without:
  assumes "well_formed db" and "get_by_wa_id db tid w = Some l"
  shows "reset_consumer tid w db = without (\<lambda>i. i = lead_id l) db"
proof -
  have "l \<in> set (leads db)" using get_by_wa_id_Some [OF assms(2)] by simp
  then have "drop_leads (\<lambda>i. i = lead_id l) db = without (\<lambda>i. i = lead_id l) db"
    by (intro drop_leads_is_without well_formed_owned [OF assms(1)]) auto
  then show ?thesis by (simp add: reset_consumer_def assms(2) audit_of_without)
qed

text \<open>Deleting the row of a consumer and leaving the rest to the foreign keys, as the chat
  simulator's reset does, is the erasure: in a well-formed store it leaves exactly what deleting from
  the consumer's tables one after the other, children first, leaves.\<close>

theorem reset_is_erasure:
  assumes "well_formed db" and "get_by_wa_id db tid w = Some l"
  shows "reset_consumer tid w db
    = snd (delete_tables (\<lambda>i. i = lead_id l) (CONSUMER_TABLES @ [audit_table, leads_table]) db)"
proof -
  have "l \<in> set (leads db)" using get_by_wa_id_Some [OF assms(2)] by simp
  then show ?thesis
    using reset_is_without [OF assms] delete_consumer_tables [OF well_formed_owned [OF assms(1)], of "\<lambda>i. i = lead_id l"]
    by auto
qed

theorem reset_is_erasure_witness:
  "\<exists>l. get_by_wa_id sample_db 1 ''971'' = Some l \<and> reset_consumer 1 ''971'' sample_db
    = snd (delete_tables (\<lambda>i. i = lead_id l) (CONSUMER_TABLES @ [audit_table, leads_table]) sample_db)"
proof -
  have "\<exists>l. get_by_wa_id sample_db 1 ''971'' = Some l"
    by (simp add: get_by_wa_id_def sample_db_def empty_store_def new_lead_def scoped_def Let_def)
  then obtain l where l: "get_by_wa_id sample_db 1 ''971'' = Some l" ..
  show ?thesis using l reset_is_erasure [OF sample_db_well_formed l] by blast
qed

lemma reset_well_formed: "well_formed db \<Longrightarrow> well_formed (reset_consumer tid w db)"
  using reset_is_without [of db tid w] without_well_formed [of db]
  by (cases "get_by_wa_id db tid w") (auto simp: reset_consumer_def)

subsection \<open>A turn of the chat\<close>

lemma handle_inbound_tenants:
  assumes "handle_inbound pipe inb corr db s = (Inr (r, db'), s')"
  shows "tenants db' = tenants db"
  using assms
proof (cases rule: handle_inboundE)
  case (duplicate t m)
  then show ?thesis by (simp add: duplicate_turn_def write_audit_def new_id_def)
next
  case (turn t)
  then show ?thesis using new_turn_transcript [OF turn(3)] by (simp add: new_id_def)
qed

lemma answer_turn_continuation:
  assumes "answer_turn pipe x inb corr db s = (Inr (r, db'), s')" and "tr_deferred r = Some k"
  shows "ct_audit k = tc_audit x"
  using assms by (auto simp: answer_turn_def Let_def silent_result_def split: option.splits prod.splits)

text \<open>A deferred search writes on under the trail of the turn it was deferred in.\<close>

lemma continuation_fits:
  assumes "well_formed db" and "handle_inbound pipe inb corr db s = (Inr (r, db'), s')"
    and "tr_deferred r = Some k" and "get_by_slug db (in_tenant_slug inb) = Some t"
  shows "trail_fits (ct_audit k) (Some (tr_conversation r)) (Some (tr_lead r)) (tenant_uid t)"
  using assms(2)
proof (cases rule: handle_inboundE)
  case (duplicate t' m)
  then show ?thesis using assms(3) by (simp add: duplicate_turn_def silent_result_def)
next
  case (turn t')
  then have t: "t' = t" using assms(4) by simp
  let ?now = "wall pipe s" and ?db0 = "snd (new_id db)" and ?a = "new_trail (tenant_uid t) corr (next_id db)"
  obtain x db1 where x: "open_turn t inb ?now ?a ?db0 = (x, db1)" by fastforce
  have wf: "well_formed ?db0" by (rule sound_well_formed [OF sound_new_id [OF assms(1)]])
  have "tenant_uid t \<in> tenant_keys ?db0"
    using tenant_key [OF assms(4)] sound_new_id [OF assms(1)] by (auto simp: sound_step_def extends_def)
  then have ready: "turn_ready x db1" using sound_open_turn [OF wf _ trail_fits_new x] by blast
  have tid: "tc_tenant x = tenant_uid t" using open_turn_effect(3) [OF x] .
  have "answer_turn pipe x inb corr db1 s = (Inr (r, db'), s')"
    using turn(3) x assms(3) unfolding t
    by (auto simp: new_turn_def Let_def muted_turn_def thanks_turn_def silent_result_def
        split: if_splits option.splits prod.splits)
  note a = answer_turn_continuation [OF this assms(3)]
  have "tr_conversation r = turn_conv x" "tr_lead r = turn_lead x"
    using \<open>answer_turn pipe x inb corr db1 s = (Inr (r, db'), s')\<close> by (auto elim: answer_turnE)
  then show ?thesis using ready a tid by (simp add: turn_ready_def)
qed

lemma chat_turn_well_formed:
  assumes "well_formed db" and "chat_turn pipe opts tid tslug corr wa line (db, s) = (x, db', s')"
  shows "well_formed db'"
proof -
  let ?db0 = "begin_session (wall pipe s) db"
  let ?inb = "console_message tslug wa line"
  have wf0: "well_formed ?db0"
    using assms(1) by simp
  obtain res s1 where h: "handle_inbound pipe ?inb corr ?db0 s = (res, s1)" by fastforce
  show ?thesis
  proof (cases res)
    case (Inl e)
    then have "db' = db" using assms(2) h by (cases e) (auto simp: chat_turn_def)
    then show ?thesis using assms(1) by simp
  next
    case (Inr p)
    obtain r db1 where p: "p = (r, db1)" by fastforce
    note h' = h [unfolded Inr p]
    obtain t where t: "get_by_slug ?db0 tslug = Some t" "thread_at db1 (tr_conversation r) (tr_lead r) (tenant_uid t)"
      and s1: "sound_step ?db0 db1"
      using sound_handle_inbound [OF wf0 h'] by (auto simp: console_message_def)
    have wf1: "well_formed db1" by (rule sound_well_formed [OF s1])
    show ?thesis
    proof (cases "tr_deferred r")
      case None
      then show ?thesis using assms(2) h' wf1 by (auto simp: chat_turn_def)
    next
      case (Some k)
      let ?db2 = "begin_session (wall pipe s1) db1"
      obtain res2 s2 where d: "deliver_deferred (pipe_phrasebank pipe) tslug (tr_conversation r) (tr_lead r)
          channel.CONSOLE k corr ?db2 s1 = (res2, s2)" by fastforce
      have k: "trail_fits (ct_audit k) (Some (tr_conversation r)) (Some (tr_lead r)) (tenant_uid t)"
        by (rule continuation_fits [OF wf0 h' Some]) (use t(1) in \<open>simp add: console_message_def\<close>)
      show ?thesis
      proof (cases res2)
        case (Inl e)
        then show ?thesis using assms(2) h' Some d wf1 by (auto simp: chat_turn_def)
      next
        case (Inr q)
        obtain f db3 where q: "q = (f, db3)" by fastforce
        have "get_by_slug ?db2 tslug = Some t" "thread_at ?db2 (tr_conversation r) (tr_lead r) (tenant_uid t)"
          using t handle_inbound_tenants [OF h'] by (simp_all add: get_by_slug_def begin_session_def thread_at_def key_defs)
        from sound_deliver_deferred [OF _ this k d [unfolded Inr q]] wf1
        have "well_formed db3" by (simp add: sound_step_def)
        then show ?thesis using assms(2) h' Some d Inr q by (auto simp: chat_turn_def)
      qed
    qed
  qed
qed

subsection \<open>Seeding\<close>

lemma well_formed_grown:
  assumes "well_formed db" and "tenants db' = tenants db" and "leads db' = leads db"
    and "conversations db' = conversations db" and "messages db' = messages db" and "bookings db' = bookings db"
    and "next_id db \<le> next_id db'"
    and "consents db' = consents db" "notifications db' = notifications db" "feedbacks db' = feedbacks db"
    "attributions db' = attributions db" "handoffs db' = handoffs db" "audit_log db' = audit_log db"
  shows "well_formed db'"
  using tables_mono [OF assms(1) extends_fields [OF assms(2-7)]] assms(2-) by (simp add: well_formed_def Let_def)

lemma well_formed_new_merchant: "well_formed db \<Longrightarrow> well_formed (new_merchant tid n m db)"
  by (erule well_formed_grown) (simp_all add: new_merchant_def new_id_def split: prod.splits)

lemma well_formed_seed_merchants: "well_formed db \<Longrightarrow> well_formed (snd (seed_merchants tid n mcs db))"
  by (induction tid n mcs db rule: seed_merchants.induct) (auto simp: well_formed_new_merchant)

lemma well_formed_seed_platforms:
  "well_formed db \<Longrightarrow> seed_platforms tid cat pos ps db = Some db' \<Longrightarrow> well_formed db'"
proof (induction ps arbitrary: pos db)
  case (Cons p ps)
  let ?db1 = "db\<lparr>next_id := Suc (next_id db), routing := routing db @ [\<lparr>rc_id = next_id db, rc_tenant = tid,
      rc_category = cat, rc_platform = p, rc_position = pos, rc_enabled = True\<rparr>]\<rparr>"
  have "seed_platforms tid cat (pos + 1) ps ?db1 = Some db'"
    using Cons.prems(2) by (auto simp: new_id_def split: if_splits)
  moreover have "well_formed ?db1" by (rule well_formed_grown [OF Cons.prems(1)]) simp_all
  ultimately show ?case using Cons.IH by blast
qed simp

lemma well_formed_seed_routing:
  "well_formed db \<Longrightarrow> seed_routing tid table db = Some db' \<Longrightarrow> well_formed db'"
  by (induction tid table db rule: seed_routing.induct)
    (auto split: if_splits option.splits dest: well_formed_seed_platforms)

lemma well_formed_seed:
  assumes "well_formed db" and "seed with_routing all_down s nm db = (yes, db')"
  shows "well_formed db'"
proof -
  obtain t db1 where t: "ensure_tenant s nm db = (t, db1)" by fastforce
  obtain k db2 where m: "seed_merchants (tenant_uid t) 0 STARTER_MERCHANTS db1 = (k, db2)" by fastforce
  have 1: "well_formed db1" by (rule well_formed_ensure_tenant [OF assms(1) t])
  have 2: "well_formed db2" using well_formed_seed_merchants [OF 1, of "tenant_uid t" 0 STARTER_MERCHANTS] m by simp
  show ?thesis
    using assms(2) 1 2 well_formed_seed_routing [OF 2]
    by (auto simp: seed_def t m split: if_splits option.splits)
qed

end
