(* ===== verification/System.thy ===== *)
theory System
  imports Webhook_Props Integrity_Pass Tool_Props
begin

text \<open>
  The running service as a step relation: a tenant is provisioned, a webhook request is received, a
  continuation is delivered, a pass of the scheduler runs, an operator acts, a consumer is erased, a
  retention sweep runs; beside the service, the deployment is seeded and the chat simulator takes
  turns or forgets its consumer. Every session begins at a time of its own. Whatever the order, the store
  stays well-formed, so what is proved of well-formed stores holds of every store the service
  reaches.
\<close>

subsection \<open>The webhook\<close>

lemma well_formed_receipt:
  assumes "well_formed db" and "apply_receipt now r (n, db) = Some (n', db')"
  shows "well_formed db'"
proof -
  have "well_formed (update_message mid (mark_message now r) db)" for mid
    using sound_well_formed [OF sound_update_message [OF assms(1), of "mark_message now r"]] by simp
  then show ?thesis using assms by (auto simp: apply_receipt_def split: list.splits if_splits)
qed

lemma well_formed_receipts:
  "well_formed db \<Longrightarrow> apply_all now rs (n, db) = Some (n', db') \<Longrightarrow> well_formed db'"
proof (induction rs arbitrary: n db)
  case (Cons r rs)
  obtain n1 db1 where r: "apply_receipt now r (n, db) = Some (n1, db1)" "apply_all now rs (n1, db1) = Some (n', db')"
    using Cons.prems(2) by (cases "apply_receipt now r (n, db)") auto
  show ?case using Cons.IH [OF well_formed_receipt [OF Cons.prems(1) r(1)] r(2)] .
qed simp

lemma well_formed_message:
  assumes "well_formed (wh_db w)" and "receive_message pipe st corr inb w = (rs, w')"
  shows "well_formed (wh_db w')"
proof (cases "allow_request ''webhook.consumer'' (in_wa_id inb) (consumer_rate_per_minute st) w")
  case None
  then show ?thesis using assms by (simp add: receive_message_def)
next
  case (Some p)
  obtain yes w1 where p: "p = (yes, w1)" by fastforce
  have w1: "wh_db w1 = wh_db w" using allow_request_frame [OF Some [unfolded p]] by simp
  obtain res s' where h: "handle_inbound pipe inb corr (begin_session (wall pipe (wh_run w1)) (wh_db w1)) (wh_run w1)
      = (res, s')" by fastforce
  show ?thesis
  proof (cases "yes \<and> (\<exists>q. res = Inr q)")
    case True
    then obtain r db' where q: "res = Inr (r, db')" by fastforce
    have "well_formed (begin_session (wall pipe (wh_run w1)) (wh_db w1))" using assms(1) w1 by simp
    from sound_handle_inbound [OF this h [unfolded q]] have "well_formed db'" by (simp add: sound_step_def)
    then show ?thesis using assms(2) True h q by (auto simp: receive_message_def Some p)
  next
    case False
    then have "wh_db w' = wh_db w"
      using assms(2) h w1 by (cases yes; cases res) (auto simp: receive_message_def Some p)
    then show ?thesis using assms(1) by simp
  qed
qed

lemma well_formed_messages:
  "well_formed (wh_db w) \<Longrightarrow> receive_messages pipe st corr ms' w = (rs, w') \<Longrightarrow> well_formed (wh_db w')"
proof (induction ms' arbitrary: w rs w')
  case (Cons m rest)
  obtain r w1 where r: "receive_message pipe st corr m w = (r, w1)" by fastforce
  have w1: "well_formed (wh_db w1)" by (rule well_formed_message [OF Cons.prems(1) r])
  obtain rs' w2 where rest: "receive_messages pipe st corr rest w1 = (rs', w2)" by fastforce
  show ?case
    using Cons.prems(2) Cons.IH [OF w1 rest] w1 r rest by (cases r) auto
qed simp

lemma well_formed_receive:
  assumes "well_formed (wh_db w)" and "receive hmac pipe st b nx rq w = (a, w')"
  shows "well_formed (wh_db w')"
  using assms(2)
proof (cases rule: receive_cases)
  case stopped
  then show ?thesis using assms(1) by simp
next
  case (passed sig w1 corr)
  have w1: "well_formed (wh_db w1)" using passed(3) assms(1) by simp
  show ?thesis
  proof (cases "bsp_inbound b (rq_body rq) (default_tenant_slug st)")
    case None
    then show ?thesis using passed(5) w1 by (simp add: receive_body_def)
  next
    case (Some inbound)
    let ?now = "wall pipe (wh_run w1)"
    show ?thesis
    proof (cases "apply_receipts b (rq_body rq) ?now (begin_session ?now (wh_db w1))")
      case None
      then show ?thesis using passed(5) w1 Some by (simp add: receive_body_def Let_def)
    next
      case (Some p)
      obtain n db1 where p: "p = (n, db1)" by fastforce
      have db1: "well_formed db1"
        using Some w1 unfolding p apply_receipts_def
        by (auto split: option.splits dest: well_formed_receipts [rotated])
      obtain rs w2 where m: "receive_messages pipe st corr inbound (w1\<lparr>wh_db := db1\<rparr>) = (rs, w2)" by fastforce
      have "w' = w2" using passed(5) Some m \<open>bsp_inbound b _ _ = Some inbound\<close>
        by (simp add: receive_body_def Let_def p apfst_def)
      then show ?thesis using well_formed_messages [OF _ m] db1 by simp
    qed
  qed
qed

subsection \<open>Steps\<close>

inductive step :: "'w webhook_state \<Rightarrow> 'w webhook_state \<Rightarrow> bool" where
  provisioned: "ensure_tenant s nm (begin_session t (wh_db w)) = (tn, db') \<Longrightarrow> step w (w\<lparr>wh_db := db'\<rparr>)"
| received: "receive hmac pipe st b nx rq w = (a, w') \<Longrightarrow> step w w'"
| followed_up: "get_by_slug (wh_db w) tenant = Some tn \<Longrightarrow> thread_at (wh_db w) cid lid (tenant_uid tn) \<Longrightarrow>
    trail_fits (ct_audit k) (Some cid) (Some lid) (tenant_uid tn) \<Longrightarrow>
    deliver_deferred pb tenant cid lid ch k corr (begin_session t (wh_db w)) (wh_run w) = (Inr (r, db'), s') \<Longrightarrow>
    step w (w\<lparr>wh_db := db', wh_run := s'\<rparr>)"
| notified: "run_pass sch prov now t corr (begin_session t (wh_db w)) = Some (ds, db') \<Longrightarrow>
    step w (w\<lparr>wh_db := db'\<rparr>)"
| claimed: "claim tid hid op corr now (begin_session t (wh_db w)) = Inr (v, db') \<Longrightarrow> step w (w\<lparr>wh_db := db'\<rparr>)"
| replied: "reply tid hid op txt corr now (begin_session t (wh_db w)) = Inr (m, db') \<Longrightarrow>
    step w (w\<lparr>wh_db := db'\<rparr>)"
| released: "release tid hid op nt corr now (begin_session t (wh_db w)) = Inr (v, db') \<Longrightarrow>
    step w (w\<lparr>wh_db := db'\<rparr>)"
| erased: "erase_consumer sha256 uuid_text tid wa req t0 t1 (begin_session t (wh_db w)) = Some (er, db') \<Longrightarrow>
    step w (w\<lparr>wh_db := db'\<rparr>)"
| swept: "sweep_retention tid pol now t0 dry (begin_session t (wh_db w)) = (rs, db') \<Longrightarrow>
    step w (w\<lparr>wh_db := db'\<rparr>)"
| seeded: "seed with_routing all_down s nm (begin_session t (wh_db w)) = (ok', db') \<Longrightarrow> step w (w\<lparr>wh_db := db'\<rparr>)"
| chatted: "chat_turn pipe opts tid tslug corr wa line (wh_db w, wh_run w) = (x, db', s') \<Longrightarrow>
    step w (w\<lparr>wh_db := db', wh_run := s'\<rparr>)"
| forgotten: "step w (w\<lparr>wh_db := reset_consumer tid wa (begin_session t (wh_db w))\<rparr>)"

inductive_cases stepE: "step w w'"

lemma well_formed_sweep:
  assumes "well_formed db" and "sweep_retention tid pol now t0 dry db = (rs, db')"
  shows "well_formed db'"
proof (cases dry)
  case True
  then have "db' = db" using assms(2) unfolding sweep_retention_def by (auto simp: Let_def dry_sweep)
  then show ?thesis using assms(1) by simp
next
  case False
  then show ?thesis
    using sweep_effect [OF assms(1), of tid pol now t0 rs db'] assms(2)
    by (simp add: log_compliance_well_formed without_well_formed drop_expired_well_formed assms(1))
qed

lemma well_formed_erased:
  assumes "well_formed db" and "erase_consumer sha256 uuid_text tid wa req t0 t1 db = Some (er, db')"
  shows "well_formed db'"
  unfolding erasure_exact_aux(1) [OF assms]
  by (intro log_compliance_well_formed without_well_formed assms(1))

lemma step_well_formed: "step w w' \<Longrightarrow> well_formed (wh_db w) \<Longrightarrow> well_formed (wh_db w')"
proof (induction rule: step.induct)
  case (provisioned s nm t w tn db')
  then show ?case using well_formed_ensure_tenant [OF _ provisioned(1)] by simp
next
  case (received hmac pipe st b nx rq w a w')
  then show ?case using well_formed_receive by blast
next
  case (followed_up w tenant tn cid lid k pb ch corr t r db' s')
  have "get_by_slug (begin_session t (wh_db w)) tenant = Some tn"
    "thread_at (begin_session t (wh_db w)) cid lid (tenant_uid tn)"
    using followed_up(1,2) by (simp_all add: begin_session_def get_by_slug_def thread_at_def key_defs)
  from sound_deliver_deferred [OF _ this followed_up(3,4)] followed_up(5) show ?case
    by (simp add: sound_step_def)
next
  case (notified sch prov now t corr w ds db')
  then show ?case using sound_run_pass [OF _ notified(1)] by (simp add: sound_step_def)
next
  case (claimed tid hid op corr now t w v db')
  then show ?case using sound_claim [OF _ claimed(1)] by (simp add: sound_step_def)
next
  case (replied tid hid op body corr now t w m db')
  then show ?case using sound_reply [OF _ replied(1)] by (simp add: sound_step_def)
next
  case (released tid hid op nt corr now t w v db')
  then show ?case using sound_release [OF _ released(1)] by (simp add: sound_step_def)
next
  case (erased sha256 uuid_text tid wa req t0 t1 t w er db')
  then show ?case using well_formed_erased [OF _ erased(1)] by simp
next
  case (swept tid pol now t0 dry t w rs db')
  then show ?case using well_formed_sweep [OF _ swept(1)] by simp
next
  case (seeded with_routing all_down s nm t w ok' db')
  then show ?case using well_formed_seed [OF _ seeded(1)] by simp
next
  case (chatted pipe opts tid tslug corr wa line w x db' s')
  then show ?case using chat_turn_well_formed [OF _ chatted(1)] by simp
next
  case (forgotten w tid wa t)
  then show ?case by (simp add: reset_well_formed)
qed

lemma empty_well_formed: "well_formed (empty_store t)"
  by (simp add: well_formed_def empty_store_def Let_def)

lemma reached_well_formed: "rtranclp step w0 w \<Longrightarrow> well_formed (wh_db w0) \<Longrightarrow> well_formed (wh_db w)"
  by (induction rule: rtranclp_induct) (auto dest: step_well_formed)

text \<open>C24. Whatever requests, continuations, passes, operators' actions, erasures and sweeps follow one
  another, in whatever order and at whatever times, every key of the store stays unique and below the
  next one, and every row refers to rows that exist and are of its own lead and tenant.\<close>

theorem store_stays_well_formed:
  assumes "wh_db w0 = empty_store t" and "rtranclp step w0 w"
  shows "well_formed (wh_db w)"
  using reached_well_formed [OF assms(2)] assms(1) empty_well_formed by simp

text \<open>A tenant is provisioned and a sweep runs.\<close>

definition started :: "fake_world webhook_state" where
  "started = \<lparr>wh_limiter = new_memory_store, wh_db = empty_store 0, wh_run = sample_run\<rparr>"

definition provisioned_db :: store where
  "provisioned_db = snd (ensure_tenant ''m'' ''M'' (begin_session 5 (empty_store 0)))"

definition swept_db :: store where
  "swept_db = snd (sweep_retention 0 None (Some 7) 7 False (begin_session 7 provisioned_db))"

theorem store_stays_well_formed_witness:
  "\<exists>w. rtranclp step started w \<and> well_formed (wh_db w) \<and> length (tenants (wh_db w)) = 1
    \<and> length (audit_log (wh_db w)) = 1"
proof -
  have 1: "step started (started\<lparr>wh_db := provisioned_db\<rparr>)"
    by (rule provisioned [of "''m''" "''M''" 5 _ "fst (ensure_tenant ''m'' ''M'' (begin_session 5 (empty_store 0)))"])
      (simp add: provisioned_db_def started_def)
  have 2: "step (started\<lparr>wh_db := provisioned_db\<rparr>) (started\<lparr>wh_db := swept_db\<rparr>)"
    using swept [of 0 None "Some 7" 7 False 7 "started\<lparr>wh_db := provisioned_db\<rparr>"
        "fst (sweep_retention 0 None (Some 7) 7 False (begin_session 7 provisioned_db))" swept_db]
    by (simp add: swept_db_def)
  have r: "rtranclp step started (started\<lparr>wh_db := swept_db\<rparr>)" using 1 2 by simp
  have "wh_db started = empty_store 0" by (simp add: started_def)
  from store_stays_well_formed [OF this r] have "well_formed swept_db" by simp
  moreover have "length (tenants swept_db) = 1 \<and> length (audit_log swept_db) = 1" by code_simp
  ultimately show ?thesis using r by (intro exI [of _ "started\<lparr>wh_db := swept_db\<rparr>"]) simp
qed

end
