(* ===== verification/Redaction.thy ===== *)
theory Redaction
  imports Config
begin

text \<open>
  What reaches a log line, the processor of \<^verbatim>\<open>mawjood/observability/logging.py\<close>: a value under a
  secret or a content key is dropped, one under an identifying key masked, every other text swept for
  runs of digits that could be a telephone number. An event is a dictionary of values; a list of the
  model stands for a Python list or tuple, and \<open>ellipsis\<close> is the UTF-8 text of the character the
  cut ends in. Texts are ASCII here: a length counts bytes, and a digit is one of 0 to 9.
\<close>

definition REDACTED :: string where
  "REDACTED = ''***redacted***''"

definition MAX_REDACT_DEPTH :: nat where
  "MAX_REDACT_DEPTH = 6"

definition MAX_VALUE_LENGTH :: nat where
  "MAX_VALUE_LENGTH = 2000"

definition ellipsis :: string where
  "ellipsis = [CHR 0xE2, CHR 0x80, CHR 0xA6]"

subsection \<open>Keys\<close>

text \<open>\<open>a[-_]?b\<close>, anywhere\<close>

definition joined :: "string \<Rightarrow> string \<Rightarrow> string list" where
  "joined a b = [a @ b, a @ ''-'' @ b, a @ ''_'' @ b]"

definition SECRET_KEYS :: "string list" where
  "SECRET_KEYS = [''password'', ''passwd'', ''secret'', ''token''] @ joined ''api'' ''key''
     @ [''apikey'', ''authorization''] @ joined ''auth'' ''header'' @ [''credential'']
     @ joined ''private'' ''key'' @ joined ''access'' ''key''
     @ [''signature'', ''cookie'', ''dsn''] @ joined ''session'' ''key''"

definition PII_KEYS :: "string list" where
  "PII_KEYS = [''phone'', ''msisdn''] @ joined ''whatsapp'' ''id'' @ joined ''wa'' ''id'' @ [''email'']"

definition CONTENT_KEYS :: "string list" where
  "CONTENT_KEYS = [''body'', ''text'', ''message'', ''consumer_text'', ''display_name'',
     ''profile_name'', ''notes'', ''comment'', ''raw'', ''raw_payload'', ''reply'', ''prompt'',
     ''completion'']"

definition secret_key :: "string \<Rightarrow> bool" where
  "secret_key k = list_ex (\<lambda>p. mentions p k) SECRET_KEYS"

definition pii_key :: "string \<Rightarrow> bool" where
  "pii_key k = list_ex (\<lambda>p. mentions p k) PII_KEYS"

text \<open>\<open>$\<close> also matches before a final newline.\<close>

definition content_key :: "string \<Rightarrow> bool" where
  "content_key k = (k \<in> set CONTENT_KEYS \<or> k \<in> set (map (\<lambda>c. c @ [CHR 0x0A]) CONTENT_KEYS))"

subsection \<open>Values\<close>

definition mask_pii :: "string \<Rightarrow> string" where
  "mask_pii v = (if length v \<le> 3 then replicate (length v) CHR ''*''
     else replicate (length v - 3) CHR ''*'' @ drop (length v - 3) v)"

text \<open>\<open>\+?\d{9,15}\<close> at the front, greedily: how many characters it takes.\<close>

definition digits_ahead :: "string \<Rightarrow> nat" where
  "digits_ahead s = min 15 (length (takeWhile is_digit s))"

definition number_ahead :: "string \<Rightarrow> nat" where
  "number_ahead s = (case s of
     [] \<Rightarrow> 0
   | c # cs \<Rightarrow>
       if c = CHR ''+'' \<and> 9 \<le> digits_ahead cs then Suc (digits_ahead cs)
       else if 9 \<le> digits_ahead s then digits_ahead s else 0)"

function mask_numbers :: "string \<Rightarrow> string" where
  "mask_numbers s =
     (case s of
        [] \<Rightarrow> []
      | c # cs \<Rightarrow>
          if number_ahead s = 0 then c # mask_numbers cs
          else mask_pii (take (number_ahead s) s) @ mask_numbers (drop (number_ahead s) s))"
  by pat_completeness auto
termination
  by (relation "measure length") auto

declare mask_numbers.simps [simp del]

definition bounded :: "string \<Rightarrow> string" where
  "bounded s = (if length s \<le> MAX_VALUE_LENGTH then s else take MAX_VALUE_LENGTH s @ ellipsis)"

text \<open>\<open>_scrub\<close> and \<open>_scrub_pair\<close>; the depth left counts down from \<open>_MAX_REDACT_DEPTH\<close>.\<close>

fun scrub :: "nat \<Rightarrow> wire \<Rightarrow> wire"
and scrub_pair :: "nat \<Rightarrow> string \<times> wire \<Rightarrow> string \<times> wire" where
  "scrub 0 v = v"
| "scrub (Suc n) (WDict d) = WDict (map (scrub_pair (Suc n)) d)"
| "scrub (Suc n) (WList xs) = WList (map (scrub n) xs)"
| "scrub (Suc n) v = v"
| "scrub_pair n (k, v) =
     (k, if secret_key (lower k) \<or> content_key (lower k) then WText REDACTED
         else case v of
             WText s \<Rightarrow> WText (if pii_key (lower k) then mask_pii s else bounded (mask_numbers s))
           | _ \<Rightarrow> (case n of 0 \<Rightarrow> v | Suc m \<Rightarrow> scrub m v))"

definition redact_processor :: "(string \<times> wire) list \<Rightarrow> (string \<times> wire) list" where
  "redact_processor event = map (scrub_pair MAX_REDACT_DEPTH) event"


text \<open>The longest run of digits in a text.\<close>

fun longest_run :: "string \<Rightarrow> nat" where
  "longest_run [] = 0"
| "longest_run (c # cs) = max (length (takeWhile is_digit (c # cs))) (longest_run cs)"

text \<open>The pairs of the nested dictionaries an event carries, down to a depth.\<close>

fun dict_pairs :: "nat \<Rightarrow> wire \<Rightarrow> (string \<times> wire) list" where
  "dict_pairs (Suc n) (WDict d) = concat (map (\<lambda>p. p # dict_pairs n (snd p)) d)"
| "dict_pairs _ _ = []"

text \<open>No telephone number of the input is longer than E.164 allows.\<close>

fun plausible :: "string \<times> wire \<Rightarrow> bool" where
  "plausible (k, v) = (case v of WText s \<Rightarrow> longest_run s \<le> 15 | _ \<Rightarrow> True)"

text \<open>What may be under a key in a log line.\<close>

fun pair_safe :: "string \<times> wire \<Rightarrow> bool" where
  "pair_safe (k, v) =
     (if secret_key (lower k) \<or> content_key (lower k) then v = WText REDACTED
      else case v of
          WText s \<Rightarrow> longest_run s \<le> 8
            \<and> (pii_key (lower k) \<longrightarrow> length (filter (\<lambda>c. c \<noteq> CHR ''*'') s) \<le> 3)
        | _ \<Rightarrow> True)"

subsection \<open>No telephone number is left\<close>

lemma run_le_longest: "length (takeWhile is_digit s) \<le> longest_run s"
  by (cases s) auto

lemma longest_run_append:
  "xs = [] \<or> \<not> is_digit (last xs) \<or> ys = [] \<or> \<not> is_digit (hd ys)
    \<Longrightarrow> longest_run (xs @ ys) = max (longest_run xs) (longest_run ys)"
proof (induction xs)
  case (Cons c cs)
  have "length (takeWhile is_digit (c # cs @ ys)) = length (takeWhile is_digit (c # cs))
    \<or> (list_all is_digit (c # cs) \<and> is_digit (hd ys) \<and> ys \<noteq> [])"
    by (cases "list_all is_digit (c # cs)"; cases ys) (auto simp: list_all_iff takeWhile_append takeWhile_eq_all_conv [THEN iffD2])
  moreover have "list_all is_digit (c # cs) \<Longrightarrow> is_digit (last (c # cs))"
    by (simp add: list_all_iff)
  ultimately show ?case using Cons by (cases "cs = []") (auto split: if_splits)
qed simp

lemma longest_run_drop: "longest_run (drop n s) \<le> longest_run s"
proof (induction s arbitrary: n)
  case (Cons c cs)
  then show ?case by (cases n) (auto simp: le_max_iff_disj)
qed simp

lemma length_takeWhile_take: "length (takeWhile P (take n xs)) = min n (length (takeWhile P xs))"
  by (induction xs arbitrary: n) (auto simp: take_Cons split: nat.split)

lemma longest_run_take: "longest_run (take n s) \<le> longest_run s"
proof (induction s arbitrary: n)
  case (Cons c cs)
  show ?case
  proof (cases n)
    case (Suc m)
    have "length (takeWhile is_digit (take (Suc m) (c # cs))) \<le> length (takeWhile is_digit (c # cs))"
      by (simp only: length_takeWhile_take min.cobounded2)
    then show ?thesis using Cons [of m] Suc by (auto simp: le_max_iff_disj)
  qed simp
qed simp

lemma longest_run_length: "longest_run s \<le> length s"
proof (induction s)
  case (Cons c cs)
  have "length (takeWhile is_digit (c # cs)) \<le> length (c # cs)" by (rule length_takeWhile_le)
  then show ?case using Cons by simp
qed simp

lemma longest_run_stars: "longest_run (replicate n CHR ''*'') = 0"
  by (induction n) (auto simp: is_digit_def)

lemma masked_run: "longest_run (mask_pii v) \<le> 3"
proof (cases "length v \<le> 3")
  case False
  have "longest_run (mask_pii v) = longest_run (drop (length v - 3) v)"
    using False longest_run_append [of "replicate (length v - 3) CHR ''*''" "drop (length v - 3) v"]
    by (simp add: mask_pii_def longest_run_stars is_digit_def)
  also have "\<dots> \<le> 3" using longest_run_length [of "drop (length v - 3) v"] False by simp
  finally show ?thesis .
qed (simp add: mask_pii_def longest_run_stars)

lemma short_run_kept:
  "length (takeWhile is_digit s) < 9 \<Longrightarrow> takeWhile is_digit (mask_numbers s) = takeWhile is_digit s"
proof (induction s)
  case Nil
  then show ?case by (simp add: mask_numbers.simps)
next
  case (Cons c cs)
  show ?case
  proof (cases "is_digit c")
    case True
    have "number_ahead (c # cs) = 0"
      using Cons.prems True by (auto simp: number_ahead_def digits_ahead_def digit_not_space)
    then show ?thesis using Cons True by (simp add: mask_numbers.simps [of "c # cs"])
  next
    case False
    have "number_ahead (c # cs) = 0 \<or> 4 \<le> number_ahead (c # cs) \<and> number_ahead (c # cs) \<le> length (c # cs)"
      using length_takeWhile_le [of is_digit cs] length_takeWhile_le [of is_digit "c # cs"]
      by (auto simp: number_ahead_def digits_ahead_def)
    then obtain w where "mask_numbers (c # cs) = c # w \<or> mask_numbers (c # cs) = CHR ''*'' # w"
    proof
      assume z: "number_ahead (c # cs) = 0"
      then show thesis using that [of "mask_numbers cs"] by (simp add: mask_numbers.simps [of "c # cs"])
    next
      assume z: "4 \<le> number_ahead (c # cs) \<and> number_ahead (c # cs) \<le> length (c # cs)"
      then obtain j where j: "number_ahead (c # cs) = Suc j" "3 \<le> j"
        by (cases "number_ahead (c # cs)") auto
      have "\<exists>u. mask_pii (take (Suc j) (c # cs)) = CHR ''*'' # u"
        using z j by (cases "Suc j - 3") (auto simp: mask_pii_def min_def)
      then obtain u where "mask_pii (take (Suc j) (c # cs)) = CHR ''*'' # u" by blast
      then have "mask_numbers (c # cs) = CHR ''*'' # u @ mask_numbers (drop j cs)"
        using j by (subst mask_numbers.simps) simp
      then show thesis using that [of "u @ mask_numbers (drop j cs)"] by simp
    qed
    then show ?thesis using False by (auto simp: is_digit_def)
  qed
qed

lemma run_ends: "takeWhile P (drop (length (takeWhile P xs)) xs) = []"
  by (induction xs) auto

lemma number_ends:
  assumes "longest_run s \<le> 15" and "number_ahead s \<noteq> 0"
  shows "takeWhile is_digit (drop (number_ahead s) s) = []"
proof -
  obtain c cs where s: "s = c # cs" using assms(2) by (cases s) (auto simp: number_ahead_def)
  have a: "digits_ahead cs = length (takeWhile is_digit cs)"
    "digits_ahead s = length (takeWhile is_digit s)"
    using assms(1) run_le_longest [of cs] run_le_longest [of s] by (auto simp: digits_ahead_def s)
  have "number_ahead s = Suc (digits_ahead cs) \<or> number_ahead s = digits_ahead s"
    using assms(2) by (auto simp: number_ahead_def s split: if_splits)
  then show ?thesis
  proof
    assume "number_ahead s = Suc (digits_ahead cs)"
    then show ?thesis using run_ends [of is_digit cs] a(1) by (simp add: s)
  next
    assume "number_ahead s = digits_ahead s"
    then show ?thesis using run_ends [of is_digit s] a(2) by simp
  qed
qed

lemma masked_text:
  "longest_run s \<le> 15 \<Longrightarrow> longest_run (mask_numbers s) \<le> 8"
proof (induction s rule: mask_numbers.induct)
  case (1 s)
  show ?case
  proof (cases s)
    case Nil
    then show ?thesis by (simp add: mask_numbers.simps)
  next
    case (Cons c cs)
    show ?thesis
    proof (cases "number_ahead s = 0")
      case True
      have "length (takeWhile is_digit s) < 9"
        using True Cons 1(3) run_le_longest [of s]
        by (auto simp: number_ahead_def digits_ahead_def split: if_splits)
      then have "length (takeWhile is_digit (mask_numbers s)) < 9" using short_run_kept [of s] by simp
      moreover have "longest_run (mask_numbers cs) \<le> 8" using 1 True Cons by simp
      moreover have "mask_numbers s = c # mask_numbers cs"
        using True by (subst mask_numbers.simps) (simp add: Cons)
      ultimately show ?thesis by simp
    next
      case False
      let ?rest = "drop (number_ahead s) s"
      have "takeWhile is_digit ?rest = []" using number_ends [OF 1(3) False] .
      then have "takeWhile is_digit (mask_numbers ?rest) = []" using short_run_kept [of ?rest] by simp
      then have h: "mask_numbers ?rest = [] \<or> \<not> is_digit (hd (mask_numbers ?rest))"
        by (cases "mask_numbers ?rest") (auto split: if_splits)
      have "longest_run (mask_numbers ?rest) \<le> 8"
        using 1 False Cons longest_run_drop [of "number_ahead s" s] by (auto simp: Cons)
      moreover have "mask_numbers s = mask_pii (take (number_ahead s) s) @ mask_numbers ?rest"
        using False by (subst mask_numbers.simps) (simp add: Cons)
      ultimately show ?thesis
        using longest_run_append [of "mask_pii (take (number_ahead s) s)" "mask_numbers ?rest"] h
          masked_run [of "take (number_ahead s) s"] by auto
    qed
  qed
qed

lemma bounded_run: "longest_run s \<le> 8 \<Longrightarrow> longest_run (bounded s) \<le> 8"
  using longest_run_take [of MAX_VALUE_LENGTH s] longest_run_append [of "take MAX_VALUE_LENGTH s" ellipsis]
  by (auto simp: bounded_def ellipsis_def is_digit_def)

lemma masked_shows:"length (filter (\<lambda>c. c \<noteq> CHR ''*'') (mask_pii v)) \<le> 3"
  using length_filter_le [of "\<lambda>c. c \<noteq> CHR ''*''" "drop (length v - 3) v"]
  by (auto simp: mask_pii_def)

lemma scrub_text: "scrub n v = WText s \<longleftrightarrow> v = WText s"
  by (cases n; cases v) auto

lemma scrubbed_pair:
  assumes "plausible (k, v)"
  shows "pair_safe (scrub_pair n (k, v))"
proof (cases "\<exists>s. v = WText s")
  case True
  then show ?thesis
    using assms bounded_run [OF masked_text] order_trans [OF masked_run, of 8] masked_shows by auto
next
  case False
  then have "\<forall>s. (case n of 0 \<Rightarrow> v | Suc m \<Rightarrow> scrub m v) \<noteq> WText s"
    by (auto simp: scrub_text split: nat.split)
  then show ?thesis using False by (cases v) (auto split: wire.splits)
qed

lemma scrubbed_pairs:
  "list_all plausible (dict_pairs n v) \<Longrightarrow> list_all pair_safe (dict_pairs n (scrub n v))"
  "plausible p \<Longrightarrow> list_all plausible (dict_pairs (n - 1) (snd p)) \<Longrightarrow> 0 < n
     \<Longrightarrow> list_all pair_safe (scrub_pair n p # dict_pairs (n - 1) (snd (scrub_pair n p)))"
proof (induction n v and n p rule: scrub_scrub_pair.induct)
  case (2 n d)
  then show ?case by (auto simp: list_all_iff)
next
  case (5 n k v)
  then have "list_all pair_safe (dict_pairs (n - 1) (snd (scrub_pair n (k, v))))"
    by (cases v; cases n) (auto simp del: pair_safe.simps)
  then show ?case using scrubbed_pair [OF 5(7), of n] by simp
qed auto


definition sample_event :: "(string \<times> wire) list" where
  "sample_event = [(''event'', WText ''call +971501234567 back''), (''Access-Token'', WText ''s3cret''),
     (''request'', WDict [(''from_phone'', WText ''+971501234567''), (''attempt'', WInt 2)])]"


end
