(* ===== verification/Alerting.thy ===== *)
theory Alerting
  imports Audit_Trail Redaction
begin

text \<open>
  Where an alert goes, \<^verbatim>\<open>mawjood/observability/alerts.py\<close>: one log line and, when Sentry is
  configured, one event; a failure anywhere in between is swallowed. \<open>sinks\<close> says which of the
  emissions the logger and Sentry accept without raising; \<open>sentry\<close> is what asking Sentry's client
  comes to, None for an exception.
\<close>

definition ALERT_REDACT :: "string list" where
  "ALERT_REDACT = [''wa_id'', ''phone'', ''phone_e164'', ''body'', ''text'', ''consumer_text'',
     ''message'', ''display_name'', ''credentials'', ''secret'', ''api_key'', ''token'']"

definition scrub_fields :: "(string \<times> string) list \<Rightarrow> (string \<times> string) list" where
  "scrub_fields fs =
     map (\<lambda>(k, v). (k, if lower k \<in> set ALERT_REDACT then ''[redacted]'' else v)) fs"

fun alert_kind_value :: "alert_kind \<Rightarrow> string" where
  "alert_kind_value CREDENTIAL_DEGRADED = ''credential_degraded''"
| "alert_kind_value RECONCILIATION_INCONCLUSIVE_ALERT = ''reconciliation_inconclusive''"
| "alert_kind_value CASCADE_EXHAUSTED_ALERT = ''cascade_exhausted''"
| "alert_kind_value HANDOFF_AGEING = ''handoff_ageing''"
| "alert_kind_value AGGREGATOR_CIRCUIT_OPEN = ''aggregator_circuit_open''"
| "alert_kind_value DELIVERY_FAILED = ''delivery_failed''"
| "alert_kind_value NOTIFICATION_BACKLOG = ''notification_backlog''"
| "alert_kind_value CONFIGURATION_FAULT = ''configuration_fault''"

fun severity_value :: "severity \<Rightarrow> string" where
  "severity_value WARNING = ''warning''"
| "severity_value ERROR = ''error''"
| "severity_value CRITICAL = ''critical''"

datatype emission =
    Log_Line severity string string string "(string \<times> string) list"
  | Sentry_Event string severity "(string \<times> string) list" string

definition raise_alert ::
    "(emission \<Rightarrow> bool) \<Rightarrow> bool option \<Rightarrow> alert_kind \<Rightarrow> severity \<Rightarrow> string
       \<Rightarrow> (string \<times> string) list \<Rightarrow> emission list" where
  "raise_alert sinks sentry kind sev summary fs =
     (let payload = scrub_fields fs;
          line = Log_Line sev ''alert'' (alert_kind_value kind) summary payload;
          event = Sentry_Event (alert_kind_value kind) sev payload
                    (''['' @ alert_kind_value kind @ ''] '' @ summary);
          last_resort = filter sinks
            [Log_Line ERROR ''alert.delivery_failed'' (alert_kind_value kind) summary []]
      in if \<not> sinks line then last_resort
         else case sentry of
             None \<Rightarrow> line # last_resort
           | Some False \<Rightarrow> [line]
           | Some True \<Rightarrow> if sinks event then [line, event] else line # last_resort)"

fun emitted_fields :: "emission \<Rightarrow> (string \<times> string) list" where
  "emitted_fields (Log_Line _ _ _ _ fs) = fs"
| "emitted_fields (Sentry_Event _ _ fs _) = fs"

text \<open>An alert never raises, and under none of the listed names does it carry a value.\<close>

lemma scrub_fields_names:
  "(k, v) \<in> set (scrub_fields fs) \<Longrightarrow> lower k \<in> set ALERT_REDACT \<Longrightarrow> v = ''[redacted]''"
  by (auto simp: scrub_fields_def)

lemma alert_payload:
  assumes "e \<in> set (raise_alert sinks sentry kind sev summary fs)"
    and "(k, v) \<in> set (emitted_fields e)" and "lower k \<in> set ALERT_REDACT"
  shows "v = ''[redacted]''"
  using assms scrub_fields_names [of k v fs]
  by (auto simp: raise_alert_def Let_def split: if_splits option.splits bool.splits)

text \<open>With sinks that accept everything the alert is one line, and one event when Sentry is active.\<close>

lemma alert_delivered:
  "raise_alert (\<lambda>_. True) (Some active) kind sev summary fs =
     Log_Line sev ''alert'' (alert_kind_value kind) summary (scrub_fields fs)
     # (if active then [Sentry_Event (alert_kind_value kind) sev (scrub_fields fs)
          (''['' @ alert_kind_value kind @ ''] '' @ summary)] else [])"
  by (simp add: raise_alert_def Let_def)

end
