(* ===== verification/Console_Auth.thy ===== *)
theory Console_Auth
  imports Bsp Config
begin

text \<open>
  Signing in to the ops console: \<^verbatim>\<open>mawjood/api/console/auth.py\<close> and the session half of
  \<^verbatim>\<open>mawjood/api/console/routes.py\<close>. The cookie is the session. \<open>hmac\<close> is the digest of a key and
  a payload, \<open>sha\<close> the hexadecimal SHA-256 of a text; time is in seconds since the epoch. A result of
  None is an exception that reaches the framework.
\<close>

definition COOKIE_NAME :: string where
  "COOKIE_NAME = ''mawjood_console''"

definition DEFAULT_TTL_SECONDS :: int where
  "DEFAULT_TTL_SECONDS = 8 * 60 * 60"

record console_session =
  cs_username :: string
  cs_expires_at :: int

definition session_expired :: "real \<Rightarrow> console_session \<Rightarrow> bool" where
  "session_expired now s \<longleftrightarrow> real_of_int (cs_expires_at s) \<le> now"

subsection \<open>The signature\<close>

definition B64_URL :: string where
  "B64_URL = ''ABCDEFGHIJKLMNOPQRSTUVWXYZabcdefghijklmnopqrstuvwxyz0123456789-_''"

text \<open>\<open>base64.urlsafe_b64encode\<close>, three bytes at a time.\<close>

fun urlsafe_b64 :: "string \<Rightarrow> string" where
  "urlsafe_b64 (a # b # c # rest) =
     (let n = (of_char a * 256 + of_char b) * 256 + of_char c :: nat
      in [B64_URL ! (n div 262144 mod 64), B64_URL ! (n div 4096 mod 64), B64_URL ! (n div 64 mod 64),
          B64_URL ! (n mod 64)] @ urlsafe_b64 rest)"
| "urlsafe_b64 [a, b] =
     (let n = (of_char a * 256 + of_char b) * 4 :: nat
      in [B64_URL ! (n div 4096 mod 64), B64_URL ! (n div 64 mod 64), B64_URL ! (n mod 64), CHR ''=''])"
| "urlsafe_b64 [a] =
     (let n = of_char a * 16 :: nat
      in [B64_URL ! (n div 64 mod 64), B64_URL ! (n mod 64), CHR ''='', CHR ''=''])"
| "urlsafe_b64 [] = []"

definition sign_session :: "(string \<Rightarrow> string \<Rightarrow> string) \<Rightarrow> string \<Rightarrow> string \<Rightarrow> string" where
  "sign_session hmac payload secret = rstrip (\<lambda>c. c = CHR ''='') (urlsafe_b64 (hmac secret payload))"

definition issue :: "(string \<Rightarrow> string \<Rightarrow> string) \<Rightarrow> real \<Rightarrow> string \<Rightarrow> string \<Rightarrow> int \<Rightarrow> string" where
  "issue hmac now username secret ttl =
     (let payload = username @ '':'' @ show_int (\<lfloor>now\<rfloor> + ttl)
      in payload @ '':'' @ sign_session hmac payload secret)"

text \<open>\<open>rsplit(":", 2)\<close> when it has three parts.\<close>

definition split_last :: "string \<Rightarrow> (string \<times> string) option" where
  "split_last s = (case dropWhile (\<lambda>c. c \<noteq> CHR '':'') (rev s) of
     [] \<Rightarrow> None
   | _ # r \<Rightarrow> Some (rev r, rev (takeWhile (\<lambda>c. c \<noteq> CHR '':'') (rev s))))"

definition cookie_parts :: "string \<Rightarrow> (string \<times> string \<times> string) option" where
  "cookie_parts s = do {
     (payload, signature) \<leftarrow> split_last s;
     (username, raw_expiry) \<leftarrow> split_last payload;
     Some (username, raw_expiry, signature)}"

definition verify_session ::
    "(string \<Rightarrow> string \<Rightarrow> string) \<Rightarrow> real \<Rightarrow> string option \<Rightarrow> string \<Rightarrow> console_session option option" where
  "verify_session hmac now cookie secret =
     (if \<not> truthy cookie then Some None
      else case cookie_parts (the cookie) of
        None \<Rightarrow> Some None
      | Some (username, raw_expiry, signature) \<Rightarrow>
          (case compare_digest (sign_session hmac (username @ '':'' @ raw_expiry) secret) signature of
             None \<Rightarrow> None
           | Some False \<Rightarrow> Some None
           | Some True \<Rightarrow>
               (case int_of_text raw_expiry of
                  None \<Rightarrow> Some None
                | Some expiry \<Rightarrow>
                    let s = \<lparr>cs_username = username, cs_expires_at = expiry\<rparr>
                    in Some (if session_expired now s then None else Some s))))"

subsection \<open>Credentials\<close>

definition check_credentials :: "string \<Rightarrow> string \<Rightarrow> settings \<Rightarrow> bool option" where
  "check_credentials username password st =
     (case console_password st of
        None \<Rightarrow> Some False
      | Some expected \<Rightarrow> do {
          user_ok \<leftarrow> compare_digest username (console_username st);
          password_ok \<leftarrow> compare_digest password expected;
          Some (user_ok \<and> password_ok)})"

definition session_secret :: "(string \<Rightarrow> string) \<Rightarrow> settings \<Rightarrow> string option" where
  "session_secret sha st =
     map_option (\<lambda>pw. sha (''mawjood.console.session/'' @ pw)) (console_password st)"

definition current_session ::
    "(string \<Rightarrow> string \<Rightarrow> string) \<Rightarrow> (string \<Rightarrow> string) \<Rightarrow> real \<Rightarrow> settings \<Rightarrow> (string \<times> string) list
       \<Rightarrow> console_session option option" where
  "current_session hmac sha now st cookies =
     (case session_secret sha st of
        None \<Rightarrow> Some None
      | Some secret \<Rightarrow> verify_session hmac now (map_of cookies COOKIE_NAME) secret)"

subsection \<open>The routes\<close>

datatype access = Console_Unavailable | Sign_In_First | Operator string

definition operator ::
    "(string \<Rightarrow> string \<Rightarrow> string) \<Rightarrow> (string \<Rightarrow> string) \<Rightarrow> real \<Rightarrow> settings \<Rightarrow> (string \<times> string) list
       \<Rightarrow> access option" where
  "operator hmac sha now st cookies =
     (if console_password st = None then Some Console_Unavailable
      else map_option (\<lambda>s. case s of None \<Rightarrow> Sign_In_First | Some s \<Rightarrow> Operator (cs_username s))
             (current_session hmac sha now st cookies))"

record set_cookie =
  ck_name :: string
  ck_value :: string
  ck_max_age :: int
  ck_httponly :: bool
  ck_samesite :: string
  ck_secure :: bool
  ck_path :: string

datatype login_response =
    Login_Unavailable
  | Login_Page "string option"
  | Logged_In set_cookie

definition login_form :: "settings \<Rightarrow> login_response" where
  "login_form st = (if console_password st = None then Login_Unavailable else Login_Page None)"

definition login ::
    "(string \<Rightarrow> string \<Rightarrow> string) \<Rightarrow> (string \<Rightarrow> string) \<Rightarrow> real \<Rightarrow> settings \<Rightarrow> string \<Rightarrow> string
       \<Rightarrow> login_response option" where
  "login hmac sha now st username password =
     (case session_secret sha st of
        None \<Rightarrow> Some Login_Unavailable
      | Some secret \<Rightarrow>
          map_option (\<lambda>good. if \<not> good then Login_Page (Some ''Those details did not match.'')
             else Logged_In \<lparr>ck_name = COOKIE_NAME,
               ck_value = issue hmac now username secret DEFAULT_TTL_SECONDS,
               ck_max_age = DEFAULT_TTL_SECONDS, ck_httponly = True, ck_samesite = ''lax'',
               ck_secure = (environment st = environment.PROD), ck_path = ''/console''\<rparr>)
            (check_credentials username password st))"

text \<open>The cookies a browser holds after a response set or deleted one.\<close>

definition with_cookie :: "set_cookie \<Rightarrow> (string \<times> string) list \<Rightarrow> (string \<times> string) list" where
  "with_cookie c cookies = (ck_name c, ck_value c) # filter (\<lambda>p. fst p \<noteq> ck_name c) cookies"

definition logout :: "(string \<times> string) list \<Rightarrow> (string \<times> string) list" where
  "logout cookies = filter (\<lambda>p. fst p \<noteq> COOKIE_NAME) cookies"

subsection \<open>What is signed\<close>

lemma split_last_append:
  "CHR '':'' \<notin> set b \<Longrightarrow> split_last (a @ CHR '':'' # b) = Some (a, b)"
proof -
  assume "CHR '':'' \<notin> set b"
  then have n: "\<And>x. x \<in> set (rev b) \<Longrightarrow> x \<noteq> CHR '':''" by auto
  have "dropWhile (\<lambda>c. c \<noteq> CHR '':'') (rev b @ CHR '':'' # rev a) = CHR '':'' # rev a"
    using n by (subst dropWhile_append2) auto
  moreover have "takeWhile (\<lambda>c. c \<noteq> CHR '':'') (rev b @ CHR '':'' # rev a) = rev b"
    using n by (subst takeWhile_append2) auto
  ultimately show ?thesis by (simp add: split_last_def)
qed

lemma split_last_Some: "split_last s = Some (a, b) \<Longrightarrow> s = a @ CHR '':'' # b"
proof -
  assume a: "split_last s = Some (a, b)"
  obtain c r where d: "dropWhile (\<lambda>c. c \<noteq> CHR '':'') (rev s) = c # r"
    using a by (cases "dropWhile (\<lambda>c. c \<noteq> CHR '':'') (rev s)") (auto simp: split_last_def)
  have c: "c = CHR '':''" using d hd_dropWhile [of "\<lambda>c. c \<noteq> CHR '':''" "rev s"] by auto
  have "rev s = takeWhile (\<lambda>c. c \<noteq> CHR '':'') (rev s) @ c # r" using d by (metis takeWhile_dropWhile_id)
  moreover have "a = rev r" "b = rev (takeWhile (\<lambda>c. c \<noteq> CHR '':'') (rev s))"
    using a d by (auto simp: split_last_def)
  ultimately show ?thesis by (metis c rev_append rev_rev_ident rev.simps(2) append.assoc append_Cons append_Nil)
qed

lemma b64_chars: "list_all (\<lambda>c. c \<noteq> CHR '':'' \<and> (of_char c :: nat) < 128) B64_URL \<and> length B64_URL = 64"
  by code_simp

lemma b64_char: "B64_URL ! (n mod 64) \<noteq> CHR '':'' \<and> (of_char (B64_URL ! (n mod 64)) :: nat) < 128"
proof -
  have "B64_URL ! (n mod 64) \<in> set B64_URL" using b64_chars by (intro nth_mem) simp
  then show ?thesis using b64_chars by (auto simp: list_all_iff)
qed

lemma urlsafe_b64_chars: "list_all (\<lambda>c. c \<noteq> CHR '':'' \<and> (of_char c :: nat) < 128) (urlsafe_b64 s)"
  by (induction s rule: urlsafe_b64.induct) (simp_all add: Let_def b64_char)

lemma signature_chars:
  "CHR '':'' \<notin> set (sign_session hmac p s) \<and> is_ascii (sign_session hmac p s)"
proof -
  have "set (sign_session hmac p s) \<subseteq> set (urlsafe_b64 (hmac s p))"
    by (auto simp: sign_session_def rstrip_def dest: set_dropWhileD)
  then show ?thesis
    using urlsafe_b64_chars [of "hmac s p"] by (auto simp: is_ascii_def list_all_iff)
qed

lemma issued_parts:
  "cookie_parts (u @ CHR '':'' # show_int e @ CHR '':'' # sign_session hmac p s)
     = Some (u, show_int e, sign_session hmac p s)"
  using split_last_append [of "sign_session hmac p s" "u @ CHR '':'' # show_int e"] signature_chars [of hmac p s]
    split_last_append [OF show_int_no_colon, of u e] by (simp add: cookie_parts_def)

lemma issued_is_verified:
  "verify_session hmac later (Some (issue hmac now u s ttl)) s =
     Some (if later < real_of_int (\<lfloor>now\<rfloor> + ttl)
           then Some \<lparr>cs_username = u, cs_expires_at = \<lfloor>now\<rfloor> + ttl\<rparr> else None)"
  using signature_chars [of hmac "u @ '':'' @ show_int (\<lfloor>now\<rfloor> + ttl)" s]
  by (simp add: verify_session_def issue_def Let_def issued_parts compare_digest_def int_of_text_show_int
      session_expired_def not_less)

lemma verified_was_signed:
  assumes "verify_session hmac now cookie s = Some (Some sess)"
  shows "\<exists>raw. cookie = Some (cs_username sess @ '':'' @ raw @ '':''
      @ sign_session hmac (cs_username sess @ '':'' @ raw) s)
    \<and> int_of_text raw = Some (cs_expires_at sess) \<and> now < real_of_int (cs_expires_at sess)"
proof -
  obtain c where c: "cookie = Some c" using assms by (cases cookie) (auto simp: verify_session_def)
  obtain u raw sg where p: "cookie_parts c = Some (u, raw, sg)"
    using assms by (auto simp: verify_session_def c split: if_splits option.splits)
  have eq: "sign_session hmac (u @ '':'' @ raw) s = sg"
    using assms by (auto simp: verify_session_def c p compare_digest_def split: if_splits option.splits bool.splits)
  have "c = u @ '':'' @ raw @ '':'' @ sg"
  proof -
    obtain pay where "split_last c = Some (pay, sg)" "split_last pay = Some (u, raw)"
      using p by (auto simp: cookie_parts_def bind_eq_Some_conv)
    then show ?thesis by (auto dest!: split_last_Some)
  qed
  moreover have "sess = \<lparr>cs_username = u, cs_expires_at = cs_expires_at sess\<rparr>
      \<and> int_of_text raw = Some (cs_expires_at sess) \<and> now < real_of_int (cs_expires_at sess)"
    using assms by (auto simp: verify_session_def c p Let_def session_expired_def not_le
        split: if_splits option.splits bool.splits)
  ultimately show ?thesis using c eq by (metis console_session.select_convs(1))
qed

subsection \<open>Who gets in\<close>

lemma login_admits:
  assumes "login hmac sha now st username password = Some (Logged_In c)"
  shows "username = console_username st \<and> Some password = console_password st
    \<and> operator hmac sha later st (with_cookie c cookies)
        = Some (if later < real_of_int (\<lfloor>now\<rfloor> + 8 * 60 * 60) then Operator username else Sign_In_First)"
proof -
  obtain pw where pw: "console_password st = Some pw"
    using assms by (cases "console_password st") (auto simp: login_def session_secret_def)
  have good: "check_credentials username password st = Some True"
    and c: "ck_name c = COOKIE_NAME"
    "ck_value c = issue hmac now username (sha (''mawjood.console.session/'' @ pw)) DEFAULT_TTL_SECONDS"
    using assms by (auto simp: login_def session_secret_def pw split: if_splits)
  have "username = console_username st \<and> password = pw"
    using good by (auto simp: check_credentials_def pw compare_digest_def bind_eq_Some_conv split: if_splits)
  moreover have "current_session hmac sha later st (with_cookie c cookies) =
      Some (if later < real_of_int (\<lfloor>now\<rfloor> + DEFAULT_TTL_SECONDS)
        then Some \<lparr>cs_username = username, cs_expires_at = \<lfloor>now\<rfloor> + DEFAULT_TTL_SECONDS\<rparr> else None)"
    by (simp add: current_session_def session_secret_def pw with_cookie_def c issued_is_verified)
  ultimately show ?thesis by (simp add: operator_def pw DEFAULT_TTL_SECONDS_def)
qed

text \<open>Signing in opens the console for exactly eight hours. A login that is accepted was made with the
  configured name and password, and the cookie it sets admits that operator until the lifetime has run
  out and nobody after, whatever characters the name holds and whatever the digest is.\<close>

theorem login_opens_the_console:
  assumes "login hmac sha now st username password = Some (Logged_In c)"
  shows "username = console_username st \<and> Some password = console_password st
    \<and> operator hmac sha later st (with_cookie c cookies)
        = Some (if later < real_of_int (\<lfloor>now\<rfloor> + 8 * 60 * 60) then Operator username else Sign_In_First)"
  using assms by (rule login_admits)

text \<open>C34. The console opens only to a cookie it signed itself. Without a configured password nobody is
  admitted; whoever is admitted sent a cookie that is a name, an expiry still ahead and, over exactly
  that name and expiry, the signature under the key derived from the password, so that neither can be
  changed without a new signature; and after logging out the browser is not admitted.\<close>

theorem console_needs_a_signed_cookie:
  assumes "operator hmac sha now st cookies = Some (Operator who)"
  shows "\<exists>pw raw expiry. console_password st = Some pw
    \<and> map_of cookies COOKIE_NAME = Some (who @ '':'' @ raw @ '':''
        @ sign_session hmac (who @ '':'' @ raw) (sha (''mawjood.console.session/'' @ pw)))
    \<and> int_of_text raw = Some expiry \<and> now < real_of_int expiry
    \<and> operator hmac sha now st (logout cookies) = Some Sign_In_First"
proof -
  obtain pw where pw: "console_password st = Some pw"
    using assms by (cases "console_password st") (auto simp: operator_def)
  obtain s where s: "verify_session hmac now (map_of cookies COOKIE_NAME)
      (sha (''mawjood.console.session/'' @ pw)) = Some (Some s)" and who: "who = cs_username s"
    using assms by (auto simp: operator_def pw current_session_def session_secret_def split: option.splits)
  have "map_of (logout cookies) COOKIE_NAME = None" by (auto simp: logout_def map_of_eq_None_iff)
  then have "operator hmac sha now st (logout cookies) = Some Sign_In_First"
    by (simp add: operator_def pw current_session_def session_secret_def verify_session_def)
  with verified_was_signed [OF s] pw who show ?thesis by blast
qed

definition sample_settings :: settings where
  "sample_settings = \<lparr>environment = environment.LOCAL, region = ''me-central-1'',
     zone_name = ''Asia/Dubai'', database_pool_size = 5, database_max_overflow = 5,
     database_connect_timeout_s = 5, turn_deadline_ms = 10000, llm_timeout_ms = 4000,
     notify_hours = [], whatsapp_session_window_hours = 24, bsp_provider = ''console'',
     bsp_webhook_secret = None, bsp_verify_token = None, bsp_require_signature = False,
     bsp_api_base = None, bsp_api_key = None, openai_api_key = None, console_username = ''ops'',
     console_password = Some ''hunter2'', sentry_dsn = None, webhook_rate_per_minute = 60,
     consumer_rate_per_minute = 20, webhook_max_body_bytes = 1000, sentry_traces_sample_rate = 0,
     log_retention_days = 90, data_retention_days = 365, default_tenant_slug = ''m''\<rparr>"

definition sample_hmac :: "string \<Rightarrow> string \<Rightarrow> string" where
  "sample_hmac key payload = take 4 (rev payload @ key)"

abbreviation sample_login :: "login_response option" where
  "sample_login \<equiv> login sample_hmac rev 1000.5 sample_settings ''ops'' ''hunter2''"

definition sample_cookie :: set_cookie where
  "sample_cookie = (case sample_login of Some (Logged_In c) \<Rightarrow> c | _ \<Rightarrow> undefined)"

lemma sample_login_accepted: "sample_login = Some (Logged_In sample_cookie)"
  by (simp add: sample_cookie_def login_def session_secret_def sample_settings_def check_credentials_def
      compare_digest_def is_ascii_def)

lemma login_opens_the_console_witness:
  "operator sample_hmac rev 2000 sample_settings (with_cookie sample_cookie []) = Some (Operator ''ops'')"
  using login_opens_the_console [OF sample_login_accepted, of 2000 "[]"] by simp

lemma sample_operator:
  "operator sample_hmac rev 2000 sample_settings (with_cookie sample_cookie []) = Some (Operator ''ops'')"
  using login_admits [OF sample_login_accepted, of 2000 "[]"] by simp

lemma console_needs_a_signed_cookie_witness:
  "operator sample_hmac rev 2000 sample_settings (logout (with_cookie sample_cookie [])) = Some Sign_In_First"
  using console_needs_a_signed_cookie [OF sample_operator] by blast

end
