(* ===== verification/Queries.thy ===== *)
theory Queries
  imports Integrity Registry Phrasebank Replay Wire "HOL-Library.AList" "HOL-Library.List_Lexorder"
    "HOL-Library.Char_ord"
begin

text \<open>
  The reads of the ops console, \<^verbatim>\<open>mawjood/api/console/queries.py\<close>. An inner join drops a row whose
  partner does not exist; rows an \<open>ORDER BY\<close> leaves tied keep the order of the table. \<open>date_trunc\<close>
  is the database's, which depends on the time zone of the session, and \<open>details\<close> the free JSON
  column of an audit row. All reads of the clock in one query are one instant \<open>now\<close>.
\<close>

definition ATTEMPT_EVENT :: string where
  "ATTEMPT_EVENT = ''routing.attempt''"

subsection \<open>Tables of one tenant\<close>

definition find_lead :: "store \<Rightarrow> uid \<Rightarrow> lead option" where
  "find_lead db lid = next_such (\<lambda>l. lead_id l = lid) (leads db)"

definition find_booking :: "store \<Rightarrow> uid \<Rightarrow> booking option" where
  "find_booking db bid = next_such (\<lambda>b. bk_id b = bid) (bookings db)"

definition audit_of :: "store \<Rightarrow> uid \<Rightarrow> audit_row list" where
  "audit_of db tid = filter (\<lambda>r. row_tenant_id r = tid) (audit_log db)"

subsection \<open>Health\<close>

record health_report =
  hr_database_ok :: bool
  hr_tenant_ok :: bool
  hr_phrasebank_locales :: "string list"
  hr_registered :: "string list"
  hr_implemented :: "string list"
  hr_stalled :: nat
  hr_open_handoffs :: nat
  hr_deferred :: nat
  hr_failed_sends :: nat
  hr_oldest_handoff_minutes :: "real option"

definition health_ok :: "health_report \<Rightarrow> bool" where
  "health_ok h \<longleftrightarrow> hr_database_ok h \<and> hr_tenant_ok h \<and> hr_phrasebank_locales h \<noteq> []"

text \<open>The class attribute \<open>implemented\<close>, which the stubs set to False.\<close>

definition implemented :: "fake_world adapter \<Rightarrow> bool" where
  "implemented a \<longleftrightarrow> slug a \<notin> set (map slug (live_adapters :: fake_world adapter list))"

definition default_slugs :: "style \<Rightarrow> string list" where
  "default_slugs st = (case build_default_registry st False of
     Some reg \<Rightarrow> sort (map fst reg) | None \<Rightarrow> [])"

definition implemented_slugs :: "style \<Rightarrow> string list" where
  "implemented_slugs st = (case build_default_registry st False of
     Some reg \<Rightarrow> filter (\<lambda>s. case registry_get reg s of Some a \<Rightarrow> implemented a | None \<Rightarrow> False)
       (default_slugs st)
   | None \<Rightarrow> [])"

text \<open>With the database down the first count raises.\<close>

definition health_of ::
    "style \<Rightarrow> bool \<Rightarrow> store \<Rightarrow> uid option \<Rightarrow> instant \<Rightarrow> int \<Rightarrow> health_report option" where
  "health_of st database_ok db tenant now stall_minutes =
     (let blank = \<lparr>hr_database_ok = database_ok, hr_tenant_ok = False,
            hr_phrasebank_locales = sort (map fst (locales shipped)),
            hr_registered = default_slugs st, hr_implemented = implemented_slugs st,
            hr_stalled = 0, hr_open_handoffs = 0, hr_deferred = 0, hr_failed_sends = 0,
            hr_oldest_handoff_minutes = None\<rparr>
      in case tenant of
        None \<Rightarrow> Some blank
      | Some tid \<Rightarrow>
          if \<not> database_ok then None
          else
            let waiting = filter (\<lambda>h. hq_status h \<noteq> handoff_status.RESOLVED)
                  (scoped hq_tenant tid (handoffs db))
            in Some (blank\<lparr>hr_tenant_ok := True,
              hr_stalled := length (filter (\<lambda>c. conv_status c \<noteq> conversation_status.CLOSED
                  \<and> last_activity_at c < now - minutes stall_minutes)
                (scoped conv_tenant tid (conversations db))),
              hr_open_handoffs := length waiting,
              hr_deferred := length (filter (\<lambda>n. sn_status n = notification_status.DEFERRED)
                (scoped sn_tenant tid (notifications db))),
              hr_failed_sends := length (filter (\<lambda>m. msg_status m = message_status.FAILED
                  \<and> now - hours 24 \<le> msg_created_at m)
                (scoped msg_tenant tid (messages db))),
              hr_oldest_handoff_minutes :=
                (if waiting = [] then None
                 else Some (real_of_int (now - Min (set (map hq_created_at waiting)))
                        / real_of_int (minutes 1)))\<rparr>))"

subsection \<open>Conversations\<close>

definition live_conversations ::
    "store \<Rightarrow> uid \<Rightarrow> nat \<Rightarrow> (conversation \<times> lead \<times> nat) list" where
  "live_conversations db tid limit =
     take limit (sort_key (\<lambda>(c, l, n). - last_activity_at c)
       (List.map_filter (\<lambda>c. map_option (\<lambda>l. (c, l,
            length (filter (\<lambda>m. msg_conversation m = conv_id c) (scoped msg_tenant tid (messages db)))))
          (find_lead db (conv_lead c)))
        (scoped conv_tenant tid (conversations db))))"

definition conversation_with_lead :: "store \<Rightarrow> uid \<Rightarrow> uid \<Rightarrow> (conversation \<times> lead) option" where
  "conversation_with_lead db tid cid =
     (case next_such (\<lambda>c. conv_id c = cid) (scoped conv_tenant tid (conversations db)) of
        None \<Rightarrow> None
      | Some c \<Rightarrow> map_option (\<lambda>l. (c, l)) (find_lead db (conv_lead c)))"

definition transcript :: "store \<Rightarrow> uid \<Rightarrow> uid \<Rightarrow> message list" where
  "transcript db tid cid =
     sort_key msg_seq (filter (\<lambda>m. msg_conversation m = cid) (scoped msg_tenant tid (messages db)))"

definition bookings_for_conversation :: "store \<Rightarrow> uid \<Rightarrow> uid \<Rightarrow> booking list" where
  "bookings_for_conversation db tid cid =
     sort_key bk_created_at (filter (\<lambda>b. bk_conversation b = cid) (scoped bk_tenant tid (bookings db)))"

subsection \<open>Bookings by period\<close>

definition bookings_by_grain ::
    "(string \<Rightarrow> instant \<Rightarrow> instant) \<Rightarrow> store \<Rightarrow> uid \<Rightarrow> string \<Rightarrow> nat
       \<Rightarrow> (instant \<times> nat \<times> nat) list" where
  "bookings_by_grain date_trunc db tid grain periods =
     (let rows = scoped bk_tenant tid (bookings db);
          bucket = (\<lambda>b. date_trunc grain (bk_created_at b));
          in_bucket = (\<lambda>k s. length (filter (\<lambda>b. bucket b = k \<and> bk_status b = s) rows))
      in take periods (map (\<lambda>k. (k, in_bucket k booking_status.CONFIRMED, in_bucket k booking_status.CANCELLED))
           (sort_key uminus (remdups (map bucket rows)))))"

subsection \<open>Platforms\<close>

record aggregator_stat =
  as_slug :: string
  as_attempts :: nat
  as_successes :: nat
  as_median :: "int option"
  as_p95 :: "int option"
  as_outcomes :: "(string \<times> nat) list"

definition success_rate :: "aggregator_stat \<Rightarrow> real" where
  "success_rate s = (if as_attempts s = 0 then 0 else real (as_successes s) / real (as_attempts s))"

text \<open>\<open>percentile_cont\<close> of a sorted list: linear interpolation between the two nearest ranks.\<close>

definition percentile_cont :: "real \<Rightarrow> real list \<Rightarrow> real option" where
  "percentile_cont p xs =
     (if xs = [] then None
      else let pos = p * real (length xs - 1); lo = nat \<lfloor>pos\<rfloor>; hi = nat \<lceil>pos\<rceil>
           in Some (xs ! lo + (pos - of_int \<lfloor>pos\<rfloor>) * (xs ! hi - xs ! lo)))"

text \<open>\<open>int(x)\<close> of a float\<close>

definition int_of_float :: "real \<Rightarrow> int" where
  "int_of_float x = (if 0 \<le> x then \<lfloor>x\<rfloor> else \<lceil>x\<rceil>)"

definition attempts_since :: "store \<Rightarrow> uid \<Rightarrow> instant \<Rightarrow> audit_row list" where
  "attempts_since db tid since =
     filter (\<lambda>r. row_event_type r = ATTEMPT_EVENT \<and> row_platform_slug r \<noteq> None \<and> since \<le> row_occurred_at r)
       (audit_of db tid)"

definition latencies :: "audit_row list \<Rightarrow> real list" where
  "latencies rows = sort (map real_of_int (List.map_filter row_latency_ms rows))"

text \<open>\<open>str(outcome)\<close>\<close>

definition outcome_text :: "string option \<Rightarrow> string" where
  "outcome_text x = (case x of Some s \<Rightarrow> s | None \<Rightarrow> ''None'')"

text \<open>The groups by outcome, entered into a dictionary.\<close>

definition outcome_counts :: "audit_row list \<Rightarrow> (string \<times> nat) list" where
  "outcome_counts rows =
     fold (\<lambda>g d. AList.update (outcome_text g) (length (filter (\<lambda>r. row_outcome r = g) rows)) d)
       (remdups (map row_outcome rows)) []"

definition stat_of :: "audit_row list \<Rightarrow> string \<Rightarrow> aggregator_stat" where
  "stat_of base p =
     (let rows = filter (\<lambda>r. row_platform_slug r = Some p) base
      in \<lparr>as_slug = p, as_attempts = length rows,
          as_successes = length (filter (\<lambda>r. row_outcome r = Some ''ok'') rows),
          as_median = map_option int_of_float (percentile_cont 0.5 (latencies rows)),
          as_p95 = map_option int_of_float (percentile_cont 0.95 (latencies rows)),
          as_outcomes = outcome_counts rows\<rparr>)"

definition aggregator_stats :: "store \<Rightarrow> uid \<Rightarrow> instant \<Rightarrow> int \<Rightarrow> aggregator_stat list" where
  "aggregator_stats db tid now since_hours =
     (let base = attempts_since db tid (now - hours since_hours)
      in sort_key (\<lambda>s. - int (as_attempts s))
           (map (stat_of base) (remdups (List.map_filter row_platform_slug base))))"

subsection \<open>Failures\<close>

record failed_attempt =
  fa_occurred_at :: instant
  fa_conversation :: "uid option"
  fa_platform :: "string option"
  fa_merchant :: "string option"
  fa_outcome :: "string option"
  fa_latency_ms :: "int option"
  fa_advance_reason :: "string option"
  fa_raw_error :: "string option"

text \<open>The reasons of the decisions shown, a later row overwriting an earlier one.\<close>

definition advance_reasons ::
    "store \<Rightarrow> uid \<Rightarrow> uid list \<Rightarrow> uid \<times> string option \<Rightarrow> string option" where
  "advance_reasons db tid decisions key =
     (case filter (\<lambda>r. row_event_type r = ''routing.advanced''
             \<and> (\<exists>d\<in>set decisions. row_decision_id r = Some d)
             \<and> row_decision_id r = Some (fst key) \<and> row_platform_slug r = snd key) (audit_of db tid) of
        [] \<Rightarrow> None
      | r # rs \<Rightarrow> Some (or_else (row_advance_reason (last (r # rs))) []))"

definition failed_attempts ::
    "(audit_row \<Rightarrow> (string \<times> wire) list) \<Rightarrow> (wire \<Rightarrow> string) \<Rightarrow> store \<Rightarrow> uid \<Rightarrow> nat \<Rightarrow> failed_attempt list" where
  "failed_attempts details repr db tid limit =
     (let rows = take limit (rev (filter (\<lambda>r. row_event_type r = ATTEMPT_EVENT
            \<and> row_outcome r \<noteq> None \<and> row_outcome r \<noteq> Some ''ok'') (audit_of db tid)));
          decisions = List.map_filter row_decision_id rows
      in map (\<lambda>r. \<lparr>fa_occurred_at = row_occurred_at r, fa_conversation = row_conversation_id r,
             fa_platform = row_platform_slug r, fa_merchant = row_merchant_ref r,
             fa_outcome = row_outcome r, fa_latency_ms = row_latency_ms r,
             fa_advance_reason = (case row_decision_id r of
                 Some d \<Rightarrow> if truthy (row_advance_reason r) then row_advance_reason r
                   else advance_reasons db tid decisions (d, row_platform_slug r)
               | None \<Rightarrow> row_advance_reason r),
             fa_raw_error = (case map_of (details r) ''raw_error'' of
                 Some v \<Rightarrow> if wire_true v then Some (wire_str repr v) else None
               | None \<Rightarrow> None)\<rparr>) rows)"

subsection \<open>Sources\<close>

definition source_counts :: "store \<Rightarrow> uid \<Rightarrow> (string \<times> attribution_medium \<times> nat \<times> nat) list" where
  "source_counts db tid =
     (let booked_leads = map bk_lead (filter (\<lambda>b. bk_status b = booking_status.CONFIRMED)
            (scoped bk_tenant tid (bookings db)));
          firsts = filter at_first_touch (scoped at_tenant tid (attributions db));
          row = (\<lambda>(code, medium).
            let ls = remdups (map at_lead
                  (filter (\<lambda>a. at_source_code a = code \<and> at_medium a = medium) firsts))
            in (code, medium, length ls, length (filter (\<lambda>l. l \<in> set booked_leads) ls)))
      in sort_key (\<lambda>(code, medium, n, b). - int n)
           (map row (remdups (map (\<lambda>a. (at_source_code a, at_medium a)) firsts))))"

subsection \<open>The routing trace\<close>

record trace_step =
  ts_occurred_at :: instant
  ts_event_type :: string
  ts_actor :: string
  ts_platform :: "string option"
  ts_merchant :: "string option"
  ts_attempt :: "nat option"
  ts_outcome :: "string option"
  ts_latency_ms :: "int option"
  ts_advance_reason :: "string option"
  ts_visible :: bool
  ts_text :: "string option"
  ts_phrasebank_key :: "string option"
  ts_decision :: "uid option"
  ts_turn :: "uid option"

definition is_attempt :: "trace_step \<Rightarrow> bool" where
  "is_attempt s \<longleftrightarrow> ts_event_type s = ATTEMPT_EVENT"

definition is_decision :: "trace_step \<Rightarrow> bool" where
  "is_decision s \<longleftrightarrow> take 8 (ts_event_type s) = ''routing.''"

definition step_of :: "audit_row \<Rightarrow> trace_step" where
  "step_of r = \<lparr>ts_occurred_at = row_occurred_at r, ts_event_type = row_event_type r,
     ts_actor = row_actor r, ts_platform = row_platform_slug r, ts_merchant = row_merchant_ref r,
     ts_attempt = row_attempt_number r, ts_outcome = row_outcome r, ts_latency_ms = row_latency_ms r,
     ts_advance_reason = row_advance_reason r, ts_visible = row_consumer_visible r,
     ts_text = row_consumer_text r, ts_phrasebank_key = row_phrasebank_key r,
     ts_decision = row_decision_id r, ts_turn = row_turn_id r\<rparr>"

definition routing_trace :: "store \<Rightarrow> uid \<Rightarrow> uid \<Rightarrow> trace_step list" where
  "routing_trace db tid cid =
     map step_of (filter (\<lambda>r. row_conversation_id r = Some cid) (audit_of db tid))"

subsection \<open>Queues and summaries\<close>

definition scheduled_for_tenant ::
    "store \<Rightarrow> uid \<Rightarrow> nat \<Rightarrow> (notification \<times> booking \<times> lead) list" where
  "scheduled_for_tenant db tid limit =
     take limit (sort_key (\<lambda>(n, b, l). sn_due_at n)
       (List.map_filter (\<lambda>n. do {
            b \<leftarrow> find_booking db (sn_booking n);
            l \<leftarrow> find_lead db (sn_lead n);
            Some (n, b, l)})
        (scoped sn_tenant tid (notifications db))))"

definition console_queue ::
    "store \<Rightarrow> uid \<Rightarrow> nat \<Rightarrow> (handoff \<times> conversation \<times> lead) list" where
  "console_queue db tid limit =
     take limit (sort_key (\<lambda>(h, c, l). - hq_priority h) (sort_key (\<lambda>(h, c, l). hq_created_at h)
       (List.map_filter (\<lambda>h. do {
            c \<leftarrow> find_conversation db (hq_conversation h);
            l \<leftarrow> find_lead db (hq_lead h);
            Some (h, c, l)})
        (filter (\<lambda>h. hq_status h \<noteq> handoff_status.RESOLVED) (scoped hq_tenant tid (handoffs db))))))"

text \<open>A descending sort puts missing times first.\<close>

definition satisfaction_summary :: "store \<Rightarrow> uid \<Rightarrow> real option \<times> nat \<times> feedback list" where
  "satisfaction_summary db tid =
     (let rows = scoped fb_tenant tid (feedbacks db);
          ratings = List.map_filter fb_rating rows;
          comments = filter (\<lambda>f. fb_comment f \<noteq> None) rows
      in (if ratings = [] then None
          else Some (real_of_int (sum_list ratings) / real (length ratings)),
          length ratings,
          take 20 (sort_key (\<lambda>f. case fb_responded_at f of None \<Rightarrow> 0 | Some _ \<Rightarrow> (1 :: nat))
            (sort_key (\<lambda>f. case fb_responded_at f of None \<Rightarrow> 0 | Some t \<Rightarrow> - t) comments))))"

definition headline_counts :: "store \<Rightarrow> uid \<Rightarrow> (string \<times> nat) list" where
  "headline_counts db tid =
     (let msgs = scoped msg_tenant tid (messages db)
      in [(''leads'', length (scoped lead_tenant tid (leads db))),
          (''conversations'', length (scoped conv_tenant tid (conversations db))),
          (''bookings'', length (filter (\<lambda>b. bk_status b = booking_status.CONFIRMED)
             (scoped bk_tenant tid (bookings db)))),
          (''messages'', length msgs),
          (''inbound'', length (filter (\<lambda>m. msg_direction m = INBOUND) msgs)),
          (''waiting'', length (filter (\<lambda>h. hq_status h \<noteq> handoff_status.RESOLVED)
             (scoped hq_tenant tid (handoffs db))))])"

end
