(* ===== verification/Queries_Props.thy ===== *)
theory Queries_Props
  imports Queries Compliance_Props
begin

text \<open>
  What the console's reads promise: they show one tenant and nothing of another, and the figures of a
  platform agree with each other.
\<close>

subsection \<open>One tenant\<close>

text \<open>The store with the rows of every other tenant taken out.\<close>

definition only_tenant :: "uid \<Rightarrow> store \<Rightarrow> store" where
  "only_tenant tid db = db\<lparr>leads := scoped lead_tenant tid (leads db),
     conversations := scoped conv_tenant tid (conversations db),
     messages := scoped msg_tenant tid (messages db), consents := scoped con_tenant tid (consents db),
     bookings := scoped bk_tenant tid (bookings db),
     notifications := scoped sn_tenant tid (notifications db),
     feedbacks := scoped fb_tenant tid (feedbacks db),
     attributions := scoped at_tenant tid (attributions db),
     handoffs := scoped hq_tenant tid (handoffs db),
     audit_log := filter (\<lambda>r. row_tenant_id r = tid) (audit_log db)\<rparr>"

lemma scoped_scoped [simp]: "scoped f t (scoped f t rows) = scoped f t rows"
  by (simp add: scoped_def)

lemma only_tenant_tables [simp]:
  "leads (only_tenant tid db) = scoped lead_tenant tid (leads db)"
  "conversations (only_tenant tid db) = scoped conv_tenant tid (conversations db)"
  "messages (only_tenant tid db) = scoped msg_tenant tid (messages db)"
  "bookings (only_tenant tid db) = scoped bk_tenant tid (bookings db)"
  "notifications (only_tenant tid db) = scoped sn_tenant tid (notifications db)"
  "feedbacks (only_tenant tid db) = scoped fb_tenant tid (feedbacks db)"
  "attributions (only_tenant tid db) = scoped at_tenant tid (attributions db)"
  "handoffs (only_tenant tid db) = scoped hq_tenant tid (handoffs db)"
  "audit_of (only_tenant tid db) tid = audit_of db tid"
  by (simp_all add: only_tenant_def audit_of_def)

lemma next_such_scoped:
  assumes "\<And>r. r \<in> set rows \<Longrightarrow> p r \<Longrightarrow> f r = t"
  shows "next_such p (scoped f t rows) = next_such p rows"
  using assms by (induction rows) (auto simp: scoped_def)

lemma key_tenant:
  assumes "table_ok pk good n rows" and "(i, t) \<in> (\<lambda>r. (pk r, f r)) ` set rows"
    and "r \<in> set rows" and "pk r = i"
  shows "f r = t"
  using assms table_ok_unique [OF assms(1)] by fastforce

lemma joined_lead:
  assumes "well_formed db" and "(l, tid) \<in> lead_keys db"
  shows "find_lead (only_tenant tid db) l = find_lead db l"
  unfolding find_lead_def only_tenant_tables
  by (rule next_such_scoped, rule key_tenant [OF well_formed_tables(1) [OF assms(1)]])
     (use assms(2) in \<open>auto simp: lead_keys_def\<close>)

lemma joined_conversation:
  assumes "well_formed db" and "(c, l, tid) \<in> conv_keys db"
  shows "find_conversation (only_tenant tid db) c = find_conversation db c"
  unfolding find_conversation_def only_tenant_tables
  by (rule next_such_scoped, rule key_tenant [OF well_formed_tables(2) [OF assms(1)]])
     (use assms(2) in \<open>auto simp: conv_keys_def\<close>)

lemma joined_booking:
  assumes "well_formed db" and "(b, l, tid) \<in> booking_keys db"
  shows "find_booking (only_tenant tid db) b = find_booking db b"
  unfolding find_booking_def only_tenant_tables
  by (rule next_such_scoped, rule key_tenant [OF well_formed_tables(5) [OF assms(1)]])
     (use assms(2) in \<open>auto simp: booking_keys_def\<close>)

lemma map_filter_cong:
  "(\<And>x. x \<in> set xs \<Longrightarrow> f x = g x) \<Longrightarrow> List.map_filter f xs = List.map_filter g xs"
  by (induction xs) (auto simp: List.map_filter_simps split: option.split)

lemma conv_lead_key: "well_formed db \<Longrightarrow> c \<in> set (conversations db) \<Longrightarrow>
    (conv_lead c, conv_tenant c) \<in> lead_keys db"
  using table_okD [OF well_formed_tables(2)] by (auto simp: conversation_ok_def)

lemma conv_key_lead: "well_formed db \<Longrightarrow> (c, l, t) \<in> conv_keys db \<Longrightarrow> (l, t) \<in> lead_keys db"
  using conv_lead_key by (auto simp: conv_keys_def)

lemma isolated_conversations:
  assumes "well_formed db"
  shows "live_conversations (only_tenant tid db) tid n = live_conversations db tid n"
    and "conversation_with_lead (only_tenant tid db) tid cid = conversation_with_lead db tid cid"
proof -
  have j: "find_lead (only_tenant tid db) (conv_lead c) = find_lead db (conv_lead c)"
    if "c \<in> set (scoped conv_tenant tid (conversations db))" for c
    using that joined_lead [OF assms] conv_lead_key [OF assms] by auto
  show "live_conversations (only_tenant tid db) tid n = live_conversations db tid n"
    unfolding live_conversations_def only_tenant_tables scoped_scoped
    by (rule arg_cong [where f = "\<lambda>xs. take n (sort_key _ xs)"], rule map_filter_cong) (use j in auto)
  show "conversation_with_lead (only_tenant tid db) tid cid = conversation_with_lead db tid cid"
    unfolding conversation_with_lead_def only_tenant_tables scoped_scoped
    using j next_such_in by (fastforce split: option.split)
qed

lemma isolated_queue:
  assumes "well_formed db"
  shows "console_queue (only_tenant tid db) tid n = console_queue db tid n"
proof -
  have j: "find_lead (only_tenant tid db) (hq_lead h) = find_lead db (hq_lead h)
      \<and> find_conversation (only_tenant tid db) (hq_conversation h) = find_conversation db (hq_conversation h)"
    if "h \<in> set (scoped hq_tenant tid (handoffs db))" for h
    using that table_okD [OF well_formed_tables(9) [OF assms], of h] joined_lead [OF assms]
      joined_conversation [OF assms] conv_key_lead [OF assms] by (auto simp: handoff_ok_def)
  show ?thesis
    unfolding console_queue_def only_tenant_tables scoped_scoped
    by (rule arg_cong [where f = "\<lambda>xs. take n (sort_key _ (sort_key _ xs))"], rule map_filter_cong)
       (use j in auto)
qed

lemma isolated_schedule:
  assumes "well_formed db"
  shows "scheduled_for_tenant (only_tenant tid db) tid n = scheduled_for_tenant db tid n"
proof -
  have j: "find_lead (only_tenant tid db) (sn_lead h) = find_lead db (sn_lead h)
      \<and> find_booking (only_tenant tid db) (sn_booking h) = find_booking db (sn_booking h)"
    if "h \<in> set (scoped sn_tenant tid (notifications db))" for h
    using that table_okD [OF well_formed_tables(6) [OF assms], of h] joined_lead [OF assms]
      joined_booking [OF assms] conv_key_lead [OF assms] by (auto simp: notification_ok_def)
  show ?thesis
    unfolding scheduled_for_tenant_def only_tenant_tables scoped_scoped
    by (rule arg_cong [where f = "\<lambda>xs. take n (sort_key _ xs)"], rule map_filter_cong)
       (use j in auto)
qed

lemma isolated_reasons: "advance_reasons (only_tenant tid db) tid = advance_reasons db tid"
  by (intro ext) (simp add: advance_reasons_def)

lemma isolated_failures:
  "failed_attempts details repr (only_tenant tid db) tid n = failed_attempts details repr db tid n"
  unfolding failed_attempts_def isolated_reasons only_tenant_tables ..

lemma isolated_scopes:
  "transcript (only_tenant tid db) tid cid = transcript db tid cid"
  "bookings_for_conversation (only_tenant tid db) tid cid = bookings_for_conversation db tid cid"
  "bookings_by_grain trunc (only_tenant tid db) tid grain n = bookings_by_grain trunc db tid grain n"
  "aggregator_stats (only_tenant tid db) tid now since = aggregator_stats db tid now since"
  "source_counts (only_tenant tid db) tid = source_counts db tid"
  "routing_trace (only_tenant tid db) tid cid = routing_trace db tid cid"
  "satisfaction_summary (only_tenant tid db) tid = satisfaction_summary db tid"
  "headline_counts (only_tenant tid db) tid = headline_counts db tid"
  "health_of st ok' (only_tenant tid db) (Some tid) now stall = health_of st ok' db (Some tid) now stall"
  by (simp_all add: transcript_def bookings_for_conversation_def bookings_by_grain_def aggregator_stats_def
      attempts_since_def source_counts_def routing_trace_def
      satisfaction_summary_def headline_counts_def health_of_def)

subsection \<open>The figures of a platform\<close>

lemma percentile_mono:
  assumes s: "sorted xs" and n: "xs \<noteq> []" and p: "0 \<le> p" "p \<le> q" "q \<le> 1"
    and a: "percentile_cont p xs = Some a" and b: "percentile_cont q xs = Some b"
  shows "a \<le> b"
proof -
  define x where "x = p * real (length xs - 1)"
  define y where "y = q * real (length xs - 1)"
  let ?v = "\<lambda>z. xs ! nat \<lfloor>z\<rfloor> + (z - of_int \<lfloor>z\<rfloor>) * (xs ! nat \<lceil>z\<rceil> - xs ! nat \<lfloor>z\<rfloor>)"
  have xy: "0 \<le> x" "x \<le> y" using p by (auto simp: x_def y_def intro: mult_right_mono)
  have yn: "y \<le> real (length xs - 1)" using p by (simp add: y_def mult_left_le_one_le)
  have top: "nat \<lceil>y\<rceil> < length xs"
  proof -
    have "\<lceil>y\<rceil> \<le> int (length xs - 1)" using yn by (simp add: ceiling_le_iff)
    then show ?thesis using n by (cases xs) auto
  qed
  have le: "xs ! i \<le> xs ! j" if "i \<le> j" "j < length xs" for i j
    using s that by (rule sorted_nth_mono)
  have up: "xs ! nat \<lfloor>y\<rfloor> \<le> ?v y"
  proof -
    have "nat \<lfloor>y\<rfloor> \<le> nat \<lceil>y\<rceil>" by (intro nat_mono floor_le_ceiling)
    then have "0 \<le> (y - of_int \<lfloor>y\<rfloor>) * (xs ! nat \<lceil>y\<rceil> - xs ! nat \<lfloor>y\<rfloor>)"
      using le top by (intro mult_nonneg_nonneg) auto
    then show ?thesis by linarith
  qed
  have "?v x \<le> ?v y"
  proof (cases "\<lfloor>x\<rfloor> = \<lfloor>y\<rfloor>")
    case False
    have "\<lceil>x\<rceil> \<le> \<lfloor>y\<rfloor>" using False floor_mono [OF xy(2)] by linarith
    then have hi: "nat \<lceil>x\<rceil> \<le> nat \<lfloor>y\<rfloor>" by (rule nat_mono)
    have hy: "nat \<lfloor>y\<rfloor> < length xs"
      using top nat_mono [OF floor_le_ceiling [of y]] by linarith
    have "?v x \<le> xs ! nat \<lceil>x\<rceil>"
    proof -
      have d: "0 \<le> xs ! nat \<lceil>x\<rceil> - xs ! nat \<lfloor>x\<rfloor>"
        using le [of "nat \<lfloor>x\<rfloor>" "nat \<lceil>x\<rceil>"] hi hy by (simp add: nat_mono floor_le_ceiling)
      have "(x - of_int \<lfloor>x\<rfloor>) * (xs ! nat \<lceil>x\<rceil> - xs ! nat \<lfloor>x\<rfloor>)
          \<le> xs ! nat \<lceil>x\<rceil> - xs ! nat \<lfloor>x\<rfloor>"
        using d by (intro mult_left_le_one_le) linarith+
      then show ?thesis by linarith
    qed
    also have "\<dots> \<le> xs ! nat \<lfloor>y\<rfloor>" using le hi hy .
    finally show ?thesis using up by linarith
  next
    case True
    show ?thesis
    proof (cases "x = of_int \<lfloor>x\<rfloor>")
      case whole: True
      then have "?v x = xs ! nat \<lfloor>y\<rfloor>" using True by simp
      then show ?thesis using up by linarith
    next
      case False
      have "of_int \<lfloor>x\<rfloor> < x" using False of_int_floor_le [of x] by linarith
      then have c: "\<lceil>x\<rceil> = \<lceil>y\<rceil>" using False True xy(2) by (simp add: ceiling_altdef)
      have "0 \<le> xs ! nat \<lceil>y\<rceil> - xs ! nat \<lfloor>y\<rfloor>"
        using le [of "nat \<lfloor>y\<rfloor>" "nat \<lceil>y\<rceil>"] top by (simp add: nat_mono floor_le_ceiling)
      then have "(x - of_int \<lfloor>y\<rfloor>) * (xs ! nat \<lceil>y\<rceil> - xs ! nat \<lfloor>y\<rfloor>)
          \<le> (y - of_int \<lfloor>y\<rfloor>) * (xs ! nat \<lceil>y\<rceil> - xs ! nat \<lfloor>y\<rfloor>)"
        using xy(2) by (intro mult_right_mono) auto
      then show ?thesis unfolding True c by linarith
    qed
  qed
  then show ?thesis using a b n by (simp add: percentile_cont_def Let_def x_def y_def)
qed

lemma int_of_float_mono: "x \<le> y \<Longrightarrow> int_of_float x \<le> int_of_float y"
proof (cases "0 \<le> x \<or> y < 0")
  case False
  then have "\<lceil>x\<rceil> \<le> 0" "0 \<le> \<lfloor>y\<rfloor>" by (simp_all add: ceiling_le_iff)
  then have "\<lceil>x\<rceil> \<le> \<lfloor>y\<rfloor>" by (rule order_trans)
  then show ?thesis using False by (simp add: int_of_float_def)
qed (auto simp: int_of_float_def intro: floor_mono ceiling_mono)

lemma sum_update_new:
  "k \<notin> set (map fst d) \<Longrightarrow> sum_list (map snd (AList.update k (v :: nat) d)) = sum_list (map snd d) + v
    \<and> set (map fst (AList.update k v d)) = insert k (set (map fst d))"
  by (induction d) auto

abbreviation enter_outcomes ::
    "(string option \<Rightarrow> nat) \<Rightarrow> string option list \<Rightarrow> (string \<times> nat) list \<Rightarrow> (string \<times> nat) list" where
  "enter_outcomes f gs d \<equiv> fold (\<lambda>g d. AList.update (outcome_text g) (f g) d) gs d"

lemma enter_outcomes_sum:
  "inj_on outcome_text (set gs) \<Longrightarrow> distinct gs \<Longrightarrow> outcome_text ` set gs \<inter> set (map fst d) = {}
   \<Longrightarrow> sum_list (map snd (enter_outcomes f gs d)) = sum_list (map snd d) + (\<Sum>g\<leftarrow>gs. f g)"
proof (induction gs arbitrary: d)
  case (Cons g gs)
  have new: "outcome_text g \<notin> set (map fst d)" using Cons.prems(3) by auto
  have "outcome_text ` set gs \<inter> set (map fst (AList.update (outcome_text g) (f g) d)) = {}"
    using Cons.prems sum_update_new [OF new, of "f g"] by (auto simp: inj_on_def)
  then show ?case
    using Cons.IH [of "AList.update (outcome_text g) (f g) d"] Cons.prems(1,2)
      sum_update_new [OF new, of "f g"] by (simp add: inj_on_def)
qed simp

lemma enter_outcomes_get:
  "inj_on outcome_text (set gs) \<Longrightarrow> distinct gs \<Longrightarrow> map_of (enter_outcomes f gs d) k
    = (case next_such (\<lambda>g. outcome_text g = k) gs of Some g \<Rightarrow> Some (f g) | None \<Rightarrow> map_of d k)"
proof (induction gs arbitrary: d)
  case (Cons g gs)
  have "next_such (\<lambda>x. outcome_text x = k) gs = None" if "outcome_text g = k"
    using that Cons.prems by (auto simp: next_such_None inj_on_def)
  then show ?case
    using Cons.IH [of "AList.update (outcome_text g) (f g) d"] Cons.prems
    by (auto simp: update_conv' inj_on_def split: option.split)
qed simp

lemma count_of: "length (filter (\<lambda>r. h r = g) rows) = count (mset (map h rows)) g"
  by (induction rows) auto

lemma count_by: "(\<Sum>g\<leftarrow>remdups (map h rows). length (filter (\<lambda>r. h r = g) rows)) = length rows"
proof -
  have "(\<Sum>g\<leftarrow>remdups (map h rows). length (filter (\<lambda>r. h r = g) rows))
      = (\<Sum>g\<in>set_mset (mset (map h rows)). count (mset (map h rows)) g)"
    unfolding count_of by (subst sum_list_distinct_conv_sum_set) auto
  then show ?thesis by (metis size_multiset_overloaded_eq size_mset length_map)
qed

definition named_outcomes :: "audit_row list \<Rightarrow> bool" where
  "named_outcomes rows = list_all (\<lambda>r. row_outcome r \<noteq> Some ''None'') rows"

lemma named_inj: "named_outcomes rows \<Longrightarrow> inj_on outcome_text (set (map row_outcome rows))"
  by (fastforce simp: named_outcomes_def list_all_iff inj_on_def outcome_text_def split: option.splits)

lemma outcome_sum:
  assumes "named_outcomes rows"
  shows "sum_list (map snd (outcome_counts rows)) = length rows"
  using enter_outcomes_sum [of "remdups (map row_outcome rows)" "[]"] named_inj [OF assms] count_by [of row_outcome rows]
  by (simp add: outcome_counts_def)

lemma outcome_ok:
  assumes "named_outcomes rows"
  shows "(case map_of (outcome_counts rows) ''ok'' of Some n \<Rightarrow> n | None \<Rightarrow> 0)
    = length (filter (\<lambda>r. row_outcome r = Some ''ok'') rows)"
proof -
  let ?gs = "remdups (map row_outcome rows)"
  have ok: "outcome_text g = ''ok'' \<longleftrightarrow> g = Some ''ok''" for g by (auto simp: outcome_text_def split: option.splits)
  have m: "map_of (outcome_counts rows) ''ok'' = (case next_such (\<lambda>g. g = Some ''ok'') ?gs of
      Some g \<Rightarrow> Some (length (filter (\<lambda>r. row_outcome r = g) rows)) | None \<Rightarrow> None)"
    unfolding outcome_counts_def
    using enter_outcomes_get [of ?gs _ "[]" "''ok''"] named_inj [OF assms]
    by (simp add: ok split: option.split)
  show ?thesis
  proof (cases "next_such (\<lambda>g. g = Some ''ok'') ?gs")
    case None
    then have "filter (\<lambda>r. row_outcome r = Some ''ok'') rows = []"
      by (auto simp: next_such_None filter_empty_conv)
    then show ?thesis using m None by simp
  next
    case (Some g)
    then show ?thesis using m next_such_in [OF Some] by simp
  qed
qed

lemma latencies_sorted: "sorted (latencies rows)"
  by (simp add: latencies_def)

lemma median_below_p95:
  assumes "as_median (stat_of base p) = Some a" and "as_p95 (stat_of base p) = Some b"
  shows "a \<le> b"
proof -
  let ?l = "latencies (filter (\<lambda>r. row_platform_slug r = Some p) base)"
  obtain x y where x: "percentile_cont 0.5 ?l = Some x" "a = int_of_float x"
    and y: "percentile_cont 0.95 ?l = Some y" "b = int_of_float y"
    using assms by (auto simp: stat_of_def Let_def)
  have "?l \<noteq> []" using x by (auto simp: percentile_cont_def)
  then have "x \<le> y" using percentile_mono [OF latencies_sorted _ _ _ _ x(1) y(1)] by simp
  then show ?thesis using x y int_of_float_mono by simp
qed

lemma slugs_of_attempts:
  "set (List.map_filter row_platform_slug base) = {p. \<exists>r\<in>set base. row_platform_slug r = Some p}"
  by (induction base) (auto simp: List.map_filter_simps split: option.split)

lemma attempts_by_slug:
  assumes "\<And>r. r \<in> set base \<Longrightarrow> row_platform_slug r \<noteq> None"
  shows "(\<Sum>p\<leftarrow>remdups (List.map_filter row_platform_slug base). as_attempts (stat_of base p)) = length base"
proof -
  have m: "List.map_filter row_platform_slug base = map (\<lambda>r. the (row_platform_slug r)) base"
    using assms by (induction base) (auto simp: List.map_filter_simps split: option.split)
  have "filter (\<lambda>r. row_platform_slug r = Some p) base = filter (\<lambda>r. the (row_platform_slug r) = p) base" for p
    by (rule filter_cong) (use assms in auto)
  then show ?thesis using count_by [of "\<lambda>r. the (row_platform_slug r)" base] by (simp add: m stat_of_def Let_def)
qed

text \<open>The figures of the platform page agree. Every attempt of the window at a platform is counted by
  exactly one platform's row; on each row the outcomes add up to the attempts, the successes are the
  attempts whose outcome is ok, the success rate lies between 0 and 1 and the median latency is not above
  the 95th percentile. Assumed is that no outcome is the text None, which no outcome's value is.\<close>

theorem platform_figures_agree:
  assumes "named_outcomes (attempts_since db tid (now - hours since))"
  shows "sum_list (map as_attempts (aggregator_stats db tid now since))
      = length (attempts_since db tid (now - hours since))
    \<and> (\<forall>s\<in>set (aggregator_stats db tid now since).
        sum_list (map snd (as_outcomes s)) = as_attempts s
        \<and> (case map_of (as_outcomes s) ''ok'' of Some n \<Rightarrow> n | None \<Rightarrow> 0) = as_successes s
        \<and> 0 \<le> success_rate s \<and> success_rate s \<le> 1
        \<and> (\<forall>a b. as_median s = Some a \<and> as_p95 s = Some b \<longrightarrow> a \<le> b))"
proof
  let ?base = "attempts_since db tid (now - hours since)"
  have "sum_list (map as_attempts (aggregator_stats db tid now since))
      = (\<Sum>p\<leftarrow>remdups (List.map_filter row_platform_slug ?base). as_attempts (stat_of ?base p))"
    unfolding aggregator_stats_def Let_def
    by (metis (no_types, lifting) map_map mset_map mset_sort sum_mset_sum_list comp_def map_eq_conv)
  then show "sum_list (map as_attempts (aggregator_stats db tid now since)) = length ?base"
    using attempts_by_slug [of ?base] by (simp add: attempts_since_def)
  show "\<forall>s\<in>set (aggregator_stats db tid now since).
        sum_list (map snd (as_outcomes s)) = as_attempts s
        \<and> (case map_of (as_outcomes s) ''ok'' of Some n \<Rightarrow> n | None \<Rightarrow> 0) = as_successes s
        \<and> 0 \<le> success_rate s \<and> success_rate s \<le> 1
        \<and> (\<forall>a b. as_median s = Some a \<and> as_p95 s = Some b \<longrightarrow> a \<le> b)"
  proof
    fix s assume "s \<in> set (aggregator_stats db tid now since)"
    then obtain p where s: "s = stat_of ?base p" by (auto simp: aggregator_stats_def Let_def)
    let ?rows = "filter (\<lambda>r. row_platform_slug r = Some p) ?base"
    have n: "named_outcomes ?rows" using assms by (auto simp: named_outcomes_def list_all_iff)
    have fields: "as_outcomes s = outcome_counts ?rows" "as_attempts s = length ?rows"
      "as_successes s = length (filter (\<lambda>r. row_outcome r = Some ''ok'') ?rows)"
      by (simp_all add: s stat_of_def Let_def)
    have "as_successes s \<le> as_attempts s" unfolding fields by (rule length_filter_le)
    then have "0 \<le> success_rate s \<and> success_rate s \<le> 1" by (simp add: success_rate_def)
    moreover have "\<forall>a b. as_median s = Some a \<and> as_p95 s = Some b \<longrightarrow> a \<le> b"
      using median_below_p95 by (auto simp: s)
    ultimately show "sum_list (map snd (as_outcomes s)) = as_attempts s
        \<and> (case map_of (as_outcomes s) ''ok'' of Some n \<Rightarrow> n | None \<Rightarrow> 0) = as_successes s
        \<and> 0 \<le> success_rate s \<and> success_rate s \<le> 1
        \<and> (\<forall>a b. as_median s = Some a \<and> as_p95 s = Some b \<longrightarrow> a \<le> b)"
      using outcome_sum [OF n] outcome_ok [OF n] by (simp only: fields)
  qed
qed

definition sample_trail :: audit_trail where
  "sample_trail = \<lparr>trail_tenant_id = 0, trail_correlation_id = ''c'', trail_turn_id = 9,
     trail_conversation_id = Some 2, trail_lead_id = Some 1\<rparr>"

definition sample_attempt :: "nat \<Rightarrow> outcome \<Rightarrow> int \<Rightarrow> audit_event" where
  "sample_attempt n out lat = Routing_Attempt 7 n category.SALON ''zenoti'' out lat None None None None"

definition attempts_db :: store where
  "attempts_db = write_events sample_trail
     [sample_attempt 1 OK 100, sample_attempt 2 TIMEOUT 2500, sample_attempt 3 OK 300] (empty_store 0)"

lemma platform_figures_agree_witness:
  "named_outcomes (attempts_since attempts_db 0 (0 - hours 720))
   \<and> length (attempts_since attempts_db 0 (0 - hours 720)) = 3
   \<and> sum_list (map as_attempts (aggregator_stats attempts_db 0 0 720)) = 3"
proof -
  have n: "named_outcomes (attempts_since attempts_db 0 (0 - hours 720))" by code_simp
  have l: "length (attempts_since attempts_db 0 (0 - hours 720)) = 3" by code_simp
  show ?thesis using platform_figures_agree [OF n] n l by simp
qed

text \<open>The health page builds a registry of its own, without the fakes: it never lists a platform as
  implemented, whatever the service runs with.\<close>

lemma health_lists_no_implemented: "implemented_slugs st = []"
proof -
  have "list_all (\<lambda>a. \<not> implemented a) (live_adapters :: fake_world adapter list)"
    by (simp add: implemented_def list_all_iff)
  then have "\<not> implemented a" if "build_default_registry st False = Some reg" "registry_get reg s = Some a" for reg s a
  proof -
    have "map snd reg = (live_adapters :: fake_world adapter list)"
      using register_all_adapters [of "[]"] that(1) by (simp add: build_default_registry_def)
    moreover have "a \<in> set (map snd reg)"
      using that(2) unfolding registry_get_def by (auto dest!: map_of_SomeD intro: rev_image_eqI)
    ultimately have "a \<in> set live_adapters" by simp
    then show ?thesis using \<open>list_all _ _\<close> by (auto simp: list_all_iff)
  qed
  then show ?thesis
    by (auto simp: implemented_slugs_def filter_empty_conv split: option.splits)
qed

end
