(* ===== verification/Console_Routes.thy ===== *)
theory Console_Routes
  imports Console_Auth Queries_Props Scheduler
begin

text \<open>
  The pages of the ops console, \<^verbatim>\<open>mawjood/api/console/routes.py\<close>. A page is its template's context; each
  is served to an operator with a live session, for the configured tenant. \<open>details\<close>, \<open>repr\<close> and
  \<open>date_trunc\<close> are those of the queries; \<open>db_up\<close> says whether the database answers.
\<close>

datatype page =
    Dashboard "(string \<times> nat) list" health_report "(handoff \<times> conversation \<times> lead) list"
      "(conversation \<times> lead \<times> nat) list" "aggregator_stat list" "real option \<times> nat \<times> feedback list"
  | Conversations "(conversation \<times> lead \<times> nat) list"
  | Conversation_Detail conversation lead "message list" "booking list"
  | Trace conversation lead "trace_step list" nat "string list" nat
  | Bookings "(instant \<times> nat \<times> nat) list" string
  | Aggregators "aggregator_stat list"
  | Failures "failed_attempt list"
  | Sources "(string \<times> attribution_medium \<times> nat \<times> nat) list"
  | Scheduled "(notification \<times> booking \<times> lead) list" "template list" bool int
  | Health_Page health_report

datatype route =
    R_Dashboard | R_Conversations | R_Conversation uid | R_Trace uid | R_Bookings string
  | R_Aggregators | R_Failures | R_Sources | R_Scheduled | R_Health

datatype reply_page = Served string page | Http_Status nat | To_Login | Server_Error

record console =
  co_settings :: settings
  co_templates :: template_settings
  co_offsets :: "offsets option"
  co_style :: style
  co_date_trunc :: "string \<Rightarrow> instant \<Rightarrow> instant"
  co_details :: "audit_row \<Rightarrow> (string \<times> wire) list"
  co_repr :: "wire \<Rightarrow> string"

text \<open>The context of a route for a tenant: a page, a status, or an exception.\<close>

definition declared_templates :: "template_registry \<Rightarrow> template list" where
  "declared_templates reg = sort_key tp_name (List.map_filter (\<lambda>k. template_for reg k ''en'') all_notification_kind)"

definition trace_page :: "store \<Rightarrow> uid \<Rightarrow> uid \<Rightarrow> page option" where
  "trace_page db tid cid =
     map_option (\<lambda>(c, l).
       let steps = routing_trace db tid cid; attempts = filter is_attempt steps
       in Trace c l steps (length attempts)
            (sort (remdups (filter (\<lambda>p. p \<noteq> []) (List.map_filter ts_platform attempts))))
            (length (filter ts_visible steps)))
     (conversation_with_lead db tid cid)"

definition found_or_404 :: "page option \<Rightarrow> nat + page" where
  "found_or_404 p = (case p of None \<Rightarrow> Inl 404 | Some p \<Rightarrow> Inr p)"

text \<open>\<open>int(x)\<close> of the window; the offsets that cannot be built raise.\<close>

definition page_for ::
    "console \<Rightarrow> bool \<Rightarrow> instant \<Rightarrow> store \<Rightarrow> uid \<Rightarrow> route \<Rightarrow> (nat + page) option" where
  "page_for co db_up now db tid r =
     (case r of
        R_Dashboard \<Rightarrow> map_option (\<lambda>h. Inr (Dashboard (headline_counts db tid) h (console_queue db tid 50)
            (live_conversations db tid 8) (aggregator_stats db tid now (24 * 30)) (satisfaction_summary db tid)))
          (health_of (co_style co) db_up db (Some tid) now 30)
      | R_Conversations \<Rightarrow> Some (Inr (Conversations (live_conversations db tid 100)))
      | R_Conversation cid \<Rightarrow> Some (found_or_404 (map_option (\<lambda>(c, l).
            Conversation_Detail c l (transcript db tid cid) (bookings_for_conversation db tid cid))
          (conversation_with_lead db tid cid)))
      | R_Trace cid \<Rightarrow> Some (found_or_404 (trace_page db tid cid))
      | R_Bookings grain \<Rightarrow>
          Some (Inr (Bookings (bookings_by_grain (co_date_trunc co) db tid grain 14) grain))
      | R_Aggregators \<Rightarrow> Some (Inr (Aggregators (aggregator_stats db tid now (24 * 30))))
      | R_Failures \<Rightarrow> Some (Inr (Failures (failed_attempts (co_details co) (co_repr co) db tid 100)))
      | R_Sources \<Rightarrow> Some (Inr (Sources (source_counts db tid)))
      | R_Scheduled \<Rightarrow> map_option (\<lambda>f.
            let reg = build_template_registry (co_templates co) ''en'' in
            Inr (Scheduled (scheduled_for_tenant db tid 200) (declared_templates reg)
              (list_ex usable (declared_templates reg)) (int_of_float (session_window_hours f))))
          (co_offsets co)
      | R_Health \<Rightarrow> map_option (\<lambda>h. Inr (Health_Page h)) (health_of (co_style co) db_up db (Some tid) now 30))"

text \<open>A grain that is none of the three never reaches the body: its type is a \<open>Literal\<close>.\<close>

definition valid_route :: "route \<Rightarrow> bool" where
  "valid_route r = (case r of R_Bookings grain \<Rightarrow> grain \<in> {''day'', ''week'', ''month''} | _ \<Rightarrow> True)"

definition serve ::
    "(string \<Rightarrow> string \<Rightarrow> string) \<Rightarrow> (string \<Rightarrow> string) \<Rightarrow> console \<Rightarrow> bool \<Rightarrow> instant \<Rightarrow> store
       \<Rightarrow> (string \<times> string) list \<Rightarrow> route \<Rightarrow> reply_page" where
  "serve hmac sha co db_up now db cookies r =
     (case operator hmac sha (real_of_int now / 1000000) (co_settings co) cookies of
        None \<Rightarrow> Server_Error
      | Some Console_Unavailable \<Rightarrow> Http_Status 503
      | Some Sign_In_First \<Rightarrow> To_Login
      | Some (Operator who) \<Rightarrow>
          if \<not> valid_route r then Http_Status 422
          else if \<not> db_up then Server_Error
          else case get_by_slug db (default_tenant_slug (co_settings co)) of
              None \<Rightarrow> Http_Status 404
            | Some t \<Rightarrow>
                (case page_for co db_up now db (tenant_uid t) r of
                   None \<Rightarrow> Server_Error
                 | Some (Inl code) \<Rightarrow> Http_Status code
                 | Some (Inr p) \<Rightarrow> Served who p))"

subsection \<open>Who sees what\<close>

lemma page_for_one_tenant:
  assumes "well_formed db"
  shows "page_for co up now (only_tenant tid db) tid r = page_for co up now db tid r"
  by (cases r) (simp_all only: page_for_def route.case trace_page_def isolated_conversations [OF assms]
      isolated_queue [OF assms] isolated_schedule [OF assms] isolated_failures isolated_scopes)

text \<open>C35. The console shows one tenant, to whom it signed in. In a well-formed store a page is served only to
  the operator a live session of the console's own signature names, and it is the page of the configured
  tenant alone: taking every other tenant's rows out of the store changes nothing on it, the joins to
  leads, conversations and bookings included, which carry no tenant of their own.\<close>

theorem console_shows_one_tenant:
  assumes "well_formed db" and "serve hmac sha co up now db cookies r = Served who p"
  shows "operator hmac sha (real_of_int now / 1000000) (co_settings co) cookies = Some (Operator who)
    \<and> (\<exists>t. get_by_slug db (default_tenant_slug (co_settings co)) = Some t
        \<and> page_for co up now (only_tenant (tenant_uid t) db) (tenant_uid t) r = Some (Inr p))"
proof -
  have op: "operator hmac sha (real_of_int now / 1000000) (co_settings co) cookies = Some (Operator who)"
    and "\<exists>t. get_by_slug db (default_tenant_slug (co_settings co)) = Some t
      \<and> page_for co up now db (tenant_uid t) r = Some (Inr p)"
    using assms(2) by (auto simp: serve_def split: option.splits access.splits if_splits sum.splits)
  then show ?thesis using page_for_one_tenant [OF assms(1)] by auto
qed

text \<open>No route writes: a page is a function of the store, which is not part of the answer. With no password
  configured nothing is served at all.\<close>

lemma no_password_no_page:
  "console_password (co_settings co) = None \<Longrightarrow> serve hmac sha co up now db cookies r = Http_Status 503"
  by (simp add: serve_def operator_def)

definition sample_console :: console where
  "sample_console = \<lparr>co_settings = sample_settings,
     co_templates = \<lparr>template_name_of = (\<lambda>_. None), approved_templates = []\<rparr>,
     co_offsets = Some default_offsets, co_style = \<lparr>hex = (\<lambda>_. []), iso = (\<lambda>_. [])\<rparr>,
     co_date_trunc = (\<lambda>_ t. t), co_details = (\<lambda>_. []), co_repr = (\<lambda>_. [])\<rparr>"

lemma sample_slug: "get_by_slug sample_db ''m'' = Some sample_tenant \<and> tenant_uid sample_tenant = 1"
  by (simp add: get_by_slug_def sample_db_def sample_tenant_def)

abbreviation sample_served :: reply_page where
  "sample_served \<equiv> serve sample_hmac rev sample_console True 2000000000 sample_db
     (with_cookie sample_cookie []) R_Conversations"

lemma sample_serve:
  "sample_served = Served ''ops'' (Conversations (live_conversations sample_db 1 100))"
proof -
  have "co_settings sample_console = sample_settings" "default_tenant_slug sample_settings = ''m''"
    by (simp_all add: sample_console_def sample_settings_def)
  then show ?thesis
    using sample_operator sample_slug by (simp add: serve_def valid_route_def page_for_def)
qed

lemma console_shows_one_tenant_witness:
  "sample_served = Served ''ops'' (Conversations (live_conversations sample_db 1 100))
   \<and> operator sample_hmac rev 2000 (co_settings sample_console) (with_cookie sample_cookie [])
      = Some (Operator ''ops'')"
  using console_shows_one_tenant [OF sample_db_well_formed sample_serve] sample_serve by simp

end
