(* ===== verification/Regex.thy ===== *)
theory Regex
  imports Prelude
begin

text \<open>
  The regular expressions of Python's \<open>re\<close> as far as the understudy of the language model uses
  them: literals, classes, \<open>\s*\<close>, \<open>?\<close>, alternatives and the word boundary \<open>\b\<close>. \<open>runs\<close> gives what
  is left after each way to match at the front, in the order in which \<open>re\<close> tries them, together with
  the character before; its first element is the match \<open>re\<close> takes.
\<close>

datatype rx =
    Lit string
  | Any_Of string
  | Spaces
  | Edge
  | Seq rx rx
  | Alt rx rx
  | Opt rx

type_synonym place_in_text = "char option \<times> string"

definition at_edge :: "place_in_text \<Rightarrow> bool" where
  "at_edge q \<longleftrightarrow> (case fst q of None \<Rightarrow> False | Some c \<Rightarrow> is_word c)
     \<noteq> (case snd q of [] \<Rightarrow> False | c # _ \<Rightarrow> is_word c)"

fun space_runs :: "char option \<Rightarrow> string \<Rightarrow> place_in_text list" where
  "space_runs p [] = [(p, [])]"
| "space_runs p (x # xs) = (if is_space x then space_runs (Some x) xs @ [(p, x # xs)] else [(p, x # xs)])"

primrec runs :: "rx \<Rightarrow> place_in_text \<Rightarrow> place_in_text list" where
  "runs (Lit s) q = (if take (length s) (snd q) = s
     then [(if s = [] then fst q else Some (last s), drop (length s) (snd q))] else [])"
| "runs (Any_Of cs) q = (case snd q of [] \<Rightarrow> []
     | x # xs \<Rightarrow> if x \<in> set cs then [(Some x, xs)] else [])"
| "runs Spaces q = space_runs (fst q) (snd q)"
| "runs Edge q = (if at_edge q then [q] else [])"
| "runs (Seq a b) q = concat (map (runs b) (runs a q))"
| "runs (Alt a b) q = runs a q @ runs b q"
| "runs (Opt a) q = runs a q @ [q]"

text \<open>\<open>search\<close> and \<open>match\<close>, as truth values.\<close>

fun found_from :: "rx \<Rightarrow> char option \<Rightarrow> string \<Rightarrow> bool" where
  "found_from r p [] \<longleftrightarrow> runs r (p, []) \<noteq> []"
| "found_from r p (x # xs) \<longleftrightarrow> runs r (p, x # xs) \<noteq> [] \<or> found_from r (Some x) xs"

definition found :: "rx \<Rightarrow> string \<Rightarrow> bool" where
  "found r s \<longleftrightarrow> found_from r None s"

definition starts :: "rx \<Rightarrow> string \<Rightarrow> bool" where
  "starts r s \<longleftrightarrow> runs r (None, s) \<noteq> []"

fun alts :: "rx list \<Rightarrow> rx" where
  "alts [] = Any_Of []"
| "alts [r] = r"
| "alts (r # s # rs) = Alt r (alts (s # rs))"

fun seqs :: "rx list \<Rightarrow> rx" where
  "seqs [] = Lit []"
| "seqs [r] = r"
| "seqs (r # s # rs) = Seq r (seqs (s # rs))"

definition whole :: "rx \<Rightarrow> rx" where
  "whole r = Seq Edge (Seq r Edge)"

definition words :: "string list \<Rightarrow> rx" where
  "words ws = whole (alts (map Lit ws))"

subsection \<open>What a pattern describes\<close>

text \<open>The pattern matches the text \<open>w\<close> between \<open>b\<close> and \<open>a\<close>.\<close>

definition edge_between :: "string \<Rightarrow> string \<Rightarrow> bool" where
  "edge_between b a \<longleftrightarrow> (b \<noteq> [] \<and> is_word (last b)) \<noteq> (a \<noteq> [] \<and> is_word (hd a))"

primrec describes :: "rx \<Rightarrow> string \<Rightarrow> string \<Rightarrow> string \<Rightarrow> bool" where
  "describes (Lit s) b w a \<longleftrightarrow> w = s"
| "describes (Any_Of cs) b w a \<longleftrightarrow> (\<exists>c\<in>set cs. w = [c])"
| "describes Spaces b w a \<longleftrightarrow> list_all is_space w"
| "describes Edge b w a \<longleftrightarrow> w = [] \<and> edge_between b a"
| "describes (Seq r s) b w a \<longleftrightarrow> (\<exists>u v. w = u @ v \<and> describes r b u (v @ a) \<and> describes s (b @ u) v a)"
| "describes (Alt r s) b w a \<longleftrightarrow> describes r b w a \<or> describes s b w a"
| "describes (Opt r) b w a \<longleftrightarrow> w = [] \<or> describes r b w a"

text \<open>The place after \<open>b\<close> and before \<open>a\<close>.\<close>

definition spot :: "string \<Rightarrow> string \<Rightarrow> place_in_text" where
  "spot b a = (if b = [] then None else Some (last b), a)"

lemma snd_spot [simp]: "snd (spot b a) = a"
  by (simp add: spot_def)

lemma at_edge_spot: "at_edge (spot b a) \<longleftrightarrow> edge_between b a"
  by (cases a) (auto simp: at_edge_def spot_def edge_between_def)

lemma front_of_Cons:
  "(\<exists>w a. x # xs = w @ a \<and> P w a) \<longleftrightarrow> P [] (x # xs) \<or> (\<exists>w a. xs = w @ a \<and> P (x # w) a)"
proof
  assume "\<exists>w a. x # xs = w @ a \<and> P w a"
  then obtain w a where "x # xs = w @ a" "P w a" by blast
  then show "P [] (x # xs) \<or> (\<exists>w a. xs = w @ a \<and> P (x # w) a)" by (cases w) auto
next
  assume "P [] (x # xs) \<or> (\<exists>w a. xs = w @ a \<and> P (x # w) a)"
  then show "\<exists>w a. x # xs = w @ a \<and> P w a" by (metis append_Cons append_Nil)
qed

lemma space_runs_in:
  "q \<in> set (space_runs (fst (spot b s)) s) \<longleftrightarrow>
     (\<exists>w a. s = w @ a \<and> q = spot (b @ w) a \<and> list_all is_space w)"
proof (induction s arbitrary: b)
  case (Cons x xs)
  have n: "fst (spot (b @ [x]) xs) = Some x" by (simp add: spot_def)
  have s: "(fst (spot b (x # xs)), x # xs) = spot b (x # xs)" by (simp add: spot_def)
  show ?case
    unfolding front_of_Cons using Cons.IH [of "b @ [x]"] unfolding n by (auto simp: s)
qed (auto simp: spot_def)

lemma space_runs_spot:
  "set (space_runs (fst (spot b a)) a) = {spot (b @ w) a' | w a'. a = w @ a' \<and> list_all is_space w}"
  by (rule set_eqI) (simp only: space_runs_in mem_Collect_eq, blast)

theorem runs_describes:
  "set (runs r (spot b a)) = {spot (b @ w) a' | w a'. a = w @ a' \<and> describes r b w a'}"
proof (induction r arbitrary: b a)
  case (Lit s)
  have "take (length s) a = s \<longleftrightarrow> (\<exists>a'. a = s @ a')" by (metis append_eq_conv_conj append_take_drop_id)
  then show ?case by (auto simp: spot_def)
next
  case (Any_Of cs)
  then show ?case by (cases a) (auto simp: spot_def)
next
  case Spaces
  then show ?case by (simp add: space_runs_spot)
next
  case Edge
  then show ?case by (auto simp: at_edge_spot)
next
  case (Seq r s)
  have "set (runs (Seq r s) (spot b a))
      = (\<Union>q\<in>{spot (b @ u) a' | u a'. a = u @ a' \<and> describes r b u a'}. set (runs s q))"
    using Seq.IH(1) by simp
  also have "\<dots> = {spot (b @ u @ v) a' | u v a'. a = u @ v @ a' \<and> describes r b u (v @ a')
      \<and> describes s (b @ u) v a'}"
    using Seq.IH(2) by (auto 0 4)
  finally show ?case by (auto 0 4)
next
  case (Alt r s)
  then show ?case by auto
next
  case (Opt r)
  have "set (runs (Opt r) (spot b a)) = insert (spot (b @ []) a) (set (runs r (spot b a)))" by simp
  also have "\<dots> = {spot (b @ w) a' | w a'. a = w @ a' \<and> (w = [] \<or> describes r b w a')}"
    unfolding Opt by fastforce
  finally show ?case by simp
qed

lemma runs_nonempty:
  "runs r (spot b a) \<noteq> [] \<longleftrightarrow> (\<exists>w a'. a = w @ a' \<and> describes r b w a')"
proof -
  have "runs r (spot b a) \<noteq> [] \<longleftrightarrow> set (runs r (spot b a)) \<noteq> {}" by simp
  then show ?thesis unfolding runs_describes by blast
qed

lemma found_from_iff:
  "found_from r (fst (spot b s)) s \<longleftrightarrow> (\<exists>u w a. s = u @ w @ a \<and> describes r (b @ u) w a)"
proof (induction s arbitrary: b)
  case Nil
  then show ?case using runs_nonempty [of r b "[]"] by (simp add: spot_def)
next
  case (Cons x xs)
  have "runs r (fst (spot b (x # xs)), x # xs) \<noteq> [] \<longleftrightarrow> (\<exists>w a. x # xs = w @ a \<and> describes r b w a)"
    using runs_nonempty [of r b "x # xs"] by (simp add: spot_def)
  moreover have "found_from r (Some x) xs \<longleftrightarrow> (\<exists>u w a. xs = u @ w @ a \<and> describes r (b @ x # u) w a)"
    using Cons [of "b @ [x]"] by (simp add: spot_def)
  moreover have "(\<exists>u w a. x # xs = u @ w @ a \<and> describes r (b @ u) w a)
      \<longleftrightarrow> (\<exists>w a. x # xs = w @ a \<and> describes r b w a) \<or> (\<exists>u w a. xs = u @ w @ a \<and> describes r (b @ x # u) w a)"
    using front_of_Cons [of x xs "\<lambda>u s. \<exists>w a. s = w @ a \<and> describes r (b @ u) w a"] by auto
  ultimately show ?case by simp
qed

text \<open>A search succeeds exactly if the pattern describes some part of the text, a match at the front
  exactly if it describes the beginning.\<close>

theorem found_iff: "found r s \<longleftrightarrow> (\<exists>u w a. s = u @ w @ a \<and> describes r u w a)"
  using found_from_iff [of r "[]" s] by (simp add: found_def spot_def)

theorem starts_iff: "starts r s \<longleftrightarrow> (\<exists>w a. s = w @ a \<and> describes r [] w a)"
  using runs_nonempty [of r "[]" s] by (simp add: starts_def spot_def)

end
