(* ===== verification/Places.thy ===== *)
theory Places
  imports Prelude "HOL-Library.AList"
begin

text \<open>
  Place names of the Emirates, \<^verbatim>\<open>mawjood/core/conversation/places.py\<close>: the table, its index by alias
  and by canonical name, and the resolution of a consumer's words. A name is resolved to one place or
  asked about; it is never guessed.
\<close>

datatype emirate = DUBAI | ABU_DHABI | SHARJAH | AJMAN | RAS_AL_KHAIMAH | FUJAIRAH | UMM_AL_QUWAIN

fun emirate_value :: "emirate \<Rightarrow> string" where
  "emirate_value DUBAI = ''Dubai''"
| "emirate_value ABU_DHABI = ''Abu Dhabi''"
| "emirate_value SHARJAH = ''Sharjah''"
| "emirate_value AJMAN = ''Ajman''"
| "emirate_value RAS_AL_KHAIMAH = ''Ras Al Khaimah''"
| "emirate_value FUJAIRAH = ''Fujairah''"
| "emirate_value UMM_AL_QUWAIN = ''Umm Al Quwain''"

record place =
  canonical :: string
  emirate :: emirate
  aliases :: "string list"

datatype resolution = RESOLVED_PLACE | AMBIGUOUS_PLACE | UNKNOWN_PLACE

record place_match =
  pm_resolution :: resolution
  pm_place :: "place option"
  pm_candidates :: "place list"
  pm_raw :: string

definition needs_clarification :: "place_match \<Rightarrow> bool" where
  "needs_clarification m \<longleftrightarrow> pm_resolution m = AMBIGUOUS_PLACE"

fun join_or :: "string list \<Rightarrow> string" where
  "join_or [] = []"
| "join_or [x] = x"
| "join_or (x # y # zs) = x @ '' or '' @ join_or (y # zs)"

definition describe_options :: "place_match \<Rightarrow> string" where
  "describe_options m =
     join_or (map (\<lambda>p. canonical p @ '' in '' @ emirate_value (emirate p)) (pm_candidates m))"

definition plc :: "string \<Rightarrow> emirate \<Rightarrow> string list \<Rightarrow> place" where
  "plc c e als = \<lparr>canonical = c, emirate = e, aliases = als\<rparr>"

definition PLACES :: "place list" where
  "PLACES = [
     plc ''Dubai Marina'' DUBAI [''marina'', ''the marina'', ''dubai marina''],
     plc ''JLT'' DUBAI [''jlt'', ''jumeirah lakes towers'', ''lakes towers''],
     plc ''JBR'' DUBAI [''jbr'', ''jumeirah beach residence'', ''the walk''],
     plc ''Downtown Dubai'' DUBAI [''downtown'', ''downtown dubai'', ''dubai mall area''],
     plc ''Business Bay'' DUBAI [''business bay'', ''bay''],
     plc ''DIFC'' DUBAI [''difc'', ''financial centre'', ''financial center''],
     plc ''Jumeirah'' DUBAI [''jumeirah'', ''jumeira''],
     plc ''Umm Suqeim'' DUBAI [''umm suqeim'', ''um suqeim''],
     plc ''Al Barsha'' DUBAI [''al barsha'', ''barsha''],
     plc ''Barsha Heights'' DUBAI [''barsha heights'', ''tecom''],
     plc ''Deira'' DUBAI [''deira''],
     plc ''Bur Dubai'' DUBAI [''bur dubai''],
     plc ''Karama'' DUBAI [''karama'', ''al karama''],
     plc ''Satwa'' DUBAI [''satwa'', ''al satwa''],
     plc ''Mirdif'' DUBAI [''mirdif''],
     plc ''Al Quoz'' DUBAI [''al quoz'', ''quoz''],
     plc ''Palm Jumeirah'' DUBAI [''palm'', ''the palm'', ''palm jumeirah''],
     plc ''City Walk'' DUBAI [''city walk''],
     plc ''Dubai Silicon Oasis'' DUBAI [''silicon oasis'', ''dso''],
     plc ''Motor City'' DUBAI [''motor city''],
     plc ''Dubai Sports City'' DUBAI [''sports city''],
     plc ''Arabian Ranches'' DUBAI [''arabian ranches'', ''ranches''],
     plc ''Mudon'' DUBAI [''mudon''],
     plc ''Dubai Hills'' DUBAI [''dubai hills'', ''hills estate''],
     plc ''Al Furjan'' DUBAI [''al furjan'', ''furjan''],
     plc ''Discovery Gardens'' DUBAI [''discovery gardens''],
     plc ''Al Nahda, Dubai'' DUBAI [''al nahda dubai'', ''nahda dubai''],
     plc ''Al Qusais, Dubai'' DUBAI [''al qusais dubai'', ''qusais dubai''],
     plc ''Al Reem Island'' ABU_DHABI [''reem island'', ''al reem''],
     plc ''Yas Island'' ABU_DHABI [''yas island'', ''yas''],
     plc ''Saadiyat'' ABU_DHABI [''saadiyat'', ''saadiyat island''],
     plc ''Khalifa City'' ABU_DHABI [''khalifa city''],
     plc ''Al Bateen'' ABU_DHABI [''al bateen'', ''bateen''],
     plc ''Corniche, Abu Dhabi'' ABU_DHABI [''corniche abu dhabi''],
     plc ''Al Majaz'' SHARJAH [''al majaz'', ''majaz''],
     plc ''Al Nahda, Sharjah'' SHARJAH [''al nahda sharjah'', ''nahda sharjah''],
     plc ''Al Qusais, Sharjah'' SHARJAH [''al qusais sharjah''],
     plc ''Corniche, Sharjah'' SHARJAH [''corniche sharjah''],
     plc ''Ajman Corniche'' AJMAN [''ajman corniche''],
     plc ''Al Hamra'' RAS_AL_KHAIMAH [''al hamra'', ''hamra'']]"

definition AMBIGUOUS_NAMES :: "(string \<times> string list) list" where
  "AMBIGUOUS_NAMES = [
     (''al nahda'', [''Al Nahda, Dubai'', ''Al Nahda, Sharjah'']),
     (''nahda'', [''Al Nahda, Dubai'', ''Al Nahda, Sharjah'']),
     (''al qusais'', [''Al Qusais, Dubai'', ''Al Qusais, Sharjah'']),
     (''qusais'', [''Al Qusais, Dubai'', ''Al Qusais, Sharjah'']),
     (''corniche'', [''Corniche, Abu Dhabi'', ''Corniche, Sharjah''])]"

subsection \<open>The index\<close>

text \<open>A dictionary keeps the position of a key's first entry and the value of its last.\<close>

definition dict_of :: "(string \<times> 'v) list \<Rightarrow> (string \<times> 'v) list" where
  "dict_of es = fold (\<lambda>(k, v) d. AList.update k v d) es []"

definition by_canonical :: "(string \<times> place) list" where
  "by_canonical = dict_of (map (\<lambda>p. (lower (canonical p), p)) PLACES)"

definition by_alias :: "(string \<times> place) list" where
  "by_alias = dict_of (concat (map (\<lambda>p.
     (lower (canonical p), p) # map (\<lambda>a. (lower a, p)) (aliases p)) PLACES))"

definition is_stop :: "char \<Rightarrow> bool" where
  "is_stop c \<longleftrightarrow> c \<in> set ''.,!?;:''"

definition normalise :: "string \<Rightarrow> string" where
  "normalise s = filter (\<lambda>c. \<not> is_stop c) (lower (strip s))"

subsection \<open>Resolution\<close>

definition unknown_place :: "string \<Rightarrow> place_match" where
  "unknown_place s = \<lparr>pm_resolution = UNKNOWN_PLACE, pm_place = None, pm_candidates = [], pm_raw = s\<rparr>"

definition resolved_place :: "place \<Rightarrow> string \<Rightarrow> place_match" where
  "resolved_place p s = \<lparr>pm_resolution = RESOLVED_PLACE, pm_place = Some p, pm_candidates = [], pm_raw = s\<rparr>"

definition resolve_place :: "string \<Rightarrow> place_match" where
  "resolve_place s =
     (let cleaned = normalise s in
      if cleaned = [] then unknown_place s
      else case map_of AMBIGUOUS_NAMES cleaned of
        Some names \<Rightarrow> \<lparr>pm_resolution = AMBIGUOUS_PLACE, pm_place = None,
          pm_candidates = List.map_filter (\<lambda>n. map_of by_canonical (lower n)) names, pm_raw = s\<rparr>
      | None \<Rightarrow> (case map_of by_alias cleaned of
            Some p \<Rightarrow> resolved_place p s | None \<Rightarrow> unknown_place s))"

definition by_length :: "string list \<Rightarrow> string list" where
  "by_length names = sort_key (\<lambda>a. - int (length a)) names"

definition plain_aliases :: "string list" where
  "plain_aliases = by_length (filter (\<lambda>a. map_of AMBIGUOUS_NAMES a = None) (map fst by_alias))"

fun occurs_in :: "string \<Rightarrow> string \<Rightarrow> bool" where
  "occurs_in p [] \<longleftrightarrow> p = []"
| "occurs_in p (c # cs) \<longleftrightarrow> take (length p) (c # cs) = p \<or> occurs_in p cs"

definition named_in :: "string \<Rightarrow> string \<Rightarrow> bool" where
  "named_in a s \<longleftrightarrow> occurs_in ('' '' @ a @ '' '') ('' '' @ normalise s @ '' '')"

definition find_in_sentence :: "string \<Rightarrow> place_match" where
  "find_in_sentence s =
     (case next_such (\<lambda>a. named_in a s) plain_aliases of
        Some a \<Rightarrow> (case map_of by_alias a of Some p \<Rightarrow> resolved_place p a | None \<Rightarrow> unknown_place s)
      | None \<Rightarrow>
          (case next_such (\<lambda>a. named_in a s) (by_length (map fst AMBIGUOUS_NAMES)) of
             Some a \<Rightarrow> resolve_place a
           | None \<Rightarrow> unknown_place s))"

subsection \<open>The tables\<close>

lemma dict_of_fold:
  "map_of (fold (\<lambda>(k, v) d. AList.update k v d) es d) = map_of (rev es @ d)"
  by (induction es arbitrary: d) (auto simp: update_conv' map_add_def split: option.splits)

lemma map_of_dict_of: "map_of (dict_of es) k = map_of (rev es) k"
  using dict_of_fold [of es "[]"] by (simp add: dict_of_def)

lemma dict_of_keys: "k \<in> set (map fst (dict_of es)) \<longleftrightarrow> k \<in> set (map fst es)"
proof -
  have "k \<in> set (map fst (dict_of es)) \<longleftrightarrow> map_of (dict_of es) k \<noteq> None"
    by (simp add: map_of_eq_None_iff)
  also have "\<dots> \<longleftrightarrow> k \<in> set (map fst es)" by (simp add: map_of_dict_of map_of_eq_None_iff)
  finally show ?thesis .
qed

lemma alias_place:
  "map_of by_alias a = Some p \<Longrightarrow> p \<in> set PLACES \<and> (a = lower (canonical p) \<or> (\<exists>b\<in>set (aliases p). a = lower b))"
  unfolding by_alias_def map_of_dict_of by (auto dest!: map_of_SomeD)

lemma alias_known:
  "p \<in> set PLACES \<Longrightarrow> a \<in> set (aliases p) \<Longrightarrow> map_of by_alias (lower a) \<noteq> None"
  unfolding by_alias_def map_of_dict_of map_of_eq_None_iff by force

lemma plain_aliases_iff:
  "a \<in> set plain_aliases \<longleftrightarrow> a \<in> set (map fst by_alias) \<and> map_of AMBIGUOUS_NAMES a = None"
  by (simp add: plain_aliases_def by_length_def)

lemma first_is_longest:
  "sorted (map (\<lambda>a. - int (length a)) xs) \<Longrightarrow> next_such q xs = Some a \<Longrightarrow> b \<in> set xs \<Longrightarrow> q b
     \<Longrightarrow> length b \<le> length a"
  by (induction xs) (auto split: if_splits)

lemma by_length_first:
  "next_such q (by_length names) = Some a \<Longrightarrow> b \<in> set names \<Longrightarrow> q b \<Longrightarrow> length b \<le> length a"
  by (rule first_is_longest [of "by_length names" q]) (simp_all add: by_length_def)

text \<open>Every ambiguous name stands for places of different emirates, each of them in the table.\<close>

definition ambiguity_sound :: "string \<times> string list \<Rightarrow> bool" where
  "ambiguity_sound = (\<lambda>(name, names).
     (let m = resolve_place name; ps = pm_candidates m in
      pm_resolution m = AMBIGUOUS_PLACE \<and> map canonical ps = names \<and> 2 \<le> length ps
      \<and> distinct (map emirate ps)))"

lemma canonical_keys:
  "map (\<lambda>p. lower (canonical p)) PLACES = [
      ''dubai marina'',
      ''jlt'',
      ''jbr'',
      ''downtown dubai'',
      ''business bay'',
      ''difc'',
      ''jumeirah'',
      ''umm suqeim'',
      ''al barsha'',
      ''barsha heights'',
      ''deira'',
      ''bur dubai'',
      ''karama'',
      ''satwa'',
      ''mirdif'',
      ''al quoz'',
      ''palm jumeirah'',
      ''city walk'',
      ''dubai silicon oasis'',
      ''motor city'',
      ''dubai sports city'',
      ''arabian ranches'',
      ''mudon'',
      ''dubai hills'',
      ''al furjan'',
      ''discovery gardens'',
      ''al nahda, dubai'',
      ''al qusais, dubai'',
      ''al reem island'',
      ''yas island'',
      ''saadiyat'',
      ''khalifa city'',
      ''al bateen'',
      ''corniche, abu dhabi'',
      ''al majaz'',
      ''al nahda, sharjah'',
      ''al qusais, sharjah'',
      ''corniche, sharjah'',
      ''ajman corniche'',
      ''al hamra'']"
  by code_simp

lemma canonical_entries:
  "map (\<lambda>p. (lower (canonical p), p)) PLACES = zip (map (\<lambda>p. lower (canonical p)) PLACES) PLACES"
  by (simp add: zip_map1 zip_same_conv_map)

lemma ambiguities_sound: "list_all ambiguity_sound AMBIGUOUS_NAMES"
  by (simp add: AMBIGUOUS_NAMES_def ambiguity_sound_def resolve_place_def by_canonical_def map_of_dict_of
      canonical_entries canonical_keys PLACES_def plc_def normalise_def strip_def lstrip_def rstrip_def is_space_def is_stop_def
      lower_def lower_char_def List.map_filter_def)

subsection \<open>Named, asked about, or unknown\<close>

lemma plain_alias_known:
  assumes "next_such q plain_aliases = Some a"
  shows "q a \<and> map_of AMBIGUOUS_NAMES a = None \<and> (\<exists>p. map_of by_alias a = Some p)"
proof -
  have "a \<in> set plain_aliases" "q a" using next_such_in [OF assms] by auto
  then show ?thesis using map_of_eq_None_iff [of by_alias a] by (auto simp: plain_aliases_iff)
qed

lemma ambiguous_resolved:
  assumes "next_such q (by_length (map fst AMBIGUOUS_NAMES)) = Some name"
  obtains names where "(name, names) \<in> set AMBIGUOUS_NAMES" and "q name"
    and "ambiguity_sound (name, names)"
proof -
  have "name \<in> set (map fst AMBIGUOUS_NAMES)" "q name"
    using next_such_in [OF assms] by (auto simp: by_length_def)
  then obtain names where "(name, names) \<in> set AMBIGUOUS_NAMES" by auto
  then show thesis using that \<open>q name\<close> ambiguities_sound by (auto simp: list_all_iff)
qed

lemma ambiguous_match:
  assumes "pm_resolution (find_in_sentence s) = AMBIGUOUS_PLACE"
  shows "2 \<le> length (pm_candidates (find_in_sentence s))"
proof -
  have none: "next_such (\<lambda>a. named_in a s) plain_aliases = None"
    using assms plain_alias_known [of "\<lambda>a. named_in a s"]
    by (cases "next_such (\<lambda>a. named_in a s) plain_aliases")
      (auto simp: find_in_sentence_def resolved_place_def)
  then obtain name where n: "next_such (\<lambda>a. named_in a s) (by_length (map fst AMBIGUOUS_NAMES)) = Some name"
    using assms by (cases "next_such (\<lambda>a. named_in a s) (by_length (map fst AMBIGUOUS_NAMES))")
      (auto simp: find_in_sentence_def unknown_place_def)
  obtain names where "ambiguity_sound (name, names)" using ambiguous_resolved [OF n] by blast
  then show ?thesis using none n by (auto simp: find_in_sentence_def ambiguity_sound_def Let_def)
qed

text \<open>Punctuation goes without leaving a space, and only after the ends were stripped.\<close>

lemma punctuation_joins_words:
  "normalise ''marina,tomorrow'' = ''marinatomorrow'' \<and> normalise ''Marina !'' = ''marina ''"
  by code_simp

text \<open>A place is named, asked about or unknown, never guessed. Whatever the sentence: a place is
  resolved only if one of its own names stands in the sentence as whole words, that name is not one two
  emirates share, and no longer unshared name stands there; a question is asked only if a shared name
  stands there and no unshared one, and it offers at least two places, all of different emirates; and a
  sentence counts as unknown only if it holds no name of the tables at all.\<close>

theorem place_is_named_or_asked:
  "case pm_resolution (find_in_sentence s) of
     RESOLVED_PLACE \<Rightarrow> (\<exists>p a. pm_place (find_in_sentence s) = Some p \<and> p \<in> set PLACES \<and> named_in a s
       \<and> a \<in> set (map lower (canonical p # aliases p)) \<and> map_of AMBIGUOUS_NAMES a = None
       \<and> filter (\<lambda>b. named_in b s \<and> length a < length b) plain_aliases = [])
   | AMBIGUOUS_PLACE \<Rightarrow> (\<exists>name names. (name, names) \<in> set AMBIGUOUS_NAMES \<and> named_in name s
       \<and> filter (\<lambda>b. named_in b s) plain_aliases = []
       \<and> map canonical (pm_candidates (find_in_sentence s)) = names \<and> 2 \<le> length names
       \<and> distinct (map emirate (pm_candidates (find_in_sentence s))))
   | UNKNOWN_PLACE \<Rightarrow> filter (\<lambda>b. named_in b s) (plain_aliases @ map fst AMBIGUOUS_NAMES) = []"
proof (cases "next_such (\<lambda>a. named_in a s) plain_aliases")
  case (Some a)
  obtain p where p: "map_of by_alias a = Some p" "named_in a s" "map_of AMBIGUOUS_NAMES a = None"
    using plain_alias_known [OF Some] by auto
  have f: "find_in_sentence s = resolved_place p a" by (simp add: find_in_sentence_def Some p)
  have "a \<in> set (map lower (canonical p # aliases p))" "p \<in> set PLACES"
    using alias_place [OF p(1)] by auto
  moreover have "filter (\<lambda>b. named_in b s \<and> length a < length b) plain_aliases = []"
    using by_length_first [OF Some [unfolded plain_aliases_def]]
    by (auto simp: filter_empty_conv plain_aliases_def by_length_def not_less)
  ultimately show ?thesis using p unfolding f by (auto simp: resolved_place_def)
next
  case None
  then have none: "filter (\<lambda>b. named_in b s) plain_aliases = []"
    by (auto simp: filter_empty_conv next_such_None)
  show ?thesis
  proof (cases "next_such (\<lambda>a. named_in a s) (by_length (map fst AMBIGUOUS_NAMES))")
    case (Some name)
    from ambiguous_resolved [OF Some] obtain names where n: "(name, names) \<in> set AMBIGUOUS_NAMES"
      "named_in name s" "ambiguity_sound (name, names)" .
    have f: "find_in_sentence s = resolve_place name" by (simp add: find_in_sentence_def None Some)
    show ?thesis using n none unfolding f
      by (auto simp: ambiguity_sound_def Let_def
          intro!: exI [of _ name])
  next
    case nope: None
    then have "find_in_sentence s = unknown_place s" by (simp add: find_in_sentence_def None)
    then show ?thesis using none nope
      by (auto simp: unknown_place_def filter_empty_conv next_such_None by_length_def)
  qed
qed

end
