(* ===== verification/Understudy.thy ===== *)
theory Understudy
  imports Regex Places Understanding Wire
begin

text \<open>
  The language model behind its interface, \<^verbatim>\<open>mawjood/services/llm.py\<close>: the request to OpenAI and what
  is made of its answer, the rule-based understudy that reads a message by patterns, and the choice
  between the two. A text is UTF-8; only the Arabic and the emoji classes look at code points, the
  other patterns and the case folding are those of ASCII.
\<close>

subsection \<open>OpenAI\<close>

record openai_request =
  oa_url :: string
  oa_model :: string
  oa_key :: string
  oa_timeout_ms :: int
  oa_messages :: "(string \<times> string) list"

definition role_value :: "turn_role \<Rightarrow> string" where
  "role_value r = (case r of User \<Rightarrow> ''user'' | Assistant \<Rightarrow> ''assistant'')"

record openai =
  api_key :: string
  llm_model :: string
  base_url :: string
  llm_timeout :: int

definition openai_request_of :: "openai \<Rightarrow> string \<Rightarrow> turn list \<Rightarrow> openai_request" where
  "openai_request_of p system hist = \<lparr>
     oa_url = rstrip (\<lambda>c. c = CHR ''/'') (base_url p) @ ''/chat/completions'',
     oa_model = llm_model p, oa_key = api_key p, oa_timeout_ms = llm_timeout p,
     oa_messages = (''system'', system) # map (\<lambda>(r, c). (role_value r, c)) hist\<rparr>"

text \<open>How the state machine sees a JSON value.\<close>

definition raw_of :: "(wire \<Rightarrow> string) \<Rightarrow> wire \<Rightarrow> raw_value option" where
  "raw_of repr v = (if v = WNull then None else Some \<lparr>as_text = wire_str repr v, as_bool = wire_true v,
     as_items = (case v of WList xs \<Rightarrow> Some (map (wire_str repr) xs) | WText s \<Rightarrow> Some (map (\<lambda>c. [c]) s)
       | WDict d \<Rightarrow> Some (map fst d) | _ \<Rightarrow> None)\<rparr>)"

text \<open>\<open>extract\<close>: \<open>post\<close> is the body of a successful answer, None an exception or an error status. Any
  exception on the way to the parsed content is an empty object.\<close>

definition openai_extract ::
    "(openai_request \<Rightarrow> wire option) \<Rightarrow> (string \<Rightarrow> json_read) \<Rightarrow> (wire \<Rightarrow> string) \<Rightarrow> openai \<Rightarrow> string \<Rightarrow> llm" where
  "openai_extract post loads repr p system hist =
     (case (do {
        body \<leftarrow> post (openai_request_of p system hist);
        choices \<leftarrow> wire_item body ''choices'';
        choice \<leftarrow> (case choices of WList (c # _) \<Rightarrow> Some c | _ \<Rightarrow> None);
        msg \<leftarrow> wire_item choice ''message'';
        content \<leftarrow> wire_item msg ''content'';
        s \<leftarrow> wire_text content;
        (case loads s of Read v \<Rightarrow> Some v | _ \<Rightarrow> None)}) of
      None \<Rightarrow> Llm_Object []
    | Some (WDict d) \<Rightarrow> Llm_Object (map (\<lambda>(k, v). (k, raw_of repr v)) d)
    | Some _ \<Rightarrow> Llm_Other)"

subsection \<open>Vocabulary\<close>

abbreviation opt_space :: rx where
  "opt_space \<equiv> Opt (Lit '' '')"

definition SERVICES :: "(rx \<times> string \<times> string) list" where
  "SERVICES = [
     (seqs [Lit ''blow'', opt_space, Lit ''dry''], ''blow dry'', ''salon''),
     (alts [seqs [Lit ''hair'', opt_space, Lit ''cut''], Lit ''haircut'', words [''cut''], Lit ''trim''],
        ''haircut'', ''salon''),
     (alts (map Lit [''colour'', ''color'', ''highlights'', ''balayage'']), ''hair colour'', ''salon''),
     (alts (map Lit [''keratin'', ''treatment for my hair'']), ''keratin treatment'', ''salon''),
     (alts (map Lit [''beard'', ''shave'']), ''beard trim'', ''salon''),
     (alts [seqs [Lit ''mani'', opt_space, Lit ''cure''], words [''mani'']], ''manicure'', ''salon''),
     (alts [seqs [Lit ''pedi'', opt_space, Lit ''cure''], words [''pedi'']], ''pedicure'', ''salon''),
     (alts [whole (seqs [Lit ''nail'', Opt (Lit ''s'')]), Lit ''gel nails''], ''nails'', ''salon''),
     (alts (map Lit [''massage'', ''deep tissue'', ''swedish'']), ''massage'', ''spa''),
     (alts (map Lit [''facial'', ''hydrafacial'']), ''facial'', ''spa''),
     (alts [words [''spa''], Lit ''hammam''], ''spa treatment'', ''spa''),
     (alts (words [''table''] # map Lit [''dinner'', ''lunch'', ''brunch'', ''reservation at'']),
        ''table'', ''restaurant''),
     (alts (map Lit [''deliver'', ''takeaway'', ''take away'', ''order food'']),
        ''food delivery'', ''food_delivery'')]"

definition TIME_WORDS :: "(rx \<times> string) list" where
  "TIME_WORDS = [
     (words [''morning''], ''morning''),
     (words [''afternoon''], ''afternoon''),
     (alts [words [''evening''], Lit ''after work''], ''evening''),
     (alts [words [''tonight''], words [''night'']], ''evening''),
     (alts [words [''noon''], words [''midday'']], ''midday'')]"

definition each_word :: "string list \<Rightarrow> rx" where
  "each_word ws = alts (map (\<lambda>w. words [w]) ws)"

definition DATE_WORDS :: "(rx \<times> string) list" where
  "DATE_WORDS = [
     (each_word [''day after tomorrow''], ''day after tomorrow''),
     (each_word [''tomorrow'', ''tmrw'', ''tmr''], ''tomorrow''),
     (each_word [''today'', ''tonight''], ''today''),
     (each_word [''this weekend'', ''weekend''], ''weekend''),
     (each_word [''monday'', ''mon''], ''monday''),
     (each_word [''tuesday'', ''tue''], ''tuesday''),
     (each_word [''wednesday'', ''wed''], ''wednesday''),
     (each_word [''thursday'', ''thu'', ''thurs''], ''thursday''),
     (each_word [''friday'', ''fri''], ''friday''),
     (each_word [''saturday'', ''sat''], ''saturday''),
     (each_word [''sunday'', ''sun''], ''sunday'')]"

definition HUMAN :: rx where
  "HUMAN = words [''human'', ''person'', ''agent'', ''someone'', ''somebody'', ''real person'', ''manager'',
     ''speak to'', ''talk to'']"

definition AFFIRM :: rx where
  "AFFIRM = Seq (alts [Lit ''yes'', Lit ''yeah'', Lit ''yep'', Lit ''yup'', Lit ''ok'', Lit ''okay'', Lit ''sure'',
     seqs [Lit ''confirm'', Opt (Lit ''ed'')], Lit ''book it'', Lit ''go ahead'', Lit ''do it'', Lit ''please'']) Edge"

definition DENY :: rx where
  "DENY = Seq (alts [Lit ''no'', Lit ''nope'', Lit ''nah'', Lit ''not that'', Lit ''cancel'',
     seqs [Lit ''don'', Opt (Lit [CHR 0x27]), Lit ''t''], Lit ''different'', Lit ''another'']) Edge"

definition CHANGE :: rx where
  "CHANGE = words [''actually'', ''instead'', ''make it'', ''change it to'', ''rather'', ''can we do'']"

definition STATUS :: rx where
  "STATUS = words [''status'', ''is it confirmed'', ''did it go through'', ''my booking'', ''check my'']"

definition RESCHEDULE :: rx where
  "RESCHEDULE = words [''reschedule'', ''move it'', ''push it'', ''change the time'', ''different time'']"

definition CANCEL_REQUEST :: rx where
  "CANCEL_REQUEST = whole (alts [seqs [Lit ''cancel '', alts [Lit ''my'', Lit ''the''], Lit '' '',
     alts [Lit ''booking'', Lit ''appointment'']], Lit ''cancel it''])"

subsection \<open>Code points\<close>

function code_points :: "string \<Rightarrow> nat list" where
  "code_points [] = []"
| "code_points (c # cs) =
     (let n = of_char c; low = (\<lambda>i. of_char (cs ! i) mod 64) in
      if n < 192 then n # code_points cs
      else if n < 224 \<and> 1 \<le> length cs then (n mod 32 * 64 + low 0) # code_points (drop 1 cs)
      else if n < 240 \<and> 2 \<le> length cs then ((n mod 16 * 64 + low 0) * 64 + low 1) # code_points (drop 2 cs)
      else if 3 \<le> length cs then (((n mod 8 * 64 + low 0) * 64 + low 1) * 64 + low 2) # code_points (drop 3 cs)
      else n # code_points cs)"
  by pat_completeness auto
termination
  by (relation "measure length") auto

definition is_arabic :: "nat \<Rightarrow> bool" where
  "is_arabic n \<longleftrightarrow> (0x600 \<le> n \<and> n \<le> 0x6FF) \<or> (0x750 \<le> n \<and> n \<le> 0x77F)"

definition is_emoji_or_space :: "nat \<Rightarrow> bool" where
  "is_emoji_or_space n \<longleftrightarrow> (0x2190 \<le> n \<and> n \<le> 0x21FF) \<or> (0x2300 \<le> n \<and> n \<le> 0x27BF)
     \<or> (0x2B00 \<le> n \<and> n \<le> 0x2BFF) \<or> (0x1F000 \<le> n \<and> n \<le> 0x1FAFF) \<or> (0x1F1E6 \<le> n \<and> n \<le> 0x1F1FF)
     \<or> n \<in> {0xFE0F, 0x200D} \<or> (9 \<le> n \<and> n \<le> 13) \<or> (28 \<le> n \<and> n \<le> 32)
     \<or> n \<in> {0x85, 0xA0, 0x1680, 0x2028, 0x2029, 0x202F, 0x205F, 0x3000} \<or> (0x2000 \<le> n \<and> n \<le> 0x200A)"

subsection \<open>The clock\<close>

record clock_hit =
  ch_hour :: nat
  ch_minute :: "nat option"
  ch_meridiem :: "string option"

definition digit_rx :: rx where
  "digit_rx = Any_Of ''0123456789''"

definition hour_rx :: rx where
  "hour_rx = alts [seqs [Opt (Any_Of ''01''), digit_rx], seqs [Lit ''2'', Any_Of ''0123'']]"

definition minute_rx :: rx where
  "minute_rx = seqs [Any_Of ''012345'', digit_rx]"

text \<open>The text between two places.\<close>

definition taken :: "place_in_text \<Rightarrow> place_in_text \<Rightarrow> string" where
  "taken q q' = take (length (snd q) - length (snd q')) (snd q)"

definition number :: "string \<Rightarrow> nat" where
  "number s = foldl (\<lambda>n c. 10 * n + (of_char c - 48)) 0 s"

text \<open>The ways to match \<open>_CLOCK\<close> at a place, in order of preference.\<close>

definition clock_hits :: "place_in_text \<Rightarrow> clock_hit list" where
  "clock_hits q = concat (map (\<lambda>q0. concat (map (\<lambda>h.
     concat (map (\<lambda>(m, q2). concat (map (\<lambda>q3. concat (map (\<lambda>(ap, q4).
         if at_edge q4 then [\<lparr>ch_hour = number (taken q0 h), ch_minute = m, ch_meridiem = ap\<rparr>] else [])
       (map (\<lambda>e. (Some (taken q3 e), e)) (runs (alts [Lit ''am'', Lit ''pm'']) q3) @ [(None, q3)])))
       (runs Spaces q2)))
     (concat (map (\<lambda>c. map (\<lambda>e. (Some (number (taken c e)), e)) (runs minute_rx c)) (runs (Lit '':'') h))
        @ [(None, h)])))
   (runs hour_rx q0))) (runs Edge q))"

fun clock_from :: "char option \<Rightarrow> string \<Rightarrow> clock_hit option" where
  "clock_from p [] = (case clock_hits (p, []) of h # _ \<Rightarrow> Some h | [] \<Rightarrow> None)"
| "clock_from p (x # xs) =
     (case clock_hits (p, x # xs) of h # _ \<Rightarrow> Some h | [] \<Rightarrow> clock_from (Some x) xs)"

definition clock_time :: "string \<Rightarrow> string option" where
  "clock_time s = (case clock_from None s of
     None \<Rightarrow> None
   | Some h \<Rightarrow>
       if ch_meridiem h = None \<and> ch_minute h = None then None
       else
         let minute = (case ch_minute h of None \<Rightarrow> 0 | Some m \<Rightarrow> m);
             hour = (if ch_meridiem h = Some ''pm'' \<and> ch_hour h < 12 then ch_hour h + 12
               else if ch_meridiem h = Some ''am'' \<and> ch_hour h = 12 then 0 else ch_hour h)
         in Some (pad2 (int hour) @ '':'' @ pad2 (int minute)))"

subsection \<open>Reading a message\<close>

definition text_value :: "string \<Rightarrow> raw_value option" where
  "text_value s = Some \<lparr>as_text = s, as_bool = s \<noteq> [], as_items = Some (map (\<lambda>c. [c]) s)\<rparr>"

definition true_value :: "raw_value option" where
  "true_value = Some \<lparr>as_text = ''True'', as_bool = True, as_items = None\<rparr>"

definition list_value :: "string list \<Rightarrow> raw_value option" where
  "list_value xs = Some \<lparr>as_text = ''['' @ join '', '' (map py_repr xs) @ '']'', as_bool = xs \<noteq> [],
     as_items = Some xs\<rparr>"

text \<open>A key with a value, when there is one.\<close>

definition entry :: "string \<Rightarrow> string option \<Rightarrow> raw_response" where
  "entry k v = (case v of None \<Rightarrow> [] | Some s \<Rightarrow> [(k, text_value s)])"

definition flag :: "string \<Rightarrow> bool \<Rightarrow> raw_response" where
  "flag k b = (if b then [(k, true_value)] else [])"

definition first_found :: "(rx \<times> 'a) list \<Rightarrow> string \<Rightarrow> 'a option" where
  "first_found table s = map_option snd (next_such (\<lambda>p. found (fst p) s) table)"

definition read_area :: "string \<Rightarrow> raw_response" where
  "read_area s =
     (let m = find_in_sentence s in
      case (pm_resolution m, pm_place m) of
        (RESOLVED_PLACE, Some p) \<Rightarrow> [(''area'', text_value (canonical p))]
      | (AMBIGUOUS_PLACE, _) \<Rightarrow> [(''area_ambiguous'', list_value (map canonical (pm_candidates m)))]
      | _ \<Rightarrow> [])"

definition read_confirmation :: "string \<Rightarrow> string option" where
  "read_confirmation s = (if starts AFFIRM s then Some ''yes'' else if starts DENY s then Some ''no'' else None)"

definition read_details :: "string \<Rightarrow> string \<Rightarrow> raw_response" where
  "read_details s lowered =
     (case first_found SERVICES lowered of None \<Rightarrow> []
        | Some (service, cat) \<Rightarrow> [(''service'', text_value service), (''category'', text_value cat)])
     @ entry ''date_text'' (first_found DATE_WORDS lowered)
     @ entry ''time_text'' (case clock_time lowered of Some t \<Rightarrow> Some t
         | None \<Rightarrow> first_found TIME_WORDS lowered)
     @ read_area s
     @ entry ''confirmation'' (read_confirmation lowered)
     @ flag ''is_correction'' (found CHANGE lowered)"

definition intent_of :: "raw_response \<Rightarrow> string" where
  "intent_of out =
     (if map_of out ''service'' \<noteq> None then ''book''
      else if map_of out ''confirmation'' \<noteq> None then ''confirm''
      else if list_ex (\<lambda>k. map_of out k \<noteq> None) [''area'', ''date_text'', ''time_text'', ''area_ambiguous'']
      then ''provide_detail'' else ''unclear'')"

definition read_message :: "string \<Rightarrow> raw_response" where
  "read_message msg =
     (let s = strip msg; lowered = lower s in
      if s = [] then entry ''intent'' (Some ''unclear'')
      else
        let lang = entry ''language'' (if list_ex is_arabic (code_points s) then Some ''ar'' else None) in
        if list_all is_emoji_or_space (code_points s)
        then lang @ entry ''intent'' (Some ''unclear'') @ flag ''emoji_only'' True
        else
          let human = flag ''wants_human'' (found HUMAN lowered) in
          if found CANCEL_REQUEST lowered then lang @ human @ entry ''intent'' (Some ''cancel_booking'')
          else
            let details = read_details s lowered;
                intent = (if found RESCHEDULE lowered then ''reschedule_booking''
                  else if found STATUS lowered then ''booking_status'' else intent_of details)
            in lang @ human @ details @ entry ''intent'' (Some intent))"

definition latest_user :: "turn list \<Rightarrow> string" where
  "latest_user hist = (case next_such (\<lambda>t. fst t = User) (rev hist) of Some t \<Rightarrow> snd t | None \<Rightarrow> [])"

definition deterministic :: llm where
  "deterministic hist = Llm_Object (read_message (latest_user hist))"

subsection \<open>The choice\<close>

datatype provider = OpenAI openai | Deterministic

definition build_llm :: "string \<Rightarrow> string option \<Rightarrow> string \<Rightarrow> int \<Rightarrow> provider" where
  "build_llm name key model timeout_ms =
     (case key of
        Some k \<Rightarrow> if name = ''openai'' then OpenAI \<lparr>api_key = k, llm_model = model,
            base_url = ''https://api.openai.com/v1'', llm_timeout = timeout_ms\<rparr> else Deterministic
      | None \<Rightarrow> Deterministic)"

end
