(* ===== verification/Understudy_Props.thy ===== *)
theory Understudy_Props
  imports Understudy
begin

text \<open>
  What the understudy's readings are: always within the schema the model is given, and what its
  opening-word rule does to a pending offer.
\<close>

subsection \<open>Looking a key up\<close>

lemma map_of_entry: "map_of (entry k v) k' = (if k = k' then map_option text_value v else None)"
  by (simp add: entry_def split: option.split)

lemma map_of_flag: "map_of (flag k b) k' = (if k = k' \<and> b then Some true_value else None)"
  by (simp add: flag_def)

lemma map_of_area:
  "k \<noteq> ''area'' \<Longrightarrow> k \<noteq> ''area_ambiguous'' \<Longrightarrow> map_of (read_area s) k = None"
  by (auto simp: read_area_def Let_def split: resolution.splits option.splits)

lemma area_or_question:
  "map_of (read_area s) ''area'' = None \<or> map_of (read_area s) ''area_ambiguous'' = None"
  by (auto simp: read_area_def Let_def split: resolution.splits option.splits)

lemma ambiguous_value:
  "map_of (read_area s) ''area_ambiguous'' \<in> {None, Some (list_value (map canonical (pm_candidates (find_in_sentence s))))}"
  by (auto simp: read_area_def Let_def split: resolution.splits option.splits)

definition service_entries :: "(string \<times> string) option \<Rightarrow> raw_response" where
  "service_entries x = (case x of None \<Rightarrow> []
     | Some (service, cat) \<Rightarrow> [(''service'', text_value service), (''category'', text_value cat)])"

lemma map_of_service:
  "map_of (service_entries x) k = (if k = ''service'' then map_option (\<lambda>p. text_value (fst p)) x
     else if k = ''category'' then map_option (\<lambda>p. text_value (snd p)) x else None)"
  by (auto simp: service_entries_def split: option.split)

lemma read_details_alt:
  "read_details s lowered = service_entries (first_found SERVICES lowered)
     @ entry ''date_text'' (first_found DATE_WORDS lowered)
     @ entry ''time_text'' (case clock_time lowered of Some t \<Rightarrow> Some t
         | None \<Rightarrow> first_found TIME_WORDS lowered)
     @ read_area s
     @ entry ''confirmation'' (read_confirmation lowered)
     @ flag ''is_correction'' (found CHANGE lowered)"
  by (simp add: read_details_def service_entries_def)

lemma map_of_joined:
  "map_of ys k = None \<Longrightarrow> map_of (xs @ ys) k = map_of xs k"
  "map_of xs k = None \<Longrightarrow> map_of (xs @ ys) k = map_of ys k"
  "map_of ((k', v) # xs) k = (if k = k' then Some v else map_of xs k)"
  by (auto simp: map_add_def split: option.split)

lemmas lookup = map_of_append map_add_def map_of_entry map_of_flag map_of_area map_of_service

lemma first_found_in: "first_found table s = Some x \<Longrightarrow> \<exists>r. (r, x) \<in> set table"
  using next_such_in by (fastforce simp: first_found_def)

subsection \<open>The schema\<close>

definition SCHEMA_INTENTS :: "string list" where
  "SCHEMA_INTENTS = [''book'', ''provide_detail'', ''confirm'', ''booking_status'', ''reschedule_booking'',
     ''cancel_booking'', ''unclear'']"

definition SCHEMA_CATEGORIES :: "string list" where
  "SCHEMA_CATEGORIES = [''salon'', ''spa'', ''restaurant'', ''food_delivery'', ''ride'', ''other'']"

lemma service_table:
  "list_all (\<lambda>(r, s, c). c \<in> set SCHEMA_CATEGORIES \<and> strip c = c \<and> c \<noteq> [] \<and> strip s = s \<and> s \<noteq> []) SERVICES"
  by code_simp

lemma understand_deterministic:
  "understand deterministic msg hist =
     (case understanding_of (read_message msg) of Some u \<Rightarrow> u | None \<Rightarrow> understood_nothing)"
  by (simp add: understand_def deterministic_def latest_user_def)

lemma intent_in_schema: "intent_of out \<in> set SCHEMA_INTENTS"
  by (simp add: intent_of_def SCHEMA_INTENTS_def)

lemma understanding_of_fields:
  assumes "map_of r ''area_ambiguous'' \<in> {None, Some (list_value items)}"
  shows "\<exists>u. understanding_of r = Some u \<and> u_intent u = raw_default r ''intent'' ''unclear''
    \<and> u_service u = raw_text r ''service'' \<and> u_category u = raw_text r ''category''
    \<and> u_area u = raw_text r ''area'' \<and> confirmation u = raw_text r ''confirmation''
    \<and> wants_human u = raw_flag r ''wants_human'' \<and> u_language u = raw_default r ''language'' ''en''
    \<and> is_correction u = raw_flag r ''is_correction'' \<and> emoji_only u = raw_flag r ''emoji_only''
    \<and> area_ambiguous u = (if map_of r ''area_ambiguous'' = None then [] else items)"
  using assms by (auto simp: understanding_of_def raw_get_def list_value_def Let_def)

text \<open>The four shapes of a reading.\<close>

lemma read_cases:
  obtains (empty) "read_message msg = entry ''intent'' (Some ''unclear'')"
  | (emoji) l where "read_message msg = entry ''language'' l @ entry ''intent'' (Some ''unclear'')
      @ flag ''emoji_only'' True" and "l \<in> {None, Some ''ar''}"
  | (cancel) l h where "read_message msg = entry ''language'' l @ flag ''wants_human'' h
      @ entry ''intent'' (Some ''cancel_booking'')" and "l \<in> {None, Some ''ar''}"
  | (message) l h i where "read_message msg = entry ''language'' l @ flag ''wants_human'' h
      @ read_details (strip msg) (lower (strip msg)) @ entry ''intent'' (Some i)"
      and "l \<in> {None, Some ''ar''}" and "i \<in> set SCHEMA_INTENTS"
proof -
  define l where "l = (if list_ex is_arabic (code_points (strip msg)) then Some ''ar'' else None)"
  have l: "l \<in> {None, Some ''ar''}" by (simp add: l_def)
  define h where "h = found HUMAN (lower (strip msg))"
  define i where "i = (if found RESCHEDULE (lower (strip msg)) then ''reschedule_booking''
    else if found STATUS (lower (strip msg)) then ''booking_status''
    else intent_of (read_details (strip msg) (lower (strip msg))))"
  have i: "i \<in> set SCHEMA_INTENTS" using intent_in_schema by (simp add: i_def) (simp add: SCHEMA_INTENTS_def)
  have "read_message msg = (if strip msg = [] then entry ''intent'' (Some ''unclear'')
    else if list_all is_emoji_or_space (code_points (strip msg))
    then entry ''language'' l @ entry ''intent'' (Some ''unclear'') @ flag ''emoji_only'' True
    else if found CANCEL_REQUEST (lower (strip msg))
    then entry ''language'' l @ flag ''wants_human'' h @ entry ''intent'' (Some ''cancel_booking'')
    else entry ''language'' l @ flag ''wants_human'' h @ read_details (strip msg) (lower (strip msg))
      @ entry ''intent'' (Some i))"
    by (simp add: read_message_def Let_def l_def h_def i_def)
  then show thesis using l i empty emoji cancel message by (metis (no_types, lifting))
qed

lemma maybe_str_fixed: "strip s = s \<Longrightarrow> s \<noteq> [] \<Longrightarrow> maybe_str (Some s) = Some s"
  by (simp add: maybe_str_def)

lemma category_in_schema:
  "maybe_str (map_option as_text (case map_option (\<lambda>p. text_value (snd p)) (first_found SERVICES s) of
     None \<Rightarrow> None | Some v \<Rightarrow> v)) \<in> set (None # map Some SCHEMA_CATEGORIES)"
proof (cases "first_found SERVICES s")
  case (Some p)
  obtain sv c where p: "p = (sv, c)" by fastforce
  obtain r where "(r, sv, c) \<in> set SERVICES" using first_found_in [OF Some] p by blast
  then have "c \<in> set SCHEMA_CATEGORIES \<and> strip c = c \<and> c \<noteq> []"
    using service_table by (auto simp: list_all_iff)
  then show ?thesis using Some p by (simp add: text_value_def maybe_str_fixed)
qed (simp add: maybe_str_def)

lemma confirmation_in_schema:
  "maybe_str (map_option as_text (case map_option text_value (read_confirmation s) of
     None \<Rightarrow> None | Some v \<Rightarrow> v)) = read_confirmation s"
proof -
  have "strip ''yes'' = ''yes''" "strip ''no'' = ''no''" by code_simp+
  then show ?thesis by (auto simp: read_confirmation_def text_value_def maybe_str_def)
qed

text \<open>The understudy always answers within the schema. Whatever the message, its reading is an object the
  state machine accepts: the intent, the category and the confirmation are among the values the schema
  lists, the language is English or Arabic, a place is never both resolved and in question, and a question
  about a place offers more than one.\<close>

theorem understudy_keeps_the_schema:
  "u_intent (understand deterministic msg hist) \<in> set SCHEMA_INTENTS
   \<and> u_category (understand deterministic msg hist) \<in> set (None # map Some SCHEMA_CATEGORIES)
   \<and> confirmation (understand deterministic msg hist) \<in> {None, Some ''yes'', Some ''no''}
   \<and> u_language (understand deterministic msg hist) \<in> {''en'', ''ar''}
   \<and> (case u_area (understand deterministic msg hist) of None \<Rightarrow> True
      | Some a \<Rightarrow> area_ambiguous (understand deterministic msg hist) = [])
   \<and> length (area_ambiguous (understand deterministic msg hist)) \<noteq> 1"
proof -
  let ?items = "map canonical (pm_candidates (find_in_sentence (strip msg)))"
  have d: "map_of (read_details s t) k = None" if "k \<in> {''intent'', ''language'', ''wants_human'', ''emoji_only''}" for s t k
    using that by (elim insertE emptyE) (simp_all add: read_details_alt lookup)
  have q: "map_of (read_details (strip msg) t) ''area_ambiguous'' = map_of (read_area (strip msg)) ''area_ambiguous''" for t
    by (cases "map_of (read_area (strip msg)) ''area_ambiguous''") (simp_all add: read_details_alt lookup)
  have a: "map_of (read_details (strip msg) t) ''area'' = map_of (read_area (strip msg)) ''area''" for t
    by (cases "map_of (read_area (strip msg)) ''area''") (simp_all add: read_details_alt lookup)
  have c: "map_of (read_details s t) ''category'' = map_option (\<lambda>p. text_value (snd p)) (first_found SERVICES t)" for s t
    by (cases "first_found SERVICES t") (simp_all add: read_details_alt lookup)
  have y: "map_of (read_details s t) ''confirmation'' = map_option text_value (read_confirmation t)" for s t
    by (cases "read_confirmation t") (simp_all add: read_details_alt lookup)
  have amb: "map_of (read_message msg) ''area_ambiguous'' \<in> {None, Some (list_value ?items)}"
    using ambiguous_value [of "strip msg"] by (cases rule: read_cases [of msg]) (auto simp: lookup q)
  obtain u where u: "understand deterministic msg hist = u"
    "u_intent u = raw_default (read_message msg) ''intent'' ''unclear''"
    "u_category u = raw_text (read_message msg) ''category''"
    "u_area u = raw_text (read_message msg) ''area''" "confirmation u = raw_text (read_message msg) ''confirmation''"
    "u_language u = raw_default (read_message msg) ''language'' ''en''"
    "area_ambiguous u = (if map_of (read_message msg) ''area_ambiguous'' = None then [] else ?items)"
    using understanding_of_fields [OF amb] by (auto simp: understand_deterministic)
  have known: "''unclear'' \<in> set SCHEMA_INTENTS" "''cancel_booking'' \<in> set SCHEMA_INTENTS"
    by (simp_all add: SCHEMA_INTENTS_def)
  have "u_intent u \<in> set SCHEMA_INTENTS"
    by (cases rule: read_cases [of msg])
      (use known in \<open>auto simp: u raw_default_def lookup text_value_def d\<close>)
  moreover have "u_category u \<in> set (None # map Some SCHEMA_CATEGORIES)"
  proof (cases rule: read_cases [of msg])
    case (message l h i)
    then have "u_category u = maybe_str (map_option as_text (case map_option (\<lambda>p. text_value (snd p))
        (first_found SERVICES (lower (strip msg))) of None \<Rightarrow> None | Some v \<Rightarrow> v))"
      by (cases "first_found SERVICES (lower (strip msg))")
        (simp_all add: u raw_text_def raw_get_def lookup c)
    then show ?thesis using category_in_schema by simp
  qed (simp_all add: u raw_text_def raw_get_def lookup maybe_str_def)
  moreover have "confirmation u \<in> {None, Some ''yes'', Some ''no''}"
  proof (cases rule: read_cases [of msg])
    case (message l h i)
    then have "confirmation u = read_confirmation (lower (strip msg))"
      using confirmation_in_schema [of "lower (strip msg)"]
      by (cases "read_confirmation (lower (strip msg))")
        (simp_all add: u raw_text_def raw_get_def lookup y)
    then show ?thesis by (simp add: read_confirmation_def)
  qed (simp_all add: u raw_text_def raw_get_def lookup maybe_str_def)
  moreover have "u_language u \<in> {''en'', ''ar''}"
    by (cases rule: read_cases [of msg])
      (auto simp: u raw_default_def lookup text_value_def d split: option.splits)
  moreover have "(case u_area u of None \<Rightarrow> True | Some a \<Rightarrow> area_ambiguous u = [])"
    using area_or_question [of "strip msg"]
    by (cases rule: read_cases [of msg])
      (auto simp: u raw_text_def raw_get_def lookup q a maybe_str_def split: option.splits)
  moreover have "length (area_ambiguous u) \<noteq> 1"
  proof (cases "map_of (read_message msg) ''area_ambiguous'' = None")
    case False
    then have "pm_resolution (find_in_sentence (strip msg)) = AMBIGUOUS_PLACE"
      by (cases rule: read_cases [of msg])
        (auto simp: lookup q read_area_def Let_def split: resolution.splits option.splits)
    then show ?thesis using ambiguous_match [of "strip msg"] False by (simp add: u)
  qed (simp add: u)
  ultimately show ?thesis unfolding u(1) by blast
qed

subsection \<open>Opening words\<close>

lemma affirm_letter:
  assumes "starts AFFIRM s"
  shows "\<exists>c cs. s = c # cs \<and> is_alpha c"
proof (cases s)
  case Nil
  then show ?thesis using assms by (simp add: starts_def AFFIRM_def at_edge_def)
next
  case (Cons c cs)
  then show ?thesis using assms
    by (auto simp: starts_def AFFIRM_def is_alpha_def split: if_splits)
qed

lemma affirm_no_emoji:
  assumes "starts AFFIRM (lower s)"
  shows "s \<noteq> [] \<and> \<not> list_all is_emoji_or_space (code_points s)"
proof -
  obtain d ds where d: "lower s = d # ds" "is_alpha d" using affirm_letter [OF assms] by blast
  then obtain c cs where c: "s = c # cs" "d = lower_char c" by (cases s) (auto simp: lower_def)
  have "is_alpha c" using d c by (auto simp: is_alpha_def lower_char_def Let_def split: if_splits)
  then show ?thesis by (auto simp: c is_alpha_def Let_def is_emoji_or_space_def)
qed

text \<open>A message that opens with an affirming word books, whatever follows. With a slot offered and
  consent given, a message the understudy reads whose first word is yes, ok, sure, please or another of
  its affirmations, and which neither asks for a person nor cancels a booking nor holds Arabic, makes the
  machine book the slot on the table: also when the rest of it declines the slot, asks for another one
  or changes the day.\<close>

theorem affirming_opening_books:
  assumes "starts AFFIRM (lower (strip msg))" and "\<not> found HUMAN (lower (strip msg))"
    and "\<not> found CANCEL_REQUEST (lower (strip msg))" and "\<not> list_ex is_arabic (code_points (strip msg))"
    and "m_understanding i = understand deterministic msg hist"
    and "m_state i = CONFIRMATION" and "offer_pending i" and "m_consent i = GRANTED"
    and "m_signal i \<noteq> WITHDRAWAL" and "\<not> is_new_lead i" and "\<not> has_booking i"
  shows "t_action (advance i) = BOOK \<and> t_state (advance i) = BOOKING \<and> t_clear_offer (advance i) = False"
proof -
  let ?l = "lower (strip msg)"
  define i' where "i' = (if found RESCHEDULE ?l then ''reschedule_booking''
    else if found STATUS ?l then ''booking_status'' else intent_of (read_details (strip msg) ?l))"
  have r: "read_message msg = read_details (strip msg) ?l @ entry ''intent'' (Some i')"
    using assms(2-4) affirm_no_emoji [OF assms(1)]
    by (simp add: read_message_def Let_def entry_def flag_def i'_def)
  let ?items = "map canonical (pm_candidates (find_in_sentence (strip msg)))"
  have a: "map_of (read_message msg) ''area_ambiguous'' \<in> {None, Some (list_value ?items)}"
    using ambiguous_value [of "strip msg"]
    by (cases "map_of (read_area (strip msg)) ''area_ambiguous''") (simp_all add: r read_details_alt lookup)
  have y: "map_of (read_details (strip msg) ?l) ''confirmation'' = Some (text_value ''yes'')"
    using assms(1) by (simp add: read_details_alt lookup read_confirmation_def)
  have s: "strip ''yes'' = ''yes''" by code_simp
  have n: "map_of (read_message msg) ''wants_human'' = None" "map_of (read_message msg) ''language'' = None"
    by (simp_all add: r read_details_alt lookup)
  obtain u where u: "m_understanding i = u" "confirmation u = Some ''yes''" "\<not> wants_human u"
    "u_language u = ''en''"
    using understanding_of_fields [OF a] assms(5) y s n
    by (auto simp: understand_deterministic raw_text_def raw_get_def raw_flag_def raw_default_def
        text_value_def maybe_str_def r lookup)
  then show ?thesis
    using assms(6-) by (simp add: advance_def Let_def awaiting_confirmation_def may_share_pii_def)
qed

definition pending_input :: "string \<Rightarrow> machine_input" where
  "pending_input msg = \<lparr>m_state = CONFIRMATION, m_collected = no_slots,
     m_understanding = understand deterministic msg [], m_consent = GRANTED, m_signal = consent_signal.NONE,
     is_new_lead = False, hours_since_last_activity = 0, m_offer = Some [(''slot_id'', JStr ''s1'')],
     has_booking = False\<rparr>"

lemma affirming_opening_books_witness:
  "t_action (advance (pending_input ''please find me a different one'')) = BOOK"
proof -
  let ?m = "''please find me a different one''"
  have "starts AFFIRM (lower (strip ?m))" "\<not> found HUMAN (lower (strip ?m))"
    "\<not> found CANCEL_REQUEST (lower (strip ?m))" "\<not> list_ex is_arabic (code_points (strip ?m))"
    by code_simp+
  from affirming_opening_books [OF this, of "pending_input ?m" "[]"] show ?thesis
    by (simp add: pending_input_def offer_pending_def)
qed

lemma amended_yes_is_a_yes:
  "read_confirmation ''yes but make it friday instead'' = Some ''yes''
   \<and> found CHANGE ''yes but make it friday instead''"
  by code_simp

text \<open>Only the first number of a message is looked at, so a party size before the hour hides it.\<close>

lemma party_size_hides_the_hour:
  "clock_time ''table for 2 at 8pm'' = None \<and> clock_time ''table at 8pm for 2'' = Some ''20:00''
   \<and> clock_time ''12am'' = Some ''00:00'' \<and> clock_time ''at 9:30'' = Some ''09:30''"
  by code_simp

section \<open>The contract of a language model\<close>

text \<open>
  What a language model is asked to answer with, \<open>UNDERSTANDING_SCHEMA\<close> of
  \<^verbatim>\<open>mawjood/core/conversation/nlu.py\<close>, and what follows for the reading of a message when it does: the
  contract of \<open>LLMProvider\<close> as a locale, interpreted on the understudy.
\<close>

subsection \<open>The schema\<close>

datatype schema_field = Text_Field | Enum_Field "string list" | Boolean_Field | Texts_Field

definition UNDERSTANDING_SCHEMA :: "(string \<times> schema_field) list" where
  "UNDERSTANDING_SCHEMA =
     [(''intent'', Enum_Field SCHEMA_INTENTS),
      (''service'', Text_Field),
      (''category'', Enum_Field SCHEMA_CATEGORIES),
      (''area'', Text_Field),
      (''area_ambiguous'', Texts_Field),
      (''date_text'', Text_Field),
      (''time_text'', Text_Field),
      (''confirmation'', Enum_Field [''yes'', ''no'']),
      (''wants_human'', Boolean_Field),
      (''is_correction'', Boolean_Field),
      (''emoji_only'', Boolean_Field),
      (''language'', Text_Field)]"

definition false_value :: "raw_value option" where
  "false_value = Some \<lparr>as_text = ''False'', as_bool = False, as_items = None\<rparr>"

text \<open>A value of the kind a field asks for, as \<open>raw_value\<close> sees it.\<close>

fun fits :: "schema_field \<Rightarrow> raw_value option \<Rightarrow> bool" where
  "fits _ None \<longleftrightarrow> False"
| "fits Text_Field (Some w) \<longleftrightarrow> Some w = text_value (as_text w)"
| "fits (Enum_Field ss) (Some w) \<longleftrightarrow> Some w = text_value (as_text w) \<and> as_text w \<in> set ss"
| "fits Boolean_Field (Some w) \<longleftrightarrow> Some w = true_value \<or> Some w = false_value"
| "fits Texts_Field (Some w) \<longleftrightarrow>
     (case as_items w of None \<Rightarrow> False | Some xs \<Rightarrow> Some w = list_value xs)"

text \<open>Nothing is required; no other property is allowed.\<close>

definition conforms :: "raw_response \<Rightarrow> bool" where
  "conforms r \<longleftrightarrow> list_all (\<lambda>(k, v).
     case map_of UNDERSTANDING_SCHEMA k of None \<Rightarrow> False | Some f \<Rightarrow> fits f v) r"

lemma conforms_append [simp]: "conforms (xs @ ys) \<longleftrightarrow> conforms xs \<and> conforms ys"
  by (simp add: conforms_def)

lemma conforms_Nil [simp]: "conforms []"
  by (simp add: conforms_def)

lemma conforms_field:
  assumes "conforms r" and "map_of r k = Some v" and "map_of UNDERSTANDING_SCHEMA k = Some f"
  shows "fits f v"
  using assms map_of_SomeD [OF assms(2)] by (auto simp: conforms_def list_all_iff)

lemma fits_text: "fits Text_Field (text_value s)"
  by (simp add: text_value_def)

lemma fits_enum: "fits (Enum_Field ss) (text_value s) \<longleftrightarrow> s \<in> set ss"
  by (simp add: text_value_def)

lemma fits_flag: "fits Boolean_Field true_value"
  by (simp add: true_value_def)

lemma fits_list: "fits Texts_Field (list_value xs)"
  by (simp add: list_value_def)

lemma fits_enumD:
  assumes "fits (Enum_Field ss) v"
  shows "\<exists>w. v = Some w \<and> as_text w \<in> set ss"
proof -
  obtain w where w: "v = Some w" using assms by (cases v) auto
  then have "as_text w \<in> set ss" using assms by simp
  with w show ?thesis by blast
qed

subsection \<open>The contract\<close>

locale llm_contract =
  fixes ask_model :: "llm"
  assumes conforming: "ask_model hist = Llm_Object r \<Longrightarrow> conforms r"
begin

text \<open>An object is never dropped for its shape.\<close>

lemma object_accepted:
  assumes "ask_model hist = Llm_Object r"
  shows "understanding_of r \<noteq> None"
proof (cases "map_of r ''area_ambiguous''")
  case None
  then show ?thesis by (simp add: understanding_of_def raw_get_def)
next
  case (Some v)
  have "fits Texts_Field v"
    by (rule conforms_field [OF conforming [OF assms] Some]) (simp add: UNDERSTANDING_SCHEMA_def)
  then obtain w xs where "v = Some w" "as_items w = Some xs" by (cases v) (auto split: option.splits)
  then show ?thesis using Some by (simp add: understanding_of_def raw_get_def)
qed

lemma enumerated:
  assumes "ask_model hist = Llm_Object r" and "map_of UNDERSTANDING_SCHEMA k = Some (Enum_Field ss)"
  shows "map_of r k = None \<or> (\<exists>w. map_of r k = Some (Some w) \<and> as_text w \<in> set ss)"
  using conforms_field [OF conforming [OF assms(1)] _ assms(2)] fits_enumD
  by (cases "map_of r k") blast+

lemma enumerated_text:
  assumes "ask_model hist = Llm_Object r" and "map_of UNDERSTANDING_SCHEMA k = Some (Enum_Field ss)"
    and "list_all (\<lambda>s. strip s = s \<and> s \<noteq> []) ss"
  shows "raw_text r k \<in> set (None # map Some ss)"
  using enumerated [OF assms(1,2)] assms(3)
  by (auto simp: raw_text_def raw_get_def maybe_str_def list_all_iff)

text \<open>The reading of a message is within the enumerations, whether the model answers with an object, with
  something else, or not at all.\<close>

lemma reading_is_enumerated:
  "u_intent (understand ask_model msg hist) \<in> set SCHEMA_INTENTS"
  "u_category (understand ask_model msg hist) \<in> set (None # map Some SCHEMA_CATEGORIES)"
  "confirmation (understand ask_model msg hist) \<in> {None, Some ''yes'', Some ''no''}"
proof -
  let ?h = "last_n HISTORY_TURNS hist @ [(User, msg)]"
  have cats: "list_all (\<lambda>s. strip s = s \<and> s \<noteq> []) SCHEMA_CATEGORIES" by code_simp
  have yn: "list_all (\<lambda>s. strip s = s \<and> s \<noteq> []) [''yes'', ''no'']" by code_simp
  have "u_intent (understand ask_model msg hist) \<in> set SCHEMA_INTENTS
    \<and> u_category (understand ask_model msg hist) \<in> set (None # map Some SCHEMA_CATEGORIES)
    \<and> confirmation (understand ask_model msg hist) \<in> {None, Some ''yes'', Some ''no''}"
  proof (cases "ask_model ?h")
    case (Llm_Object r)
    obtain u where u: "understanding_of r = Some u" using object_accepted [OF Llm_Object] by auto
    have f: "u_intent u = raw_default r ''intent'' ''unclear''" "u_category u = raw_text r ''category''"
      "confirmation u = raw_text r ''confirmation''"
      using u by (auto simp: understanding_of_def Let_def)
    have "raw_default r ''intent'' ''unclear'' \<in> set SCHEMA_INTENTS"
      using enumerated [OF Llm_Object, of "''intent''" SCHEMA_INTENTS]
      by (auto simp: raw_default_def UNDERSTANDING_SCHEMA_def SCHEMA_INTENTS_def)
    moreover have "raw_text r ''category'' \<in> set (None # map Some SCHEMA_CATEGORIES)"
      by (rule enumerated_text [OF Llm_Object _ cats]) (simp add: UNDERSTANDING_SCHEMA_def)
    moreover have "raw_text r ''confirmation'' \<in> set (None # map Some [''yes'', ''no''])"
      by (rule enumerated_text [OF Llm_Object _ yn]) (simp add: UNDERSTANDING_SCHEMA_def)
    ultimately show ?thesis using Llm_Object u f by (simp add: understand_def)
  qed (simp_all add: understand_def understood_nothing_def SCHEMA_INTENTS_def)
  then show "u_intent (understand ask_model msg hist) \<in> set SCHEMA_INTENTS"
    "u_category (understand ask_model msg hist) \<in> set (None # map Some SCHEMA_CATEGORIES)"
    "confirmation (understand ask_model msg hist) \<in> {None, Some ''yes'', Some ''no''}" by auto
qed

end

subsection \<open>The understudy keeps it\<close>

lemma conforms_entry:
  "map_of UNDERSTANDING_SCHEMA k = Some Text_Field \<Longrightarrow> conforms (entry k v)"
  by (cases v) (auto simp: entry_def conforms_def fits_text)

lemma conforms_enum_entry:
  "map_of UNDERSTANDING_SCHEMA k = Some (Enum_Field ss) \<Longrightarrow> v \<in> set (None # map Some ss) \<Longrightarrow> conforms (entry k v)"
  by (cases v) (auto simp: entry_def conforms_def fits_enum)

lemma conforms_flag:
  "map_of UNDERSTANDING_SCHEMA k = Some Boolean_Field \<Longrightarrow> conforms (flag k b)"
  by (auto simp: flag_def conforms_def fits_flag)

lemma schema_fields:
  "map_of UNDERSTANDING_SCHEMA ''intent'' = Some (Enum_Field SCHEMA_INTENTS)"
  "map_of UNDERSTANDING_SCHEMA ''service'' = Some Text_Field"
  "map_of UNDERSTANDING_SCHEMA ''category'' = Some (Enum_Field SCHEMA_CATEGORIES)"
  "map_of UNDERSTANDING_SCHEMA ''area'' = Some Text_Field"
  "map_of UNDERSTANDING_SCHEMA ''area_ambiguous'' = Some Texts_Field"
  "map_of UNDERSTANDING_SCHEMA ''date_text'' = Some Text_Field"
  "map_of UNDERSTANDING_SCHEMA ''time_text'' = Some Text_Field"
  "map_of UNDERSTANDING_SCHEMA ''confirmation'' = Some (Enum_Field [''yes'', ''no''])"
  "map_of UNDERSTANDING_SCHEMA ''wants_human'' = Some Boolean_Field"
  "map_of UNDERSTANDING_SCHEMA ''is_correction'' = Some Boolean_Field"
  "map_of UNDERSTANDING_SCHEMA ''emoji_only'' = Some Boolean_Field"
  "map_of UNDERSTANDING_SCHEMA ''language'' = Some Text_Field"
  by (simp_all add: UNDERSTANDING_SCHEMA_def)

lemma conforms_area: "conforms (read_area s)"
  by (auto simp: read_area_def Let_def conforms_def schema_fields fits_text fits_list
      split: resolution.splits option.splits)

lemma conforms_service: "conforms (service_entries (first_found SERVICES s))"
proof (cases "first_found SERVICES s")
  case (Some p)
  obtain sv c where p: "p = (sv, c)" by (rule prod.exhaust)
  obtain r where "(r, sv, c) \<in> set SERVICES" using first_found_in [OF Some] p by blast
  then have "c \<in> set SCHEMA_CATEGORIES" using service_table by (auto simp: list_all_iff)
  then show ?thesis by (simp add: Some p service_entries_def conforms_def schema_fields fits_text fits_enum)
qed (simp add: service_entries_def)

lemma conforms_details: "conforms (read_details s t)"
  unfolding read_details_alt conforms_append
  by (intro conjI conforms_service conforms_entry conforms_area conforms_flag
      conforms_enum_entry [where ss = "[''yes'', ''no'']"])
    (simp_all add: schema_fields read_confirmation_def)

lemma conforms_reading: "conforms (read_message msg)"
proof -
  have intent: "conforms (entry ''intent'' (Some i))" if "i \<in> set SCHEMA_INTENTS" for i
    by (rule conforms_enum_entry [OF schema_fields(1)]) (use that in simp)
  have lang: "conforms (entry ''language'' l)" for l by (rule conforms_entry) (simp add: schema_fields)
  have flags: "conforms (flag ''wants_human'' b)" "conforms (flag ''emoji_only'' b)" for b
    by (rule conforms_flag; simp add: schema_fields)+
  have known: "''unclear'' \<in> set SCHEMA_INTENTS" "''cancel_booking'' \<in> set SCHEMA_INTENTS"
    by (simp_all add: SCHEMA_INTENTS_def)
  show ?thesis
    by (cases rule: read_cases [of msg])
      (simp_all add: intent lang flags known conforms_details del: set_simps)
qed

interpretation understudy: llm_contract deterministic
  by unfold_locales (auto simp: deterministic_def conforms_reading)

text \<open>The understudy is a provider as the interface has it: every answer is an object of the schema, and so
  is what is made of it.\<close>

theorem understudy_answers_conform:
  "\<exists>r. deterministic hist = Llm_Object r \<and> conforms r \<and> understanding_of r \<noteq> None"
  using understudy.conforming understudy.object_accepted by (auto simp: deterministic_def)

end
