(* ===== verification/Service.thy ===== *)
theory Service
  imports Config Repositories
begin

text \<open>
  The service around the handlers: the probes of \<^verbatim>\<open>mawjood/api/health.py\<close> and
  \<^verbatim>\<open>mawjood/db/engine.py\<close>, what \<^verbatim>\<open>mawjood/main.py\<close> strips from a Sentry event, the preparation of the
  database at startup, \<^verbatim>\<open>mawjood/db/bootstrap.py\<close>, and the request context of
  \<^verbatim>\<open>mawjood/observability/logging.py\<close>.
\<close>

subsection \<open>Probes\<close>

record database_health =
  dbh_healthy :: bool
  dbh_latency_ms :: real
  dbh_error :: "string option"

text \<open>How a connection and its \<open>SELECT 1\<close> end, and after how many milliseconds.\<close>

datatype probe = Connected real | Refused string real

definition round_2 :: "real \<Rightarrow> real" where
  "round_2 x = of_int (round_half_even (x * 100)) / 100"

definition check_database :: "real \<Rightarrow> probe \<Rightarrow> database_health" where
  "check_database timeout_s p =
     (let timed_out = \<lparr>dbh_healthy = False, dbh_latency_ms = round_2 (timeout_s * 1000), dbh_error = Some ''timeout''\<rparr>
      in case p of
        Connected ms' \<Rightarrow> if timeout_s * 1000 < ms' then timed_out
          else \<lparr>dbh_healthy = True, dbh_latency_ms = round_2 ms', dbh_error = None\<rparr>
      | Refused kind ms' \<Rightarrow> if timeout_s * 1000 < ms' then timed_out
          else \<lparr>dbh_healthy = False, dbh_latency_ms = round_2 ms',
             dbh_error = Some (if kind = ''TimeoutError'' then ''timeout'' else kind)\<rparr>)"

record readiness =
  rd_status_code :: nat
  rd_status :: string
  rd_region :: string
  rd_checks :: "(string \<times> database_health) list"

definition healthz :: "nat \<times> string" where
  "healthz = (200, ''ok'')"

definition readyz :: "settings \<Rightarrow> probe \<Rightarrow> readiness" where
  "readyz st p =
     (let checks = [(''database'', check_database (database_connect_timeout_s st) p)];
          ready = list_all (\<lambda>c. dbh_healthy (snd c)) checks
      in \<lparr>rd_status_code = (if ready then 200 else 503), rd_status = (if ready then ''ready'' else ''not_ready''),
          rd_region = region st, rd_checks = checks\<rparr>)"

lemma ready_means_answered:
  "rd_status_code (readyz st p) = 200 \<longleftrightarrow> (\<exists>t. p = Connected t \<and> t \<le> database_connect_timeout_s st * 1000)"
  by (cases p) (auto simp: readyz_def check_database_def Let_def)

subsection \<open>Sentry events\<close>

definition drop_key :: "string \<Rightarrow> (string \<times> wire) list \<Rightarrow> (string \<times> wire) list" where
  "drop_key k d = filter (\<lambda>p. fst p \<noteq> k) d"

text \<open>A value written back where it was found.\<close>

definition put_back :: "string \<Rightarrow> wire \<Rightarrow> wire \<Rightarrow> wire" where
  "put_back k v e = (case e of
     WDict d \<Rightarrow> WDict (map (\<lambda>p. if fst p = k then (k, v) else p) d) | _ \<Rightarrow> e)"

text \<open>What iterating over a value gives.\<close>

fun iterated :: "wire \<Rightarrow> wire list option" where
  "iterated (WList xs) = Some xs"
| "iterated (WDict d) = Some (map (\<lambda>p. WText (fst p)) d)"
| "iterated (WText s) = Some (map (\<lambda>c. WText [c]) s)"
| "iterated _ = None"

definition scrub_frame :: "wire \<Rightarrow> wire option" where
  "scrub_frame f = (case f of WDict d \<Rightarrow> Some (WDict (drop_key ''vars'' d)) | _ \<Rightarrow> None)"

definition scrub_entry :: "wire \<Rightarrow> wire option" where
  "scrub_entry e = do {
     st \<leftarrow> wire_get e ''stacktrace'' (WDict []);
     frames \<leftarrow> wire_get st ''frames'' (WList []);
     fs \<leftarrow> iterated frames;
     fs' \<leftarrow> those (map scrub_frame fs);
     Some (put_back ''stacktrace'' (put_back ''frames'' (WList fs') st) e)}"

definition scrub_event :: "(string \<times> wire) list \<Rightarrow> wire option" where
  "scrub_event event =
     (let e = WDict (drop_key ''request'' event) in do {
        ex \<leftarrow> wire_get e ''exception'' (WDict []);
        vals \<leftarrow> wire_get ex ''values'' (WList []);
        vs \<leftarrow> iterated vals;
        vs' \<leftarrow> those (map scrub_entry vs);
        Some (put_back ''exception'' (put_back ''values'' (WList vs') ex) e)})"

text \<open>The frames of an event's exceptions.\<close>

definition frames_of :: "wire \<Rightarrow> wire list" where
  "frames_of e = (case wire_get e ''exception'' (WDict []) of None \<Rightarrow> [] | Some ex \<Rightarrow>
     (case wire_get ex ''values'' (WList []) of Some (WList vs) \<Rightarrow>
        concat (map (\<lambda>v. case wire_get v ''stacktrace'' (WDict []) of None \<Rightarrow> [] | Some st \<Rightarrow>
          (case wire_get st ''frames'' (WList []) of Some (WList fs) \<Rightarrow> fs | _ \<Rightarrow> [])) vs)
      | _ \<Rightarrow> []))"

lemma map_of_put_back:
  "map_of (map (\<lambda>p. if fst p = k then (k, v) else p) d) k' =
     (if k' = k \<and> map_of d k \<noteq> None then Some v else map_of d k')"
  by (induction d) auto

lemma put_back_get:
  "wire_get e k def = Some x \<Longrightarrow>
     wire_get (put_back k v e) k def = Some (case wire_item e k of None \<Rightarrow> def | Some _ \<Rightarrow> v)"
  by (cases e) (auto simp: put_back_def map_of_put_back split: option.splits)

lemma those_Some: "those (map f xs) = Some ys \<Longrightarrow> y \<in> set ys \<Longrightarrow> \<exists>x\<in>set xs. f x = Some y"
  by (induction xs arbitrary: ys) (auto split: option.splits)

lemma scrubbed_entry_frames:
  assumes "scrub_entry v = Some v'" and "wire_get v' ''stacktrace'' (WDict []) = Some st'"
    and "wire_get st' ''frames'' (WList []) = Some (WList fs')" and "f \<in> set fs'"
  shows "wire_item f ''vars'' = None"
proof -
  obtain st frames fs ys where s: "wire_get v ''stacktrace'' (WDict []) = Some st"
    "wire_get st ''frames'' (WList []) = Some frames" "iterated frames = Some fs"
    "those (map scrub_frame fs) = Some ys"
    and v': "v' = put_back ''stacktrace'' (put_back ''frames'' (WList ys) st) v"
    using assms(1) by (auto simp: scrub_entry_def bind_eq_Some_conv)
  have frame: "wire_item f ''vars'' = None" if fy: "f \<in> set ys"
  proof -
    obtain x where "scrub_frame x = Some f" using those_Some [OF s(4) fy] by blast
    then show ?thesis by (cases x) (auto simp: scrub_frame_def drop_key_def map_of_eq_None_iff)
  qed
  have "st' = WDict [] \<or> st' = put_back ''frames'' (WList ys) st"
    using assms(2) put_back_get [OF s(1)] by (auto simp: v' split: option.splits)
  then have "fs' = [] \<or> fs' = ys"
    using assms(3) put_back_get [OF s(2)] by (auto split: option.splits)
  then show ?thesis using assms(4) frame by auto
qed

text \<open>Neither the request nor the local variables of a frame of an exception leave the process.\<close>

lemma scrubbed_event:
  assumes "scrub_event event = Some e"
  shows "wire_item e ''request'' = None" and "\<forall>f\<in>set (frames_of e). wire_item f ''vars'' = None"
proof -
  let ?d = "drop_key ''request'' event"
  obtain ex vals vs ys where s: "wire_get (WDict ?d) ''exception'' (WDict []) = Some ex"
    "wire_get ex ''values'' (WList []) = Some vals" "iterated vals = Some vs"
    "those (map scrub_entry vs) = Some ys"
    and e: "e = put_back ''exception'' (put_back ''values'' (WList ys) ex) (WDict ?d)"
    using assms by (auto simp: scrub_event_def Let_def bind_eq_Some_conv)
  show "wire_item e ''request'' = None"
    by (simp add: e put_back_def map_of_put_back) (auto simp: drop_key_def map_of_eq_None_iff)
  show "\<forall>f\<in>set (frames_of e). wire_item f ''vars'' = None"
  proof
    fix f assume f: "f \<in> set (frames_of e)"
    then obtain ex' vs' v st' fs' where g: "wire_get e ''exception'' (WDict []) = Some ex'"
      "wire_get ex' ''values'' (WList []) = Some (WList vs')" "v \<in> set vs'"
      "wire_get v ''stacktrace'' (WDict []) = Some st'" "wire_get st' ''frames'' (WList []) = Some (WList fs')"
      "f \<in> set fs'"
      by (auto simp: frames_of_def split: option.splits wire.splits) metis
    have "ex' = WDict [] \<or> ex' = put_back ''values'' (WList ys) ex"
      using g(1) put_back_get [OF s(1)] by (auto simp: e split: option.splits)
    then have "vs' = [] \<or> vs' = ys"
      using g(2) put_back_get [OF s(2)] by (auto split: option.splits)
    then have "v \<in> set ys" using g(3) by auto
    then obtain x where "scrub_entry x = Some v" using those_Some [OF s(4)] by blast
    then show "wire_item f ''vars'' = None" using scrubbed_entry_frames g(4-6) by blast
  qed
qed

subsection \<open>Startup\<close>

text \<open>\<open>migrated\<close> says whether the migrations apply; None is their exception, with which the service
  does not start.\<close>

definition prepare_database ::
    "bool \<Rightarrow> bool \<Rightarrow> bool \<Rightarrow> string \<Rightarrow> string \<Rightarrow> store \<Rightarrow> store option" where
  "prepare_database run_migrations seed_tenant migrated tslug tname db =
     (if run_migrations \<and> \<not> migrated then None
      else if seed_tenant then Some (snd (ensure_tenant tslug tname db)) else Some db)"

text \<open>No documentation pages in production.\<close>

definition docs_urls :: "settings \<Rightarrow> string option \<times> string option" where
  "docs_urls st = (if environment st = environment.PROD then (None, None)
     else (Some ''/docs'', Some ''/openapi.json''))"

subsection \<open>The request context\<close>

text \<open>What the application does with a request: the status and headers it starts a response with, if it
  does, and whether it raises.\<close>

record handled =
  hd_start :: "(nat \<times> (string \<times> string) list) option"
  hd_raises :: bool

datatype request_log = Request_Failed | Request_Completed nat

definition request_id :: "string option \<Rightarrow> string \<Rightarrow> string" where
  "request_id incoming generated = or_else incoming generated"

definition request_context ::
    "string \<Rightarrow> string option \<Rightarrow> string \<Rightarrow> handled \<Rightarrow> (nat \<times> (string \<times> string) list) option \<times> request_log" where
  "request_context header incoming generated h =
     (map_option (\<lambda>(code, headers). (code, headers @ [(header, request_id incoming generated)])) (hd_start h),
      if hd_raises h then Request_Failed
      else Request_Completed (case hd_start h of None \<Rightarrow> 500 | Some (code, _) \<Rightarrow> code))"

end
