(* ===== verification/Migrations.thy ===== *)
theory Migrations
  imports Prelude
begin

text \<open>
  The revisions of the database schema, \<^verbatim>\<open>mawjood/db/migrations/versions/\<close>, and what PostgreSQL makes
  of their operations: which it refuses and what they change. A schema is the list of its tables,
  each with its columns, constraints and indexes, its functions and its triggers. Tables, indexes
  and the indexes of primary keys and unique constraints share one space of names. The rows are not
  part of a schema; an operation that only rows can make fail (a column without a default added to
  a table that is not empty) does not occur in the revisions.
\<close>

subsection \<open>Schemas\<close>

datatype column_type = UUID_TYPE | VARCHAR nat | TEXT_TYPE | BOOLEAN | INTEGER | BIGINT | TIMESTAMPTZ | JSONB
  | NUMERIC nat nat | ENUM string "string list" nat

datatype server_default = LITERAL string | SQL string | IDENTITY

record column =
  col_name :: string
  col_type :: column_type
  col_default :: "server_default option"
  col_nullable :: bool

definition col :: "string \<Rightarrow> column_type \<Rightarrow> server_default option \<Rightarrow> bool \<Rightarrow> column" where
  "col n t d null = \<lparr>col_name = n, col_type = t, col_default = d, col_nullable = null\<rparr>"

definition id_column :: column where
  "id_column = col ''id'' UUID_TYPE (Some (SQL ''gen_random_uuid()'')) False"

definition tenant_column :: column where
  "tenant_column = col ''tenant_id'' UUID_TYPE None False"

definition stamp_column :: "string \<Rightarrow> column" where
  "stamp_column n = col n TIMESTAMPTZ (Some (SQL ''now()'')) False"

definition empty_json :: server_default where
  "empty_json = SQL ([CHR 0x27] @ ''{}'' @ [CHR 0x27] @ ''::jsonb'')"

datatype on_delete = CASCADE | SET_NULL

datatype table_constraint =
    Primary_Key string "string list"
  | Unique string "string list"
  | Check string string
  | Foreign_Key string string string string on_delete

record table_index =
  ix_name :: string
  ix_columns :: "string list"
  ix_unique :: bool
  ix_where :: "string option"
  ix_using :: string

record db_table =
  tb_name :: string
  tb_columns :: "column list"
  tb_constraints :: "table_constraint list"
  tb_indexes :: "table_index list"

record schema =
  sc_tables :: "db_table list"
  sc_functions :: "string list"
  sc_triggers :: "(string \<times> string \<times> string) list"

definition empty_schema :: schema where
  "empty_schema = \<lparr>sc_tables = [], sc_functions = [], sc_triggers = []\<rparr>"

fun constraint_name :: "table_constraint \<Rightarrow> string" where
  "constraint_name (Primary_Key n _) = n"
| "constraint_name (Unique n _) = n"
| "constraint_name (Check n _) = n"
| "constraint_name (Foreign_Key n _ _ _ _) = n"

text \<open>The columns a constraint reads, the key it provides, and the key of another table it needs.\<close>

fun constraint_columns :: "table_constraint \<Rightarrow> string list" where
  "constraint_columns (Primary_Key _ cs) = cs"
| "constraint_columns (Unique _ cs) = cs"
| "constraint_columns (Check _ _) = []"
| "constraint_columns (Foreign_Key _ c _ _ _) = [c]"

fun key_of :: "table_constraint \<Rightarrow> (string \<times> string list) option" where
  "key_of (Primary_Key n cs) = Some (n, cs)"
| "key_of (Unique n cs) = Some (n, cs)"
| "key_of _ = None"

fun target_of :: "table_constraint \<Rightarrow> (string \<times> string) option" where
  "target_of (Foreign_Key _ _ t c _) = Some (t, c)"
| "target_of _ = None"

definition keys :: "table_constraint list \<Rightarrow> (string \<times> string list) list" where
  "keys cs = List.map_filter key_of cs"

definition targets :: "table_constraint list \<Rightarrow> (string \<times> string) list" where
  "targets cs = List.map_filter target_of cs"

definition column_names :: "db_table \<Rightarrow> string list" where
  "column_names t = map col_name (tb_columns t)"

definition table_names :: "schema \<Rightarrow> string list" where
  "table_names s = map tb_name (sc_tables s)"

definition index_names :: "db_table \<Rightarrow> string list" where
  "index_names t = map ix_name (tb_indexes t)"

definition relations_of :: "db_table \<Rightarrow> string list" where
  "relations_of t = tb_name t # map fst (keys (tb_constraints t)) @ index_names t"

definition relation_names :: "schema \<Rightarrow> string list" where
  "relation_names s = concat (map relations_of (sc_tables s))"

definition find_table :: "schema \<Rightarrow> string \<Rightarrow> db_table option" where
  "find_table s n = next_such (\<lambda>t. tb_name t = n) (sc_tables s)"

definition update_table :: "string \<Rightarrow> (db_table \<Rightarrow> db_table) \<Rightarrow> schema \<Rightarrow> schema" where
  "update_table n f s = s\<lparr>sc_tables := map (\<lambda>t. if tb_name t = n then f t else t) (sc_tables s)\<rparr>"

subsection \<open>Operations\<close>

datatype migration_op =
    Create_Table string "column list" "table_constraint list"
  | Create_Index string string "string list" bool "string option" string
  | Add_Column string column
  | Create_Function string
  | Create_Trigger string string string
  | Drop_Table string
  | Drop_Index string
  | Drop_Column string string
  | Drop_Function string
  | Drop_Trigger string string

text \<open>The key a foreign key needs is a single column that is a primary key or unique.\<close>

definition has_key :: "schema \<Rightarrow> string \<times> string \<Rightarrow> bool" where
  "has_key s = (\<lambda>(t, c). case find_table s t of None \<Rightarrow> False
     | Some tb \<Rightarrow> list_ex (\<lambda>k. snd k = [c]) (keys (tb_constraints tb)))"

definition well_formed_table :: "db_table \<Rightarrow> bool" where
  "well_formed_table t \<longleftrightarrow> distinct (column_names t) \<and> distinct (map constraint_name (tb_constraints t))
     \<and> list_all (\<lambda>c. set (constraint_columns c) \<subseteq> set (column_names t)) (tb_constraints t)
     \<and> list_all (\<lambda>i. set (ix_columns i) \<subseteq> set (column_names t)) (tb_indexes t)"

definition targets_elsewhere :: "string \<Rightarrow> schema \<Rightarrow> (string \<times> string) list" where
  "targets_elsewhere n s = concat (map (\<lambda>t. targets (tb_constraints t))
     (filter (\<lambda>t. tb_name t \<noteq> n) (sc_tables s)))"

definition drop_column :: "string \<Rightarrow> db_table \<Rightarrow> db_table" where
  "drop_column c t = t\<lparr>tb_columns := filter (\<lambda>x. col_name x \<noteq> c) (tb_columns t),
     tb_constraints := filter (\<lambda>k. c \<notin> set (constraint_columns k)) (tb_constraints t),
     tb_indexes := filter (\<lambda>i. c \<notin> set (ix_columns i)) (tb_indexes t)\<rparr>"

text \<open>One operation; None is an error of the database, which rolls the migration back.\<close>

fun apply_op :: "migration_op \<Rightarrow> schema \<Rightarrow> schema option" where
  "apply_op (Create_Table n cs ks) s =
     (let t = \<lparr>tb_name = n, tb_columns = cs, tb_constraints = ks, tb_indexes = []\<rparr>;
          s' = s\<lparr>sc_tables := sc_tables s @ [t]\<rparr>
      in if distinct (relations_of t) \<and> list_all (\<lambda>r. r \<notin> set (relation_names s)) (relations_of t)
            \<and> well_formed_table t \<and> list_all (has_key s') (targets ks)
         then Some s' else None)"
| "apply_op (Create_Index n t cs uniq wher using) s =
     (case find_table s t of
        None \<Rightarrow> None
      | Some tb \<Rightarrow> if n \<in> set (relation_names s) \<or> \<not> set cs \<subseteq> set (column_names tb) then None
          else Some (update_table t (\<lambda>x. x\<lparr>tb_indexes := tb_indexes x @ [\<lparr>ix_name = n, ix_columns = cs,
                 ix_unique = uniq, ix_where = wher, ix_using = using\<rparr>]\<rparr>) s))"
| "apply_op (Add_Column t c) s =
     (case find_table s t of
        None \<Rightarrow> None
      | Some tb \<Rightarrow> if col_name c \<in> set (column_names tb) then None
          else Some (update_table t (\<lambda>x. x\<lparr>tb_columns := tb_columns x @ [c]\<rparr>) s))"
| "apply_op (Create_Function f) s =
     Some (if f \<in> set (sc_functions s) then s else s\<lparr>sc_functions := sc_functions s @ [f]\<rparr>)"
| "apply_op (Create_Trigger n t f) s =
     (if t \<notin> set (table_names s) \<or> f \<notin> set (sc_functions s)
         \<or> list_ex (\<lambda>(n', t', _). n' = n \<and> t' = t) (sc_triggers s) then None
      else Some (s\<lparr>sc_triggers := sc_triggers s @ [(n, t, f)]\<rparr>))"
| "apply_op (Drop_Table n) s =
     (if n \<notin> set (table_names s) \<or> n \<in> fst ` set (targets_elsewhere n s) then None
      else Some (s\<lparr>sc_tables := filter (\<lambda>t. tb_name t \<noteq> n) (sc_tables s),
             sc_triggers := filter (\<lambda>(_, t, _). t \<noteq> n) (sc_triggers s)\<rparr>))"
| "apply_op (Drop_Index n) s =
     (if n \<notin> set (concat (map index_names (sc_tables s))) then None
      else Some (s\<lparr>sc_tables := map (\<lambda>t. t\<lparr>tb_indexes := filter (\<lambda>i. ix_name i \<noteq> n) (tb_indexes t)\<rparr>)
             (sc_tables s)\<rparr>))"
| "apply_op (Drop_Column t c) s =
     (case find_table s t of
        None \<Rightarrow> None
      | Some tb \<Rightarrow> if c \<notin> set (column_names tb) \<or> (t, c) \<in> set (targets_elsewhere t s) then None
          else Some (update_table t (drop_column c) s))"
| "apply_op (Drop_Function f) s =
     (if list_ex (\<lambda>(_, _, f'). f' = f) (sc_triggers s) then None
      else Some (s\<lparr>sc_functions := filter (\<lambda>f'. f' \<noteq> f) (sc_functions s)\<rparr>))"
| "apply_op (Drop_Trigger n t) s =
     Some (s\<lparr>sc_triggers := filter (\<lambda>(n', t', _). \<not> (n' = n \<and> t' = t)) (sc_triggers s)\<rparr>)"

fun run_ops :: "migration_op list \<Rightarrow> schema \<Rightarrow> schema option" where
  "run_ops [] s = Some s"
| "run_ops (x # xs) s = (case apply_op x s of None \<Rightarrow> None | Some s' \<Rightarrow> run_ops xs s')"

subsection \<open>The initial schema\<close>

definition create_tenants :: "migration_op list" where
  "create_tenants = [
    Create_Table ''tenants''
      [id_column,
       col ''slug'' (VARCHAR 64) None False,
       col ''name'' (VARCHAR 200) None False,
       col ''default_locale'' (VARCHAR 8) (Some (LITERAL ''en'')) False,
       col ''timezone'' (VARCHAR 64) (Some (LITERAL ''Asia/Dubai'')) False,
       col ''is_active'' BOOLEAN (Some (LITERAL ''true'')) False,
       stamp_column ''created_at'',
       stamp_column ''updated_at'']
      [Primary_Key ''pk_tenants'' [''id''],
       Unique ''uq_tenants_slug'' [''slug'']],
    Create_Index ''ix_tenants_created_at'' ''tenants'' [''created_at''] False None ''btree'']"

definition create_leads :: "migration_op list" where
  "create_leads = [
    Create_Table ''leads''
      [id_column,
       col ''wa_id'' (VARCHAR 64) None False,
       col ''phone_e164'' (VARCHAR 32) None True,
       col ''display_name'' (VARCHAR 200) None True,
       col ''locale'' (VARCHAR 8) (Some (LITERAL ''en'')) False,
       col ''first_seen_at'' TIMESTAMPTZ (Some (SQL ''now()'')) False,
       col ''last_seen_at'' TIMESTAMPTZ (Some (SQL ''now()'')) False,
       tenant_column,
       stamp_column ''created_at'',
       stamp_column ''updated_at'']
      [Foreign_Key ''fk_leads_tenant_id_tenants'' ''tenant_id'' ''tenants'' ''id'' CASCADE,
       Primary_Key ''pk_leads'' [''id''],
       Unique ''uq_leads_tenant_id_wa_id'' [''tenant_id'', ''wa_id'']],
    Create_Index ''ix_leads_created_at'' ''leads'' [''created_at''] False None ''btree'',
    Create_Index ''ix_leads_tenant_id'' ''leads'' [''tenant_id''] False None ''btree'',
    Create_Index ''ix_leads_tenant_id_last_seen_at'' ''leads'' [''tenant_id'', ''last_seen_at''] False
      None ''btree'']"

definition create_routing_config :: "migration_op list" where
  "create_routing_config = [
    Create_Table ''routing_config''
      [id_column,
       col ''category'' (ENUM ''category'' [''salon'', ''spa'', ''restaurant'', ''food_delivery'',
         ''ride'', ''other''] 48) None False,
       col ''platform_slug'' (VARCHAR 64) None False,
       col ''position'' INTEGER None False,
       col ''is_enabled'' BOOLEAN (Some (LITERAL ''true'')) False,
       col ''config'' JSONB (Some empty_json) False,
       tenant_column,
       stamp_column ''created_at'',
       stamp_column ''updated_at'']
      [Check ''ck_routing_config_position_is_non_negative'' ''position >= 0'',
       Foreign_Key ''fk_routing_config_tenant_id_tenants'' ''tenant_id'' ''tenants'' ''id'' CASCADE,
       Primary_Key ''pk_routing_config'' [''id''],
       Unique ''uq_routing_config_tenant_category_slug'' [''tenant_id'', ''category'', ''platform_slug''],
       Unique ''uq_routing_config_tenant_category_position'' [''tenant_id'', ''category'', ''position'']],
    Create_Index ''ix_routing_config_created_at'' ''routing_config'' [''created_at''] False None ''btree'',
    Create_Index ''ix_routing_config_tenant_id'' ''routing_config'' [''tenant_id''] False None ''btree'']"

definition create_conversations :: "migration_op list" where
  "create_conversations = [
    Create_Table ''conversations''
      [id_column,
       col ''lead_id'' UUID_TYPE None False,
       col ''channel'' (ENUM ''channel'' [''whatsapp'', ''console''] 48) None False,
       col ''status'' (ENUM ''conversation_status'' [''active'', ''awaiting_handoff'', ''handed_off'',
         ''closed''] 48) (Some (LITERAL ''active'')) False,
       col ''locale'' (VARCHAR 8) (Some (LITERAL ''en'')) False,
       col ''bot_muted'' BOOLEAN (Some (LITERAL ''false'')) False,
       col ''started_at'' TIMESTAMPTZ (Some (SQL ''now()'')) False,
       col ''last_activity_at'' TIMESTAMPTZ (Some (SQL ''now()'')) False,
       col ''closed_at'' TIMESTAMPTZ None True,
       tenant_column,
       stamp_column ''created_at'',
       stamp_column ''updated_at'']
      [Foreign_Key ''fk_conversations_lead_id_leads'' ''lead_id'' ''leads'' ''id'' CASCADE,
       Foreign_Key ''fk_conversations_tenant_id_tenants'' ''tenant_id'' ''tenants'' ''id'' CASCADE,
       Primary_Key ''pk_conversations'' [''id'']],
    Create_Index ''ix_conversations_created_at'' ''conversations'' [''created_at''] False None ''btree'',
    Create_Index ''ix_conversations_last_activity_at'' ''conversations'' [''last_activity_at''] False
      None ''btree'',
    Create_Index ''ix_conversations_lead_id'' ''conversations'' [''lead_id''] False None ''btree'',
    Create_Index ''ix_conversations_tenant_id'' ''conversations'' [''tenant_id''] False None ''btree'',
    Create_Index ''ix_conversations_tenant_id_lead_id_status'' ''conversations'' [''tenant_id'',
      ''lead_id'', ''status''] False None ''btree'']"

definition create_attribution :: "migration_op list" where
  "create_attribution = [
    Create_Table ''attribution''
      [id_column,
       col ''lead_id'' UUID_TYPE None False,
       col ''conversation_id'' UUID_TYPE None True,
       col ''source_code'' (VARCHAR 64) None False,
       col ''medium'' (ENUM ''attribution_medium'' [''wa_link'', ''qr'', ''direct'', ''unknown''] 48)
         (Some (LITERAL ''unknown'')) False,
       col ''is_first_touch'' BOOLEAN (Some (LITERAL ''false'')) False,
       col ''raw_payload'' TEXT_TYPE None True,
       tenant_column,
       stamp_column ''created_at'',
       stamp_column ''updated_at'']
      [Foreign_Key ''fk_attribution_conversation_id_conversations'' ''conversation_id'' ''conversations''
        ''id'' SET_NULL,
       Foreign_Key ''fk_attribution_lead_id_leads'' ''lead_id'' ''leads'' ''id'' CASCADE,
       Foreign_Key ''fk_attribution_tenant_id_tenants'' ''tenant_id'' ''tenants'' ''id'' CASCADE,
       Primary_Key ''pk_attribution'' [''id'']],
    Create_Index ''ix_attribution_created_at'' ''attribution'' [''created_at''] False None ''btree'',
    Create_Index ''ix_attribution_lead_id'' ''attribution'' [''lead_id''] False None ''btree'',
    Create_Index ''ix_attribution_source_code'' ''attribution'' [''source_code''] False None ''btree'',
    Create_Index ''ix_attribution_tenant_id'' ''attribution'' [''tenant_id''] False None ''btree'',
    Create_Index ''ix_attribution_tenant_id_source_code'' ''attribution'' [''tenant_id'',
      ''source_code''] False None ''btree'']"

definition create_audit_log :: "migration_op list" where
  "create_audit_log = [
    Create_Table ''audit_log''
      [id_column,
       col ''seq'' BIGINT (Some IDENTITY) False,
       col ''occurred_at'' TIMESTAMPTZ (Some (SQL ''now()'')) False,
       col ''turn_id'' UUID_TYPE None True,
       col ''decision_id'' UUID_TYPE None True,
       col ''conversation_id'' UUID_TYPE None True,
       col ''lead_id'' UUID_TYPE None True,
       col ''correlation_id'' (VARCHAR 64) None True,
       col ''event_type'' (VARCHAR 64) None False,
       col ''actor'' (VARCHAR 32) None False,
       col ''category'' (VARCHAR 32) None True,
       col ''platform_slug'' (VARCHAR 64) None True,
       col ''merchant_ref'' (VARCHAR 200) None True,
       col ''attempt_number'' INTEGER None True,
       col ''outcome'' (VARCHAR 48) None True,
       col ''latency_ms'' INTEGER None True,
       col ''advance_reason'' (VARCHAR 200) None True,
       col ''consumer_visible'' BOOLEAN (Some (LITERAL ''false'')) False,
       col ''phrasebank_key'' (VARCHAR 128) None True,
       col ''locale'' (VARCHAR 8) None True,
       col ''consumer_text'' TEXT_TYPE None True,
       col ''inputs'' JSONB (Some empty_json) False,
       col ''details'' JSONB (Some empty_json) False,
       col ''schema_version'' INTEGER (Some (LITERAL ''1'')) False,
       stamp_column ''created_at'',
       tenant_column]
      [Foreign_Key ''fk_audit_log_conversation_id_conversations'' ''conversation_id'' ''conversations''
        ''id'' CASCADE,
       Foreign_Key ''fk_audit_log_lead_id_leads'' ''lead_id'' ''leads'' ''id'' CASCADE,
       Foreign_Key ''fk_audit_log_tenant_id_tenants'' ''tenant_id'' ''tenants'' ''id'' CASCADE,
       Primary_Key ''pk_audit_log'' [''id''],
       Unique ''uq_audit_log_seq'' [''seq'']],
    Create_Index ''ix_audit_log_consumer_visible'' ''audit_log'' [''consumer_visible''] False None
      ''btree'',
    Create_Index ''ix_audit_log_correlation_id'' ''audit_log'' [''correlation_id''] False None ''btree'',
    Create_Index ''ix_audit_log_decision_id'' ''audit_log'' [''decision_id''] False None ''btree'',
    Create_Index ''ix_audit_log_details'' ''audit_log'' [''details''] False None ''gin'',
    Create_Index ''ix_audit_log_occurred_at'' ''audit_log'' [''occurred_at''] False None ''btree'',
    Create_Index ''ix_audit_log_tenant_id'' ''audit_log'' [''tenant_id''] False None ''btree'',
    Create_Index ''ix_audit_log_tenant_id_conversation_id_seq'' ''audit_log'' [''tenant_id'',
      ''conversation_id'', ''seq''] False None ''btree'',
    Create_Index ''ix_audit_log_tenant_id_event_type_occurred_at'' ''audit_log'' [''tenant_id'',
      ''event_type'', ''occurred_at''] False None ''btree'',
    Create_Index ''ix_audit_log_tenant_id_occurred_at'' ''audit_log'' [''tenant_id'', ''occurred_at'']
      False None ''btree'',
    Create_Index ''ix_audit_log_tenant_id_platform_slug_outcome'' ''audit_log'' [''tenant_id'',
      ''platform_slug'', ''outcome''] False None ''btree'',
    Create_Index ''ix_audit_log_turn_id'' ''audit_log'' [''turn_id''] False None ''btree'']"

definition create_bookings :: "migration_op list" where
  "create_bookings = [
    Create_Table ''bookings''
      [id_column,
       col ''conversation_id'' UUID_TYPE None False,
       col ''lead_id'' UUID_TYPE None False,
       col ''category'' (ENUM ''category'' [''salon'', ''spa'', ''restaurant'', ''food_delivery'',
         ''ride'', ''other''] 48) None False,
       col ''platform_slug'' (VARCHAR 64) None False,
       col ''merchant_ref'' (VARCHAR 200) None True,
       col ''external_booking_ref'' (VARCHAR 200) None True,
       col ''idempotency_key'' (VARCHAR 200) None False,
       col ''status'' (ENUM ''booking_status'' [''pending'', ''confirmed'', ''uncertain'', ''cancelled'',
         ''failed''] 48) None False,
       col ''slot_start'' TIMESTAMPTZ None True,
       col ''slot_end'' TIMESTAMPTZ None True,
       col ''venue_name'' (VARCHAR 200) None True,
       col ''price_amount'' (NUMERIC 12 2) None True,
       col ''price_currency'' (VARCHAR 3) None True,
       col ''payment_status'' (ENUM ''payment_status'' [''not_applicable'', ''pay_at_venue'',
         ''pending'', ''paid'', ''refunded''] 48) (Some (LITERAL ''not_applicable'')) False,
       col ''confirmed_at'' TIMESTAMPTZ None True,
       col ''cancelled_at'' TIMESTAMPTZ None True,
       tenant_column,
       stamp_column ''created_at'',
       stamp_column ''updated_at'']
      [Foreign_Key ''fk_bookings_conversation_id_conversations'' ''conversation_id'' ''conversations''
        ''id'' CASCADE,
       Foreign_Key ''fk_bookings_lead_id_leads'' ''lead_id'' ''leads'' ''id'' CASCADE,
       Foreign_Key ''fk_bookings_tenant_id_tenants'' ''tenant_id'' ''tenants'' ''id'' CASCADE,
       Primary_Key ''pk_bookings'' [''id''],
       Unique ''uq_bookings_tenant_id_idempotency_key'' [''tenant_id'', ''idempotency_key'']],
    Create_Index ''ix_bookings_conversation_id'' ''bookings'' [''conversation_id''] False None ''btree'',
    Create_Index ''ix_bookings_created_at'' ''bookings'' [''created_at''] False None ''btree'',
    Create_Index ''ix_bookings_lead_id'' ''bookings'' [''lead_id''] False None ''btree'',
    Create_Index ''ix_bookings_tenant_id'' ''bookings'' [''tenant_id''] False None ''btree'',
    Create_Index ''ix_bookings_tenant_id_status_slot_start'' ''bookings'' [''tenant_id'', ''status'',
      ''slot_start''] False None ''btree'']"

definition create_handoff_queue :: "migration_op list" where
  "create_handoff_queue = [
    Create_Table ''handoff_queue''
      [id_column,
       col ''conversation_id'' UUID_TYPE None False,
       col ''lead_id'' UUID_TYPE None False,
       col ''reason'' (ENUM ''handoff_reason'' [''cascade_exhausted'', ''unsupported_action'',
         ''reconciliation_inconclusive'', ''consumer_request'', ''consent_withdrawn'', ''system_error'']
           48) None False,
       col ''status'' (ENUM ''handoff_status'' [''open'', ''claimed'', ''resolved'', ''abandoned''] 48)
         (Some (LITERAL ''open'')) False,
       col ''priority'' INTEGER (Some (LITERAL ''0'')) False,
       col ''claimed_by'' (VARCHAR 200) None True,
       col ''claimed_at'' TIMESTAMPTZ None True,
       col ''resolved_at'' TIMESTAMPTZ None True,
       col ''notes'' TEXT_TYPE None True,
       col ''context'' JSONB (Some empty_json) False,
       tenant_column,
       stamp_column ''created_at'',
       stamp_column ''updated_at'']
      [Foreign_Key ''fk_handoff_queue_conversation_id_conversations'' ''conversation_id''
        ''conversations'' ''id'' CASCADE,
       Foreign_Key ''fk_handoff_queue_lead_id_leads'' ''lead_id'' ''leads'' ''id'' CASCADE,
       Foreign_Key ''fk_handoff_queue_tenant_id_tenants'' ''tenant_id'' ''tenants'' ''id'' CASCADE,
       Primary_Key ''pk_handoff_queue'' [''id'']],
    Create_Index ''ix_handoff_queue_conversation_id'' ''handoff_queue'' [''conversation_id''] False None
      ''btree'',
    Create_Index ''ix_handoff_queue_created_at'' ''handoff_queue'' [''created_at''] False None ''btree'',
    Create_Index ''ix_handoff_queue_tenant_id'' ''handoff_queue'' [''tenant_id''] False None ''btree'',
    Create_Index ''ix_handoff_queue_tenant_id_status_priority'' ''handoff_queue'' [''tenant_id'',
      ''status'', ''priority''] False None ''btree'']"

definition create_messages :: "migration_op list" where
  "create_messages = [
    Create_Table ''messages''
      [id_column,
       col ''seq'' BIGINT (Some IDENTITY) False,
       col ''conversation_id'' UUID_TYPE None False,
       col ''lead_id'' UUID_TYPE None False,
       col ''turn_id'' UUID_TYPE None False,
       col ''direction'' (ENUM ''direction'' [''inbound'', ''outbound''] 48) None False,
       col ''channel'' (ENUM ''channel'' [''whatsapp'', ''console''] 48) None False,
       col ''status'' (ENUM ''message_status'' [''received'', ''queued'', ''sent'', ''delivered'',
         ''read'', ''failed''] 48) None False,
       col ''body'' TEXT_TYPE None False,
       col ''locale'' (VARCHAR 8) (Some (LITERAL ''en'')) False,
       col ''phrasebank_key'' (VARCHAR 128) None True,
       col ''provider_message_id'' (VARCHAR 200) None True,
       col ''sent_at'' TIMESTAMPTZ None True,
       tenant_column,
       stamp_column ''created_at'',
       stamp_column ''updated_at'']
      [Check ''ck_messages_outbound_messages_come_from_the_phrasebank'' (''(direction <> '' @ [CHR 0x27]
        @ ''outbound'' @ [CHR 0x27] @ '') OR (phrasebank_key IS NOT NULL)''),
       Foreign_Key ''fk_messages_conversation_id_conversations'' ''conversation_id'' ''conversations''
         ''id'' CASCADE,
       Foreign_Key ''fk_messages_lead_id_leads'' ''lead_id'' ''leads'' ''id'' CASCADE,
       Foreign_Key ''fk_messages_tenant_id_tenants'' ''tenant_id'' ''tenants'' ''id'' CASCADE,
       Primary_Key ''pk_messages'' [''id''],
       Unique ''uq_messages_seq'' [''seq'']],
    Create_Index ''ix_messages_conversation_id'' ''messages'' [''conversation_id''] False None ''btree'',
    Create_Index ''ix_messages_conversation_id_seq'' ''messages'' [''conversation_id'', ''seq''] False
      None ''btree'',
    Create_Index ''ix_messages_created_at'' ''messages'' [''created_at''] False None ''btree'',
    Create_Index ''ix_messages_tenant_id'' ''messages'' [''tenant_id''] False None ''btree'',
    Create_Index ''ix_messages_turn_id'' ''messages'' [''turn_id''] False None ''btree'',
    Create_Index ''uq_messages_tenant_id_channel_provider_message_id'' ''messages'' [''tenant_id'',
      ''channel'', ''provider_message_id''] True (Some ''provider_message_id IS NOT NULL'') ''btree'']"

definition create_consents :: "migration_op list" where
  "create_consents = [
    Create_Table ''consents''
      [id_column,
       col ''lead_id'' UUID_TYPE None False,
       col ''conversation_id'' UUID_TYPE None True,
       col ''event'' (ENUM ''consent_event'' [''notice_shown'', ''granted'', ''withdrawn''] 48) None False,
       col ''policy_version'' (VARCHAR 32) None False,
       col ''wording'' TEXT_TYPE None False,
       col ''locale'' (VARCHAR 8) None False,
       col ''channel'' (ENUM ''channel'' [''whatsapp'', ''console''] 48) None False,
       col ''evidence_message_id'' UUID_TYPE None True,
       col ''occurred_at'' TIMESTAMPTZ (Some (SQL ''now()'')) False,
       tenant_column,
       stamp_column ''created_at'',
       stamp_column ''updated_at'']
      [Foreign_Key ''fk_consents_conversation_id_conversations'' ''conversation_id'' ''conversations''
        ''id'' SET_NULL,
       Foreign_Key ''fk_consents_evidence_message_id_messages'' ''evidence_message_id'' ''messages''
         ''id'' SET_NULL,
       Foreign_Key ''fk_consents_lead_id_leads'' ''lead_id'' ''leads'' ''id'' CASCADE,
       Foreign_Key ''fk_consents_tenant_id_tenants'' ''tenant_id'' ''tenants'' ''id'' CASCADE,
       Primary_Key ''pk_consents'' [''id'']],
    Create_Index ''ix_consents_created_at'' ''consents'' [''created_at''] False None ''btree'',
    Create_Index ''ix_consents_lead_id'' ''consents'' [''lead_id''] False None ''btree'',
    Create_Index ''ix_consents_occurred_at'' ''consents'' [''occurred_at''] False None ''btree'',
    Create_Index ''ix_consents_tenant_id'' ''consents'' [''tenant_id''] False None ''btree'',
    Create_Index ''ix_consents_tenant_id_lead_id_occurred_at'' ''consents'' [''tenant_id'', ''lead_id'',
      ''occurred_at''] False None ''btree'']"

definition create_feedback :: "migration_op list" where
  "create_feedback = [
    Create_Table ''feedback''
      [id_column,
       col ''conversation_id'' UUID_TYPE None False,
       col ''booking_id'' UUID_TYPE None True,
       col ''lead_id'' UUID_TYPE None False,
       col ''rating'' INTEGER None True,
       col ''comment'' TEXT_TYPE None True,
       col ''requested_at'' TIMESTAMPTZ None True,
       col ''responded_at'' TIMESTAMPTZ None True,
       tenant_column,
       stamp_column ''created_at'',
       stamp_column ''updated_at'']
      [Check ''ck_feedback_rating_is_one_to_five'' ''rating IS NULL OR (rating BETWEEN 1 AND 5)'',
       Foreign_Key ''fk_feedback_booking_id_bookings'' ''booking_id'' ''bookings'' ''id'' SET_NULL,
       Foreign_Key ''fk_feedback_conversation_id_conversations'' ''conversation_id'' ''conversations''
         ''id'' CASCADE,
       Foreign_Key ''fk_feedback_lead_id_leads'' ''lead_id'' ''leads'' ''id'' CASCADE,
       Foreign_Key ''fk_feedback_tenant_id_tenants'' ''tenant_id'' ''tenants'' ''id'' CASCADE,
       Primary_Key ''pk_feedback'' [''id'']],
    Create_Index ''ix_feedback_created_at'' ''feedback'' [''created_at''] False None ''btree'',
    Create_Index ''ix_feedback_lead_id'' ''feedback'' [''lead_id''] False None ''btree'',
    Create_Index ''ix_feedback_tenant_id'' ''feedback'' [''tenant_id''] False None ''btree'']"

definition guard_audit_log :: "migration_op list" where
  "guard_audit_log = [
    Create_Function ''mawjood_audit_log_guard'',
    Create_Trigger ''audit_log_append_only'' ''audit_log'' ''mawjood_audit_log_guard'']"

definition upgrade_initial :: "migration_op list" where
  "upgrade_initial = create_tenants @ create_leads @ create_routing_config @ create_conversations @
    create_attribution @ create_audit_log @ create_bookings @ create_handoff_queue @ create_messages @
      create_consents @ create_feedback @ guard_audit_log"

definition downgrade_initial :: "migration_op list" where
  "downgrade_initial = [
    Drop_Trigger ''audit_log_append_only'' ''audit_log'',
    Drop_Function ''mawjood_audit_log_guard'',
    Drop_Index ''ix_feedback_tenant_id'',
    Drop_Index ''ix_feedback_lead_id'',
    Drop_Index ''ix_feedback_created_at'',
    Drop_Table ''feedback'',
    Drop_Index ''ix_consents_tenant_id_lead_id_occurred_at'',
    Drop_Index ''ix_consents_tenant_id'',
    Drop_Index ''ix_consents_occurred_at'',
    Drop_Index ''ix_consents_lead_id'',
    Drop_Index ''ix_consents_created_at'',
    Drop_Table ''consents'',
    Drop_Index ''uq_messages_tenant_id_channel_provider_message_id'',
    Drop_Index ''ix_messages_turn_id'',
    Drop_Index ''ix_messages_tenant_id'',
    Drop_Index ''ix_messages_created_at'',
    Drop_Index ''ix_messages_conversation_id_seq'',
    Drop_Index ''ix_messages_conversation_id'',
    Drop_Table ''messages'',
    Drop_Index ''ix_handoff_queue_tenant_id_status_priority'',
    Drop_Index ''ix_handoff_queue_tenant_id'',
    Drop_Index ''ix_handoff_queue_created_at'',
    Drop_Index ''ix_handoff_queue_conversation_id'',
    Drop_Table ''handoff_queue'',
    Drop_Index ''ix_bookings_tenant_id_status_slot_start'',
    Drop_Index ''ix_bookings_tenant_id'',
    Drop_Index ''ix_bookings_lead_id'',
    Drop_Index ''ix_bookings_created_at'',
    Drop_Index ''ix_bookings_conversation_id'',
    Drop_Table ''bookings'',
    Drop_Index ''ix_audit_log_turn_id'',
    Drop_Index ''ix_audit_log_tenant_id_platform_slug_outcome'',
    Drop_Index ''ix_audit_log_tenant_id_occurred_at'',
    Drop_Index ''ix_audit_log_tenant_id_event_type_occurred_at'',
    Drop_Index ''ix_audit_log_tenant_id_conversation_id_seq'',
    Drop_Index ''ix_audit_log_tenant_id'',
    Drop_Index ''ix_audit_log_occurred_at'',
    Drop_Index ''ix_audit_log_details'',
    Drop_Index ''ix_audit_log_decision_id'',
    Drop_Index ''ix_audit_log_correlation_id'',
    Drop_Index ''ix_audit_log_consumer_visible'',
    Drop_Table ''audit_log'',
    Drop_Index ''ix_attribution_tenant_id_source_code'',
    Drop_Index ''ix_attribution_tenant_id'',
    Drop_Index ''ix_attribution_source_code'',
    Drop_Index ''ix_attribution_lead_id'',
    Drop_Index ''ix_attribution_created_at'',
    Drop_Table ''attribution'',
    Drop_Index ''ix_conversations_tenant_id_lead_id_status'',
    Drop_Index ''ix_conversations_tenant_id'',
    Drop_Index ''ix_conversations_lead_id'',
    Drop_Index ''ix_conversations_last_activity_at'',
    Drop_Index ''ix_conversations_created_at'',
    Drop_Table ''conversations'',
    Drop_Index ''ix_routing_config_tenant_id'',
    Drop_Index ''ix_routing_config_created_at'',
    Drop_Table ''routing_config'',
    Drop_Index ''ix_leads_tenant_id_last_seen_at'',
    Drop_Index ''ix_leads_tenant_id'',
    Drop_Index ''ix_leads_created_at'',
    Drop_Table ''leads'',
    Drop_Index ''ix_tenants_created_at'',
    Drop_Table ''tenants'']"

subsection \<open>Conversation state and merchant credentials\<close>

definition create_merchant_credentials :: "migration_op list" where
  "create_merchant_credentials = [
    Create_Table ''merchant_credentials''
      [id_column,
       col ''platform_slug'' (VARCHAR 64) None False,
       col ''display_name'' (VARCHAR 200) None False,
       col ''area'' (VARCHAR 120) None True,
       col ''external_ids'' JSONB (Some empty_json) False,
       col ''secret_ref'' (VARCHAR 200) None True,
       col ''is_active'' BOOLEAN (Some (LITERAL ''true'')) False,
       col ''priority'' INTEGER (Some (LITERAL ''0'')) False,
       col ''credential_degraded_at'' TIMESTAMPTZ None True,
       tenant_column,
       stamp_column ''created_at'',
       stamp_column ''updated_at'']
      [Foreign_Key ''fk_merchant_credentials_tenant_id_tenants'' ''tenant_id'' ''tenants'' ''id'' CASCADE,
       Primary_Key ''pk_merchant_credentials'' [''id''],
       Unique ''uq_merchant_credentials_tenant_platform_name'' [''tenant_id'', ''platform_slug'',
         ''display_name'']],
    Create_Index ''ix_merchant_credentials_created_at'' ''merchant_credentials'' [''created_at''] False
      None ''btree'',
    Create_Index ''ix_merchant_credentials_tenant_id'' ''merchant_credentials'' [''tenant_id''] False
      None ''btree'',
    Create_Index ''ix_merchant_credentials_tenant_platform_priority'' ''merchant_credentials''
      [''tenant_id'', ''platform_slug'', ''priority''] False None ''btree'']"

definition add_conversation_state :: "migration_op list" where
  "add_conversation_state = [
    Add_Column ''conversations'' (col ''state'' (VARCHAR 32) (Some (LITERAL ''greeting'')) False),
    Add_Column ''conversations'' (col ''collected_slots'' JSONB (Some empty_json) False),
    Add_Column ''conversations'' (col ''pending_offer'' JSONB (Some empty_json) False)]"

definition upgrade_state :: "migration_op list" where
  "upgrade_state = create_merchant_credentials @ add_conversation_state"

definition downgrade_state :: "migration_op list" where
  "downgrade_state = [
    Drop_Column ''conversations'' ''pending_offer'',
    Drop_Column ''conversations'' ''collected_slots'',
    Drop_Column ''conversations'' ''state'',
    Drop_Index ''ix_merchant_credentials_tenant_platform_priority'',
    Drop_Index ''ix_merchant_credentials_tenant_id'',
    Drop_Index ''ix_merchant_credentials_created_at'',
    Drop_Table ''merchant_credentials'']"

subsection \<open>Scheduled notifications\<close>

definition create_scheduled_notifications :: "migration_op list" where
  "create_scheduled_notifications = [
    Create_Table ''scheduled_notifications''
      [id_column,
       col ''booking_id'' UUID_TYPE None False,
       col ''conversation_id'' UUID_TYPE None False,
       col ''lead_id'' UUID_TYPE None False,
       col ''kind'' (ENUM ''notification_kind'' [''reminder_24h'', ''reminder_2h'', ''follow_up'',
         ''satisfaction''] 48) None False,
       col ''status'' (ENUM ''notification_status'' [''pending'', ''sent'', ''deferred'', ''skipped'',
         ''failed''] 48) (Some (LITERAL ''pending'')) False,
       col ''due_at'' TIMESTAMPTZ None False,
       col ''sent_at'' TIMESTAMPTZ None True,
       col ''message_id'' UUID_TYPE None True,
       col ''attempts'' INTEGER (Some (LITERAL ''0'')) False,
       col ''last_attempt_at'' TIMESTAMPTZ None True,
       col ''reason'' TEXT_TYPE None True,
       col ''template_name'' (VARCHAR 128) None True,
       tenant_column,
       stamp_column ''created_at'',
       stamp_column ''updated_at'']
      [Foreign_Key ''fk_scheduled_notifications_booking_id_bookings'' ''booking_id'' ''bookings'' ''id''
        CASCADE,
       Foreign_Key ''fk_scheduled_notifications_conversation_id_conversations'' ''conversation_id''
         ''conversations'' ''id'' CASCADE,
       Foreign_Key ''fk_scheduled_notifications_lead_id_leads'' ''lead_id'' ''leads'' ''id'' CASCADE,
       Foreign_Key ''fk_scheduled_notifications_message_id_messages'' ''message_id'' ''messages'' ''id''
         SET_NULL,
       Foreign_Key ''fk_scheduled_notifications_tenant_id_tenants'' ''tenant_id'' ''tenants'' ''id''
         CASCADE,
       Primary_Key ''pk_scheduled_notifications'' [''id''],
       Unique ''uq_scheduled_notifications_booking_kind'' [''booking_id'', ''kind'']],
    Create_Index ''ix_scheduled_notifications_booking_id'' ''scheduled_notifications'' [''booking_id'']
      False None ''btree'',
    Create_Index ''ix_scheduled_notifications_created_at'' ''scheduled_notifications'' [''created_at'']
      False None ''btree'',
    Create_Index ''ix_scheduled_notifications_lead_id'' ''scheduled_notifications'' [''lead_id''] False
      None ''btree'',
    Create_Index ''ix_scheduled_notifications_tenant_id'' ''scheduled_notifications'' [''tenant_id'']
      False None ''btree'',
    Create_Index ''ix_scheduled_notifications_tenant_status_due'' ''scheduled_notifications''
      [''tenant_id'', ''status'', ''due_at''] False None ''btree'']"

definition upgrade_sched :: "migration_op list" where
  "upgrade_sched = create_scheduled_notifications"

definition downgrade_sched :: "migration_op list" where
  "downgrade_sched = [
    Drop_Index ''ix_scheduled_notifications_tenant_status_due'',
    Drop_Index ''ix_scheduled_notifications_tenant_id'',
    Drop_Index ''ix_scheduled_notifications_lead_id'',
    Drop_Index ''ix_scheduled_notifications_created_at'',
    Drop_Index ''ix_scheduled_notifications_booking_id'',
    Drop_Table ''scheduled_notifications'']"

subsection \<open>The history\<close>

record revision =
  rev_id :: string
  rev_down :: "string option"
  rev_upgrade :: "migration_op list"
  rev_downgrade :: "migration_op list"

definition initial_revision :: revision where
  "initial_revision = \<lparr>rev_id = ''2987110e7ed3'', rev_down = None, rev_upgrade = upgrade_initial,
     rev_downgrade = downgrade_initial\<rparr>"

definition state_revision :: revision where
  "state_revision = \<lparr>rev_id = ''e3fe6d095d50'', rev_down = Some ''2987110e7ed3'',
     rev_upgrade = upgrade_state, rev_downgrade = downgrade_state\<rparr>"

definition sched_revision :: revision where
  "sched_revision = \<lparr>rev_id = ''bd6290b7f0ee'', rev_down = Some ''e3fe6d095d50'',
     rev_upgrade = upgrade_sched, rev_downgrade = downgrade_sched\<rparr>"

definition REVISIONS :: "revision list" where
  "REVISIONS = [initial_revision, state_revision, sched_revision]"

subsection \<open>The guard of the audit log\<close>

datatype row_op = Row_Insert | Row_Update | Row_Delete

text \<open>Whether the trigger lets a row operation pass, by the setting \<open>mawjood.allow_purge\<close>; it is not
  asked about an insertion.\<close>

definition audit_log_guard :: "row_op \<Rightarrow> string option \<Rightarrow> bool" where
  "audit_log_guard x allow_purge = (case x of Row_Insert \<Rightarrow> True | Row_Update \<Rightarrow> False
     | Row_Delete \<Rightarrow> allow_purge = Some ''on'')"

end
