(* ===== verification/Migrations_Props.thy ===== *)
theory Migrations_Props
  imports Migrations
begin

text \<open>
  The revisions of the schema apply to an empty database, and every downgrade undoes its upgrade on
  whatever schema the upgrade was applied to. A downgrade is its upgrade read backwards, operation by
  operation, which is decided by evaluation; that each single operation is undone by its counterpart
  needs the schema to be consistent, which the operations that build keep.
\<close>

subsection \<open>Consistent schemas\<close>

definition has_column :: "schema \<Rightarrow> string \<times> string \<Rightarrow> bool" where
  "has_column s = (\<lambda>(t, c). \<exists>tb\<in>set (sc_tables s). tb_name tb = t \<and> c \<in> set (column_names tb))"

definition consistent :: "schema \<Rightarrow> bool" where
  "consistent s \<longleftrightarrow> distinct (table_names s)
     \<and> (\<forall>tb\<in>set (sc_tables s). well_formed_table tb \<and> (\<forall>k\<in>set (targets (tb_constraints tb)). has_column s k))
     \<and> (\<forall>(n, t, f)\<in>set (sc_triggers s). t \<in> set (table_names s) \<and> f \<in> set (sc_functions s))"

text \<open>The operations that build, and the one that takes each of them back.\<close>

definition undoes :: "migration_op \<Rightarrow> migration_op \<Rightarrow> bool" where
  "undoes d u = (case u of
       Create_Table n _ _ \<Rightarrow> d = Drop_Table n
     | Create_Index n _ _ _ _ _ \<Rightarrow> d = Drop_Index n
     | Add_Column t c \<Rightarrow> d = Drop_Column t (col_name c)
     | Create_Function f \<Rightarrow> d = Drop_Function f
     | Create_Trigger n t _ \<Rightarrow> d = Drop_Trigger n t
     | _ \<Rightarrow> False)"

definition created_function :: "migration_op \<Rightarrow> string option" where
  "created_function u = (case u of Create_Function f \<Rightarrow> Some f | _ \<Rightarrow> None)"

definition created_functions :: "migration_op list \<Rightarrow> string list" where
  "created_functions us = List.map_filter created_function us"

lemma created_functions_simps [simp]:
  "created_functions [] = []"
  "created_functions (u # us) = (case created_function u of None \<Rightarrow> [] | Some f \<Rightarrow> [f]) @ created_functions us"
  by (auto simp: created_functions_def List.map_filter_simps split: option.splits)

lemma find_table_Some: "find_table s n = Some tb \<Longrightarrow> tb \<in> set (sc_tables s) \<and> tb_name tb = n"
  unfolding find_table_def by (rule next_such_in)

lemma same_table:
  "distinct (table_names s) \<Longrightarrow> tb \<in> set (sc_tables s) \<Longrightarrow> tb' \<in> set (sc_tables s) \<Longrightarrow>
     tb_name tb = tb_name tb' \<Longrightarrow> tb = tb'"
  unfolding table_names_def by (auto simp: distinct_map dest: inj_onD)

lemma relations_in: "tb \<in> set (sc_tables s) \<Longrightarrow> r \<in> set (relations_of tb) \<Longrightarrow> r \<in> set (relation_names s)"
  by (auto simp: relation_names_def)

lemma table_name_relation: "t \<in> set (table_names s) \<Longrightarrow> t \<in> set (relation_names s)"
  by (auto simp: table_names_def relations_of_def intro!: relations_in)

lemma index_name_relation: "tb \<in> set (sc_tables s) \<Longrightarrow> i \<in> set (tb_indexes tb) \<Longrightarrow> ix_name i \<in> set (relation_names s)"
  by (erule relations_in) (simp add: relations_of_def index_names_def)

lemma column_of_key:
  assumes "has_key s (t, c)" and "\<And>tb. tb \<in> set (sc_tables s) \<Longrightarrow> well_formed_table tb"
  shows "has_column s (t, c)"
proof -
  obtain tb n where tb: "find_table s t = Some tb" "(n, [c]) \<in> set (keys (tb_constraints tb))"
    using assms(1) by (auto simp: has_key_def list_ex_iff split: option.splits)
  then obtain k where k: "k \<in> set (tb_constraints tb)" "key_of k = Some (n, [c])"
    by (auto simp: keys_def List.map_filter_def)
  from k(2) have "c \<in> set (constraint_columns k)" by (cases k) auto
  moreover have "set (constraint_columns k) \<subseteq> set (column_names tb)"
    using assms(2) [of tb] find_table_Some [OF tb(1)] k(1) by (auto simp: well_formed_table_def list_all_iff)
  ultimately show ?thesis using find_table_Some [OF tb(1)] by (auto simp: has_column_def)
qed

lemma has_column_other [simp]:
  "has_column (s\<lparr>sc_functions := fs\<rparr>) = has_column s" "has_column (s\<lparr>sc_triggers := ts\<rparr>) = has_column s"
  by (auto simp: has_column_def)

subsection \<open>Building keeps a schema consistent\<close>

lemma table_names_update [simp]: "(\<And>t. tb_name (f t) = tb_name t) \<Longrightarrow> table_names (update_table n f s) = table_names s"
  by (auto simp: table_names_def update_table_def)

lemma update_table_parts [simp]:
  "sc_functions (update_table n f s) = sc_functions s" "sc_triggers (update_table n f s) = sc_triggers s"
  by (simp_all add: update_table_def)

lemma find_table_update:
  assumes "find_table s n = Some tb" and "\<And>t. tb_name (f t) = tb_name t"
  shows "find_table (update_table n f s) n = Some (f tb)"
proof -
  have "next_such (\<lambda>t. tb_name t = n) ts = Some tb \<Longrightarrow>
      next_such (\<lambda>t. tb_name t = n) (map (\<lambda>t. if tb_name t = n then f t else t) ts) = Some (f tb)" for ts
    by (induction ts) (auto simp: assms(2) split: if_splits)
  then show ?thesis using assms(1) by (simp add: find_table_def update_table_def)
qed

lemma update_table_undone:
  assumes "\<And>t. tb_name (f t) = tb_name t" and "\<And>t. t \<in> set (sc_tables s) \<Longrightarrow> tb_name t = n \<Longrightarrow> g (f t) = t"
  shows "update_table n g (update_table n f s) = s"
proof -
  have "map ((\<lambda>t. if tb_name t = n then g t else t) \<circ> (\<lambda>t. if tb_name t = n then f t else t)) (sc_tables s)
      = sc_tables s"
    by (rule map_idI) (auto simp: assms)
  then show ?thesis by (simp add: update_table_def)
qed

lemma in_update_table:
  "tb \<in> set (sc_tables (update_table n f s)) \<longleftrightarrow>
     (\<exists>t\<in>set (sc_tables s). tb = (if tb_name t = n then f t else t))"
  by (simp add: update_table_def image_iff del: if_image_distrib)

lemma consistent_update:
  assumes "consistent s"
    and f: "\<And>t. tb_name (f t) = tb_name t" "\<And>t. tb_constraints (f t) = tb_constraints t"
      "\<And>t. set (column_names t) \<subseteq> set (column_names (f t))"
      "\<And>t. t \<in> set (sc_tables s) \<Longrightarrow> tb_name t = n \<Longrightarrow> well_formed_table (f t)"
  shows "consistent (update_table n f s)"
proof -
  have c: "has_column (update_table n f s) k" if k: "has_column s k" for k
  proof -
    obtain t x tb where k: "k = (t, x)" "tb \<in> set (sc_tables s)" "tb_name tb = t" "x \<in> set (column_names tb)"
      using k by (auto simp: has_column_def split: prod.splits)
    have "(if tb_name tb = n then f tb else tb) \<in> set (sc_tables (update_table n f s))"
      using k(2) by (auto simp: in_update_table)
    then show ?thesis using k f(1) [of tb] f(3) [of tb]
      by (auto simp: has_column_def k(1) intro!: bexI [of _ "if tb_name tb = n then f tb else tb"])
  qed
  have "well_formed_table tb \<and> (\<forall>k\<in>set (targets (tb_constraints tb)). has_column (update_table n f s) k)"
    if "tb \<in> set (sc_tables (update_table n f s))" for tb
    using that assms(1) c f(2,4) by (auto simp: in_update_table consistent_def split: if_splits)
  then show ?thesis using assms(1) f(1) by (simp add: consistent_def)
qed

lemma built_is_consistent:
  assumes "consistent s" and "apply_op u s = Some s'" and "undoes d u"
  shows "consistent s'"
proof (cases u)
  case (Create_Table n cs ks)
  let ?t = "\<lparr>tb_name = n, tb_columns = cs, tb_constraints = ks, tb_indexes = []\<rparr>"
  have s': "s' = s\<lparr>sc_tables := sc_tables s @ [?t]\<rparr>" "well_formed_table ?t" "list_all (has_key s') (targets ks)"
    and new: "n \<notin> set (table_names s)"
    using assms(2) table_name_relation [of n s]
    by (auto simp: Create_Table Let_def relations_of_def split: if_splits)
  have w: "well_formed_table tb" if "tb \<in> set (sc_tables s')" for tb
    using that assms(1) s' by (auto simp: consistent_def)
  have old: "has_column s' k" if "has_column s k" for k using that by (auto simp: has_column_def s'(1))
  have "has_column s' k" if "k \<in> set (targets ks)" for k
    using that s'(3) column_of_key [of s' "fst k" "snd k", OF _ w] by (simp add: list_all_iff)
  then show ?thesis using assms(1) s' new old by (auto simp: consistent_def table_names_def)
next
  case (Create_Index n t cs uq wh us)
  then obtain tb where tb: "find_table s t = Some tb" "set cs \<subseteq> set (column_names tb)"
    and s': "s' = update_table t (\<lambda>x. x\<lparr>tb_indexes := tb_indexes x @ [\<lparr>ix_name = n, ix_columns = cs,
        ix_unique = uq, ix_where = wh, ix_using = us\<rparr>]\<rparr>) s"
    using assms(2) by (auto split: option.splits if_splits)
  have "x = tb" if "x \<in> set (sc_tables s)" "tb_name x = t" for x
    using same_table [of s x tb] that find_table_Some [OF tb(1)] assms(1) by (auto simp: consistent_def)
  then show ?thesis unfolding s'
    using assms(1) tb find_table_Some [OF tb(1)]
    by (intro consistent_update) (auto simp: consistent_def well_formed_table_def column_names_def)
next
  case (Add_Column t c)
  then obtain tb where tb: "find_table s t = Some tb" "col_name c \<notin> set (column_names tb)"
    and s': "s' = update_table t (\<lambda>x. x\<lparr>tb_columns := tb_columns x @ [c]\<rparr>) s"
    using assms(2) by (auto split: option.splits if_splits)
  have same: "x = tb" if "x \<in> set (sc_tables s)" "tb_name x = t" for x
    using same_table [of s x tb] that find_table_Some [OF tb(1)] assms(1) by (auto simp: consistent_def)
  have "well_formed_table tb"
    using assms(1) find_table_Some [OF tb(1)] by (simp add: consistent_def)
  then have "well_formed_table (tb\<lparr>tb_columns := tb_columns tb @ [c]\<rparr>)"
    using tb(2) by (auto simp: well_formed_table_def column_names_def list_all_iff; blast)
  then show ?thesis unfolding s' using assms(1) same
    by (intro consistent_update) (auto simp: column_names_def)
next
  case (Create_Function f)
  then show ?thesis using assms
    by (auto simp: consistent_def table_names_def split: if_splits)
next
  case (Create_Trigger n t f)
  then show ?thesis using assms
    by (auto simp: consistent_def table_names_def split: if_splits)
qed (use assms(3) in \<open>auto simp: undoes_def\<close>)

subsection \<open>Taking an operation back\<close>

lemma target_elsewhere:
  assumes "consistent s" and "(t, c) \<in> set (targets_elsewhere n s)"
  shows "\<exists>tb\<in>set (sc_tables s). tb_name tb = t \<and> c \<in> set (column_names tb)"
  using assms by (fastforce simp: targets_elsewhere_def consistent_def has_column_def)

lemma taken_back:
  assumes ok: "consistent s" and up: "apply_op u s = Some s'" and d: "undoes d u"
    and fresh: "\<And>f. created_function u = Some f \<Longrightarrow> f \<notin> set (sc_functions s)"
  shows "apply_op d s' = Some s"
proof (cases u)
  case (Create_Table n cs ks)
  let ?t = "\<lparr>tb_name = n, tb_columns = cs, tb_constraints = ks, tb_indexes = []\<rparr>"
  have s': "s' = s\<lparr>sc_tables := sc_tables s @ [?t]\<rparr>" and new: "n \<notin> set (table_names s)"
    using up table_name_relation [of n s] by (auto simp: Create_Table Let_def relations_of_def split: if_splits)
  have "n \<notin> fst ` set (targets_elsewhere n s)"
    using target_elsewhere [OF ok, of _ _ n] new by (force simp: table_names_def)
  then have "n \<notin> fst ` set (targets_elsewhere n s')" by (simp add: s' targets_elsewhere_def)
  moreover have "filter (\<lambda>t. tb_name t \<noteq> n) (sc_tables s) = sc_tables s"
    using new by (auto simp: table_names_def intro!: filter_True)
  moreover have "filter (\<lambda>(_, t, _). t \<noteq> n) (sc_triggers s) = sc_triggers s"
    using new ok by (auto simp: consistent_def intro!: filter_True)
  ultimately show ?thesis using d by (simp add: undoes_def Create_Table s' table_names_def)
next
  case (Create_Index n t cs uq wh us)
  then obtain tb where tb: "find_table s t = Some tb" "n \<notin> set (relation_names s)"
    and s': "s' = update_table t (\<lambda>x. x\<lparr>tb_indexes := tb_indexes x @ [\<lparr>ix_name = n, ix_columns = cs,
        ix_unique = uq, ix_where = wh, ix_using = us\<rparr>]\<rparr>) s"
    using up by (auto split: option.splits if_splits)
  have "filter (\<lambda>i. ix_name i \<noteq> n) (tb_indexes x) = tb_indexes x" if "x \<in> set (sc_tables s)" for x
    using tb(2) index_name_relation [OF that] by (auto intro!: filter_True)
  then have "map (\<lambda>t. t\<lparr>tb_indexes := filter (\<lambda>i. ix_name i \<noteq> n) (tb_indexes t)\<rparr>) (sc_tables s') = sc_tables s"
    by (auto simp: s' update_table_def intro!: map_idI)
  moreover have "n \<in> set (concat (map index_names (sc_tables s')))"
    using find_table_Some [OF tb(1)] by (auto simp: s' update_table_def index_names_def)
  ultimately show ?thesis using d by (simp add: undoes_def Create_Index) (simp add: s' update_table_def)
next
  case (Add_Column t c)
  then obtain tb where tb: "find_table s t = Some tb" "col_name c \<notin> set (column_names tb)"
    and s': "s' = update_table t (\<lambda>x. x\<lparr>tb_columns := tb_columns x @ [c]\<rparr>) s"
    using up by (auto split: option.splits if_splits)
  have same: "x = tb" if "x \<in> set (sc_tables s)" "tb_name x = t" for x
    using same_table [of s x tb] that find_table_Some [OF tb(1)] ok by (auto simp: consistent_def)
  have wf: "well_formed_table tb" using ok find_table_Some [OF tb(1)] by (simp add: consistent_def)
  let ?tb = "tb\<lparr>tb_columns := tb_columns tb @ [c]\<rparr>"
  have undone: "drop_column (col_name c) ?tb = tb"
  proof -
    have "filter (\<lambda>x. col_name x \<noteq> col_name c) (tb_columns tb) = tb_columns tb"
      using tb(2) by (intro filter_True) (auto simp: column_names_def image_iff)
    moreover have "filter (\<lambda>k. col_name c \<notin> set (constraint_columns k)) (tb_constraints tb) = tb_constraints tb"
      using tb(2) wf by (auto simp: well_formed_table_def list_all_iff intro!: filter_True)
    moreover have "filter (\<lambda>i. col_name c \<notin> set (ix_columns i)) (tb_indexes tb) = tb_indexes tb"
      using tb(2) wf by (auto simp: well_formed_table_def list_all_iff intro!: filter_True)
    ultimately show ?thesis by (simp add: drop_column_def)
  qed
  have "(t, col_name c) \<notin> set (targets_elsewhere t s)"
    using target_elsewhere [OF ok, of t "col_name c" t] same tb(2) by blast
  moreover have "targets_elsewhere t s' = targets_elsewhere t s"
    unfolding s' targets_elsewhere_def update_table_def
    by (auto simp: filter_map o_def intro!: arg_cong [where f = concat] map_cong)
  moreover have "find_table s' t = Some ?tb"
    unfolding s' by (rule find_table_update [OF tb(1)]) simp
  moreover have "update_table t (drop_column (col_name c)) s' = s"
    unfolding s' by (rule update_table_undone) (use undone same in auto)
  ultimately show ?thesis using d by (simp add: undoes_def Add_Column column_names_def)
next
  case (Create_Function f)
  then have f: "f \<notin> set (sc_functions s)" using fresh by (simp add: created_function_def)
  then have "\<not> list_ex (\<lambda>(_, _, f'). f' = f) (sc_triggers s)"
    using ok by (auto simp: consistent_def list_ex_iff)
  moreover have "filter (\<lambda>f'. f' \<noteq> f) (sc_functions s) = sc_functions s"
    using f by (auto intro!: filter_True)
  ultimately show ?thesis using d up f by (auto simp: undoes_def Create_Function)
next
  case (Create_Trigger n t f)
  then have "\<not> list_ex (\<lambda>(n', t', _). n' = n \<and> t' = t) (sc_triggers s)"
    and s': "s' = s\<lparr>sc_triggers := sc_triggers s @ [(n, t, f)]\<rparr>"
    using up by (auto split: if_splits)
  moreover from this(1) have "filter (\<lambda>(n', t', _). \<not> (n' = n \<and> t' = t)) (sc_triggers s) = sc_triggers s"
    by (intro filter_True) (auto simp: list_ex_iff)
  ultimately show ?thesis using d by (simp add: undoes_def Create_Trigger)
qed (use d in \<open>auto simp: undoes_def\<close>)

lemma run_ops_append:
  "run_ops (xs @ ys) s = (case run_ops xs s of None \<Rightarrow> None | Some s' \<Rightarrow> run_ops ys s')"
  by (induction xs arbitrary: s) (auto split: option.splits)

lemma functions_after:
  "apply_op u s = Some s' \<Longrightarrow> undoes d u \<Longrightarrow>
     set (sc_functions s') \<subseteq> set (sc_functions s) \<union> set_option (created_function u)"
  by (cases u) (auto simp: undoes_def created_function_def Let_def split: if_splits option.splits)

lemma run_taken_back:
  assumes "consistent s" and "run_ops us s = Some s'" and "list_all2 undoes ds (rev us)"
    and "distinct (created_functions us)" and "set (created_functions us) \<inter> set (sc_functions s) = {}"
  shows "run_ops ds s' = Some s"
  using assms
proof (induction us arbitrary: s ds)
  case (Cons u us)
  obtain ds' d where ds: "ds = ds' @ [d]" "list_all2 undoes ds' (rev us)" "undoes d u"
    using Cons.prems(3) by (auto simp: list_all2_append2 list_all2_Cons2)
  obtain s1 where s1: "apply_op u s = Some s1" "run_ops us s1 = Some s'"
    using Cons.prems(2) by (auto split: option.splits)
  have "run_ops ds' s' = Some s1"
    by (rule Cons.IH [OF built_is_consistent [OF Cons.prems(1) s1(1) ds(3)] s1(2) ds(2)])
      (use Cons.prems(4,5) functions_after [OF s1(1) ds(3)] in \<open>auto split: option.splits\<close>)
  moreover have "apply_op d s1 = Some s"
    using Cons.prems(5) by (intro taken_back [OF Cons.prems(1) s1(1) ds(3)]) auto
  ultimately show ?case by (simp add: ds(1) run_ops_append)
qed simp

end
