(* ===== verification/Migrations_History.thy ===== *)
theory Migrations_History
  imports Migrations_Props Erasure Enums
begin

text \<open>
  The whole history on an empty database: the schema it arrives at, table by table, and what the rest
  of the development relies on it for.
\<close>

subsection \<open>Table by table\<close>

text \<open>What a table's operations make of it.\<close>

fun index_of :: "migration_op \<Rightarrow> table_index option" where
  "index_of (Create_Index n _ cs uniq wher using) =
     Some \<lparr>ix_name = n, ix_columns = cs, ix_unique = uniq, ix_where = wher, ix_using = using\<rparr>"
| "index_of _ = None"

fun table_of :: "migration_op list \<Rightarrow> db_table" where
  "table_of (Create_Table n cs ks # us) =
     \<lparr>tb_name = n, tb_columns = cs, tb_constraints = ks, tb_indexes = List.map_filter index_of us\<rparr>"
| "table_of us = \<lparr>tb_name = [], tb_columns = [], tb_constraints = [], tb_indexes = []\<rparr>"

abbreviation tables_only :: "db_table list \<Rightarrow> schema" where
  "tables_only ts \<equiv> \<lparr>sc_tables = ts, sc_functions = [], sc_triggers = []\<rparr>"

lemma made_tenants: "run_ops create_tenants (tables_only [])
    = Some (tables_only [table_of create_tenants])"
  by code_simp

lemma made_leads: "run_ops create_leads (tables_only [table_of create_tenants])
    = Some (tables_only [table_of create_tenants, table_of create_leads])"
  by code_simp

lemma made_routing_config: "run_ops create_routing_config (tables_only [table_of create_tenants, table_of create_leads])
    = Some (tables_only [table_of create_tenants, table_of create_leads, table_of create_routing_config])"
  by code_simp

lemma made_conversations: "run_ops create_conversations (tables_only [table_of create_tenants, table_of create_leads, table_of create_routing_config])
    = Some (tables_only [table_of create_tenants, table_of create_leads, table_of create_routing_config, table_of create_conversations])"
  by code_simp

lemma made_attribution: "run_ops create_attribution (tables_only [table_of create_tenants, table_of create_leads, table_of create_routing_config, table_of create_conversations])
    = Some (tables_only [table_of create_tenants, table_of create_leads, table_of create_routing_config, table_of create_conversations, table_of create_attribution])"
  by code_simp

lemma made_audit_log: "run_ops create_audit_log (tables_only [table_of create_tenants, table_of create_leads, table_of create_routing_config, table_of create_conversations, table_of create_attribution])
    = Some (tables_only [table_of create_tenants, table_of create_leads, table_of create_routing_config, table_of create_conversations, table_of create_attribution, table_of create_audit_log])"
  by code_simp

lemma made_bookings: "run_ops create_bookings (tables_only [table_of create_tenants, table_of create_leads, table_of create_routing_config, table_of create_conversations, table_of create_attribution, table_of create_audit_log])
    = Some (tables_only [table_of create_tenants, table_of create_leads, table_of create_routing_config, table_of create_conversations, table_of create_attribution, table_of create_audit_log, table_of create_bookings])"
  by code_simp

lemma made_handoff_queue: "run_ops create_handoff_queue (tables_only [table_of create_tenants, table_of create_leads, table_of create_routing_config, table_of create_conversations, table_of create_attribution, table_of create_audit_log, table_of create_bookings])
    = Some (tables_only [table_of create_tenants, table_of create_leads, table_of create_routing_config, table_of create_conversations, table_of create_attribution, table_of create_audit_log, table_of create_bookings, table_of create_handoff_queue])"
  by code_simp

lemma made_messages: "run_ops create_messages (tables_only [table_of create_tenants, table_of create_leads, table_of create_routing_config, table_of create_conversations, table_of create_attribution, table_of create_audit_log, table_of create_bookings, table_of create_handoff_queue])
    = Some (tables_only [table_of create_tenants, table_of create_leads, table_of create_routing_config, table_of create_conversations, table_of create_attribution, table_of create_audit_log, table_of create_bookings, table_of create_handoff_queue, table_of create_messages])"
  by code_simp

lemma made_consents: "run_ops create_consents (tables_only [table_of create_tenants, table_of create_leads, table_of create_routing_config, table_of create_conversations, table_of create_attribution, table_of create_audit_log, table_of create_bookings, table_of create_handoff_queue, table_of create_messages])
    = Some (tables_only [table_of create_tenants, table_of create_leads, table_of create_routing_config, table_of create_conversations, table_of create_attribution, table_of create_audit_log, table_of create_bookings, table_of create_handoff_queue, table_of create_messages, table_of create_consents])"
  by code_simp

lemma made_feedback: "run_ops create_feedback (tables_only [table_of create_tenants, table_of create_leads, table_of create_routing_config, table_of create_conversations, table_of create_attribution, table_of create_audit_log, table_of create_bookings, table_of create_handoff_queue, table_of create_messages, table_of create_consents])
    = Some (tables_only [table_of create_tenants, table_of create_leads, table_of create_routing_config, table_of create_conversations, table_of create_attribution, table_of create_audit_log, table_of create_bookings, table_of create_handoff_queue, table_of create_messages, table_of create_consents, table_of create_feedback])"
  by code_simp

text \<open>The tables of the initial schema, and the schema with its guard.\<close>

definition initial_tables :: "db_table list" where
  "initial_tables = [table_of create_tenants, table_of create_leads, table_of create_routing_config, table_of create_conversations, table_of create_attribution, table_of create_audit_log, table_of create_bookings, table_of create_handoff_queue, table_of create_messages, table_of create_consents, table_of create_feedback]"

definition guarded :: "db_table list \<Rightarrow> schema" where
  "guarded ts = \<lparr>sc_tables = ts, sc_functions = [''mawjood_audit_log_guard''],
     sc_triggers = [(''audit_log_append_only'', ''audit_log'', ''mawjood_audit_log_guard'')]\<rparr>"

lemma made_guard: "run_ops guard_audit_log (tables_only initial_tables) = Some (guarded initial_tables)"
  by code_simp

lemma made_initial: "run_ops upgrade_initial empty_schema = Some (guarded initial_tables)"
  by (simp add: empty_schema_def upgrade_initial_def run_ops_append made_tenants made_leads made_routing_config made_conversations made_attribution
      made_audit_log made_bookings made_handoff_queue made_messages made_consents made_feedback
      made_guard [unfolded initial_tables_def] initial_tables_def)

text \<open>The conversations with the columns the second revision adds.\<close>

definition conversations_with_state :: db_table where
  "conversations_with_state = (table_of create_conversations)\<lparr>tb_columns :=
     tb_columns (table_of create_conversations) @ [col ''state'' (VARCHAR 32) (Some (LITERAL ''greeting'')) False,
       col ''collected_slots'' JSONB (Some empty_json) False, col ''pending_offer'' JSONB (Some empty_json) False]\<rparr>"

definition state_tables :: "db_table list" where
  "state_tables = initial_tables[3 := conversations_with_state] @ [table_of create_merchant_credentials]"

definition head_schema :: schema where
  "head_schema = guarded (state_tables @ [table_of create_scheduled_notifications])"

lemma made_credentials: "run_ops create_merchant_credentials (guarded initial_tables)
    = Some (guarded (initial_tables @ [table_of create_merchant_credentials]))"
  by code_simp

lemma made_state: "run_ops add_conversation_state (guarded (initial_tables @ [table_of create_merchant_credentials]))
    = Some (guarded state_tables)"
  by code_simp

lemma made_scheduled: "run_ops create_scheduled_notifications (guarded state_tables) = Some head_schema"
  by code_simp

definition history :: "migration_op list" where
  "history = concat (map rev_upgrade REVISIONS)"

lemma history_reaches_head: "run_ops history empty_schema = Some head_schema"
  by (simp add: history_def REVISIONS_def initial_revision_def state_revision_def sched_revision_def
      upgrade_state_def upgrade_sched_def run_ops_append made_initial made_credentials made_state made_scheduled)

subsection \<open>Downgrades\<close>

lemmas table_op_defs = create_tenants_def create_leads_def create_routing_config_def create_conversations_def create_attribution_def create_audit_log_def create_bookings_def create_handoff_queue_def create_messages_def create_consents_def create_feedback_def guard_audit_log_def
  create_merchant_credentials_def add_conversation_state_def create_scheduled_notifications_def

lemma read_backwards:
  "list_all2 undoes downgrade_initial (rev upgrade_initial)"
  "list_all2 undoes downgrade_state (rev upgrade_state)"
  "list_all2 undoes downgrade_sched (rev upgrade_sched)"
  by (simp_all add: downgrade_initial_def upgrade_initial_def downgrade_state_def upgrade_state_def
      downgrade_sched_def upgrade_sched_def table_op_defs undoes_def col_def)

lemma functions_created:
  "created_functions upgrade_initial = [''mawjood_audit_log_guard'']"
  "created_functions upgrade_state = []" "created_functions upgrade_sched = []"
  by (simp_all add: upgrade_initial_def upgrade_state_def upgrade_sched_def table_op_defs created_function_def)

lemma empty_consistent: "consistent empty_schema"
  by (simp add: consistent_def empty_schema_def table_names_def)

text \<open>C37. Every downgrade undoes its upgrade: whatever consistent schema the upgrade of a revision was
  applied to, the downgrade gives that schema back, its tables, columns, constraints, indexes,
  functions and triggers. (The first revision replaces a function of the name of its guard, so there
  must have been none.)\<close>

theorem downgrade_undoes_upgrade:
  assumes "r \<in> set REVISIONS" and "consistent s"
    and "set (created_functions (rev_upgrade r)) \<inter> set (sc_functions s) = {}"
    and "run_ops (rev_upgrade r) s = Some s'"
  shows "run_ops (rev_downgrade r) s' = Some s"
proof -
  have "list_all2 undoes (rev_downgrade r) (rev (rev_upgrade r))" and "distinct (created_functions (rev_upgrade r))"
    using assms(1) read_backwards functions_created
    by (auto simp: REVISIONS_def initial_revision_def state_revision_def sched_revision_def)
  then show ?thesis using run_taken_back [OF assms(2,4)] assms(3) by blast
qed

theorem downgrade_undoes_upgrade_witness:
  "run_ops (rev_downgrade initial_revision) (guarded initial_tables) = Some empty_schema"
  by (rule downgrade_undoes_upgrade [OF _ empty_consistent])
    (simp_all add: REVISIONS_def made_initial initial_revision_def, simp add: empty_schema_def)

subsection \<open>What refers to a consumer\<close>

definition referring :: "string \<Rightarrow> schema \<Rightarrow> string list" where
  "referring n s = map tb_name (filter (\<lambda>t. list_ex (\<lambda>(t', _). t' = n) (targets (tb_constraints t))) (sc_tables s))"

lemma referring_leads: "referring ''leads'' head_schema = [''conversations'', ''attribution'', ''audit_log'',
    ''bookings'', ''handoff_queue'', ''messages'', ''consents'', ''feedback'', ''scheduled_notifications'']"
  by code_simp

lemmas consumer_table_defs = feedback_table_def notifications_table_def handoff_table_def
  attribution_table_def consents_table_def messages_table_def bookings_table_def conversations_table_def
  audit_table_def leads_table_def

text \<open>C39. The erasure of a consumer and the retention sweep forget no table: the revisions apply to an
  empty database, and in the schema they arrive at, the tables with a foreign key to the leads are
  exactly those the erasure deletes from before the consumer itself, and exactly those the sweep
  deletes from before it, the audit log included.\<close>

theorem erasure_covers_the_schema:
  "\<exists>s. run_ops history empty_schema = Some s
     \<and> set (map ct_name (CONSUMER_TABLES @ [audit_table])) = set (referring ''leads'' s)
     \<and> set (map ct_name (audit_table # SWEPT_TABLES)) = set (referring ''leads'' s) \<union> {''leads''}"
  unfolding history_reaches_head
  by (auto simp: referring_leads CONSUMER_TABLES_def SWEPT_TABLES_def consumer_table_defs)

subsection \<open>Enumerated columns\<close>

definition enumerations :: "schema \<Rightarrow> (string \<times> string list \<times> nat) list" where
  "enumerations s = concat (map (\<lambda>t. List.map_filter (\<lambda>c. case col_type c of
     ENUM n vs len \<Rightarrow> Some (n, vs, len) | _ \<Rightarrow> None) (tb_columns t)) (sc_tables s))"

text \<open>The values of the enumeration a column is declared with.\<close>

definition enum_range :: "string \<Rightarrow> string set" where
  "enum_range n = (case map_of [(''channel'', range channel_value), (''direction'', range direction_value),
     (''message_status'', range message_status_value), (''conversation_status'', range conversation_status_value),
     (''consent_event'', range consent_event_value), (''category'', range category_value),
     (''booking_status'', range booking_status_value), (''payment_status'', range payment_status_value),
     (''handoff_reason'', range handoff_reason_value), (''handoff_status'', range handoff_status_value),
     (''notification_kind'', range notification_kind_value),
     (''notification_status'', range notification_status_value),
     (''attribution_medium'', range attribution_medium_value)] n of None \<Rightarrow> {} | Some vs \<Rightarrow> vs)"

lemma enumerations_found: "enumerations head_schema = [
    (''category'', [''salon'', ''spa'', ''restaurant'', ''food_delivery'', ''ride'', ''other''], 48),
    (''channel'', [''whatsapp'', ''console''], 48),
    (''conversation_status'', [''active'', ''awaiting_handoff'', ''handed_off'', ''closed''], 48),
    (''attribution_medium'', [''wa_link'', ''qr'', ''direct'', ''unknown''], 48),
    (''category'', [''salon'', ''spa'', ''restaurant'', ''food_delivery'', ''ride'', ''other''], 48),
    (''booking_status'', [''pending'', ''confirmed'', ''uncertain'', ''cancelled'', ''failed''], 48),
    (''payment_status'', [''not_applicable'', ''pay_at_venue'', ''pending'', ''paid'', ''refunded''], 48),
    (''handoff_reason'', [''cascade_exhausted'', ''unsupported_action'', ''reconciliation_inconclusive'', ''consumer_request'', ''consent_withdrawn'', ''system_error''], 48),
    (''handoff_status'', [''open'', ''claimed'', ''resolved'', ''abandoned''], 48),
    (''direction'', [''inbound'', ''outbound''], 48),
    (''channel'', [''whatsapp'', ''console''], 48),
    (''message_status'', [''received'', ''queued'', ''sent'', ''delivered'', ''read'', ''failed''], 48),
    (''consent_event'', [''notice_shown'', ''granted'', ''withdrawn''], 48),
    (''channel'', [''whatsapp'', ''console''], 48),
    (''notification_kind'', [''reminder_24h'', ''reminder_2h'', ''follow_up'', ''satisfaction''], 48),
    (''notification_status'', [''pending'', ''sent'', ''deferred'', ''skipped'', ''failed''], 48)]"
  by code_simp

lemma range_channel: "range channel_value = set [''whatsapp'', ''console'']"
  by (auto simp: channel_value_def image_iff split: channel.splits)
lemma range_direction: "range direction_value = set [''inbound'', ''outbound'']"
  by (auto simp: direction_value_def image_iff split: direction.splits)
lemma range_message_status: "range message_status_value = set [''received'', ''queued'', ''sent'', ''delivered'', ''read'', ''failed'']"
  by (auto simp: message_status_value_def image_iff split: message_status.splits)
lemma range_conversation_status: "range conversation_status_value = set [''active'', ''awaiting_handoff'', ''handed_off'', ''closed'']"
  by (auto simp: conversation_status_value_def image_iff split: conversation_status.splits)
lemma range_consent_event: "range consent_event_value = set [''notice_shown'', ''granted'', ''withdrawn'']"
  by (auto simp: consent_event_value_def image_iff split: consent_event.splits)
lemma range_category: "range category_value = set [''salon'', ''spa'', ''restaurant'', ''food_delivery'', ''ride'', ''other'']"
  by (auto simp: category_value_def image_iff split: category.splits)
lemma range_booking_status: "range booking_status_value = set [''pending'', ''confirmed'', ''uncertain'', ''cancelled'', ''failed'']"
  by (auto simp: booking_status_value_def image_iff split: booking_status.splits)
lemma range_payment_status: "range payment_status_value = set [''not_applicable'', ''pay_at_venue'', ''pending'', ''paid'', ''refunded'']"
  by (auto simp: payment_status_value_def image_iff split: payment_status.splits)
lemma range_handoff_reason: "range handoff_reason_value = set [''cascade_exhausted'', ''unsupported_action'', ''reconciliation_inconclusive'', ''consumer_request'', ''consent_withdrawn'', ''system_error'']"
  by (auto simp: handoff_reason_value_def image_iff split: handoff_reason.splits)
lemma range_handoff_status: "range handoff_status_value = set [''open'', ''claimed'', ''resolved'', ''abandoned'']"
  by (auto simp: handoff_status_value_def image_iff split: handoff_status.splits)
lemma range_notification_kind: "range notification_kind_value = set [''reminder_24h'', ''reminder_2h'', ''follow_up'', ''satisfaction'']"
  by (auto simp: notification_kind_value_def image_iff split: notification_kind.splits)
lemma range_notification_status: "range notification_status_value = set [''pending'', ''sent'', ''deferred'', ''skipped'', ''failed'']"
  by (auto simp: notification_status_value_def image_iff split: notification_status.splits)
lemma range_attribution_medium: "range attribution_medium_value = set [''wa_link'', ''qr'', ''direct'', ''unknown'']"
  by (auto simp: attribution_medium_value_def image_iff split: attribution_medium.splits)

lemmas enum_ranges = range_channel range_direction range_message_status range_conversation_status range_consent_event
  range_category range_booking_status range_payment_status range_handoff_reason
  range_handoff_status range_notification_kind range_notification_status range_attribution_medium

text \<open>The schema has not drifted from the code: in the schema the revisions arrive at, every
  enumerated column lists exactly the values of the enumeration of \<^verbatim>\<open>mawjood/core/enums.py\<close> it is
  declared with, and each of them fits the width of the column.\<close>

theorem enumerated_columns_agree:
  "\<exists>s. run_ops history empty_schema = Some s
     \<and> list_all (\<lambda>(n, vs, len). set vs = enum_range n \<and> list_all (\<lambda>v. length v \<le> len) vs) (enumerations s)"
  unfolding history_reaches_head
  by (simp add: enumerations_found enum_range_def enum_ranges)

end
