(* ===== verification/Declarations.thy ===== *)
theory Declarations
  imports Migrations_History
begin

text \<open>
  The declarative models of \<^verbatim>\<open>mawjood/db/models.py\<close> with the conventions of \<^verbatim>\<open>mawjood/db/base.py\<close>, read
  as what they declare to the database: the table a model class stands for, with the columns of its
  mixins and the names the naming convention gives its constraints and indexes. The revisions of
  \<^verbatim>\<open>Migrations\<close> arrive at exactly these tables.
\<close>

subsection \<open>Declaring a table\<close>

record mapped_column =
  mc_name :: string
  mc_type :: column_type
  mc_nullable :: bool
  mc_default :: "server_default option"
  mc_foreign_key :: "(string \<times> string \<times> on_delete) option"
  mc_index :: bool
  mc_unique :: bool
  mc_primary_key :: bool

definition mapped :: "string \<Rightarrow> column_type \<Rightarrow> bool \<Rightarrow> mapped_column" where
  "mapped n t null = \<lparr>mc_name = n, mc_type = t, mc_nullable = null, mc_default = None,
     mc_foreign_key = None, mc_index = False, mc_unique = False, mc_primary_key = False\<rparr>"

datatype table_arg =
    Unique_Arg string "string list"
  | Check_Arg string string
  | Index_Arg string "string list" bool "string option" string

record declared_model =
  md_table :: string
  md_tenant :: bool
  md_stamps :: bool
  md_columns :: "mapped_column list"
  md_args :: "table_arg list"

definition uuid_pk :: "string \<Rightarrow> mapped_column" where
  "uuid_pk n = (mapped n UUID_TYPE False)\<lparr>mc_default := Some (SQL ''gen_random_uuid()''), mc_primary_key := True\<rparr>"

definition tenant_mixin :: "mapped_column list" where
  "tenant_mixin = [(mapped ''tenant_id'' UUID_TYPE False)\<lparr>mc_foreign_key := Some (''tenants'', ''id'', CASCADE),
     mc_index := True\<rparr>]"

definition timestamp_mixin :: "mapped_column list" where
  "timestamp_mixin = [
     (mapped ''created_at'' TIMESTAMPTZ False)\<lparr>mc_default := Some (SQL ''now()''), mc_index := True\<rparr>,
     (mapped ''updated_at'' TIMESTAMPTZ False)\<lparr>mc_default := Some (SQL ''now()'')\<rparr>]"

text \<open>\<open>_enum\<close>: the values of the members, in a column of 48 characters.\<close>

definition enum_type :: "string \<Rightarrow> ('a \<Rightarrow> string) \<Rightarrow> 'a list \<Rightarrow> column_type" where
  "enum_type n val members = ENUM n (map val members) 48"

subsection \<open>What a declaration stands for\<close>

definition all_columns :: "declared_model \<Rightarrow> mapped_column list" where
  "all_columns m = md_columns m @ (if md_tenant m then tenant_mixin else [])
     @ (if md_stamps m then timestamp_mixin else [])"

definition stored_column :: "mapped_column \<Rightarrow> column" where
  "stored_column c = \<lparr>col_name = mc_name c, col_type = mc_type c, col_default = mc_default c,
     col_nullable = mc_nullable c\<rparr>"

fun underscored :: "string list \<Rightarrow> string" where
  "underscored [] = []"
| "underscored [s] = s"
| "underscored (s # ss) = s @ ''_'' @ underscored ss"

text \<open>\<open>NAMING_CONVENTION\<close>\<close>

definition ix_convention :: "string \<Rightarrow> string list \<Rightarrow> string" where
  "ix_convention t cs = ''ix_'' @ underscored (t # cs)"

definition uq_convention :: "string \<Rightarrow> string list \<Rightarrow> string" where
  "uq_convention t cs = ''uq_'' @ underscored (t # cs)"

definition ck_convention :: "string \<Rightarrow> string \<Rightarrow> string" where
  "ck_convention t n = ''ck_'' @ underscored [t, n]"

definition fk_convention :: "string \<Rightarrow> string \<Rightarrow> string \<Rightarrow> string" where
  "fk_convention t c r = ''fk_'' @ underscored [t, c, r]"

definition pk_convention :: "string \<Rightarrow> string" where
  "pk_convention t = ''pk_'' @ t"

definition column_constraints :: "string \<Rightarrow> mapped_column \<Rightarrow> table_constraint list" where
  "column_constraints t c =
     (case mc_foreign_key c of None \<Rightarrow> []
      | Some (r, rc, od) \<Rightarrow> [Foreign_Key (fk_convention t (mc_name c) r) (mc_name c) r rc od])
     @ (if mc_unique c then [Unique (uq_convention t [mc_name c]) [mc_name c]] else [])"

fun arg_constraint :: "string \<Rightarrow> table_arg \<Rightarrow> table_constraint option" where
  "arg_constraint t (Unique_Arg n cs) = Some (Unique n cs)"
| "arg_constraint t (Check_Arg n e) = Some (Check (ck_convention t n) e)"
| "arg_constraint t (Index_Arg _ _ _ _ _) = None"

fun arg_index :: "table_arg \<Rightarrow> table_index option" where
  "arg_index (Index_Arg n cs uniq wher using) =
     Some \<lparr>ix_name = n, ix_columns = cs, ix_unique = uniq, ix_where = wher, ix_using = using\<rparr>"
| "arg_index _ = None"

definition column_index :: "string \<Rightarrow> mapped_column \<Rightarrow> table_index option" where
  "column_index t c = (if mc_index c then Some \<lparr>ix_name = ix_convention t [mc_name c],
     ix_columns = [mc_name c], ix_unique = False, ix_where = None, ix_using = ''btree''\<rparr> else None)"

definition metadata_of :: "declared_model \<Rightarrow> db_table" where
  "metadata_of m = (let t = md_table m; cs = all_columns m in
     \<lparr>tb_name = t, tb_columns = map stored_column cs,
      tb_constraints = Primary_Key (pk_convention t) (map mc_name (filter mc_primary_key cs))
        # concat (map (column_constraints t) cs) @ List.map_filter (arg_constraint t) (md_args m),
      tb_indexes = List.map_filter (column_index t) cs @ List.map_filter arg_index (md_args m)\<rparr>)"

text \<open>The same table, up to the order of its parts.\<close>

definition same_parts :: "'a list \<Rightarrow> 'a list \<Rightarrow> bool" where
  "same_parts xs ys \<longleftrightarrow> length xs = length ys \<and> list_all (\<lambda>x. x \<in> set ys) xs \<and> list_all (\<lambda>y. y \<in> set xs) ys"

definition describes :: "declared_model \<Rightarrow> db_table \<Rightarrow> bool" where
  "describes m t \<longleftrightarrow> (let d = metadata_of m in tb_name d = tb_name t
     \<and> same_parts (tb_columns d) (tb_columns t) \<and> same_parts (tb_constraints d) (tb_constraints t)
     \<and> same_parts (tb_indexes d) (tb_indexes t))"

subsection \<open>The models\<close>

definition tenant_model :: declared_model where
  "tenant_model = \<lparr>md_table = ''tenants'', md_tenant = False, md_stamps = True,
    md_columns = [
      uuid_pk ''id'',
      (mapped ''slug'' (VARCHAR 64) False)\<lparr>mc_unique := True\<rparr>,
      mapped ''name'' (VARCHAR 200) False,
      (mapped ''default_locale'' (VARCHAR 8) False)\<lparr>mc_default := Some (LITERAL ''en'')\<rparr>,
      (mapped ''timezone'' (VARCHAR 64) False)\<lparr>mc_default := Some (LITERAL ''Asia/Dubai'')\<rparr>,
      (mapped ''is_active'' BOOLEAN False)\<lparr>mc_default := Some (LITERAL ''true'')\<rparr>],
    md_args = []\<rparr>"

definition lead_model :: declared_model where
  "lead_model = \<lparr>md_table = ''leads'', md_tenant = True, md_stamps = True,
    md_columns = [
      uuid_pk ''id'',
      mapped ''wa_id'' (VARCHAR 64) False,
      mapped ''phone_e164'' (VARCHAR 32) True,
      mapped ''display_name'' (VARCHAR 200) True,
      (mapped ''locale'' (VARCHAR 8) False)\<lparr>mc_default := Some (LITERAL ''en'')\<rparr>,
      (mapped ''first_seen_at'' TIMESTAMPTZ False)\<lparr>mc_default := Some (SQL ''now()'')\<rparr>,
      (mapped ''last_seen_at'' TIMESTAMPTZ False)\<lparr>mc_default := Some (SQL ''now()'')\<rparr>],
    md_args = [Unique_Arg ''uq_leads_tenant_id_wa_id'' [''tenant_id'', ''wa_id''],
      Index_Arg ''ix_leads_tenant_id_last_seen_at'' [''tenant_id'', ''last_seen_at''] False None
        ''btree'']\<rparr>"

definition conversation_model :: declared_model where
  "conversation_model = \<lparr>md_table = ''conversations'', md_tenant = True, md_stamps = True,
    md_columns = [
      uuid_pk ''id'',
      (mapped ''lead_id'' UUID_TYPE False)\<lparr>mc_foreign_key := Some (''leads'', ''id'', CASCADE),
        mc_index := True\<rparr>,
      mapped ''channel'' (enum_type ''channel'' channel_value [channel.WHATSAPP, channel.CONSOLE]) False,
      (mapped ''status'' (enum_type ''conversation_status'' conversation_status_value
        [conversation_status.ACTIVE, conversation_status.AWAITING_HANDOFF,
          conversation_status.HANDED_OFF, conversation_status.CLOSED]) False)\<lparr>mc_default := Some
            (LITERAL (conversation_status_value conversation_status.ACTIVE))\<rparr>,
      (mapped ''locale'' (VARCHAR 8) False)\<lparr>mc_default := Some (LITERAL ''en'')\<rparr>,
      (mapped ''bot_muted'' BOOLEAN False)\<lparr>mc_default := Some (LITERAL ''false'')\<rparr>,
      (mapped ''state'' (VARCHAR 32) False)\<lparr>mc_default := Some (LITERAL ''greeting'')\<rparr>,
      (mapped ''collected_slots'' JSONB False)\<lparr>mc_default := Some empty_json\<rparr>,
      (mapped ''pending_offer'' JSONB False)\<lparr>mc_default := Some empty_json\<rparr>,
      (mapped ''started_at'' TIMESTAMPTZ False)\<lparr>mc_default := Some (SQL ''now()'')\<rparr>,
      (mapped ''last_activity_at'' TIMESTAMPTZ False)\<lparr>mc_default := Some (SQL ''now()''), mc_index
        := True\<rparr>,
      mapped ''closed_at'' TIMESTAMPTZ True],
    md_args = [Index_Arg ''ix_conversations_tenant_id_lead_id_status'' [''tenant_id'', ''lead_id'',
      ''status''] False None ''btree'']\<rparr>"

definition message_model :: declared_model where
  "message_model = \<lparr>md_table = ''messages'', md_tenant = True, md_stamps = True,
    md_columns = [
      uuid_pk ''id'',
      (mapped ''seq'' BIGINT False)\<lparr>mc_default := Some IDENTITY, mc_unique := True\<rparr>,
      (mapped ''conversation_id'' UUID_TYPE False)\<lparr>mc_foreign_key := Some (''conversations'',
        ''id'', CASCADE), mc_index := True\<rparr>,
      (mapped ''lead_id'' UUID_TYPE False)\<lparr>mc_foreign_key := Some (''leads'', ''id'',
        CASCADE)\<rparr>,
      (mapped ''turn_id'' UUID_TYPE False)\<lparr>mc_index := True\<rparr>,
      mapped ''direction'' (enum_type ''direction'' direction_value [direction.INBOUND,
        direction.OUTBOUND]) False,
      mapped ''channel'' (enum_type ''channel'' channel_value [channel.WHATSAPP, channel.CONSOLE]) False,
      mapped ''status'' (enum_type ''message_status'' message_status_value all_message_status) False,
      mapped ''body'' TEXT_TYPE False,
      (mapped ''locale'' (VARCHAR 8) False)\<lparr>mc_default := Some (LITERAL ''en'')\<rparr>,
      mapped ''phrasebank_key'' (VARCHAR 128) True,
      mapped ''provider_message_id'' (VARCHAR 200) True,
      mapped ''sent_at'' TIMESTAMPTZ True],
    md_args = [Index_Arg ''uq_messages_tenant_id_channel_provider_message_id'' [''tenant_id'',
      ''channel'', ''provider_message_id''] True (Some ''provider_message_id IS NOT NULL'') ''btree'',
      Index_Arg ''ix_messages_conversation_id_seq'' [''conversation_id'', ''seq''] False None ''btree'',
      Check_Arg ''outbound_messages_come_from_the_phrasebank'' (''(direction <> '' @ [CHR 0x27] @
        ''outbound'' @ [CHR 0x27] @ '') OR (phrasebank_key IS NOT NULL)'')]\<rparr>"

definition consent_model :: declared_model where
  "consent_model = \<lparr>md_table = ''consents'', md_tenant = True, md_stamps = True,
    md_columns = [
      uuid_pk ''id'',
      (mapped ''lead_id'' UUID_TYPE False)\<lparr>mc_foreign_key := Some (''leads'', ''id'', CASCADE),
        mc_index := True\<rparr>,
      (mapped ''conversation_id'' UUID_TYPE True)\<lparr>mc_foreign_key := Some (''conversations'',
        ''id'', SET_NULL)\<rparr>,
      mapped ''event'' (enum_type ''consent_event'' consent_event_value [consent_event.NOTICE_SHOWN,
        consent_event.GRANTED, consent_event.WITHDRAWN]) False,
      mapped ''policy_version'' (VARCHAR 32) False,
      mapped ''wording'' TEXT_TYPE False,
      mapped ''locale'' (VARCHAR 8) False,
      mapped ''channel'' (enum_type ''channel'' channel_value [channel.WHATSAPP, channel.CONSOLE]) False,
      (mapped ''evidence_message_id'' UUID_TYPE True)\<lparr>mc_foreign_key := Some (''messages'',
        ''id'', SET_NULL)\<rparr>,
      (mapped ''occurred_at'' TIMESTAMPTZ False)\<lparr>mc_default := Some (SQL ''now()''), mc_index :=
        True\<rparr>],
    md_args = [Index_Arg ''ix_consents_tenant_id_lead_id_occurred_at'' [''tenant_id'', ''lead_id'',
      ''occurred_at''] False None ''btree'']\<rparr>"

definition booking_model :: declared_model where
  "booking_model = \<lparr>md_table = ''bookings'', md_tenant = True, md_stamps = True,
    md_columns = [
      uuid_pk ''id'',
      (mapped ''conversation_id'' UUID_TYPE False)\<lparr>mc_foreign_key := Some (''conversations'',
        ''id'', CASCADE), mc_index := True\<rparr>,
      (mapped ''lead_id'' UUID_TYPE False)\<lparr>mc_foreign_key := Some (''leads'', ''id'', CASCADE),
        mc_index := True\<rparr>,
      mapped ''category'' (enum_type ''category'' category_value all_category) False,
      mapped ''platform_slug'' (VARCHAR 64) False,
      mapped ''merchant_ref'' (VARCHAR 200) True,
      mapped ''external_booking_ref'' (VARCHAR 200) True,
      mapped ''idempotency_key'' (VARCHAR 200) False,
      mapped ''status'' (enum_type ''booking_status'' booking_status_value [booking_status.PENDING,
        booking_status.CONFIRMED, booking_status.UNCERTAIN, booking_status.CANCELLED,
          booking_status.FAILED]) False,
      mapped ''slot_start'' TIMESTAMPTZ True,
      mapped ''slot_end'' TIMESTAMPTZ True,
      mapped ''venue_name'' (VARCHAR 200) True,
      mapped ''price_amount'' (NUMERIC 12 2) True,
      mapped ''price_currency'' (VARCHAR 3) True,
      (mapped ''payment_status'' (enum_type ''payment_status'' payment_status_value
        [payment_status.NOT_APPLICABLE, payment_status.PAY_AT_VENUE, payment_status.PENDING,
          payment_status.PAID, payment_status.REFUNDED]) False)\<lparr>mc_default := Some (LITERAL
            (payment_status_value payment_status.NOT_APPLICABLE))\<rparr>,
      mapped ''confirmed_at'' TIMESTAMPTZ True,
      mapped ''cancelled_at'' TIMESTAMPTZ True],
    md_args = [Unique_Arg ''uq_bookings_tenant_id_idempotency_key'' [''tenant_id'', ''idempotency_key''],
      Index_Arg ''ix_bookings_tenant_id_status_slot_start'' [''tenant_id'', ''status'', ''slot_start'']
        False None ''btree'']\<rparr>"

definition scheduled_notification_model :: declared_model where
  "scheduled_notification_model = \<lparr>md_table = ''scheduled_notifications'', md_tenant = True,
    md_stamps = True,
    md_columns = [
      uuid_pk ''id'',
      (mapped ''booking_id'' UUID_TYPE False)\<lparr>mc_foreign_key := Some (''bookings'', ''id'',
        CASCADE), mc_index := True\<rparr>,
      (mapped ''conversation_id'' UUID_TYPE False)\<lparr>mc_foreign_key := Some (''conversations'',
        ''id'', CASCADE)\<rparr>,
      (mapped ''lead_id'' UUID_TYPE False)\<lparr>mc_foreign_key := Some (''leads'', ''id'', CASCADE),
        mc_index := True\<rparr>,
      mapped ''kind'' (enum_type ''notification_kind'' notification_kind_value all_notification_kind) False,
      (mapped ''status'' (enum_type ''notification_status'' notification_status_value
        [notification_status.PENDING, notification_status.SENT, notification_status.DEFERRED,
          notification_status.SKIPPED, notification_status.FAILED]) False)\<lparr>mc_default := Some
            (LITERAL (notification_status_value notification_status.PENDING))\<rparr>,
      mapped ''due_at'' TIMESTAMPTZ False,
      mapped ''sent_at'' TIMESTAMPTZ True,
      (mapped ''message_id'' UUID_TYPE True)\<lparr>mc_foreign_key := Some (''messages'', ''id'',
        SET_NULL)\<rparr>,
      (mapped ''attempts'' INTEGER False)\<lparr>mc_default := Some (LITERAL ''0'')\<rparr>,
      mapped ''last_attempt_at'' TIMESTAMPTZ True,
      mapped ''reason'' TEXT_TYPE True,
      mapped ''template_name'' (VARCHAR 128) True],
    md_args = [Unique_Arg ''uq_scheduled_notifications_booking_kind'' [''booking_id'', ''kind''],
      Index_Arg ''ix_scheduled_notifications_tenant_status_due'' [''tenant_id'', ''status'', ''due_at'']
        False None ''btree'']\<rparr>"

definition feedback_model :: declared_model where
  "feedback_model = \<lparr>md_table = ''feedback'', md_tenant = True, md_stamps = True,
    md_columns = [
      uuid_pk ''id'',
      (mapped ''conversation_id'' UUID_TYPE False)\<lparr>mc_foreign_key := Some (''conversations'',
        ''id'', CASCADE)\<rparr>,
      (mapped ''booking_id'' UUID_TYPE True)\<lparr>mc_foreign_key := Some (''bookings'', ''id'',
        SET_NULL)\<rparr>,
      (mapped ''lead_id'' UUID_TYPE False)\<lparr>mc_foreign_key := Some (''leads'', ''id'', CASCADE),
        mc_index := True\<rparr>,
      mapped ''rating'' INTEGER True,
      mapped ''comment'' TEXT_TYPE True,
      mapped ''requested_at'' TIMESTAMPTZ True,
      mapped ''responded_at'' TIMESTAMPTZ True],
    md_args = [Check_Arg ''rating_is_one_to_five'' ''rating IS NULL OR (rating BETWEEN 1 AND 5)'']\<rparr>"

definition attribution_model :: declared_model where
  "attribution_model = \<lparr>md_table = ''attribution'', md_tenant = True, md_stamps = True,
    md_columns = [
      uuid_pk ''id'',
      (mapped ''lead_id'' UUID_TYPE False)\<lparr>mc_foreign_key := Some (''leads'', ''id'', CASCADE),
        mc_index := True\<rparr>,
      (mapped ''conversation_id'' UUID_TYPE True)\<lparr>mc_foreign_key := Some (''conversations'',
        ''id'', SET_NULL)\<rparr>,
      (mapped ''source_code'' (VARCHAR 64) False)\<lparr>mc_index := True\<rparr>,
      (mapped ''medium'' (enum_type ''attribution_medium'' attribution_medium_value
        [attribution_medium.WA_LINK, attribution_medium.QR, attribution_medium.DIRECT,
          attribution_medium.UNKNOWN]) False)\<lparr>mc_default := Some (LITERAL
            (attribution_medium_value attribution_medium.UNKNOWN))\<rparr>,
      (mapped ''is_first_touch'' BOOLEAN False)\<lparr>mc_default := Some (LITERAL ''false'')\<rparr>,
      mapped ''raw_payload'' TEXT_TYPE True],
    md_args = [Index_Arg ''ix_attribution_tenant_id_source_code'' [''tenant_id'', ''source_code''] False
      None ''btree'']\<rparr>"

definition routing_config_model :: declared_model where
  "routing_config_model = \<lparr>md_table = ''routing_config'', md_tenant = True, md_stamps = True,
    md_columns = [
      uuid_pk ''id'',
      mapped ''category'' (enum_type ''category'' category_value all_category) False,
      mapped ''platform_slug'' (VARCHAR 64) False,
      mapped ''position'' INTEGER False,
      (mapped ''is_enabled'' BOOLEAN False)\<lparr>mc_default := Some (LITERAL ''true'')\<rparr>,
      (mapped ''config'' JSONB False)\<lparr>mc_default := Some empty_json\<rparr>],
    md_args = [Unique_Arg ''uq_routing_config_tenant_category_slug'' [''tenant_id'', ''category'',
      ''platform_slug''],
      Unique_Arg ''uq_routing_config_tenant_category_position'' [''tenant_id'', ''category'', ''position''],
      Check_Arg ''position_is_non_negative'' ''position >= 0'']\<rparr>"

definition handoff_queue_model :: declared_model where
  "handoff_queue_model = \<lparr>md_table = ''handoff_queue'', md_tenant = True, md_stamps = True,
    md_columns = [
      uuid_pk ''id'',
      (mapped ''conversation_id'' UUID_TYPE False)\<lparr>mc_foreign_key := Some (''conversations'',
        ''id'', CASCADE), mc_index := True\<rparr>,
      (mapped ''lead_id'' UUID_TYPE False)\<lparr>mc_foreign_key := Some (''leads'', ''id'',
        CASCADE)\<rparr>,
      mapped ''reason'' (enum_type ''handoff_reason'' handoff_reason_value all_handoff_reason) False,
      (mapped ''status'' (enum_type ''handoff_status'' handoff_status_value [handoff_status.OPEN,
        handoff_status.CLAIMED, handoff_status.RESOLVED, handoff_status.ABANDONED])
          False)\<lparr>mc_default := Some (LITERAL (handoff_status_value handoff_status.OPEN))\<rparr>,
      (mapped ''priority'' INTEGER False)\<lparr>mc_default := Some (LITERAL ''0'')\<rparr>,
      mapped ''claimed_by'' (VARCHAR 200) True,
      mapped ''claimed_at'' TIMESTAMPTZ True,
      mapped ''resolved_at'' TIMESTAMPTZ True,
      mapped ''notes'' TEXT_TYPE True,
      (mapped ''context'' JSONB False)\<lparr>mc_default := Some empty_json\<rparr>],
    md_args = [Index_Arg ''ix_handoff_queue_tenant_id_status_priority'' [''tenant_id'', ''status'',
      ''priority''] False None ''btree'']\<rparr>"

definition merchant_credential_model :: declared_model where
  "merchant_credential_model = \<lparr>md_table = ''merchant_credentials'', md_tenant = True, md_stamps =
    True,
    md_columns = [
      uuid_pk ''id'',
      mapped ''platform_slug'' (VARCHAR 64) False,
      mapped ''display_name'' (VARCHAR 200) False,
      mapped ''area'' (VARCHAR 120) True,
      (mapped ''external_ids'' JSONB False)\<lparr>mc_default := Some empty_json\<rparr>,
      mapped ''secret_ref'' (VARCHAR 200) True,
      (mapped ''is_active'' BOOLEAN False)\<lparr>mc_default := Some (LITERAL ''true'')\<rparr>,
      (mapped ''priority'' INTEGER False)\<lparr>mc_default := Some (LITERAL ''0'')\<rparr>,
      mapped ''credential_degraded_at'' TIMESTAMPTZ True],
    md_args = [Unique_Arg ''uq_merchant_credentials_tenant_platform_name'' [''tenant_id'',
      ''platform_slug'', ''display_name''],
      Index_Arg ''ix_merchant_credentials_tenant_platform_priority'' [''tenant_id'', ''platform_slug'',
        ''priority''] False None ''btree'']\<rparr>"

definition audit_log_model :: declared_model where
  "audit_log_model = \<lparr>md_table = ''audit_log'', md_tenant = True, md_stamps = False,
    md_columns = [
      uuid_pk ''id'',
      (mapped ''seq'' BIGINT False)\<lparr>mc_default := Some IDENTITY, mc_unique := True\<rparr>,
      (mapped ''occurred_at'' TIMESTAMPTZ False)\<lparr>mc_default := Some (SQL ''now()''), mc_index :=
        True\<rparr>,
      (mapped ''turn_id'' UUID_TYPE True)\<lparr>mc_index := True\<rparr>,
      (mapped ''decision_id'' UUID_TYPE True)\<lparr>mc_index := True\<rparr>,
      (mapped ''conversation_id'' UUID_TYPE True)\<lparr>mc_foreign_key := Some (''conversations'',
        ''id'', CASCADE)\<rparr>,
      (mapped ''lead_id'' UUID_TYPE True)\<lparr>mc_foreign_key := Some (''leads'', ''id'',
        CASCADE)\<rparr>,
      (mapped ''correlation_id'' (VARCHAR 64) True)\<lparr>mc_index := True\<rparr>,
      mapped ''event_type'' (VARCHAR 64) False,
      mapped ''actor'' (VARCHAR 32) False,
      mapped ''category'' (VARCHAR 32) True,
      mapped ''platform_slug'' (VARCHAR 64) True,
      mapped ''merchant_ref'' (VARCHAR 200) True,
      mapped ''attempt_number'' INTEGER True,
      mapped ''outcome'' (VARCHAR 48) True,
      mapped ''latency_ms'' INTEGER True,
      mapped ''advance_reason'' (VARCHAR 200) True,
      (mapped ''consumer_visible'' BOOLEAN False)\<lparr>mc_default := Some (LITERAL ''false''), mc_index
        := True\<rparr>,
      mapped ''phrasebank_key'' (VARCHAR 128) True,
      mapped ''locale'' (VARCHAR 8) True,
      mapped ''consumer_text'' TEXT_TYPE True,
      (mapped ''inputs'' JSONB False)\<lparr>mc_default := Some empty_json\<rparr>,
      (mapped ''details'' JSONB False)\<lparr>mc_default := Some empty_json\<rparr>,
      (mapped ''schema_version'' INTEGER False)\<lparr>mc_default := Some (LITERAL ''1'')\<rparr>,
      (mapped ''created_at'' TIMESTAMPTZ False)\<lparr>mc_default := Some (SQL ''now()'')\<rparr>],
    md_args = [Index_Arg ''ix_audit_log_tenant_id_occurred_at'' [''tenant_id'', ''occurred_at''] False
      None ''btree'',
      Index_Arg ''ix_audit_log_tenant_id_conversation_id_seq'' [''tenant_id'', ''conversation_id'',
        ''seq''] False None ''btree'',
      Index_Arg ''ix_audit_log_tenant_id_event_type_occurred_at'' [''tenant_id'', ''event_type'',
        ''occurred_at''] False None ''btree'',
      Index_Arg ''ix_audit_log_tenant_id_platform_slug_outcome'' [''tenant_id'', ''platform_slug'',
        ''outcome''] False None ''btree'',
      Index_Arg ''ix_audit_log_details'' [''details''] False None ''gin'']\<rparr>"

text \<open>In the order the revisions create their tables.\<close>

definition MODELS :: "declared_model list" where
  "MODELS = [tenant_model, lead_model, routing_config_model, conversation_model, attribution_model, audit_log_model, booking_model, handoff_queue_model, message_model, consent_model, feedback_model, merchant_credential_model, scheduled_notification_model]"

subsection \<open>The revisions arrive at the models\<close>

lemma described_tenant: "describes tenant_model (table_of create_tenants)"
  by code_simp

lemma described_lead: "describes lead_model (table_of create_leads)"
  by code_simp

lemma described_routing_config: "describes routing_config_model (table_of create_routing_config)"
  by code_simp

lemma described_conversation: "describes conversation_model (conversations_with_state)"
  by code_simp

lemma described_attribution: "describes attribution_model (table_of create_attribution)"
  by code_simp

lemma described_audit_log: "describes audit_log_model (table_of create_audit_log)"
  by code_simp

lemma described_booking: "describes booking_model (table_of create_bookings)"
  by code_simp

lemma described_handoff_queue: "describes handoff_queue_model (table_of create_handoff_queue)"
  by code_simp

lemma described_message: "describes message_model (table_of create_messages)"
  by code_simp

lemma described_consent: "describes consent_model (table_of create_consents)"
  by code_simp

lemma described_feedback: "describes feedback_model (table_of create_feedback)"
  by code_simp

lemma described_merchant_credential: "describes merchant_credential_model (table_of create_merchant_credentials)"
  by code_simp

lemma described_scheduled_notification: "describes scheduled_notification_model (table_of create_scheduled_notifications)"
  by code_simp

text \<open>C38. The revisions and the models agree: the revisions apply to an empty database, and the schema
  they arrive at consists of exactly the tables the model classes declare, each with the declared
  columns (type, default, nullability), keys, foreign keys, checks and indexes, under the names the
  naming convention gives them.\<close>

theorem revisions_arrive_at_the_models:
  "\<exists>s. run_ops history empty_schema = Some s \<and> list_all2 describes MODELS (sc_tables s)"
  unfolding history_reaches_head
  by (simp add: head_schema_def guarded_def state_tables_def initial_tables_def MODELS_def
      described_tenant described_lead described_routing_config described_conversation
      described_attribution described_audit_log described_booking described_handoff_queue
      described_message described_consent described_feedback described_merchant_credential
      described_scheduled_notification)

end
