(* ===== verification/Operator_Tools.thy ===== *)
theory Operator_Tools
  imports Handoff Erasure Attribution
begin

text \<open>
  The command-line tools an operator works with: \<^verbatim>\<open>tools/handoff.py\<close> for the queue, \<^verbatim>\<open>tools/pdpl.py\<close>
  for erasure and retention, \<^verbatim>\<open>tools/make_qr.py\<close> for the codes on a flyer. A run is the exit code and
  the store it leaves; None is an exception nobody catches. What is printed is the value printed, not
  its layout.
\<close>

subsection \<open>The handoff queue\<close>

datatype handoff_command =
    List_Queue
  | Claim_Handoff uid string
  | Reply_Handoff uid string string
  | Release_Handoff uid string "string option"

datatype handoff_answer =
    No_Tenant
  | Queue_Shown "handoff_view list"
  | Handoff_Done uid
  | Handoff_Refused handoff_error

record handoff_run =
  hr_exit :: nat
  hr_answer :: handoff_answer
  hr_store :: store

definition work_handoff ::
    "uid \<Rightarrow> handoff_command \<Rightarrow> instant \<Rightarrow> store \<Rightarrow> handoff_error + uid \<times> store" where
  "work_handoff tid cmd now db = (case cmd of
     List_Queue \<Rightarrow> Inr (0, db)
   | Claim_Handoff hid op \<Rightarrow> (case claim tid hid op ''cli'' now db of
        Inl e \<Rightarrow> Inl e | Inr (v, db') \<Rightarrow> Inr (conv_id (hv_conversation v), db'))
   | Reply_Handoff hid op txt \<Rightarrow> (case reply tid hid op txt ''cli'' now db of
        Inl e \<Rightarrow> Inl e | Inr (m, db') \<Rightarrow> Inr (msg_conversation m, db'))
   | Release_Handoff hid op nt \<Rightarrow> (case release tid hid op nt ''cli'' now db of
        Inl e \<Rightarrow> Inl e | Inr (v, db') \<Rightarrow> Inr (conv_id (hv_conversation v), db')))"

definition handoff_main :: "string \<Rightarrow> handoff_command \<Rightarrow> instant \<Rightarrow> store \<Rightarrow> handoff_run" where
  "handoff_main tenant cmd now db =
     (case get_by_slug db tenant of
        None \<Rightarrow> \<lparr>hr_exit = 1, hr_answer = No_Tenant, hr_store = db\<rparr>
      | Some t \<Rightarrow>
          if cmd = List_Queue
          then \<lparr>hr_exit = 0, hr_answer = Queue_Shown (open_queue db (tenant_uid t) 50), hr_store = db\<rparr>
          else case work_handoff (tenant_uid t) cmd now db of
              Inl e \<Rightarrow> \<lparr>hr_exit = 1, hr_answer = Handoff_Refused e, hr_store = db\<rparr>
            | Inr (cid, db') \<Rightarrow> \<lparr>hr_exit = 0, hr_answer = Handoff_Done cid, hr_store = db'\<rparr>)"

text \<open>A command that does not succeed leaves no trace.\<close>

lemma handoff_main_refused: "hr_exit (handoff_main tenant cmd now db) \<noteq> 0 \<Longrightarrow> hr_store (handoff_main tenant cmd now db) = db"
  by (auto simp: handoff_main_def split: option.splits sum.splits prod.splits)

subsection \<open>Erasure and retention\<close>

datatype pdpl_command =
    Plan_Erasure string
  | Erase_Consumer string bool
  | Sweep_Retention bool

datatype pdpl_answer =
    Pdpl_No_Tenant
  | No_Consumer
  | Planned erasure_plan
  | Needs_Confirmation
  | Erased erasure_receipt
  | Swept retention_sweep

record pdpl_run =
  pr_exit :: nat
  pr_answer :: pdpl_answer
  pr_store :: store

definition pdpl_main ::
    "(string \<Rightarrow> string) \<Rightarrow> (uid \<Rightarrow> string) \<Rightarrow> (string \<Rightarrow> int option) \<Rightarrow> string \<Rightarrow> bool \<Rightarrow> pdpl_command
       \<Rightarrow> instant \<Rightarrow> instant \<Rightarrow> store \<Rightarrow> pdpl_run option" where
  "pdpl_main sha256 uuid_text st tenant json cmd started finished db =
     (let run = (\<lambda>code answer db'. \<lparr>pr_exit = code, pr_answer = answer, pr_store = db'\<rparr>) in
      case get_by_slug db tenant of
        None \<Rightarrow> Some (run 1 Pdpl_No_Tenant db)
      | Some t \<Rightarrow>
          let tid = tenant_uid t in (case cmd of
             Plan_Erasure w \<Rightarrow> Some (case plan_erasure tid w started db of
                 None \<Rightarrow> run 0 No_Consumer db | Some p \<Rightarrow> run 0 (Planned p) db)
           | Erase_Consumer w confirm \<Rightarrow> Some (
               if \<not> confirm then run 2 Needs_Confirmation db
               else case erase_consumer sha256 uuid_text tid w None started finished db of
                   None \<Rightarrow> run 0 No_Consumer db
                 | Some (r, db') \<Rightarrow> run (if \<not> json \<and> \<not> erasure_complete r then 1 else 0) (Erased r) db')
           | Sweep_Retention dry \<Rightarrow>
               (case retention_of_settings st of
                  None \<Rightarrow> None
                | Some pol \<Rightarrow>
                    let (s, db') = sweep_retention tid (Some pol) None started dry db
                    in Some (run 0 (Swept s) (if dry then db else db')))))"

text \<open>Nothing is deleted without a confirmation, nor by a plan or a dry run.\<close>

lemma pdpl_keeps_the_store:
  assumes "pdpl_main sha256 uuid_text st tenant json cmd t0 t1 db = Some r"
    and "case cmd of Plan_Erasure _ \<Rightarrow> True | Erase_Consumer _ confirm \<Rightarrow> \<not> confirm | Sweep_Retention dry \<Rightarrow> dry"
  shows "pr_store r = db"
  using assms by (auto simp: pdpl_main_def Let_def split: option.splits pdpl_command.splits prod.splits)

subsection \<open>Codes on a flyer\<close>

text \<open>None is the \<open>SystemExit\<close> of an invalid code.\<close>

definition normalise_source :: "string \<Rightarrow> string option" where
  "normalise_source raw =
     parse_source_code (if take 3 (upper raw) = ''SRC'' then raw else ''SRC'' @ raw)"

definition qr_payload :: "string \<Rightarrow> string \<Rightarrow> string option" where
  "qr_payload phone source = map_option (build_wa_link phone) (normalise_source source)"

definition PLACEHOLDER_PHONE :: string where
  "PLACEHOLDER_PHONE = ''+971500000000''"

record qr_run =
  qr_source :: string
  qr_link :: string
  qr_out :: string
  qr_placeholder :: bool

definition make_qr :: "string \<Rightarrow> string option \<Rightarrow> string option \<Rightarrow> qr_run option" where
  "make_qr source phone out =
     (let ph = (case phone of None \<Rightarrow> PLACEHOLDER_PHONE | Some p \<Rightarrow> p) in
      case normalise_source source of
        None \<Rightarrow> None
      | Some s \<Rightarrow> (case qr_payload ph s of
          None \<Rightarrow> None
        | Some l \<Rightarrow> Some \<lparr>qr_source = s, qr_link = l, qr_out = or_else out (''qr/'' @ s @ ''.svg''),
            qr_placeholder = (ph = PLACEHOLDER_PHONE)\<rparr>))"


lemma upper_char_alnum: "is_alnum (upper_char c) = is_alnum c"
proof -
  have n: "(of_char c :: nat) < 256" using of_char_mod_256 [of c, where ?'a = nat] by (metis mod_less_divisor zero_less_numeral)
  show ?thesis
    using n by (auto simp: is_alnum_def is_alpha_def is_digit_def upper_char_def Let_def of_char_of)
qed

lemma upper_idem: "upper (upper s) = upper s"
proof -
  have "upper_char (upper_char c) = upper_char c" for c
  proof -
    have n: "(of_char c :: nat) < 256" using of_char_mod_256 [of c, where ?'a = nat] by (metis mod_less_divisor zero_less_numeral)
    show ?thesis using n by (auto simp: upper_char_def Let_def of_char_of)
  qed
  then show ?thesis by (simp add: upper_def)
qed

lemma alnum_word: "is_alnum c \<Longrightarrow> is_word c"
  by (auto simp: is_alnum_def is_word_def)

text \<open>What a canonical code looks like.\<close>

lemma source_word_code:
  assumes "source_word w"
  shows "source_word (''SRC'' @ upper (drop 3 w))" and "list_all is_alnum (''SRC'' @ upper (drop 3 w))"
proof -
  have a: "list_all is_alnum (upper (drop 3 w))"
    using assms by (simp add: source_word_def upper_def list_all_iff upper_char_alnum)
  have "is_alnum CHR ''S''" "is_alnum CHR ''R''" "is_alnum CHR ''C''" by code_simp+
  then show "list_all is_alnum (''SRC'' @ upper (drop 3 w))" using a by simp
  have "lower ''SRC'' = ''src''" by code_simp
  then show "source_word (''SRC'' @ upper (drop 3 w))"
    using assms a by (auto simp: source_word_def upper_def numeral_3_eq_3)
qed

lemma find_source_is_word: "find_source s = Some w \<Longrightarrow> source_word w"
proof (induction s rule: length_induct)
  case (1 s)
  show ?case
  proof (cases rule: word_split [of s])
    case (word v)
    then show ?thesis using 1(2) by (auto simp: find_source_word split: if_splits)
  next
    case (more v c cs)
    then have IH: "find_source cs = Some w \<longrightarrow> source_word w"
      using 1(1) [rule_format, of cs] by simp
    have "find_source s = (if source_word v then Some v else find_source cs)"
      using more by (simp add: find_source_at_word)
    then show ?thesis using 1(2) IH by (auto split: if_splits)
  qed
qed

lemma normalised_code:
  assumes "normalise_source raw = Some c"
  shows "source_word c" and "list_all is_alnum c" and "''SRC'' @ upper (drop 3 c) = c"
proof -
  obtain w s where w: "find_source s = Some w" "c = ''SRC'' @ upper (drop 3 w)"
    using assms by (auto simp: normalise_source_def parse_source_code_def split: if_splits)
  have "source_word w" using find_source_is_word [OF w(1)] .
  then show "source_word c" "list_all is_alnum c" using source_word_code w(2) by auto
  show "''SRC'' @ upper (drop 3 c) = c" by (simp add: w(2) upper_idem numeral_3_eq_3)
qed

lemma starts_as_code:
  assumes "''SRC'' @ upper (drop 3 c) = c"
  shows "take 3 (upper c) = ''SRC''"
proof -
  have "take 3 (upper c) = upper ''SRC''"
    by (subst assms [symmetric]) (simp add: upper_def numeral_3_eq_3)
  also have "\<dots> = ''SRC''" by code_simp
  finally show ?thesis .
qed

lemma digits_no_source: "\<not> source_word (filter is_digit p)"
proof (cases "filter is_digit p")
  case (Cons x xs)
  then have d: "is_digit x" by (metis filter_eq_Cons_iff)
  have "lower_char x \<noteq> CHR ''s''"
  proof
    assume l: "lower_char x = CHR ''s''"
    have "lower_char x = x" using d by (auto simp: lower_char_def is_digit_def Let_def)
    then have "is_digit CHR ''s''" using l d by simp
    moreover have "\<not> is_digit CHR ''s''" by code_simp
    ultimately show False by simp
  qed
  then show ?thesis using Cons by (auto simp: source_word_def lower_def numeral_3_eq_3)
qed simp

text \<open>The words of a link before the code.\<close>

lemma link_words:
  "list_all is_word ''https''" "\<not> source_word ''https''" "\<not> is_word CHR '':''" "\<not> is_word CHR ''/''"
  "list_all is_word ''wa''" "\<not> source_word ''wa''" "\<not> is_word CHR ''.''" "list_all is_word ''me''"
  "\<not> source_word ''me''" "\<not> is_word CHR ''?''" "list_all is_word ''text''" "\<not> source_word ''text''"
  "\<not> is_word CHR ''=''"
  by code_simp+

lemma find_source_link:
  assumes "source_word c" and "list_all is_word c"
  shows "find_source (build_wa_link p c) = Some c"
proof -
  let ?d = "filter is_digit p"
  have d: "list_all is_word ?d" by (auto simp: list_all_iff is_word_def)
  have e: "build_wa_link p c = ''https'' @ CHR '':'' # [] @ CHR ''/'' # [] @ CHR ''/'' # ''wa'' @ CHR ''.'' # ''me''
      @ CHR ''/'' # ?d @ CHR ''?'' # ''text'' @ CHR ''='' # c"
    by (simp add: build_wa_link_def)
  have n: "list_all is_word []" by simp
  show ?thesis
    unfolding e
      find_source_at_word [OF link_words(1,3)] find_source_at_word [OF n link_words(4)]
      find_source_at_word [OF link_words(5,7)] find_source_at_word [OF link_words(8,4)]
      find_source_at_word [OF d link_words(10)] find_source_at_word [OF link_words(11,13)]
      find_source_word [OF assms(2)]
    using assms(1) link_words digits_no_source by simp
qed

text \<open>What is printed is what the parser recognises: scanning the code of an accepted source opens
  a chat whose prefilled text is read as that very source, and as a scan; so does the whole link; and
  a canonical code is accepted as it is.\<close>

theorem printed_codes_are_recognised:
  assumes "make_qr source phone out = Some q"
  shows "qr_link q = build_wa_link (case phone of None \<Rightarrow> PLACEHOLDER_PHONE | Some p \<Rightarrow> p) (qr_source q)
    \<and> parse_source_code (qr_source q) = Some (qr_source q) \<and> medium_for (qr_source q) = QR
    \<and> parse_source_code (qr_link q) = Some (qr_source q) \<and> normalise_source (qr_source q) = Some (qr_source q)"
proof -
  let ?c = "qr_source q" and ?p = "case phone of None \<Rightarrow> PLACEHOLDER_PHONE | Some p \<Rightarrow> p"
  have c: "normalise_source source = Some ?c"
    using assms by (auto simp: make_qr_def Let_def split: option.splits)
  note code = normalised_code [OF c]
  have words: "list_all is_word ?c" using code(2) by (auto simp: list_all_iff alnum_word)
  have "normalise_source ?c = Some ?c" "parse_source_code ?c = Some ?c"
    using code words by (simp_all add: normalise_source_def parse_source_code_def find_source_word starts_as_code)
  moreover from this(1) have "qr_link q = build_wa_link ?p ?c"
  proof -
    assume n: "normalise_source ?c = Some ?c"
    let ?q = "\<lparr>qr_source = ?c, qr_link = build_wa_link ?p ?c,
      qr_out = or_else out (''qr/'' @ ?c @ ''.svg''), qr_placeholder = (?p = PLACEHOLDER_PHONE)\<rparr>"
    have "Some q = make_qr source phone out" using assms by simp
    also have "\<dots> = Some ?q" by (simp add: make_qr_def qr_payload_def Let_def c n)
    finally have "qr_link q = qr_link ?q" by (intro arg_cong [where f = qr_link]) simp
    then show ?thesis by simp
  qed
  moreover have "medium_for ?c = QR"
    using code(1) words by (simp add: medium_for_def strip_source_code_def remove_sources_word strip_def lstrip_def rstrip_def)
  moreover have "parse_source_code (build_wa_link ?p ?c) = Some ?c"
    using code by (simp add: parse_source_code_def find_source_link [OF code(1) words])
  ultimately show ?thesis by simp
qed

theorem printed_codes_are_recognised_witness:
  "\<exists>q. make_qr ''12'' (Some ''+97141234567'') None = Some q \<and> parse_source_code (qr_link q) = Some (qr_source q)"
proof -
  have "make_qr ''12'' (Some ''+97141234567'') None \<noteq> None" by code_simp
  then obtain q where q: "make_qr ''12'' (Some ''+97141234567'') None = Some q" by auto
  with printed_codes_are_recognised [OF q] show ?thesis by blast
qed

end
