(* ===== verification/Load_Test.thy ===== *)
theory Load_Test
  imports Formatting "HOL-Library.List_Lexorder" "HOL-Library.Char_ord"
begin

text \<open>
  The load test, \<^verbatim>\<open>tools/loadtest.py\<close>: the scripts, the run of many consumers of which a bounded
  number is in flight at once, the report and the verdict. How a turn ends and how long it takes are
  not known to the tool; a run is a sequence of steps of a state, in which consumers interleave as the
  event loop has it.
\<close>

subsection \<open>The scripts\<close>

definition SCENARIOS :: "(string \<times> (string \<times> string) list) list" where
  "SCENARIOS = [
     (''happy'', [(''greeting'', ''hi''), (''consent'', ''yes''),
        (''search'', ''need a haircut in Marina tomorrow at 5pm''), (''booking'', ''yes'')]),
     (''degraded'', [(''greeting'', ''hi''), (''consent'', ''yes''),
        (''cascade_exhausted'', ''spa treatment in JLT tomorrow evening'')])]"

subsection \<open>The report\<close>

record load_sample =
  sm_kind :: string
  sm_seconds :: real
  sm_replies :: nat
  sm_error :: "string option"

record load_report =
  lr_samples :: "load_sample list"
  lr_wall_seconds :: real
  lr_consumers :: nat
  lr_concurrency :: nat
  lr_scenario :: string
  lr_upstream_ms :: int

text \<open>A turn of a consumer: the number of replies, or the exception.\<close>

definition sample_of :: "string \<Rightarrow> string + nat \<Rightarrow> real \<Rightarrow> load_sample" where
  "sample_of kind outcome secs = (case outcome of
     Inl e \<Rightarrow> \<lparr>sm_kind = kind, sm_seconds = secs, sm_replies = 0, sm_error = Some e\<rparr>
   | Inr n \<Rightarrow> \<lparr>sm_kind = kind, sm_seconds = secs, sm_replies = n, sm_error = None\<rparr>)"

definition load_errors :: "load_report \<Rightarrow> load_sample list" where
  "load_errors r = filter (\<lambda>s. sm_error s \<noteq> None) (lr_samples r)"

definition load_ok :: "load_report \<Rightarrow> load_sample list" where
  "load_ok r = filter (\<lambda>s. sm_error s = None) (lr_samples r)"

definition by_kind :: "load_report \<Rightarrow> (string \<times> real list) list" where
  "by_kind r = map (\<lambda>k. (k, map sm_seconds (filter (\<lambda>s. sm_kind s = k) (load_ok r))))
     (sort (remdups (map sm_kind (load_ok r))))"

definition rounded :: "nat \<Rightarrow> real \<Rightarrow> real" where
  "rounded n x = of_int (round_half_even (x * 10 ^ n)) / 10 ^ n"

definition load_percentile :: "real list \<Rightarrow> real \<Rightarrow> real" where
  "load_percentile ordered pct = (if ordered = [] then 0 else
     let rank = max 1 (round_half_even (pct / 100 * of_nat (length ordered)))
     in rounded 4 (ordered ! (min (nat rank) (length ordered) - 1)))"

record load_stats =
  lst_n :: nat
  lst_p50 :: real
  lst_p95 :: real
  lst_p99 :: real
  lst_max :: real
  lst_mean :: real

definition stats_of :: "real list \<Rightarrow> load_stats" where
  "stats_of vs = (let ordered = sort vs in
     \<lparr>lst_n = length ordered, lst_p50 = load_percentile ordered 50, lst_p95 = load_percentile ordered 95,
      lst_p99 = load_percentile ordered 99, lst_max = (if ordered = [] then 0 else last ordered),
      lst_mean = (if ordered = [] then 0 else sum_list ordered / of_nat (length ordered))\<rparr>)"

record load_summary =
  su_scenario :: string
  su_upstream_ms :: int
  su_consumers :: nat
  su_concurrency :: nat
  su_wall_seconds :: real
  su_turns :: nat
  su_errors :: nat
  su_turns_per_second :: real
  su_overall :: load_stats
  su_by_kind :: "(string \<times> load_stats) list"

definition load_summary_of :: "load_report \<Rightarrow> load_summary" where
  "load_summary_of r = \<lparr>su_scenario = lr_scenario r, su_upstream_ms = lr_upstream_ms r,
     su_consumers = lr_consumers r, su_concurrency = lr_concurrency r,
     su_wall_seconds = rounded 2 (lr_wall_seconds r), su_turns = length (lr_samples r),
     su_errors = length (load_errors r),
     su_turns_per_second = (if lr_wall_seconds r = 0 then 0
        else rounded 1 (of_nat (length (lr_samples r)) / lr_wall_seconds r)),
     su_overall = stats_of (map sm_seconds (load_ok r)),
     su_by_kind = map (\<lambda>(k, vs). (k, stats_of vs)) (by_kind r)\<rparr>"

text \<open>The exit code: whether the median is within the budget.\<close>

definition load_verdict :: "load_report \<Rightarrow> real \<Rightarrow> nat" where
  "load_verdict r budget = (if lst_p50 (su_overall (load_summary_of r)) < budget then 0 else 1)"

text \<open>A run in which every turn failed is within every budget.\<close>

lemma failed_run_passes:
  assumes "list_all (\<lambda>s. sm_error s \<noteq> None) (lr_samples r)" and "0 < budget"
  shows "load_verdict r budget = 0"
proof -
  have "load_ok r = []" using assms(1) by (auto simp: load_ok_def filter_empty_conv list_all_iff)
  then show ?thesis
    using assms(2) by (simp add: load_verdict_def load_summary_of_def stats_of_def load_percentile_def)
qed

text \<open>A percentile is a measured value, rounded.\<close>

lemma percentile_is_measured:
  assumes "xs \<noteq> []"
  shows "\<exists>x\<in>set xs. load_percentile xs pct = rounded 4 x"
proof -
  let ?i = "min (nat (max 1 (round_half_even (pct / 100 * of_nat (length xs))))) (length xs) - 1"
  have "?i < length xs" using assms by (cases xs) auto
  then have "xs ! ?i \<in> set xs" by simp
  then show ?thesis using assms unfolding load_percentile_def Let_def by auto
qed

text \<open>The rank is rounded half to even, not up: of five values the median is the second.\<close>

lemma median_of_five: "load_percentile [1, 2, 3, 4, 5] 50 = 2"
proof -
  have "round_half_even (50 / 100 * of_nat (length [1, 2, 3, 4, 5 :: real])) = 2"
    by (simp add: round_half_even_def Let_def)
  then show ?thesis by (simp add: load_percentile_def rounded_def round_half_even_def)
qed

subsection \<open>A run\<close>

text \<open>Who waits for the semaphore, who is in flight and what each has left of the script, and the
  samples in the order they are taken.\<close>

record load_run =
  ld_waiting :: "nat list"
  ld_flight :: "(nat \<times> (string \<times> string) list) list"
  ld_samples :: "load_sample list"

definition load_start :: "nat \<Rightarrow> load_run" where
  "load_start consumers = \<lparr>ld_waiting = [0..<consumers], ld_flight = [], ld_samples = []\<rparr>"

inductive load_step :: "nat \<Rightarrow> (string \<times> string) list \<Rightarrow> load_run \<Rightarrow> load_run \<Rightarrow> bool"
  for concurrency script where
  admitted: "ld_waiting s = i # is \<Longrightarrow> length (ld_flight s) < concurrency \<Longrightarrow>
    load_step concurrency script s (s\<lparr>ld_waiting := is, ld_flight := ld_flight s @ [(i, script)]\<rparr>)"
| taken: "ld_flight s = xs @ (i, (kind, txt) # rest) # ys \<Longrightarrow>
    load_step concurrency script s (s\<lparr>ld_flight := xs @ (i, rest) # ys,
      ld_samples := ld_samples s @ [sample_of kind outcome secs]\<rparr>)"
| left: "ld_flight s = xs @ (i, []) # ys \<Longrightarrow>
    load_step concurrency script s (s\<lparr>ld_flight := xs @ ys\<rparr>)"

inductive_cases load_stepE: "load_step c script s s'"

text \<open>What is left to do.\<close>

definition load_left :: "(string \<times> string) list \<Rightarrow> load_run \<Rightarrow> nat" where
  "load_left script s = length (ld_waiting s) * (length script + 2)
     + sum_list (map (\<lambda>(i, rest). length rest + 1) (ld_flight s))"

lemma load_step_decreases: "load_step c script s s' \<Longrightarrow> load_left script s' < load_left script s"
  by (induction rule: load_step.induct) (simp_all add: load_left_def)

definition load_done :: "load_run \<Rightarrow> bool" where
  "load_done s \<longleftrightarrow> ld_waiting s = [] \<and> ld_flight s = []"

text \<open>The turns taken and the turns to come are those of every consumer.\<close>

definition load_count :: "(string \<times> string) list \<Rightarrow> load_run \<Rightarrow> nat" where
  "load_count script s = length (ld_samples s) + length (ld_waiting s) * length script
     + sum_list (map (\<lambda>(i, rest). length rest) (ld_flight s))"

lemma load_step_count: "load_step c script s s' \<Longrightarrow> load_count script s' = load_count script s"
  by (induction rule: load_step.induct) (simp_all add: load_count_def)

lemma load_step_bound: "load_step c script s s' \<Longrightarrow> length (ld_flight s) \<le> c \<Longrightarrow> length (ld_flight s') \<le> c"
  by (induction rule: load_step.induct) simp_all

lemma load_reached:
  assumes "rtranclp (load_step c script) (load_start n) s"
  shows "load_count script s = n * length script \<and> length (ld_flight s) \<le> c"
  using assms
proof (induction rule: rtranclp_induct)
  case base
  show ?case by (simp add: load_count_def load_start_def)
next
  case (step s s')
  then show ?case using load_step_count load_step_bound by metis
qed

lemma load_progress:
  assumes "\<not> load_done s" and "0 < c"
  shows "\<exists>s'. load_step c script s s'"
proof (cases "ld_flight s")
  case Nil
  then obtain i "is" where "ld_waiting s = i # is" using assms(1) by (cases "ld_waiting s") (auto simp: load_done_def)
  then show ?thesis using load_step.admitted [of s i "is" c script] Nil assms(2) by auto
next
  case (Cons f fs)
  obtain i rest where f: "f = (i, rest)" by fastforce
  show ?thesis
  proof (cases rest)
    case Nil
    then have "ld_flight s = [] @ (i, []) # fs" using Cons f by simp
    then show ?thesis by (blast intro: load_step.left)
  next
    case (Cons t ts)
    obtain k x where "t = (k, x)" by fastforce
    then have "ld_flight s = [] @ (i, (k, x) # ts) # fs" using Cons \<open>ld_flight s = f # fs\<close> f by simp
    then show ?thesis by (blast intro: load_step.taken)
  qed
qed



text \<open>With a concurrency of zero the first consumer waits for ever.\<close>

lemma zero_concurrency_hangs:
  assumes "0 < n"
  shows "\<not> load_done (load_start n) \<and> (\<nexists>s'. load_step 0 script (load_start n) s')"
  using assms by (auto simp: load_done_def load_start_def elim: load_stepE)

end
