(* ===== verification/Responder.thy ===== *)
theory Responder
  imports States
begin

text \<open>
  The scripted responder, \<^verbatim>\<open>mawjood/core/conversation/responder.py\<close>: the deterministic choice of
  phrases that the state machine has taken over. It answers with keys of the phrasebank, never with
  text. What it says about consent is what the machine still says, which is proved here.
\<close>

record responder_context =
  rc_text :: string
  rc_new_lead :: bool
  rc_new_conversation :: bool
  rc_consent :: consent_state
  rc_signal :: consent_signal

definition respond :: "responder_context \<Rightarrow> phrase_key list" where
  "respond c =
     (if rc_signal c = WITHDRAWAL then [phrase_key.CONSENT_WITHDRAWN]
      else if rc_new_lead c \<or> rc_consent c = UNKNOWN
      then [GREETING_WELCOME, phrase_key.CONSENT_NOTICE]
      else if rc_consent c = consent_state.WITHDRAWN
      then [GREETING_RETURNING, phrase_key.CONSENT_NOTICE]
      else if rc_consent c = consent_state.NOTICE_SHOWN \<and> rc_signal c = AFFIRMATIVE
      then [CONSENT_ACKNOWLEDGED]
      else if strip (rc_text c) = [] then [FALLBACK_UNCLEAR]
      else if rc_new_conversation c then [GREETING_RETURNING, ACK_RECEIVED]
      else [ACK_RECEIVED])"

lemma respond_speaks: "respond c \<noteq> []"
  by (simp add: respond_def)

text \<open>The notice goes to whoever has neither been shown it nor just asked to stop, and to nobody
  else.\<close>

lemma notice_in_response:
  "phrase_key.CONSENT_NOTICE \<in> set (respond c)
   \<longleftrightarrow> rc_signal c \<noteq> WITHDRAWAL
     \<and> (rc_new_lead c \<or> rc_consent c \<in> {UNKNOWN, consent_state.WITHDRAWN})"
  by (auto simp: respond_def)

text \<open>What the responder is shown of the input of the machine.\<close>

definition context_of :: "string \<Rightarrow> bool \<Rightarrow> machine_input \<Rightarrow> responder_context" where
  "context_of s fresh_conversation i =
     \<lparr>rc_text = s, rc_new_lead = is_new_lead i, rc_new_conversation = fresh_conversation,
      rc_consent = m_consent i, rc_signal = m_signal i\<rparr>"

lemma first_contact_opens:
  "take 2 (map fst (t_phrases (first_contact c))) = [GREETING_WELCOME, phrase_key.CONSENT_NOTICE]"
  by (simp add: first_contact_def Let_def)

text \<open>The seam the responder was written for: on everything to do with consent the machine opens
  its turn with the phrases of the responder. It goes its own way only for somebody who asks for a
  person or writes Arabic, and once the notice has been shown.\<close>

theorem machine_keeps_the_opening:
  assumes "\<not> wants_human (m_understanding i)"
    and "m_signal i = WITHDRAWAL
         \<or> (u_language (m_understanding i) \<noteq> ''ar''
            \<and> (is_new_lead i \<or> m_consent i \<in> {UNKNOWN, consent_state.WITHDRAWN}))"
  shows "take (length (respond (context_of s n i))) (map fst (t_phrases (advance i)))
         = respond (context_of s n i)"
proof (cases "m_signal i = WITHDRAWAL")
  case True
  with assms show ?thesis by (simp add: advance_def respond_def context_of_def Let_def)
next
  case stay: False
  with assms have ar: "u_language (m_understanding i) \<noteq> ''ar''"
    and who: "is_new_lead i \<or> m_consent i \<in> {UNKNOWN, consent_state.WITHDRAWN}" by auto
  show ?thesis
  proof (cases "is_new_lead i \<or> m_consent i = UNKNOWN")
    case True
    with stay assms ar show ?thesis
      by (simp add: advance_def respond_def context_of_def Let_def first_contact_opens
          flip: numeral_2_eq_2)
  next
    case False
    with stay assms ar who show ?thesis
      by (auto simp: advance_def respond_def context_of_def Let_def)
  qed
qed

end
