(* ===== verification/Licences.thy ===== *)
theory Licences
  imports Replay "HOL-Library.AList" "HOL-Library.List_Lexorder" "HOL-Library.Char_ord"
    "HOL-Library.Multiset"
begin

text \<open>
  The licence inventory, \<^verbatim>\<open>tools/licences.py\<close>: the licence a distribution declares, the packages that
  are installed, which of them ship, and what is printed. What \<open>importlib.metadata\<close> reads and what
  \<open>uv export\<close> writes are arguments.
\<close>

definition NORMALISE :: "(string \<times> string) list" where
  "NORMALISE =
     [(''MIT License'', ''MIT''),
      (''BSD License'', ''BSD-3-Clause''),
      (''BSD'', ''BSD-3-Clause''),
      (''Apache Software License'', ''Apache-2.0''),
      (''Apache License, Version 2.0'', ''Apache-2.0''),
      (''Apache 2.0'', ''Apache-2.0''),
      (''Python Software Foundation License'', ''PSF-2.0''),
      (''PSFL'', ''PSF-2.0''),
      (''Mozilla Public License 2.0 (MPL 2.0)'', ''MPL-2.0''),
      (''ISC License (ISCL)'', ''ISC''),
      (''The Unlicense (Unlicense)'', ''Unlicense'')]"

definition REVIEW :: "string list" where
  "REVIEW = [''MPL-2.0'', ''GPL'', ''AGPL'', ''LGPL'', ''SSPL'', ''BUSL'', ''UNKNOWN'']"

text \<open>\<open>NORMALISE.get(t, t)\<close>\<close>

definition normalised :: "string \<Rightarrow> string" where
  "normalised t = (case map_of NORMALISE t of None \<Rightarrow> t | Some v \<Rightarrow> v)"

definition canonical :: "string \<Rightarrow> string" where
  "canonical nm = map (\<lambda>c. if c = CHR ''_'' then CHR ''-'' else c) (lower nm)"

subsection \<open>The licence of a distribution\<close>

record metadata =
  md_expression :: "string option"
  md_license :: "string option"
  md_classifiers :: "string list option"

text \<open>\<open>split(" :: ")[-1]\<close>: what follows the last separator, separators being taken from the left.\<close>

fun last_part :: "string \<Rightarrow> string \<Rightarrow> string" where
  "last_part acc [] = acc"
| "last_part acc (c # cs) =
     (if take 4 (c # cs) = '' :: '' then last_part [] (drop 3 cs) else last_part (acc @ [c]) cs)"

definition licence_of :: "metadata \<Rightarrow> string" where
  "licence_of m =
     (if truthy (md_expression m) then strip (the (md_expression m))
      else
        let declared = strip (or_else (md_license m) []) in
        if declared \<noteq> [] \<and> length declared \<le> 60 then normalised declared
        else
          let classifiers = filter (\<lambda>c. take 10 c = ''License ::'')
                (case md_classifiers m of None \<Rightarrow> [] | Some cs \<Rightarrow> cs) in
          if classifiers \<noteq> [] then join_with ''; '' (map (\<lambda>c. normalised (last_part [] c)) classifiers)
          else ''UNKNOWN'')"

subsection \<open>What is installed and what ships\<close>

record distribution =
  ds_name :: "string option"
  ds_version :: string
  ds_metadata :: metadata

record package =
  pk_name :: string
  pk_version :: string
  pk_licence :: string

definition installed_step ::
    "distribution \<Rightarrow> (string \<times> package) list \<Rightarrow> (string \<times> package) list" where
  "installed_step d pks =
     (if truthy (ds_name d)
      then let nm = the (ds_name d) in
        AList.update (canonical nm)
          \<lparr>pk_name = nm, pk_version = ds_version d, pk_licence = licence_of (ds_metadata d)\<rparr> pks
      else pks)"

definition installed :: "distribution list \<Rightarrow> (string \<times> package) list" where
  "installed ds = fold installed_step ds []"

text \<open>\<open>splitlines\<close> on ASCII; a carriage return before a line feed makes an empty line more, which is
  skipped like every other.\<close>

definition line_break :: "char \<Rightarrow> bool" where
  "line_break c = (let n = (of_char c :: nat) in (10 \<le> n \<and> n \<le> 13) \<or> (28 \<le> n \<and> n \<le> 30))"

fun split_lines :: "string \<Rightarrow> string \<Rightarrow> string list" where
  "split_lines acc [] = (if acc = [] then [] else [acc])"
| "split_lines acc (c # cs) =
     (if line_break c then acc # split_lines [] cs else split_lines (acc @ [c]) cs)"

fun occurs :: "string \<Rightarrow> string \<Rightarrow> bool" where
  "occurs m [] = (m = [])"
| "occurs m (c # cs) = (take (length m) (c # cs) = m \<or> occurs m cs)"

fun before_first :: "string \<Rightarrow> string \<Rightarrow> string" where
  "before_first m [] = []"
| "before_first m (c # cs) = (if take (length m) (c # cs) = m then [] else c # before_first m cs)"

text \<open>None is a machine without \<open>uv\<close>, or one on which it fails.\<close>

definition runtime_closure :: "string option \<Rightarrow> string list" where
  "runtime_closure uv =
     (case uv of
        None \<Rightarrow> []
      | Some out \<Rightarrow>
          map (\<lambda>line. canonical (before_first ''=='' line))
            (filter (\<lambda>line. line \<noteq> [] \<and> hd line \<noteq> CHR ''#'' \<and> occurs ''=='' line)
              (map strip (split_lines [] out))))"

definition scope_bucket :: "string list \<Rightarrow> string \<Rightarrow> string" where
  "scope_bucket closure c =
     (if closure = [] then ''unknown''
      else if c \<in> set closure then ''runtime'' else ''development'')"

record licence_row =
  lc_package :: package
  lc_scope :: string

definition licence_rows :: "(string \<times> package) list \<Rightarrow> string list \<Rightarrow> licence_row list" where
  "licence_rows packages closure =
     map (\<lambda>(c, p). \<lparr>lc_package = p, lc_scope = scope_bucket closure c\<rparr>) (sort_key fst packages)"

definition not_installed :: "(string \<times> package) list \<Rightarrow> string list \<Rightarrow> string list" where
  "not_installed packages closure =
     sort (remdups (filter (\<lambda>c. c \<notin> fst ` set packages) closure))"

definition of_scope :: "string \<Rightarrow> licence_row list \<Rightarrow> licence_row list" where
  "of_scope sc rows = filter (\<lambda>r. lc_scope r = sc) rows"

definition needs_review :: "licence_row list \<Rightarrow> string list" where
  "needs_review rows =
     sort (remdups (filter (\<lambda>l. list_ex (\<lambda>flag. occurs flag l) REVIEW)
       (map (\<lambda>r. pk_licence (lc_package r)) rows)))"

subsection \<open>The report\<close>

definition licence_table :: "licence_row list \<Rightarrow> string" where
  "licence_table rows = join_with [CHR 0x0A]
     ([''| Package | Version | Licence |'', ''|---|---|---|'']
      @ map (\<lambda>r. ''| '' @ [CHR 0x60] @ pk_name (lc_package r) @ [CHR 0x60] @ '' | ''
          @ pk_version (lc_package r) @ '' | '' @ pk_licence (lc_package r) @ '' |'') rows)"

text \<open>\<open>Counter(...).most_common()\<close>: the most frequent first, ties in the order of first occurrence.\<close>

definition most_common :: "string list \<Rightarrow> (string \<times> nat) list" where
  "most_common xs =
     sort_key (\<lambda>(_, n). - int n) (map (\<lambda>x. (x, count_list xs x)) (rev (remdups (rev xs))))"

definition licence_summary :: "licence_row list \<Rightarrow> string" where
  "licence_summary rows = join_with [CHR 0x0A]
     ([''| Licence | Packages |'', ''|---|---|'']
      @ map (\<lambda>(l, n). ''| '' @ l @ '' | '' @ show_nat n @ '' |'')
          (most_common (map (\<lambda>r. pk_licence (lc_package r)) rows)))"

text \<open>What is printed, print by print, and what goes to standard error; or the JSON object.\<close>

datatype licence_output =
    Markdown "string list" "string option"
  | Licence_json "licence_row list" "string list" nat nat

definition licences_main :: "distribution list \<Rightarrow> string option \<Rightarrow> bool \<Rightarrow> licence_output" where
  "licences_main ds uv json =
     (let packages = AList.delete ''mawjood'' (installed ds);
          closure = runtime_closure uv;
          rows = licence_rows packages closure;
          missing = not_installed packages closure;
          runtime = of_scope ''runtime'' rows;
          development = of_scope ''development'' rows;
          review = needs_review rows
      in if json then Licence_json rows missing (length runtime) (length development)
         else Markdown
           ([''## Runtime ('' @ show_nat (length runtime) @ '')'' @ [CHR 0x0A],
             licence_summary runtime, [], licence_table runtime,
             [CHR 0x0A] @ ''## Development ('' @ show_nat (length development) @ '')'' @ [CHR 0x0A],
             licence_summary development, [], licence_table development]
            @ (if missing \<noteq> []
               then [[CHR 0x0A] @ ''Resolved but not installed on this platform: '' @ join_with '', '' missing]
               else []))
           (if review \<noteq> [] then Some ([CHR 0x0A] @ ''Needs a look: '' @ join_with '', '' review) else None))"

subsection \<open>Facts\<close>

lemma normalised_idem: "normalised (normalised t) = normalised t"
proof (cases "map_of NORMALISE t")
  case (Some v)
  have "list_all (\<lambda>(k, v). map_of NORMALISE v = None) NORMALISE" by code_simp
  moreover have "(t, v) \<in> set NORMALISE" using Some by (rule map_of_SomeD)
  ultimately have "map_of NORMALISE v = None" by (auto simp: list_all_iff)
  with Some show ?thesis by (simp add: normalised_def)
qed (simp add: normalised_def)

text \<open>One entry per canonical name, whatever is installed twice.\<close>

lemma installed_distinct: "distinct (map fst (installed ds))"
proof -
  have "distinct (map fst pks) \<Longrightarrow> distinct (map fst (fold installed_step ds pks))" for pks
    by (induction ds arbitrary: pks) (auto simp: installed_step_def Let_def distinct_update)
  then show ?thesis by (simp add: installed_def)
qed

lemma sum_most_common: "sum_list (map snd (most_common xs)) = length xs"
proof -
  have sorted: "mset (map snd (sort_key k zs)) = mset (map snd zs)"
    for k :: "string \<times> nat \<Rightarrow> int" and zs
    by simp
  have "mset (map snd (most_common xs)) = mset (map (count_list xs) (rev (remdups (rev xs))))"
    unfolding most_common_def sorted by (simp only: map_map comp_def snd_conv)
  then have "sum_list (map snd (most_common xs)) = sum_list (map (count_list xs) (rev (remdups (rev xs))))"
    by (metis sum_mset_sum_list)
  also have "\<dots> = sum (count_list xs) (set xs)"
    by (simp add: sum.distinct_set_conv_list [symmetric] flip: rev_map)
  also have "\<dots> = length xs" by (rule sum_count_set) auto
  finally show ?thesis .
qed

text \<open>With a closure every package is listed once, as what ships or as what does not; the licences of
  a list add up to it.\<close>

theorem inventory_is_complete:
  assumes "closure \<noteq> []"
  shows "length (of_scope ''runtime'' (licence_rows packages closure))
         + length (of_scope ''development'' (licence_rows packages closure)) = length packages"
    and "sum_list (map snd (most_common (map (\<lambda>r. pk_licence (lc_package r)) rows))) = length rows"
proof -
  have "length (of_scope ''runtime'' (map f xs)) + length (of_scope ''development'' (map f xs)) = length xs"
    if f: "f = (\<lambda>(c, p). \<lparr>lc_package = p, lc_scope = scope_bucket closure c\<rparr>)" for f and xs :: "(string \<times> package) list"
    using assms by (induction xs) (auto simp: f of_scope_def scope_bucket_def)
  from this [OF refl, of "sort_key fst packages"]
  show "length (of_scope ''runtime'' (licence_rows packages closure))
    + length (of_scope ''development'' (licence_rows packages closure)) = length packages"
    by (simp add: licence_rows_def)
  show "sum_list (map snd (most_common (map (\<lambda>r. pk_licence (lc_package r)) rows))) = length rows"
    by (simp add: sum_most_common)
qed

text \<open>Without \<open>uv\<close> the tables list no package at all, and nothing that is printed says why.\<close>

lemma nothing_listed_without_uv:
  "of_scope ''runtime'' (licence_rows packages (runtime_closure None)) = []"
  "of_scope ''development'' (licence_rows packages (runtime_closure None)) = []"
  "not_installed packages (runtime_closure None) = []"
  by (auto simp: of_scope_def licence_rows_def runtime_closure_def scope_bucket_def not_installed_def
      filter_empty_conv)

text \<open>A name with a dot keeps it, while the names \<open>uv\<close> resolves have a dash there: such a package is
  listed as development and as not installed.\<close>

lemma dotted_name_is_split:
  "scope_bucket (runtime_closure (Some (''jaraco-classes==3.4.0'' @ [CHR 0x0A]))) (canonical ''jaraco.classes'')
     = ''development''"
  by code_simp

end
