(* ===== verification/Startup.thy ===== *)
theory Startup
  imports Service Bsp Phrasebank Redaction Rate_Limit "HOL-Library.AList" "HOL-Library.List_Lexorder"
    "HOL-Library.Char_ord"
begin

text \<open>
  Starting the service, \<^verbatim>\<open>mawjood/main.py\<close>: what the factory configures and what the lifespan builds,
  with the loading of the locale files of \<^verbatim>\<open>mawjood/core/conversation/phrasebank.py\<close> and the context
  that \<^verbatim>\<open>mawjood/observability/logging.py\<close> adds to every line. A TOML file is the value it parses to.
\<close>

subsection \<open>Loading the phrasebank\<close>

text \<open>\<open>Locale(...)\<close> from a parsed file; None is a \<open>KeyError\<close>, \<open>TypeError\<close> or \<open>AttributeError\<close>.\<close>

definition read_locale :: "(wire \<Rightarrow> string) \<Rightarrow> wire \<Rightarrow> phrase_locale option" where
  "read_locale repr toml = do {
     loc \<leftarrow> wire_item toml ''locale'';
     version \<leftarrow> wire_item toml ''policy_version'';
     ps \<leftarrow> wire_item toml ''phrases'';
     case ps of
       WDict d \<Rightarrow> Some \<lparr>locale_name = wire_str repr loc, policy_version = wire_str repr version,
           phrases = map (\<lambda>(k, v). (k, wire_str repr v)) d\<rparr>
     | _ \<Rightarrow> None}"

fun load_locales ::
    "(wire \<Rightarrow> string) \<Rightarrow> (string \<times> wire option) list \<Rightarrow> (string \<times> phrase_locale) list
       \<Rightarrow> (string \<times> phrase_locale) list option" where
  "load_locales repr [] ls = Some ls"
| "load_locales repr ((path, parsed) # files) ls = do {
     toml \<leftarrow> parsed;
     l \<leftarrow> read_locale repr toml;
     load_locales repr files (AList.update (locale_name l) l ls)}"

definition load_phrasebank ::
    "(wire \<Rightarrow> string) \<Rightarrow> (string \<times> wire option) list \<Rightarrow> string \<Rightarrow> phrasebank option" where
  "load_phrasebank repr files d = do {
     ls \<leftarrow> load_locales repr (sort_key fst files) [];
     if ls = [] then None else new_phrasebank ls d}"

definition locale_names :: "phrasebank \<Rightarrow> string list" where
  "locale_names pb = sort (map fst (locales pb))"

text \<open>\<open>get_phrasebank\<close>: what it returns, None for the exception of \<open>load\<close>, and what it keeps.\<close>

definition get_phrasebank ::
    "phrasebank option \<Rightarrow> phrasebank option \<Rightarrow> phrasebank option \<times> phrasebank option" where
  "get_phrasebank cached load = (case cached of Some pb \<Rightarrow> (Some pb, cached) | None \<Rightarrow> (load, load))"

text \<open>The copy of a process does not change under it, and a failed load is tried again.\<close>

lemma copy_is_loaded_once:
  "get_phrasebank cached load = (Some pb, kept) \<Longrightarrow> get_phrasebank kept later = (Some pb, kept)"
  "get_phrasebank cached load = (None, kept) \<Longrightarrow> get_phrasebank kept later = (later, later)"
  by (auto simp: get_phrasebank_def split: option.splits)

subsection \<open>Logging and monitoring\<close>

text \<open>\<open>event_dict.setdefault(key, value)\<close>\<close>

definition set_default :: "string \<Rightarrow> wire \<Rightarrow> (string \<times> wire) list \<Rightarrow> (string \<times> wire) list" where
  "set_default k v ev = (if map_of ev k = None then ev @ [(k, v)] else ev)"

definition service_context ::
    "string \<Rightarrow> string \<Rightarrow> string \<Rightarrow> (string \<times> wire) list \<Rightarrow> (string \<times> wire) list" where
  "service_context service env rgn ev =
     set_default ''region'' (WText rgn)
       (set_default ''env'' (WText env) (set_default ''service'' (WText service) ev))"

text \<open>The processors by name; those of structlog are what \<open>lib\<close> says they are.\<close>

datatype log_processor =
    Merge_Contextvars | Add_Log_Level | Add_Logger_Name | Time_Stamper | Stack_Info_Renderer
  | Service_Context string string string | Redact_Processor | Wrap_For_Formatter
  | Format_Exc_Info | Dict_Tracebacks | Remove_Processors_Meta | Console_Renderer bool | Json_Renderer

type_synonym log_event = "(string \<times> wire) list"

fun processed :: "(log_processor \<Rightarrow> log_event \<Rightarrow> log_event) \<Rightarrow> log_processor \<Rightarrow> log_event \<Rightarrow> log_event" where
  "processed lib (Service_Context service env rgn) ev = service_context service env rgn ev"
| "processed lib Redact_Processor ev = redact_processor ev"
| "processed lib p ev = lib p ev"

record logging_setup =
  lg_structlog :: "log_processor list"
  lg_foreign_pre_chain :: "log_processor list"
  lg_formatter :: "log_processor list"
  lg_level :: string
  lg_deferring :: "string list"

definition shared_chain :: "string \<Rightarrow> string \<Rightarrow> string \<Rightarrow> log_processor list" where
  "shared_chain service env rgn =
     [Merge_Contextvars, Add_Log_Level, Add_Logger_Name, Time_Stamper, Stack_Info_Renderer,
      Service_Context service env rgn, Redact_Processor]"

definition configure_logging ::
    "string \<Rightarrow> string \<Rightarrow> string \<Rightarrow> string \<Rightarrow> string \<Rightarrow> bool \<Rightarrow> logging_setup" where
  "configure_logging level log_format service env rgn isatty =
     (let shared = shared_chain service env rgn;
          (exc, renderer) = (if log_format = ''console'' then (Format_Exc_Info, Console_Renderer isatty)
            else (Dict_Tracebacks, Json_Renderer))
      in \<lparr>lg_structlog = shared @ [Wrap_For_Formatter], lg_foreign_pre_chain = shared,
          lg_formatter = [exc, Remove_Processors_Meta, renderer], lg_level = level,
          lg_deferring = [''uvicorn'', ''uvicorn.error'', ''uvicorn.access'', ''sqlalchemy.engine'']\<rparr>)"

text \<open>A line of the service's own loggers and one of a library's, up to the formatter.\<close>

definition own_line ::
    "(log_processor \<Rightarrow> log_event \<Rightarrow> log_event) \<Rightarrow> logging_setup \<Rightarrow> log_event \<Rightarrow> log_event" where
  "own_line lib lg ev = fold (processed lib) (butlast (lg_structlog lg)) ev"

definition foreign_line ::
    "(log_processor \<Rightarrow> log_event \<Rightarrow> log_event) \<Rightarrow> logging_setup \<Rightarrow> log_event \<Rightarrow> log_event" where
  "foreign_line lib lg ev = fold (processed lib) (lg_foreign_pre_chain lg) ev"

primrec environment_value :: "environment \<Rightarrow> string" where
  "environment_value LOCAL = ''local''"
| "environment_value DEV = ''dev''"
| "environment_value STAGING = ''staging''"
| "environment_value environment.PROD = ''prod''"

record sentry_options =
  so_dsn :: string
  so_environment :: string
  so_release :: string
  so_traces_sample_rate :: real
  so_send_default_pii :: bool
  so_before_send :: "(string \<times> wire) list \<Rightarrow> wire option"
  so_server_name :: string
  so_data_residency :: string

definition init_sentry :: "settings \<Rightarrow> string \<Rightarrow> string \<Rightarrow> sentry_options option" where
  "init_sentry st app_version data_residency =
     map_option (\<lambda>dsn. \<lparr>so_dsn = dsn, so_environment = environment_value (environment st),
       so_release = ''mawjood@'' @ app_version,
       so_traces_sample_rate = sentry_traces_sample_rate st, so_send_default_pii = False,
       so_before_send = scrub_event, so_server_name = region st,
       so_data_residency = data_residency\<rparr>) (sentry_dsn st)"

subsection \<open>The application\<close>

datatype api_router = Health_Router | Whatsapp_Router | Console_Router

record application =
  app_docs_url :: "string option"
  app_redoc_url :: "string option"
  app_openapi_url :: "string option"
  app_settings :: settings
  app_log :: logging_setup
  app_sentry :: "sentry_options option"
  app_request_header :: string
  app_routers :: "api_router list"

definition create_app ::
    "settings \<Rightarrow> string \<Rightarrow> string \<Rightarrow> string \<Rightarrow> string \<Rightarrow> string \<Rightarrow> bool \<Rightarrow> application" where
  "create_app st app_name app_version data_residency log_level log_format isatty =
     \<lparr>app_docs_url = fst (docs_urls st), app_redoc_url = None, app_openapi_url = snd (docs_urls st),
      app_settings = st,
      app_log = configure_logging log_level log_format app_name (environment_value (environment st))
        (region st) isatty,
      app_sentry = init_sentry st app_version data_residency,
      app_request_header = ''x-request-id'',
      app_routers = [Health_Router, Whatsapp_Router, Console_Router]\<rparr>"

record engine_options =
  en_url :: string
  en_echo :: bool
  en_pool_size :: int
  en_max_overflow :: int
  en_pre_ping :: bool
  en_timeout :: real

definition create_engine :: "settings \<Rightarrow> string \<Rightarrow> bool \<Rightarrow> engine_options" where
  "create_engine st url echo = \<lparr>en_url = url, en_echo = echo, en_pool_size = database_pool_size st,
     en_max_overflow = database_max_overflow st, en_pre_ping = True,
     en_timeout = database_connect_timeout_s st\<rparr>"

record app_state =
  as_engine :: engine_options
  as_bsp :: bsp
  as_rate_limiter :: memory_store
  as_phrasebank :: phrasebank

text \<open>The lifespan up to its \<open>yield\<close>: None is an exception, with which the service does not serve.
  The phrasebank is read before the database is touched.\<close>

definition lifespan ::
    "(string \<Rightarrow> json_read) \<Rightarrow> (wire \<Rightarrow> string) \<Rightarrow> settings \<Rightarrow> string \<Rightarrow> bool
       \<Rightarrow> (string \<times> wire option) list \<Rightarrow> bool \<Rightarrow> bool \<Rightarrow> bool \<Rightarrow> string \<Rightarrow> store
       \<Rightarrow> (app_state \<times> store) option" where
  "lifespan loads repr st url echo files run_migrations seed_tenant migrated tenant_title db = do {
     pb \<leftarrow> load_phrasebank repr files ''en'';
     db' \<leftarrow> prepare_database run_migrations seed_tenant migrated (default_tenant_slug st) tenant_title db;
     Some (\<lparr>as_engine = create_engine st url echo, as_bsp = build_bsp loads repr (bsp_provider st),
             as_rate_limiter = new_memory_store, as_phrasebank = pb\<rparr>, db')}"

subsection \<open>The context of a request\<close>

type_synonym log_context = "(string \<times> string) list"

datatype asgi_scope = Http_Scope "string option" string string | Other_Scope

text \<open>What the middleware passes on, logs, leaves of the context, and whether it raises: the application
  runs under the context of its own request, and nothing of it stays.\<close>

definition context_middleware ::
    "string \<Rightarrow> string \<Rightarrow> asgi_scope \<Rightarrow> (log_context \<Rightarrow> handled) \<Rightarrow> log_context
       \<Rightarrow> (nat \<times> (string \<times> string) list) option \<times> request_log option \<times> log_context \<times> bool" where
  "context_middleware header generated scope app ctx =
     (case scope of
        Other_Scope \<Rightarrow> let h = app ctx in (hd_start h, None, ctx, hd_raises h)
      | Http_Scope incoming meth path \<Rightarrow>
          let h = app [(''request_id'', request_id incoming generated), (''method'', meth), (''path'', path)];
              (start, line) = request_context header incoming generated h
          in (start, Some line, [], hd_raises h))"

subsection \<open>Facts\<close>

text \<open>Whatever the processors of the library do, the last that touches a line before the formatter is
  the redaction, for the lines of the service and of the libraries alike; the formatter renders the
  exception only after it.\<close>

theorem lines_are_redacted_last:
  "\<exists>ev'. own_line lib (configure_logging level fmt service env rgn tty) ev = redact_processor ev'"
  "own_line lib (configure_logging level fmt service env rgn tty) ev
     = foreign_line lib (configure_logging level fmt service env rgn tty) ev"
  by (auto simp: own_line_def foreign_line_def configure_logging_def shared_chain_def Let_def)

lemma exceptions_are_rendered_after_redaction:
  "Redact_Processor \<notin> set (lg_formatter (configure_logging level fmt service env rgn tty))
   \<and> hd (lg_formatter (configure_logging level fmt service env rgn tty)) \<in> {Format_Exc_Info, Dict_Tracebacks}"
  by (simp add: configure_logging_def Let_def)

text \<open>The id in the response is the id every line of the request carries, and the next request starts
  without it.\<close>

theorem request_is_traceable:
  assumes "context_middleware header generated (Http_Scope incoming meth path) app ctx = (start, line, ctx', raised)"
    and "start = Some (code, headers)"
  shows "\<exists>ctx1. map_of ctx1 ''request_id'' = Some (snd (last headers)) \<and> fst (last headers) = header
      \<and> hd_start (app ctx1) = Some (code, butlast headers)"
    and "ctx' = []" and "line = Some Request_Failed \<longleftrightarrow> raised"
proof -
  let ?c = "[(''request_id'', request_id incoming generated), (''method'', meth), (''path'', path)]"
  have e: "(start, line, ctx', raised) = (fst (request_context header incoming generated (app ?c)),
      Some (snd (request_context header incoming generated (app ?c))), [], hd_raises (app ?c))"
    using assms(1) by (simp add: context_middleware_def Let_def split_def)
  have "hd_start (app ?c) = Some (code, butlast headers) \<and> last headers = (header, request_id incoming generated)"
    using e assms(2) by (cases "hd_start (app ?c)") (auto simp: request_context_def)
  then show "\<exists>ctx1. map_of ctx1 ''request_id'' = Some (snd (last headers)) \<and> fst (last headers) = header
      \<and> hd_start (app ctx1) = Some (code, butlast headers)"
    by (intro exI [of _ ?c]) simp
  show "ctx' = []" using e by simp
  show "line = Some Request_Failed \<longleftrightarrow> raised" using e by (auto simp: request_context_def)
qed

text \<open>The file that ships, as TOML reads it, is the English copy.\<close>

definition en_toml :: wire where
  "en_toml = WDict [(''locale'', WText ''en''), (''policy_version'', WText (policy_version en)),
     (''phrases'', WDict (map (\<lambda>(k, s). (k, WText s)) en_phrases))]"

theorem shipped_copy_loads:
  "load_phrasebank repr [(''en.toml'', Some en_toml)] ''en'' = Some shipped"
proof -
  have "map (\<lambda>(k, v). (k, wire_str repr v)) (map (\<lambda>(k, s). (k, WText s)) ps) = ps" for ps
    by (induction ps) auto
  then have "read_locale repr en_toml = Some en"
    by (simp add: read_locale_def en_toml_def en_def)
  moreover have "locale_name en = ''en''" by (simp add: en_def)
  ultimately show ?thesis
    by (simp add: load_phrasebank_def new_phrasebank_def shipped_def)
qed

text \<open>A service that serves has its fallback locale and, if it is to seed it, its tenant.\<close>

lemma locales_loaded: "load_phrasebank repr files d = Some pb \<Longrightarrow>
    fallback_locale pb = d \<and> map_of (locales pb) d \<noteq> None"
  by (auto simp: load_phrasebank_def new_phrasebank_def bind_eq_Some_conv split: if_splits)

theorem started_service_can_speak:
  assumes "lifespan loads repr st url echo files run seed migrated title db = Some (s, db')"
  shows "map_of (locales (as_phrasebank s)) (fallback_locale (as_phrasebank s)) \<noteq> None"
    and "seed \<Longrightarrow> get_by_slug db' (default_tenant_slug st) \<noteq> None"
    and "run \<Longrightarrow> migrated"
proof -
  obtain pb where pb: "load_phrasebank repr files ''en'' = Some pb" "as_phrasebank s = pb"
    and db': "prepare_database run seed migrated (default_tenant_slug st) title db = Some db'"
    using assms by (auto simp: lifespan_def bind_eq_Some_conv)
  show "map_of (locales (as_phrasebank s)) (fallback_locale (as_phrasebank s)) \<noteq> None"
    using locales_loaded [OF pb(1)] pb(2) by auto
  show "run \<Longrightarrow> migrated" using db' by (auto simp: prepare_database_def split: if_splits)
  show "get_by_slug db' (default_tenant_slug st) \<noteq> None" if seed
    using db' that
    by (auto simp: prepare_database_def ensure_tenant_def get_by_slug_def new_id_def Let_def next_such_None
        split: if_splits option.splits dest: next_such_in)
qed

text \<open>A locale file without phrases is loaded all the same: that a phrase is missing is found when a
  consumer is to read it.\<close>

definition empty_toml :: wire where
  "empty_toml = WDict [(''locale'', WText ''en''), (''policy_version'', WText ''1''), (''phrases'', WDict [])]"

lemma incomplete_copy_loads:
  "\<exists>pb. load_phrasebank repr [(''en.toml'', Some empty_toml)] ''en'' = Some pb
     \<and> (\<forall>key vars. render pb key None vars = None)"
  by (simp add: load_phrasebank_def new_phrasebank_def read_locale_def empty_toml_def render_def raw_def
      locale_of_def or_else_def)

end
