(* ===== verification/Load_Report.thy ===== *)
theory Load_Report
  imports Load_Test Registry
begin

text \<open>
  The command line of the load test, \<^verbatim>\<open>tools/loadtest.py\<close>: the platforms that really wait, the printed
  report and the exit code. How Python prints a float in full is a parameter.
\<close>

subsection \<open>Platforms that wait\<close>

definition waiting_fakes :: "style \<Rightarrow> int \<Rightarrow> fake_world adapter list" where
  "waiting_fakes st delay_ms =
     [happy_fake st (nat (ms delay_ms)), empty_fake st (nat (ms delay_ms)),
      timeout_fake st ''fake_timeout'' (nat (ms delay_ms)) False, inconclusive_fake st 0 False,
      flaky_fake st (4 / 10), auth_fail_fake st (nat (ms delay_ms))]"

text \<open>None is the registry of the settings; the inner option is the \<open>DuplicateAdapter\<close> of \<open>register\<close>.\<close>

definition registry_with_upstream_latency :: "style \<Rightarrow> int \<Rightarrow> fake_world registry option option" where
  "registry_with_upstream_latency st delay_ms =
     (if delay_ms \<le> 0 then None
      else Some (register_all [] (zenoti_adapter # deliveroo_adapter # PARTNER_ADAPTERS @ waiting_fakes st delay_ms)))"

lemma waiting_slugs: "map slug (waiting_fakes st d) = map slug (default_fakes st)"
  by (simp add: waiting_fakes_def default_fakes_def fake_defs)

lemma waiting_fakes_registered: "a \<in> set (waiting_fakes st d) \<Longrightarrow> is_registered a"
  by (auto simp: waiting_fakes_def intro: is_registered.fake is_fake.intros)

text \<open>What is measured is what runs otherwise: with a latency the registry always builds, under the
  names a process outside production has, and every platform in it keeps the booking contract.\<close>

theorem waiting_registry_builds:
  assumes "0 < delay_ms"
  obtains reg where "registry_with_upstream_latency st delay_ms = Some (Some reg)" and "keyed reg"
    and "map fst reg = map slug (live_adapters @ default_fakes st)"
    and "list_all (\<lambda>p. is_registered (snd p)) reg"
proof -
  let ?as = "live_adapters @ waiting_fakes st delay_ms"
  have d: "distinct (map slug ?as)"
    unfolding map_append live_slugs waiting_slugs fake_default_slugs by simp
  then obtain reg where reg: "register_all [] ?as = Some reg"
    using register_all_distinct [of "[]" ?as] by auto
  have k: "keyed reg" using register_all_keyed [OF _ reg] by (simp add: keyed_def)
  have snds: "map snd reg = ?as" using register_all_adapters [OF reg] by simp
  have "map fst reg = map slug (map snd reg)" using k by (auto simp: keyed_def)
  then have "map fst reg = map slug (live_adapters @ default_fakes st)"
    using snds waiting_slugs by simp
  moreover have "is_registered (snd p)" if "p \<in> set reg" for p
  proof -
    have "snd p \<in> set ?as" using that snds [symmetric] by simp
    then show ?thesis by (auto intro: live_adapters_registered waiting_fakes_registered)
  qed
  then have "list_all (\<lambda>p. is_registered (snd p)) reg" by (simp add: list_all_iff)
  ultimately show thesis
    using that [OF _ k] reg assms by (simp add: registry_with_upstream_latency_def live_adapters_def)
qed

subsection \<open>What is printed\<close>

definition align_left :: "nat \<Rightarrow> string \<Rightarrow> string" where
  "align_left n s = s @ replicate (n - length s) CHR '' ''"

definition align_right :: "nat \<Rightarrow> string \<Rightarrow> string" where
  "align_right n s = replicate (n - length s) CHR '' '' @ s"

text \<open>\<open>{x:.4f}\<close> of a float that is not negative\<close>

definition fixed_4 :: "real \<Rightarrow> string" where
  "fixed_4 x = (let n = nat (round_half_even (x * 10000)); frac = show_nat (n mod 10000)
     in show_nat (n div 10000) @ ''.'' @ replicate (4 - length frac) CHR ''0'' @ frac)"

definition stats_line :: "string \<Rightarrow> load_stats \<Rightarrow> string" where
  "stats_line kind s = ''  '' @ align_left 12 kind @ '' '' @ align_right 5 (show_nat (lst_n s)) @ '' ''
     @ align_right 9 (fixed_4 (lst_p50 s)) @ '' '' @ align_right 9 (fixed_4 (lst_p95 s)) @ '' ''
     @ align_right 9 (fixed_4 (lst_p99 s)) @ '' '' @ align_right 9 (fixed_4 (lst_max s))"

definition verdict_line :: "load_stats \<Rightarrow> real \<Rightarrow> string" where
  "verdict_line overall budget =
     ''  median '' @ fixed_4 (lst_p50 overall) @ ''s against a '' @ format_g budget @ ''s budget ''
       @ em_dash @ '' '' @ (if lst_p50 overall < budget then ''PASS'' else ''MISS'')"

definition rule_line :: string where
  "rule_line = ''  '' @ replicate 12 CHR ''-'' @ '' '' @ replicate 5 CHR ''-''
     @ concat (replicate 4 ('' '' @ replicate 9 CHR ''-''))"

definition heading_line :: string where
  "heading_line = ''  '' @ align_left 12 ''turn'' @ '' '' @ align_right 5 ''n'' @ '' ''
     @ align_right 9 ''p50'' @ '' '' @ align_right 9 ''p95'' @ '' '' @ align_right 9 ''p99'' @ '' ''
     @ align_right 9 ''max''"

definition error_lines :: "load_report \<Rightarrow> string list" where
  "error_lines r =
     (let failed = load_errors r in
      if failed = [] then []
      else [[], ''  '' @ show_nat (length failed) @ '' failed turn(s):'']
        @ map (\<lambda>s. ''    '' @ sm_kind s @ '': '' @ (case sm_error s of None \<Rightarrow> ''None'' | Some e \<Rightarrow> e))
            (take 5 failed))"

definition figures :: "(real \<Rightarrow> string) \<Rightarrow> load_summary \<Rightarrow> string list" where
  "figures show_float d =
     [[],
      ''  scenario       '' @ su_scenario d @ ''   upstream '' @ show_int (su_upstream_ms d) @ ''ms'',
      ''  consumers      '' @ show_nat (su_consumers d) @ ''   concurrency '' @ show_nat (su_concurrency d),
      ''  turns          '' @ show_nat (su_turns d) @ ''   errors '' @ show_nat (su_errors d),
      ''  wall           '' @ show_float (su_wall_seconds d) @ ''s   ('' @ show_float (su_turns_per_second d)
        @ '' turns/s)'',
      [], heading_line, rule_line]
     @ map (\<lambda>(kind, s). stats_line kind s) (su_by_kind d) @ [stats_line ''ALL'' (su_overall d), []]"

definition render_report :: "(real \<Rightarrow> string) \<Rightarrow> load_report \<Rightarrow> real \<Rightarrow> string list" where
  "render_report show_float r budget =
     (let d = load_summary_of r
      in figures show_float d @ [verdict_line (su_overall d) budget] @ error_lines r @ [[]])"

datatype load_output = Load_Json load_summary | Load_Text "string list"

definition load_main :: "(real \<Rightarrow> string) \<Rightarrow> bool \<Rightarrow> real \<Rightarrow> load_report \<Rightarrow> load_output \<times> nat" where
  "load_main show_float json budget r =
     (if json then Load_Json (load_summary_of r) else Load_Text (render_report show_float r budget),
      load_verdict r budget)"

text \<open>The exit code and the printed verdict agree, and neither depends on the failed turns, which are
  listed after it.\<close>

theorem printed_verdict_is_the_exit_code:
  assumes "load_main show_float False budget r = (Load_Text ls, code)"
  shows "\<exists>xs said. ls = xs @ [said @ (if code = 0 then ''PASS'' else ''MISS'')] @ error_lines r @ [[]]"
    and "load_verdict (r\<lparr>lr_samples := load_ok r\<rparr>) budget = code"
proof -
  have ls: "ls = render_report show_float r budget" and code: "code = load_verdict r budget"
    using assms by (auto simp: load_main_def)
  obtain said where "verdict_line (su_overall (load_summary_of r)) budget
      = said @ (if code = 0 then ''PASS'' else ''MISS'')"
    by (auto simp: verdict_line_def code load_verdict_def)
  then show "\<exists>xs said. ls = xs @ [said @ (if code = 0 then ''PASS'' else ''MISS'')] @ error_lines r @ [[]]"
    unfolding ls render_report_def Let_def by metis
  have "load_ok (r\<lparr>lr_samples := load_ok r\<rparr>) = load_ok r" by (simp add: load_ok_def)
  then show "load_verdict (r\<lparr>lr_samples := load_ok r\<rparr>) budget = code"
    by (simp add: code load_verdict_def load_summary_of_def)
qed

end
