(* ===== verification/Blocklist.thy ===== *)
theory Blocklist
  imports Regex Pipeline_Samples
begin

text \<open>
  No empty shelves: the rule of \<^verbatim>\<open>mawjood/core/conversation/phrases/en.toml\<close> that no copy admits failure,
  with the patterns of \<^verbatim>\<open>tests/cascade/test_no_empty_shelves.py\<close> that say what that is, and that whatever
  a turn says to a consumer is that copy.
\<close>

subsection \<open>Failure language\<close>

text \<open>\<open>could ?n[o']?t\<close> and its like\<close>

definition negated :: rx where
  "negated = seqs [Opt (Lit '' ''), Lit ''n'', Opt (Any_Of [CHR ''o'', CHR 0x27]), Lit ''t'']"

definition ONE_PHRASE :: "string list" where
  "ONE_PHRASE = [''no availability'', ''not available'', ''unavailable'', ''nothing available'', ''no options'',
     ''no vendors'', ''no results'', ''none found'', ''nothing found'', ''no slots'', ''fully booked'']"

definition MORE_PHRASES :: "string list" where
  "MORE_PHRASES = [''sorry'', ''apologies'', ''apologise'', ''apologize'', ''unfortunately'', ''regret'',
     ''failed'', ''failure'', ''error'', ''went wrong'', ''something broke'', ''try again later'', ''try later'',
     ''is down'', ''are down'', ''offline'', ''out of service'', ''no luck'', ''empty'']"

definition BLOCKLIST :: "rx list" where
  "BLOCKLIST = map (\<lambda>s. words [s]) ONE_PHRASE
     @ [whole (seqs [Lit ''could'', negated, Lit '' find'']), whole (seqs [Lit ''can'', negated, Lit '' find'']),
        words [''unable to''],
        whole (seqs [Lit ''can'', negated, Lit '' help'']), whole (seqs [Lit ''can'', negated, Lit '' do'']),
        whole (seqs [Lit ''we do'', negated, Lit '' have''])]
     @ map (\<lambda>s. words [s]) MORE_PHRASES"

text \<open>The patterns a text violates, whatever its letter case.\<close>

definition violations :: "string \<Rightarrow> rx list" where
  "violations s = filter (\<lambda>p. Regex.found p (lower s)) BLOCKLIST"

text \<open>Every match of a pattern contains the needle of the pattern.\<close>

definition carries :: "rx \<Rightarrow> string \<Rightarrow> bool" where
  "carries p n \<longleftrightarrow> (\<forall>b w a. describes p b w a \<longrightarrow> (\<exists>u v. w = u @ n @ v))"

lemma carries_words: "carries (words [n]) n"
  unfolding carries_def words_def whole_def by (auto intro!: exI [of _ "[]"])

lemma carries_negated: "carries (whole (seqs [Lit x, negated, Lit y])) (CHR ''t'' # y)"
proof -
  have "\<exists>u v. w = u @ (CHR ''t'' # y) @ v" if d: "describes (whole (seqs [Lit x, negated, Lit y])) b w a" for b w a
  proof -
    obtain k where "w = x @ k @ y" and "\<exists>b a. describes negated b k a"
      using d by (auto simp: whole_def)
    moreover from this(2) obtain h where "k = h @ ''t''"
      by (auto simp: negated_def)
    ultimately show ?thesis by (intro exI [of _ "x @ h"] exI [of _ "[]"]) simp
  qed
  then show ?thesis by (simp add: carries_def)
qed

lemma found_carries:
  assumes "Regex.found p s" and "carries p n"
  shows "\<exists>u v. s = u @ n @ v"
proof -
  obtain u w a where s: "s = u @ w @ a" "describes p u w a" using assms(1) by (auto simp: found_iff)
  then obtain u' v' where "w = u' @ n @ v'" using assms(2) unfolding carries_def by blast
  then show ?thesis using s by (intro exI [of _ "u @ u'"] exI [of _ "v' @ a"]) simp
qed

text \<open>A search for all needles at once, by their first letter.\<close>

fun begins :: "string \<Rightarrow> string \<Rightarrow> bool" where
  "begins [] s = True"
| "begins (c # cs) [] = False"
| "begins (c # cs) (x # xs) = (if c = x then begins cs xs else False)"

lemma begins_append [simp]: "begins n (n @ v)"
  by (induction n) auto

fun free_of :: "(char \<Rightarrow> string list) \<Rightarrow> string \<Rightarrow> bool" where
  "free_of f [] = True"
| "free_of f (x # xs) = (if list_ex (\<lambda>n. begins n xs) (f x) then False else free_of f xs)"

lemma free_of_needle: "free_of f (u @ (c # n) @ v) \<Longrightarrow> n \<notin> set (f c)"
  by (induction u) (auto simp: list_ex_iff split: if_splits)

definition needle_tails :: "char \<Rightarrow> string list" where
  "needle_tails c =
     (if c = CHR ''n'' then [''o availability'', ''ot available'', ''othing available'', ''o options'', ''o vendors'',
        ''o results'', ''one found'', ''othing found'', ''o slots'', ''o luck'']
      else if c = CHR ''t'' then ['' find'', '' help'', '' do'', '' have'', ''ry again later'', ''ry later'']
      else if c = CHR ''u'' then [''navailable'', ''nable to'', ''nfortunately'']
      else if c = CHR ''f'' then [''ully booked'', ''ailed'', ''ailure'']
      else if c = CHR ''s'' then [''orry'', ''omething broke'']
      else if c = CHR ''a'' then [''pologies'', ''pologise'', ''pologize'', ''re down'']
      else if c = CHR ''r'' then [''egret'']
      else if c = CHR ''e'' then [''rror'', ''mpty'']
      else if c = CHR ''w'' then [''ent wrong'']
      else if c = CHR ''i'' then [''s down'']
      else if c = CHR ''o'' then [''ffline'', ''ut of service''] else [])"

lemma pattern_needle:
  assumes "p \<in> set BLOCKLIST"
  obtains c n where "carries p (c # n)" and "n \<in> set (needle_tails c)"
proof -
  have listed: "list_all (\<lambda>s. case s of [] \<Rightarrow> False | c # n \<Rightarrow> n \<in> set (needle_tails c)) (ONE_PHRASE @ MORE_PHRASES)"
    by code_simp
  have tails: "'' find'' \<in> set (needle_tails CHR ''t'')" "'' help'' \<in> set (needle_tails CHR ''t'')"
    "'' do'' \<in> set (needle_tails CHR ''t'')" "'' have'' \<in> set (needle_tails CHR ''t'')"
    "''nable to'' \<in> set (needle_tails CHR ''u'')"
    by code_simp+
  consider s where "s \<in> set (ONE_PHRASE @ MORE_PHRASES)" "p = words [s]"
    | x y where "p = whole (seqs [Lit x, negated, Lit y])" "y \<in> {'' find'', '' help'', '' do'', '' have''}"
    | "p = words [''unable to'']"
    using assms unfolding BLOCKLIST_def by auto
  then show thesis
  proof cases
    case (1 s)
    then obtain c n where "s = c # n" "n \<in> set (needle_tails c)"
      using listed unfolding list_all_iff by (fastforce split: list.splits)
    then show thesis using that carries_words 1(2) by blast
  next
    case (2 x y)
    then show thesis using that [OF _, of "CHR ''t''" y] carries_negated tails by blast
  next
    case 3
    then show thesis using that carries_words tails by blast
  qed
qed

lemma free_is_clean:
  assumes "free_of needle_tails (lower s)"
  shows "violations s = []"
proof -
  have "\<not> Regex.found p (lower s)" if "p \<in> set BLOCKLIST" for p
  proof
    assume f: "Regex.found p (lower s)"
    obtain c n where n: "carries p (c # n)" "n \<in> set (needle_tails c)" using pattern_needle [OF \<open>p \<in> set BLOCKLIST\<close>] .
    obtain u v where "lower s = u @ (c # n) @ v" using found_carries [OF f n(1)] by blast
    then show False using assms free_of_needle n(2) by metis
  qed
  then show ?thesis by (simp add: violations_def filter_empty_conv)
qed

text \<open>The scan is not vacuous: it finds what it is meant to find.\<close>

lemma scan_finds:
  "words [''sorry''] \<in> set (violations ''Sorry, nothing'')"
  "whole (seqs [Lit ''could'', negated, Lit '' find'']) \<in> set (violations ''couldn't find'')"
proof -
  have "Regex.found (words [''sorry'']) (lower ''Sorry, nothing'')" by code_simp
  then show "words [''sorry''] \<in> set (violations ''Sorry, nothing'')"
    by (simp add: violations_def BLOCKLIST_def MORE_PHRASES_def)
  have "Regex.found (whole (seqs [Lit ''could'', negated, Lit '' find''])) (lower ''couldn't find'')" by code_simp
  then show "whole (seqs [Lit ''could'', negated, Lit '' find'']) \<in> set (violations ''couldn't find'')"
    by (simp add: violations_def BLOCKLIST_def)
qed

subsection \<open>The copy\<close>

definition all_phrases :: "phrasebank \<Rightarrow> (string \<times> (string \<times> string) list) list" where
  "all_phrases pb = map (\<lambda>(l, d). (l, phrases d)) (locales pb)"

definition clean_copy :: "phrasebank \<Rightarrow> bool" where
  "clean_copy pb \<longleftrightarrow> list_all (\<lambda>(l, ps). list_all (\<lambda>(k, s). violations s = []) ps) (all_phrases pb)"

lemma english_is_free: "free_of needle_tails (lower (en_text k))"
  by (induction k) code_simp+

lemma shipped_copy_is_clean: "clean_copy shipped"
  by (auto simp: clean_copy_def all_phrases_def shipped_def en_def en_phrases_def list_all_iff
      intro: free_is_clean english_is_free)

text \<open>A text is an instance of a phrase of the copy, its own by the key, and the phrase is clean.\<close>

definition clean_instance :: "phrasebank \<Rightarrow> string \<Rightarrow> string \<Rightarrow> bool" where
  "clean_instance pb key txt \<longleftrightarrow>
     (\<exists>l ps template vars. (l, ps) \<in> set (all_phrases pb) \<and> (key, template) \<in> set ps
        \<and> violations template = [] \<and> substitute vars template = Substituted txt)"

text \<open>What is rendered is a phrase of the copy with its variables filled in.\<close>

lemma rendered_from_clean_copy:
  assumes "clean_copy pb" and "new_phrasebank ls d = Some pb" and "render pb key loc vars = Some m"
  shows "rm_key m = key" and "clean_instance pb key (rm_text m)"
proof -
  have fallback: "map_of (locales pb) (fallback_locale pb) \<noteq> None"
    using assms(2) by (auto simp: new_phrasebank_def split: if_splits)
  have there: "\<exists>nm. (nm, locale_of pb l) \<in> set (locales pb)" for l
    using fallback map_of_SomeD [of "locales pb"] by (auto simp: locale_of_def split: option.splits) blast+
  obtain l template where r: "raw pb key l = Some template" "substitute vars template = Substituted (rm_text m)"
    and k: "rm_key m = key"
    using assms(3) by (auto simp: render_def Let_def split: option.splits substitution.splits)
  show "rm_key m = key" by (rule k)
  have template: "(key, template) \<in> set (phrases (locale_of pb l))" using r(1) by (simp add: raw_def map_of_SomeD)
  obtain nm where nm: "(nm, locale_of pb l) \<in> set (locales pb)" using there by blast
  then have listed: "(nm, phrases (locale_of pb l)) \<in> set (all_phrases pb)" by (force simp: all_phrases_def)
  then have "violations template = []"
    using assms(1) template by (fastforce simp: clean_copy_def list_all_iff)
  then show "clean_instance pb key (rm_text m)" using listed template r(2) by (auto simp: clean_instance_def)
qed

lemma render_all_each:
  "render_all pb loc specs = Some ms' \<Longrightarrow> m \<in> set ms' \<Longrightarrow> \<exists>key vars. render pb key (Some loc) vars = Some m"
proof (induction pb loc specs arbitrary: ms' rule: render_all.induct)
  case (2 pb loc key vars ps)
  obtain m1 rest where r: "render pb (phrase_key_value key) (Some loc) vars = Some m1"
    "render_all pb loc ps = Some rest" "ms' = m1 # rest"
    using "2.prems"(1) by (auto split: option.splits)
  show ?case
  proof (cases "m = m1")
    case True
    with r(1) show ?thesis by blast
  next
    case False
    then show ?thesis using "2.IH" [OF r(2)] "2.prems"(2) r by simp
  qed
qed simp

text \<open>Whatever a turn says was rendered.\<close>

lemma said_is_rendered:
  assumes "new_turn pipe t inb corr audit db s = (Inr (r, db'), s')" and "y \<in> set (tr_outbound r)"
  shows "\<exists>key loc vars. render (pipe_phrasebank pipe) key loc vars = Some (om_message y)"
proof -
  let ?now = "wall pipe s"
  obtain x db1 where x: "open_turn t inb ?now audit db = (x, db1)" by (rule prod.exhaust)
  consider (muted) "bot_muted (tc_conversation x)"
    | (rated) db2 where "\<not> bot_muted (tc_conversation x)" "rating_captured x (in_text inb) ?now db1 = Some db2"
    | (answered) "\<not> bot_muted (tc_conversation x)" "rating_captured x (in_text inb) ?now db1 = None"
    by (cases "rating_captured x (in_text inb) ?now db1") auto
  then show ?thesis
  proof cases
    case muted
    then have "tr_outbound r = []"
      using assms(1) x by (auto simp: new_turn_def Let_def muted_turn_def silent_result_def)
    then show ?thesis using assms(2) by simp
  next
    case (rated db2)
    then have "thanks_turn pipe x (in_channel inb) ?now db2 = Some (r, db')"
      using assms(1) x by (auto simp: new_turn_def Let_def split: option.splits)
    then obtain m outs db3 where
      m: "render (pipe_phrasebank pipe) (phrase_key_value NOTIFY_SATISFACTION_THANKS)
         (Some (lead_locale (tc_lead x))) [] = Some m"
      and e: "emit (tc_tenant x) (conv_id (tc_conversation x)) (lead_id (tc_lead x)) (in_channel inb)
         (trail_turn_id (tc_audit x)) (tc_audit x) [m] db2 = (outs, db3)"
      and o: "tr_outbound r = outs"
      by (auto simp: thanks_turn_def Let_def split: option.splits prod.splits)
    have "map om_message outs = [m]" using emit_effect [OF e] by simp
    then show ?thesis using m o assms(2) by (metis imageE imageI list.set(1) list.set_map singletonD list.simps(15))
  next
    case answered
    then have "answer_turn pipe x inb corr db1 s = (Inr (r, db'), s')"
      using assms(1) x by (auto simp: new_turn_def Let_def)
    then obtain a db3 where ans: "answered pipe x inb corr db1 s a (tr_outbound r) db3 s'"
      by (rule answer_turnE)
    then obtain specs where "render_all (pipe_phrasebank pipe) (lead_locale (tc_lead x)) specs
        = Some (map om_message (tr_outbound r))"
      by (auto simp: answered_def Let_def dest: speak_effect(6))
    moreover have "om_message y \<in> set (map om_message (tr_outbound r))" using assms(2) by simp
    ultimately show ?thesis using render_all_each by metis
  qed
qed

lemma spoken_is_clean:
  assumes "clean_copy pb" and "new_phrasebank ls d = Some pb" and "render pb key loc vars = Some (om_message y)"
  shows "clean_instance pb (om_key y) (om_text y)"
  using rendered_from_clean_copy [OF assms] by (simp add: om_key_def om_text_def)

text \<open>What is delivered after a deferred search is such a phrase as well.\<close>

theorem nothing_delivered_later_admits_failure:
  assumes "deliver_deferred pb tslug cid lid ch k corr db s = (Inr (r, db'), s')" and "y \<in> set (tr_outbound r)"
    and "new_phrasebank ls d = Some pb" and "clean_copy pb"
  shows "clean_instance pb (om_key y) (om_text y)"
proof -
  obtain specs rendered tid turn audit db3 db4 outs where r: "render_all pb ''en'' specs = Some rendered"
    and e: "emit tid cid lid ch turn audit rendered db3 = (outs, db4)" and o: "tr_outbound r = outs"
    using assms(1)
    by (auto simp: deliver_deferred_def Let_def split: option.splits prod.splits)
  have "om_message y \<in> set rendered" using emit_effect [OF e] o assms(2) by (metis image_eqI set_map)
  then obtain key vars where "render pb key (Some ''en'') vars = Some (om_message y)"
    using render_all_each [OF r] by blast
  then show ?thesis by (rule spoken_is_clean [OF assms(4,3)])
qed

text \<open>C17. No empty shelves. The copy that ships contains no failure language, and with a copy that contains
  none whatever a turn says is a phrase of that copy, the one of its key, with its variables filled in.\<close>

theorem nothing_said_admits_failure:
  assumes "handle_inbound pipe inb corr db s = (Inr (r, db'), s')" and "y \<in> set (tr_outbound r)"
    and "new_phrasebank ls d = Some (pipe_phrasebank pipe)" and "clean_copy (pipe_phrasebank pipe)"
  shows "clean_copy shipped \<and> clean_instance (pipe_phrasebank pipe) (om_key y) (om_text y)"
  using assms(1)
proof (cases rule: handle_inboundE)
  case (duplicate t m)
  then have "tr_outbound r = []" by (auto simp: duplicate_turn_def silent_result_def)
  then show ?thesis using assms(2) by simp
next
  case (turn t)
  then show ?thesis
    using said_is_rendered [OF turn(3) assms(2)] spoken_is_clean [OF assms(4,3)] shipped_copy_is_clean
    by blast
qed

lemma sample_copy_is_clean: "clean_copy sample_copy"
proof -
  have "list_all (\<lambda>s. free_of needle_tails (lower s)) [''Hey'', ''Notice'', ''Booked at $venue'', ''One moment'']"
    by code_simp
  then show ?thesis by (auto simp: clean_copy_def all_phrases_def sample_copy_def intro: free_is_clean)
qed

theorem nothing_said_admits_failure_witness:
  "\<exists>y. om_key y = ''booking.confirmed'' \<and> clean_instance sample_copy ''booking.confirmed'' (om_text y)"
proof -
  obtain r db' s' where t: "handle_inbound sample_pipe (sample_inbound ''971'' ''yes'') ''c'' sample_db sample_run
      = (Inr (r, db'), s')" and k: "map om_key (tr_outbound r) = [''booking.confirmed'']"
    by (rule yes_handled)
  obtain y where y: "y \<in> set (tr_outbound r)" "om_key y = ''booking.confirmed''" using k by auto
  have pb: "new_phrasebank (locales sample_copy) ''en'' = Some (pipe_phrasebank sample_pipe)"
    by (simp add: new_phrasebank_def sample_copy_def sample_pipe_def)
  have c: "clean_copy (pipe_phrasebank sample_pipe)" using sample_copy_is_clean by (simp add: sample_pipe_def)
  show ?thesis using nothing_said_admits_failure [OF t y(1) pb c] y(2) by (auto simp: sample_pipe_def)
qed

end
