(* ===== verification/Spec2Isabelle.thy ===== *)
theory Spec2Isabelle
  imports Cascade_Props Engine_Props Scheduler_Props Pipeline_Props Handoff_Props Rate_Limit_Props
    System Alerting Replay Console_Routes Understudy_Props Places Service Declarations
    Operator_Tools Load_Test Responder Licences Startup
    Load_Report Blocklist
begin

text \<open>
  \<^bold>\<open>Mawjood\<close>: a concierge that books appointments over WhatsApp.

  A provider of WhatsApp messages posts what consumers write to a webhook
  (\<^verbatim>\<open>mawjood/api/webhooks/\<close>). The pipeline (\<^verbatim>\<open>mawjood/core/conversation/\<close>) opens or resumes a
  conversation, keeps track of consent, has a language model read the message, and lets a state
  machine decide what to say and what to do. What is to be done - search, book, hand over to a
  person - the engine does with a cascade over booking platforms in the order of the configuration
  (\<^verbatim>\<open>mawjood/core/routing/\<close>), each platform behind an adapter (\<^verbatim>\<open>mawjood/core/aggregators/\<close>).
  Around a booking there are scheduled messages (\<^verbatim>\<open>core/notifications/\<close>), around a consumer the
  duties of data protection (\<^verbatim>\<open>core/compliance/\<close>), around a conversation the operators
  (\<^verbatim>\<open>core/handoff/\<close>, \<^verbatim>\<open>api/console/\<close>), and everything is written to an audit trail
  (\<^verbatim>\<open>observability/\<close>). One PostgreSQL database (\<^verbatim>\<open>mawjood/db/\<close>) holds the state.

  \<^bold>\<open>How the state is modelled.\<close> The database is the record \<open>store\<close> of \<^verbatim>\<open>Models\<close>, one list of rows
  per table with the counters the database draws from and the time of the transaction; a handler is
  a function from a store to a store, and a handler that raises leaves the store of its last commit.
  The world outside - platforms, with bookings of their own - is a type parameter of the adapters;
  the fakes of the repository are its one concrete instance. The cascade threads a \<open>run\<close>: the clock,
  the fresh identifiers, the audit events, the alerts and the world. Errors are \<open>option\<close> or sum
  values, one branch per exception of the code. An instant is an \<open>int\<close> of microseconds, a text a
  list of bytes, a UUID a number; floating point numbers are reals. Concurrency is sequential: every
  database session is one step, and the order of sessions is arbitrary (\<^verbatim>\<open>System\<close>).

  \<^bold>\<open>The theories.\<close>
  \<^item> \<^verbatim>\<open>Prelude\<close>, \<^verbatim>\<open>Formatting\<close>, \<^verbatim>\<open>Wire\<close>, \<^verbatim>\<open>Regex\<close>: the parts of Python the sources use (truth values,
    strings, numbers and times as text, JSON values, the matcher of regular expressions), the
    \<open>named_theorems\<close> collections and the shared lemmas.
  \<^item> Booking. \<^verbatim>\<open>Enums\<close> (\<^verbatim>\<open>core/enums.py\<close>), \<^verbatim>\<open>Adapter\<close> (\<^verbatim>\<open>aggregators/base.py\<close>), \<^verbatim>\<open>Audit_Trail\<close>
    (\<^verbatim>\<open>observability/audit.py\<close>, the writers), \<^verbatim>\<open>Policy\<close>, \<^verbatim>\<open>Cascade\<close> (\<^verbatim>\<open>routing/cascade.py\<close>), \<^verbatim>\<open>Materiality\<close>,
    \<^verbatim>\<open>When\<close>, \<^verbatim>\<open>Router\<close> with \<^verbatim>\<open>services/secrets.py\<close>, \<^verbatim>\<open>Fakes\<close>, \<^verbatim>\<open>Registry\<close> with the stubs of the platforms
    whose interfaces are not public. \<^verbatim>\<open>Cascade_Contract\<close> states as locales what the cascade needs of a
    platform - reads change no world that matters, a create lands at most once, a lookup finds what
    landed - and proves from it the promises of the cascade; \<^verbatim>\<open>Fakes\<close> interprets the locales on the
    fakes. \<^verbatim>\<open>Cascade_Facts\<close> holds the frame and the refinement of \<open>search\<close>, \<^verbatim>\<open>Cascade_Props\<close> the properties,
    \<^verbatim>\<open>Samples\<close> the objects of the witnesses.
  \<^item> Conversation. \<^verbatim>\<open>Models\<close> and \<^verbatim>\<open>Repositories\<close> (\<^verbatim>\<open>db/models.py\<close>, \<^verbatim>\<open>db/repositories/\<close>), \<^verbatim>\<open>Consent\<close>,
    \<^verbatim>\<open>Phrasebank\<close> with the English copy, \<^verbatim>\<open>States\<close> (\<open>advance\<close>, the whole of \<^verbatim>\<open>states.py\<close>), \<^verbatim>\<open>Engine\<close>, \<^verbatim>\<open>Messages\<close>,
    \<^verbatim>\<open>Understanding\<close> (\<^verbatim>\<open>nlu.py\<close>), \<^verbatim>\<open>Understudy\<close> (\<^verbatim>\<open>services/llm.py\<close>), \<^verbatim>\<open>Places\<close>, \<^verbatim>\<open>Attribution\<close>, \<^verbatim>\<open>Satisfaction\<close>,
    \<^verbatim>\<open>Pipeline\<close> (\<open>handle_inbound\<close>, \<open>deliver_deferred\<close>), \<^verbatim>\<open>Responder\<close> (the predecessor of the machine). What
    each step of a turn leaves alone is in \<^verbatim>\<open>Pipeline_Facts\<close>; \<^verbatim>\<open>Pipeline_Consent\<close>, \<^verbatim>\<open>Pipeline_Props\<close>,
    \<^verbatim>\<open>States_Props\<close>, \<^verbatim>\<open>Engine_Props\<close> and \<^verbatim>\<open>Understudy_Props\<close> hold the properties, with \<^verbatim>\<open>Pipeline_Samples\<close> for
    their instances. \<^verbatim>\<open>Repositories\<close> ends with the base class over any table, \<^verbatim>\<open>Understudy_Props\<close> with the
    schema a language model answers in. \<^verbatim>\<open>Blocklist\<close> holds the failure language of
    \<^verbatim>\<open>tests/cascade/test_no_empty_shelves.py\<close> and that no turn speaks it.
  \<^item> Notifications. \<^verbatim>\<open>Notify_Policy\<close> (\<^verbatim>\<open>policy.py\<close>, \<^verbatim>\<open>templates.py\<close>), \<^verbatim>\<open>Scheduler\<close>, \<^verbatim>\<open>Scheduler_Props\<close>.
  \<^item> The edge. \<^verbatim>\<open>Config\<close>, \<^verbatim>\<open>Bsp\<close> (\<^verbatim>\<open>services/bsp/\<close>), \<^verbatim>\<open>Rate_Limit\<close>, \<^verbatim>\<open>Webhook\<close>, \<^verbatim>\<open>Service\<close> (probes, Sentry,
    request context), \<^verbatim>\<open>Startup\<close> (\<^verbatim>\<open>main.py\<close>, the log chain), \<^verbatim>\<open>Redaction\<close> and \<^verbatim>\<open>Alerting\<close> (\<^verbatim>\<open>observability/\<close>),
    with \<^verbatim>\<open>Webhook_Props\<close> and \<^verbatim>\<open>Rate_Limit_Props\<close>.
  \<^item> Operators. \<^verbatim>\<open>Handoff\<close>, \<^verbatim>\<open>Replay\<close> (reading the trail back), \<^verbatim>\<open>Console_Auth\<close>, \<^verbatim>\<open>Queries\<close>,
    \<^verbatim>\<open>Console_Routes\<close>, with \<^verbatim>\<open>Handoff_Props\<close> and \<^verbatim>\<open>Queries_Props\<close>; the command-line tools of \<^verbatim>\<open>tools/\<close> in
    \<^verbatim>\<open>Operator_Tools\<close>, \<^verbatim>\<open>Chat_Sim\<close>, \<^verbatim>\<open>Seeding\<close>, \<^verbatim>\<open>Load_Test\<close>, \<^verbatim>\<open>Load_Report\<close> and \<^verbatim>\<open>Licences\<close>.
  \<^item> Data protection. \<^verbatim>\<open>Erasure\<close> (\<^verbatim>\<open>erasure.py\<close>, \<^verbatim>\<open>retention.py\<close>), \<^verbatim>\<open>Erasure_Props\<close>, \<^verbatim>\<open>Compliance_Props\<close>;
    \<^verbatim>\<open>Cascade_Delete\<close> compares them with a delete that leaves the work to the foreign keys.
  \<^item> The schema. \<^verbatim>\<open>Migrations\<close> transcribes the three revisions of \<^verbatim>\<open>db/migrations/versions/\<close> and what
    PostgreSQL makes of an operation, \<^verbatim>\<open>Migrations_Props\<close> proves that operations are undone,
    \<^verbatim>\<open>Migrations_History\<close> evaluates the history, \<^verbatim>\<open>Declarations\<close> transcribes the model classes.
  \<^item> The whole. \<^verbatim>\<open>Integrity\<close> states the constraints of the schema as a predicate on the store;
    \<^verbatim>\<open>Integrity_Turn\<close>, \<^verbatim>\<open>Integrity_Pass\<close> and \<^verbatim>\<open>Tool_Props\<close> prove that every session keeps it; \<^verbatim>\<open>System\<close> is the
    step relation over all of them.

  \<^bold>\<open>Interfaces.\<close> What one part relies on in another is a locale, interpreted on the model: the platforms
  of the cascade (\<open>world_invariant\<close>, \<open>booking_contract\<close>, on every fake and every registered adapter),
  the buckets of the rate limiter (\<open>token_store\<close>, on the store in memory), the tables of the
  repositories (\<open>tenant_table\<close>, on those of the six repositories), the language model (\<open>llm_contract\<close>, on
  the deterministic reader) and the messaging provider (\<open>bsp_contract\<close>, on the providers that can be
  configured).

  \<^bold>\<open>What is shown.\<close> The theorems that stand for properties of the program carry a number, C1 to C40.
  \<^item> C1 - C8, C11, C12: a search ends within its deadline with an answer, a handoff or a
    continuation, asks in the configured order and leaves a trail that reconstructs it; an attempt to
    book leaves at most one booking anywhere, and one whose outcome is unknown is handed to a person
    with an alert, never repeated elsewhere.
  \<^item> C9, C10, C13 - C16: nothing is booked without an explicit yes to a stored offer and a recorded
    consent; every turn says something or acts.
  \<^item> C17: no empty shelves - what a consumer reads is copy, and the copy admits no failure.
  \<^item> C18 - C23: turns and passes as transactions on the store - bookings only for consenting leads,
    redelivery is harmless, the transcript is complete, schedules are written once and sent once.
  \<^item> C24: the store stays well-formed whatever sessions follow one another.
  \<^item> C25 - C27, C39: an erasure and a retention sweep delete exactly what they should, and the
    list of tables they know is that of the schema.
  \<^item> C28 - C36: what a request, an operator, a page of the console and a log line can and cannot do.
  \<^item> C37, C38, C40: revisions and models agree, downgrades undo upgrades, the load test ends.

  The other theorems serve these or record a behaviour of the code that its comments or its purpose
  do not suggest, with a name that says it (for example \<open>us_regions_accepted\<close>,
  \<open>failed_run_passes\<close>, \<open>incomplete_copy_loads\<close>).

  \<^bold>\<open>Bounds.\<close> Loops over a list are structural, the scanners of patterns terminate by the length of the
  text, the failover of a booking by the candidates that are left, the load test by the turns to come.
  The one bound is that of \<open>scale_exponent\<close> (\<^verbatim>\<open>Formatting\<close>), which finds the decimal exponent of a
  number to be printed: 400 steps are enough for every double, whose exponent lies between -324
  and 308 (\<open>scale_exponent_covers\<close>). Python's integers are unbounded and so are these; the widths that matter are
  those of columns and of the schema, where they are part of the model of the migrations.

  \<^bold>\<open>Parameters.\<close> What is not in the repository is an argument: HMAC and SHA-256, JSON and TOML
  decoding, the answer of the language model and of the messaging provider, the time zone database
  (instantiated with the fixed offset of Dubai), the clock, fresh identifiers, the drawing of random
  numbers, the log processors of structlog and Sentry. A theorem that relies on one says so in its hypotheses.

  \<^bold>\<open>Not modelled.\<close> The inside of FastAPI, structlog and SQLAlchemy, and Alembic's environment;
  the templates that print the pages of the console and the colours and layout of the terminal; the
  text of prompts and of documentation; two sessions at the same moment (their conflicts are resolved
  by the constraints that \<^verbatim>\<open>Migrations\<close> and \<^verbatim>\<open>Integrity\<close> state). Case folding and character classes are
  those of ASCII.
\<close>

end
